(* ===== verification/Prelude.thy ===== *)
theory Prelude
  imports Complex_Main
begin

text \<open>
  Shared material of the development: the collections of rewrite rules the component
  theories fill and use, the type names they share, and general facts on lists, folds,
  options and association lists that are about no particular component.
\<close>

section \<open>Collections and type names\<close>

named_theorems num_simps \<open>evaluation of JavaScript number operations on finite arguments\<close>
named_theorems num_intros \<open>sign and range rules for JavaScript numbers\<close>
named_theorems js_simps \<open>evaluation of JavaScript value operations\<close>
named_theorems table_simps \<open>effect of the SQL statements on the modelled tables\<close>

type_synonym millis = int
type_synonym ident = string

section \<open>Insertion-ordered sets\<close>

text \<open>
  \<open>dedupe\<close> is \<open>Array.from(new Set(xs))\<close>: the first occurrence of each element stays, in order.
\<close>

fun dedupe_from :: "'a list \<Rightarrow> 'a list \<Rightarrow> 'a list" where
  "dedupe_from seen [] = []"
| "dedupe_from seen (x # xs) =
     (if x \<in> set seen then dedupe_from seen xs else x # dedupe_from (x # seen) xs)"

definition dedupe :: "'a list \<Rightarrow> 'a list" where
  "dedupe xs = dedupe_from [] xs"

lemma set_dedupe_from: "set (dedupe_from seen xs) = set xs - set seen"
  by (induction seen xs rule: dedupe_from.induct) auto

lemma distinct_dedupe_from: "distinct (dedupe_from seen xs)"
  by (induction seen xs rule: dedupe_from.induct) (auto simp: set_dedupe_from)

lemma set_dedupe [simp]: "set (dedupe xs) = set xs"
  by (simp add: dedupe_def set_dedupe_from)

lemma distinct_dedupe [simp]: "distinct (dedupe xs)"
  by (simp add: dedupe_def distinct_dedupe_from)

lemma dedupe_from_distinct:
  "distinct xs \<Longrightarrow> set xs \<inter> set seen = {} \<Longrightarrow> dedupe_from seen xs = xs"
  by (induction seen xs rule: dedupe_from.induct) auto

lemma dedupe_idem [simp]: "dedupe (dedupe xs) = dedupe xs"
  using dedupe_from_distinct [of "dedupe xs" "[]"] by (simp add: dedupe_def distinct_dedupe_from)

section \<open>Folds with a side output\<close>

text \<open>
  Many loops of the code thread an accumulator record through a list, and in each step push to
  one of its fields. An invariant of the step is an invariant of the loop.
\<close>

lemma foldl_invariant:
  assumes "P a" and "\<And>a x. P a \<Longrightarrow> x \<in> set xs \<Longrightarrow> P (f a x)"
  shows "P (foldl f a xs)"
  using assms by (induction xs arbitrary: a) auto

lemma foldl_frame:
  assumes "\<And>a x. g (f a x) = g a"
  shows "g (foldl f a xs) = g a"
  by (induction xs arbitrary: a) (simp_all add: assms)

lemma foldl_add_map: "foldl f a (map g xs) = foldl (\<lambda>s x. f s (g x)) a xs"
  by (induction xs arbitrary: a) simp_all

section \<open>Error results\<close>

text \<open>
  A computation that may throw is a sum, \<open>Inl\<close> carrying what is thrown. \<open>traverse\<close> is a
  \<open>map\<close> whose function may throw: the first error wins.
\<close>

fun bind_result :: "'e + 'a \<Rightarrow> ('a \<Rightarrow> 'e + 'b) \<Rightarrow> 'e + 'b" where
  "bind_result (Inl e) f = Inl e"
| "bind_result (Inr a) f = f a"

fun traverse :: "('a \<Rightarrow> 'e + 'b) \<Rightarrow> 'a list \<Rightarrow> 'e + 'b list" where
  "traverse f [] = Inr []"
| "traverse f (x # xs) =
     bind_result (f x) (\<lambda>y. bind_result (traverse f xs) (\<lambda>ys. Inr (y # ys)))"

lemma bind_result_Inr [simp]:
  "bind_result r f = Inr b \<longleftrightarrow> (\<exists>a. r = Inr a \<and> f a = Inr b)"
  by (cases r) auto

lemma bind_result_Inl:
  "bind_result r f = Inl e \<longleftrightarrow> r = Inl e \<or> (\<exists>a. r = Inr a \<and> f a = Inl e)"
  by (cases r) auto

lemma traverse_Inr_iff:
  "traverse f xs = Inr ys \<longleftrightarrow> list_all2 (\<lambda>x y. f x = Inr y) xs ys"
  by (induction xs arbitrary: ys) (auto simp: list_all2_Cons1)

lemma traverse_length: "traverse f xs = Inr ys \<Longrightarrow> length ys = length xs"
  by (simp add: traverse_Inr_iff list_all2_lengthD)

lemma traverse_fixed: "(\<And>x. x \<in> set xs \<Longrightarrow> f x = Inr x) \<Longrightarrow> traverse f xs = Inr xs"
  by (induction xs) auto

lemma traverse_idem:
  assumes "traverse f xs = Inr ys" and "\<And>x y. f x = Inr y \<Longrightarrow> f y = Inr y"
  shows "traverse f ys = Inr ys"
  using assms by (auto intro!: traverse_fixed simp: traverse_Inr_iff in_set_conv_nth list_all2_conv_all_nth)

text \<open>A loop whose body may throw, threading a state through a list.\<close>

fun fold_result :: "('s \<Rightarrow> 'a \<Rightarrow> 'e + 's) \<Rightarrow> 's \<Rightarrow> 'a list \<Rightarrow> 'e + 's" where
  "fold_result f s [] = Inr s"
| "fold_result f s (x # xs) = bind_result (f s x) (\<lambda>s'. fold_result f s' xs)"

lemma fold_result_invariant:
  assumes "fold_result f s xs = Inr s'" and "P s"
    and "\<And>s x s'. P s \<Longrightarrow> x \<in> set xs \<Longrightarrow> f s x = Inr s' \<Longrightarrow> P s'"
  shows "P s'"
  using assms
proof (induction xs arbitrary: s)
  case (Cons x xs)
  from Cons.prems(1) obtain s1 where s1: "f s x = Inr s1" and rest: "fold_result f s1 xs = Inr s'"
    by auto
  from s1 have "P s1" by (intro Cons.prems(3) [OF Cons.prems(2)]) simp_all
  then show ?case
    by (rule Cons.IH [OF rest]) (rule Cons.prems(3), assumption, rule list.set_intros(2), assumption, assumption)
qed simp

lemma fold_result_total:
  assumes "P s" and "\<And>s x. P s \<Longrightarrow> x \<in> set xs \<Longrightarrow> \<exists>s'. f s x = Inr s' \<and> P s'"
  shows "\<exists>s'. fold_result f s xs = Inr s' \<and> P s'"
  using assms
proof (induction xs arbitrary: s)
  case (Cons x xs)
  obtain s' where s': "f s x = Inr s'" "P s'"
    using Cons.prems(2) [OF Cons.prems(1), of x] by auto
  have "\<exists>s''. fold_result f s' xs = Inr s'' \<and> P s''"
    using s'(2) by (rule Cons.IH) (simp add: Cons.prems(2))
  with s' show ?case by simp
qed simp

section \<open>Association lists as property tables\<close>

fun alist_put :: "'k \<Rightarrow> 'v \<Rightarrow> ('k \<times> 'v) list \<Rightarrow> ('k \<times> 'v) list" where
  "alist_put k v [] = [(k, v)]"
| "alist_put k v ((k', v') # ps) =
     (if k = k' then (k, v) # ps else (k', v') # alist_put k v ps)"

lemma map_of_alist_put [simp]: "map_of (alist_put k v ps) = (map_of ps)(k \<mapsto> v)"
  by (induction k v ps rule: alist_put.induct) (auto simp: fun_eq_iff)

lemma alist_put_same: "map_of ps k = Some v \<Longrightarrow> alist_put k v ps = ps"
  by (induction k v ps rule: alist_put.induct) (auto split: if_splits)

lemma keys_alist_put [simp]: "fst ` set (alist_put k v ps) = insert k (fst ` set ps)"
  by (induction k v ps rule: alist_put.induct) auto

text \<open>\<open>{ ...ps, k1: v1, ..., kn: vn }\<close>\<close>

fun put_all :: "('k \<times> 'v) list \<Rightarrow> ('k \<times> 'v) list \<Rightarrow> ('k \<times> 'v) list" where
  "put_all [] ps = ps"
| "put_all ((k, v) # kvs) ps = put_all kvs (alist_put k v ps)"

lemma put_all_same:
  "(\<And>k v. (k, v) \<in> set kvs \<Longrightarrow> map_of ps k = Some v) \<Longrightarrow> put_all kvs ps = ps"
  by (induction kvs ps rule: put_all.induct) (simp_all add: alist_put_same)

lemma distinct_alist_put:
  "distinct (map fst ps) \<Longrightarrow> distinct (map fst (alist_put k v ps))"
  by (induction k v ps rule: alist_put.induct) (auto simp: image_iff dest: keys_alist_put [THEN equalityD1, THEN subsetD])

end
