(* ===== verification/Js_Rounding.thy ===== *)
theory Js_Rounding
  imports Prelude "HOL-Library.Log_Nat"
begin

text \<open>
  Rounding of a rational to the nearest IEEE-754 binary64 value, ties to even, with gradual
  underflow, as an executable function \<open>fl64\<close>, and its laws. The laws the numerical
  components rely on are the locale \<open>rounding\<close>, which \<open>fl64\<close> interprets.
\<close>

section \<open>Rounding to binary64\<close>

definition pow2 :: "int \<Rightarrow> rat" where
  "pow2 k = 2 powi k"

definition floorlog2 :: "rat \<Rightarrow> int" where
  "floorlog2 x =
     (let (p, q) = quotient_of x; k = bitlen p - bitlen q
      in if pow2 k \<le> x then k else k - 1)"

definition round_half_even :: "rat \<Rightarrow> int" where
  "round_half_even x =
     (let n = \<lfloor>x\<rfloor>; d = x - of_int n
      in if d < 1 / 2 then n else if d > 1 / 2 then n + 1 else if even n then n else n + 1)"

definition ulp_exp :: "rat \<Rightarrow> int" where
  "ulp_exp x = max (- 1074) (floorlog2 x - 52)"

definition fl_pos :: "rat \<Rightarrow> rat" where
  "fl_pos x = (let e = ulp_exp x in of_int (round_half_even (x / pow2 e)) * pow2 e)"

definition fl64 :: "rat \<Rightarrow> rat" where
  "fl64 x = (if x = 0 then 0 else if 0 < x then fl_pos x else - fl_pos (- x))"

subsection \<open>Powers of two\<close>

lemma pow2_pos [simp]: "0 < pow2 k" "pow2 k \<noteq> 0" "0 \<le> pow2 k"
  by (simp_all add: pow2_def)

lemma pow2_add: "pow2 (a + b) = pow2 a * pow2 b"
  by (simp add: pow2_def power_int_add)

lemma pow2_mono: "a \<le> b \<Longrightarrow> pow2 a \<le> pow2 b"
  by (simp add: pow2_def power_int_increasing)

lemma pow2_less_iff [simp]: "pow2 a < pow2 b \<longleftrightarrow> a < b"
  by (metis linorder_not_less order_antisym_conv order_less_imp_le pow2_mono pow2_def
      power_int_strict_increasing one_less_numeral_iff semiring_norm(76))

lemma pow2_nat: "0 \<le> k \<Longrightarrow> pow2 k = of_int (2 ^ nat k)"
  by (simp add: pow2_def power_int_def)

lemma pow2_div_int:
  assumes "b \<le> a"
  obtains n where "pow2 a / pow2 b = of_int n"
proof -
  have "pow2 a = pow2 (a - b) * pow2 b" by (simp add: pow2_add [symmetric])
  with assms that show thesis by (auto simp: pow2_nat [of "a - b"] simp del: of_int_power)
qed

lemma bitlen_ge_1: "0 < p \<Longrightarrow> 1 \<le> bitlen p"
  using bitlen_nonneg [of p] bitlen_eq_zero_iff [of p] by linarith

lemma floorlog2_bounds:
  assumes "0 < x"
  shows "pow2 (floorlog2 x) \<le> x" and "x < pow2 (floorlog2 x + 1)"
proof -
  obtain p q where pq: "quotient_of x = (p, q)" by force
  then have q: "0 < q" and x: "x = of_int p / of_int q"
    by (auto dest: quotient_of_denom_pos quotient_of_div)
  from x q assms have p: "0 < p" by (simp add: zero_less_divide_iff)
  let ?k = "bitlen p - bitlen q"
  have P: "pow2 (bitlen p - 1) \<le> of_int p" "of_int p < pow2 (bitlen p)"
    using bitlen_bounds [OF p] bitlen_ge_1 [OF p] by (simp_all add: pow2_nat del: of_int_power)
  have Q: "pow2 (bitlen q - 1) \<le> of_int q" "of_int q < pow2 (bitlen q)"
    using bitlen_bounds [OF q] bitlen_ge_1 [OF q] by (simp_all add: pow2_nat del: of_int_power)
  have qq: "(0::rat) < of_int q" using q by simp
  have "x * of_int q < pow2 (bitlen p)" using P x q by simp
  also have "\<dots> = pow2 (?k + 1) * pow2 (bitlen q - 1)" by (simp add: pow2_add [symmetric])
  also have "\<dots> \<le> pow2 (?k + 1) * of_int q" using Q by simp
  finally have up: "x < pow2 (?k + 1)" using qq by simp
  have "pow2 (?k - 1) * of_int q < pow2 (?k - 1) * pow2 (bitlen q)" using Q by simp
  also have "\<dots> = pow2 (bitlen p - 1)" by (simp add: pow2_add [symmetric])
  also have "\<dots> \<le> x * of_int q" using P x q by simp
  finally have lo: "pow2 (?k - 1) < x" using qq by simp
  show "pow2 (floorlog2 x) \<le> x" and "x < pow2 (floorlog2 x + 1)"
    using up lo by (auto simp: floorlog2_def pq Let_def)
qed

lemma floorlog2_mono:
  assumes "0 < x" and "x \<le> y"
  shows "floorlog2 x \<le> floorlog2 y"
proof -
  have "pow2 (floorlog2 x) < pow2 (floorlog2 y + 1)"
    using floorlog2_bounds [of x] floorlog2_bounds [of y] assms by linarith
  then show ?thesis by simp
qed

subsection \<open>Rounding to an integer\<close>

lemma round_half_even_of_int [simp]: "round_half_even (of_int n) = n"
  by (simp add: round_half_even_def)

lemma round_half_even_bounds: "\<lfloor>x\<rfloor> \<le> round_half_even x" "round_half_even x \<le> \<lfloor>x\<rfloor> + 1"
  by (simp_all add: round_half_even_def Let_def)

lemma round_half_even_mono:
  assumes "x \<le> y"
  shows "round_half_even x \<le> round_half_even y"
proof (cases "\<lfloor>x\<rfloor> = \<lfloor>y\<rfloor>")
  case True
  then show ?thesis using assms by (auto simp: round_half_even_def Let_def)
next
  case False
  then have "\<lfloor>x\<rfloor> + 1 \<le> \<lfloor>y\<rfloor>" using assms floor_mono [of x y] by linarith
  then show ?thesis using round_half_even_bounds [of x] round_half_even_bounds [of y] by linarith
qed

lemma round_half_even_le: "x \<le> of_int n \<Longrightarrow> round_half_even x \<le> n"
  using round_half_even_mono by (metis round_half_even_of_int)

lemma round_half_even_ge: "of_int n \<le> x \<Longrightarrow> n \<le> round_half_even x"
  using round_half_even_mono by (metis round_half_even_of_int)

subsection \<open>The laws of the rounding function\<close>

lemma fl_pos_nonneg: "0 < x \<Longrightarrow> 0 \<le> fl_pos x"
  using round_half_even_ge [of 0 "x / pow2 (ulp_exp x)"] by (simp add: fl_pos_def Let_def)

lemma fl_pos_le_pow2:
  assumes "0 < x" "x \<le> pow2 k" "ulp_exp x \<le> k"
  shows "fl_pos x \<le> pow2 k"
proof -
  obtain n where n: "pow2 k / pow2 (ulp_exp x) = of_int n" using pow2_div_int assms(3) by blast
  have "x / pow2 (ulp_exp x) \<le> of_int n"
    using assms(2) by (simp add: n [symmetric] divide_right_mono)
  from round_half_even_le [OF this]
  have "of_int (round_half_even (x / pow2 (ulp_exp x))) * pow2 (ulp_exp x)
        \<le> of_int n * pow2 (ulp_exp x)"
    by simp
  then show ?thesis by (simp add: fl_pos_def Let_def n [symmetric])
qed

lemma fl_pos_ge_pow2:
  assumes "0 < x" "pow2 k \<le> x" "ulp_exp x \<le> k"
  shows "pow2 k \<le> fl_pos x"
proof -
  obtain n where n: "pow2 k / pow2 (ulp_exp x) = of_int n" using pow2_div_int assms(3) by blast
  have "of_int n \<le> x / pow2 (ulp_exp x)"
    using assms(2) by (simp add: n [symmetric] divide_right_mono)
  from round_half_even_ge [OF this]
  have "of_int n * pow2 (ulp_exp x)
        \<le> of_int (round_half_even (x / pow2 (ulp_exp x))) * pow2 (ulp_exp x)"
    by simp
  then show ?thesis by (simp add: fl_pos_def Let_def n [symmetric])
qed

lemma fl_pos_mono:
  assumes "0 < x" "x \<le> y"
  shows "fl_pos x \<le> fl_pos y"
proof (cases "ulp_exp x = ulp_exp y")
  case True
  have "round_half_even (x / pow2 (ulp_exp y)) \<le> round_half_even (y / pow2 (ulp_exp y))"
    using assms by (intro round_half_even_mono) (simp add: divide_right_mono)
  then show ?thesis by (simp add: fl_pos_def Let_def True)
next
  case False
  define k where "k = floorlog2 y"
  have "floorlog2 x \<le> k" using assms by (simp add: k_def floorlog2_mono)
  with False have lt: "ulp_exp x < ulp_exp y" by (auto simp: ulp_exp_def k_def)
  then have k: "floorlog2 x < k" "ulp_exp y = k - 52" by (auto simp: ulp_exp_def k_def)
  have y: "pow2 k \<le> y" using floorlog2_bounds [of y] assms by (simp add: k_def)
  have "x < pow2 (floorlog2 x + 1)" using floorlog2_bounds [of x] assms by simp
  also have "\<dots> \<le> pow2 k" using k by (intro pow2_mono) simp
  finally have "fl_pos x \<le> pow2 k" using assms lt k by (intro fl_pos_le_pow2) auto
  also have "\<dots> \<le> fl_pos y" using assms y k by (intro fl_pos_ge_pow2) auto
  finally show ?thesis .
qed

lemma fl64_mono:
  assumes "x \<le> y"
  shows "fl64 x \<le> fl64 y"
proof -
  consider "0 < x" | "y < 0" | "x \<le> 0" "0 \<le> y" by linarith
  then show ?thesis
    by cases (use assms fl_pos_mono [of x y] fl_pos_mono [of "- y" "- x"]
        fl_pos_nonneg [of y] fl_pos_nonneg [of "- x"] in \<open>auto simp: fl64_def\<close>)
qed

lemma fl64_minus: "fl64 (- x) = - fl64 x"
  by (auto simp: fl64_def)

text \<open>A rational is a finite double (of unbounded exponent) when its significand has 53 bits.\<close>

definition is_double :: "rat \<Rightarrow> bool" where
  "is_double x \<longleftrightarrow> (\<exists>m e. x = of_int m * pow2 e \<and> \<bar>m\<bar> < 2 ^ 53 \<and> - 1074 \<le> e)"

lemma is_double_minus [simp]: "is_double (- x) = is_double x"
proof -
  have "is_double (- y)" if "is_double y" for y
  proof -
    from that obtain m e where "y = of_int m * pow2 e" "\<bar>m\<bar> < 2 ^ 53" "- 1074 \<le> e"
      by (auto simp: is_double_def)
    then show ?thesis unfolding is_double_def by (intro exI [of _ "- m"] exI [of _ e]) simp
  qed
  from this [of x] this [of "- x"] show ?thesis by auto
qed

lemma is_double_pow2: "- 1074 \<le> e \<Longrightarrow> is_double (pow2 e)"
  unfolding is_double_def by (intro exI [of _ 1] exI [of _ e]) simp

lemma fl_pos_double:
  assumes "0 < x"
  shows "is_double (fl_pos x)"
proof -
  let ?e = "ulp_exp x" and ?n = "round_half_even (x / pow2 (ulp_exp x))"
  have "x < pow2 (floorlog2 x + 1)" using floorlog2_bounds assms by simp
  also have "\<dots> \<le> pow2 (53 + ?e)" by (intro pow2_mono) (simp add: ulp_exp_def)
  finally have "x / pow2 ?e \<le> of_int (2 ^ 53)"
    by (simp add: pow2_add divide_le_eq pow2_nat [of 53])
  then have n: "?n \<le> 2 ^ 53" by (rule round_half_even_le)
  have p: "0 \<le> ?n" using assms round_half_even_ge [of 0 "x / pow2 ?e"] by simp
  have e: "- 1074 \<le> ?e" by (simp add: ulp_exp_def)
  show ?thesis
  proof (cases "?n = 2 ^ 53")
    case True
    then have "fl_pos x = pow2 (53 + ?e)"
      by (simp add: fl_pos_def Let_def pow2_add pow2_nat [of 53])
    then show ?thesis using e is_double_pow2 [of "53 + ?e"] by simp
  next
    case False
    then show ?thesis using n p e unfolding is_double_def
      by (intro exI [of _ ?n] exI [of _ ?e]) (simp add: fl_pos_def Let_def)
  qed
qed

lemma is_double_0 [simp]: "is_double 0"
  unfolding is_double_def by (intro exI [of _ 0]) simp

lemma fl64_double [simp]: "is_double (fl64 x)"
  by (simp add: fl64_def fl_pos_double)

lemma fl_pos_exact:
  assumes "0 < x" and "is_double x"
  shows "fl_pos x = x"
proof -
  from assms(2) obtain m e where x: "x = of_int m * pow2 e"
    and m: "\<bar>m\<bar> < 2 ^ 53" and e: "- 1074 \<le> e" by (auto simp: is_double_def)
  have le: "ulp_exp x \<le> e"
  proof (rule ccontr)
    assume "\<not> ulp_exp x \<le> e"
    with e have "53 + e \<le> floorlog2 x" by (auto simp: ulp_exp_def)
    then have "pow2 (53 + e) \<le> x"
      using pow2_mono floorlog2_bounds(1) [OF assms(1)] order_trans by blast
    then have "of_int (2 ^ 53) \<le> (of_int m :: rat)"
      by (simp add: x pow2_add pow2_nat [of 53])
    with m show False unfolding of_int_le_iff by linarith
  qed
  obtain n where n: "pow2 e / pow2 (ulp_exp x) = of_int n" using pow2_div_int le by blast
  have "x / pow2 (ulp_exp x) = of_int m * (pow2 e / pow2 (ulp_exp x))"
    using x by simp
  also have "\<dots> = of_int (m * n)" unfolding n by simp
  finally have "x / pow2 (ulp_exp x) = of_int (m * n)" .
  then have "of_int (round_half_even (x / pow2 (ulp_exp x))) = x / pow2 (ulp_exp x)"
    by (simp only: round_half_even_of_int)
  then show ?thesis by (simp add: fl_pos_def Let_def)
qed

lemma fl64_exact: "is_double x \<Longrightarrow> fl64 x = x"
  using fl_pos_exact [of x] fl_pos_exact [of "- x"] by (auto simp: fl64_def)

lemma is_double_of_int:
  assumes "\<bar>n\<bar> < 2 ^ 53"
  shows "is_double (of_int n)"
  unfolding is_double_def using assms by (intro exI [of _ n] exI [of _ 0]) (simp add: pow2_def)

section \<open>The interface of a rounding function\<close>

text \<open>
  What the numerical components rely on: rounding is monotone, odd, the identity on what it
  produces and on small integers. Everything else about signs and bounds follows.
\<close>

locale rounding =
  fixes fl :: "rat \<Rightarrow> rat"
  assumes mono: "x \<le> y \<Longrightarrow> fl x \<le> fl y"
    and minus: "fl (- x) = - fl x"
    and idem: "fl (fl x) = fl x"
    and small_int: "\<bar>n\<bar> < 2 ^ 53 \<Longrightarrow> fl (of_int n) = of_int n"
begin

lemma zero: "fl 0 = 0"
  using minus [of 0] by simp

lemma nonneg: "0 \<le> x \<Longrightarrow> 0 \<le> fl x"
  using mono [of 0 x] zero by simp

lemma nonpos: "x \<le> 0 \<Longrightarrow> fl x \<le> 0"
  using mono [of x 0] zero by simp

lemma le_int: "x \<le> of_int n \<Longrightarrow> \<bar>n\<bar> < 2 ^ 53 \<Longrightarrow> fl x \<le> of_int n"
  using mono [of x "of_int n"] small_int [of n] by simp

lemma ge_int: "of_int n \<le> x \<Longrightarrow> \<bar>n\<bar> < 2 ^ 53 \<Longrightarrow> of_int n \<le> fl x"
  using mono [of "of_int n" x] small_int [of n] by simp

lemma add_nonneg_mono: "0 \<le> y \<Longrightarrow> fl x = x \<Longrightarrow> x \<le> fl (x + y)"
  using mono [of x "x + y"] by simp

end

interpretation fl64: rounding fl64
  by unfold_locales (simp_all add: fl64_mono fl64_minus fl64_exact is_double_of_int)

end
