(* ===== verification/Js_Number.thy ===== *)
theory Js_Number
  imports Js_Rounding
begin

text \<open>
  The JavaScript Number type: IEEE-754 binary64 with infinities and NaN. A finite number is kept
  as the rational it denotes, and the two zeros are one value (the program never divides by a zero
  whose sign could matter, never calls \<open>Object.is\<close>, and both print as \<open>0\<close>). The arithmetic
  operators are instances of the syntactic classes, so that \<open>a + b * c\<close> in a definition is
  the JavaScript expression, every operation rounding its result; \<open><\<close> and \<open>\<le>\<close>
  are the JavaScript comparisons, false on NaN.
\<close>

datatype jnum = NaN | PInf | NInf | Fin rat

section \<open>Operators\<close>

definition max_double :: rat where
  "max_double = (2 - 1 / 2 ^ 52) * 2 ^ 1023"

definition num_of :: "rat \<Rightarrow> jnum" where
  "num_of x =
     (let y = fl64 x
      in if max_double < y then PInf else if y < - max_double then NInf else Fin y)"

fun num_neg :: "jnum \<Rightarrow> jnum" where
  "num_neg NaN = NaN"
| "num_neg PInf = NInf"
| "num_neg NInf = PInf"
| "num_neg (Fin a) = Fin (- a)"

fun num_add :: "jnum \<Rightarrow> jnum \<Rightarrow> jnum" where
  "num_add (Fin a) (Fin b) = num_of (a + b)"
| "num_add NaN _ = NaN"
| "num_add _ NaN = NaN"
| "num_add PInf NInf = NaN"
| "num_add NInf PInf = NaN"
| "num_add PInf _ = PInf"
| "num_add _ PInf = PInf"
| "num_add NInf _ = NInf"
| "num_add _ NInf = NInf"

definition num_sign_inf :: "bool \<Rightarrow> jnum" where
  "num_sign_inf neg = (if neg then NInf else PInf)"

fun num_mul :: "jnum \<Rightarrow> jnum \<Rightarrow> jnum" where
  "num_mul (Fin a) (Fin b) = num_of (a * b)"
| "num_mul NaN _ = NaN"
| "num_mul _ NaN = NaN"
| "num_mul (Fin a) PInf = (if a = 0 then NaN else num_sign_inf (a < 0))"
| "num_mul (Fin a) NInf = (if a = 0 then NaN else num_sign_inf (0 < a))"
| "num_mul PInf (Fin b) = (if b = 0 then NaN else num_sign_inf (b < 0))"
| "num_mul NInf (Fin b) = (if b = 0 then NaN else num_sign_inf (0 < b))"
| "num_mul PInf PInf = PInf"
| "num_mul PInf NInf = NInf"
| "num_mul NInf PInf = NInf"
| "num_mul NInf NInf = PInf"

fun num_div :: "jnum \<Rightarrow> jnum \<Rightarrow> jnum" where
  "num_div (Fin a) (Fin b) =
     (if b = 0 then if a = 0 then NaN else num_sign_inf (a < 0) else num_of (a / b))"
| "num_div NaN _ = NaN"
| "num_div _ NaN = NaN"
| "num_div (Fin _) PInf = Fin 0"
| "num_div (Fin _) NInf = Fin 0"
| "num_div PInf (Fin b) = num_sign_inf (b < 0)"
| "num_div NInf (Fin b) = num_sign_inf (0 \<le> b)"
| "num_div _ _ = NaN"

fun num_less :: "jnum \<Rightarrow> jnum \<Rightarrow> bool" where
  "num_less (Fin a) (Fin b) = (a < b)"
| "num_less NaN _ = False"
| "num_less _ NaN = False"
| "num_less PInf _ = False"
| "num_less _ NInf = False"
| "num_less NInf _ = True"
| "num_less _ PInf = True"

fun num_less_eq :: "jnum \<Rightarrow> jnum \<Rightarrow> bool" where
  "num_less_eq (Fin a) (Fin b) = (a \<le> b)"
| "num_less_eq NaN _ = False"
| "num_less_eq _ NaN = False"
| "num_less_eq NInf _ = True"
| "num_less_eq _ PInf = True"
| "num_less_eq PInf _ = False"
| "num_less_eq _ NInf = False"

text \<open>\<open>===\<close> on numbers.\<close>

definition num_eq :: "jnum \<Rightarrow> jnum \<Rightarrow> bool" where
  "num_eq a b \<longleftrightarrow> a = b \<and> a \<noteq> NaN"

instantiation jnum :: "{zero, one, plus, minus, uminus, times, inverse, ord}"
begin

definition zero_jnum :: jnum where "0 = Fin 0"
definition one_jnum :: jnum where "1 = Fin 1"
definition plus_jnum :: "jnum \<Rightarrow> jnum \<Rightarrow> jnum" where "a + b = num_add a b"
definition uminus_jnum :: "jnum \<Rightarrow> jnum" where "- a = num_neg a"
definition minus_jnum :: "jnum \<Rightarrow> jnum \<Rightarrow> jnum" where "a - b = num_add a (num_neg b)"
definition times_jnum :: "jnum \<Rightarrow> jnum \<Rightarrow> jnum" where "a * b = num_mul a b"
definition divide_jnum :: "jnum \<Rightarrow> jnum \<Rightarrow> jnum" where "divide a b = num_div a b"
definition inverse_jnum :: "jnum \<Rightarrow> jnum" where "inverse a = num_div (Fin 1) a"
definition less_jnum :: "jnum \<Rightarrow> jnum \<Rightarrow> bool" where "a < b = num_less a b"
definition less_eq_jnum :: "jnum \<Rightarrow> jnum \<Rightarrow> bool" where "a \<le> b = num_less_eq a b"

instance ..

end

lemmas num_class_defs [num_simps] =
  zero_jnum_def one_jnum_def plus_jnum_def minus_jnum_def uminus_jnum_def times_jnum_def
  divide_jnum_def less_jnum_def less_eq_jnum_def

section \<open>The functions of Math and Number\<close>

fun is_finite_num :: "jnum \<Rightarrow> bool" where
  "is_finite_num (Fin _) = True"
| "is_finite_num _ = False"

fun is_integer_num :: "jnum \<Rightarrow> bool" where
  "is_integer_num (Fin a) = (of_int \<lfloor>a\<rfloor> = a)"
| "is_integer_num _ = False"

definition is_safe_integer :: "jnum \<Rightarrow> bool" where
  "is_safe_integer x = (is_integer_num x \<and> num_less_eq (Fin (- (2 ^ 53 - 1))) x
     \<and> num_less_eq x (Fin (2 ^ 53 - 1)))"

definition math_max :: "jnum \<Rightarrow> jnum \<Rightarrow> jnum" where
  "math_max a b = (if a = NaN \<or> b = NaN then NaN else if a \<le> b then b else a)"

definition math_min :: "jnum \<Rightarrow> jnum \<Rightarrow> jnum" where
  "math_min a b = (if a = NaN \<or> b = NaN then NaN else if a \<le> b then a else b)"

fun math_round :: "jnum \<Rightarrow> jnum" where
  "math_round (Fin a) = Fin (of_int \<lfloor>a + 1 / 2\<rfloor>)"
| "math_round x = x"

fun math_floor :: "jnum \<Rightarrow> jnum" where
  "math_floor (Fin a) = Fin (of_int \<lfloor>a\<rfloor>)"
| "math_floor x = x"

fun math_ceil :: "jnum \<Rightarrow> jnum" where
  "math_ceil (Fin a) = Fin (of_int \<lceil>a\<rceil>)"
| "math_ceil x = x"

fun math_abs :: "jnum \<Rightarrow> jnum" where
  "math_abs (Fin a) = Fin \<bar>a\<bar>"
| "math_abs NaN = NaN"
| "math_abs _ = PInf"

text \<open>
  The square root, correctly rounded: the integer square root of the radicand scaled to at least
  120 bits, with a sticky half when it is not exact, rounds as the real root does, since no double
  and no midpoint of two doubles lies strictly between two neighbours of that many bits.
\<close>

fun isqrt_bits :: "nat \<Rightarrow> int \<Rightarrow> int \<Rightarrow> int" where
  "isqrt_bits 0 n r = r"
| "isqrt_bits (Suc b) n r =
     (let c = r + 2 ^ b in isqrt_bits b n (if c * c \<le> n then c else r))"

definition sqrt_rat :: "rat \<Rightarrow> rat" where
  "sqrt_rat x =
     (if x \<le> 0 then 0
      else let k = 60 - floorlog2 x div 2;
               y = x * pow2 (2 * k);
               n = \<lfloor>y\<rfloor>;
               q = isqrt_bits 64 n 0
           in (if of_int (q * q) = y then of_int q else of_int q + 1 / 2) / pow2 k)"

fun math_sqrt :: "jnum \<Rightarrow> jnum" where
  "math_sqrt (Fin a) = (if a < 0 then NaN else num_of (sqrt_rat a))"
| "math_sqrt PInf = PInf"
| "math_sqrt _ = NaN"

section \<open>Numbers that are not negative\<close>

text \<open>
  \<open>not_negative x\<close>: \<open>x < 0\<close> is false and stays false under the operations below. It admits NaN,
  which no operation of the program turns back into a number.
\<close>

fun not_negative :: "jnum \<Rightarrow> bool" where
  "not_negative (Fin a) = (0 \<le> a)"
| "not_negative NInf = False"
| "not_negative _ = True"

lemma not_negative_less: "not_negative x \<longleftrightarrow> \<not> x < 0"
  by (cases x) (simp_all add: num_simps not_less)

lemma num_of_nonneg: "0 \<le> a \<Longrightarrow> not_negative (num_of a)"
  using fl64.nonneg [of a] by (auto simp: num_of_def Let_def max_double_def)

lemma num_of_0 [simp]: "num_of 0 = Fin 0"
  by (simp add: num_of_def fl64.zero max_double_def)

lemma num_of_small_int:
  assumes "\<bar>n\<bar> < 2 ^ 53"
  shows "num_of (of_int n) = Fin (of_int n)"
proof -
  have "\<bar>of_int n\<bar> < (2 ^ 53 :: rat)"
    using assms by (metis of_int_abs of_int_less_iff of_int_numeral of_int_power)
  then have "\<bar>of_int n\<bar> \<le> max_double" by (simp add: max_double_def)
  then show ?thesis using assms by (auto simp: num_of_def Let_def fl64.small_int)
qed

lemma not_negative_0 [simp, num_intros]: "not_negative 0"
  by (simp add: num_simps)

lemma not_negative_add [num_intros]:
  "not_negative a \<Longrightarrow> not_negative b \<Longrightarrow> not_negative (a + b)"
  by (cases a; cases b) (auto simp: num_simps num_of_nonneg)

lemma not_negative_mul [num_intros]:
  "not_negative a \<Longrightarrow> not_negative b \<Longrightarrow> not_negative (a * b)"
  by (cases a; cases b) (auto simp: num_simps num_of_nonneg num_sign_inf_def)

lemma not_negative_div [num_intros]:
  "not_negative a \<Longrightarrow> not_negative b \<Longrightarrow> not_negative (a / b)"
  by (cases a; cases b) (auto simp: num_simps num_of_nonneg num_sign_inf_def)

lemma not_negative_max0 [num_intros, simp]: "not_negative (math_max 0 x)"
  by (cases x) (auto simp: num_simps math_max_def)

lemma not_negative_max [num_intros]: "not_negative a \<Longrightarrow> not_negative b \<Longrightarrow> not_negative (math_max a b)"
  by (auto simp: math_max_def)

lemma not_negative_min [num_intros]: "not_negative a \<Longrightarrow> not_negative b \<Longrightarrow> not_negative (math_min a b)"
  by (auto simp: math_min_def)

lemma not_negative_round [num_intros]: "not_negative x \<Longrightarrow> not_negative (math_round x)"
  by (cases x) (auto simp: le_floor_iff)

lemma not_negative_floor [num_intros]: "not_negative x \<Longrightarrow> not_negative (math_floor x)"
  by (cases x) auto

lemma not_negative_ceil [num_intros]: "not_negative x \<Longrightarrow> not_negative (math_ceil x)"
  by (cases x) (auto simp: le_ceiling_iff intro: order_less_le_trans)

lemma not_negative_foldl_add:
  assumes "not_negative a" and "\<And>x. x \<in> set xs \<Longrightarrow> not_negative (f x)"
  shows "not_negative (foldl (\<lambda>s x. s + f x) a xs)"
  using assms
  by (intro foldl_invariant [where P = not_negative]) (simp_all add: not_negative_add)

section \<open>Monotonicity\<close>

text \<open>
  \<open>num_ge a b\<close> holds when \<open>b < a\<close> is false: \<open>a \<le> b\<close>, or one of the two is NaN. It is the form in
  which bounds survive an intermediate NaN.
\<close>

lemma num_of_mono: "a \<le> b \<Longrightarrow> num_of a \<le> num_of b"
  using fl64_mono [of a b] by (auto simp: num_of_def Let_def num_simps)

lemma num_of_not_nan [simp]: "num_of a \<noteq> NaN"
  by (simp add: num_of_def Let_def)

lemma num_less_eq_inf [simp]: "x \<noteq> NaN \<Longrightarrow> num_less_eq NInf x" "x \<noteq> NaN \<Longrightarrow> num_less_eq x PInf"
  by (cases x; simp)+

lemma num_of_finite:
  assumes "0 \<le> a" and "a \<le> 1000"
  obtains r where "num_of a = Fin r" and "0 \<le> r"
proof -
  have "num_of a \<le> Fin 1000"
    using num_of_mono [OF assms(2)] num_of_small_int [of 1000] by simp
  moreover have "not_negative (num_of a)" using assms(1) by (rule num_of_nonneg)
  ultimately show thesis
    using that by (cases "num_of a") (auto simp: num_simps not_negative_less)
qed

lemma num_le_refl: "a \<noteq> NaN \<Longrightarrow> a \<le> (a :: jnum)"
  by (cases a) (auto simp: num_simps)

lemma num_le_trans: "a \<le> b \<Longrightarrow> b \<le> c \<Longrightarrow> a \<le> (c :: jnum)"
  by (cases a; cases b; cases c) (auto simp: num_simps)

lemma num_le_not_nan: "a \<le> b \<Longrightarrow> a \<noteq> NaN \<and> b \<noteq> (NaN :: jnum)"
  by (cases a; cases b) (auto simp: num_simps)

lemma num_not_le: "a \<noteq> NaN \<Longrightarrow> b \<noteq> NaN \<Longrightarrow> (\<not> a \<le> b) = (b < (a :: jnum))"
  by (cases a; cases b) (auto simp: num_simps)

lemma math_round_mono: "a \<le> b \<Longrightarrow> math_round a \<le> math_round b"
  by (cases a; cases b) (auto simp: num_simps intro: floor_mono)

lemma math_max_mono: "a \<le> b \<Longrightarrow> c \<noteq> NaN \<Longrightarrow> math_max c a \<le> math_max c b"
  by (cases a; cases b; cases c) (auto simp: num_simps math_max_def)

lemma add_right_mono_num: "a \<le> b \<Longrightarrow> a + Fin c \<le> b + Fin c"
  by (cases a; cases b) (auto simp: num_simps num_of_mono [unfolded num_simps])

lemma mul_right_mono_num: "a \<le> b \<Longrightarrow> 0 < c \<Longrightarrow> a * Fin c \<le> b * Fin c"
  by (cases a; cases b)
     (auto simp: num_simps num_sign_inf_def intro!: num_of_mono [unfolded num_simps] mult_right_mono)

lemma div_right_mono_num: "a \<le> b \<Longrightarrow> 0 < c \<Longrightarrow> a / Fin c \<le> b / Fin c"
  by (cases a; cases b)
     (auto simp: num_simps num_sign_inf_def intro!: num_of_mono [unfolded num_simps] divide_right_mono)

end
