(* ===== verification/Js_Text.thy ===== *)
theory Js_Text
  imports Js_Number
begin

text \<open>
  JavaScript strings and their conversions to and from numbers. A string is a list of code units
  below 256: text outside Latin-1 is outside the model. The functions are those of
  \<open>String.prototype\<close>, the regular expressions the program tests strings with, \<open>String(n)\<close>
  for a number (the shortest decimal that reads back as the number), \<open>toFixed\<close>,
  \<open>Number(s)\<close>, \<open>parseInt\<close> and \<open>parseFloat\<close>.
\<close>

section \<open>Characters\<close>

abbreviation code :: "char \<Rightarrow> nat" where
  "code c \<equiv> of_char c"

definition is_space :: "char \<Rightarrow> bool" where
  "is_space c = (code c \<in> {9, 10, 11, 12, 13, 32, 160})"

definition is_digit :: "char \<Rightarrow> bool" where
  "is_digit c = (48 \<le> code c \<and> code c \<le> 57)"

definition is_upper_az :: "char \<Rightarrow> bool" where
  "is_upper_az c = (65 \<le> code c \<and> code c \<le> 90)"

definition is_lower_az :: "char \<Rightarrow> bool" where
  "is_lower_az c = (97 \<le> code c \<and> code c \<le> 122)"

definition is_hex :: "char \<Rightarrow> bool" where
  "is_hex c = (is_digit c \<or> 97 \<le> code c \<and> code c \<le> 102 \<or> 65 \<le> code c \<and> code c \<le> 70)"

definition char_lower :: "char \<Rightarrow> char" where
  "char_lower c =
     (let n = code c
      in if 65 \<le> n \<and> n \<le> 90 \<or> 192 \<le> n \<and> n \<le> 222 \<and> n \<noteq> 215
         then char_of (n + 32) else c)"

definition char_upper :: "char \<Rightarrow> char" where
  "char_upper c =
     (let n = code c
      in if 97 \<le> n \<and> n \<le> 122 \<or> 224 \<le> n \<and> n \<le> 254 \<and> n \<noteq> 247
         then char_of (n - 32) else c)"

section \<open>String.prototype\<close>

definition trim_start :: "string \<Rightarrow> string" where
  "trim_start s = dropWhile is_space s"

definition trim :: "string \<Rightarrow> string" where
  "trim s = rev (dropWhile is_space (rev (dropWhile is_space s)))"

definition lower :: "string \<Rightarrow> string" where
  "lower s = map char_lower s"

definition upper :: "string \<Rightarrow> string" where
  "upper s = map char_upper s"

fun starts_with :: "string \<Rightarrow> string \<Rightarrow> bool" where
  "starts_with s [] = True"
| "starts_with [] (p # ps) = False"
| "starts_with (c # s) (p # ps) = (c = p \<and> starts_with s ps)"

fun str_includes :: "string \<Rightarrow> string \<Rightarrow> bool" where
  "str_includes [] p = (p = [])"
| "str_includes (c # s) p = (starts_with (c # s) p \<or> str_includes s p)"

definition ends_with :: "string \<Rightarrow> string \<Rightarrow> bool" where
  "ends_with s p = starts_with (rev s) (rev p)"

fun split_on :: "char \<Rightarrow> string \<Rightarrow> string list" where
  "split_on d [] = [[]]"
| "split_on d (c # s) =
     (if c = d then [] # split_on d s
      else case split_on d s of [] \<Rightarrow> [[c]] | w # ws \<Rightarrow> (c # w) # ws)"

fun join :: "string \<Rightarrow> string list \<Rightarrow> string" where
  "join d [] = []"
| "join d [w] = w"
| "join d (w # ws) = w @ d @ join d ws"

definition pad_start :: "nat \<Rightarrow> char \<Rightarrow> string \<Rightarrow> string" where
  "pad_start n c s = replicate (n - length s) c @ s"

text \<open>\<open>s.slice(i, j)\<close> for bounds that are not negative.\<close>

definition slice :: "nat \<Rightarrow> nat \<Rightarrow> string \<Rightarrow> string" where
  "slice i j s = take (j - i) (drop i s)"

text \<open>\<open><\<close> on strings: code unit by code unit.\<close>

fun str_less :: "string \<Rightarrow> string \<Rightarrow> bool" where
  "str_less _ [] = False"
| "str_less [] (_ # _) = True"
| "str_less (a # s) (b # t) = (code a < code b \<or> a = b \<and> str_less s t)"

lemma last_dropWhile: "dropWhile P xs \<noteq> [] \<Longrightarrow> last (dropWhile P xs) = last xs"
  by (metis last_append takeWhile_dropWhile_id)

lemma trim_trim [simp]: "trim (trim s) = trim s"
proof -
  define a where "a = dropWhile is_space s"
  define c where "c = dropWhile is_space (rev a)"
  have "\<not> is_space (last c)" if "c \<noteq> []"
  proof -
    from that have "last c = last (rev a)" and "a \<noteq> []"
      unfolding c_def by (auto simp: last_dropWhile)
    then have "last c = hd a" by (simp add: last_rev)
    with \<open>a \<noteq> []\<close> show ?thesis unfolding a_def by (simp add: hd_dropWhile)
  qed
  then have "dropWhile is_space (rev c) = rev c"
    by (auto simp: dropWhile_eq_self_iff hd_rev)
  moreover have "dropWhile is_space c = c"
    unfolding c_def by (auto simp: dropWhile_eq_self_iff hd_dropWhile)
  ultimately show ?thesis by (simp add: trim_def a_def [symmetric] c_def [symmetric])
qed

lemma trim_Nil [simp]: "trim [] = []"
  by (simp add: trim_def)

lemma code_char_of: "n < 256 \<Longrightarrow> code (char_of n) = n"
  by simp

lemma lower_lower [simp]: "lower (lower s) = lower s"
proof -
  have "char_lower (char_lower c) = char_lower c" for c
    by (simp add: char_lower_def Let_def)
  then show ?thesis by (simp add: lower_def)
qed

section \<open>Regular expressions of the program\<close>

text \<open>\<open>/^[0-9a-f]{8}-...$/i\<close>: a string of fixed length tested position by position.\<close>

definition matches_classes :: "(char \<Rightarrow> bool) list \<Rightarrow> string \<Rightarrow> bool" where
  "matches_classes ps s = (length s = length ps \<and> list_all2 (\<lambda>p c. p c) ps s)"

definition is_dash :: "char \<Rightarrow> bool" where
  "is_dash c = (c = CHR ''-'')"

text \<open>\<open>/^[0-9a-f]{8}-[0-9a-f]{4}-[1-5][0-9a-f]{3}-[89ab][0-9a-f]{3}-[0-9a-f]{12}$/i\<close>\<close>

definition is_uuid :: "string \<Rightarrow> bool" where
  "is_uuid s = matches_classes
     (replicate 8 is_hex @ [is_dash] @ replicate 4 is_hex @ [is_dash]
      @ [\<lambda>c. c \<in> set ''12345''] @ replicate 3 is_hex @ [is_dash]
      @ [\<lambda>c. c \<in> set ''89abAB''] @ replicate 3 is_hex @ [is_dash] @ replicate 12 is_hex) s"

text \<open>\<open>/^\d{4}-\d{2}-\d{2}$/\<close>\<close>

definition is_date_shape :: "string \<Rightarrow> bool" where
  "is_date_shape s = matches_classes
     (replicate 4 is_digit @ [is_dash] @ replicate 2 is_digit @ [is_dash] @ replicate 2 is_digit) s"

section \<open>Digits\<close>

definition digit_val :: "char \<Rightarrow> int" where
  "digit_val c = int (code c) - 48"

definition digits_val :: "string \<Rightarrow> int" where
  "digits_val ds = foldl (\<lambda>n c. 10 * n + digit_val c) 0 ds"

fun nat_digits :: "nat \<Rightarrow> nat \<Rightarrow> string" where
  "nat_digits 0 n = []"
| "nat_digits (Suc f) n =
     (if n < 10 then [char_of (48 + n)] else nat_digits f (n div 10) @ [char_of (48 + n mod 10)])"

text \<open>Every digit divides by ten, so the number itself is enough fuel.\<close>

definition nat_str :: "nat \<Rightarrow> string" where
  "nat_str n = nat_digits (Suc n) n"

definition int_str :: "int \<Rightarrow> string" where
  "int_str i = (if i < 0 then ''-'' @ nat_str (nat (- i)) else nat_str (nat i))"

section \<open>Number to string\<close>

definition pow10 :: "int \<Rightarrow> rat" where
  "pow10 k = 10 powi k"

text \<open>The \<open>n\<close> with \<open>10 ^ (n - 1) \<le> x < 10 ^ n\<close>, from an estimate that is off by at most two.\<close>

definition dec_exp :: "rat \<Rightarrow> int" where
  "dec_exp x =
     (let e = (floorlog2 x * 30103) div 100000
      in if x < pow10 e then e else if x < pow10 (e + 1) then e + 1 else e + 2)"

definition digits_try :: "rat \<Rightarrow> int \<Rightarrow> nat \<Rightarrow> (int \<times> int \<times> nat) option" where
  "digits_try x n k =
     (let q = x / pow10 (n - int k);
          lo = \<lfloor>q\<rfloor>;
          good = filter (\<lambda>s. fl64 (of_int s * pow10 (n - int k)) = x) [lo, lo + 1];
          pick = (case good of [] \<Rightarrow> None | [s] \<Rightarrow> Some s
                  | s # t # _ \<Rightarrow> Some (if q - of_int s \<le> of_int t - q then s else t))
      in case pick of None \<Rightarrow> None
         | Some s \<Rightarrow> Some (if s = 10 ^ k then (10 ^ (k - 1), n + 1, k) else (s, n, k)))"

fun first_some :: "('a \<Rightarrow> 'b option) \<Rightarrow> 'a list \<Rightarrow> 'b option" where
  "first_some f [] = None"
| "first_some f (x # xs) = (case f x of None \<Rightarrow> first_some f xs | Some y \<Rightarrow> Some y)"

definition digit_layout :: "string \<Rightarrow> int \<Rightarrow> string" where
  "digit_layout ds n =
     (let k = int (length ds)
      in if k \<le> n \<and> n \<le> 21 then ds @ replicate (nat (n - k)) (CHR ''0'')
         else if 0 < n \<and> n \<le> 21 then take (nat n) ds @ ''.'' @ drop (nat n) ds
         else if - 6 < n \<and> n \<le> 0 then ''0.'' @ replicate (nat (- n)) (CHR ''0'') @ ds
         else take 1 ds @ (if k = 1 then [] else ''.'' @ drop 1 ds) @ ''e''
              @ (if 0 \<le> n - 1 then ''+'' else ''-'') @ nat_str (nat \<bar>n - 1\<bar>))"

definition pos_rat_str :: "rat \<Rightarrow> string" where
  "pos_rat_str x =
     (case first_some (digits_try x (dec_exp x)) [1..<18] of
        None \<Rightarrow> []
      | Some (s, n, k) \<Rightarrow> digit_layout (int_str s) n)"

fun num_str :: "jnum \<Rightarrow> string" where
  "num_str NaN = ''NaN''"
| "num_str PInf = ''Infinity''"
| "num_str NInf = ''-Infinity''"
| "num_str (Fin a) =
     (if a = 0 then ''0'' else if a < 0 then ''-'' @ pos_rat_str (- a) else pos_rat_str a)"

text \<open>\<open>toFixed\<close>, for values below \<open>10 ^ 21\<close> in size (larger ones print as \<open>num_str\<close>).\<close>

definition fixed_str :: "nat \<Rightarrow> int \<Rightarrow> string" where
  "fixed_str f n =
     (if f = 0 then int_str n
      else let s = pad_start (f + 1) (CHR ''0'') (nat_str (nat n)); k = length s - f
           in take k s @ ''.'' @ drop k s)"

fun to_fixed :: "nat \<Rightarrow> jnum \<Rightarrow> string" where
  "to_fixed f (Fin a) =
     (if 10 ^ 21 \<le> \<bar>a\<bar> then num_str (Fin a)
      else if a < 0 then ''-'' @ fixed_str f \<lfloor>- a * 10 ^ f + 1 / 2\<rfloor>
      else fixed_str f \<lfloor>a * 10 ^ f + 1 / 2\<rfloor>)"
| "to_fixed f x = num_str x"

section \<open>String to number\<close>

definition span_digits :: "string \<Rightarrow> string \<times> string" where
  "span_digits s = (takeWhile is_digit s, dropWhile is_digit s)"

text \<open>The longest prefix that is an unsigned decimal literal: its value and the rest.\<close>

definition exp_part :: "string \<Rightarrow> int \<times> string" where
  "exp_part s =
     (case s of
        c # r \<Rightarrow>
          (if c \<in> set ''eE'' then
             let (neg, r1) = (case r of d # r' \<Rightarrow>
                   if d = CHR ''-'' then (True, r') else if d = CHR ''+'' then (False, r') else (False, r)
                 | [] \<Rightarrow> (False, r));
                 (ds, r2) = span_digits r1
             in if ds = [] then (0, s) else (if neg then - digits_val ds else digits_val ds, r2)
           else (0, s))
      | [] \<Rightarrow> (0, s))"

definition decimal_prefix :: "string \<Rightarrow> (rat \<times> string) option" where
  "decimal_prefix s =
     (let (ip, r1) = span_digits s;
          (fp, r2) = (case r1 of c # r \<Rightarrow> if c = CHR ''.'' then span_digits r else ([], r1)
                      | [] \<Rightarrow> ([], r1))
      in if ip = [] \<and> fp = [] then None
         else let (e, r3) = exp_part r2
              in Some (of_int (digits_val (ip @ fp)) * pow10 (e - int (length fp)), r3))"

definition signed :: "string \<Rightarrow> bool \<times> string" where
  "signed s =
     (case s of c # r \<Rightarrow>
        if c = CHR ''-'' then (True, r) else if c = CHR ''+'' then (False, r) else (False, s)
      | [] \<Rightarrow> (False, s))"

text \<open>\<open>Number(s)\<close>. The prefixed binary, octal and hexadecimal literals are read as NaN here:
  the program is never given one.\<close>

definition str_num :: "string \<Rightarrow> jnum" where
  "str_num s0 =
     (let s = trim s0
      in if s = [] then Fin 0
         else let (neg, r) = signed s
              in if r = ''Infinity'' then num_sign_inf neg
                 else case decimal_prefix r of
                        Some (v, []) \<Rightarrow> num_of (if neg then - v else v)
                      | _ \<Rightarrow> NaN)"

definition parse_float :: "string \<Rightarrow> jnum" where
  "parse_float s0 =
     (let (neg, r) = signed (trim_start s0)
      in if starts_with r ''Infinity'' then num_sign_inf neg
         else case decimal_prefix r of
                Some (v, _) \<Rightarrow> num_of (if neg then - v else v)
              | None \<Rightarrow> NaN)"

text \<open>\<open>parseInt(s, 10)\<close>\<close>

definition parse_int :: "string \<Rightarrow> jnum" where
  "parse_int s0 =
     (let (neg, r) = signed (trim_start s0); ds = fst (span_digits r)
      in if ds = [] then NaN
         else num_of (of_int (if neg then - digits_val ds else digits_val ds)))"

end
