(* ===== verification/Js_Value.thy ===== *)
theory Js_Value
  imports Js_Text
begin

text \<open>
  JavaScript values as the program handles them: parsed JSON, database rows and the objects it
  builds. An object is the list of its own enumerable properties in insertion order. Reading a
  property of a value that is not an object gives \<open>undefined\<close>, which is what the program's optional
  chaining (\<open>v?.k\<close>) does for \<open>null\<close> and \<open>undefined\<close> too; where the code reads with a plain dot from
  a value that may be \<open>null\<close>, the definition tests for it first.
\<close>

datatype jsval =
    JUndef
  | JNull
  | JBool bool
  | JNum jnum
  | JStr string
  | JArr "jsval list"
  | JObj "(string \<times> jsval) list"
  | JFun string

type_synonym props = "(string \<times> jsval) list"

section \<open>Properties\<close>

definition own :: "props \<Rightarrow> string \<Rightarrow> jsval" where
  "own ps k = (case map_of ps k of None \<Rightarrow> JUndef | Some v \<Rightarrow> v)"

fun jget :: "jsval \<Rightarrow> string \<Rightarrow> jsval" where
  "jget (JObj ps) k = own ps k"
| "jget _ k = JUndef"

fun jset :: "jsval \<Rightarrow> string \<Rightarrow> jsval \<Rightarrow> jsval" where
  "jset (JObj ps) k v = JObj (alist_put k v ps)"
| "jset w k v = w"

fun indexed_props :: "nat \<Rightarrow> jsval list \<Rightarrow> props" where
  "indexed_props i [] = []"
| "indexed_props i (v # vs) = (nat_str i, v) # indexed_props (Suc i) vs"

text \<open>The properties a spread \<open>{...v}\<close> copies: those of an object, the indexed ones of an array or
  a string, none of any other value.\<close>

fun spread :: "jsval \<Rightarrow> props" where
  "spread (JObj ps) = ps"
| "spread (JArr vs) = indexed_props 0 vs"
| "spread (JStr s) = indexed_props 0 (map (\<lambda>c. JStr [c]) s)"
| "spread _ = []"

lemma own_Nil [simp]: "own [] k = JUndef"
  by (simp add: own_def)

lemma own_Cons [simp]: "own ((k', v) # ps) k = (if k = k' then v else own ps k)"
  by (simp add: own_def)

lemma own_put [simp]: "own (alist_put k v ps) k' = (if k' = k then v else own ps k')"
  by (simp add: own_def)

text \<open>
  A lookup \<open>t[k]\<close> in an object literal used as a table, with a computed key. A key the table does not
  have itself is looked up in \<open>Object.prototype\<close>, whose members are functions (\<open>JFun\<close> with the
  name) and the accessor \<open>__proto__\<close>, which gives the prototype object.
\<close>

definition object_prototype_names :: "string list" where
  "object_prototype_names =
     [''constructor'', ''__defineGetter__'', ''__defineSetter__'', ''hasOwnProperty'',
      ''__lookupGetter__'', ''__lookupSetter__'', ''isPrototypeOf'', ''propertyIsEnumerable'',
      ''toString'', ''valueOf'', ''toLocaleString'']"

definition inherited_member :: "string \<Rightarrow> jsval" where
  "inherited_member k =
     (if k = ''__proto__'' then JObj []
      else if k = ''constructor'' then JFun ''Object''
      else if k \<in> set object_prototype_names then JFun k else JUndef)"

definition table_get :: "props \<Rightarrow> string \<Rightarrow> jsval" where
  "table_get t k = (case map_of t k of Some v \<Rightarrow> v | None \<Rightarrow> inherited_member k)"

lemma table_get_own: "map_of t k = Some v \<Longrightarrow> table_get t k = v"
  by (simp add: table_get_def)

text \<open>What the program throws.\<close>

datatype js_error = Type_Error string | Plain_Error string

section \<open>Types and truth\<close>

fun typeof :: "jsval \<Rightarrow> string" where
  "typeof JUndef = ''undefined''"
| "typeof JNull = ''object''"
| "typeof (JBool _) = ''boolean''"
| "typeof (JNum _) = ''number''"
| "typeof (JStr _) = ''string''"
| "typeof (JFun _) = ''function''"
| "typeof _ = ''object''"

fun truthy :: "jsval \<Rightarrow> bool" where
  "truthy JUndef = False"
| "truthy JNull = False"
| "truthy (JBool b) = b"
| "truthy (JNum n) = (n \<noteq> NaN \<and> n \<noteq> Fin 0)"
| "truthy (JStr s) = (s \<noteq> [])"
| "truthy _ = True"

fun is_array :: "jsval \<Rightarrow> bool" where
  "is_array (JArr _) = True"
| "is_array _ = False"

fun elements :: "jsval \<Rightarrow> jsval list" where
  "elements (JArr vs) = vs"
| "elements _ = []"

fun is_object :: "jsval \<Rightarrow> bool" where
  "is_object (JObj _) = True"
| "is_object _ = False"

fun is_nullish :: "jsval \<Rightarrow> bool" where
  "is_nullish JUndef = True"
| "is_nullish JNull = True"
| "is_nullish _ = False"

text \<open>\<open>a || b\<close> and \<open>a ?? b\<close>\<close>

definition jor :: "jsval \<Rightarrow> jsval \<Rightarrow> jsval" where
  "jor a b = (if truthy a then a else b)"

definition jelse :: "jsval \<Rightarrow> jsval \<Rightarrow> jsval" where
  "jelse a b = (if is_nullish a then b else a)"

text \<open>\<open>===\<close>. Two objects or arrays are compared by reference in the code; the program applies
  \<open>===\<close> to primitives only, and the model answers False on the others.\<close>

fun strict_eq :: "jsval \<Rightarrow> jsval \<Rightarrow> bool" where
  "strict_eq (JNum a) (JNum b) = num_eq a b"
| "strict_eq (JStr a) (JStr b) = (a = b)"
| "strict_eq (JBool a) (JBool b) = (a = b)"
| "strict_eq JUndef JUndef = True"
| "strict_eq JNull JNull = True"
| "strict_eq _ _ = False"

section \<open>Conversions\<close>

text \<open>
  \<open>String(v)\<close>, \<open>Number(v)\<close> and a template literal call the \<open>toString\<close> of an object. An own member of
  that name, which parsed JSON can only have as a value that is no function, hides the one of
  \<open>Object.prototype\<close>, and the conversion throws a TypeError; an array converts its elements.
  \<open>coercible\<close> holds of the values whose conversion does not throw, \<open>to_str\<close> and \<open>to_num\<close> give its
  result, and \<open>js_string\<close> and \<open>js_number\<close> are the conversion with its error.
\<close>

fun coercible :: "jsval \<Rightarrow> bool" where
  "coercible (JArr vs) = list_all coercible vs"
| "coercible (JObj ps) = (''toString'' \<notin> fst ` set ps)"
| "coercible _ = True"

fun to_str :: "jsval \<Rightarrow> string" and elem_strs :: "jsval list \<Rightarrow> string list" where
  "to_str JUndef = ''undefined''"
| "to_str JNull = ''null''"
| "to_str (JBool b) = (if b then ''true'' else ''false'')"
| "to_str (JNum n) = num_str n"
| "to_str (JStr s) = s"
| "to_str (JArr vs) = join '','' (elem_strs vs)"
| "to_str (JObj ps) = ''[object Object]''"
| "to_str (JFun f) = ''function '' @ f @ ''() { [native code] }''"
| "elem_strs [] = []"
| "elem_strs (v # vs) = (if is_nullish v then [] else to_str v) # elem_strs vs"

fun to_num :: "jsval \<Rightarrow> jnum" where
  "to_num JUndef = NaN"
| "to_num JNull = Fin 0"
| "to_num (JBool b) = (if b then Fin 1 else Fin 0)"
| "to_num (JNum n) = n"
| "to_num (JStr s) = str_num s"
| "to_num (JArr vs) = str_num (to_str (JArr vs))"
| "to_num (JObj ps) = NaN"
| "to_num (JFun f) = NaN"

definition cannot_convert :: js_error where
  "cannot_convert = Type_Error ''Cannot convert object to primitive value''"

definition js_string :: "jsval \<Rightarrow> js_error + string" where
  "js_string v = (if coercible v then Inr (to_str v) else Inl cannot_convert)"

definition js_number :: "jsval \<Rightarrow> js_error + jnum" where
  "js_number v = (if coercible v then Inr (to_num v) else Inl cannot_convert)"

lemma js_string_Inr [simp]: "coercible v \<Longrightarrow> js_string v = Inr (to_str v)"
  by (simp add: js_string_def)

lemma js_number_Inr [simp]: "coercible v \<Longrightarrow> js_number v = Inr (to_num v)"
  by (simp add: js_number_def)

lemma not_coercible_truthy: "\<not> coercible v \<Longrightarrow> truthy v"
  by (cases v) auto

lemma coercible_jor: "coercible v \<Longrightarrow> coercible w \<Longrightarrow> coercible (jor v w)"
  by (simp add: jor_def)

lemma coercible_or_default [simp]: "coercible w \<Longrightarrow> coercible (jor v w) \<longleftrightarrow> coercible v"
  using not_coercible_truthy by (auto simp: jor_def)

fun is_number :: "jsval \<Rightarrow> bool" where
  "is_number (JNum _) = True"
| "is_number _ = False"

text \<open>\<open>typeof v === 'number' && Number.isFinite(v)\<close>\<close>

fun is_finite_number :: "jsval \<Rightarrow> bool" where
  "is_finite_number (JNum n) = is_finite_num n"
| "is_finite_number _ = False"

text \<open>\<open>Number.isInteger(v)\<close>\<close>

fun is_integer :: "jsval \<Rightarrow> bool" where
  "is_integer (JNum n) = is_integer_num n"
| "is_integer _ = False"

text \<open>\<open>String(v ?? '').trim()\<close>, the normalisation most of the program's inputs go through. The services
  apply it to texts, numbers and columns of the database; what they do with a request in which it
  throws is not modelled.\<close>

definition text_of :: "jsval \<Rightarrow> string" where
  "text_of v = trim (to_str (jelse v (JStr [])))"

text \<open>\<open>String(v || '')\<close>\<close>

definition str_or_empty :: "jsval \<Rightarrow> string" where
  "str_or_empty v = to_str (jor v (JStr []))"

lemma trim_text_of [simp]: "trim (text_of v) = text_of v"
  by (simp add: text_of_def)

lemma text_of_nullish [simp]: "text_of JUndef = []" "text_of JNull = []"
  by (simp_all add: text_of_def jelse_def)

lemma text_of_str [simp]: "text_of (JStr s) = trim s"
  by (simp add: text_of_def jelse_def)

lemma truthy_str_iff: "truthy (JStr s) \<longleftrightarrow> s \<noteq> []"
  by simp

lemma jor_simps [simp]:
  "truthy a \<Longrightarrow> jor a b = a" "\<not> truthy a \<Longrightarrow> jor a b = b"
  by (simp_all add: jor_def)

lemma jelse_simps [simp]:
  "is_nullish a \<Longrightarrow> jelse a b = b" "\<not> is_nullish a \<Longrightarrow> jelse a b = a"
  by (simp_all add: jelse_def)

lemma is_finite_number_cases:
  assumes "is_finite_number v"
  obtains r where "v = JNum (Fin r)"
  using assms by (cases v rule: is_finite_number.cases; cases "to_num v") auto

lemma is_finite_number_to_num:
  "is_finite_number v \<longleftrightarrow> is_number v \<and> is_finite_num (to_num v)"
  by (cases v) auto

section \<open>Calendar dates\<close>

text \<open>
  Days of the proleptic Gregorian calendar, for the functions that check a \<open>YYYY-MM-DD\<close> string by
  parsing it with \<open>new Date(... 'T00:00:00Z')\<close> and printing it back: the string survives exactly
  when it names a day of the calendar.
\<close>

definition leap_year :: "int \<Rightarrow> bool" where
  "leap_year y = (y mod 4 = 0 \<and> (y mod 100 \<noteq> 0 \<or> y mod 400 = 0))"

definition month_days :: "int \<Rightarrow> int \<Rightarrow> int" where
  "month_days y m =
     (if m = 2 then if leap_year y then 29 else 28
      else if m \<in> {4, 6, 9, 11} then 30 else 31)"

definition is_calendar_date :: "string \<Rightarrow> bool" where
  "is_calendar_date s =
     (is_date_shape s \<and>
      (let y = digits_val (take 4 s); m = digits_val (slice 5 7 s); d = digits_val (slice 8 10 s)
       in 1 \<le> m \<and> m \<le> 12 \<and> 1 \<le> d \<and> d \<le> month_days y m))"

end
