(* ===== verification/Carbon_Units.thy ===== *)
theory Carbon_Units
  imports Js_Value
begin

text \<open>
  \<open>modules/carbon/core/units.js\<close> and \<open>normalization.js\<close>: unit conversion, the rounding of results,
  token normalisation, and the normalisation of a calculation request.
\<close>

section \<open>Unit conversion\<close>

definition unit_conversions :: "(string \<times> props) list" where
  "unit_conversions =
     (let n = \<lambda>r. JNum (num_of r) in
     [(''mass'', [(''kg'', n 1), (''g'', n (1 / 1000)), (''tonne'', n 1000), (''t'', n 1000)]),
      (''energy'', [(''kWh'', n 1), (''Wh'', n (1 / 1000)), (''MWh'', n 1000)]),
      (''fuelVolume'', [(''L'', n 1), (''l'', n 1), (''mL'', n (1 / 1000))]),
      (''distance'', [(''km'', n 1), (''m'', n (1 / 1000)), (''mi'', n (1609344 / 1000000))]),
      (''freightActivity'', [(''tonne.km'', n 1), (''tkm'', n 1)])])"

text \<open>\<open>UNIT_CONVERSIONS[quantityType]?.[unit]\<close>\<close>

definition unit_conversion :: "string \<Rightarrow> jsval \<Rightarrow> jsval" where
  "unit_conversion quantity unit =
     (case map_of unit_conversions quantity of
        None \<Rightarrow> JUndef | Some units \<Rightarrow> table_get units (to_str unit))"

definition convert_to_canonical :: "jsval \<Rightarrow> jsval \<Rightarrow> string \<Rightarrow> js_error + jnum" where
  "convert_to_canonical v unit quantity =
     (if \<not> is_finite_number v then Inl (Type_Error (quantity @ '' value must be a finite number''))
      else if to_num v < 0 then Inl (Type_Error (quantity @ '' value cannot be negative''))
      else if \<not> truthy unit then Inl (Type_Error (quantity @ '' unit is required''))
      else if \<not> coercible unit then Inl cannot_convert
      else let conversion = unit_conversion quantity unit
           in if \<not> truthy conversion
              then Inl (Type_Error (''Unsupported '' @ quantity @ '' unit: '' @ to_str unit))
              else Inr (to_num v * to_num conversion))"

definition canonical_or_converted ::
  "jsval \<Rightarrow> jsval \<Rightarrow> jsval \<Rightarrow> string \<Rightarrow> js_error + jsval" where
  "canonical_or_converted canonical v unit quantity =
     (if canonical \<noteq> JUndef then Inr canonical
      else if v = JUndef then Inr canonical
      else bind_result (convert_to_canonical v unit quantity) (\<lambda>n. Inr (JNum n)))"

section \<open>Rounding, clamping, summing\<close>

definition epsilon :: jnum where
  "epsilon = Fin (1 / 2 ^ 52)"

definition round_per_product :: "jnum \<Rightarrow> jnum" where
  "round_per_product v = math_round ((math_max 0 v + epsilon) * Fin 1000) / Fin 1000"

definition round_batch :: "jnum \<Rightarrow> jnum" where
  "round_batch v = math_round ((math_max 0 v + epsilon) * Fin 100) / Fin 100"

definition clamp :: "jnum \<Rightarrow> jnum \<Rightarrow> jnum \<Rightarrow> jnum" where
  "clamp v lo hi = math_min hi (math_max lo v)"

definition sum_values :: "jnum list \<Rightarrow> jnum" where
  "sum_values vs = foldl (+) 0 vs"

definition dedupe_messages :: "string list \<Rightarrow> string list" where
  "dedupe_messages ms = dedupe ms"

text \<open>
  Canonical decomposition, then removal of the combining marks and of everything that is not a
  letter or digit: on Latin-1, the accented letters keep their base letter.
\<close>

definition base_letter :: "char \<Rightarrow> char" where
  "base_letter c =
     (let n = code c
      in if 224 \<le> n \<and> n \<le> 229 then CHR ''a'' else if n = 231 then CHR ''c''
         else if 232 \<le> n \<and> n \<le> 235 then CHR ''e'' else if 236 \<le> n \<and> n \<le> 239 then CHR ''i''
         else if n = 241 then CHR ''n'' else if 242 \<le> n \<and> n \<le> 246 then CHR ''o''
         else if 249 \<le> n \<and> n \<le> 252 then CHR ''u'' else if n = 253 \<or> n = 255 then CHR ''y'' else c)"

definition token_of :: "string \<Rightarrow> string" where
  "token_of s = filter (\<lambda>c. is_lower_az c \<or> is_digit c) (map base_letter (lower (trim s)))"

definition normalize_token :: "jsval \<Rightarrow> js_error + string" where
  "normalize_token v = bind_result (js_string (jor v (JStr []))) (\<lambda>s. Inr (token_of s))"

section \<open>Normalisation of a request\<close>

text \<open>\<open>{ ...item, key: canonicalOrConverted(item.key, item.value, item.unit, quantity) }\<close>\<close>

definition put_canonical :: "string \<Rightarrow> string \<Rightarrow> string \<Rightarrow> string \<Rightarrow> props \<Rightarrow> js_error + props" where
  "put_canonical key vkey ukey quantity ps =
     bind_result (canonical_or_converted (own ps key) (own ps vkey) (own ps ukey) quantity)
       (\<lambda>c. Inr (alist_put key c ps))"

text \<open>The items of an array; reading \<open>item.weightKg\<close> throws when the item is null or undefined.\<close>

definition canonical_item :: "string \<Rightarrow> string \<Rightarrow> string \<Rightarrow> string \<Rightarrow> jsval \<Rightarrow> js_error + jsval" where
  "canonical_item key vkey ukey quantity item =
     (if is_nullish item
      then Inl (Type_Error (''Cannot read properties of '' @ to_str item))
      else bind_result (put_canonical key vkey ukey quantity (spread item)) (\<lambda>ps. Inr (JObj ps)))"

definition copy_item :: "jsval \<Rightarrow> jsval" where
  "copy_item item = JObj (spread item)"

text \<open>\<open>{ ...input, unitMassKg, materials, accessories, packaging, ... }\<close>\<close>

definition put_request ::
  "jsval list \<Rightarrow> jsval list \<Rightarrow> jsval \<Rightarrow> jsval list \<Rightarrow> jsval list \<Rightarrow> jsval list \<Rightarrow> props \<Rightarrow> props" where
  "put_request materials accessories packaging processes energy transport ps =
     put_all [(''materials'', JArr materials), (''accessories'', JArr accessories),
              (''packaging'', packaging), (''processFactorIds'', JArr processes),
              (''energyMix'', JArr energy), (''transport'', JArr transport)] ps"

definition normalize_carbon_input :: "jsval \<Rightarrow> js_error + jsval" where
  "normalize_carbon_input input =
     (if is_nullish input then Inl (Type_Error ''Cannot read properties of the input'')
      else let ps = spread input in
        bind_result (put_canonical ''unitMassKg'' ''unitMass'' ''unitMassUnit'' ''mass'' ps) (\<lambda>ps1.
        bind_result (traverse (canonical_item ''weightKg'' ''weight'' ''weightUnit'' ''mass'')
                       (elements (own ps ''accessories''))) (\<lambda>accessories.
        bind_result (if truthy (own ps ''packaging'')
                     then canonical_item ''weightKg'' ''weight'' ''weightUnit'' ''mass''
                            (own ps ''packaging'')
                     else Inr JNull) (\<lambda>packaging.
        bind_result (traverse (canonical_item ''distanceKm'' ''distance'' ''distanceUnit'' ''distance'')
                       (elements (own ps ''transport''))) (\<lambda>transport.
        Inr (JObj (put_request
          (map copy_item (elements (own ps ''materials''))) accessories packaging
          (elements (own ps ''processFactorIds''))
          (map copy_item (elements (own ps ''energyMix''))) transport ps1)))))))"

section \<open>Properties\<close>

subsection \<open>Rounding\<close>

lemma epsilon_not_negative [simp, num_intros]: "not_negative epsilon"
  by (simp add: epsilon_def)

lemma round_per_product_not_negative [simp, num_intros]: "not_negative (round_per_product v)"
  unfolding round_per_product_def by (intro num_intros) simp_all

lemma round_batch_not_negative [simp, num_intros]: "not_negative (round_batch v)"
  unfolding round_batch_def by (intro num_intros) simp_all

lemma round_per_product_mono: "a \<le> b \<Longrightarrow> round_per_product a \<le> round_per_product b"
  unfolding round_per_product_def epsilon_def
  by (intro div_right_mono_num math_round_mono mul_right_mono_num add_right_mono_num math_max_mono)
     (simp_all add: num_simps)

lemma clamp_bounds:
  assumes "clamp v lo hi \<noteq> NaN" and "lo \<le> hi"
  shows "lo \<le> clamp v lo hi" and "clamp v lo hi \<le> hi"
  using assms
  by (cases v; cases lo; cases hi; auto simp: clamp_def math_min_def math_max_def num_simps)+

lemma clamp_not_negative: "not_negative lo \<Longrightarrow> not_negative hi \<Longrightarrow> not_negative (clamp v lo hi)"
  by (cases v; cases lo; cases hi) (auto simp: clamp_def math_min_def math_max_def num_simps)

lemma normalize_token_Inr: "coercible v \<Longrightarrow> normalize_token v = Inr (token_of (str_or_empty v))"
  by (simp add: normalize_token_def str_or_empty_def)

subsection \<open>Unit conversion\<close>

lemma inherited_to_num [simp]: "to_num (inherited_member k) = NaN"
  by (simp add: inherited_member_def)

lemma unit_conversions_not_negative:
  "(q, units) \<in> set unit_conversions \<Longrightarrow> (u, v) \<in> set units \<Longrightarrow> not_negative (to_num v)"
  by (auto simp: unit_conversions_def Let_def num_of_nonneg)

lemma table_get_to_num:
  assumes "\<And>v. (k, v) \<in> set t \<Longrightarrow> P (to_num v)" and "P NaN"
  shows "P (to_num (table_get t k))"
  using assms by (auto simp: table_get_def split: option.split dest: map_of_SomeD)

lemma unit_conversion_not_negative: "not_negative (to_num (unit_conversion q u))"
proof (cases "map_of unit_conversions q")
  case None
  then show ?thesis by (simp add: unit_conversion_def)
next
  case (Some units)
  note units = unit_conversions_not_negative [OF map_of_SomeD [OF Some]]
  have "not_negative (to_num (table_get units (to_str u)))"
    by (rule table_get_to_num [where P = not_negative]) (erule units, simp)
  with Some show ?thesis by (simp add: unit_conversion_def)
qed

lemma convert_not_negative:
  "convert_to_canonical v unit q = Inr n \<Longrightarrow> not_negative n"
  by (auto simp: convert_to_canonical_def not_negative_less [symmetric] Let_def
      split: if_splits intro!: not_negative_mul unit_conversion_not_negative)

subsection \<open>Normalising twice is normalising once\<close>

lemma own_put_canonical:
  assumes "put_canonical key vkey ukey q ps = Inr ps'"
  obtains c where "ps' = alist_put key c ps"
    and "canonical_or_converted (own ps key) (own ps vkey) (own ps ukey) q = Inr c"
  using assms by (auto simp: put_canonical_def)

lemma canonical_again:
  assumes "canonical_or_converted c0 v u q = Inr c"
  shows "canonical_or_converted c v u q = Inr c"
  using assms by (auto simp: canonical_or_converted_def split: if_splits)

lemma alist_put_put [simp]: "alist_put k v (alist_put k w ps) = alist_put k v ps"
  by (induction k v ps rule: alist_put.induct) auto

lemma put_canonical_idem:
  assumes "put_canonical key vkey ukey q ps = Inr ps'" and "vkey \<noteq> key" and "ukey \<noteq> key"
  shows "put_canonical key vkey ukey q ps' = Inr ps'"
  using assms by (auto simp: put_canonical_def dest: canonical_again)

lemma put_canonical_fixed:
  "put_canonical key vkey ukey q ps = Inr ps \<longleftrightarrow>
   canonical_or_converted (own ps key) (own ps vkey) (own ps ukey) q = Inr (own ps key)
   \<and> map_of ps key = Some (own ps key)"
proof
  assume "put_canonical key vkey ukey q ps = Inr ps"
  then obtain c where ps: "ps = alist_put key c ps"
    and c: "canonical_or_converted (own ps key) (own ps vkey) (own ps ukey) q = Inr c"
    by (rule own_put_canonical)
  from ps have "map_of ps key = Some c" by (metis map_of_alist_put fun_upd_same)
  with c show "canonical_or_converted (own ps key) (own ps vkey) (own ps ukey) q = Inr (own ps key)
    \<and> map_of ps key = Some (own ps key)"
    by (simp add: own_def)
qed (simp add: put_canonical_def alist_put_same)

lemma canonical_item_idem:
  assumes "canonical_item key vkey ukey q v = Inr w" and "vkey \<noteq> key" and "ukey \<noteq> key"
  shows "canonical_item key vkey ukey q w = Inr w"
  using assms put_canonical_idem
  by (auto simp: canonical_item_def split: if_splits)

lemma copy_item_idem [simp]: "copy_item (copy_item v) = copy_item v"
  by (simp add: copy_item_def)

lemma canonical_items_idem:
  assumes "traverse (canonical_item key vkey ukey q) vs = Inr ws"
    and "vkey \<noteq> key" and "ukey \<noteq> key"
  shows "traverse (canonical_item key vkey ukey q) ws = Inr ws"
  using traverse_idem [OF assms(1)] canonical_item_idem [OF _ assms(2,3)] by blast

lemma canonical_item_truthy: "canonical_item key vkey ukey q v = Inr w \<Longrightarrow> truthy w"
  by (auto simp: canonical_item_def split: if_splits)

text \<open>The fields of the normalised request.\<close>

lemma put_request_lookup:
  "map_of (put_request ms acs pk fs es ts ps) ''materials'' = Some (JArr ms)"
  "map_of (put_request ms acs pk fs es ts ps) ''accessories'' = Some (JArr acs)"
  "map_of (put_request ms acs pk fs es ts ps) ''packaging'' = Some pk"
  "map_of (put_request ms acs pk fs es ts ps) ''processFactorIds'' = Some (JArr fs)"
  "map_of (put_request ms acs pk fs es ts ps) ''energyMix'' = Some (JArr es)"
  "map_of (put_request ms acs pk fs es ts ps) ''transport'' = Some (JArr ts)"
  by (simp_all add: put_request_def)

lemma put_request_unit_mass:
  "map_of (put_request ms acs pk fs es ts ps) ''unitMassKg'' = map_of ps ''unitMassKg''"
  "own (put_request ms acs pk fs es ts ps) ''unitMass'' = own ps ''unitMass''"
  "own (put_request ms acs pk fs es ts ps) ''unitMassUnit'' = own ps ''unitMassUnit''"
  by (simp_all add: put_request_def own_def)

lemma own_map_of: "map_of ps k = Some v \<Longrightarrow> own ps k = v"
  by (simp add: own_def)

lemmas put_request_own = put_request_lookup [THEN own_map_of]

lemma put_request_again:
  "put_request ms acs pk fs es ts (put_request ms acs pk fs es ts ps)
   = put_request ms acs pk fs es ts ps"
  using put_request_lookup [of ms acs pk fs es ts ps]
  by (subst put_request_def) (intro put_all_same; auto)

lemma normalize_elim:
  assumes "normalize_carbon_input i = Inr n"
  obtains ps ms acs pk fs es ts where
    "n = JObj (put_request (map copy_item ms) acs pk fs (map copy_item es) ts ps)"
    "traverse (canonical_item ''weightKg'' ''weight'' ''weightUnit'' ''mass'') acs = Inr acs"
    "(if truthy pk then canonical_item ''weightKg'' ''weight'' ''weightUnit'' ''mass'' pk
      else Inr JNull) = Inr pk"
    "traverse (canonical_item ''distanceKm'' ''distance'' ''distanceUnit'' ''distance'') ts = Inr ts"
    "put_canonical ''unitMassKg'' ''unitMass'' ''unitMassUnit'' ''mass'' ps = Inr ps"
proof -
  let ?weigh = "canonical_item ''weightKg'' ''weight'' ''weightUnit'' ''mass''"
  from assms obtain ps acs pk ts where
    n: "n = JObj (put_request (map copy_item (elements (own (spread i) ''materials''))) acs pk
                  (elements (own (spread i) ''processFactorIds''))
                  (map copy_item (elements (own (spread i) ''energyMix''))) ts ps)"
    and unit: "put_canonical ''unitMassKg'' ''unitMass'' ''unitMassUnit'' ''mass'' (spread i) = Inr ps"
    and acs: "traverse ?weigh (elements (own (spread i) ''accessories'')) = Inr acs"
    and pk: "(if truthy (own (spread i) ''packaging'') then ?weigh (own (spread i) ''packaging'')
              else Inr JNull) = Inr pk"
    and ts: "traverse (canonical_item ''distanceKm'' ''distance'' ''distanceUnit'' ''distance'')
              (elements (own (spread i) ''transport'')) = Inr ts"
    by (auto simp: normalize_carbon_input_def Let_def split: if_split_asm)
  from pk have "(if truthy pk then ?weigh pk else Inr JNull) = Inr pk"
    by (auto split: if_split_asm dest: canonical_item_truthy intro: canonical_item_idem)
  then show thesis
    using n canonical_items_idem [OF acs] canonical_items_idem [OF ts] put_canonical_idem [OF unit]
    by (intro that) simp_all
qed

lemma normalize_again:
  assumes "normalize_carbon_input i = Inr n"
  shows "normalize_carbon_input n = Inr n"
  using assms
proof (rule normalize_elim)
  fix ps ms acs pk fs es ts
  let ?qs = "put_request (map copy_item ms) acs pk fs (map copy_item es) ts ps"
  assume n: "n = JObj ?qs"
    and acs: "traverse (canonical_item ''weightKg'' ''weight'' ''weightUnit'' ''mass'') acs = Inr acs"
    and pk: "(if truthy pk then canonical_item ''weightKg'' ''weight'' ''weightUnit'' ''mass'' pk
              else Inr JNull) = Inr pk"
    and ts: "traverse (canonical_item ''distanceKm'' ''distance'' ''distanceUnit'' ''distance'') ts
             = Inr ts"
    and unit: "put_canonical ''unitMassKg'' ''unitMass'' ''unitMassUnit'' ''mass'' ps = Inr ps"
  have "put_canonical ''unitMassKg'' ''unitMass'' ''unitMassUnit'' ''mass'' ?qs = Inr ?qs"
    using unit by (auto simp: put_canonical_fixed put_request_unit_mass own_def [of _ "''unitMassKg''"])
  with pk show ?thesis
    by (cases "truthy pk")
       (simp_all add: n normalize_carbon_input_def Let_def put_request_own acs ts
         put_request_again comp_def)
qed

end
