(* ===== verification/Factors_V1.thy ===== *)
theory Factors_V1
  imports Js_Value
begin

text \<open>
  \<open>modules/carbon/core/factors.v1.json\<close>: the emission factors the calculation ships with. Every entry
  has the same fields; \<open>year\<close> and \<open>validFrom\<close>, which five of them have, are listed last. Dashes,
  subscript digits and the trade mark sign of the labels and sources are written in ASCII.
\<close>

definition quality_scores :: "int list \<Rightarrow> jsval" where
  "quality_scores ns =
     JObj (zip [''technologicalRepresentativeness'', ''temporalRepresentativeness'',
                ''geographicalRepresentativeness'', ''completeness'', ''reliability'']
               (map (\<lambda>n. JNum (Fin (of_int n))) ns))"

type_synonym factor_row =
  "string \<times> string \<times> string \<times> rat \<times> string \<times> string \<times> string \<times> string \<times> bool \<times>
   string \<times> string \<times> string \<times> props \<times> int list \<times> rat"

fun factor_entry :: "factor_row \<Rightarrow> jsval" where
  "factor_entry
     (i, label, unit, v, source, url, geography, quality, proxy, boundary, cls, gwp, dates, scores, cv) =
     JObj ([(''id'', JStr i), (''label'', JStr label), (''unit'', JStr unit),
       (''value'', JNum (num_of v)), (''source'', JStr source), (''sourceUrl'', JStr url),
       (''geography'', JStr geography), (''quality'', JStr quality), (''isProxy'', JBool proxy),
       (''boundaryType'', JStr boundary), (''factorClass'', JStr cls),
       (''factorVersionId'', JStr (i @ '':v1'')), (''gwpBasis'', JStr gwp),
       (''qualityScores'', quality_scores scores), (''uncertaintyCv'', JNum (num_of cv))] @ dates)"

definition factor_rows :: "factor_row list" where
  "factor_rows = [
     (''cat-cotton-100'', ''100% Cotton'', ''kgCO2e/kg'', 8,
      ''MADE-BY Benchmark 2019 + Textile Exchange Fiber Report 2022 - conventional cotton cradle-to-gate'',
      ''https://textileexchange.org/app/uploads/2022/11/Textile-Exchange_Preferred-Fiber-Materials-Market-Report_2022.pdf'',
      ''generic'', ''documented_secondary'', False, ''cradle_to_gate'',
      ''documented_secondary'', ''IPCC_AR5_100y'', [], [2, 2, 2, 2, 2], (1 / 5)),
     (''cat-cotton-organic'', ''Organic Cotton'', ''kgCO2e/kg'', (9 / 2),
      ''Textile Exchange Organic Cotton LCA 2022 - organic cotton cradle-to-gate'',
      ''https://textileexchange.org/app/uploads/2022/11/Textile-Exchange_Preferred-Fiber-Materials-Market-Report_2022.pdf'',
      ''generic'', ''documented_secondary'', False, ''cradle_to_gate'',
      ''documented_secondary'', ''IPCC_AR5_100y'', [], [2, 2, 2, 2, 2], (1 / 5)),
     (''cat-cotton-recycled'', ''Recycled Cotton'', ''kgCO2e/kg'', (16 / 5),
      ''Textile Exchange Recycled Cotton LCA 2022 - mechanically recycled'',
      ''https://textileexchange.org/app/uploads/2022/11/Textile-Exchange_Preferred-Fiber-Materials-Market-Report_2022.pdf'',
      ''generic'', ''documented_secondary'', False, ''cradle_to_gate'',
      ''documented_secondary'', ''IPCC_AR5_100y'', [], [2, 2, 2, 2, 2], (1 / 5)),
     (''cat-polyester-100'', ''100% Polyester'', ''kgCO2e/kg'', (11 / 2),
      ''MADE-BY Benchmark 2019 + Ecoinvent 3.10 - virgin PET fiber cradle-to-gate'',
      ''https://textileexchange.org/app/uploads/2022/11/Textile-Exchange_Preferred-Fiber-Materials-Market-Report_2022.pdf'',
      ''generic'', ''documented_secondary'', False, ''cradle_to_gate'',
      ''documented_secondary'', ''IPCC_AR5_100y'', [], [2, 2, 2, 2, 2], (1 / 5)),
     (''cat-polyester-recycled'', ''Recycled Polyester (rPET)'', ''kgCO2e/kg'', (5 / 2),
      ''Textile Exchange rPET LCA 2022 - bottle-to-fiber recycled polyester'',
      ''https://textileexchange.org/app/uploads/2022/11/Textile-Exchange_Preferred-Fiber-Materials-Market-Report_2022.pdf'',
      ''generic'', ''documented_secondary'', False, ''cradle_to_gate'',
      ''documented_secondary'', ''IPCC_AR5_100y'', [], [2, 2, 2, 2, 2], (1 / 5)),
     (''cat-wool-100'', ''100% Wool'', ''kgCO2e/kg'', 27,
      ''Textile Exchange Fiber Report 2022 + MADE-BY Benchmark - conventional wool, includes enteric fermentation (CH4). Range 20-36 kgCO2e/kg.'',
      ''https://textileexchange.org/app/uploads/2022/11/Textile-Exchange_Preferred-Fiber-Materials-Market-Report_2022.pdf'',
      ''generic'', ''documented_secondary'', False, ''cradle_to_gate'',
      ''documented_secondary'', ''IPCC_AR5_100y'', [], [2, 2, 2, 2, 2], (1 / 5)),
     (''cat-wool-merino'', ''Merino Wool'', ''kgCO2e/kg'', 25,
      ''Textile Exchange Fiber Report 2022 - merino wool NZ/AUS origin, includes enteric fermentation. Range 20-35 kgCO2e/kg.'',
      ''https://textileexchange.org/app/uploads/2022/11/Textile-Exchange_Preferred-Fiber-Materials-Market-Report_2022.pdf'',
      ''generic'', ''documented_secondary'', False, ''cradle_to_gate'',
      ''documented_secondary'', ''IPCC_AR5_100y'', [], [2, 2, 2, 2, 2], (1 / 5)),
     (''cat-silk-100'', ''100% Silk'', ''kgCO2e/kg'', 35,
      ''Wang et al. (2021) LCA of silk production, China origin + Ecoinvent 3.10. Includes mulberry cultivation and reeling. Range 10-70 kgCO2e/kg.'',
      ''https://ghgprotocol.org/sites/default/files/standards/Product-Life-Cycle-Accounting-Reporting-Standard_041613.pdf'',
      ''generic'', ''documented_secondary'', False, ''cradle_to_gate'',
      ''documented_secondary'', ''IPCC_AR5_100y'', [], [2, 2, 2, 2, 2], (1 / 5)),
     (''cat-linen-100'', ''100% Linen'', ''kgCO2e/kg'', (26 / 5),
      ''MADE-BY Benchmark 2019 - European linen (flax) cradle-to-gate'',
      ''https://textileexchange.org/app/uploads/2022/11/Textile-Exchange_Preferred-Fiber-Materials-Market-Report_2022.pdf'',
      ''generic'', ''documented_secondary'', False, ''cradle_to_gate'',
      ''documented_secondary'', ''IPCC_AR5_100y'', [], [2, 2, 2, 2, 2], (1 / 5)),
     (''cat-nylon-100'', ''100% Nylon'', ''kgCO2e/kg'', (34 / 5),
      ''MADE-BY Benchmark 2019 - virgin nylon 6 cradle-to-gate'',
      ''https://textileexchange.org/app/uploads/2022/11/Textile-Exchange_Preferred-Fiber-Materials-Market-Report_2022.pdf'',
      ''generic'', ''documented_secondary'', False, ''cradle_to_gate'',
      ''documented_secondary'', ''IPCC_AR5_100y'', [], [2, 2, 2, 2, 2], (1 / 5)),
     (''cat-nylon-recycled'', ''Recycled Nylon'', ''kgCO2e/kg'', (7 / 2),
      ''Textile Exchange 2022 - recycled nylon (Econyl process)'',
      ''https://textileexchange.org/app/uploads/2022/11/Textile-Exchange_Preferred-Fiber-Materials-Market-Report_2022.pdf'',
      ''generic'', ''documented_secondary'', False, ''cradle_to_gate'',
      ''documented_secondary'', ''IPCC_AR5_100y'', [], [2, 2, 2, 2, 2], (1 / 5)),
     (''cat-bamboo'', ''Bamboo Fabric'', ''kgCO2e/kg'', (11 / 2),
      ''Textile Exchange Fiber Report 2022 - bamboo viscose/lyocell (chemical process); cradle-to-gate'',
      ''https://textileexchange.org/app/uploads/2022/11/Textile-Exchange_Preferred-Fiber-Materials-Market-Report_2022.pdf'',
      ''generic'', ''documented_secondary'', False, ''cradle_to_gate'',
      ''documented_secondary'', ''IPCC_AR5_100y'', [], [2, 2, 2, 2, 2], (1 / 5)),
     (''cat-hemp'', ''Hemp Fabric'', ''kgCO2e/kg'', (7 / 2),
      ''Textile Exchange 2022 - mechanically processed hemp fiber, cradle-to-gate'',
      ''https://textileexchange.org/app/uploads/2022/11/Textile-Exchange_Preferred-Fiber-Materials-Market-Report_2022.pdf'',
      ''generic'', ''documented_secondary'', False, ''cradle_to_gate'',
      ''documented_secondary'', ''IPCC_AR5_100y'', [], [2, 2, 2, 2, 2], (1 / 5)),
     (''cat-tencel'', ''Tencel/Lyocell'', ''kgCO2e/kg'', (7 / 2),
      ''Lenzing AG Environmental Product Declaration (EPD) 2022 - TENCEL(TM) Lyocell closed-loop'',
      ''https://textileexchange.org/app/uploads/2022/11/Textile-Exchange_Preferred-Fiber-Materials-Market-Report_2022.pdf'',
      ''generic'', ''documented_secondary'', False, ''cradle_to_gate'',
      ''documented_secondary'', ''IPCC_AR5_100y'', [], [2, 2, 2, 2, 2], (1 / 5)),
     (''cat-viscose'', ''Viscose/Rayon'', ''kgCO2e/kg'', (21 / 5),
      ''Ecoinvent 3.10 - viscose (rayon) fiber, generic cradle-to-gate'',
      ''https://ghgprotocol.org/sites/default/files/standards/Product-Life-Cycle-Accounting-Reporting-Standard_041613.pdf'',
      ''generic'', ''documented_secondary'', False, ''cradle_to_gate'',
      ''documented_secondary'', ''IPCC_AR5_100y'', [], [2, 2, 2, 2, 2], (1 / 5)),
     (''cat-acrylic'', ''Acrylic'', ''kgCO2e/kg'', 5,
      ''Ecoinvent 3.10 - acrylic fiber cradle-to-gate'',
      ''https://ghgprotocol.org/sites/default/files/standards/Product-Life-Cycle-Accounting-Reporting-Standard_041613.pdf'',
      ''generic'', ''documented_secondary'', False, ''cradle_to_gate'',
      ''documented_secondary'', ''IPCC_AR5_100y'', [], [2, 2, 2, 2, 2], (1 / 5)),
     (''cat-leather-genuine'', ''Genuine Leather'', ''kgCO2e/kg'', 17,
      ''FAO/UNEP 2021 co-product allocation (economic) - bovine leather, tanning included. Range 15-20 kgCO2e/kg with economic allocation.'',
      ''https://ghgprotocol.org/sites/default/files/standards/Product-Life-Cycle-Accounting-Reporting-Standard_041613.pdf'',
      ''generic'', ''documented_secondary'', False, ''cradle_to_gate'',
      ''documented_secondary'', ''IPCC_AR5_100y'', [], [2, 2, 2, 2, 2], (1 / 5)),
     (''cat-leather-faux'', ''Faux Leather/PU'', ''kgCO2e/kg'', 7,
      ''Ecoinvent 3.10 - polyurethane coated fabric (PU faux leather)'',
      ''https://ghgprotocol.org/sites/default/files/standards/Product-Life-Cycle-Accounting-Reporting-Standard_041613.pdf'',
      ''generic'', ''internal_proxy'', True, ''cradle_to_gate'',
      ''internal_proxy'', ''IPCC_AR5_100y'', [], [4, 3, 4, 3, 4], (7 / 20)),
     (''cat-down'', ''Down Feather'', ''kgCO2e/kg'', 23,
      ''Higg MSI 2023 - down feather (waterfowl), co-product allocation. Range 18-30 kgCO2e/kg.'',
      ''https://apparelcoalition.org/the-higg-index/'',
      ''generic'', ''documented_secondary'', False, ''cradle_to_gate'',
      ''documented_secondary'', ''IPCC_AR5_100y'', [], [2, 2, 2, 2, 2], (1 / 5)),
     (''cat-faux-fur'', ''Faux Fur'', ''kgCO2e/kg'', (17 / 2),
      ''WeaveCarbon proxy - acrylic-based faux fur, aligned with acrylic fiber LCA'',
      ''https://ghgprotocol.org/sites/default/files/standards/Product-Life-Cycle-Accounting-Reporting-Standard_041613.pdf'',
      ''generic'', ''internal_proxy'', True, ''cradle_to_gate'',
      ''internal_proxy'', ''IPCC_AR5_100y'', [], [4, 3, 4, 3, 4], (7 / 20)),
     (''cat-canvas-cotton'', ''Cotton Canvas'', ''kgCO2e/kg'', 9,
      ''WeaveCarbon internal proxy catalog - literature-aligned estimate'',
      ''https://ghgprotocol.org/sites/default/files/standards/Product-Life-Cycle-Accounting-Reporting-Standard_041613.pdf'',
      ''generic'', ''internal_proxy'', True, ''cradle_to_gate'',
      ''internal_proxy'', ''IPCC_AR5_100y'', [], [4, 3, 4, 3, 4], (7 / 20)),
     (''cat-blend-cotton-poly'', ''Cotton/Polyester Blend'', ''kgCO2e/kg'', (13 / 2),
      ''WeaveCarbon internal proxy catalog - literature-aligned estimate'',
      ''https://ghgprotocol.org/sites/default/files/standards/Product-Life-Cycle-Accounting-Reporting-Standard_041613.pdf'',
      ''generic'', ''internal_proxy'', True, ''cradle_to_gate'',
      ''internal_proxy'', ''IPCC_AR5_100y'', [], [4, 3, 4, 3, 4], (7 / 20)),
     (''cat-blend-wool-poly'', ''Wool/Polyester Blend'', ''kgCO2e/kg'', (15 / 2),
      ''WeaveCarbon internal proxy catalog - literature-aligned estimate'',
      ''https://ghgprotocol.org/sites/default/files/standards/Product-Life-Cycle-Accounting-Reporting-Standard_041613.pdf'',
      ''generic'', ''internal_proxy'', True, ''cradle_to_gate'',
      ''internal_proxy'', ''IPCC_AR5_100y'', [], [4, 3, 4, 3, 4], (7 / 20)),
     (''cat-zipper-metal'', ''Metal Zipper'', ''kgCO2e/kg'', 12,
      ''WeaveCarbon internal proxy catalog - literature-aligned estimate'',
      ''https://ghgprotocol.org/sites/default/files/standards/Product-Life-Cycle-Accounting-Reporting-Standard_041613.pdf'',
      ''generic'', ''internal_proxy'', True, ''cradle_to_gate'',
      ''internal_proxy'', ''IPCC_AR5_100y'', [], [4, 3, 4, 3, 4], (7 / 20)),
     (''cat-zipper-plastic'', ''Plastic Zipper'', ''kgCO2e/kg'', 4,
      ''WeaveCarbon internal proxy catalog - literature-aligned estimate'',
      ''https://ghgprotocol.org/sites/default/files/standards/Product-Life-Cycle-Accounting-Reporting-Standard_041613.pdf'',
      ''generic'', ''internal_proxy'', True, ''cradle_to_gate'',
      ''internal_proxy'', ''IPCC_AR5_100y'', [], [4, 3, 4, 3, 4], (7 / 20)),
     (''cat-zipper-nylon'', ''Nylon Zipper'', ''kgCO2e/kg'', 5,
      ''WeaveCarbon internal proxy catalog - literature-aligned estimate'',
      ''https://ghgprotocol.org/sites/default/files/standards/Product-Life-Cycle-Accounting-Reporting-Standard_041613.pdf'',
      ''generic'', ''internal_proxy'', True, ''cradle_to_gate'',
      ''internal_proxy'', ''IPCC_AR5_100y'', [], [4, 3, 4, 3, 4], (7 / 20)),
     (''cat-button-plastic'', ''Plastic Button'', ''kgCO2e/kg'', (7 / 2),
      ''WeaveCarbon internal proxy catalog - literature-aligned estimate'',
      ''https://ghgprotocol.org/sites/default/files/standards/Product-Life-Cycle-Accounting-Reporting-Standard_041613.pdf'',
      ''generic'', ''internal_proxy'', True, ''cradle_to_gate'',
      ''internal_proxy'', ''IPCC_AR5_100y'', [], [4, 3, 4, 3, 4], (7 / 20)),
     (''cat-button-metal'', ''Metal Button'', ''kgCO2e/kg'', 10,
      ''WeaveCarbon internal proxy catalog - literature-aligned estimate'',
      ''https://ghgprotocol.org/sites/default/files/standards/Product-Life-Cycle-Accounting-Reporting-Standard_041613.pdf'',
      ''generic'', ''internal_proxy'', True, ''cradle_to_gate'',
      ''internal_proxy'', ''IPCC_AR5_100y'', [], [4, 3, 4, 3, 4], (7 / 20)),
     (''cat-button-wood'', ''Wood Button'', ''kgCO2e/kg'', (3 / 2),
      ''WeaveCarbon internal proxy catalog - literature-aligned estimate'',
      ''https://ghgprotocol.org/sites/default/files/standards/Product-Life-Cycle-Accounting-Reporting-Standard_041613.pdf'',
      ''generic'', ''internal_proxy'', True, ''cradle_to_gate'',
      ''internal_proxy'', ''IPCC_AR5_100y'', [], [4, 3, 4, 3, 4], (7 / 20)),
     (''cat-button-shell'', ''Shell Button'', ''kgCO2e/kg'', 2,
      ''WeaveCarbon internal proxy catalog - literature-aligned estimate'',
      ''https://ghgprotocol.org/sites/default/files/standards/Product-Life-Cycle-Accounting-Reporting-Standard_041613.pdf'',
      ''generic'', ''internal_proxy'', True, ''cradle_to_gate'',
      ''internal_proxy'', ''IPCC_AR5_100y'', [], [4, 3, 4, 3, 4], (7 / 20)),
     (''cat-thread-polyester'', ''Polyester Thread'', ''kgCO2e/kg'', 5,
      ''WeaveCarbon internal proxy catalog - literature-aligned estimate'',
      ''https://ghgprotocol.org/sites/default/files/standards/Product-Life-Cycle-Accounting-Reporting-Standard_041613.pdf'',
      ''generic'', ''internal_proxy'', True, ''cradle_to_gate'',
      ''internal_proxy'', ''IPCC_AR5_100y'', [], [4, 3, 4, 3, 4], (7 / 20)),
     (''cat-thread-cotton'', ''Cotton Thread'', ''kgCO2e/kg'', 7,
      ''WeaveCarbon internal proxy catalog - literature-aligned estimate'',
      ''https://ghgprotocol.org/sites/default/files/standards/Product-Life-Cycle-Accounting-Reporting-Standard_041613.pdf'',
      ''generic'', ''internal_proxy'', True, ''cradle_to_gate'',
      ''internal_proxy'', ''IPCC_AR5_100y'', [], [4, 3, 4, 3, 4], (7 / 20)),
     (''cat-elastic-band'', ''Elastic Band'', ''kgCO2e/kg'', 6,
      ''WeaveCarbon internal proxy catalog - literature-aligned estimate'',
      ''https://ghgprotocol.org/sites/default/files/standards/Product-Life-Cycle-Accounting-Reporting-Standard_041613.pdf'',
      ''generic'', ''internal_proxy'', True, ''cradle_to_gate'',
      ''internal_proxy'', ''IPCC_AR5_100y'', [], [4, 3, 4, 3, 4], (7 / 20)),
     (''cat-label-woven'', ''Woven Label'', ''kgCO2e/kg'', 4,
      ''WeaveCarbon internal proxy catalog - literature-aligned estimate'',
      ''https://ghgprotocol.org/sites/default/files/standards/Product-Life-Cycle-Accounting-Reporting-Standard_041613.pdf'',
      ''generic'', ''internal_proxy'', True, ''cradle_to_gate'',
      ''internal_proxy'', ''IPCC_AR5_100y'', [], [4, 3, 4, 3, 4], (7 / 20)),
     (''cat-label-printed'', ''Printed Label'', ''kgCO2e/kg'', 2,
      ''WeaveCarbon internal proxy catalog - literature-aligned estimate'',
      ''https://ghgprotocol.org/sites/default/files/standards/Product-Life-Cycle-Accounting-Reporting-Standard_041613.pdf'',
      ''generic'', ''internal_proxy'', True, ''cradle_to_gate'',
      ''internal_proxy'', ''IPCC_AR5_100y'', [], [4, 3, 4, 3, 4], (7 / 20)),
     (''cat-lining-polyester'', ''Polyester Lining'', ''kgCO2e/kg'', 5,
      ''WeaveCarbon internal proxy catalog - literature-aligned estimate'',
      ''https://ghgprotocol.org/sites/default/files/standards/Product-Life-Cycle-Accounting-Reporting-Standard_041613.pdf'',
      ''generic'', ''internal_proxy'', True, ''cradle_to_gate'',
      ''internal_proxy'', ''IPCC_AR5_100y'', [], [4, 3, 4, 3, 4], (7 / 20)),
     (''cat-padding-polyester'', ''Polyester Padding'', ''kgCO2e/kg'', 6,
      ''WeaveCarbon internal proxy catalog - literature-aligned estimate'',
      ''https://ghgprotocol.org/sites/default/files/standards/Product-Life-Cycle-Accounting-Reporting-Standard_041613.pdf'',
      ''generic'', ''internal_proxy'', True, ''cradle_to_gate'',
      ''internal_proxy'', ''IPCC_AR5_100y'', [], [4, 3, 4, 3, 4], (7 / 20)),
     (''cat-packaging-plastic-bag'', ''PE Plastic Bag'', ''kgCO2e/kg'', 3,
      ''WeaveCarbon internal proxy catalog - literature-aligned estimate'',
      ''https://ghgprotocol.org/sites/default/files/standards/Product-Life-Cycle-Accounting-Reporting-Standard_041613.pdf'',
      ''generic'', ''internal_proxy'', True, ''cradle_to_gate'',
      ''internal_proxy'', ''IPCC_AR5_100y'', [], [4, 3, 4, 3, 4], (7 / 20)),
     (''cat-packaging-paper-box'', ''Paper Box'', ''kgCO2e/kg'', (3 / 2),
      ''WeaveCarbon internal proxy catalog - literature-aligned estimate'',
      ''https://ghgprotocol.org/sites/default/files/standards/Product-Life-Cycle-Accounting-Reporting-Standard_041613.pdf'',
      ''generic'', ''internal_proxy'', True, ''cradle_to_gate'',
      ''internal_proxy'', ''IPCC_AR5_100y'', [], [4, 3, 4, 3, 4], (7 / 20)),
     (''cat-other-generic'', ''Other Material (Proxy)'', ''kgCO2e/kg'', 6,
      ''WeaveCarbon internal proxy catalog - literature-aligned estimate'',
      ''https://ghgprotocol.org/sites/default/files/standards/Product-Life-Cycle-Accounting-Reporting-Standard_041613.pdf'',
      ''generic'', ''internal_proxy'', True, ''cradle_to_gate'',
      ''internal_proxy'', ''IPCC_AR5_100y'', [], [4, 3, 4, 3, 4], (7 / 20)),
     (''energy-grid-vn-2023'', ''Vietnam grid electricity 2023'', ''kgCO2e/kWh'', (412 / 625),
      ''Vietnam DCC 2023 grid emission factor'',
      ''https://www.climatechange.vn/climate_news/viet-nams-2023-updated-grid-emission-factor-signifies-lower-electricity-emissions/'',
      ''Vietnam'', ''documented_secondary'', False, ''cradle_to_gate'',
      ''documented_secondary'', ''IPCC_AR5_100y'', [(''year'', JNum (Fin 2023)), (''validFrom'', JStr ''2023-01-01'')], [2, 2, 2, 2, 2], (1 / 5)),
     (''energy-grid-generic'', ''Generic grid electricity'', ''kgCO2e/kWh'', (7 / 10),
      ''WeaveCarbon generic electricity fallback'',
      ''https://ghgprotocol.org/sites/default/files/standards/Product-Life-Cycle-Accounting-Reporting-Standard_041613.pdf'',
      ''generic'', ''market_default_or_missing'', True, ''cradle_to_gate'',
      ''market_default'', ''IPCC_AR5_100y'', [], [5, 4, 5, 5, 5], (1 / 2)),
     (''energy-solar-generic'', ''Generic solar electricity'', ''kgCO2e/kWh'', (9 / 200),
      ''IPCC AR6 WG3 Ch.6 lifecycle GHG - utility-scale solar PV median'',
      ''https://www.ipcc.ch/report/ar6/wg3/'',
      ''generic'', ''documented_secondary'', False, ''cradle_to_gate'',
      ''documented_secondary'', ''IPCC_AR5_100y'', [], [2, 2, 2, 2, 2], (1 / 5)),
     (''energy-wind-generic'', ''Generic onshore wind electricity'', ''kgCO2e/kWh'', (11 / 1000),
      ''IPCC AR6 WG3 Ch.6 lifecycle GHG - onshore wind median'',
      ''https://www.ipcc.ch/report/ar6/wg3/'',
      ''generic'', ''documented_secondary'', False, ''cradle_to_gate'',
      ''documented_secondary'', ''IPCC_AR5_100y'', [], [2, 2, 2, 2, 2], (1 / 5)),
     (''energy-coal-generic'', ''Coal-fired electricity generation'', ''kgCO2e/kWh'', (41 / 50),
      ''IEA Emissions Factors 2023 - subcritical coal power average'',
      ''https://www.iea.org/data-and-statistics/data-product/emissions-factors-2023'',
      ''generic'', ''documented_secondary'', False, ''cradle_to_gate'',
      ''documented_secondary'', ''IPCC_AR5_100y'', [], [2, 2, 2, 2, 2], (1 / 5)),
     (''energy-gas-generic'', ''Natural gas electricity (CCGT)'', ''kgCO2e/kWh'', (2 / 5),
      ''DEFRA 2025 stationary combustion - natural gas CCGT generation'',
      ''https://www.gov.uk/government/publications/greenhouse-gas-reporting-conversion-factors-2025'',
      ''generic'', ''documented_secondary'', False, ''cradle_to_gate'',
      ''documented_secondary'', ''IPCC_AR5_100y'', [], [2, 2, 2, 2, 2], (1 / 5)),
     (''energy-mixed-generic'', ''Generic mixed energy (global average)'', ''kgCO2e/kWh'', (11 / 20),
      ''IEA 2023 world average grid emission intensity'',
      ''https://www.iea.org/data-and-statistics/data-product/emissions-factors-2023'',
      ''generic'', ''internal_proxy'', True, ''cradle_to_gate'',
      ''internal_proxy'', ''IPCC_AR5_100y'', [], [4, 3, 4, 3, 4], (7 / 20)),
     (''process-knitting'', ''Knitting process - electrical intensity'', ''kWh/kg'', (9 / 5),
      ''SAC Higg FEM benchmarks + European BREF Textile BAT 2017 - knitting stage'',
      ''https://apparelcoalition.org/the-higg-index/'',
      ''generic'', ''internal_proxy'', True, ''gate_to_gate'',
      ''internal_proxy'', ''IPCC_AR5_100y'', [], [4, 3, 4, 3, 4], (7 / 20)),
     (''process-weaving'', ''Weaving process - electrical intensity'', ''kWh/kg'', (11 / 5),
      ''SAC Higg FEM benchmarks + European BREF Textile BAT 2017 - weaving stage'',
      ''https://apparelcoalition.org/the-higg-index/'',
      ''generic'', ''internal_proxy'', True, ''gate_to_gate'',
      ''internal_proxy'', ''IPCC_AR5_100y'', [], [4, 3, 4, 3, 4], (7 / 20)),
     (''process-cutting'', ''Cutting process - electrical intensity'', ''kWh/kg'', (1 / 2),
      ''SAC Higg FEM benchmarks - cutting stage'',
      ''https://apparelcoalition.org/the-higg-index/'',
      ''generic'', ''internal_proxy'', True, ''gate_to_gate'',
      ''internal_proxy'', ''IPCC_AR5_100y'', [], [4, 3, 4, 3, 4], (7 / 20)),
     (''process-cutting-sewing'', ''Cutting and sewing - electrical intensity'', ''kWh/kg'', (6 / 5),
      ''SAC Higg FEM benchmarks - CMT stage (cut, make, trim)'',
      ''https://apparelcoalition.org/the-higg-index/'',
      ''generic'', ''internal_proxy'', True, ''gate_to_gate'',
      ''internal_proxy'', ''IPCC_AR5_100y'', [], [4, 3, 4, 3, 4], (7 / 20)),
     (''process-generic-garment'', ''Generic garment - total process intensity'', ''kWh/kg'', (3 / 2),
      ''SAC Higg FEM global average garment manufacturing intensity'',
      ''https://apparelcoalition.org/the-higg-index/'',
      ''generic'', ''market_default_or_missing'', True, ''gate_to_gate'',
      ''market_default'', ''IPCC_AR5_100y'', [], [5, 4, 5, 5, 5], (1 / 2)),
     (''process-dyeing'', ''Wet dyeing - total energy intensity (electrical equiv.)'', ''kWh/kg'', (11 / 2),
      ''European BREF Textile BAT 2017 + SAC Higg FEM - wet processing (dyeing). Includes thermal energy equivalent. Range 4-10 kWh/kg.'',
      ''https://apparelcoalition.org/the-higg-index/'',
      ''generic'', ''internal_proxy'', True, ''gate_to_gate'',
      ''internal_proxy'', ''IPCC_AR5_100y'', [], [4, 3, 4, 3, 4], (7 / 20)),
     (''process-printing'', ''Printing process - total energy intensity'', ''kWh/kg'', (5 / 2),
      ''SAC Higg FEM benchmarks - digital & screen printing'',
      ''https://apparelcoalition.org/the-higg-index/'',
      ''generic'', ''internal_proxy'', True, ''gate_to_gate'',
      ''internal_proxy'', ''IPCC_AR5_100y'', [], [4, 3, 4, 3, 4], (7 / 20)),
     (''process-finishing'', ''Finishing process - total energy intensity'', ''kWh/kg'', (3 / 2),
      ''European BREF Textile BAT 2017 - mechanical and chemical finishing'',
      ''https://apparelcoalition.org/the-higg-index/'',
      ''generic'', ''internal_proxy'', True, ''gate_to_gate'',
      ''internal_proxy'', ''IPCC_AR5_100y'', [], [4, 3, 4, 3, 4], (7 / 20)),
     (''transport-road-defra-2025'', ''Road freight (all HGVs)'', ''kgCO2e/tonne.km'', (6113 / 50000),
      ''DEFRA 2025 freight emission factor'',
      ''https://assets.publishing.service.gov.uk/media/6846b0870392ed9b784c0187/2025-GHG-CF-methodology-paper.pdf'',
      ''UK methodology / generic freight'', ''documented_secondary'', False, ''gate_to_market'',
      ''documented_secondary'', ''IPCC_AR5_100y'', [(''year'', JNum (Fin 2025)), (''validFrom'', JStr ''2025-01-01'')], [2, 2, 2, 2, 2], (1 / 5)),
     (''transport-sea-defra-2025'', ''Container ship average'', ''kgCO2e/tonne.km'', (403 / 25000),
      ''DEFRA 2025 freight emission factor'',
      ''https://assets.publishing.service.gov.uk/media/6846b0870392ed9b784c0187/2025-GHG-CF-methodology-paper.pdf'',
      ''UK methodology / generic freight'', ''documented_secondary'', False, ''gate_to_market'',
      ''documented_secondary'', ''IPCC_AR5_100y'', [(''year'', JNum (Fin 2025)), (''validFrom'', JStr ''2025-01-01'')], [2, 2, 2, 2, 2], (1 / 5)),
     (''transport-air-defra-2025'', ''International air freight'', ''kgCO2e/tonne.km'', (89939 / 100000),
      ''DEFRA 2025 freight emission factor'',
      ''https://assets.publishing.service.gov.uk/media/6846b0870392ed9b784c0187/2025-GHG-CF-methodology-paper.pdf'',
      ''UK methodology / generic freight'', ''documented_secondary'', False, ''gate_to_market'',
      ''documented_secondary'', ''IPCC_AR5_100y'', [(''year'', JNum (Fin 2025)), (''validFrom'', JStr ''2025-01-01'')], [2, 2, 2, 2, 2], (1 / 5)),
     (''transport-rail-defra-2025'', ''Freight train'', ''kgCO2e/tonne.km'', (2779 / 100000),
      ''DEFRA 2025 freight emission factor'',
      ''https://assets.publishing.service.gov.uk/media/6846b0870392ed9b784c0187/2025-GHG-CF-methodology-paper.pdf'',
      ''UK methodology / generic freight'', ''documented_secondary'', False, ''gate_to_market'',
      ''documented_secondary'', ''IPCC_AR5_100y'', [(''year'', JNum (Fin 2025)), (''validFrom'', JStr ''2025-01-01'')], [2, 2, 2, 2, 2], (1 / 5)),
     (''transport-multimodal-proxy'', ''Multimodal freight proxy'', ''kgCO2e/tonne.km'', (2 / 25),
      ''WeaveCarbon multimodal proxy'',
      ''https://ghgprotocol.org/sites/default/files/standards/Product-Life-Cycle-Accounting-Reporting-Standard_041613.pdf'',
      ''generic'', ''internal_proxy'', True, ''gate_to_market'',
      ''internal_proxy'', ''IPCC_AR5_100y'', [], [4, 3, 4, 3, 4], (7 / 20)),
     (''packaging-biodegradable-proxy'', ''Biodegradable packaging'', ''kgCO2e/kg'', (4 / 5),
      ''WeaveCarbon packaging proxy'',
      ''https://ghgprotocol.org/sites/default/files/standards/Product-Life-Cycle-Accounting-Reporting-Standard_041613.pdf'',
      ''generic'', ''internal_proxy'', True, ''cradle_to_gate'',
      ''internal_proxy'', ''IPCC_AR5_100y'', [], [4, 3, 4, 3, 4], (7 / 20)),
     (''packaging-recycled-proxy'', ''Recycled packaging'', ''kgCO2e/kg'', (1 / 2),
      ''WeaveCarbon packaging proxy'',
      ''https://ghgprotocol.org/sites/default/files/standards/Product-Life-Cycle-Accounting-Reporting-Standard_041613.pdf'',
      ''generic'', ''internal_proxy'', True, ''cradle_to_gate'',
      ''internal_proxy'', ''IPCC_AR5_100y'', [], [4, 3, 4, 3, 4], (7 / 20)),
     (''packaging-minimal-proxy'', ''Minimal packaging'', ''kgCO2e/kg'', (3 / 10),
      ''WeaveCarbon packaging proxy'',
      ''https://ghgprotocol.org/sites/default/files/standards/Product-Life-Cycle-Accounting-Reporting-Standard_041613.pdf'',
      ''generic'', ''internal_proxy'', True, ''cradle_to_gate'',
      ''internal_proxy'', ''IPCC_AR5_100y'', [], [4, 3, 4, 3, 4], (7 / 20)),
     (''accessory-other-proxy'', ''Other accessory proxy'', ''kgCO2e/kg'', 6,
      ''WeaveCarbon accessory proxy'',
      ''https://ghgprotocol.org/sites/default/files/standards/Product-Life-Cycle-Accounting-Reporting-Standard_041613.pdf'',
      ''generic'', ''internal_proxy'', True, ''cradle_to_gate'',
      ''internal_proxy'', ''IPCC_AR5_100y'', [], [4, 3, 4, 3, 4], (7 / 20))]"

definition factors_v1 :: props where
  "factors_v1 = map (\<lambda>row. (fst row, factor_entry row)) factor_rows"

section \<open>The keys\<close>

lemma factors_v1_keys:
  "map fst factors_v1 = [
      ''cat-cotton-100'', ''cat-cotton-organic'', ''cat-cotton-recycled'', ''cat-polyester-100'',
      ''cat-polyester-recycled'', ''cat-wool-100'', ''cat-wool-merino'', ''cat-silk-100'',
      ''cat-linen-100'', ''cat-nylon-100'', ''cat-nylon-recycled'', ''cat-bamboo'', ''cat-hemp'',
      ''cat-tencel'', ''cat-viscose'', ''cat-acrylic'', ''cat-leather-genuine'',
      ''cat-leather-faux'', ''cat-down'', ''cat-faux-fur'', ''cat-canvas-cotton'',
      ''cat-blend-cotton-poly'', ''cat-blend-wool-poly'', ''cat-zipper-metal'',
      ''cat-zipper-plastic'', ''cat-zipper-nylon'', ''cat-button-plastic'', ''cat-button-metal'',
      ''cat-button-wood'', ''cat-button-shell'', ''cat-thread-polyester'', ''cat-thread-cotton'',
      ''cat-elastic-band'', ''cat-label-woven'', ''cat-label-printed'', ''cat-lining-polyester'',
      ''cat-padding-polyester'', ''cat-packaging-plastic-bag'', ''cat-packaging-paper-box'',
      ''cat-other-generic'', ''energy-grid-vn-2023'', ''energy-grid-generic'',
      ''energy-solar-generic'', ''energy-wind-generic'', ''energy-coal-generic'',
      ''energy-gas-generic'', ''energy-mixed-generic'', ''process-knitting'', ''process-weaving'',
      ''process-cutting'', ''process-cutting-sewing'', ''process-generic-garment'',
      ''process-dyeing'', ''process-printing'', ''process-finishing'',
      ''transport-road-defra-2025'', ''transport-sea-defra-2025'', ''transport-air-defra-2025'',
      ''transport-rail-defra-2025'', ''transport-multimodal-proxy'',
      ''packaging-biodegradable-proxy'', ''packaging-recycled-proxy'', ''packaging-minimal-proxy'',
      ''accessory-other-proxy'']"
  by (simp add: factors_v1_def factor_rows_def)

lemma factors_v1_keys_distinct: "distinct (map fst factors_v1)"
  unfolding factors_v1_keys by simp

lemma factor_entry_id [simp]: "jget (factor_entry row) ''id'' = JStr (fst row)"
  by (cases row rule: factor_entry.cases) simp

lemma factor_entry_version [simp]:
  "jget (factor_entry row) ''factorVersionId'' = JStr (fst row @ '':v1'')"
  by (cases row rule: factor_entry.cases) simp

lemma factors_v1_key_mem: "(k, f) \<in> set factors_v1 \<Longrightarrow> jget f ''id'' = JStr k"
  by (auto simp: factors_v1_def)

end
