(* ===== verification/Js_Json.thy ===== *)
theory Js_Json
  imports Js_Value "HOL-Library.List_Lexorder" "HOL-Library.Char_ord" "HOL-Library.Multiset"
begin

text \<open>
  \<open>JSON.stringify\<close> and the canonical form the program gives a value before it hashes it: the keys of
  every object sorted, undefined members dropped. Keys are ordered by code units, which is the
  lexicographic order of \<open>List_Lexorder\<close> on Latin-1 strings. Object keys that are array indices,
  which JavaScript enumerates first whatever the insertion order, do not occur in what the program
  hashes.
\<close>

section \<open>Text of a value\<close>

definition hex_digit :: "nat \<Rightarrow> char" where
  "hex_digit n = (if n < 10 then char_of (48 + n) else char_of (87 + n))"

definition json_char :: "char \<Rightarrow> string" where
  "json_char c =
     (if c = CHR 0x22 then [CHR 0x5C, CHR 0x22]
      else if c = CHR 0x5C then [CHR 0x5C, CHR 0x5C]
      else if c = CHR 0x08 then [CHR 0x5C, CHR ''b'']
      else if c = CHR 0x0C then [CHR 0x5C, CHR ''f'']
      else if c = CHR 0x0A then [CHR 0x5C, CHR ''n'']
      else if c = CHR 0x0D then [CHR 0x5C, CHR ''r'']
      else if c = CHR 0x09 then [CHR 0x5C, CHR ''t'']
      else if code c < 32
      then [CHR 0x5C, CHR ''u'', CHR ''0'', CHR ''0'', hex_digit (nat (code c) div 16),
            hex_digit (nat (code c) mod 16)]
      else [c])"

definition json_quote :: "string \<Rightarrow> string" where
  "json_quote s = [CHR 0x22] @ concat (map json_char s) @ [CHR 0x22]"

text \<open>None stands for \<open>undefined\<close>: a member with this value is left out, an element is \<open>null\<close>.\<close>

fun json_str :: "jsval \<Rightarrow> string option"
  and json_elements :: "jsval list \<Rightarrow> string list"
  and json_members :: "props \<Rightarrow> string list" where
  "json_str JUndef = None"
| "json_str JNull = Some ''null''"
| "json_str (JBool b) = Some (if b then ''true'' else ''false'')"
| "json_str (JNum n) = Some (if is_finite_num n then num_str n else ''null'')"
| "json_str (JStr s) = Some (json_quote s)"
| "json_str (JArr vs) = Some (''['' @ join '','' (json_elements vs) @ '']'')"
| "json_str (JObj ps) = Some (''{'' @ join '','' (json_members ps) @ ''}'')"
| "json_str (JFun f) = None"
| "json_elements [] = []"
| "json_elements (v # vs) =
     (case json_str v of None \<Rightarrow> ''null'' | Some s \<Rightarrow> s) # json_elements vs"
| "json_members [] = []"
| "json_members ((k, v) # ps) =
     (case json_str v of None \<Rightarrow> json_members ps
      | Some s \<Rightarrow> (json_quote k @ '':'' @ s) # json_members ps)"

section \<open>Canonical form\<close>

fun canonicalize :: "jsval \<Rightarrow> jsval"
  and canonical_elements :: "jsval list \<Rightarrow> jsval list"
  and canonical_members :: "props \<Rightarrow> props" where
  "canonicalize (JArr vs) = JArr (canonical_elements vs)"
| "canonicalize (JObj ps) = JObj (sort_key fst (canonical_members ps))"
| "canonicalize JUndef = JUndef"
| "canonicalize JNull = JNull"
| "canonicalize (JBool b) = JBool b"
| "canonicalize (JNum n) = JNum n"
| "canonicalize (JStr s) = JStr s"
| "canonicalize (JFun f) = JFun f"
| "canonical_elements [] = []"
| "canonical_elements (v # vs) = canonicalize v # canonical_elements vs"
| "canonical_members [] = []"
| "canonical_members ((k, v) # ps) =
     (if v = JUndef then canonical_members ps
      else (k, canonicalize v) # canonical_members ps)"

lemma canonical_members_map:
  "canonical_members ps = map (apsnd canonicalize) (filter (\<lambda>p. snd p \<noteq> JUndef) ps)"
  by (induction ps) auto

lemma canonical_elements_map: "canonical_elements vs = map canonicalize vs"
  by (induction vs) auto

lemma canonicalize_undef_iff [simp]: "canonicalize v = JUndef \<longleftrightarrow> v = JUndef"
  by (cases v) auto

lemma fst_canonical_members:
  "map fst (canonical_members ps) = map fst (filter (\<lambda>p. snd p \<noteq> JUndef) ps)"
  by (simp add: canonical_members_map comp_def)

lemma canonicalize_member_order:
  assumes "mset ps = mset qs" and "distinct (map fst ps)"
  shows "canonicalize (JObj ps) = canonicalize (JObj qs)"
proof -
  let ?c = "\<lambda>ps. map (apsnd canonicalize) (filter (\<lambda>p. snd p \<noteq> JUndef) ps)"
  have "mset (?c ps) = mset (?c qs)"
    using assms(1) by simp
  moreover have "distinct (map fst (?c ps))"
    using assms(2) by (auto simp: comp_def distinct_map intro: inj_on_subset)
  then have "inj_on fst (set (?c ps))"
    by (simp only: distinct_map)
  ultimately have "sort_key fst (?c ps) = sort_key fst (?c qs)"
    by (intro sort_key_inj_key_eq) simp_all
  then show ?thesis by (simp add: canonical_members_map)
qed

text \<open>Members that are undefined do not count.\<close>

lemma canonicalize_drop_undefined:
  "canonicalize (JObj (filter (\<lambda>p. snd p \<noteq> JUndef) ps)) = canonicalize (JObj ps)"
  by (simp add: canonical_members_map)

lemma canonical_forms:
  "canonicalize (canonicalize v) = canonicalize v"
  "map canonicalize (canonical_elements vs) = canonical_elements vs"
  "\<forall>(k, w) \<in> set (canonical_members ps). w \<noteq> JUndef \<and> canonicalize w = w"
proof (induction v and vs and ps rule: canonicalize_canonical_elements_canonical_members.induct)
  case (2 ps)
  let ?s = "sort_key fst (canonical_members ps)"
  have "\<forall>(k, w) \<in> set ?s. w \<noteq> JUndef \<and> canonicalize w = w" using 2 by simp
  then have "canonical_members ?s = ?s"
    by (auto simp: canonical_members_map apsnd_def map_prod_def intro!: map_idI
        intro: filter_True [THEN ssubst])
  then show ?case by (simp add: sort_key_id_if_sorted)
qed (auto simp: canonical_elements_map)

end
