(* ===== verification/Carbon_Registry.thy ===== *)
theory Carbon_Registry
  imports Carbon_Units Factors_V1 Js_Json
begin

text \<open>
  \<open>modules/carbon/core/factorRegistry.js\<close>: the checks a registry passes when the module is loaded, the
  resolution of factor ids and aliases with their fallbacks, the energy factor and its scope, default
  transport distances, and the provenance records of the factors. The registry \<open>reg\<close> is the parsed
  factor file, its keys mapped to factor objects; the definitions take it as an argument and the
  shipped one is \<open>factors_v1\<close>.
\<close>

section \<open>Loading\<close>

definition supported_factor_units :: "string list" where
  "supported_factor_units = [''kgCO2e/kg'', ''kgCO2e/kWh'', ''kWh/kg'', ''kgCO2e/tonne.km'']"

definition required_fields :: "string list" where
  "required_fields =
     [''id'', ''factorVersionId'', ''label'', ''value'', ''unit'', ''source'', ''sourceUrl'',
      ''geography'', ''boundaryType'', ''quality'', ''factorClass'', ''gwpBasis'',
      ''uncertaintyCv'']"

definition missing_fields :: "jsval \<Rightarrow> string list" where
  "missing_fields f =
     filter (\<lambda>k. is_nullish (jget f k) \<or> jget f k = JStr []) required_fields"

fun load_factors :: "jsval list \<Rightarrow> jsval list \<Rightarrow> jsval list \<Rightarrow> js_error + unit" where
  "load_factors ids versions [] = Inr ()"
| "load_factors ids versions (f # fs) =
     (if missing_fields f \<noteq> []
      then Inl (Plain_Error (''Carbon factor '' @ to_str (jor (jget f ''id'') (JStr ''<unknown>''))
                 @ '' is missing: '' @ join '', '' (missing_fields f)))
      else if \<not> is_finite_number (jget f ''value'') \<or> to_num (jget f ''value'') < 0
      then Inl (Plain_Error (''Carbon factor '' @ to_str (jget f ''id'') @ '' has an invalid value.''))
      else if \<not> (\<exists>u \<in> set supported_factor_units. jget f ''unit'' = JStr u)
      then Inl (Plain_Error (''Carbon factor '' @ to_str (jget f ''id'') @ '' uses unsupported unit ''
                 @ to_str (jget f ''unit'') @ ''.''))
      else if jget f ''id'' \<in> set ids \<or> jget f ''factorVersionId'' \<in> set versions
      then Inl (Plain_Error (''Carbon factor identity is duplicated: '' @ to_str (jget f ''id'')
                 @ ''/'' @ to_str (jget f ''factorVersionId'') @ ''.''))
      else load_factors (jget f ''id'' # ids) (jget f ''factorVersionId'' # versions) fs)"

definition load_registry :: "props \<Rightarrow> js_error + unit" where
  "load_registry reg = load_factors [] [] (map snd reg)"

definition registry_id :: string where
  "registry_id = ''weavecarbon-textile-factors''"

definition registry_release :: string where
  "registry_release = ''v1''"

definition registry_schema_version :: string where
  "registry_schema_version = ''emission-factor-registry-v1''"

text \<open>The SHA-256 function of the crypto library is the parameter \<open>sha256\<close>.\<close>

definition registry_content_hash :: "(string \<Rightarrow> string) \<Rightarrow> props \<Rightarrow> string" where
  "registry_content_hash sha256 reg =
     sha256 (case json_str (canonicalize (JObj reg)) of Some s \<Rightarrow> s | None \<Rightarrow> [])"

definition registry_version :: "(string \<Rightarrow> string) \<Rightarrow> props \<Rightarrow> string" where
  "registry_version sha256 reg =
     ''factors-'' @ registry_release @ '':'' @ registry_content_hash sha256 reg"

section \<open>Tables\<close>

definition factor_id_aliases :: props where
  "factor_id_aliases = map (\<lambda>(a, i). (a, JStr i))
     [(''cotton'', ''cat-cotton-100''), (''organiccotton'', ''cat-cotton-organic''),
      (''recycledcotton'', ''cat-cotton-recycled''), (''polyester'', ''cat-polyester-100''),
      (''recycledpolyester'', ''cat-polyester-recycled''), (''wool'', ''cat-wool-100''),
      (''silk'', ''cat-silk-100''), (''linen'', ''cat-linen-100''), (''nylon'', ''cat-nylon-100''),
      (''bamboo'', ''cat-bamboo''), (''hemp'', ''cat-hemp''), (''tencel'', ''cat-tencel''),
      (''viscose'', ''cat-viscose''), (''acrylic'', ''cat-acrylic''),
      (''leather'', ''cat-leather-genuine''), (''fauxleather'', ''cat-leather-faux''),
      (''blend'', ''cat-blend-cotton-poly''), (''mixed'', ''cat-blend-cotton-poly''),
      (''zipper'', ''cat-zipper-plastic''), (''button'', ''cat-button-plastic''),
      (''thread'', ''cat-thread-polyester''), (''label'', ''cat-label-woven''),
      (''elastic'', ''cat-elastic-band''), (''lining'', ''cat-lining-polyester''),
      (''padding'', ''cat-padding-polyester''), (''packagingplastic'', ''cat-packaging-plastic-bag''),
      (''packagingpaper'', ''cat-packaging-paper-box''), (''plastic'', ''cat-packaging-plastic-bag''),
      (''paper'', ''cat-packaging-paper-box''), (''biodegradable'', ''packaging-biodegradable-proxy''),
      (''recycled'', ''packaging-recycled-proxy''), (''minimal'', ''packaging-minimal-proxy''),
      (''other'', ''cat-other-generic''), (''accessoryother'', ''accessory-other-proxy''),
      (''grid'', ''energy-grid-generic''), (''solar'', ''energy-solar-generic''),
      (''wind'', ''energy-wind-generic''), (''coal'', ''energy-coal-generic''),
      (''gas'', ''energy-gas-generic''), (''mixedenergy'', ''energy-mixed-generic''),
      (''road'', ''transport-road-defra-2025''), (''sea'', ''transport-sea-defra-2025''),
      (''air'', ''transport-air-defra-2025''), (''rail'', ''transport-rail-defra-2025''),
      (''multimodal'', ''transport-multimodal-proxy''), (''knitting'', ''process-knitting''),
      (''weaving'', ''process-weaving''), (''cutting'', ''process-cutting''),
      (''cuttingsewing'', ''process-cutting-sewing''),
      (''genericgarment'', ''process-generic-garment''), (''dyeing'', ''process-dyeing''),
      (''printing'', ''process-printing''), (''finishing'', ''process-finishing'')]"

definition category_methodology :: props where
  "category_methodology =
     [(''textile'', JObj
       [(''methodologyName'', JStr ''WeaveCarbon Attributional Textile PCF''),
        (''methodologyVersion'',
         JStr ''WeaveCarbon Attributional Textile PCF v2.1 - climate-only partial CFP''),
        (''calculationGraphVersion'', JStr ''textile-pcf-2.1.0''),
        (''defaultProcessFactorId'', JStr ''process-generic-garment''),
        (''defaultMaterialFactorId'', JStr ''cat-other-generic''),
        (''processFallbackWarningLabel'', JStr ''garment'')])]"

definition market_distance_defaults :: props where
  "market_distance_defaults = map (\<lambda>(m, d). (m, JNum (Fin d)))
     [(''vietnam'', 500), (''domestic'', 500), (''vn'', 500), (''eu'', 10000), (''usa'', 14000),
      (''us'', 14000), (''japan'', 3500), (''jp'', 3500), (''korea'', 3200), (''kr'', 3200),
      (''china'', 2500), (''cn'', 2500), (''other'', 5000)]"

section \<open>Resolution\<close>

text \<open>The resolution of a text, \<open>factor_named\<close>, and the functions of the code, which convert their
  argument with \<open>String(value || '')\<close> first and throw where that does.\<close>

definition factor_id_named :: "props \<Rightarrow> string \<Rightarrow> jsval" where
  "factor_id_named reg s =
     (let raw = trim s
      in if raw = [] then JUndef
         else if truthy (table_get reg raw) then JStr raw
         else table_get factor_id_aliases (token_of raw))"

definition resolve_carbon_factor_id :: "props \<Rightarrow> jsval \<Rightarrow> js_error + jsval" where
  "resolve_carbon_factor_id reg v =
     bind_result (js_string (jor v (JStr []))) (\<lambda>s. Inr (factor_id_named reg s))"

definition factor_named :: "props \<Rightarrow> string \<Rightarrow> jsval" where
  "factor_named reg s =
     (let i = factor_id_named reg s in if truthy i then table_get reg (to_str i) else JUndef)"

definition get_carbon_factor :: "props \<Rightarrow> jsval \<Rightarrow> js_error + jsval" where
  "get_carbon_factor reg v =
     bind_result (resolve_carbon_factor_id reg v)
       (\<lambda>i. Inr (if truthy i then table_get reg (to_str i) else JUndef))"

definition resolve_factor_or_fallback :: "props \<Rightarrow> jsval \<Rightarrow> jsval \<Rightarrow> js_error + jsval" where
  "resolve_factor_or_fallback reg factor_id fallback_id =
     bind_result (get_carbon_factor reg factor_id) (\<lambda>own_factor.
     bind_result (if truthy own_factor then Inr own_factor else get_carbon_factor reg fallback_id) (\<lambda>f.
       if \<not> truthy f
       then Inl (Plain_Error (''Unknown carbon factor and fallback: '' @ to_str factor_id
                  @ '' / '' @ to_str fallback_id))
       else Inr f))"

definition resolve_energy_factor :: "props \<Rightarrow> jsval \<Rightarrow> jsval \<Rightarrow> js_error + jsval" where
  "resolve_energy_factor reg factor_id geography =
     bind_result (if truthy factor_id then get_carbon_factor reg factor_id else Inr JUndef) (\<lambda>explicit.
     if truthy explicit then Inr explicit
     else bind_result (js_string (jor geography (JStr []))) (\<lambda>s.
       let g = lower (trim s) in
       Inr (if g = ''vietnam'' \<or> g = ''vn''
            then jor (factor_named reg ''energy-grid-vn-2023'') (factor_named reg ''energy-grid-generic'')
            else factor_named reg ''energy-grid-generic'')))"

text \<open>\<open>factor.id.startsWith\<close> throws when \<open>factor\<close> is undefined or its id is not a string.\<close>

definition resolve_energy_scope :: "jsval \<Rightarrow> jsval \<Rightarrow> js_error + string" where
  "resolve_energy_scope factor role =
     (if role = JStr ''brand'' then Inr ''scope3''
      else case jget factor ''id'' of
        JStr i \<Rightarrow> Inr (if starts_with i ''energy-coal'' \<or> starts_with i ''energy-gas''
                       then ''scope1'' else ''scope2'')
      | _ \<Rightarrow> Inl (Type_Error ''factor.id.startsWith is not a function''))"

definition resolve_category_methodology :: "jsval \<Rightarrow> jsval" where
  "resolve_category_methodology category =
     table_get category_methodology (to_str (jor category (JStr ''textile'')))"

definition market_distance :: "string \<Rightarrow> jsval" where
  "market_distance key =
     jor (table_get market_distance_defaults key) (own market_distance_defaults ''other'')"

definition resolve_market_distance_default :: "jsval \<Rightarrow> js_error + jsval" where
  "resolve_market_distance_default v =
     bind_result (normalize_token v) (\<lambda>key. Inr (market_distance key))"

definition accessory_factor_id :: "string \<Rightarrow> string" where
  "accessory_factor_id key =
     (let has = str_includes key
      in if key = [] then ''accessory-other-proxy''
         else if has ''button'' \<or> has ''nut'' then ''cat-button-plastic''
         else if has ''zipper'' \<or> has ''khoakeo'' then ''cat-zipper-plastic''
         else if has ''thread'' \<or> has ''chimay'' then ''cat-thread-polyester''
         else if has ''label'' \<or> has ''nhan'' then ''cat-label-woven''
         else if has ''elastic'' \<or> has ''thun'' then ''cat-elastic-band''
         else if has ''lining'' \<or> has ''lot'' then ''cat-lining-polyester''
         else if has ''padding'' \<or> has ''dem'' \<or> has ''mut'' then ''cat-padding-polyester''
         else ''accessory-other-proxy'')"

definition resolve_accessory_factor_id_by_keyword :: "jsval \<Rightarrow> js_error + string" where
  "resolve_accessory_factor_id_by_keyword v =
     bind_result (normalize_token v) (\<lambda>key. Inr (accessory_factor_id key))"

section \<open>Provenance\<close>

definition build_factor_provenance :: "string \<Rightarrow> jsval \<Rightarrow> jsval" where
  "build_factor_provenance version f =
     (if \<not> truthy f then JNull
      else JObj
       [(''registryId'', JStr registry_id), (''registryVersion'', JStr version),
        (''factorId'', jget f ''id''), (''factorVersionId'', jget f ''factorVersionId''),
        (''label'', jget f ''label''), (''value'', jget f ''value''), (''unit'', jget f ''unit''),
        (''source'', JObj [(''name'', jget f ''source''), (''url'', jget f ''sourceUrl''),
                           (''year'', jelse (jget f ''year'') JNull)]),
        (''geography'', jget f ''geography''), (''boundary'', jget f ''boundaryType''),
        (''validity'', JObj [(''from'', jelse (jget f ''validFrom'') JNull),
                             (''to'', jelse (jget f ''validTo'') JNull)]),
        (''quality'', JObj [(''grade'', jget f ''quality''), (''class'', jget f ''factorClass''),
                            (''scores'', jor (jget f ''qualityScores'') JNull),
                            (''uncertaintyCv'', jget f ''uncertaintyCv''),
                            (''isProxy'', JBool (truthy (jget f ''isProxy'')))]),
        (''gwpBasis'', jget f ''gwpBasis'')])"

definition get_factor_provenance :: "string \<Rightarrow> props \<Rightarrow> jsval \<Rightarrow> js_error + jsval" where
  "get_factor_provenance version reg v =
     bind_result (get_carbon_factor reg v) (\<lambda>f. Inr (build_factor_provenance version f))"

definition provenance_selected :: "jsval \<Rightarrow> jsval \<Rightarrow> bool" where
  "provenance_selected opts f =
     ((\<not> truthy (jget opts ''unit'') \<or> strict_eq (jget f ''unit'') (jget opts ''unit'')) \<and>
      (\<not> truthy (jget opts ''geography'')
        \<or> strict_eq (jget f ''geography'') (jget opts ''geography'')) \<and>
      (\<not> truthy (jget opts ''factorClass'')
        \<or> strict_eq (jget f ''factorClass'') (jget opts ''factorClass'')) \<and>
      (typeof (jget opts ''isProxy'') \<noteq> ''boolean''
        \<or> JBool (truthy (jget f ''isProxy'')) = jget opts ''isProxy''))"

definition list_factor_provenance :: "string \<Rightarrow> props \<Rightarrow> jsval \<Rightarrow> jsval list" where
  "list_factor_provenance version reg opts =
     map (build_factor_provenance version) (filter (provenance_selected opts) (map snd reg))"

definition factor_registry_metadata :: "(string \<Rightarrow> string) \<Rightarrow> props \<Rightarrow> jsval" where
  "factor_registry_metadata sha256 reg =
     JObj [(''id'', JStr registry_id), (''release'', JStr registry_release),
       (''schemaVersion'', JStr registry_schema_version),
       (''version'', JStr (registry_version sha256 reg)),
       (''contentHash'', JStr (registry_content_hash sha256 reg)),
       (''factorCount'', JNum (Fin (of_nat (length reg)))),
       (''gwpBases'', JArr (map JStr (sort (dedupe
          (map (\<lambda>f. to_str (jget f ''gwpBasis'')) (map snd reg))))))]"

section \<open>Properties\<close>

subsection \<open>What a loaded registry guarantees\<close>

definition factor_loads :: "jsval \<Rightarrow> bool" where
  "factor_loads f =
     (missing_fields f = [] \<and> is_finite_number (jget f ''value'') \<and> \<not> to_num (jget f ''value'') < 0
      \<and> (\<exists>u \<in> set supported_factor_units. jget f ''unit'' = JStr u))"

lemma load_factors_iff:
  "load_factors ids versions fs = Inr () \<longleftrightarrow>
   (\<forall>f \<in> set fs. factor_loads f)
   \<and> distinct (map (\<lambda>f. jget f ''id'') fs) \<and> (\<lambda>f. jget f ''id'') ` set fs \<inter> set ids = {}
   \<and> distinct (map (\<lambda>f. jget f ''factorVersionId'') fs)
   \<and> (\<lambda>f. jget f ''factorVersionId'') ` set fs \<inter> set versions = {}"
  by (induction ids versions fs rule: load_factors.induct) (auto simp: factor_loads_def)

lemma load_registry_iff:
  "load_registry reg = Inr () \<longleftrightarrow>
   (\<forall>f \<in> set (map snd reg). factor_loads f)
   \<and> distinct (map (\<lambda>p. jget (snd p) ''id'') reg)
   \<and> distinct (map (\<lambda>p. jget (snd p) ''factorVersionId'') reg)"
  by (simp add: load_registry_def load_factors_iff comp_def)

definition row_loads :: "factor_row \<Rightarrow> bool" where
  "row_loads = (\<lambda>(i, label, unit, v, source, url, geography, quality, proxy, boundary, cls, gwp,
      dates, scores, cv).
     i \<noteq> [] \<and> label \<noteq> [] \<and> source \<noteq> [] \<and> url \<noteq> [] \<and> geography \<noteq> [] \<and> quality \<noteq> []
     \<and> boundary \<noteq> [] \<and> cls \<noteq> [] \<and> gwp \<noteq> [] \<and> 0 \<le> v \<and> v \<le> 1000
     \<and> unit \<in> set supported_factor_units)"

lemma factor_entry_loads: "row_loads row \<Longrightarrow> factor_loads (factor_entry row)"
proof (cases row rule: factor_entry.cases)
  case (1 i label unit v source url geography quality proxy boundary cls gwp dates scores cv)
  assume row: "row_loads row"
  with 1 have v: "0 \<le> v" "v \<le> 1000" by (simp_all add: row_loads_def)
  obtain r where "num_of v = Fin r" "0 \<le> r"
    using v by (rule num_of_finite)
  moreover have "unit \<noteq> []"
    using row 1 by (auto simp: row_loads_def supported_factor_units_def)
  ultimately show ?thesis
    using row 1
    by (auto simp: row_loads_def factor_loads_def missing_fields_def required_fields_def num_simps)
qed

lemma factor_rows_load: "list_all row_loads factor_rows"
  by (simp add: factor_rows_def row_loads_def supported_factor_units_def)

lemma factors_v1_load: "f \<in> set (map snd factors_v1) \<Longrightarrow> factor_loads f"
  using factor_rows_load
  by (auto simp: factors_v1_def list_all_iff factor_entry_loads simp del: factor_entry.simps)

lemma factors_v1_load_registry: "load_registry factors_v1 = Inr ()"
proof -
  have "distinct (map (\<lambda>p. JStr (fst p)) factors_v1)"
    and "distinct (map (\<lambda>p. JStr (fst p @ '':v1'')) factors_v1)"
    using factors_v1_keys_distinct by (auto simp: distinct_map inj_on_def)
  then show ?thesis
    using factors_v1_load
    by (simp add: load_registry_iff factors_v1_def comp_def del: factor_entry.simps)
qed

subsection \<open>The interface the stages use\<close>

text \<open>
  What the calculation relies on: the registry passed its load-time checks, and the factors the code
  names as fallbacks are in it.
\<close>

definition fallback_factor_ids :: "string list" where
  "fallback_factor_ids =
     [''cat-other-generic'', ''process-generic-garment'', ''packaging-minimal-proxy'',
      ''accessory-other-proxy'', ''transport-multimodal-proxy'', ''energy-grid-generic'']"

lemma jget_inherited [simp]: "jget (inherited_member k) p = JUndef"
  by (simp add: inherited_member_def)

lemma str_or_empty_str [simp]: "str_or_empty (JStr s) = s"
  by (simp add: str_or_empty_def jor_def)

definition prototype_names :: "string set" where
  "prototype_names = insert ''__proto__'' (set object_prototype_names)"

definition plain_id :: "jsval \<Rightarrow> bool" where
  "plain_id v = (coercible v \<and> trim (str_or_empty v) \<notin> prototype_names)"

lemma get_carbon_factor_Inr [simp]:
  "get_carbon_factor reg v = Inr f \<longleftrightarrow> coercible v \<and> f = factor_named reg (str_or_empty v)"
  by (auto simp: get_carbon_factor_def resolve_carbon_factor_id_def factor_named_def Let_def
      js_string_def str_or_empty_def)

lemma get_carbon_factor_eq:
  "get_carbon_factor reg v
   = (if coercible v then Inr (factor_named reg (str_or_empty v)) else Inl cannot_convert)"
  by (simp add: get_carbon_factor_def resolve_carbon_factor_id_def factor_named_def Let_def
      js_string_def str_or_empty_def)

lemma market_distance_default_Inr [simp]:
  "resolve_market_distance_default v = Inr d \<longleftrightarrow>
   coercible v \<and> d = market_distance (token_of (str_or_empty v))"
  by (auto simp: resolve_market_distance_default_def normalize_token_def js_string_def str_or_empty_def)

lemma accessory_by_keyword_Inr [simp]:
  "resolve_accessory_factor_id_by_keyword v = Inr i \<longleftrightarrow>
   coercible v \<and> i = accessory_factor_id (token_of (str_or_empty v))"
  by (auto simp: resolve_accessory_factor_id_by_keyword_def normalize_token_def js_string_def
      str_or_empty_def)

lemma inherited_member_plain: "k \<notin> prototype_names \<Longrightarrow> inherited_member k = JUndef"
  by (auto simp: inherited_member_def prototype_names_def object_prototype_names_def)

lemma alias_targets_plain:
  "list_all (\<lambda>p. to_str (snd p) \<notin> prototype_names) factor_id_aliases"
  by (simp add: factor_id_aliases_def prototype_names_def object_prototype_names_def)

text \<open>A token that is not an alias can only reach the constructor of the table; its printed form names
  nothing.\<close>

lemma alias_plain: "to_str (table_get factor_id_aliases k) \<notin> prototype_names"
proof (cases "map_of factor_id_aliases k")
  case None
  then show ?thesis
    by (auto simp: table_get_def inherited_member_def prototype_names_def object_prototype_names_def)
next
  case (Some v)
  then show ?thesis
    using alias_targets_plain by (auto simp: table_get_def list_all_iff dest!: map_of_SomeD)
qed

lemma factors_v1_keys_trimmed: "list_all (\<lambda>k. trim k = k \<and> k \<noteq> []) (map fst factors_v1)"
  unfolding factors_v1_keys by (simp add: trim_def is_space_def)

lemma factors_v1_scores: "(k, f) \<in> set factors_v1 \<Longrightarrow> is_object (jget f ''qualityScores'')"
  by (auto simp: factors_v1_def quality_scores_def)

lemma factors_v1_labels: "(k, f) \<in> set factors_v1 \<Longrightarrow> coercible (jget f ''label'')"
  by (auto simp: factors_v1_def)

locale loaded_registry =
  fixes reg :: props
  assumes loaded: "load_registry reg = Inr ()"
begin

lemma entry_value:
  assumes "(k, f) \<in> set reg"
  shows "not_negative (to_num (jget f ''value''))"
  using loaded assms by (auto simp: load_registry_iff factor_loads_def not_negative_less)

lemma table_value: "not_negative (to_num (jget (table_get reg k) ''value''))"
  by (auto simp: table_get_def split: option.split dest: map_of_SomeD entry_value)

lemma named_value: "not_negative (to_num (jget (factor_named reg s) ''value''))"
  by (simp add: factor_named_def Let_def table_value)

lemma resolved_value:
  assumes "resolve_factor_or_fallback reg a b = Inr f"
  shows "not_negative (to_num (jget f ''value''))"
  using assms by (auto simp: resolve_factor_or_fallback_def named_value split: if_splits)

lemma energy_value:
  assumes "resolve_energy_factor reg a g = Inr f"
  shows "not_negative (to_num (jget f ''value''))"
  using assms by (auto simp: resolve_energy_factor_def Let_def jor_def named_value split: if_splits)

lemma entry_truthy: "(k, f) \<in> set reg \<Longrightarrow> truthy f"
  using loaded
  by (cases f) (auto simp: load_registry_iff factor_loads_def missing_fields_def required_fields_def)

end

locale complete_registry = loaded_registry +
  assumes fallbacks: "i \<in> set fallback_factor_ids \<Longrightarrow> i \<in> fst ` set reg"
    and tidy_keys: "(k, f) \<in> set reg \<Longrightarrow> trim k = k \<and> k \<noteq> [] \<and> jget f ''id'' = JStr k"
    and scores: "(k, f) \<in> set reg \<Longrightarrow> is_object (jget f ''qualityScores'')"
    and labels: "(k, f) \<in> set reg \<Longrightarrow> coercible (jget f ''label'')"
begin

lemma registered:
  assumes "map_of reg k = Some f" and "trim k = k" and "k \<noteq> []"
  shows "factor_named reg k = f"
proof -
  from assms(1) have "truthy f" by (metis map_of_SomeD entry_truthy)
  with assms show ?thesis
    by (simp add: factor_named_def factor_id_named_def table_get_own Let_def)
qed

lemma fallback_found:
  assumes "i \<in> set fallback_factor_ids"
  obtains f where "map_of reg i = Some f" and "factor_named reg i = f" and "truthy f"
proof -
  from fallbacks [OF assms] obtain f where f: "map_of reg i = Some f"
    by (metis not_None_eq map_of_eq_None_iff)
  have "trim i = i \<and> i \<noteq> []"
    using assms by (auto simp: fallback_factor_ids_def trim_def is_space_def)
  with f have "factor_named reg i = f" by (simp add: registered)
  moreover from f have "truthy f" by (metis map_of_SomeD entry_truthy)
  ultimately show thesis using f by (intro that)
qed

text \<open>\<open>entry f\<close>: the factor is one of the registry. An id that is not the name of a member of
  \<open>Object.prototype\<close> resolves to an entry or to nothing.\<close>

definition entry :: "jsval \<Rightarrow> bool" where
  "entry f = (f \<in> snd ` set reg)"

lemma entry_props:
  assumes "entry f"
  shows "truthy f" and "not_negative (to_num (jget f ''value''))"
    and "is_object (jget f ''qualityScores'')" and "coercible (jget f ''label'')"
    and "\<exists>k. map_of reg k = Some f \<and> jget f ''id'' = JStr k \<and> trim k = k \<and> k \<noteq> []"
proof -
  from assms obtain k where kf: "(k, f) \<in> set reg" by (auto simp: entry_def)
  then show "truthy f" "not_negative (to_num (jget f ''value''))" "is_object (jget f ''qualityScores'')"
    "coercible (jget f ''label'')"
    by (rule entry_truthy entry_value scores labels)+
  have "distinct (map fst reg)"
  proof -
    have "map (\<lambda>p. jget (snd p) ''id'') reg = map JStr (map fst reg)"
      using tidy_keys by (auto simp: comp_def)
    with loaded have "distinct (map JStr (map fst reg))" by (simp add: load_registry_iff)
    then show ?thesis by (simp only: distinct_map)
  qed
  with kf have "map_of reg k = Some f" by simp
  with tidy_keys [OF kf]
  show "\<exists>k. map_of reg k = Some f \<and> jget f ''id'' = JStr k \<and> trim k = k \<and> k \<noteq> []" by blast
qed

lemma table_entry: "k \<notin> prototype_names \<Longrightarrow> truthy (table_get reg k) \<Longrightarrow> entry (table_get reg k)"
  by (auto simp: table_get_def entry_def inherited_member_plain image_iff
      split: option.splits dest: map_of_SomeD intro: bexI [rotated])

lemma named_plain:
  assumes "trim s \<notin> prototype_names" and "truthy (factor_named reg s)"
  shows "entry (factor_named reg s)"
proof -
  from assms(2) consider
      "factor_named reg s = table_get reg (trim s)" "truthy (table_get reg (trim s))"
    | "factor_named reg s = table_get reg (to_str (table_get factor_id_aliases (token_of (trim s))))"
    by (auto simp: factor_named_def factor_id_named_def Let_def split: if_splits)
  then show ?thesis
  proof cases
    case 1
    with assms(1) show ?thesis by (simp add: table_entry)
  next
    case 2
    with alias_plain [of "token_of (trim s)"] assms(2) show ?thesis by (simp add: table_entry)
  qed
qed

lemma fallback_entry: "i \<in> set fallback_factor_ids \<Longrightarrow> entry (factor_named reg i)"
  by (erule fallback_found) (auto simp: entry_def image_iff dest: map_of_SomeD intro: bexI [rotated])

lemma resolve_plain:
  assumes "plain_id v" and "i \<in> set fallback_factor_ids"
  shows "\<exists>f. resolve_factor_or_fallback reg v (JStr i) = Inr f \<and> entry f"
  using assms(1) named_plain [of "str_or_empty v"] fallback_entry [OF assms(2)] entry_props(1)
  by (auto simp: resolve_factor_or_fallback_def plain_id_def get_carbon_factor_eq)

lemma resolve_entry_id:
  "entry f \<Longrightarrow> resolve_factor_or_fallback reg (jget f ''id'') w = Inr f"
  using entry_props(1,5) [of f]
  by (auto simp: resolve_factor_or_fallback_def get_carbon_factor_eq registered)

lemma energy_plain:
  assumes "plain_id v" and "coercible g"
  shows "\<exists>f. resolve_energy_factor reg v g = Inr f \<and> entry f"
proof -
  have generic: "entry (factor_named reg ''energy-grid-generic'')"
    by (rule fallback_entry) (simp add: fallback_factor_ids_def)
  have vietnam: "truthy (factor_named reg ''energy-grid-vn-2023'') \<Longrightarrow>
      entry (factor_named reg ''energy-grid-vn-2023'')"
    by (rule named_plain) (simp_all add: prototype_names_def object_prototype_names_def
      trim_def is_space_def)
  show ?thesis
    using assms generic vietnam named_plain [of "str_or_empty v"]
    by (auto simp: resolve_energy_factor_def plain_id_def get_carbon_factor_eq jor_def Let_def)
qed

lemma energy_scope_total: "entry f \<Longrightarrow> \<exists>k. resolve_energy_scope f role = Inr k"
  by (drule entry_props(5)) (auto simp: resolve_energy_scope_def)

end

interpretation v1: complete_registry factors_v1
proof unfold_locales
  show "load_registry factors_v1 = Inr ()" by (rule factors_v1_load_registry)
  fix i assume "i \<in> set fallback_factor_ids"
  then have "i \<in> set (map fst factors_v1)"
    unfolding factors_v1_keys fallback_factor_ids_def by auto
  then show "i \<in> fst ` set factors_v1" by simp
next
  fix k f assume kf: "(k, f) \<in> set factors_v1"
  then have "k \<in> set (map fst factors_v1)" by (metis fst_conv image_eqI set_map)
  with factors_v1_keys_trimmed factors_v1_key_mem [OF kf]
  show "trim k = k \<and> k \<noteq> [] \<and> jget f ''id'' = JStr k" by (auto simp: list_all_iff)
  from kf show "is_object (jget f ''qualityScores'')" and "coercible (jget f ''label'')"
    by (rule factors_v1_scores factors_v1_labels)+
qed

end
