(* ===== verification/Carbon_Validation.thy ===== *)
theory Carbon_Validation
  imports Carbon_Registry
begin

text \<open>
  \<open>modules/carbon/core/validation.js\<close>: the checks a request passes before it is calculated. In
  \<open>strict\<close> mode every physical quantity is checked; otherwise only the types. The result is the list
  of messages, or the TypeError of reading a property of a null element or of converting a factor id
  that has no text.
\<close>

definition actor_roles :: "string list" where
  "actor_roles = [''manufacturer'', ''brand'', ''supplier'', ''other'']"

definition finite_non_negative :: "jsval \<Rightarrow> bool" where
  "finite_non_negative v = (is_finite_number v \<and> 0 \<le> to_num v)"

definition validate_factor_unit ::
  "props \<Rightarrow> jsval \<Rightarrow> string \<Rightarrow> string \<Rightarrow> js_error + string list" where
  "validate_factor_unit reg factor_id unit path =
     (if \<not> truthy factor_id then Inr []
      else bind_result (get_carbon_factor reg factor_id) (\<lambda>f.
        Inr (if truthy f \<and> jget f ''unit'' \<noteq> JStr unit
             then [path @ '' factor '' @ to_str (jget f ''id'') @ '' must use '' @ unit
                   @ '', received '' @ to_str (jget f ''unit'')]
             else [])))"

text \<open>Messages pushed before the unit of the factor is checked.\<close>

definition then_factor_unit ::
  "props \<Rightarrow> jsval \<Rightarrow> string \<Rightarrow> string \<Rightarrow> string list \<Rightarrow> js_error + string list" where
  "then_factor_unit reg factor_id unit path es =
     bind_result (validate_factor_unit reg factor_id unit path) (\<lambda>us. Inr (es @ us))"

definition item_path :: "string \<Rightarrow> nat \<Rightarrow> string" where
  "item_path field i = field @ ''['' @ nat_str i @ '']''"

fun check_items :: "(nat \<Rightarrow> jsval \<Rightarrow> js_error + string list) \<Rightarrow> nat \<Rightarrow> jsval list \<Rightarrow> js_error + string list" where
  "check_items f i [] = Inr []"
| "check_items f i (v # vs) =
     (if is_nullish v then Inl (Type_Error (''Cannot read properties of '' @ to_str v))
      else bind_result (f i v) (\<lambda>es.
           bind_result (check_items f (Suc i) vs) (\<lambda>rest. Inr (es @ rest))))"

definition percentage_ok :: "jsval \<Rightarrow> bool" where
  "percentage_ok v = (finite_non_negative v \<and> to_num v \<le> Fin 100)"

definition coverage_of :: "jsval list \<Rightarrow> jnum" where
  "coverage_of items =
     foldl (\<lambda>sum v. if percentage_ok (jget v ''percentage'') then sum + to_num (jget v ''percentage'')
                     else sum) 0 items"

definition material_errors :: "props \<Rightarrow> nat \<Rightarrow> jsval \<Rightarrow> js_error + string list" where
  "material_errors reg i m =
     (let y = jget m ''yieldToProduct''; path = item_path ''materials'' i in
      then_factor_unit reg (jget m ''factorId'') ''kgCO2e/kg'' path
       ((if percentage_ok (jget m ''percentage'') then []
         else [path @ ''.percentage must be between 0 and 100'']) @
        (if y \<noteq> JUndef \<and> (\<not> finite_non_negative y \<or> to_num y \<le> 0 \<or> 1 < to_num y)
         then [path @ ''.yieldToProduct must be greater than 0 and at most 1''] else [])))"

definition accessory_errors :: "props \<Rightarrow> nat \<Rightarrow> jsval \<Rightarrow> js_error + string list" where
  "accessory_errors reg i a =
     (let w = jget a ''weightKg''; path = item_path ''accessories'' i in
      then_factor_unit reg (jget a ''factorId'') ''kgCO2e/kg'' path
       (if w \<noteq> JUndef \<and> \<not> finite_non_negative w
        then [path @ ''.weightKg must be a finite non-negative number''] else []))"

definition packaging_errors :: "props \<Rightarrow> jsval \<Rightarrow> js_error + string list" where
  "packaging_errors reg p =
     (if \<not> truthy p then Inr []
      else then_factor_unit reg (jget p ''factorId'') ''kgCO2e/kg'' ''packaging''
        (if jget p ''weightKg'' \<noteq> JUndef \<and> \<not> finite_non_negative (jget p ''weightKg'')
         then [''packaging.weightKg must be a finite non-negative number''] else []))"

fun process_errors :: "props \<Rightarrow> nat \<Rightarrow> jsval list \<Rightarrow> js_error + string list" where
  "process_errors reg i [] = Inr []"
| "process_errors reg i (v # vs) =
     bind_result (validate_factor_unit reg v ''kWh/kg'' (item_path ''processFactorIds'' i)) (\<lambda>es.
     bind_result (process_errors reg (Suc i) vs) (\<lambda>rest. Inr (es @ rest)))"

definition energy_errors :: "props \<Rightarrow> nat \<Rightarrow> jsval \<Rightarrow> js_error + string list" where
  "energy_errors reg i e =
     (let path = item_path ''energyMix'' i in
      then_factor_unit reg (jget e ''factorId'') ''kgCO2e/kWh'' path
       (if percentage_ok (jget e ''percentage'') then []
        else [path @ ''.percentage must be between 0 and 100'']))"

definition transport_errors :: "props \<Rightarrow> nat \<Rightarrow> jsval \<Rightarrow> js_error + string list" where
  "transport_errors reg i leg =
     (let d = jget leg ''distanceKm''; path = item_path ''transport'' i in
      then_factor_unit reg (jget leg ''factorId'') ''kgCO2e/tonne.km'' path
       (if d \<noteq> JUndef \<and> (\<not> finite_non_negative d \<or> to_num d \<le> 0)
        then [path @ ''.distanceKm must be a positive finite number when provided''] else []))"

text \<open>The two checks on the sum of the percentages.\<close>

definition coverage_errors :: "string \<Rightarrow> string \<Rightarrow> jsval list \<Rightarrow> string list" where
  "coverage_errors too_much too_little items =
     (if Fin 105 < coverage_of items then [too_much] else []) @
     (if items \<noteq> [] \<and> coverage_of items \<le> 0 then [too_little] else [])"

definition type_errors :: "jsval \<Rightarrow> string list" where
  "type_errors input =
     (if is_number (jget input ''unitMassKg'') then [] else [''unitMassKg must be a number'']) @
     (if is_number (jget input ''quantity'') then [] else [''quantity must be a number'']) @
     map (\<lambda>field. field @ '' must be an array'')
       (filter (\<lambda>field. \<not> is_array (jget input field))
         [''materials'', ''accessories'', ''processFactorIds'', ''energyMix'', ''transport'']) @
     (if jget input ''productCategory'' \<noteq> JUndef \<and> jget input ''productCategory'' \<noteq> JStr ''textile''
      then [''productCategory must be textile when provided''] else []) @
     (if jget input ''reportingActorRole'' \<noteq> JUndef
         \<and> jget input ''reportingActorRole'' \<notin> JStr ` set actor_roles
      then [''reportingActorRole is invalid''] else [])"

definition size_errors :: "jsval \<Rightarrow> string list" where
  "size_errors input =
     (if finite_non_negative (jget input ''unitMassKg'') then []
      else [''unitMassKg must be a finite non-negative number'']) @
     (if is_integer (jget input ''quantity'') \<and> \<not> to_num (jget input ''quantity'') \<le> 0 then []
      else [''quantity must be a positive integer''])"

definition strict_errors :: "props \<Rightarrow> jsval \<Rightarrow> js_error + string list" where
  "strict_errors reg input =
     (let items = (\<lambda>field. elements (jget input field)) in
      bind_result (check_items (material_errors reg) 0 (items ''materials'')) (\<lambda>materials.
      bind_result (check_items (accessory_errors reg) 0 (items ''accessories'')) (\<lambda>accessories.
      bind_result (packaging_errors reg (jget input ''packaging'')) (\<lambda>packaging.
      bind_result (process_errors reg 0 (items ''processFactorIds'')) (\<lambda>processes.
      bind_result (check_items (energy_errors reg) 0 (items ''energyMix'')) (\<lambda>energy.
      bind_result (check_items (transport_errors reg) 0 (items ''transport'')) (\<lambda>transport.
      Inr (size_errors input @ materials @
           coverage_errors ''material BOM coverage cannot exceed 105%''
             ''material BOM coverage must be greater than 0% when materials are provided''
             (items ''materials'') @
           accessories @ packaging @ processes @ energy @
           coverage_errors ''energy mix coverage cannot exceed 105%''
             ''energy mix coverage must be greater than 0% when entries are provided''
             (items ''energyMix'') @
           transport))))))))"

definition validate_carbon_input :: "props \<Rightarrow> jsval \<Rightarrow> js_error + string list" where
  "validate_carbon_input reg input =
     (if \<not> is_object input then Inr [''input must be an object'']
      else bind_result
        (if jget input ''validationMode'' = JStr ''strict'' then strict_errors reg input else Inr [])
        (\<lambda>strict. Inr (type_errors input @ strict)))"

definition assert_valid_carbon_input :: "props \<Rightarrow> jsval \<Rightarrow> js_error + jsval" where
  "assert_valid_carbon_input reg input =
     bind_result (validate_carbon_input reg input) (\<lambda>errors.
       if errors = [] then Inr input
       else Inl (Type_Error (''Invalid carbon input: '' @ join ''; '' errors)))"

section \<open>Properties\<close>

text \<open>
  What strict validation promises about a request, stated without messages, without the order of the
  checks and without the functions of the registry: \<open>denotes\<close> is the factor an id names, as a key of the
  registry or else through an alias; \<open>factor_fits\<close> says that a factor id can be read as a text and
  that a factor it names has the unit.
\<close>

definition denotes :: "props \<Rightarrow> string \<Rightarrow> jsval \<Rightarrow> bool" where
  "denotes reg s f =
     (truthy f \<and> trim s \<noteq> [] \<and>
      (f = table_get reg (trim s) \<or>
       \<not> truthy (table_get reg (trim s)) \<and>
       (\<exists>i. i = table_get factor_id_aliases (token_of (trim s)) \<and> truthy i \<and>
            f = table_get reg (to_str i))))"

definition factor_fits :: "props \<Rightarrow> string \<Rightarrow> jsval \<Rightarrow> bool" where
  "factor_fits reg unit factor_id =
     (truthy factor_id \<longrightarrow>
      coercible factor_id \<and> (\<forall>f. denotes reg (to_str factor_id) f \<longrightarrow> jget f ''unit'' = JStr unit))"

definition coverage_fits :: "jsval list \<Rightarrow> bool" where
  "coverage_fits items =
     (\<not> Fin 105 < coverage_of items \<and> (items \<noteq> [] \<longrightarrow> \<not> coverage_of items \<le> 0))"

definition material_fits :: "props \<Rightarrow> jsval \<Rightarrow> bool" where
  "material_fits reg m =
     (percentage_ok (jget m ''percentage'') \<and> factor_fits reg ''kgCO2e/kg'' (jget m ''factorId'') \<and>
      (jget m ''yieldToProduct'' \<noteq> JUndef \<longrightarrow> finite_non_negative (jget m ''yieldToProduct'') \<and>
        \<not> to_num (jget m ''yieldToProduct'') \<le> 0 \<and> \<not> 1 < to_num (jget m ''yieldToProduct'')))"

text \<open>An accessory, or the packaging.\<close>

definition weighed_fits :: "props \<Rightarrow> jsval \<Rightarrow> bool" where
  "weighed_fits reg a =
     (factor_fits reg ''kgCO2e/kg'' (jget a ''factorId'') \<and>
      (jget a ''weightKg'' \<noteq> JUndef \<longrightarrow> finite_non_negative (jget a ''weightKg'')))"

definition energy_fits :: "props \<Rightarrow> jsval \<Rightarrow> bool" where
  "energy_fits reg e =
     (percentage_ok (jget e ''percentage'') \<and> factor_fits reg ''kgCO2e/kWh'' (jget e ''factorId''))"

definition leg_fits :: "props \<Rightarrow> jsval \<Rightarrow> bool" where
  "leg_fits reg l =
     (factor_fits reg ''kgCO2e/tonne.km'' (jget l ''factorId'') \<and>
      (jget l ''distanceKm'' \<noteq> JUndef \<longrightarrow> finite_non_negative (jget l ''distanceKm'') \<and>
        \<not> to_num (jget l ''distanceKm'') \<le> 0))"

definition request_typed :: "jsval \<Rightarrow> bool" where
  "request_typed input =
     (is_number (jget input ''unitMassKg'') \<and> is_number (jget input ''quantity'') \<and>
      (\<forall>field \<in> {''materials'', ''accessories'', ''processFactorIds'', ''energyMix'', ''transport''}.
        is_array (jget input field)) \<and>
      (jget input ''productCategory'' \<in> {JUndef, JStr ''textile''}) \<and>
      (jget input ''reportingActorRole'' \<in> insert JUndef (JStr ` set actor_roles)))"

definition request_physical :: "props \<Rightarrow> jsval \<Rightarrow> bool" where
  "request_physical reg input =
     (let items = (\<lambda>field. elements (jget input field)) in
      finite_non_negative (jget input ''unitMassKg'') \<and>
      is_integer (jget input ''quantity'') \<and> \<not> to_num (jget input ''quantity'') \<le> 0 \<and>
      coverage_fits (items ''materials'') \<and> coverage_fits (items ''energyMix'') \<and>
      (\<forall>m \<in> set (items ''materials''). material_fits reg m) \<and>
      (\<forall>a \<in> set (items ''accessories''). weighed_fits reg a) \<and>
      (truthy (jget input ''packaging'') \<longrightarrow> weighed_fits reg (jget input ''packaging'')) \<and>
      (\<forall>p \<in> set (items ''processFactorIds''). factor_fits reg ''kWh/kg'' p) \<and>
      (\<forall>e \<in> set (items ''energyMix''). energy_fits reg e) \<and>
      (\<forall>l \<in> set (items ''transport''). leg_fits reg l))"

definition no_null_items :: "jsval \<Rightarrow> bool" where
  "no_null_items input =
     (\<forall>field \<in> {''materials'', ''accessories'', ''energyMix'', ''transport''}.
       \<forall>v \<in> set (elements (jget input field)). \<not> is_nullish v)"

lemma denotes_iff: "denotes reg s f \<longleftrightarrow> truthy f \<and> f = factor_named reg s"
  by (auto simp: denotes_def factor_named_def factor_id_named_def Let_def)

lemma validate_factor_unit_Nil [simp]:
  "validate_factor_unit reg v unit path = Inr [] \<longleftrightarrow> factor_fits reg unit v"
  by (auto simp: validate_factor_unit_def factor_fits_def denotes_iff str_or_empty_def
      get_carbon_factor_eq)

lemma then_factor_unit_Nil [simp]:
  "then_factor_unit reg v unit path es = Inr [] \<longleftrightarrow> es = [] \<and> factor_fits reg unit v"
  by (auto simp: then_factor_unit_def)

lemma check_items_Nil:
  "check_items f i vs = Inr [] \<longleftrightarrow>
   (\<forall>v \<in> set vs. \<not> is_nullish v) \<and> (\<forall>j < length vs. f (i + j) (vs ! j) = Inr [])"
  by (induction f i vs rule: check_items.induct)
     (auto simp: All_less_Suc2)

lemma process_errors_Nil:
  "process_errors reg i vs = Inr [] \<longleftrightarrow> (\<forall>v \<in> set vs. factor_fits reg ''kWh/kg'' v)"
  by (induction reg i vs rule: process_errors.induct) auto

lemma coverage_errors_Nil: "coverage_errors a b items = [] \<longleftrightarrow> coverage_fits items"
  by (auto simp: coverage_fits_def coverage_errors_def)

lemma check_items_forall:
  assumes "\<And>i v. f i v = Inr [] \<longleftrightarrow> P v"
  shows "check_items f 0 vs = Inr [] \<longleftrightarrow> (\<forall>v \<in> set vs. \<not> is_nullish v \<and> P v)"
  unfolding check_items_Nil assms all_set_conv_all_nth by auto

lemma material_errors_Nil: "material_errors reg i m = Inr [] \<longleftrightarrow> material_fits reg m"
  by (auto simp: material_errors_def material_fits_def Let_def)

lemma accessory_errors_Nil: "accessory_errors reg i a = Inr [] \<longleftrightarrow> weighed_fits reg a"
  by (auto simp: accessory_errors_def weighed_fits_def Let_def)

lemma packaging_errors_Nil:
  "packaging_errors reg p = Inr [] \<longleftrightarrow> (truthy p \<longrightarrow> weighed_fits reg p)"
  by (auto simp: packaging_errors_def weighed_fits_def)

lemma energy_errors_Nil: "energy_errors reg i e = Inr [] \<longleftrightarrow> energy_fits reg e"
  by (auto simp: energy_errors_def energy_fits_def Let_def)

lemma transport_errors_Nil: "transport_errors reg i l = Inr [] \<longleftrightarrow> leg_fits reg l"
  by (auto simp: transport_errors_def leg_fits_def Let_def)

lemmas item_errors_Nil =
  check_items_forall [OF material_errors_Nil] check_items_forall [OF accessory_errors_Nil]
  check_items_forall [OF energy_errors_Nil] check_items_forall [OF transport_errors_Nil]

lemma type_errors_Nil: "type_errors input = [] \<longleftrightarrow> request_typed input"
  by (auto simp: type_errors_def request_typed_def filter_empty_conv)

lemma size_errors_Nil:
  "size_errors input = [] \<longleftrightarrow>
   finite_non_negative (jget input ''unitMassKg'') \<and>
   is_integer (jget input ''quantity'') \<and> \<not> to_num (jget input ''quantity'') \<le> 0"
  by (auto simp: size_errors_def)

lemma strict_errors_Nil:
  "strict_errors reg input = Inr [] \<longleftrightarrow> no_null_items input \<and> request_physical reg input"
proof -
  let ?items = "\<lambda>field. elements (jget input field)"
  have "strict_errors reg input = Inr [] \<longleftrightarrow>
    check_items (material_errors reg) 0 (?items ''materials'') = Inr [] \<and>
    check_items (accessory_errors reg) 0 (?items ''accessories'') = Inr [] \<and>
    check_items (energy_errors reg) 0 (?items ''energyMix'') = Inr [] \<and>
    check_items (transport_errors reg) 0 (?items ''transport'') = Inr [] \<and>
    size_errors input = [] \<and>
    coverage_errors ''material BOM coverage cannot exceed 105%''
      ''material BOM coverage must be greater than 0% when materials are provided''
      (?items ''materials'') = [] \<and>
    coverage_errors ''energy mix coverage cannot exceed 105%''
      ''energy mix coverage must be greater than 0% when entries are provided''
      (?items ''energyMix'') = [] \<and>
    packaging_errors reg (jget input ''packaging'') = Inr [] \<and>
    process_errors reg 0 (?items ''processFactorIds'') = Inr []"
    unfolding strict_errors_def Let_def by auto
  also have "\<dots> \<longleftrightarrow> no_null_items input \<and> request_physical reg input"
    unfolding item_errors_Nil size_errors_Nil packaging_errors_Nil process_errors_Nil
      coverage_errors_Nil no_null_items_def request_physical_def Let_def
    by (simp add: ball_conj_distrib) blast
  finally show ?thesis .
qed

lemma validate_carbon_input_Nil:
  "validate_carbon_input reg input = Inr [] \<longleftrightarrow>
   is_object input \<and> request_typed input \<and>
   (jget input ''validationMode'' = JStr ''strict'' \<longrightarrow>
    no_null_items input \<and> request_physical reg input)"
  by (auto simp: validate_carbon_input_def type_errors_Nil strict_errors_Nil [symmetric])

lemma assert_valid_Inr:
  "assert_valid_carbon_input reg input = Inr x \<longleftrightarrow>
   validate_carbon_input reg input = Inr [] \<and> x = input"
  by (auto simp: assert_valid_carbon_input_def split: if_splits)

end
