(* ===== verification/Carbon_Stage_Model.thy ===== *)
theory Carbon_Stage_Model
  imports Carbon_Validation
begin

text \<open>
  \<open>modules/carbon/core/stageModel.js\<close>: the accumulator of a life-cycle stage, the order of data
  qualities, and the published range of a stage. A quality is whatever the factor record says, so it
  stays a JavaScript value; one that the rank table does not know compares like \<open>undefined\<close>.
\<close>

definition quality_rank :: props where
  "quality_rank =
     [(''primary'', JNum (Fin 0)), (''documented_secondary'', JNum (Fin 1)),
      (''internal_proxy'', JNum (Fin 2)), (''market_default_or_missing'', JNum (Fin 3))]"

definition uncertainty_by_quality :: props where
  "uncertainty_by_quality =
     [(''primary'', JNum (num_of (1 / 10))), (''documented_secondary'', JNum (num_of (2 / 10))),
      (''internal_proxy'', JNum (num_of (35 / 100))),
      (''market_default_or_missing'', JNum (num_of (5 / 10)))]"

definition rank_of :: "jsval \<Rightarrow> jnum" where
  "rank_of q = to_num (table_get quality_rank (to_str q))"

definition max_quality :: "jsval \<Rightarrow> jsval \<Rightarrow> jsval" where
  "max_quality left right = (if rank_of right \<le> rank_of left then left else right)"

abbreviation missing_quality :: jsval where
  "missing_quality \<equiv> JStr ''market_default_or_missing''"

record factor_summary =
  sum_factor_id :: jsval
  sum_version_id :: jsval
  sum_label :: jsval
  sum_stage :: string
  sum_unit :: jsval
  sum_value :: jsval
  sum_source :: jsval
  sum_source_url :: jsval
  sum_geography :: jsval
  sum_year :: jsval
  sum_quality :: jsval
  sum_factor_class :: jsval
  sum_boundary :: jsval
  sum_gwp_basis :: jsval
  sum_uncertainty_cv :: jsval
  sum_quality_scores :: jsval
  sum_is_proxy :: jsval

record stage_acc =
  acc_amount :: jnum
  acc_factors :: "factor_summary list"
  acc_quality :: jsval

definition create_stage_accumulator :: stage_acc where
  "create_stage_accumulator =
     \<lparr>acc_amount = 0, acc_factors = [], acc_quality = JStr ''primary''\<rparr>"

definition summarize :: "string \<Rightarrow> jsval \<Rightarrow> factor_summary" where
  "summarize stage f =
     \<lparr>sum_factor_id = jget f ''id'', sum_version_id = jget f ''factorVersionId'',
      sum_label = jget f ''label'', sum_stage = stage, sum_unit = jget f ''unit'',
      sum_value = jget f ''value'', sum_source = jget f ''source'',
      sum_source_url = jget f ''sourceUrl'', sum_geography = jget f ''geography'',
      sum_year = jget f ''year'', sum_quality = jget f ''quality'',
      sum_factor_class = jget f ''factorClass'', sum_boundary = jget f ''boundaryType'',
      sum_gwp_basis = jget f ''gwpBasis'', sum_uncertainty_cv = jget f ''uncertaintyCv'',
      sum_quality_scores = jget f ''qualityScores'', sum_is_proxy = jget f ''isProxy''\<rparr>"

definition summary_key :: "factor_summary \<Rightarrow> string" where
  "summary_key s = sum_stage s @ '':'' @ to_str (sum_factor_id s)"

definition add_factor_summary :: "string \<Rightarrow> jsval \<Rightarrow> stage_acc \<Rightarrow> stage_acc" where
  "add_factor_summary stage f acc =
     (let key = stage @ '':'' @ to_str (jget f ''id'');
          quality = max_quality (acc_quality acc) (jget f ''quality'')
      in if key \<in> summary_key ` set (acc_factors acc) then acc\<lparr>acc_quality := quality\<rparr>
         else acc\<lparr>acc_factors := acc_factors acc @ [summarize stage f], acc_quality := quality\<rparr>)"

definition add_amount :: "jnum \<Rightarrow> stage_acc \<Rightarrow> stage_acc" where
  "add_amount n acc = acc\<lparr>acc_amount := acc_amount acc + n\<rparr>"

definition degrade :: "stage_acc \<Rightarrow> stage_acc" where
  "degrade acc = acc\<lparr>acc_quality := max_quality (acc_quality acc) missing_quality\<rparr>"

record stage_range =
  range_min :: jnum
  range_max :: jnum

definition build_stage_range :: "jnum \<Rightarrow> jsval \<Rightarrow> stage_range" where
  "build_stage_range amount quality =
     (if amount \<le> 0 then \<lparr>range_min = 0, range_max = 0\<rparr>
      else let u = to_num (table_get uncertainty_by_quality (to_str quality))
        in \<lparr>range_min = round_per_product (amount * (1 - u)),
            range_max = round_per_product (amount * (1 + u))\<rparr>)"

record stage_breakdown =
  sb_stage :: string
  sb_amount :: jnum
  sb_range :: stage_range
  sb_quality :: jsval
  sb_factors :: "factor_summary list"
  sb_is_estimated :: bool

definition to_stage_breakdown :: "string \<Rightarrow> stage_acc \<Rightarrow> stage_breakdown" where
  "to_stage_breakdown stage acc =
     \<lparr>sb_stage = stage, sb_amount = round_per_product (acc_amount acc),
      sb_range = build_stage_range (acc_amount acc) (acc_quality acc),
      sb_quality = acc_quality acc, sb_factors = acc_factors acc,
      sb_is_estimated = list_ex (\<lambda>s. truthy (sum_is_proxy s)) (acc_factors acc)\<rparr>"

section \<open>Properties\<close>

subsection \<open>Qualities\<close>

definition known_quality :: "jsval \<Rightarrow> bool" where
  "known_quality q = (q \<in> JStr ` fst ` set quality_rank)"

definition quality_level :: "jsval \<Rightarrow> nat" where
  "quality_level q = (if q = JStr ''primary'' then 0 else if q = JStr ''documented_secondary'' then 1
     else if q = JStr ''internal_proxy'' then 2 else 3)"

lemma known_quality_cases:
  assumes "known_quality q"
  obtains "q = JStr ''primary''" | "q = JStr ''documented_secondary''"
    | "q = JStr ''internal_proxy''" | "q = missing_quality"
  using assms unfolding known_quality_def quality_rank_def list.set image_insert image_empty fst_conv
  by blast

lemma rank_of_known: "known_quality q \<Longrightarrow> rank_of q = Fin (of_nat (quality_level q))"
  by (erule known_quality_cases)
     (simp_all add: rank_of_def table_get_def quality_rank_def quality_level_def)

lemma known_quality_name: "known_quality q \<Longrightarrow> q = JStr (fst (quality_rank ! quality_level q))"
  by (erule known_quality_cases) (simp_all add: quality_level_def quality_rank_def)

lemma quality_level_inj:
  "known_quality p \<Longrightarrow> known_quality q \<Longrightarrow> quality_level p = quality_level q \<Longrightarrow> p = q"
  by (metis known_quality_name)

lemma max_quality_level:
  assumes "known_quality p" and "known_quality q"
  shows "known_quality (max_quality p q)"
    and "quality_level (max_quality p q) = max (quality_level p) (quality_level q)"
  using assms by (auto simp: max_quality_def rank_of_known num_simps)

lemma known_primary: "known_quality (JStr ''primary'')" "quality_level (JStr ''primary'') = 0"
  by (simp_all add: known_quality_def quality_rank_def quality_level_def)

text \<open>On the known qualities \<open>maxQuality\<close> is a semilattice with \<open>primary\<close> as its bottom.\<close>

lemma max_quality_laws:
  assumes "known_quality p" and "known_quality q" and "known_quality r"
  shows "max_quality p p = p" and "max_quality p q = max_quality q p"
    and "max_quality (max_quality p q) r = max_quality p (max_quality q r)"
    and "max_quality (JStr ''primary'') p = p"
proof -
  show "max_quality p p = p" by (simp add: max_quality_def)
  show "max_quality p q = max_quality q p"
    by (rule quality_level_inj) (simp_all add: assms max_quality_level max.commute)
  show "max_quality (max_quality p q) r = max_quality p (max_quality q r)"
    by (rule quality_level_inj) (simp_all add: assms max_quality_level max.assoc)
  show "max_quality (JStr ''primary'') p = p"
    by (rule quality_level_inj) (simp_all add: assms max_quality_level known_primary)
qed

subsection \<open>Factor summaries\<close>

definition keys_distinct :: "stage_acc \<Rightarrow> bool" where
  "keys_distinct acc = distinct (map summary_key (acc_factors acc))"

lemma keys_distinct_create [simp]: "keys_distinct create_stage_accumulator"
  by (simp add: keys_distinct_def create_stage_accumulator_def)

lemma keys_distinct_add [simp]:
  "keys_distinct acc \<Longrightarrow> keys_distinct (add_factor_summary stage f acc)"
  by (auto simp: keys_distinct_def add_factor_summary_def Let_def summary_key_def summarize_def image_iff)

lemma keys_distinct_frame [simp]:
  "keys_distinct (add_amount n acc) = keys_distinct acc"
  "keys_distinct (degrade acc) = keys_distinct acc"
  by (simp_all add: keys_distinct_def add_amount_def degrade_def)

lemma acc_amount_frame [simp]:
  "acc_amount (add_factor_summary stage f acc) = acc_amount acc"
  "acc_amount (degrade acc) = acc_amount acc"
  "acc_amount (add_amount n acc) = acc_amount acc + n"
  "acc_amount create_stage_accumulator = 0"
  by (simp_all add: add_factor_summary_def Let_def degrade_def add_amount_def
      create_stage_accumulator_def)

lemma acc_factors_frame [simp]:
  "acc_factors (add_amount n acc) = acc_factors acc"
  "acc_factors (degrade acc) = acc_factors acc"
  "acc_factors create_stage_accumulator = []"
  by (simp_all add: add_amount_def degrade_def create_stage_accumulator_def)

lemma acc_factors_add:
  "summary_key ` set (acc_factors (add_factor_summary stage f acc))
   = insert (stage @ '':'' @ to_str (jget f ''id'')) (summary_key ` set (acc_factors acc))"
  by (auto simp: add_factor_summary_def Let_def summary_key_def summarize_def)

subsection \<open>The published range\<close>

lemma uncertainty_known:
  assumes "known_quality q"
  obtains r where "to_num (table_get uncertainty_by_quality (to_str q)) = num_of r"
    and "0 \<le> r" and "r \<le> 1"
proof -
  have "\<exists>r. to_num (table_get uncertainty_by_quality (to_str q)) = num_of r \<and> 0 \<le> r \<and> r \<le> 1"
    using assms
    by (cases rule: known_quality_cases)
       (auto simp: table_get_def uncertainty_by_quality_def intro!: exI)
  then show thesis using that by blast
qed

lemma num_of_unit:
  assumes "0 \<le> r" and "r \<le> 1"
  obtains u where "num_of r = Fin u" and "0 \<le> u" and "u \<le> 1"
proof -
  obtain u where u: "num_of r = Fin u" "0 \<le> u" by (rule num_of_finite [of r]) (use assms in auto)
  have "num_of r \<le> num_of 1" using assms(2) by (rule num_of_mono)
  with u num_of_small_int [of 1] have "u \<le> 1" by (simp add: num_simps)
  with u show thesis using that by blast
qed

lemma stage_range_ordered:
  assumes "known_quality q"
  shows "range_min (build_stage_range (Fin a) q) \<le> range_max (build_stage_range (Fin a) q)"
proof (cases "a \<le> 0")
  case True
  then show ?thesis by (simp add: build_stage_range_def num_simps)
next
  case False
  obtain r where r: "to_num (table_get uncertainty_by_quality (to_str q)) = num_of r"
    and "0 \<le> r" "r \<le> 1" using assms by (rule uncertainty_known)
  then obtain u where u: "num_of r = Fin u" "0 \<le> u" "u \<le> 1" using num_of_unit by metis
  obtain l where l: "num_of (1 - u) = Fin l" by (rule num_of_unit [of "1 - u"]) (use u in auto)
  obtain h where h: "num_of (1 + u) = Fin h" by (rule num_of_finite [of "1 + u"]) (use u in auto)
  have "num_of (1 - u) \<le> num_of (1 + u)" by (rule num_of_mono) (use u in simp)
  then have "l \<le> h" by (simp add: l h num_simps)
  then have "a * l \<le> a * h" using False by simp
  then have "round_per_product (num_of (a * l)) \<le> round_per_product (num_of (a * h))"
    by (intro round_per_product_mono num_of_mono)
  with False show ?thesis
    by (simp add: build_stage_range_def r u l h num_simps Let_def)
qed

end
