(* ===== verification/Carbon_Stages.thy ===== *)
theory Carbon_Stages
  imports Carbon_Stage_Model
begin

text \<open>
  \<open>modules/carbon/core/stages.js\<close>: the four life-cycle stages. Each runs over a normalised request,
  whose list items are objects, and books an amount with its factor: into the stage accumulator, the
  contribution list, the calculation terms and the scope-3 sum. A stage throws when a factor and its
  fallback are both unknown, when a resolved factor has no usable id, or when a value it converts to a
  text or a number cannot be converted (\<open>check_coercible\<close> marks the places; a percentage is converted
  as soon as the coverage is summed, so later uses of it cannot throw).
\<close>

record calculation_term =
  ct_stage :: string
  ct_detail :: jsval
  ct_activity :: jnum
  ct_activity_unit :: string
  ct_factor_id :: jsval
  ct_factor_version_id :: jsval
  ct_factor_value :: jsval
  ct_factor_unit :: jsval
  ct_source :: jsval
  ct_source_url :: jsval
  ct_source_year :: jsval
  ct_geography :: jsval
  ct_boundary :: jsval
  ct_gwp_basis :: jsval
  ct_factor_class :: jsval
  ct_is_proxy :: bool
  ct_kg :: jnum
  ct_allocation :: jsval

definition build_calculation_term ::
  "string \<Rightarrow> jsval \<Rightarrow> jnum \<Rightarrow> string \<Rightarrow> jsval \<Rightarrow> jnum \<Rightarrow> jsval \<Rightarrow> calculation_term" where
  "build_calculation_term stage detail activity unit f kg allocation =
     \<lparr>ct_stage = stage, ct_detail = detail, ct_activity = activity, ct_activity_unit = unit,
      ct_factor_id = jget f ''id'', ct_factor_version_id = jget f ''factorVersionId'',
      ct_factor_value = jget f ''value'', ct_factor_unit = jget f ''unit'',
      ct_source = jget f ''source'', ct_source_url = jget f ''sourceUrl'',
      ct_source_year = jelse (jget f ''year'') JNull, ct_geography = jget f ''geography'',
      ct_boundary = jget f ''boundaryType'', ct_gwp_basis = jget f ''gwpBasis'',
      ct_factor_class = jget f ''factorClass'', ct_is_proxy = truthy (jget f ''isProxy''),
      ct_kg = kg, ct_allocation = jor allocation JNull\<rparr>"

record contribution =
  con_amount :: jnum
  con_factor :: jsval

text \<open>The variables the four functions share.\<close>

record stage_run =
  run_stage :: stage_acc
  run_notes :: "string list"
  run_warnings :: "string list"
  run_contributions :: "contribution list"
  run_terms :: "calculation_term list"
  run_scope3 :: jnum

definition start_run :: stage_run where
  "start_run = \<lparr>run_stage = create_stage_accumulator, run_notes = [], run_warnings = [],
     run_contributions = [], run_terms = [], run_scope3 = 0\<rparr>"

definition add_note :: "string \<Rightarrow> ('a) stage_run_scheme \<Rightarrow> 'a stage_run_scheme" where
  "add_note s r = r\<lparr>run_notes := run_notes r @ [s]\<rparr>"

definition note_degraded :: "string \<Rightarrow> ('a) stage_run_scheme \<Rightarrow> 'a stage_run_scheme" where
  "note_degraded s r = (add_note s r)\<lparr>run_stage := degrade (run_stage r)\<rparr>"

definition warn :: "string \<Rightarrow> ('a) stage_run_scheme \<Rightarrow> 'a stage_run_scheme" where
  "warn s r = r\<lparr>run_warnings := run_warnings r @ [s]\<rparr>"

text \<open>\<open>stage.amount += amount; addFactorSummary(...); contributionTerms.push(...);
  calculationTerms.push(...); scope3Amount += amount\<close>\<close>

definition book ::
  "string \<Rightarrow> jsval \<Rightarrow> jnum \<Rightarrow> string \<Rightarrow> jsval \<Rightarrow> jnum \<Rightarrow> jsval \<Rightarrow>
   ('a) stage_run_scheme \<Rightarrow> 'a stage_run_scheme" where
  "book stage detail activity unit f amount allocation r =
     r\<lparr>run_stage := add_factor_summary stage f (add_amount amount (run_stage r)),
       run_contributions := run_contributions r @ [\<lparr>con_amount = amount, con_factor = f\<rparr>],
       run_terms := run_terms r
         @ [build_calculation_term stage detail activity unit f amount allocation],
       run_scope3 := run_scope3 r + amount\<rparr>"

definition quoted :: "string \<Rightarrow> string" where
  "quoted s = [CHR 0x22] @ s @ [CHR 0x22]"

definition check_coercible :: "jsval \<Rightarrow> js_error + unit" where
  "check_coercible v = (if coercible v then Inr () else Inl cannot_convert)"

lemma check_coercible_Inr [simp]: "check_coercible v = Inr u \<longleftrightarrow> coercible v"
  by (simp add: check_coercible_def)

text \<open>\<open>isFiniteNumber(v) && v > 0\<close>\<close>

definition is_positive :: "jsval \<Rightarrow> bool" where
  "is_positive v = (is_finite_number v \<and> 0 < to_num v)"

text \<open>\<open>Math.max(0, entry.percentage || 0)\<close>\<close>

definition share_of :: "jsval \<Rightarrow> jnum" where
  "share_of entry = math_max 0 (to_num (jor (jget entry ''percentage'') (JNum 0)))"

definition check_shares :: "jsval list \<Rightarrow> js_error + unit" where
  "check_shares entries =
     (if list_all (\<lambda>e. coercible (jget e ''percentage'')) entries then Inr () else Inl cannot_convert)"

lemma check_shares_Inr [simp]:
  "check_shares entries = Inr u \<longleftrightarrow> (\<forall>e \<in> set entries. coercible (jget e ''percentage''))"
  by (simp add: check_shares_def list_all_iff)

definition yield_of :: "jsval \<Rightarrow> jnum" where
  "yield_of item =
     (if is_positive (jget item ''yieldToProduct'')
      then clamp (to_num (jget item ''yieldToProduct'')) (num_of (1 / 100)) 1 else 1)"

definition off_range :: "jnum \<Rightarrow> bool" where
  "off_range coverage = (coverage < Fin 95 \<or> Fin 105 < coverage)"

section \<open>Materials\<close>

record material_run = stage_run +
  run_biogenic :: jnum

definition unknown_origin :: "jsval \<Rightarrow> bool" where
  "unknown_origin material = (jor (jget material ''source'') (JStr ''unknown'') = JStr ''unknown'')"

definition material_label :: "jsval \<Rightarrow> jsval" where
  "material_label m = jor (jget m ''name'') (jget m ''type'')"

definition accessory_mass :: "jsval list \<Rightarrow> jnum" where
  "accessory_mass accessories =
     foldl (\<lambda>sum a. if is_positive (jget a ''weightKg'') then sum + to_num (jget a ''weightKg'') else sum)
       0 accessories"

definition bom_coverage_of :: "jsval list \<Rightarrow> jnum" where
  "bom_coverage_of materials = foldl (\<lambda>sum m. sum + share_of m) 0 materials"

definition material_preamble :: "jsval list \<Rightarrow> material_run \<Rightarrow> material_run" where
  "material_preamble materials r =
     (let coverage = bom_coverage_of materials;
          r1 = (if off_range coverage
                then warn ''Material BOM coverage is outside the 95-105% control range.''
                  (note_degraded (''BOM coverage is '' @ num_str (round_per_product coverage)
                     @ ''%; results rely on partial material allocation.'') r)
                else r)
      in if materials = []
         then note_degraded
           ''Material inputs are missing; material stage is excluded from the estimate.'' r1
         else r1)"

definition add_biogenic :: "jnum \<Rightarrow> jsval \<Rightarrow> material_run \<Rightarrow> material_run" where
  "add_biogenic mass bf r =
     (if is_positive bf then r\<lparr>run_biogenic := run_biogenic r + mass * to_num bf\<rparr> else r)"

definition generic_proxy :: "jsval \<Rightarrow> jsval \<Rightarrow> jsval \<Rightarrow> bool" where
  "generic_proxy methodology m f =
     (\<not> truthy (jget m ''factorId'')
      \<and> strict_eq (jget f ''id'') (jget methodology ''defaultMaterialFactorId''))"

definition material_notes :: "jsval \<Rightarrow> jsval \<Rightarrow> jsval \<Rightarrow> material_run \<Rightarrow> material_run" where
  "material_notes methodology m f r =
     (let name = to_str (material_label m);
          r1 = (if unknown_origin m
                then note_degraded (''Material '' @ quoted name
                  @ '' has unknown origin; uncertainty is widened.'') r
                else r)
      in if generic_proxy methodology m f
         then add_note (''Material '' @ quoted name @ '' is mapped to a generic internal proxy factor.'') r1
         else r1)"

definition material_step ::
  "props \<Rightarrow> jnum \<Rightarrow> jsval \<Rightarrow> material_run \<Rightarrow> jsval \<Rightarrow> js_error + material_run" where
  "material_step reg base methodology r m =
     bind_result (resolve_factor_or_fallback reg (jelse (jget m ''factorId'') (jget m ''type''))
                   (jget methodology ''defaultMaterialFactorId'')) (\<lambda>f.
       let percentage = clamp (to_num (jor (jget m ''percentage'') (JNum 0))) 0 (Fin 100);
           yield = yield_of m;
           mass = base * (percentage / Fin 100) / yield;
           amount = mass * to_num (jget f ''value'');
           r1 = (if 0 < amount
                 then book ''materials'' (jor (material_label m) (jget f ''label'')) mass ''kg'' f amount
                   (JObj [(''percentage'', JNum percentage), (''yieldToProduct'', JNum yield)]) r
                 else r)
       in bind_result (if unknown_origin m \<or> generic_proxy methodology m f
                       then check_coercible (material_label m) else Inr ()) (\<lambda>_.
          Inr (material_notes methodology m f
            (add_biogenic mass
              (jelse (jget m ''biogenicCarbonFactorKgPerKg'') (jget f ''biogenicCarbonKgPerKg'')) r1))))"

definition accessory_step :: "props \<Rightarrow> material_run \<Rightarrow> jsval \<Rightarrow> js_error + material_run" where
  "accessory_step reg r a =
     (let label = material_label a in
      if \<not> is_positive (jget a ''weightKg'')
      then bind_result (js_string label) (\<lambda>s.
        Inr (note_degraded (''Accessory '' @ quoted s
               @ '' has no explicit weight and is excluded from CO2e.'') r))
      else bind_result
        (if is_nullish (jget a ''factorId'')
         then bind_result (resolve_accessory_factor_id_by_keyword label) (\<lambda>i. Inr (JStr i))
         else Inr (jget a ''factorId'')) (\<lambda>i.
        bind_result (resolve_factor_or_fallback reg i (JStr ''accessory-other-proxy'')) (\<lambda>f.
        let mass = to_num (jget a ''weightKg'') in
        Inr (book ''materials'' (jor label (jget f ''label'')) mass ''kg'' f
               (mass * to_num (jget f ''value'')) (JObj [(''kind'', JStr ''accessory'')]) r))))"

record material_result =
  mat_run :: material_run
  mat_bom_coverage :: jnum
  mat_unknown_origin :: nat

definition calculate_materials ::
  "props \<Rightarrow> jsval \<Rightarrow> jnum \<Rightarrow> jsval \<Rightarrow> js_error + material_result" where
  "calculate_materials reg input unit_mass methodology =
     (let materials = elements (jget input ''materials'');
          accessories = elements (jget input ''accessories'');
          base = math_max (unit_mass - accessory_mass accessories) 0;
          r0 = stage_run.extend start_run \<lparr>run_biogenic = 0\<rparr>
      in bind_result (check_shares materials) (\<lambda>_.
         bind_result (fold_result (material_step reg base methodology)
                       (material_preamble materials r0) materials) (\<lambda>r1.
         bind_result (fold_result (accessory_step reg) r1 accessories) (\<lambda>r2.
         Inr \<lparr>mat_run = r2, mat_bom_coverage = bom_coverage_of materials,
              mat_unknown_origin = length (filter unknown_origin materials)\<rparr>))))"

section \<open>Packaging\<close>

record packaging_result =
  pack_run :: stage_run
  pack_mass :: jnum

definition calculate_packaging :: "props \<Rightarrow> jsval \<Rightarrow> js_error + packaging_result" where
  "calculate_packaging reg input =
     (let p = jget input ''packaging'' in
      if truthy p \<and> is_positive (jget p ''weightKg'')
      then let yield = yield_of p; mass = to_num (jget p ''weightKg'') / yield in
        bind_result (resolve_factor_or_fallback reg (jelse (jget p ''factorId'') (jget p ''label''))
                      (JStr ''packaging-minimal-proxy'')) (\<lambda>f.
          Inr \<lparr>pack_run = book ''packaging'' (jor (jget p ''label'') (jget f ''label'')) mass ''kg'' f
                 (mass * to_num (jget f ''value'')) (JObj [(''yieldToProduct'', JNum yield)]) start_run,
               pack_mass = mass\<rparr>)
      else let r = start_run\<lparr>run_stage := degrade (run_stage start_run)\<rparr> in
        Inr \<lparr>pack_run =
               (if truthy (jelse (jget input ''includePackagingFallbackNote'') (JBool True))
                then add_note ''Packaging is excluded because packaging weight/type was not provided.'' r
                else r),
             pack_mass = 0\<rparr>)"

section \<open>Manufacturing\<close>

record scope_totals =
  scope1 :: jnum
  scope2 :: jnum
  scope3 :: jnum

record energy_line =
  en_factor_id :: jsval
  en_label :: jsval
  en_amount :: jnum
  en_scope :: string

record energy_state =
  es_stage :: stage_acc
  es_factor_sum :: jnum
  es_scopes :: scope_totals
  es_breakdown :: "energy_line list"
  es_terms :: "calculation_term list"

definition add_to_scope :: "string \<Rightarrow> jnum \<Rightarrow> scope_totals \<Rightarrow> scope_totals" where
  "add_to_scope key n t =
     (if key = ''scope1'' then t\<lparr>scope1 := scope1 t + n\<rparr>
      else if key = ''scope2'' then t\<lparr>scope2 := scope2 t + n\<rparr>
      else t\<lparr>scope3 := scope3 t + n\<rparr>)"

definition process_step ::
  "props \<Rightarrow> jsval \<Rightarrow> stage_acc \<times> jnum \<Rightarrow> jsval \<Rightarrow> js_error + stage_acc \<times> jnum" where
  "process_step reg fallback st factor_id =
     bind_result (resolve_factor_or_fallback reg factor_id fallback) (\<lambda>f.
       Inr (add_factor_summary ''finished_goods_manufacturing'' f (fst st),
            snd st + to_num (jget f ''value'')))"

definition energy_entries_of :: "jsval \<Rightarrow> jsval \<Rightarrow> jsval list" where
  "energy_entries_of input geography =
     (case elements (jget input ''energyMix'') of
        [] \<Rightarrow> [JObj [(''factorId'', if truthy geography then JUndef else JStr ''energy-grid-generic''),
                     (''percentage'', JNum (Fin 100)), (''geography'', geography)]]
      | entries \<Rightarrow> entries)"

definition energy_step ::
  "props \<Rightarrow> jsval \<Rightarrow> jsval \<Rightarrow> jnum \<Rightarrow> jnum \<Rightarrow> jnum \<Rightarrow> jsval list \<Rightarrow> energy_state \<Rightarrow> jsval \<Rightarrow>
   js_error + energy_state" where
  "energy_step reg role geography unit_mass intensity denominator process_ids st entry =
     bind_result (resolve_energy_factor reg (jget entry ''factorId'')
                   (jor (jget entry ''geography'') geography)) (\<lambda>f.
         if is_nullish f then Inl (Type_Error ''Cannot read properties of undefined'')
         else bind_result (resolve_energy_scope f role) (\<lambda>key.
           let share = share_of entry / denominator;
               kwh = unit_mass * intensity * share;
               amount = kwh * to_num (jget f ''value'')
           in Inr (st\<lparr>es_stage := add_factor_summary ''finished_goods_manufacturing'' f (es_stage st),
                 es_scopes := add_to_scope key amount (es_scopes st),
                 es_breakdown := es_breakdown st
                   @ [\<lparr>en_factor_id = jget f ''id'', en_label = jget f ''label'',
                       en_amount = round_per_product amount, en_scope = key\<rparr>],
                 es_terms := (if 0 < amount
                   then es_terms st @ [build_calculation_term ''finished_goods_manufacturing''
                          (jget f ''label'') kwh ''kWh'' f amount
                          (JObj [(''normalizedEnergyShare'', JNum share),
                                 (''processFactorIds'', JArr process_ids)])]
                   else es_terms st),
                 es_factor_sum := es_factor_sum st + to_num (jget f ''value'') * share\<rparr>)))"

record manufacturing_result =
  man_run :: stage_run
  man_breakdown :: "energy_line list"
  man_scopes :: scope_totals
  man_process_ids :: "jsval list"
  man_energy_entries :: "jsval list"
  man_geography :: jsval

definition manufacturing_notes :: "jsval \<Rightarrow> jsval \<Rightarrow> jsval \<Rightarrow> jnum \<Rightarrow> string list" where
  "manufacturing_notes input methodology geography coverage =
     (if elements (jget input ''processFactorIds'') = []
      then [''Manufacturing processes are missing; a generic ''
            @ to_str (jget methodology ''processFallbackWarningLabel'') @ '' process proxy was used.'']
      else []) @
     (if elements (jget input ''energyMix'') = []
      then [if truthy geography
            then ''No energy mix was provided; grid electricity was inferred for ''
              @ to_str geography @ ''.''
            else ''No energy mix was provided; a generic grid electricity fallback was used.'']
      else if off_range coverage
      then [''Energy mix coverage is '' @ num_str (round_per_product coverage)
            @ ''%; shares were normalized before calculation.'']
      else [])"

text \<open>The contribution of the stage as a whole, under the first proxy factor or the first factor.\<close>

definition production_contribution ::
  "props \<Rightarrow> jsval \<Rightarrow> jnum \<Rightarrow> stage_acc \<Rightarrow> js_error + contribution list" where
  "production_contribution reg methodology amount acc =
     (if \<not> 0 < amount then Inr []
      else case filter (\<lambda>s. truthy (sum_is_proxy s)) (acc_factors acc) @ acc_factors acc of
        [] \<Rightarrow> Inr []
      | s # _ \<Rightarrow>
          bind_result (resolve_factor_or_fallback reg (sum_factor_id s)
                        (jget methodology ''defaultProcessFactorId''))
            (\<lambda>f. Inr [\<lparr>con_amount = amount, con_factor = f\<rparr>]))"

definition calculate_manufacturing ::
  "props \<Rightarrow> jsval \<Rightarrow> jnum \<Rightarrow> jsval \<Rightarrow> jsval \<Rightarrow> js_error + manufacturing_result" where
  "calculate_manufacturing reg input unit_mass methodology role =
     (let given = elements (jget input ''processFactorIds'');
          fallback = jget methodology ''defaultProcessFactorId'';
          process_ids = (if given \<noteq> [] then given else [fallback]);
          geography = jor (jget input ''manufacturingGeography'') (jget input ''originGeography'');
          entries = energy_entries_of input geography;
          coverage = sum_values (map share_of entries);
          denominator = (if 0 < coverage then coverage else Fin 100);
          notes = manufacturing_notes input methodology geography coverage;
          start = (if given = [] then degrade create_stage_accumulator else create_stage_accumulator);
          unsure = (elements (jget input ''energyMix'') = [] \<or> off_range coverage)
      in bind_result (fold_result (process_step reg fallback) (start, 0) process_ids)
           (\<lambda>(acc, intensity).
         bind_result (if elements (jget input ''energyMix'') = []
                      then check_coercible geography else Inr ()) (\<lambda>_.
         bind_result (check_shares entries) (\<lambda>_.
         bind_result (fold_result
             (energy_step reg role geography unit_mass intensity denominator process_ids)
             \<lparr>es_stage = (if unsure then degrade acc else acc), es_factor_sum = 0,
              es_scopes = \<lparr>scope1 = 0, scope2 = 0, scope3 = 0\<rparr>, es_breakdown = [], es_terms = []\<rparr>
             entries) (\<lambda>st.
         let amount = unit_mass * intensity * es_factor_sum st;
             stage = add_amount amount (es_stage st)
         in bind_result (production_contribution reg methodology amount stage) (\<lambda>contributions.
              Inr \<lparr>man_run = \<lparr>run_stage = stage, run_notes = notes, run_warnings = [],
                     run_contributions = contributions, run_terms = es_terms st,
                     run_scope3 = scope3 (es_scopes st)\<rparr>,
                   man_breakdown = es_breakdown st, man_scopes = es_scopes st,
                   man_process_ids = process_ids, man_energy_entries = entries,
                   man_geography = geography\<rparr>))))))"

section \<open>Transport\<close>

definition leg_distance :: "jsval \<Rightarrow> jsval \<Rightarrow> js_error + jsval" where
  "leg_distance input leg =
     bind_result (resolve_market_distance_default
         (jor (jget leg ''defaultDistanceKey'') (jget input ''destinationMarket''))) (\<lambda>fallback.
       Inr (if is_positive (jget leg ''distanceKm'') then jget leg ''distanceKm'' else fallback))"

definition transport_step ::
  "props \<Rightarrow> jsval \<Rightarrow> jnum \<Rightarrow> stage_run \<Rightarrow> jsval \<Rightarrow> js_error + stage_run" where
  "transport_step reg input shipped r leg =
     (if \<not> truthy (jget leg ''mode'') \<and> \<not> truthy (jget leg ''factorId'')
      then Inr (note_degraded
             ''A transport leg is missing mode/factor and was excluded from the estimate.'' r)
      else bind_result (resolve_factor_or_fallback reg (jelse (jget leg ''factorId'') (jget leg ''mode''))
             (JStr ''transport-multimodal-proxy'')) (\<lambda>f.
        bind_result (leg_distance input leg) (\<lambda>distance.
        let assumed = (\<not> is_positive (jget leg ''distanceKm''));
            detail = jor (jget leg ''mode'') (jget f ''label'');
            r1 = (if assumed
                  then note_degraded (''Transport distance for '' @ to_str detail
                    @ '' used market default '' @ num_str (round_per_product (to_num distance))
                    @ '' km.'') r
                  else r)
        in bind_result (if assumed then check_coercible detail else Inr ()) (\<lambda>_.
           Inr (book ''logistics_and_storage'' detail (shipped * to_num distance) ''tonne.km'' f
             (shipped * to_num distance * to_num (jget f ''value''))
             (JObj [(''distanceKm'', distance), (''shippedMassTonne'', JNum shipped),
                    (''usedDefaultDistance'', JBool assumed)]) r1)))))"

definition calculate_transport ::
  "props \<Rightarrow> jsval \<Rightarrow> jnum \<Rightarrow> jnum \<Rightarrow> js_error + stage_run" where
  "calculate_transport reg input unit_mass packaging_mass =
     (let legs = elements (jget input ''transport'') in
      bind_result (fold_result (transport_step reg input ((unit_mass + packaging_mass) / Fin 1000))
                    start_run legs) (\<lambda>r.
        Inr (if legs = []
             then note_degraded ''Transport is excluded because no transport legs were provided.'' r
             else r)))"

section \<open>Properties\<close>

subsection \<open>The books of a stage\<close>

text \<open>
  \<open>balanced\<close>: the stage amount, the scope-3 sum and the sum of the published calculation terms are the
  same number, bit for bit; the contributions carry the amounts of the terms in the same order; and
  every factor is summarised once.
\<close>

definition balanced :: "('a) stage_run_scheme \<Rightarrow> bool" where
  "balanced r =
     (acc_amount (run_stage r) = run_scope3 r \<and>
      run_scope3 r = foldl (+) 0 (map ct_kg (run_terms r)) \<and>
      map con_amount (run_contributions r) = map ct_kg (run_terms r) \<and>
      keys_distinct (run_stage r))"

lemma balanced_start [simp]: "balanced start_run"
  by (simp add: balanced_def start_run_def)

lemma balanced_extend [simp]: "balanced (stage_run.extend r b) = balanced r"
  by (simp add: balanced_def stage_run.defs)

lemma balanced_notes [simp]:
  "balanced (add_note s r) = balanced r"
  "balanced (note_degraded s r) = balanced r"
  "balanced (warn s r) = balanced r"
  "balanced (r\<lparr>run_stage := degrade (run_stage r)\<rparr>) = balanced r"
  by (simp_all add: balanced_def add_note_def note_degraded_def warn_def)

lemma balanced_book [simp]:
  "balanced r \<Longrightarrow> balanced (book stage detail activity unit f amount allocation r)"
  by (auto simp: balanced_def book_def build_calculation_term_def)

lemma balanced_biogenic [simp]: "balanced (add_biogenic mass bf r) = balanced r"
  by (simp add: balanced_def add_biogenic_def)

lemma balanced_material_notes [simp]: "balanced (material_notes meth m f r) = balanced r"
  by (simp add: material_notes_def Let_def)

lemma balanced_preamble [simp]: "balanced (material_preamble ms r) = balanced r"
  by (simp add: material_preamble_def Let_def)

lemma material_step_balanced:
  "balanced r \<Longrightarrow> material_step reg base meth r m = Inr r' \<Longrightarrow> balanced r'"
  by (auto simp: material_step_def Let_def)

lemma accessory_step_balanced:
  "balanced r \<Longrightarrow> accessory_step reg r a = Inr r' \<Longrightarrow> balanced r'"
  by (auto simp: accessory_step_def Let_def split: if_splits)

lemma transport_step_balanced:
  "balanced r \<Longrightarrow> transport_step reg input shipped r leg = Inr r' \<Longrightarrow> balanced r'"
  by (auto simp: transport_step_def Let_def split: if_splits)

lemma materials_balanced:
  assumes "calculate_materials reg input mass meth = Inr res"
  shows "balanced (mat_run res)"
proof -
  let ?start = "material_preamble (elements (jget input ''materials''))
    (stage_run.extend start_run \<lparr>run_biogenic = 0\<rparr>)"
  from assms obtain base r1 where
    materials: "fold_result (material_step reg base meth) ?start
      (elements (jget input ''materials'')) = Inr r1"
    and accessories: "fold_result (accessory_step reg) r1
      (elements (jget input ''accessories'')) = Inr (mat_run res)"
    by (auto simp: calculate_materials_def Let_def)
  have "balanced r1"
    using materials by (rule fold_result_invariant) (auto intro: material_step_balanced)
  with accessories show ?thesis
    by (rule fold_result_invariant) (auto intro: accessory_step_balanced)
qed

lemma packaging_balanced:
  "calculate_packaging reg input = Inr res \<Longrightarrow> balanced (pack_run res)"
  by (auto simp: calculate_packaging_def Let_def split: if_splits)

lemma calculate_transport_elim:
  assumes "calculate_transport reg input mass pack = Inr r"
  obtains r1 where
    "fold_result (transport_step reg input ((mass + pack) / Fin 1000)) start_run
      (elements (jget input ''transport'')) = Inr r1"
    and "r = r1 \<or> (\<exists>s. r = note_degraded s r1)"
proof -
  have "\<exists>r1. fold_result (transport_step reg input ((mass + pack) / Fin 1000)) start_run
      (elements (jget input ''transport'')) = Inr r1 \<and> (r = r1 \<or> (\<exists>s. r = note_degraded s r1))"
    using assms by (auto simp: calculate_transport_def Let_def split: if_splits)
  then show thesis using that by blast
qed

lemma transport_balanced:
  assumes "calculate_transport reg input mass pack = Inr r"
  shows "balanced r"
proof -
  from assms obtain r1 where
    legs: "fold_result (transport_step reg input ((mass + pack) / Fin 1000)) start_run
      (elements (jget input ''transport'')) = Inr r1"
    and r: "r = r1 \<or> (\<exists>s. r = note_degraded s r1)"
    by (rule calculate_transport_elim)
  have "balanced r1"
    using legs by (rule fold_result_invariant) (auto intro: transport_step_balanced)
  with r show ?thesis by auto
qed

subsection \<open>Amounts are not negative\<close>

definition terms_not_negative :: "('a) stage_run_scheme \<Rightarrow> bool" where
  "terms_not_negative r = (\<forall>t \<in> set (run_terms r). not_negative (ct_kg t))"

lemma terms_not_negative_start [simp]: "terms_not_negative start_run"
  by (simp add: terms_not_negative_def start_run_def)

lemma terms_not_negative_frame [simp]:
  "terms_not_negative (stage_run.extend r0 b) = terms_not_negative r0"
  "terms_not_negative (add_note s r) = terms_not_negative r"
  "terms_not_negative (note_degraded s r) = terms_not_negative r"
  "terms_not_negative (warn s r) = terms_not_negative r"
  "terms_not_negative (r\<lparr>run_stage := a\<rparr>) = terms_not_negative r"
  by (simp_all add: terms_not_negative_def add_note_def note_degraded_def warn_def stage_run.defs)

lemma terms_not_negative_materials [simp]:
  "terms_not_negative (add_biogenic mass bf m) = terms_not_negative m"
  "terms_not_negative (material_notes meth v f m) = terms_not_negative m"
  "terms_not_negative (material_preamble vs m) = terms_not_negative m"
  by (simp_all add: material_notes_def material_preamble_def add_biogenic_def Let_def)
     (simp add: terms_not_negative_def)

lemma terms_not_negative_book [simp]:
  "terms_not_negative (book stage detail activity unit f amount allocation r)
   \<longleftrightarrow> not_negative amount \<and> terms_not_negative r"
  by (auto simp: terms_not_negative_def book_def build_calculation_term_def)

lemma balanced_not_negative:
  assumes "balanced r" and "terms_not_negative r"
  shows "not_negative (acc_amount (run_stage r))" and "not_negative (run_scope3 r)"
proof -
  have "not_negative (foldl (+) 0 (map ct_kg (run_terms r)))"
    using assms(2) by (intro not_negative_foldl_add) (auto simp: terms_not_negative_def)
  then show "not_negative (acc_amount (run_stage r))" and "not_negative (run_scope3 r)"
    using assms(1) by (auto simp: balanced_def)
qed

lemma positive_not_negative: "0 < n \<Longrightarrow> not_negative (n :: jnum)"
  by (cases n) (auto simp: num_simps)

lemma is_positive_not_negative: "is_positive v \<Longrightarrow> not_negative (to_num v)"
  by (simp add: is_positive_def positive_not_negative)

lemma num_of_one: "num_of (1 :: rat) = Fin 1"
  using num_of_small_int [of 1] by simp

lemma yield_not_negative [simp, num_intros]: "not_negative (yield_of item)"
  by (auto simp: yield_of_def num_of_nonneg num_simps intro!: clamp_not_negative)

lemma share_not_negative [simp, num_intros]: "not_negative (share_of e)"
  by (simp add: share_of_def)

lemma market_distance_not_negative: "not_negative (to_num (market_distance key))"
proof -
  have t: "not_negative (to_num (table_get market_distance_defaults k))" for k
    by (rule table_get_to_num [where P = not_negative])
       (auto simp: market_distance_defaults_def)
  have "not_negative (to_num (own market_distance_defaults ''other''))"
    by (simp add: market_distance_defaults_def)
  with t show ?thesis by (simp add: market_distance_def jor_def)
qed

lemma leg_distance_not_negative:
  "leg_distance input leg = Inr d \<Longrightarrow> not_negative (to_num d)"
  by (auto simp: leg_distance_def is_positive_not_negative market_distance_not_negative)

lemma add_to_scope_not_negative:
  assumes "not_negative n" and "not_negative (scope1 t)" "not_negative (scope2 t)" "not_negative (scope3 t)"
  shows "not_negative (scope1 (add_to_scope k n t)) \<and> not_negative (scope2 (add_to_scope k n t))
    \<and> not_negative (scope3 (add_to_scope k n t))"
  using assms by (simp add: add_to_scope_def not_negative_add)

definition energy_not_negative :: "energy_state \<Rightarrow> bool" where
  "energy_not_negative st =
     (not_negative (es_factor_sum st) \<and> not_negative (scope1 (es_scopes st)) \<and>
      not_negative (scope2 (es_scopes st)) \<and> not_negative (scope3 (es_scopes st)) \<and>
      (\<forall>t \<in> set (es_terms st). not_negative (ct_kg t)))"

lemma process_step_amount:
  "process_step reg d st p = Inr st' \<Longrightarrow> acc_amount (fst st') = acc_amount (fst st)"
  by (auto simp: process_step_def)

lemma energy_step_amount:
  "energy_step reg role geo mass intensity d ids st e = Inr st' \<Longrightarrow>
   acc_amount (es_stage st') = acc_amount (es_stage st)"
  by (auto simp: energy_step_def Let_def split: if_splits)

lemma manufacturing_elim:
  assumes "calculate_manufacturing reg input mass meth role = Inr man"
  obtains fallback start ids acc intensity geo d st0 st entries where
    "fold_result (process_step reg fallback) (start, 0) ids = Inr (acc, intensity)"
    "acc_amount start = 0"
    "fold_result (energy_step reg role geo mass intensity d ids) st0 entries = Inr st"
    "energy_not_negative st0" "acc_amount (es_stage st0) = acc_amount acc" "not_negative d"
    "run_stage (man_run man) = add_amount (mass * intensity * es_factor_sum st) (es_stage st)"
    "man_scopes man = es_scopes st"
proof -
  let ?entries = "energy_entries_of input
    (jor (jget input ''manufacturingGeography'') (jget input ''originGeography''))"
  let ?coverage = "sum_values (map share_of ?entries)"
  have d: "not_negative (if 0 < ?coverage then ?coverage else Fin 100)"
    by (simp add: positive_not_negative)
  have start: "acc_amount (if b then degrade create_stage_accumulator else create_stage_accumulator) = 0"
    for b by simp
  have st0: "energy_not_negative \<lparr>es_stage = a, es_factor_sum = 0,
      es_scopes = \<lparr>scope1 = 0, scope2 = 0, scope3 = 0\<rparr>, es_breakdown = [], es_terms = []\<rparr>" for a
    by (simp add: energy_not_negative_def)
  show thesis
    using assms
    by (auto simp: calculate_manufacturing_def Let_def split: prod.splits
        elim!: that [OF _ start _ st0 _ d])
qed

context loaded_registry
begin

lemma material_step_terms:
  "terms_not_negative r \<Longrightarrow> material_step reg base meth r m = Inr r' \<Longrightarrow> terms_not_negative r'"
  by (auto simp: material_step_def Let_def positive_not_negative)

lemma accessory_step_terms:
  "terms_not_negative r \<Longrightarrow> accessory_step reg r a = Inr r' \<Longrightarrow> terms_not_negative r'"
  by (auto simp: accessory_step_def Let_def resolved_value is_positive_not_negative not_negative_mul
      split: if_splits)

lemma transport_step_terms:
  assumes "not_negative shipped" and "terms_not_negative r"
    and "transport_step reg input shipped r leg = Inr r'"
  shows "terms_not_negative r'"
  using assms
  by (auto simp: transport_step_def Let_def resolved_value not_negative_mul leg_distance_not_negative
      split: if_splits)

lemma materials_not_negative:
  assumes "calculate_materials reg input mass meth = Inr res"
  shows "not_negative (acc_amount (run_stage (mat_run res)))"
proof -
  let ?start = "material_preamble (elements (jget input ''materials''))
    (stage_run.extend start_run \<lparr>run_biogenic = 0\<rparr>)"
  from assms obtain base r1 where
    materials: "fold_result (material_step reg base meth) ?start
      (elements (jget input ''materials'')) = Inr r1"
    and accessories: "fold_result (accessory_step reg) r1
      (elements (jget input ''accessories'')) = Inr (mat_run res)"
    by (auto simp: calculate_materials_def Let_def)
  have "terms_not_negative r1"
    using materials by (rule fold_result_invariant) (auto intro: material_step_terms)
  with accessories have "terms_not_negative (mat_run res)"
    by (rule fold_result_invariant) (auto intro: accessory_step_terms)
  with materials_balanced [OF assms] show ?thesis by (rule balanced_not_negative)
qed

lemma packaging_not_negative:
  assumes "calculate_packaging reg input = Inr res"
  shows "not_negative (acc_amount (run_stage (pack_run res)))" and "not_negative (pack_mass res)"
proof -
  have "terms_not_negative (pack_run res) \<and> not_negative (pack_mass res)"
    using assms
    by (auto simp: calculate_packaging_def Let_def resolved_value is_positive_not_negative
        intro!: not_negative_mul not_negative_div split: if_splits)
  with packaging_balanced [OF assms]
  show "not_negative (acc_amount (run_stage (pack_run res)))" and "not_negative (pack_mass res)"
    by (auto intro: balanced_not_negative)
qed

lemma transport_not_negative:
  assumes "calculate_transport reg input mass pack = Inr r"
    and "not_negative mass" and "not_negative pack"
  shows "not_negative (acc_amount (run_stage r))"
proof -
  let ?shipped = "(mass + pack) / Fin 1000"
  have shipped: "not_negative ?shipped"
    using assms(2,3) by (intro not_negative_div not_negative_add) simp_all
  from assms(1) obtain r1 where
    legs: "fold_result (transport_step reg input ?shipped) start_run
      (elements (jget input ''transport'')) = Inr r1"
    and r: "r = r1 \<or> (\<exists>s. r = note_degraded s r1)"
    by (rule calculate_transport_elim)
  have "terms_not_negative r1"
    using legs by (rule fold_result_invariant) (auto intro: transport_step_terms [OF shipped])
  with r have "terms_not_negative r" by auto
  with transport_balanced [OF assms(1)] show ?thesis by (rule balanced_not_negative)
qed

lemma process_step_not_negative:
  "not_negative (snd st) \<Longrightarrow> process_step reg d st p = Inr st' \<Longrightarrow> not_negative (snd st')"
  by (auto simp: process_step_def resolved_value not_negative_add)

lemma energy_step_not_negative:
  assumes "not_negative mass" "not_negative intensity" "not_negative denominator"
    and "energy_not_negative st"
    and "energy_step reg role geo mass intensity denominator ids st e = Inr st'"
  shows "energy_not_negative st'"
proof -
  from assms(5) obtain f where f: "resolve_energy_factor reg (jget e ''factorId'')
      (jor (jget e ''geography'') geo) = Inr f"
    by (auto simp: energy_step_def)
  let ?share = "share_of e / denominator"
  let ?amount = "mass * intensity * ?share * to_num (jget f ''value'')"
  have "not_negative ?share" and factor_value: "not_negative (to_num (jget f ''value''))"
    using assms(3) energy_value [OF f] by (simp_all add: not_negative_div)
  then have amount: "not_negative ?amount" and "not_negative (to_num (jget f ''value'') * ?share)"
    using assms(1,2) by (simp_all add: not_negative_mul)
  with assms(4,5) f add_to_scope_not_negative [OF amount, of "es_scopes st"] show ?thesis
    by (auto simp: energy_step_def Let_def energy_not_negative_def build_calculation_term_def
        not_negative_add split: if_splits)
qed

lemma manufacturing_not_negative:
  assumes "calculate_manufacturing reg input mass meth role = Inr man" and "not_negative mass"
  shows "not_negative (acc_amount (run_stage (man_run man)))"
    and "not_negative (scope1 (man_scopes man))" and "not_negative (scope2 (man_scopes man))"
    and "not_negative (scope3 (man_scopes man))"
proof -
  let ?P = "\<lambda>st. energy_not_negative st \<and> not_negative (acc_amount (es_stage st))"
  from assms(1) obtain fallback start ids acc intensity geo d st0 st entries where
    processes: "fold_result (process_step reg fallback) (start, 0) ids = Inr (acc, intensity)"
    and start: "acc_amount start = 0"
    and energy: "fold_result (energy_step reg role geo mass intensity d ids) st0 entries = Inr st"
    and st0: "energy_not_negative st0" "acc_amount (es_stage st0) = acc_amount acc" "not_negative d"
    and man: "run_stage (man_run man) = add_amount (mass * intensity * es_factor_sum st) (es_stage st)"
      "man_scopes man = es_scopes st"
    by (rule manufacturing_elim)
  have "not_negative (snd (acc, intensity)) \<and> not_negative (acc_amount (fst (acc, intensity)))"
    using processes
    by (rule fold_result_invariant)
      (use start in \<open>auto dest: process_step_not_negative [rotated] process_step_amount\<close>)
  then have intensity: "not_negative intensity" and acc: "not_negative (acc_amount acc)" by simp_all
  have "?P st"
    using energy
    by (rule fold_result_invariant)
      (use st0 acc energy_step_not_negative [OF assms(2) intensity st0(3)] energy_step_amount in auto)
  then show "not_negative (acc_amount (run_stage (man_run man)))"
    and "not_negative (scope1 (man_scopes man))" and "not_negative (scope2 (man_scopes man))"
    and "not_negative (scope3 (man_scopes man))"
    using assms(2) intensity man
    by (simp_all add: energy_not_negative_def not_negative_add not_negative_mul)
qed

end

end
