(* ===== verification/Carbon_Engine.thy ===== *)
theory Carbon_Engine
  imports Carbon_Stages
begin

text \<open>
  \<open>modules/carbon/core/aggregation.js\<close>, \<open>uncertainty.js\<close>, \<open>quality.js\<close> and \<open>engine.js\<close>: the totals, the
  uncertainty range, the data quality scores and the calculation as a whole, from the raw request to
  the result object. The result is a record; the constant prose of the result object (the notes on
  biogenic carbon, the standards list) is left out of it.
\<close>

section \<open>Aggregation\<close>

record amounts =
  am_materials :: jnum
  am_production :: jnum
  am_energy :: jnum
  am_transport :: jnum
  am_packaging :: jnum
  am_total :: jnum

record stage_set =
  st_materials :: stage_acc
  st_manufacturing :: stage_acc
  st_packaging :: stage_acc
  st_logistics :: stage_acc

record aggregation =
  ag_breakdown :: "stage_breakdown list"
  ag_factors :: "factor_summary list"
  ag_manifest :: "jsval list"
  ag_per_product :: amounts
  ag_total_batch :: amounts
  ag_cradle_to_gate :: jnum
  ag_gate_to_market :: jnum

definition core_stages :: "stage_set \<Rightarrow> (string \<times> stage_acc) list" where
  "core_stages s =
     [(''materials'', st_materials s), (''finished_goods_manufacturing'', st_manufacturing s),
      (''packaging'', st_packaging s), (''logistics_and_storage'', st_logistics s)]"

definition per_product_of :: "stage_set \<Rightarrow> amounts" where
  "per_product_of s =
     \<lparr>am_materials = round_per_product (acc_amount (st_materials s)),
      am_production = round_per_product (acc_amount (st_manufacturing s)),
      am_energy = 0,
      am_transport = round_per_product (acc_amount (st_logistics s)),
      am_packaging = round_per_product (acc_amount (st_packaging s)),
      am_total = round_per_product
        (acc_amount (st_materials s) + acc_amount (st_manufacturing s)
         + acc_amount (st_logistics s) + acc_amount (st_packaging s))\<rparr>"

definition total_batch_of :: "amounts \<Rightarrow> jnum \<Rightarrow> amounts" where
  "total_batch_of p quantity =
     \<lparr>am_materials = round_batch (am_materials p * quantity),
      am_production = round_batch (am_production p * quantity),
      am_energy = 0,
      am_transport = round_batch (am_transport p * quantity),
      am_packaging = round_batch (am_packaging p * quantity),
      am_total = round_batch (am_total p * quantity)\<rparr>"

definition aggregate_carbon :: "stage_set \<Rightarrow> jnum \<Rightarrow> aggregation" where
  "aggregate_carbon s quantity =
     (let breakdown = map (\<lambda>(stage, acc). to_stage_breakdown stage acc) (core_stages s);
          p = per_product_of s;
          factors = concat (map sb_factors breakdown)
      in \<lparr>ag_breakdown = breakdown, ag_factors = factors,
          ag_manifest = dedupe (map sum_version_id factors),
          ag_per_product = p, ag_total_batch = total_batch_of p quantity,
          ag_cradle_to_gate = round_per_product (am_materials p + am_production p + am_packaging p),
          ag_gate_to_market = am_transport p\<rparr>)"

section \<open>Uncertainty\<close>

record uncertainty =
  un_p5 :: jnum
  un_p95 :: jnum
  un_half_width :: jnum

definition contribution_cv :: "jsval \<Rightarrow> jnum" where
  "contribution_cv f =
     to_num (jor (jget f ''uncertaintyCv'')
       (table_get uncertainty_by_quality (to_str (jget f ''quality''))))"

definition rss_variance :: "contribution list \<Rightarrow> jnum" where
  "rss_variance terms =
     foldl (\<lambda>sum t. sum + (con_amount t * contribution_cv (con_factor t))
                         * (con_amount t * contribution_cv (con_factor t))) 0 terms"

definition build_rss_uncertainty :: "contribution list \<Rightarrow> jnum \<Rightarrow> uncertainty" where
  "build_rss_uncertainty terms total_kg =
     (if total_kg \<le> 0 \<or> terms = [] then \<lparr>un_p5 = 0, un_p95 = 0, un_half_width = 0\<rparr>
      else let half = num_of (196 / 100) * math_sqrt (rss_variance terms)
        in \<lparr>un_p5 = round_per_product (math_max 0 (total_kg - half)),
            un_p95 = round_per_product (total_kg + half),
            un_half_width = round_per_product ((half / total_kg) * Fin 100)\<rparr>)"

section \<open>Data quality\<close>

text \<open>Reading a score of a factor without \<open>qualityScores\<close> throws.\<close>

definition average_quality_score :: "jsval \<Rightarrow> js_error + jnum" where
  "average_quality_score f =
     (let scores = jget f ''qualityScores''; n = (\<lambda>k. to_num (jget scores k)) in
      if is_nullish scores then Inl (Type_Error ''Cannot read properties of undefined'')
      else Inr ((n ''technologicalRepresentativeness'' + n ''temporalRepresentativeness''
                 + n ''geographicalRepresentativeness'' + n ''completeness'' + n ''reliability'')
                / Fin 5))"

definition resolve_confidence_level :: "jnum \<Rightarrow> jnum \<Rightarrow> jnum \<Rightarrow> string" where
  "resolve_confidence_level rating proxy_share half_width =
     (if rating \<le> Fin 2 \<and> proxy_share \<le> num_of (15 / 100) \<and> half_width \<le> Fin 20 then ''high''
      else if rating \<le> num_of (35 / 10) \<and> proxy_share \<le> num_of (5 / 10) \<and> half_width \<le> Fin 60
      then ''medium'' else ''low'')"

definition sum_contributions :: "contribution list \<Rightarrow> jnum" where
  "sum_contributions terms = foldl (\<lambda>sum t. sum + con_amount t) 0 terms"

definition weighted_quality :: "contribution list \<Rightarrow> js_error + jnum" where
  "weighted_quality terms =
     fold_result (\<lambda>sum t. bind_result (average_quality_score (con_factor t))
       (\<lambda>q. Inr (sum + q * con_amount t))) 0 terms"

definition points :: "bool \<Rightarrow> rat \<Rightarrow> rat \<Rightarrow> jnum" where
  "points b yes no = Fin (if b then yes else no)"

text \<open>\<open>Math.round((part / whole) * scale)\<close> of two list lengths.\<close>

definition share_points :: "nat \<Rightarrow> nat \<Rightarrow> rat \<Rightarrow> jnum" where
  "share_points part whole scale =
     math_round (Fin (of_nat part) / Fin (of_nat whole) * Fin scale)"

definition count_of :: "(jsval \<Rightarrow> bool) \<Rightarrow> jsval list \<Rightarrow> nat" where
  "count_of p items = length (filter p items)"

record quality_scores =
  qs_completeness :: jnum
  qs_specificity :: jnum
  qs_geographic :: jnum
  qs_transport :: jnum
  qs_proxy :: jnum

definition completeness_score :: "jnum \<Rightarrow> jsval \<Rightarrow> jnum \<Rightarrow> jsval list \<Rightarrow> jsval list \<Rightarrow> jnum" where
  "completeness_score unit_mass input coverage process_ids entries =
     clamp (points (0 < unit_mass) 4 0 + points (elements (jget input ''materials'') \<noteq> []) 6 0
       + (if Fin 95 \<le> coverage \<and> coverage \<le> Fin 105 then Fin 10 else points (0 < coverage) 5 0)
       + points (process_ids \<noteq> []) 4 0 + points (entries \<noteq> []) 3 0
       + points (elements (jget input ''transport'') \<noteq> []) 3 0) 0 (Fin 30)"

definition specificity_score :: "jsval \<Rightarrow> jnum" where
  "specificity_score input =
     (let materials = elements (jget input ''materials'');
          accessories = elements (jget input ''accessories'') in
      clamp ((if materials \<noteq> []
              then share_points (count_of (\<lambda>m. truthy (jget m ''factorId'')) materials)
                     (length materials) 10
              else Fin 0)
        + (if accessories = [] then Fin 5
           else share_points (count_of (\<lambda>a. is_positive (jget a ''weightKg'')) accessories)
                  (length accessories) 5)
        + points (elements (jget input ''processFactorIds'') \<noteq> []) 5 2
        + points (elements (jget input ''energyMix'') \<noteq> []) 5 2) 0 (Fin 25))"

text \<open>\<open>resolveEnergyFactor(...)?.id\<close>, which the manufacturing stage has called on the same entries.\<close>

definition energy_factor_id :: "props \<Rightarrow> jsval \<Rightarrow> jsval \<Rightarrow> jsval" where
  "energy_factor_id reg geography e =
     (case resolve_energy_factor reg (jget e ''factorId'') (jor (jget e ''geography'') geography) of
        Inr f \<Rightarrow> jget f ''id'' | Inl _ \<Rightarrow> JUndef)"

definition geographic_score :: "props \<Rightarrow> jsval \<Rightarrow> jsval list \<Rightarrow> nat \<Rightarrow> jnum" where
  "geographic_score reg geography entries unknown =
     clamp (points (truthy geography) 5 0
       + (if list_ex (\<lambda>e. energy_factor_id reg geography e = JStr ''energy-grid-vn-2023'') entries
          then Fin 10 else points (entries \<noteq> []) 5 2)
       - points (0 < unknown) 5 0) 0 (Fin 15)"

definition transport_score :: "jsval \<Rightarrow> jnum" where
  "transport_score input =
     (let legs = elements (jget input ''transport'') in
      clamp ((if legs \<noteq> []
              then share_points (count_of (\<lambda>l. is_positive (jget l ''distanceKm'')) legs) (length legs) 10
              else Fin 0)
        + (if list_all (\<lambda>l. truthy (jor (jget l ''mode'') (jget l ''factorId''))) legs \<and> legs \<noteq> []
           then Fin 5 else points (legs \<noteq> []) 2 0)) 0 (Fin 15))"

definition proxy_share_of :: "contribution list \<Rightarrow> jnum" where
  "proxy_share_of terms =
     (if 0 < sum_contributions terms
      then clamp (sum_contributions (filter (\<lambda>t. truthy (jget (con_factor t) ''isProxy'')) terms)
                  / sum_contributions terms) 0 1
      else 1)"

definition class_share :: "string \<Rightarrow> contribution list \<Rightarrow> jnum" where
  "class_share cls terms =
     round_per_product
       (sum_contributions (filter (\<lambda>t. jget (con_factor t) ''factorClass'' = JStr cls) terms)
        / (if 0 < sum_contributions terms then sum_contributions terms else 1))"

record data_quality =
  dq_level :: string
  dq_confidence :: jnum
  dq_proxy_share :: jnum
  dq_scores :: quality_scores
  dq_rating :: jnum
  dq_percent :: jnum
  dq_primary_share :: jnum
  dq_supplier_share :: jnum
  dq_secondary_share :: jnum
  dq_proxy_emissions :: jnum

definition calculate_data_quality ::
  "props \<Rightarrow> jsval \<Rightarrow> jnum \<Rightarrow> material_result \<Rightarrow> manufacturing_result \<Rightarrow> contribution list \<Rightarrow>
   uncertainty \<Rightarrow> js_error + data_quality" where
  "calculate_data_quality reg input unit_mass mat man terms un =
     bind_result (weighted_quality terms) (\<lambda>numerator.
       let total_kg = sum_contributions terms;
           proxy = proxy_share_of terms;
           scores = \<lparr>qs_completeness = completeness_score unit_mass input (mat_bom_coverage mat)
                       (man_process_ids man) (man_energy_entries man),
                     qs_specificity = specificity_score input,
                     qs_geographic = geographic_score reg (man_geography man)
                       (man_energy_entries man) (mat_unknown_origin mat),
                     qs_transport = transport_score input,
                     qs_proxy = clamp (math_round ((1 - proxy) * Fin 15)) 0 (Fin 15)\<rparr>;
           legacy = clamp (qs_completeness scores + qs_specificity scores + qs_geographic scores
                      + qs_transport scores + qs_proxy scores) 0 (Fin 100);
           rating = (if 0 < total_kg then round_per_product (numerator / total_kg) else Fin 5);
           percent = round_per_product (Fin 100 * (Fin 5 - rating) / Fin 4)
       in Inr \<lparr>dq_level = resolve_confidence_level rating proxy (un_half_width un),
               dq_confidence = clamp (math_round ((legacy + percent) / Fin 2)) 0 (Fin 100),
               dq_proxy_share = proxy, dq_scores = scores, dq_rating = rating, dq_percent = percent,
               dq_primary_share = class_share ''measured_primary_activity'' terms,
               dq_supplier_share = class_share ''supplier_specific'' terms,
               dq_secondary_share = class_share ''documented_secondary'' terms,
               dq_proxy_emissions = round_per_product proxy\<rparr>)"

section \<open>The calculation\<close>

definition base_warnings :: "string list" where
  "base_warnings =
     [''This result is an attributional, climate-only partial CFP estimate for decision support.'',
      ''This result is not a comparative claim, product label, ISO certification, or third-party verification statement.'']"

definition base_assumptions :: "bool \<Rightarrow> string list" where
  "base_assumptions biogenic =
     [''Boundary: climate-only partial CFP with cradle-to-gate core and gate-to-market extension.'',
      ''Manufacturing energy is modeled as a process input inside finished goods manufacturing.'',
      ''Uncertainty range uses WeaveCarbon internal RSS fallback, not Monte Carlo.''] @
     (if biogenic
      then [''Biogenic CO2 from bio-based materials is reported separately from the fossil CO2e total, not netted into it.'']
      else [])"

record carbon_result =
  cr_per_product :: amounts
  cr_total_batch :: amounts
  cr_biogenic :: "jnum option"
  cr_fossil :: jnum
  cr_biogenic_removed :: jnum
  cr_cradle_to_gate :: jnum
  cr_gate_to_market :: jnum
  cr_reported_total :: jnum
  cr_quality :: data_quality
  cr_proxy_used :: bool
  cr_proxy_notes :: "string list"
  cr_scope1 :: jnum
  cr_scope2 :: jnum
  cr_scope3 :: jnum
  cr_uncertainty :: uncertainty
  cr_methodology :: jsval
  cr_role :: jsval
  cr_energy_breakdown :: "energy_line list"
  cr_factor_sources :: "factor_summary list"
  cr_warnings :: "string list"
  cr_factor_manifest :: "jsval list"
  cr_assumptions :: "string list"
  cr_terms :: "calculation_term list"
  cr_breakdown :: "stage_breakdown list"

definition quantity_of :: "jsval \<Rightarrow> jnum" where
  "quantity_of input =
     (if is_positive (jget input ''quantity'') then to_num (jget input ''quantity'') else 1)"

definition unit_mass_of :: "jsval \<Rightarrow> jnum" where
  "unit_mass_of input =
     (if is_finite_number (jget input ''unitMassKg'')
      then math_max 0 (to_num (jget input ''unitMassKg'')) else 0)"

definition assemble_result ::
  "props \<Rightarrow> jsval \<Rightarrow> jsval \<Rightarrow> material_result \<Rightarrow> packaging_result \<Rightarrow> manufacturing_result \<Rightarrow>
   stage_run \<Rightarrow> js_error + carbon_result" where
  "assemble_result reg input role mat pack man legs =
     (let stages = \<lparr>st_materials = run_stage (mat_run mat), st_manufacturing = run_stage (man_run man),
                    st_packaging = run_stage (pack_run pack), st_logistics = run_stage legs\<rparr>;
          contributions = run_contributions (mat_run mat) @ run_contributions (pack_run pack)
            @ run_contributions (man_run man) @ run_contributions legs;
          notes = run_notes (mat_run mat) @ run_notes (pack_run pack) @ run_notes (man_run man)
            @ run_notes legs;
          ag = aggregate_carbon stages (quantity_of input);
          un = build_rss_uncertainty contributions (am_total (ag_per_product ag));
          biogenic = run_biogenic (mat_run mat)
      in bind_result (calculate_data_quality reg input (unit_mass_of input) mat man contributions un)
           (\<lambda>q. Inr
        \<lparr>cr_per_product = ag_per_product ag, cr_total_batch = ag_total_batch ag,
         cr_biogenic = (if 0 < biogenic then Some (round_per_product biogenic) else None),
         cr_fossil = am_total (ag_per_product ag),
         cr_biogenic_removed = (if 0 < biogenic then round_per_product biogenic else 0),
         cr_cradle_to_gate = ag_cradle_to_gate ag, cr_gate_to_market = ag_gate_to_market ag,
         cr_reported_total = am_total (ag_per_product ag), cr_quality = q,
         cr_proxy_used = (0 < dq_proxy_share q \<or> notes \<noteq> []),
         cr_proxy_notes = dedupe_messages notes,
         cr_scope1 = round_per_product (scope1 (man_scopes man)),
         cr_scope2 = round_per_product (scope2 (man_scopes man)),
         cr_scope3 = round_per_product (run_scope3 (mat_run mat) + run_scope3 (pack_run pack)
           + scope3 (man_scopes man) + run_scope3 legs),
         cr_uncertainty = un,
         cr_methodology = resolve_category_methodology (jget input ''productCategory''),
         cr_role = role, cr_energy_breakdown = man_breakdown man, cr_factor_sources = ag_factors ag,
         cr_warnings = dedupe_messages (base_warnings @ run_warnings (mat_run mat)),
         cr_factor_manifest = ag_manifest ag,
         cr_assumptions = dedupe_messages (base_assumptions (0 < biogenic) @ notes),
         cr_terms = run_terms (mat_run mat) @ run_terms (pack_run pack) @ run_terms (man_run man)
           @ run_terms legs,
         cr_breakdown = ag_breakdown ag\<rparr>))"

definition calculate_carbon_footprint :: "props \<Rightarrow> jsval \<Rightarrow> js_error + carbon_result" where
  "calculate_carbon_footprint reg raw =
     bind_result (normalize_carbon_input raw) (\<lambda>normal.
     bind_result (assert_valid_carbon_input reg normal) (\<lambda>input.
     let unit_mass = unit_mass_of input;
         role = jor (jget input ''reportingActorRole'') (JStr ''manufacturer'');
         methodology = resolve_category_methodology (jget input ''productCategory'')
     in bind_result (calculate_materials reg input unit_mass methodology) (\<lambda>mat.
        bind_result (calculate_packaging reg input) (\<lambda>pack.
        bind_result (calculate_manufacturing reg input unit_mass methodology role) (\<lambda>man.
        bind_result (calculate_transport reg input unit_mass (pack_mass pack)) (\<lambda>legs.
          assemble_result reg input role mat pack man legs))))))"

section \<open>Properties\<close>

subsection \<open>A calculation, step by step\<close>

lemma footprint_elim:
  assumes "calculate_carbon_footprint reg raw = Inr res"
  obtains input mat pack man legs where
    "normalize_carbon_input raw = Inr input" "validate_carbon_input reg input = Inr []"
    "calculate_materials reg input (unit_mass_of input)
       (resolve_category_methodology (jget input ''productCategory'')) = Inr mat"
    "calculate_packaging reg input = Inr pack"
    "calculate_manufacturing reg input (unit_mass_of input)
       (resolve_category_methodology (jget input ''productCategory''))
       (jor (jget input ''reportingActorRole'') (JStr ''manufacturer'')) = Inr man"
    "calculate_transport reg input (unit_mass_of input) (pack_mass pack) = Inr legs"
    "assemble_result reg input (jor (jget input ''reportingActorRole'') (JStr ''manufacturer''))
       mat pack man legs = Inr res"
  using assms
  by (auto simp: calculate_carbon_footprint_def Let_def assert_valid_Inr)

lemma assemble_elim:
  assumes "assemble_result reg input role mat pack man legs = Inr res"
  obtains q ag where
    "ag = aggregate_carbon
       \<lparr>st_materials = run_stage (mat_run mat), st_manufacturing = run_stage (man_run man),
        st_packaging = run_stage (pack_run pack), st_logistics = run_stage legs\<rparr> (quantity_of input)"
    "cr_quality res = q" "cr_per_product res = ag_per_product ag"
    "cr_total_batch res = ag_total_batch ag" "cr_factor_manifest res = ag_manifest ag"
    "cr_factor_sources res = ag_factors ag" "cr_breakdown res = ag_breakdown ag"
    "calculate_data_quality reg input (unit_mass_of input) mat man
       (run_contributions (mat_run mat) @ run_contributions (pack_run pack)
        @ run_contributions (man_run man) @ run_contributions legs) (cr_uncertainty res) = Inr q"
  using assms by (auto simp: assemble_result_def Let_def)

lemma unit_mass_not_negative: "not_negative (unit_mass_of input)"
  by (simp add: unit_mass_of_def)

subsection \<open>Scores stay inside their scale\<close>

definition good_number :: "jnum \<Rightarrow> bool" where
  "good_number n = (n \<noteq> NaN \<and> not_negative n)"

named_theorems good_intros \<open>numbers that are neither NaN nor negative\<close>

lemma good_add [good_intros]: "good_number a \<Longrightarrow> good_number b \<Longrightarrow> good_number (a + b)"
  by (cases a; cases b) (auto simp: good_number_def num_simps num_of_nonneg)

lemma good_Fin [good_intros]: "0 \<le> a \<Longrightarrow> good_number (Fin a)"
  by (simp add: good_number_def)

lemma good_points [good_intros]: "0 \<le> a \<Longrightarrow> 0 \<le> b \<Longrightarrow> good_number (points c a b)"
  by (simp add: points_def good_number_def)

lemma good_if [good_intros]:
  "(c \<Longrightarrow> good_number a) \<Longrightarrow> (\<not> c \<Longrightarrow> good_number b) \<Longrightarrow> good_number (if c then a else b)"
  by simp

lemma good_round [good_intros]: "good_number a \<Longrightarrow> good_number (math_round a)"
  by (cases a) (auto simp: good_number_def)

lemma good_mul: "good_number a \<Longrightarrow> 0 < c \<Longrightarrow> good_number (a * Fin c)"
  by (cases a) (auto simp: good_number_def num_simps num_of_nonneg num_sign_inf_def)

lemma good_div: "good_number a \<Longrightarrow> 0 < c \<Longrightarrow> good_number (a / Fin c)"
  by (cases a) (auto simp: good_number_def num_simps num_of_nonneg num_sign_inf_def)

lemma good_share_points [good_intros]:
  "vs \<noteq> [] \<Longrightarrow> 0 < scale \<Longrightarrow> good_number (share_points k (length vs) scale)"
  unfolding share_points_def by (intro good_round good_mul good_div good_Fin) simp_all

lemma good_minus: "good_number a \<Longrightarrow> a - Fin c \<noteq> NaN"
  by (cases a) (auto simp: good_number_def num_simps)

lemma clamp_scale:
  assumes "v \<noteq> NaN" and "0 \<le> hi"
  shows "0 \<le> clamp v 0 (Fin hi) \<and> clamp v 0 (Fin hi) \<le> Fin hi"
  using assms by (cases v) (auto simp: clamp_def math_min_def math_max_def num_simps)

lemma clamp_good: "good_number v \<Longrightarrow> 0 \<le> hi \<Longrightarrow> 0 \<le> clamp v 0 (Fin hi) \<and> clamp v 0 (Fin hi) \<le> Fin hi"
  by (rule clamp_scale) (simp_all add: good_number_def)

lemma score_ranges:
  "0 \<le> completeness_score u i c ps es \<and> completeness_score u i c ps es \<le> Fin 30"
  "0 \<le> specificity_score i \<and> specificity_score i \<le> Fin 25"
  "0 \<le> geographic_score reg g es n \<and> geographic_score reg g es n \<le> Fin 15"
  "0 \<le> transport_score i \<and> transport_score i \<le> Fin 15"
proof -
  show "0 \<le> completeness_score u i c ps es \<and> completeness_score u i c ps es \<le> Fin 30"
    unfolding completeness_score_def by (intro clamp_good good_intros) simp_all
  show "0 \<le> specificity_score i \<and> specificity_score i \<le> Fin 25"
    unfolding specificity_score_def Let_def by (intro clamp_good good_intros) simp_all
  have less: "good_number a \<Longrightarrow> a - points c 5 0 \<noteq> NaN" for a c
    by (simp add: points_def good_minus)
  show "0 \<le> geographic_score reg g es n \<and> geographic_score reg g es n \<le> Fin 15"
    unfolding geographic_score_def by (rule clamp_scale, rule less, intro good_intros) simp_all
  show "0 \<le> transport_score i \<and> transport_score i \<le> Fin 15"
    unfolding transport_score_def Let_def by (intro clamp_good good_intros) simp_all
qed

subsection \<open>Which requests are calculated\<close>

text \<open>
  No id of the request is the name of a member of \<open>Object.prototype\<close>, and no value the calculation
  converts to a text or a number (ids, percentages, labels of materials, accessories and legs, places
  and markets) is an object with a member \<open>toString\<close> or an array that holds one.
\<close>

definition plain_request :: "jsval \<Rightarrow> bool" where
  "plain_request input =
     (let items = (\<lambda>field. elements (jget input field)); p = jget input ''packaging'' in
      (\<forall>m \<in> set (items ''materials''). plain_id (jelse (jget m ''factorId'') (jget m ''type'')) \<and>
        coercible (jget m ''percentage'') \<and> coercible (material_label m)) \<and>
      (\<forall>a \<in> set (items ''accessories''). plain_id (jget a ''factorId'') \<and> coercible (material_label a)) \<and>
      plain_id (jelse (jget p ''factorId'') (jget p ''label'')) \<and>
      (\<forall>i \<in> set (items ''processFactorIds''). plain_id i) \<and>
      (\<forall>e \<in> set (items ''energyMix''). plain_id (jget e ''factorId'') \<and>
        coercible (jget e ''percentage'') \<and> coercible (jget e ''geography'')) \<and>
      coercible (jget input ''manufacturingGeography'') \<and> coercible (jget input ''originGeography'') \<and>
      (\<forall>l \<in> set (items ''transport''). plain_id (jelse (jget l ''factorId'') (jget l ''mode'')) \<and>
        coercible (jget l ''mode'') \<and> coercible (jget l ''defaultDistanceKey'')) \<and>
      coercible (jget input ''destinationMarket''))"

lemma keyword_plain: "plain_id (JStr (accessory_factor_id key))"
  by (simp add: accessory_factor_id_def Let_def plain_id_def prototype_names_def
      object_prototype_names_def trim_def is_space_def)

lemma plain_nothing [simp]: "plain_id JUndef" "plain_id JNull"
  by (simp_all add: plain_id_def str_or_empty_def prototype_names_def object_prototype_names_def
      trim_def)

context complete_registry
begin

definition sound_run :: "('a) stage_run_scheme \<Rightarrow> bool" where
  "sound_run r = (\<forall>c \<in> set (run_contributions r). entry (con_factor c))"

lemma sound_run_frame [simp]:
  "sound_run start_run" "sound_run (stage_run.extend r0 b) = sound_run r0"
  "sound_run (add_note s r) = sound_run r" "sound_run (note_degraded s r) = sound_run r"
  "sound_run (warn s r) = sound_run r" "sound_run (r\<lparr>run_stage := a\<rparr>) = sound_run r"
  by (simp_all add: sound_run_def start_run_def add_note_def note_degraded_def warn_def
      stage_run.defs)

lemma sound_run_materials [simp]:
  "sound_run (add_biogenic mass bf m) = sound_run m"
  "sound_run (material_notes meth v f m) = sound_run m"
  "sound_run (material_preamble vs m) = sound_run m"
  by (simp_all add: material_notes_def material_preamble_def add_biogenic_def Let_def)
     (simp add: sound_run_def)

lemma sound_run_book [simp]:
  "sound_run (book stage detail activity unit f amount allocation r) \<longleftrightarrow> entry f \<and> sound_run r"
  by (auto simp: sound_run_def book_def)

lemma material_step_total:
  assumes "sound_run r" and "plain_id (jelse (jget m ''factorId'') (jget m ''type''))"
    and "coercible (material_label m)"
    and "jget meth ''defaultMaterialFactorId'' = JStr i" and "i \<in> set fallback_factor_ids"
  shows "\<exists>r'. material_step reg base meth r m = Inr r' \<and> sound_run r'"
proof -
  obtain f where "resolve_factor_or_fallback reg (jelse (jget m ''factorId'') (jget m ''type''))
      (JStr i) = Inr f" and "entry f"
    using resolve_plain [OF assms(2,5)] by blast
  with assms(1,3,4) show ?thesis by (simp add: material_step_def Let_def check_coercible_def)
qed

lemma accessory_step_total:
  assumes "sound_run r" and "plain_id (jget a ''factorId'')" and "coercible (material_label a)"
  shows "\<exists>r'. accessory_step reg r a = Inr r' \<and> sound_run r'"
proof -
  let ?i = "if is_nullish (jget a ''factorId'')
    then JStr (accessory_factor_id (token_of (str_or_empty (material_label a)))) else jget a ''factorId''"
  have "plain_id ?i" using assms(2) by (simp add: keyword_plain)
  then have "\<exists>f. resolve_factor_or_fallback reg ?i (JStr ''accessory-other-proxy'') = Inr f \<and> entry f"
    by (rule resolve_plain) (simp add: fallback_factor_ids_def)
  then obtain f where "resolve_factor_or_fallback reg ?i (JStr ''accessory-other-proxy'') = Inr f"
    and "entry f" by blast
  with assms(1,3) show ?thesis
    by (auto simp: accessory_step_def Let_def resolve_accessory_factor_id_by_keyword_def
        normalize_token_Inr split: if_splits)
qed

lemma transport_step_total:
  assumes "sound_run r" and "plain_id (jelse (jget l ''factorId'') (jget l ''mode''))"
    and "coercible (jget l ''mode'')" "coercible (jget l ''defaultDistanceKey'')"
    and "coercible (jget input ''destinationMarket'')"
  shows "\<exists>r'. transport_step reg input shipped r l = Inr r' \<and> sound_run r'"
proof -
  have "\<exists>f. resolve_factor_or_fallback reg (jelse (jget l ''factorId'') (jget l ''mode''))
      (JStr ''transport-multimodal-proxy'') = Inr f \<and> entry f"
    using assms(2) by (rule resolve_plain) (simp add: fallback_factor_ids_def)
  then obtain f where f: "resolve_factor_or_fallback reg (jelse (jget l ''factorId'') (jget l ''mode''))
      (JStr ''transport-multimodal-proxy'') = Inr f" and "entry f" by blast
  obtain d where "leg_distance input l = Inr d"
    using assms(4,5) by (auto simp: leg_distance_def resolve_market_distance_default_def
        normalize_token_Inr coercible_jor)
  with assms f \<open>entry f\<close> entry_props(4) [OF \<open>entry f\<close>] show ?thesis
    by (simp add: transport_step_def Let_def check_coercible_def coercible_jor)
qed

lemma materials_total:
  assumes "plain_request input"
    and meth: "jget meth ''defaultMaterialFactorId'' = JStr i" "i \<in> set fallback_factor_ids"
  shows "\<exists>res. calculate_materials reg input mass meth = Inr res \<and> sound_run (mat_run res)"
proof -
  let ?ms = "elements (jget input ''materials'')" and ?as = "elements (jget input ''accessories'')"
  let ?base = "math_max (mass - accessory_mass ?as) 0"
  have "\<exists>r. fold_result (material_step reg ?base meth)
      (material_preamble ?ms (stage_run.extend start_run \<lparr>run_biogenic = 0\<rparr>)) ?ms = Inr r \<and> sound_run r"
    using assms(1)
    by (intro fold_result_total [where P = sound_run] material_step_total [OF _ _ _ meth])
       (auto simp: plain_request_def Let_def)
  then obtain r where r: "sound_run r" "fold_result (material_step reg ?base meth)
      (material_preamble ?ms (stage_run.extend start_run \<lparr>run_biogenic = 0\<rparr>)) ?ms = Inr r" by blast
  have "\<exists>r'. fold_result (accessory_step reg) r ?as = Inr r' \<and> sound_run r'"
    using assms(1) r(1)
    by (intro fold_result_total [where P = sound_run] accessory_step_total)
       (auto simp: plain_request_def Let_def)
  then obtain r' where "fold_result (accessory_step reg) r ?as = Inr r'" and "sound_run r'" by blast
  with assms(1) r(2) show ?thesis
    by (simp add: calculate_materials_def Let_def plain_request_def check_shares_def list_all_iff)
qed

lemma packaging_total:
  assumes "plain_request input"
  shows "\<exists>res. calculate_packaging reg input = Inr res \<and> sound_run (pack_run res)"
proof -
  let ?p = "jget input ''packaging''"
  have "\<exists>f. resolve_factor_or_fallback reg (jelse (jget ?p ''factorId'') (jget ?p ''label''))
      (JStr ''packaging-minimal-proxy'') = Inr f \<and> entry f"
    using assms by (intro resolve_plain) (auto simp: plain_request_def Let_def fallback_factor_ids_def)
  then obtain f where "resolve_factor_or_fallback reg (jelse (jget ?p ''factorId'') (jget ?p ''label''))
      (JStr ''packaging-minimal-proxy'') = Inr f" and "entry f" by blast
  then show ?thesis by (simp add: calculate_packaging_def Let_def)
qed

lemma transport_total:
  assumes "plain_request input"
  shows "\<exists>r. calculate_transport reg input mass pack = Inr r \<and> sound_run r"
proof -
  have "\<exists>r. fold_result (transport_step reg input ((mass + pack) / Fin 1000)) start_run
      (elements (jget input ''transport'')) = Inr r \<and> sound_run r"
    using assms by (intro fold_result_total [where P = sound_run] transport_step_total)
      (auto simp: plain_request_def Let_def)
  then obtain r where "fold_result (transport_step reg input ((mass + pack) / Fin 1000)) start_run
      (elements (jget input ''transport'')) = Inr r" and "sound_run r" by blast
  then show ?thesis by (simp add: calculate_transport_def Let_def)
qed

text \<open>Every factor summarised by the manufacturing stage is a registry entry.\<close>

definition sound_acc :: "stage_acc \<Rightarrow> bool" where
  "sound_acc acc = (\<forall>s \<in> set (acc_factors acc). \<exists>f. entry f \<and> sum_factor_id s = jget f ''id'')"

lemma sound_acc_frame [simp]:
  "sound_acc create_stage_accumulator" "sound_acc (degrade acc) = sound_acc acc"
  "sound_acc (add_amount n acc) = sound_acc acc"
  by (simp_all add: sound_acc_def)

lemma sound_acc_add: "sound_acc acc \<Longrightarrow> entry f \<Longrightarrow> sound_acc (add_factor_summary stage f acc)"
  by (auto simp: sound_acc_def add_factor_summary_def Let_def summarize_def)

lemma process_step_total:
  assumes "sound_acc (fst st)" and "plain_id p" and "i \<in> set fallback_factor_ids"
  shows "\<exists>st'. process_step reg (JStr i) st p = Inr st' \<and> sound_acc (fst st')"
proof -
  obtain f where "resolve_factor_or_fallback reg p (JStr i) = Inr f" and "entry f"
    using resolve_plain [OF assms(2,3)] by blast
  with assms(1) show ?thesis by (simp add: process_step_def sound_acc_add)
qed

lemma energy_step_total:
  assumes "sound_acc (es_stage st)" and "plain_id (jget e ''factorId'')"
    and "coercible (jget e ''geography'')" and "coercible geo"
  shows "\<exists>st'. energy_step reg role geo mass intensity denominator ids st e = Inr st'
    \<and> sound_acc (es_stage st')"
proof -
  obtain f where found: "resolve_energy_factor reg (jget e ''factorId'')
      (jor (jget e ''geography'') geo) = Inr f" and f: "entry f"
    using energy_plain [OF assms(2) coercible_jor [OF assms(3,4)]] by blast
  then have "\<not> is_nullish f" using entry_props(1) [OF f] by (cases f) auto
  moreover obtain k where "resolve_energy_scope f role = Inr k" using energy_scope_total [OF f] by blast
  ultimately show ?thesis
    using assms(1) found f by (simp add: energy_step_def Let_def sound_acc_add)
qed

lemma production_total:
  assumes "sound_acc acc" and "jget meth ''defaultProcessFactorId'' = w"
  shows "\<exists>cs. production_contribution reg meth amount acc = Inr cs \<and> (\<forall>c \<in> set cs. entry (con_factor c))"
proof (cases "filter (\<lambda>s. truthy (sum_is_proxy s)) (acc_factors acc) @ acc_factors acc")
  case Nil
  then show ?thesis by (simp add: production_contribution_def)
next
  case (Cons s ss)
  then have "s \<in> set (acc_factors acc)"
    by (metis Un_iff filter_is_subset in_mono list.set_intros(1) set_append)
  with assms(1) obtain f where "entry f" "sum_factor_id s = jget f ''id''"
    by (auto simp: sound_acc_def)
  with Cons show ?thesis by (simp add: production_contribution_def resolve_entry_id)
qed

lemma manufacturing_total:
  assumes "plain_request input"
    and meth: "jget meth ''defaultProcessFactorId'' = JStr i" "i \<in> set fallback_factor_ids"
  shows "\<exists>res. calculate_manufacturing reg input mass meth role = Inr res \<and> sound_run (man_run res)"
proof -
  let ?given = "elements (jget input ''processFactorIds'')"
  define ids where "ids = (if ?given \<noteq> [] then ?given else [JStr i])"
  define geo where "geo = jor (jget input ''manufacturingGeography'') (jget input ''originGeography'')"
  define entries where "entries = energy_entries_of input geo"
  define start where
    "start = (if ?given = [] then degrade create_stage_accumulator else create_stage_accumulator)"
  have fallback_plain: "plain_id (JStr i)" if "i \<in> set fallback_factor_ids" for i
    using that by (auto simp: fallback_factor_ids_def plain_id_def prototype_names_def
        object_prototype_names_def trim_def is_space_def)
  have ids: "plain_id p" if "p \<in> set ids" for p
    using that assms(1) fallback_plain [OF meth(2)]
    by (auto simp: ids_def plain_request_def Let_def split: if_splits)
  have geo: "coercible geo"
    using assms(1) by (simp add: geo_def plain_request_def Let_def coercible_jor)
  have entries: "plain_id (jget e ''factorId'') \<and> coercible (jget e ''percentage'')
      \<and> coercible (jget e ''geography'')" if "e \<in> set entries" for e
    using that geo assms(1) fallback_plain [of "''energy-grid-generic''"]
    by (auto simp: entries_def energy_entries_of_def plain_request_def Let_def fallback_factor_ids_def
        split: list.splits if_splits)
  have "\<exists>st. fold_result (process_step reg (JStr i)) (start, 0) ids = Inr st \<and> sound_acc (fst st)"
    using ids by (intro fold_result_total process_step_total meth(2)) (simp_all add: start_def)
  then obtain acc intensity where
    p: "fold_result (process_step reg (JStr i)) (start, 0) ids = Inr (acc, intensity)" "sound_acc acc"
    by auto
  define st0 where "st0 unsure = \<lparr>es_stage = (if unsure then degrade acc else acc), es_factor_sum = 0,
      es_scopes = \<lparr>scope1 = 0, scope2 = 0, scope3 = 0\<rparr>, es_breakdown = [], es_terms = []\<rparr>" for unsure
  have energy: "\<exists>st. fold_result (energy_step reg role geo mass intensity d ids) (st0 unsure) entries
      = Inr st \<and> sound_acc (es_stage st)" for unsure d
    using entries geo p(2) by (intro fold_result_total energy_step_total) (simp_all add: st0_def)
  obtain st where st: "fold_result (energy_step reg role geo mass intensity
      (if 0 < sum_values (map share_of entries) then sum_values (map share_of entries) else Fin 100) ids)
      (st0 (elements (jget input ''energyMix'') = [] \<or> off_range (sum_values (map share_of entries))))
      entries = Inr st" and "sound_acc (es_stage st)"
    using energy by blast
  then obtain cs where "production_contribution reg meth (mass * intensity * es_factor_sum st)
      (add_amount (mass * intensity * es_factor_sum st) (es_stage st)) = Inr cs"
    and "\<forall>c \<in> set cs. entry (con_factor c)"
    using production_total [of "add_amount _ _" meth] by (metis sound_acc_frame(3))
  with p(1) st meth(1) show ?thesis
    unfolding calculate_manufacturing_def Let_def geo_def [symmetric] meth(1) ids_def [symmetric]
      entries_def [symmetric] start_def [symmetric]
    by (simp add: st0_def sound_run_def check_coercible_def check_shares_def list_all_iff geo entries)
qed

lemma weighted_total:
  assumes "\<forall>c \<in> set cs. entry (con_factor c)"
  shows "\<exists>n. weighted_quality cs = Inr n"
proof -
  have "\<not> is_nullish (jget f ''qualityScores'')" if "entry f" for f
    using entry_props(3) [OF that] by (cases "jget f ''qualityScores''") auto
  then have "\<exists>q. average_quality_score f = Inr q" if "entry f" for f
    using that by (simp add: average_quality_score_def Let_def)
  with assms have "\<exists>n. weighted_quality cs = Inr n \<and> True"
    unfolding weighted_quality_def by (intro fold_result_total) fastforce+
  then show ?thesis by simp
qed

lemma engine_total:
  assumes "normalize_carbon_input raw = Inr input"
    and "validate_carbon_input reg input = Inr []" and "plain_request input"
  shows "\<exists>res. calculate_carbon_footprint reg raw = Inr res"
proof -
  let ?meth = "resolve_category_methodology (jget input ''productCategory'')"
  let ?mass = "unit_mass_of input"
  let ?role = "jor (jget input ''reportingActorRole'') (JStr ''manufacturer'')"
  have "jget input ''productCategory'' \<in> {JUndef, JStr ''textile''}"
    using assms(2) by (simp add: validate_carbon_input_Nil request_typed_def)
  then have meth: "jget ?meth ''defaultMaterialFactorId'' = JStr ''cat-other-generic''"
    "jget ?meth ''defaultProcessFactorId'' = JStr ''process-generic-garment''"
    by (auto simp: resolve_category_methodology_def category_methodology_def table_get_def)
  obtain mat where mat: "calculate_materials reg input ?mass ?meth = Inr mat" "sound_run (mat_run mat)"
    using materials_total [OF assms(3) meth(1)] by (auto simp: fallback_factor_ids_def)
  obtain pack where pack: "calculate_packaging reg input = Inr pack" "sound_run (pack_run pack)"
    using packaging_total [OF assms(3)] by blast
  obtain man where man: "calculate_manufacturing reg input ?mass ?meth ?role = Inr man"
      "sound_run (man_run man)"
    using manufacturing_total [OF assms(3) meth(2)] by (auto simp: fallback_factor_ids_def)
  obtain legs where legs: "calculate_transport reg input ?mass (pack_mass pack) = Inr legs"
      "sound_run legs"
    using transport_total [OF assms(3)] by blast
  have "\<forall>c \<in> set (run_contributions (mat_run mat) @ run_contributions (pack_run pack)
      @ run_contributions (man_run man) @ run_contributions legs). entry (con_factor c)"
    using mat(2) pack(2) man(2) legs(2) by (auto simp: sound_run_def)
  then obtain n where "weighted_quality (run_contributions (mat_run mat)
      @ run_contributions (pack_run pack) @ run_contributions (man_run man)
      @ run_contributions legs) = Inr n"
    using weighted_total by blast
  then have "\<exists>res. assemble_result reg input ?role mat pack man legs = Inr res"
    by (simp add: assemble_result_def calculate_data_quality_def Let_def)
  with assms(1,2) mat(1) pack(1) man(1) legs(1) show ?thesis
    by (auto simp: calculate_carbon_footprint_def Let_def assert_valid_carbon_input_def)
qed

end

subsection \<open>The uncertainty interval\<close>

lemma num_add_mono_sym:
  assumes "0 \<le> t" and "not_negative half" and "half \<noteq> NaN"
  shows "math_max 0 (Fin t - half) \<le> Fin t + half"
proof (cases half)
  case (Fin h)
  with assms(2) have "num_of (t - h) \<le> num_of (t + h)" by (intro num_of_mono) simp
  moreover have "num_of 0 \<le> num_of (t + h)" using assms(1,2) Fin by (intro num_of_mono) simp
  ultimately show ?thesis using Fin by (auto simp: math_max_def num_simps)
qed (use assms in \<open>auto simp: math_max_def num_simps\<close>)

lemma num_sub_below:
  assumes "num_of t = Fin t" and "0 \<le> t" and "not_negative half" and "half \<noteq> NaN"
  shows "math_max 0 (Fin t - half) \<le> Fin t" and "Fin t \<le> Fin t + half"
proof -
  have "num_of (t - h) \<le> Fin t" "Fin t \<le> num_of (t + h)" if "half = Fin h" for h
    using assms(3) that num_of_mono [of "t - h" t] num_of_mono [of t "t + h"] assms(1) by simp_all
  then show "math_max 0 (Fin t - half) \<le> Fin t" and "Fin t \<le> Fin t + half"
    using assms(2-4) by (cases half; auto simp: math_max_def num_simps)+
qed

lemma round_nan [simp]: "round_per_product NaN = NaN"
  by (simp add: round_per_product_def math_max_def num_simps)

lemma isqrt_not_negative: "0 \<le> r \<Longrightarrow> 0 \<le> isqrt_bits b n r"
  by (induction b n r rule: isqrt_bits.induct) (auto simp: Let_def)

lemma sqrt_not_negative: "not_negative (math_sqrt n)"
proof (cases n)
  case (Fin a)
  have "0 \<le> sqrt_rat a"
    by (auto simp: sqrt_rat_def Let_def pow2_def isqrt_not_negative
        intro!: divide_nonneg_nonneg add_nonneg_nonneg)
  with Fin show ?thesis by (simp add: num_of_nonneg)
qed simp_all

lemma rss_interval:
  assumes "un_p95 (build_rss_uncertainty terms (Fin t)) \<noteq> NaN"
  shows "un_p5 (build_rss_uncertainty terms (Fin t)) \<le> un_p95 (build_rss_uncertainty terms (Fin t))"
proof (cases "Fin t \<le> 0 \<or> terms = []")
  case True
  then show ?thesis by (auto simp: build_rss_uncertainty_def num_simps)
next
  case False
  define half where "half = num_of (196 / 100) * math_sqrt (rss_variance terms)"
  have interval: "un_p5 (build_rss_uncertainty terms (Fin t)) = round_per_product (math_max 0 (Fin t - half))"
    "un_p95 (build_rss_uncertainty terms (Fin t)) = round_per_product (Fin t + half)"
    using False by (simp_all add: build_rss_uncertainty_def half_def Let_def)
  have "not_negative half"
    unfolding half_def by (intro not_negative_mul num_of_nonneg sqrt_not_negative) simp
  moreover have "half \<noteq> NaN"
    using assms unfolding interval by (auto simp: num_simps)
  moreover have "0 \<le> t" using False by (simp add: num_simps)
  ultimately show ?thesis
    unfolding interval by (intro round_per_product_mono num_add_mono_sym)
qed

lemma rss_around_total:
  assumes "un_p95 (build_rss_uncertainty terms (Fin t)) \<noteq> NaN"
    and "0 < t" and "terms \<noteq> []" and "num_of t = Fin t"
  shows "un_p5 (build_rss_uncertainty terms (Fin t)) \<le> round_per_product (Fin t)"
    and "round_per_product (Fin t) \<le> un_p95 (build_rss_uncertainty terms (Fin t))"
proof -
  define half where "half = num_of (196 / 100) * math_sqrt (rss_variance terms)"
  have interval: "un_p5 (build_rss_uncertainty terms (Fin t)) = round_per_product (math_max 0 (Fin t - half))"
    "un_p95 (build_rss_uncertainty terms (Fin t)) = round_per_product (Fin t + half)"
    using assms(2,3) by (simp_all add: build_rss_uncertainty_def half_def Let_def num_simps)
  have "not_negative half"
    unfolding half_def by (intro not_negative_mul num_of_nonneg sqrt_not_negative) simp
  moreover have "half \<noteq> NaN"
    using assms(1) unfolding interval by (auto simp: num_simps)
  ultimately show "un_p5 (build_rss_uncertainty terms (Fin t)) \<le> round_per_product (Fin t)"
    and "round_per_product (Fin t) \<le> un_p95 (build_rss_uncertainty terms (Fin t))"
    unfolding interval using assms(2,4) by (auto intro!: round_per_product_mono num_sub_below)
qed

lemma round_good: "good_number n \<Longrightarrow> good_number (round_per_product n)"
proof -
  assume n: "good_number n"
  then have "good_number (math_max 0 n)" by (cases n) (auto simp: good_number_def math_max_def num_simps)
  then show ?thesis
    unfolding round_per_product_def epsilon_def
    by (intro good_div good_round good_mul good_add good_Fin) simp_all
qed

lemma rss_upper_number:
  assumes "rss_variance terms = Fin v" and "0 \<le> v" and "0 \<le> t"
  shows "un_p95 (build_rss_uncertainty terms (Fin t)) \<noteq> NaN"
proof -
  obtain r where r: "num_of (196 / 100) = Fin r" using num_of_finite [of "196 / 100"] by auto
  have "num_of 1 \<le> num_of (196 / 100)" by (rule num_of_mono) simp
  with r have "0 < r" by (simp add: num_of_one num_simps)
  have "0 \<le> sqrt_rat v"
    by (auto simp: sqrt_rat_def Let_def pow2_def isqrt_not_negative
        intro!: divide_nonneg_nonneg add_nonneg_nonneg)
  with assms(1,2) have "good_number (math_sqrt (rss_variance terms))"
    by (simp add: good_number_def num_of_nonneg)
  then have "good_number (Fin r * math_sqrt (rss_variance terms))"
    using \<open>0 < r\<close> by (cases "math_sqrt (rss_variance terms)")
      (auto simp: good_number_def num_simps num_of_nonneg num_sign_inf_def)
  with assms(3) have "good_number (Fin t + Fin r * math_sqrt (rss_variance terms))"
    by (intro good_add good_Fin)
  from round_good [OF this] show ?thesis
    using r [simplified] by (auto simp: build_rss_uncertainty_def good_number_def Let_def num_simps)
qed

subsection \<open>Scopes\<close>

definition scope3_only :: "energy_state \<Rightarrow> bool" where
  "scope3_only st = (scope1 (es_scopes st) = 0 \<and> scope2 (es_scopes st) = 0)"

lemma energy_step_brand:
  assumes "scope3_only st"
    and "energy_step reg (JStr ''brand'') geo mass intensity d ids st e = Inr st'"
  shows "scope3_only st'"
  using assms
  by (auto simp: energy_step_def Let_def resolve_energy_scope_def scope3_only_def add_to_scope_def
      split: if_splits)

lemma manufacturing_brand:
  assumes "calculate_manufacturing reg input mass meth (JStr ''brand'') = Inr man"
  shows "scope1 (man_scopes man) = 0" and "scope2 (man_scopes man) = 0"
proof -
  from assms obtain geo intensity d ids st0 st entries where
    run: "fold_result (energy_step reg (JStr ''brand'') geo mass intensity d ids) st0 entries = Inr st"
    and st: "man_scopes man = es_scopes st" "scope3_only st0"
    by (force simp: calculate_manufacturing_def Let_def scope3_only_def split: prod.splits)
  from run st(2) have "scope3_only st"
    by (rule fold_result_invariant) (rule energy_step_brand)
  with st(1) show "scope1 (man_scopes man) = 0" and "scope2 (man_scopes man) = 0"
    by (simp_all add: scope3_only_def)
qed

end
