(* ===== verification/Carbon_Properties.thy ===== *)
theory Carbon_Properties
  imports Carbon_Engine
begin

text \<open>
  What the carbon calculation promises, over the shipped registry where a registry is needed:
  which requests are calculated, how the stages keep their books, the sign, order and range of the
  published numbers, and the one way past the fallback factors.
\<close>

section \<open>A request\<close>

definition sample_request :: jsval where
  "sample_request = JObj
     [(''unitMass'', JNum (Fin 500)), (''unitMassUnit'', JStr ''kg''), (''quantity'', JNum (Fin 10)),
      (''validationMode'', JStr ''strict''), (''reportingActorRole'', JStr ''brand''),
      (''materials'', JArr [JObj [(''type'', JStr ''cotton''), (''percentage'', JNum (Fin 100))]]),
      (''transport'', JArr [JObj [(''mode'', JStr ''sea''), (''distanceKm'', JNum (Fin 9000))]])]"

definition sample_normal :: jsval where
  "sample_normal = JObj
     [(''unitMass'', JNum (Fin 500)), (''unitMassUnit'', JStr ''kg''), (''quantity'', JNum (Fin 10)),
      (''validationMode'', JStr ''strict''), (''reportingActorRole'', JStr ''brand''),
      (''materials'', JArr [JObj [(''type'', JStr ''cotton''), (''percentage'', JNum (Fin 100))]]),
      (''transport'', JArr [JObj [(''mode'', JStr ''sea''), (''distanceKm'', JNum (Fin 9000))]]),
      (''unitMassKg'', JNum (Fin 500)), (''accessories'', JArr []), (''packaging'', JNull),
      (''processFactorIds'', JArr []), (''energyMix'', JArr [])]"

lemma num_small [simp]: "num_of 500 = Fin 500" "num_of 100 = Fin 100" "num_of 1 = Fin 1"
  using num_of_small_int [of 500] num_of_small_int [of 100] num_of_small_int [of 1] by simp_all

lemma sample_normalizes: "normalize_carbon_input sample_request = Inr sample_normal"
  by (simp add: normalize_carbon_input_def sample_request_def sample_normal_def put_canonical_def
      canonical_or_converted_def convert_to_canonical_def unit_conversion_def unit_conversions_def
      table_get_def canonical_item_def copy_item_def put_request_def num_simps Let_def)

lemma sample_valid: "validate_carbon_input reg sample_normal = Inr []"
proof -
  have "request_typed sample_normal"
    by (simp add: request_typed_def sample_normal_def actor_roles_def)
  moreover have "no_null_items sample_normal"
    by (simp add: no_null_items_def sample_normal_def)
  moreover have "request_physical reg sample_normal"
    by (simp add: request_physical_def sample_normal_def material_fits_def leg_fits_def
        coverage_fits_def coverage_of_def percentage_ok_def finite_non_negative_def factor_fits_def
        num_simps Let_def)
  ultimately show ?thesis
    by (simp add: validate_carbon_input_Nil) (simp add: sample_normal_def)
qed

lemma sample_plain: "plain_request sample_normal"
  by (simp add: plain_request_def sample_normal_def plain_id_def material_label_def
      prototype_names_def object_prototype_names_def trim_def is_space_def str_or_empty_def jor_def Let_def)

lemma sample_calculated:
  obtains res where "calculate_carbon_footprint factors_v1 sample_request = Inr res"
    and "cr_role res = JStr ''brand''"
proof -
  obtain res where res: "calculate_carbon_footprint factors_v1 sample_request = Inr res"
    using v1.engine_total [OF sample_normalizes sample_valid sample_plain] by blast
  then have "cr_role res = JStr ''brand''"
    by (rule footprint_elim)
       (auto simp: sample_normalizes sample_normal_def assemble_result_def Let_def jor_def)
  with res that show thesis by blast
qed

text \<open>C25: normalising a request that is already normalised changes nothing, and in particular
  never throws, so a stored request can be fed to the engine again.\<close>

theorem normalize_idempotent:
  assumes "normalize_carbon_input i = Inr n"
  shows "normalize_carbon_input n = Inr n"
  using assms by (rule normalize_again)

theorem normalize_idempotent_witness: "normalize_carbon_input sample_normal = Inr sample_normal"
  by (rule normalize_idempotent [OF sample_normalizes])


text \<open>C1: with the shipped registry, every request that normalises, passes validation, does not use
  the name of a member of \<open>Object.prototype\<close> as a factor id and gives no object with a member
  \<open>toString\<close> where the calculation needs a text or a number (\<open>plain_request\<close>) is calculated: no factor
  is missing, no property of a missing object is read and no conversion throws.\<close>

theorem engine_total_v1:
  assumes "normalize_carbon_input raw = Inr input"
    and "validate_carbon_input factors_v1 input = Inr []" and "plain_request input"
  shows "\<exists>res. calculate_carbon_footprint factors_v1 raw = Inr res"
  using assms by (rule v1.engine_total)

theorem engine_total_v1_witness:
  "\<exists>res. calculate_carbon_footprint factors_v1 sample_request = Inr res"
  by (rule engine_total_v1 [OF sample_normalizes sample_valid sample_plain])

text \<open>The shipped registry passes the load-time checks, and the target of every alias, every
  default of the methodology and every hard-coded fallback is a factor of it.\<close>

theorem shipped_registry_complete:
  "load_registry factors_v1 = Inr ()
   \<and> list_all (\<lambda>p. to_str (snd p) \<in> set (map fst factors_v1)) factor_id_aliases
   \<and> list_all (\<lambda>i. i \<in> set (map fst factors_v1)) fallback_factor_ids"
proof (intro conjI)
  show "load_registry factors_v1 = Inr ()" by (rule factors_v1_load_registry)
  show "list_all (\<lambda>p. to_str (snd p) \<in> set (map fst factors_v1)) factor_id_aliases"
    unfolding factors_v1_keys factor_id_aliases_def by simp
  show "list_all (\<lambda>i. i \<in> set (map fst factors_v1)) fallback_factor_ids"
    unfolding factors_v1_keys fallback_factor_ids_def by simp
qed





text \<open>C11: in the materials stage the stage amount, the scope-3 amount and the sum of the published
  calculation terms are equal bit for bit, the contributions carry the amounts of the terms in order,
  and no factor is summarised twice.\<close>

theorem materials_books_balance:
  assumes "calculate_materials reg input mass meth = Inr res"
  shows "acc_amount (run_stage (mat_run res)) = run_scope3 (mat_run res)
    \<and> run_scope3 (mat_run res) = sum_values (map ct_kg (run_terms (mat_run res)))
    \<and> map con_amount (run_contributions (mat_run res)) = map ct_kg (run_terms (mat_run res))
    \<and> distinct (map summary_key (acc_factors (run_stage (mat_run res))))"
  using materials_balanced [OF assms] by (simp add: balanced_def keys_distinct_def sum_values_def)

lemma sample_materials:
  obtains res where "calculate_materials factors_v1 sample_normal (Fin 500)
    (resolve_category_methodology JUndef) = Inr res"
proof -
  have "jget (resolve_category_methodology JUndef) ''defaultMaterialFactorId'' = JStr ''cat-other-generic''"
    by (simp add: resolve_category_methodology_def category_methodology_def table_get_def jor_def)
  from v1.materials_total [OF sample_plain this] that show thesis
    by (auto simp: fallback_factor_ids_def)
qed

theorem materials_books_balance_witness:
  "\<exists>res. calculate_materials factors_v1 sample_normal (Fin 500) (resolve_category_methodology JUndef) = Inr res
     \<and> acc_amount (run_stage (mat_run res)) = run_scope3 (mat_run res)"
  by (rule sample_materials) (use materials_books_balance in blast)

text \<open>The same for transport, and a leg is booked with the distance used, so the stage amount is
  the sum of the legs that name a mode or a factor.\<close>

theorem transport_books_balance:
  assumes "calculate_transport reg input mass pack = Inr r"
  shows "acc_amount (run_stage r) = run_scope3 r
    \<and> run_scope3 r = sum_values (map ct_kg (run_terms r))
    \<and> map con_amount (run_contributions r) = map ct_kg (run_terms r)
    \<and> distinct (map summary_key (acc_factors (run_stage r)))"
  using transport_balanced [OF assms] by (simp add: balanced_def keys_distinct_def sum_values_def)

theorem transport_books_balance_witness:
  "\<exists>r. calculate_transport factors_v1 sample_normal (Fin 500) 0 = Inr r
     \<and> acc_amount (run_stage r) = run_scope3 r"
  using v1.transport_total [OF sample_plain, of "Fin 500" 0] transport_books_balance by blast

text \<open>C31: no stage amount is ever negative when the registry passed its load-time checks, for the
  materials, the packaging, the manufacturing and the transport; nor is the energy booked in a scope,
  or the mass of the packaging, so it cannot reduce the shipped mass.\<close>

theorem stage_amounts_not_negative:
  assumes "load_registry reg = Inr ()"
    and "calculate_materials reg input (unit_mass_of input) meth = Inr mat"
    and "calculate_packaging reg input = Inr pack"
    and "calculate_manufacturing reg input (unit_mass_of input) meth role = Inr man"
    and "calculate_transport reg input (unit_mass_of input) (pack_mass pack) = Inr legs"
  shows "\<not> acc_amount (run_stage (mat_run mat)) < 0 \<and> \<not> acc_amount (run_stage (pack_run pack)) < 0
    \<and> \<not> acc_amount (run_stage (man_run man)) < 0 \<and> \<not> acc_amount (run_stage legs) < 0
    \<and> \<not> pack_mass pack < 0 \<and> \<not> scope1 (man_scopes man) < 0 \<and> \<not> scope2 (man_scopes man) < 0
    \<and> \<not> scope3 (man_scopes man) < 0"
proof -
  have reg: "loaded_registry reg" using assms(1) by (simp add: loaded_registry_def)
  note pack = loaded_registry.packaging_not_negative [OF reg assms(3)]
  show ?thesis
    using loaded_registry.materials_not_negative [OF reg assms(2)] pack
      loaded_registry.manufacturing_not_negative [OF reg assms(4) unit_mass_not_negative]
      loaded_registry.transport_not_negative [OF reg assms(5) unit_mass_not_negative pack(2)]
    by (simp add: not_negative_less)
qed

theorem stage_amounts_not_negative_witness:
  "\<exists>mat man. calculate_materials factors_v1 sample_normal (unit_mass_of sample_normal)
      (resolve_category_methodology JUndef) = Inr mat
    \<and> calculate_manufacturing factors_v1 sample_normal (unit_mass_of sample_normal)
      (resolve_category_methodology JUndef) (JStr ''brand'') = Inr man
    \<and> \<not> acc_amount (run_stage (mat_run mat)) < 0 \<and> \<not> acc_amount (run_stage (man_run man)) < 0"
proof -
  have "unit_mass_of sample_normal = Fin 500"
    by (simp add: unit_mass_of_def sample_normal_def math_max_def num_simps)
  then obtain mat where mat: "calculate_materials factors_v1 sample_normal
      (unit_mass_of sample_normal) (resolve_category_methodology JUndef) = Inr mat"
    using sample_materials by metis
  have "jget (resolve_category_methodology JUndef) ''defaultProcessFactorId'' = JStr ''process-generic-garment''"
    by (simp add: resolve_category_methodology_def category_methodology_def table_get_def jor_def)
  from v1.manufacturing_total [OF sample_plain this]
  obtain man where man: "calculate_manufacturing factors_v1 sample_normal
      (unit_mass_of sample_normal) (resolve_category_methodology JUndef) (JStr ''brand'') = Inr man"
    unfolding fallback_factor_ids_def by fastforce
  obtain pack where pack: "calculate_packaging factors_v1 sample_normal = Inr pack"
    using v1.packaging_total [OF sample_plain] by blast
  obtain legs where "calculate_transport factors_v1 sample_normal (unit_mass_of sample_normal)
      (pack_mass pack) = Inr legs"
    using v1.transport_total [OF sample_plain] by blast
  with mat man stage_amounts_not_negative [OF factors_v1_load_registry mat pack man] show ?thesis by blast
qed

text \<open>A company that reports as a brand owns no scope-1 or scope-2 emissions: all energy of the
  manufacturer is booked in scope 3.\<close>

theorem brand_reports_scope3_only:
  assumes "calculate_carbon_footprint reg raw = Inr res"
    and "cr_role res = JStr ''brand''"
  shows "cr_scope1 res = round_per_product 0 \<and> cr_scope2 res = round_per_product 0"
proof -
  from assms(1) obtain input mat pack man legs where
    man: "calculate_manufacturing reg input (unit_mass_of input)
       (resolve_category_methodology (jget input ''productCategory''))
       (jor (jget input ''reportingActorRole'') (JStr ''manufacturer'')) = Inr man"
    and res: "assemble_result reg input (jor (jget input ''reportingActorRole'') (JStr ''manufacturer''))
       mat pack man legs = Inr res"
    by (rule footprint_elim)
  from res have "cr_role res = jor (jget input ''reportingActorRole'') (JStr ''manufacturer'')"
    and scopes: "cr_scope1 res = round_per_product (scope1 (man_scopes man))"
      "cr_scope2 res = round_per_product (scope2 (man_scopes man))"
    by (auto simp: assemble_result_def Let_def)
  with assms(2) man have "scope1 (man_scopes man) = 0" "scope2 (man_scopes man) = 0"
    by (auto intro: manufacturing_brand)
  with scopes show ?thesis by simp
qed

theorem brand_reports_scope3_only_witness:
  "\<exists>res. calculate_carbon_footprint factors_v1 sample_request = Inr res
     \<and> cr_scope1 res = round_per_product 0 \<and> cr_scope2 res = round_per_product 0"
  by (rule sample_calculated) (use brand_reports_scope3_only in blast)

text \<open>The published interval of a stage is ordered.\<close>

theorem stage_range_is_ordered:
  assumes "known_quality (acc_quality acc)" and "is_finite_num (acc_amount acc)"
  shows "range_min (sb_range (to_stage_breakdown stage acc))
    \<le> range_max (sb_range (to_stage_breakdown stage acc))"
  using assms by (cases "acc_amount acc") (simp_all add: to_stage_breakdown_def stage_range_ordered)

theorem stage_range_is_ordered_witness:
  "range_min (sb_range (to_stage_breakdown ''materials''
      \<lparr>acc_amount = Fin 12, acc_factors = [], acc_quality = JStr ''internal_proxy''\<rparr>))
    \<le> range_max (sb_range (to_stage_breakdown ''materials''
      \<lparr>acc_amount = Fin 12, acc_factors = [], acc_quality = JStr ''internal_proxy''\<rparr>))"
  by (rule stage_range_is_ordered) (simp_all add: known_quality_def quality_rank_def)

text \<open>C32: whenever the 95th percentile is a number, the 5th does not exceed it; and for a positive
  total, with something that contributes to it, the rounded total lies between the two. The percentile is a
  number whenever the variance of the contributions is finite (\<open>rss_upper_number\<close>).\<close>

theorem uncertainty_interval_ordered:
  assumes "un_p95 (build_rss_uncertainty terms (Fin t)) \<noteq> NaN"
  shows "un_p5 (build_rss_uncertainty terms (Fin t)) \<le> un_p95 (build_rss_uncertainty terms (Fin t))
    \<and> (0 < t \<and> terms \<noteq> [] \<and> num_of t = Fin t \<longrightarrow>
       un_p5 (build_rss_uncertainty terms (Fin t)) \<le> round_per_product (Fin t)
       \<and> round_per_product (Fin t) \<le> un_p95 (build_rss_uncertainty terms (Fin t)))"
  using rss_interval [OF assms] rss_around_total [OF assms] by blast

definition sample_contributions :: "contribution list" where
  "sample_contributions =
     [\<lparr>con_amount = Fin 4, con_factor = JObj [(''uncertaintyCv'', JNum (Fin (1 / 2)))]\<rparr>,
      \<lparr>con_amount = Fin 2, con_factor = JObj [(''uncertaintyCv'', JNum (Fin (1 / 2)))]\<rparr>]"

lemma sample_variance: "rss_variance sample_contributions = Fin 5"
  using num_of_small_int [of 2] num_of_small_int [of 4] num_of_small_int [of 5]
  by (simp add: rss_variance_def sample_contributions_def contribution_cv_def num_simps)

theorem uncertainty_interval_ordered_witness:
  "un_p5 (build_rss_uncertainty sample_contributions (Fin 6)) \<le> round_per_product (Fin 6)
   \<and> round_per_product (Fin 6) \<le> un_p95 (build_rss_uncertainty sample_contributions (Fin 6))"
proof -
  have "un_p95 (build_rss_uncertainty sample_contributions (Fin 6)) \<noteq> NaN"
    using sample_variance by (rule rss_upper_number) simp_all
  from uncertainty_interval_ordered [OF this] show ?thesis
    using num_of_small_int [of 6] by (simp add: sample_contributions_def)
qed

text \<open>Each data quality score lies between 0 and its published maximum.\<close>

theorem quality_scores_in_range:
  assumes "calculate_data_quality reg input mass mat man terms un = Inr q"
  shows "0 \<le> qs_completeness (dq_scores q) \<and> qs_completeness (dq_scores q) \<le> Fin 30
    \<and> 0 \<le> qs_specificity (dq_scores q) \<and> qs_specificity (dq_scores q) \<le> Fin 25
    \<and> 0 \<le> qs_geographic (dq_scores q) \<and> qs_geographic (dq_scores q) \<le> Fin 15
    \<and> 0 \<le> qs_transport (dq_scores q) \<and> qs_transport (dq_scores q) \<le> Fin 15"
  using assms score_ranges by (auto simp: calculate_data_quality_def Let_def)

theorem quality_scores_in_range_witness:
  "\<exists>mat man terms un q. calculate_data_quality factors_v1 sample_normal (Fin 500) mat man terms un = Inr q
     \<and> qs_specificity (dq_scores q) \<le> Fin 25"
proof -
  have mass: "unit_mass_of sample_normal = Fin 500"
    by (simp add: unit_mass_of_def sample_normal_def math_max_def num_simps)
  obtain res where "calculate_carbon_footprint factors_v1 sample_request = Inr res"
    by (rule sample_calculated)
  then obtain input role mat pack man legs where
    "normalize_carbon_input sample_request = Inr input"
    and res: "assemble_result factors_v1 input role mat pack man legs = Inr res"
    by (rule footprint_elim)
  then have "input = sample_normal" by (simp add: sample_normalizes)
  with res mass obtain terms un q where
    "calculate_data_quality factors_v1 sample_normal (Fin 500) mat man terms un = Inr q"
    by (auto elim: assemble_elim)
  with quality_scores_in_range show ?thesis by blast
qed

text \<open>The factor manifest of a result lists every factor version its stages used, once.\<close>

theorem manifest_complete:
  assumes "calculate_carbon_footprint reg raw = Inr res"
  shows "distinct (cr_factor_manifest res)
    \<and> set (cr_factor_manifest res) = sum_version_id ` (\<Union>b \<in> set (cr_breakdown res). set (sb_factors b))"
proof -
  from assms obtain input role mat pack man legs where
    "assemble_result reg input role mat pack man legs = Inr res"
    by (rule footprint_elim)
  then show ?thesis
    by (rule assemble_elim) (auto simp: aggregate_carbon_def Let_def)
qed

theorem manifest_complete_witness:
  "\<exists>res. calculate_carbon_footprint factors_v1 sample_request = Inr res \<and> distinct (cr_factor_manifest res)"
  by (rule sample_calculated) (use manifest_complete in blast)

text \<open>The registry hash does not depend on the order in which the factor file lists its keys.\<close>

theorem registry_hash_order_independent:
  assumes "mset reg = mset reg'" and "distinct (map fst reg)"
  shows "registry_content_hash sha256 reg = registry_content_hash sha256 reg'"
  using canonicalize_member_order [OF assms] by (simp add: registry_content_hash_def)

theorem registry_hash_order_independent_witness:
  "registry_content_hash (\<lambda>s. take 64 s) (rev factors_v1) = registry_content_hash (\<lambda>s. take 64 s) factors_v1"
  by (rule registry_hash_order_independent) (simp_all add: rev_map [symmetric] factors_v1_keys_distinct)

text \<open>The quality of a stage is an upper bound of its sources: on the four known qualities
  \<open>maxQuality\<close> is commutative, associative and idempotent, with \<open>primary\<close> as its unit.\<close>

theorem max_quality_semilattice:
  assumes "known_quality p" and "known_quality q" and "known_quality r"
  shows "max_quality p p = p \<and> max_quality p q = max_quality q p
    \<and> max_quality (max_quality p q) r = max_quality p (max_quality q r)
    \<and> max_quality (JStr ''primary'') p = p \<and> known_quality (max_quality p q)"
  using max_quality_laws [OF assms] max_quality_level(1) [OF assms(1,2)] by simp

theorem max_quality_semilattice_witness:
  "max_quality (JStr ''internal_proxy'') (JStr ''primary'')
   = max_quality (JStr ''primary'') (JStr ''internal_proxy'')"
  using max_quality_semilattice [of "JStr ''internal_proxy''" "JStr ''primary''" missing_quality]
  by (simp add: known_quality_def quality_rank_def)

end
