(* ===== verification/Sql_Table.thy ===== *)
theory Sql_Table
  imports Prelude
begin

text \<open>
  The SQL statements the repositories run, on a table kept as the list of its rows. \<open>update_where\<close>
  and \<open>delete_where\<close> are \<open>UPDATE ... WHERE\<close> and \<open>DELETE ... WHERE\<close>, \<open>matching\<close> the row count both
  report, \<open>select_one\<close> a \<open>SELECT ... LIMIT 1\<close> on a unique condition. Every statement runs alone: the
  transactions of the program that span several statements are modelled as one step.
\<close>

definition update_where :: "('r \<Rightarrow> bool) \<Rightarrow> ('r \<Rightarrow> 'r) \<Rightarrow> 'r list \<Rightarrow> 'r list" where
  "update_where p f rows = map (\<lambda>r. if p r then f r else r) rows"

definition delete_where :: "('r \<Rightarrow> bool) \<Rightarrow> 'r list \<Rightarrow> 'r list" where
  "delete_where p rows = filter (\<lambda>r. \<not> p r) rows"

definition matching :: "('r \<Rightarrow> bool) \<Rightarrow> 'r list \<Rightarrow> nat" where
  "matching p rows = length (filter p rows)"

definition select_one :: "('r \<Rightarrow> bool) \<Rightarrow> 'r list \<Rightarrow> 'r option" where
  "select_one p rows = find p rows"

lemma select_one_Some: "select_one p rows = Some r \<Longrightarrow> p r \<and> r \<in> set rows"
  by (auto simp: select_one_def find_Some_iff)

lemma select_one_None: "select_one p rows = None \<longleftrightarrow> (\<forall>r \<in> set rows. \<not> p r)"
  by (auto simp: select_one_def find_None_iff)

lemma select_one_Cons [simp]:
  "select_one p (r # rows) = (if p r then Some r else select_one p rows)"
  "select_one p [] = None"
  by (simp_all add: select_one_def)

lemma select_append_one: "select_one p (rows @ [r]) = (case select_one p rows of None \<Rightarrow> if p r then Some r else None | Some x \<Rightarrow> Some x)"
  by (induction rows) auto

lemma set_update_where: "set (update_where p f rows) = (\<lambda>r. if p r then f r else r) ` set rows"
  by (simp add: update_where_def)

lemma in_update_where:
  "r \<in> set (update_where p f rows) \<longleftrightarrow>
   (\<exists>r0 \<in> set rows. p r0 \<and> r = f r0 \<or> \<not> p r0 \<and> r = r0)"
  by (auto simp: update_where_def)

lemma update_affected: "r \<in> set rows \<Longrightarrow> p r \<Longrightarrow> f r \<in> set (update_where p f rows)"
  by (auto simp: in_update_where)

lemma update_unaffected: "r \<in> set rows \<Longrightarrow> \<not> p r \<Longrightarrow> r \<in> set (update_where p f rows)"
  by (auto simp: in_update_where)

lemma in_delete_where [simp]: "r \<in> set (delete_where p rows) \<longleftrightarrow> r \<in> set rows \<and> \<not> p r"
  by (auto simp: delete_where_def)

lemma update_where_simps [simp]:
  "update_where p f [] = []"
  "update_where p f (r # rows) = (if p r then f r else r) # update_where p f rows"
  by (simp_all add: update_where_def)

text \<open>An update that leaves a column alone leaves the list of its values alone.\<close>

lemma map_update_where:
  "(\<And>r. p r \<Longrightarrow> g (f r) = g r) \<Longrightarrow> map g (update_where p f rows) = map g rows"
  by (simp add: update_where_def)

lemma distinct_delete_where: "distinct (map g rows) \<Longrightarrow> distinct (map g (delete_where p rows))"
  by (simp add: delete_where_def distinct_map_filter)

lemma update_where_none: "(\<And>r. r \<in> set rows \<Longrightarrow> \<not> p r) \<Longrightarrow> update_where p f rows = rows"
  by (simp add: update_where_def map_idI)

lemma all_update_where:
  assumes "\<forall>r \<in> set rows. P r" and "\<And>r. P r \<Longrightarrow> p r \<Longrightarrow> P (f r)"
  shows "\<forall>r \<in> set (update_where p f rows). P r"
  using assms by (auto simp: in_update_where)

lemma unique_key:
  "distinct (map g rows) \<Longrightarrow> r \<in> set rows \<Longrightarrow> r' \<in> set rows \<Longrightarrow> g r = g r' \<Longrightarrow> r = r'"
  by (auto simp: distinct_map dest: inj_onD)

lemma select_by_key:
  assumes "distinct (map g rows)" and "r \<in> set rows"
  shows "select_one (\<lambda>r'. g r' = g r) rows = Some r"
proof -
  have "select_one (\<lambda>r'. g r' = g r) rows \<noteq> None" using assms(2) by (auto simp: select_one_None)
  then obtain r' where "select_one (\<lambda>r'. g r' = g r) rows = Some r'" by blast
  with assms select_one_Some [OF this] show ?thesis by (auto dest: unique_key)
qed

end
