(* ===== verification/Job_Repository.thy ===== *)
theory Job_Repository
  imports Sql_Table Js_Value
begin

text \<open>
  \<open>operations/jobRepository.js\<close>: the durable job table and the statements on it. A row is a record with
  the columns of \<open>operational_jobs\<close>; the clock is an argument of every statement that calls \<open>NOW()\<close>.
  \<open>FOR UPDATE SKIP LOCKED\<close> together with the statement being one step is what makes a claim atomic.
  Ties in the order of due jobs are broken by the position in the table.
\<close>

datatype job_status = Pending | Running | Retry | Completed | Dead

record job =
  job_id :: ident
  job_company :: jsval
  job_kind :: string
  job_key :: string
  job_payload :: jsval
  job_result :: jsval
  job_status :: job_status
  job_attempts :: int
  job_max_attempts :: int
  job_available_at :: millis
  job_locked_at :: "millis option"
  job_locked_by :: "string option"
  job_correlation :: jsval
  job_last_error :: "string option"
  job_created_at :: millis
  job_updated_at :: millis
  job_completed_at :: "millis option"

record job_request =
  rq_company :: jsval
  rq_kind :: string
  rq_key :: string
  rq_payload :: jsval
  rq_max_attempts :: int
  rq_correlation :: jsval

record job_receipt =
  rc_accepted :: bool
  rc_id :: "ident option"
  rc_status :: string

fun status_name :: "job_status \<Rightarrow> string" where
  "status_name Pending = ''pending''"
| "status_name Running = ''running''"
| "status_name Retry = ''retry''"
| "status_name Completed = ''completed''"
| "status_name Dead = ''dead''"

section \<open>Statements\<close>

definition new_job :: "millis \<Rightarrow> ident \<Rightarrow> job_request \<Rightarrow> job" where
  "new_job now i q =
     \<lparr>job_id = i, job_company = jor (rq_company q) JNull, job_kind = rq_kind q, job_key = rq_key q,
      job_payload = jor (rq_payload q) (JObj []), job_result = JNull, job_status = Pending,
      job_attempts = 0, job_max_attempts = rq_max_attempts q, job_available_at = now,
      job_locked_at = None, job_locked_by = None, job_correlation = jor (rq_correlation q) JNull,
      job_last_error = None, job_created_at = now, job_updated_at = now, job_completed_at = None\<rparr>"

text \<open>\<open>INSERT ... ON CONFLICT (idempotency_key) DO UPDATE\<close>, where the update changes nothing and \<open>xmax\<close>
  tells the two cases apart. \<open>i\<close> is the fresh UUID.\<close>

definition enqueue_job ::
  "millis \<Rightarrow> ident \<Rightarrow> job_request \<Rightarrow> job list \<Rightarrow> job_receipt \<times> job list" where
  "enqueue_job now i q jobs =
     (case select_one (\<lambda>j. job_key j = rq_key q) jobs of
        Some j \<Rightarrow> (\<lparr>rc_accepted = False, rc_id = Some (job_id j),
                    rc_status = status_name (job_status j)\<rparr>, jobs)
      | None \<Rightarrow> (\<lparr>rc_accepted = True, rc_id = Some i, rc_status = ''pending''\<rparr>,
                 jobs @ [new_job now i q]))"

definition is_stale :: "millis \<Rightarrow> millis \<Rightarrow> job \<Rightarrow> bool" where
  "is_stale now stale_after j =
     (job_status j = Running \<and>
      (case job_locked_at j of None \<Rightarrow> False | Some t \<Rightarrow> t < now - stale_after))"

definition release_stale :: "millis \<Rightarrow> job \<Rightarrow> job" where
  "release_stale now j =
     j\<lparr>job_status := Retry, job_locked_at := None, job_locked_by := None, job_available_at := now,
       job_updated_at := now,
       job_last_error := Some (case job_last_error j of
         Some e \<Rightarrow> e | None \<Rightarrow> ''worker interrupted before completion'')\<rparr>"

definition recover_stale :: "millis \<Rightarrow> millis \<Rightarrow> job list \<Rightarrow> nat \<times> job list" where
  "recover_stale now stale_after jobs =
     (matching (is_stale now stale_after) jobs,
      update_where (is_stale now stale_after) (release_stale now) jobs)"

definition is_expired :: "millis \<Rightarrow> int \<Rightarrow> job \<Rightarrow> bool" where
  "is_expired now days j =
     (job_status j \<in> {Completed, Dead} \<and>
      (case job_completed_at j of Some t \<Rightarrow> t | None \<Rightarrow> job_updated_at j) < now - days * 86400000)"

definition prune_finished :: "millis \<Rightarrow> int \<Rightarrow> job list \<Rightarrow> nat \<times> job list" where
  "prune_finished now days jobs =
     (matching (is_expired now days) jobs, delete_where (is_expired now days) jobs)"

definition is_due :: "millis \<Rightarrow> job \<Rightarrow> bool" where
  "is_due now j = (job_status j \<in> {Pending, Retry} \<and> job_available_at j \<le> now)"

fun earlier :: "job \<Rightarrow> job \<Rightarrow> bool" where
  "earlier a b = (job_available_at a < job_available_at b \<or>
     job_available_at a = job_available_at b \<and> job_created_at a < job_created_at b)"

fun first_due :: "millis \<Rightarrow> job list \<Rightarrow> job option" where
  "first_due now [] = None"
| "first_due now (j # js) =
     (case first_due now js of
        None \<Rightarrow> if is_due now j then Some j else None
      | Some k \<Rightarrow> if is_due now j \<and> \<not> earlier k j then Some j else Some k)"

definition claimed :: "millis \<Rightarrow> string \<Rightarrow> job \<Rightarrow> job" where
  "claimed now worker j =
     j\<lparr>job_status := Running, job_attempts := job_attempts j + 1, job_locked_at := Some now,
       job_locked_by := Some worker, job_updated_at := now\<rparr>"

definition claim_next :: "millis \<Rightarrow> string \<Rightarrow> job list \<Rightarrow> (job \<times> job list) option" where
  "claim_next now worker jobs =
     (case first_due now jobs of
        None \<Rightarrow> None
      | Some j \<Rightarrow> Some (claimed now worker j,
          update_where (\<lambda>r. job_id r = job_id j) (claimed now worker) jobs))"

definition is_running :: "ident \<Rightarrow> job \<Rightarrow> bool" where
  "is_running i j = (job_id j = i \<and> job_status j = Running)"

definition finished :: "millis \<Rightarrow> jsval \<Rightarrow> job \<Rightarrow> job" where
  "finished now res j =
     j\<lparr>job_status := Completed, job_completed_at := Some now, job_updated_at := now,
       job_locked_at := None, job_locked_by := None, job_last_error := None,
       job_result := jelse res JNull\<rparr>"

definition complete_job :: "millis \<Rightarrow> ident \<Rightarrow> jsval \<Rightarrow> job list \<Rightarrow> job list" where
  "complete_job now i res jobs = update_where (is_running i) (finished now res) jobs"

definition failed :: "millis \<Rightarrow> bool \<Rightarrow> string \<Rightarrow> millis \<Rightarrow> job \<Rightarrow> job" where
  "failed now dead message delay j =
     j\<lparr>job_status := (if dead then Dead else Retry), job_last_error := Some (take 2000 message),
       job_updated_at := now,
       job_available_at := (if dead then job_available_at j else now + delay),
       job_locked_at := None, job_locked_by := None\<rparr>"

text \<open>\<open>job\<close> is the row the worker got when it claimed the job.\<close>

definition is_exhausted :: "job \<Rightarrow> bool" where
  "is_exhausted j = (job_max_attempts j \<le> job_attempts j)"

definition fail_job :: "millis \<Rightarrow> job \<Rightarrow> string \<Rightarrow> millis \<Rightarrow> job list \<Rightarrow> string \<times> job list" where
  "fail_job now j message delay jobs =
     (if is_exhausted j then ''dead'' else ''retry'',
      update_where (is_running (job_id j)) (failed now (is_exhausted j) message delay) jobs)"

definition job_counts :: "job list \<Rightarrow> (string \<times> nat) list" where
  "job_counts jobs =
     map (\<lambda>s. (status_name s, matching (\<lambda>j. job_status j = s) jobs))
       (dedupe (map job_status jobs))"

definition find_for_company :: "ident \<Rightarrow> jsval \<Rightarrow> job list \<Rightarrow> job option" where
  "find_for_company i company jobs =
     select_one (\<lambda>j. job_id j = i \<and> job_company j = company) jobs"

section \<open>Backfill\<close>

text \<open>The columns of a report the backfill reads, the metadata entries among them; an absent entry is
  null. \<open>text_present\<close> is \<open>COALESCE(v, '') <> ''\<close>.\<close>

record report_row =
  rep_id :: ident
  rep_company :: jsval
  rep_type :: jsval
  rep_market :: jsval
  rep_status :: string
  rep_storage_key :: jsval
  rep_dataset :: jsval
  rep_format :: jsval
  rep_audit_bundle :: jsval
  rep_export_document :: jsval
  rep_shipment :: jsval
  rep_document_type :: jsval

definition text_present :: "jsval \<Rightarrow> bool" where
  "text_present v = (v \<noteq> JNull \<and> v \<noteq> JStr [])"

definition report_job_kind :: "report_row \<Rightarrow> string" where
  "report_job_kind r =
     (if text_present (rep_audit_bundle r) then ''audit_bundle''
      else if text_present (rep_export_document r) then ''shipment_export_document''
      else if rep_type r = JStr ''dataset_export'' then ''dataset_export''
      else if rep_type r = JStr ''compliance'' \<and> text_present (rep_market r)
      then ''market_compliance_report''
      else ''manual_report'')"

definition strip_nulls :: "props \<Rightarrow> props" where
  "strip_nulls ps = filter (\<lambda>p. snd p \<noteq> JNull) ps"

definition report_request :: "int \<Rightarrow> report_row \<Rightarrow> job_request" where
  "report_request max_attempts r =
     \<lparr>rq_company = rep_company r, rq_kind = report_job_kind r, rq_key = ''report:'' @ rep_id r,
      rq_payload = JObj (strip_nulls
        [(''type'', JStr (report_job_kind r)), (''reportId'', JStr (rep_id r)),
         (''companyId'', rep_company r), (''datasetType'', rep_dataset r),
         (''fileFormat'', rep_format r), (''auditBundleId'', rep_audit_bundle r),
         (''exportDocumentId'', rep_export_document r), (''shipmentId'', rep_shipment r),
         (''documentType'', rep_document_type r)]),
      rq_max_attempts = max_attempts, rq_correlation = JNull\<rparr>"

definition report_selected :: "report_row \<Rightarrow> bool" where
  "report_selected r = (rep_status r = ''processing'' \<and> \<not> text_present (rep_storage_key r))"

text \<open>\<open>INSERT ... SELECT ... ON CONFLICT DO NOTHING\<close>: each row gets a fresh id from the supply \<open>ids\<close>.\<close>

fun backfill :: "millis \<Rightarrow> (ident \<times> job_request) list \<Rightarrow> job list \<Rightarrow> nat \<times> job list" where
  "backfill now [] jobs = (0, jobs)"
| "backfill now ((i, q) # qs) jobs =
     (let (receipt, jobs1) = enqueue_job now i q jobs; (n, jobs2) = backfill now qs jobs1
      in ((if rc_accepted receipt then Suc n else n), jobs2))"

definition backfill_reports ::
  "millis \<Rightarrow> int \<Rightarrow> ident list \<Rightarrow> report_row list \<Rightarrow> job list \<Rightarrow> nat \<times> job list" where
  "backfill_reports now max_attempts ids reports jobs =
     backfill now (zip ids (map (report_request max_attempts)
       (filter report_selected reports))) jobs"

record evidence_row =
  ev_id :: ident
  ev_company :: jsval
  ev_status :: string
  ev_provider :: string
  ev_storage_key :: string

definition evidence_request :: "int \<Rightarrow> evidence_row \<Rightarrow> job_request" where
  "evidence_request max_attempts e =
     \<lparr>rq_company = ev_company e, rq_kind = ''evidence_process'', rq_key = ''evidence:'' @ ev_id e,
      rq_payload = JObj [(''evidenceId'', JStr (ev_id e)), (''companyId'', ev_company e)],
      rq_max_attempts = max_attempts, rq_correlation = JNull\<rparr>"

definition backfill_evidence ::
  "millis \<Rightarrow> int \<Rightarrow> ident list \<Rightarrow> evidence_row list \<Rightarrow> job list \<Rightarrow> nat \<times> job list" where
  "backfill_evidence now max_attempts ids evidence jobs =
     backfill now (zip ids (map (evidence_request max_attempts)
       (filter (\<lambda>e. ev_status e = ''uploaded'' \<and> ev_provider e = ''local'' \<and> ev_storage_key e \<noteq> [])
         evidence))) jobs"

section \<open>Properties of the statements\<close>

text \<open>What every row satisfies: the lock columns are set exactly while the job runs, the completion
  time exactly when it is completed, and a job that was never claimed has no attempt.\<close>

definition job_ok :: "job \<Rightarrow> bool" where
  "job_ok j =
     ((job_locked_at j \<noteq> None) = (job_status j = Running) \<and>
      (job_locked_by j \<noteq> None) = (job_status j = Running) \<and>
      (job_completed_at j \<noteq> None) = (job_status j = Completed) \<and>
      0 < job_max_attempts j \<and> 0 \<le> job_attempts j \<and>
      (job_status j = Pending) = (job_attempts j = 0))"

definition table_ok :: "job list \<Rightarrow> bool" where
  "table_ok jobs =
     (distinct (map job_id jobs) \<and> distinct (map job_key jobs) \<and> (\<forall>j \<in> set jobs. job_ok j))"

lemma table_ok_update:
  assumes "table_ok jobs"
    and "\<And>j. p j \<Longrightarrow> job_id (f j) = job_id j" "\<And>j. p j \<Longrightarrow> job_key (f j) = job_key j"
    and "\<And>j. p j \<Longrightarrow> job_ok j \<Longrightarrow> job_ok (f j)"
  shows "table_ok (update_where p f jobs)"
  using assms all_update_where [of jobs job_ok p f]
  by (simp add: table_ok_def map_update_where)

lemma enqueue_table_ok:
  assumes "table_ok jobs" and "i \<notin> job_id ` set jobs" and "0 < rq_max_attempts q"
  shows "table_ok (snd (enqueue_job now i q jobs))"
  using assms
  by (auto simp: enqueue_job_def table_ok_def select_one_None new_job_def job_ok_def image_iff
      split: option.splits)

lemma recover_table_ok: "table_ok jobs \<Longrightarrow> table_ok (snd (recover_stale now d jobs))"
  unfolding recover_stale_def snd_conv
  by (rule table_ok_update) (auto simp: release_stale_def job_ok_def is_stale_def)

lemma prune_table_ok: "table_ok jobs \<Longrightarrow> table_ok (snd (prune_finished now d jobs))"
  by (simp add: prune_finished_def table_ok_def distinct_delete_where)

lemma first_due_Some:
  "first_due now jobs = Some j \<Longrightarrow> j \<in> set jobs \<and> is_due now j"
  by (induction now jobs rule: first_due.induct) (auto split: option.splits if_splits)

lemma first_due_None: "first_due now jobs = None \<longleftrightarrow> (\<forall>j \<in> set jobs. \<not> is_due now j)"
  by (induction now jobs rule: first_due.induct) (auto split: option.splits)

lemma earlier_irrefl [simp]: "\<not> earlier a a"
  by simp

lemma earlier_asym: "earlier a b \<Longrightarrow> \<not> earlier b a"
  by auto

lemma earlier_between: "earlier c a \<Longrightarrow> earlier b a \<or> earlier c b"
  by auto

lemma first_due_least:
  "first_due now jobs = Some j \<Longrightarrow> k \<in> set jobs \<Longrightarrow> is_due now k \<Longrightarrow> \<not> earlier k j"
proof (induction now jobs arbitrary: j rule: first_due.induct)
  case (2 now j0 js)
  then show ?case
    by (cases "first_due now js")
       (auto simp: first_due_None split: if_splits simp del: earlier.simps
         dest: earlier_asym earlier_between first_due_None [THEN iffD1])
qed simp

lemma claim_elim:
  assumes "claim_next now worker jobs = Some (j, jobs')"
  obtains j0 where "j0 \<in> set jobs" "is_due now j0" "j = claimed now worker j0"
    "jobs' = update_where (\<lambda>r. job_id r = job_id j0) (claimed now worker) jobs"
  using assms first_due_Some by (auto simp: claim_next_def split: option.splits)

lemma claim_table_ok:
  assumes "table_ok jobs" and "claim_next now worker jobs = Some (j, jobs')"
  shows "table_ok jobs'"
proof -
  from assms(2) obtain j0 where j0: "j0 \<in> set jobs" "is_due now j0"
    and jobs': "jobs' = update_where (\<lambda>r. job_id r = job_id j0) (claimed now worker) jobs"
    by (rule claim_elim)
  have only: "r = j0" if "r \<in> set jobs" "job_id r = job_id j0" for r
    using assms(1) that j0(1) by (auto simp: table_ok_def dest: unique_key)
  have "jobs' = update_where (\<lambda>r. r = j0) (claimed now worker) jobs"
    unfolding jobs' update_where_def using only by (auto intro!: map_cong)
  also have "table_ok \<dots>"
    using assms(1) by (rule table_ok_update)
      (use j0(2) in \<open>auto simp: claimed_def job_ok_def is_due_def\<close>)
  finally show ?thesis .
qed

lemma complete_table_ok: "table_ok jobs \<Longrightarrow> table_ok (complete_job now i res jobs)"
  unfolding complete_job_def
  by (rule table_ok_update) (auto simp: finished_def job_ok_def is_running_def)

lemma fail_table_ok: "table_ok jobs \<Longrightarrow> table_ok (snd (fail_job now j m d jobs))"
  unfolding fail_job_def snd_conv
  by (rule table_ok_update) (auto simp: failed_def job_ok_def is_running_def)

end
