(* ===== verification/Job_Queue.thy ===== *)
theory Job_Queue
  imports Job_Repository
begin

text \<open>
  \<open>modules/reports/jobQueue.js\<close>: the worker process over the job table. The pure parts (task keys,
  receipts, dispatch, back-off) are functions; the dispatch loop is recursion on the free slots; and
  the workers of all processes, with their crashes and the passing of time, form a step relation over
  a world of the table, the clock and the executions in flight.
\<close>

section \<open>The worker\<close>

text \<open>\<open>`evidence:${task.evidenceId}`\<close>\<close>

definition task_key :: "jsval \<Rightarrow> string" where
  "task_key task =
     (if jget task ''type'' = JStr ''evidence_process''
      then ''evidence:'' @ to_str (jget task ''evidenceId'')
      else ''report:'' @ to_str (jget task ''reportId''))"

text \<open>A report row with its parsed metadata. The function has no caller in the repository.\<close>

definition row_to_task :: "report_row \<Rightarrow> jsval" where
  "row_to_task r =
     (let ids = [(''reportId'', JStr (rep_id r)), (''companyId'', rep_company r)] in
      if truthy (rep_audit_bundle r)
      then JObj (((''type'', JStr ''audit_bundle'') # ids) @ [(''auditBundleId'', rep_audit_bundle r)])
      else if rep_type r = JStr ''dataset_export''
      then JObj (((''type'', JStr ''dataset_export'') # ids)
             @ [(''datasetType'', rep_dataset r), (''fileFormat'', rep_format r)])
      else if rep_type r = JStr ''compliance'' \<and> truthy (rep_market r)
      then JObj ((''type'', JStr ''market_compliance_report'') # ids)
      else JObj ((''type'', JStr ''manual_report'') # ids))"

definition task_rejected :: "jsval \<Rightarrow> bool" where
  "task_rejected task =
     (\<not> truthy (jget task ''type'') \<or>
      \<not> truthy (jget task ''idempotencyKey'') \<and> \<not> truthy (jget task ''reportId'')
      \<and> \<not> truthy (jget task ''evidenceId''))"

definition task_request :: "jnum \<Rightarrow> jsval \<Rightarrow> jsval \<Rightarrow> job_request" where
  "task_request max_attempts correlation task =
     \<lparr>rq_company = jget task ''companyId'', rq_kind = to_str (jget task ''type''),
      rq_key = (if truthy (jget task ''idempotencyKey'') then to_str (jget task ''idempotencyKey'')
                else task_key task),
      rq_payload = task,
      rq_max_attempts = (case to_num (jor (jget task ''maxAttempts'') (JNum max_attempts)) of
        Fin r \<Rightarrow> \<lfloor>r\<rfloor> | _ \<Rightarrow> 0),
      rq_correlation = jor (jget task ''correlationId'') correlation\<rparr>"

definition enqueue_with_receipt ::
  "jnum \<Rightarrow> jsval \<Rightarrow> millis \<Rightarrow> ident \<Rightarrow> jsval \<Rightarrow> job list \<Rightarrow> job_receipt \<times> job list" where
  "enqueue_with_receipt max_attempts correlation now i task jobs =
     (if task_rejected task
      then (\<lparr>rc_accepted = False, rc_id = None, rc_status = ''rejected''\<rparr>, jobs)
      else enqueue_job now i (task_request max_attempts correlation task) jobs)"

text \<open>\<open>retryBaseMs * 2 ** Math.max(0, attempts - 1)\<close>\<close>

definition retry_delay :: "millis \<Rightarrow> job \<Rightarrow> millis" where
  "retry_delay base j = base * 2 ^ nat (max 0 (job_attempts j - 1))"

text \<open>The handler a task is given to, with its arguments.\<close>

datatype handler_call =
    Generate_Export jsval jsval jsval jsval
  | Compliance_Report jsval jsval
  | Export_Document jsval jsval jsval
  | Audit_Bundle jsval jsval jsval
  | Process_Evidence jsval
  | Bulk_Import jsval jsval jsval jsval
  | Manual_Report jsval jsval

definition run_task :: "jsval \<Rightarrow> js_error + handler_call" where
  "run_task task =
     (let t = jget task ''type''; get = jget task in
      if t = JStr ''dataset_export''
      then Inr (Generate_Export (get ''reportId'') (get ''companyId'') (get ''datasetType'')
                  (get ''fileFormat''))
      else if t = JStr ''market_compliance_report''
      then Inr (Compliance_Report (get ''reportId'') (get ''companyId''))
      else if t = JStr ''shipment_export_document''
      then Inr (Export_Document (get ''reportId'') (get ''exportDocumentId'') (get ''companyId''))
      else if t = JStr ''audit_bundle''
      then Inr (Audit_Bundle (get ''reportId'') (get ''auditBundleId'') (get ''companyId''))
      else if t = JStr ''evidence_process'' then Inr (Process_Evidence task)
      else if t = JStr ''products_bulk_import''
      then Inr (Bulk_Import (get ''companyId'') (get ''userId'') (get ''rows'') (get ''saveMode''))
      else if t = JStr ''manual_report''
      then Inr (Manual_Report (get ''reportId'') (get ''companyId''))
      else Inl (Plain_Error (''Unsupported operational job type: '' @ to_str t)))"

text \<open>\<open>_execute\<close>: \<open>call\<close> runs a handler and gives its result or the message it threw. The flag says that
  the export document of a dead job is marked as failed.\<close>

definition execute_job ::
  "(handler_call \<Rightarrow> string + jsval) \<Rightarrow> millis \<Rightarrow> millis \<Rightarrow> job \<Rightarrow> job list \<Rightarrow> bool \<times> job list" where
  "execute_job call base now j jobs =
     (let outcome = (case run_task (job_payload j) of
            Inl (Plain_Error m) \<Rightarrow> Inl m | Inl (Type_Error m) \<Rightarrow> Inl m | Inr h \<Rightarrow> call h)
      in case outcome of
           Inr res \<Rightarrow> (False, complete_job now (job_id j) res jobs)
         | Inl message \<Rightarrow>
             (let (status, jobs') = fail_job now j message (retry_delay base j) jobs
              in (status = ''dead''
                  \<and> jget (job_payload j) ''type'' = JStr ''shipment_export_document'', jobs')))"

text \<open>The loop of \<open>_tick\<close>: claim jobs while there is a free slot. The source awaits the database between two
  claims; a pass here is without interruption, at one time and with the slots that are free when it starts. The
  single claims, interleaved with every other step of every worker, are the steps of \<open>Job_Lifecycle\<close>.\<close>

fun tick :: "millis \<Rightarrow> string \<Rightarrow> nat \<Rightarrow> job list \<Rightarrow> job list \<times> job list" where
  "tick now worker 0 jobs = ([], jobs)"
| "tick now worker (Suc slots) jobs =
     (case claim_next now worker jobs of
        None \<Rightarrow> ([], jobs)
      | Some (j, jobs') \<Rightarrow> (let (js, jobs'') = tick now worker slots jobs' in (j # js, jobs'')))"

text \<open>\<open>initialize\<close>: recover, prune, then the two backfills.\<close>

definition initialize_queue ::
  "millis \<Rightarrow> millis \<Rightarrow> int \<Rightarrow> int \<Rightarrow> ident list \<Rightarrow> report_row list \<Rightarrow> ident list \<Rightarrow> evidence_row list \<Rightarrow>
   job list \<Rightarrow> job list" where
  "initialize_queue now stale_after retention max_attempts ids reports ids' evidence jobs =
     (let jobs1 = snd (recover_stale now stale_after jobs);
          jobs2 = snd (prune_finished now retention jobs1);
          jobs3 = snd (backfill_reports now max_attempts ids reports jobs2)
      in snd (backfill_evidence now max_attempts ids' evidence jobs3))"

section \<open>A source of work\<close>

text \<open>
  What the dispatch loop relies on: a claim takes one of the ready jobs and leaves the others ready,
  and there is none exactly when nothing is ready.
\<close>

locale work_source =
  fixes claim :: "'s \<Rightarrow> ('j \<times> 's) option"
    and ready :: "'s \<Rightarrow> 'k set"
    and key_of :: "'j \<Rightarrow> 'k"
    and valid :: "'s \<Rightarrow> bool"
  assumes claim_none: "valid s \<Longrightarrow> claim s = None \<longleftrightarrow> ready s = {}"
    and claim_some: "valid s \<Longrightarrow> claim s = Some (j, s') \<Longrightarrow>
      valid s' \<and> key_of j \<in> ready s \<and> ready s' = ready s - {key_of j}"
    and ready_finite: "valid s \<Longrightarrow> finite (ready s)"
begin

fun drain :: "nat \<Rightarrow> 's \<Rightarrow> 'j list \<times> 's" where
  "drain 0 s = ([], s)"
| "drain (Suc n) s =
     (case claim s of None \<Rightarrow> ([], s) | Some (j, s') \<Rightarrow> (let (js, s'') = drain n s' in (j # js, s'')))"

lemma drain_claims:
  assumes "valid s" and "drain n s = (js, s')"
  shows "valid s' \<and> distinct (map key_of js) \<and> set (map key_of js) \<subseteq> ready s
    \<and> ready s' = ready s - set (map key_of js) \<and> length js = min n (card (ready s))"
  using assms
proof (induction n arbitrary: s js s')
  case (Suc n)
  show ?case
  proof (cases "claim s")
    case None
    with Suc.prems claim_none show ?thesis by auto
  next
    case (Some p)
    then obtain j s1 where j: "claim s = Some (j, s1)" by (cases p) simp
    obtain js1 s2 where "drain n s1 = (js1, s2)" by fastforce
    with Suc.prems(2) j have rest: "drain n s1 = (js1, s')" and js: "js = j # js1" by simp_all
    from claim_some [OF Suc.prems(1) j]
    have s1: "valid s1" "key_of j \<in> ready s" "ready s1 = ready s - {key_of j}" by blast+
    from Suc.IH [OF s1(1) rest]
    have IH: "valid s'" "distinct (map key_of js1)" "set (map key_of js1) \<subseteq> ready s1"
      "ready s' = ready s1 - set (map key_of js1)" "length js1 = min n (card (ready s1))" by blast+
    have "card (ready s) = Suc (card (ready s1))"
      unfolding s1(3) using s1(2) ready_finite [OF Suc.prems(1)] by (metis card_Suc_Diff1)
    with IH(5) have count: "length js = min (Suc n) (card (ready s))" by (simp add: js)
    have "key_of j \<notin> set (map key_of js1)" using IH(3) s1(3) by blast
    with IH(2) have "distinct (map key_of js)" by (simp add: js)
    moreover have "set (map key_of js) \<subseteq> ready s"
      using IH(3) s1(2,3) by (simp only: js list.map list.set) blast
    moreover have "ready s' = ready s - set (map key_of js)"
      using IH(4) s1(3) by (simp only: js list.map list.set) blast
    ultimately show ?thesis using IH(1) count by blast
  qed
qed auto

end

definition ready_ids :: "millis \<Rightarrow> job list \<Rightarrow> ident set" where
  "ready_ids now jobs = job_id ` {j \<in> set jobs. is_due now j}"

lemma ready_after_claim:
  assumes "table_ok jobs" and "claim_next now worker jobs = Some (j, jobs')"
  shows "job_id j \<in> ready_ids now jobs \<and> ready_ids now jobs' = ready_ids now jobs - {job_id j}"
proof -
  from assms(2) obtain j0 where j0: "j0 \<in> set jobs" "is_due now j0" "j = claimed now worker j0"
    and jobs': "jobs' = update_where (\<lambda>r. job_id r = job_id j0) (claimed now worker) jobs"
    by (rule claim_elim)
  then show ?thesis
    by (auto simp: ready_ids_def in_update_where claimed_def is_due_def image_iff)
qed

interpretation jobs: work_source "claim_next now worker" "ready_ids now" job_id table_ok
  for now worker
proof unfold_locales
  fix jobs assume "table_ok jobs"
  show "claim_next now worker jobs = None \<longleftrightarrow> ready_ids now jobs = {}"
    using first_due_None [of now jobs]
    by (auto simp: claim_next_def ready_ids_def split: option.splits)
  show "finite (ready_ids now jobs)" by (simp add: ready_ids_def)
next
  fix jobs j jobs' assume "table_ok jobs" and "claim_next now worker jobs = Some (j, jobs')"
  then show "table_ok jobs' \<and> job_id j \<in> ready_ids now jobs
      \<and> ready_ids now jobs' = ready_ids now jobs - {job_id j}"
    by (metis claim_table_ok ready_after_claim)
qed

lemma tick_drain: "tick now worker n jobs = jobs.drain now worker n jobs"
  by (induction now worker n jobs rule: tick.induct) (auto split: option.splits)

section \<open>Workers, crashes and time\<close>

record world =
  w_now :: millis
  w_jobs :: "job list"
  w_running :: "(string \<times> job) list"

datatype event =
    Enqueue ident job_request
  | Pass millis
  | Claim string
  | Complete string job jsval
  | Fail string job string millis
  | Crash string job
  | Recover millis
  | Prune int

definition initial_world :: "millis \<Rightarrow> world" where
  "initial_world t = \<lparr>w_now = t, w_jobs = [], w_running = []\<rparr>"

text \<open>
  One statement of some process, or the passing of time. A worker completes or fails what it has
  claimed; a crash forgets the execution and leaves the row as it is.
\<close>

inductive job_step :: "world \<Rightarrow> event \<Rightarrow> world \<Rightarrow> bool" where
  enqueue: "i \<notin> job_id ` set (w_jobs w) \<Longrightarrow> 0 < rq_max_attempts q \<Longrightarrow>
    job_step w (Enqueue i q) (w\<lparr>w_jobs := snd (enqueue_job (w_now w) i q (w_jobs w))\<rparr>)"
| pass: "0 \<le> d \<Longrightarrow> job_step w (Pass d) (w\<lparr>w_now := w_now w + d\<rparr>)"
| claim: "claim_next (w_now w) a (w_jobs w) = Some (j, jobs') \<Longrightarrow>
    job_step w (Claim a) (w\<lparr>w_jobs := jobs', w_running := (a, j) # w_running w\<rparr>)"
| complete: "(a, j) \<in> set (w_running w) \<Longrightarrow>
    job_step w (Complete a j res)
      (w\<lparr>w_jobs := complete_job (w_now w) (job_id j) res (w_jobs w),
         w_running := removeAll (a, j) (w_running w)\<rparr>)"
| fail: "(a, j) \<in> set (w_running w) \<Longrightarrow> 0 \<le> d \<Longrightarrow>
    job_step w (Fail a j m d)
      (w\<lparr>w_jobs := snd (fail_job (w_now w) j m d (w_jobs w)),
         w_running := removeAll (a, j) (w_running w)\<rparr>)"
| crash: "(a, j) \<in> set (w_running w) \<Longrightarrow>
    job_step w (Crash a j) (w\<lparr>w_running := removeAll (a, j) (w_running w)\<rparr>)"
| recover: "0 < d \<Longrightarrow>
    job_step w (Recover d) (w\<lparr>w_jobs := snd (recover_stale (w_now w) d (w_jobs w))\<rparr>)"
| prune: "0 < d \<Longrightarrow>
    job_step w (Prune d) (w\<lparr>w_jobs := snd (prune_finished (w_now w) d (w_jobs w))\<rparr>)"

inductive_cases job_step_elims [elim!]:
  "job_step w (Enqueue i q) w'" "job_step w (Pass d) w'" "job_step w (Claim a) w'"
  "job_step w (Complete a j res) w'" "job_step w (Fail a j m d) w'" "job_step w (Crash a j) w'"
  "job_step w (Recover d) w'" "job_step w (Prune d) w'"

inductive job_run :: "world \<Rightarrow> event list \<Rightarrow> world \<Rightarrow> bool" where
  nothing: "job_run w [] w"
| more: "job_run w es w' \<Longrightarrow> job_step w' e w'' \<Longrightarrow> job_run w (es @ [e]) w''"

lemma step_table_ok: "job_step w e w' \<Longrightarrow> table_ok (w_jobs w) \<Longrightarrow> table_ok (w_jobs w')"
  by (induction rule: job_step.induct)
     (simp_all add: enqueue_table_ok recover_table_ok prune_table_ok complete_table_ok fail_table_ok
       claim_table_ok)

lemma run_table_ok: "job_run w es w' \<Longrightarrow> table_ok (w_jobs w) \<Longrightarrow> table_ok (w_jobs w')"
  by (induction rule: job_run.induct) (auto intro: step_table_ok)

lemma initial_table_ok [simp]: "table_ok (w_jobs (initial_world t))"
  by (simp add: initial_world_def table_ok_def)

subsection \<open>Finished jobs stay as they are\<close>

definition is_terminal :: "job \<Rightarrow> bool" where
  "is_terminal j = (job_status j \<in> {Completed, Dead})"

lemma update_keeps_terminal:
  assumes "j \<in> set jobs" and "is_terminal j" and "\<And>r. p r \<Longrightarrow> \<not> is_terminal r"
  shows "j \<in> set (update_where p f jobs)"
  using assms by (auto simp: in_update_where)

lemma step_keeps_terminal:
  assumes "job_step w e w'" and "table_ok (w_jobs w)" and "j \<in> set (w_jobs w)" and "is_terminal j"
    and "\<And>d. e \<noteq> Prune d"
  shows "j \<in> set (w_jobs w')"
  using assms
proof (induction rule: job_step.induct)
  case (enqueue i w q)
  then show ?case by (auto simp: enqueue_job_def split: option.splits)
next
  case (claim w a k jobs')
  from claim(1) obtain j0 where j0: "j0 \<in> set (w_jobs w)" "is_due (w_now w) j0"
    and jobs': "jobs' = update_where (\<lambda>r. job_id r = job_id j0) (claimed (w_now w) a) (w_jobs w)"
    by (rule claim_elim)
  have "job_id j \<noteq> job_id j0"
  proof
    assume "job_id j = job_id j0"
    with claim(2,3) j0(1) have "j = j0" by (auto simp: table_ok_def dest: unique_key)
    with claim(4) j0(2) show False by (auto simp: is_terminal_def is_due_def)
  qed
  with claim(3) jobs' show ?case by (auto simp: in_update_where)
next
  case (complete a k w res)
  then show ?case
    by (auto simp: complete_job_def is_running_def is_terminal_def intro!: update_keeps_terminal)
next
  case (fail a k w d m)
  then show ?case
    by (auto simp: fail_job_def is_running_def is_terminal_def intro!: update_keeps_terminal)
next
  case (recover d w)
  then show ?case
    by (auto simp: recover_stale_def is_stale_def is_terminal_def intro!: update_keeps_terminal)
qed auto

subsection \<open>Attempts\<close>

text \<open>
  As long as nothing is recovered, an execution in flight holds the current state of its row, a job
  that waits has attempts left, and no job exceeds its limit.
\<close>

definition holds_row :: "job list \<Rightarrow> string \<times> job \<Rightarrow> bool" where
  "holds_row jobs x =
     (\<exists>r \<in> set jobs. job_id r = job_id (snd x) \<and> job_status r = Running \<and>
        job_attempts r = job_attempts (snd x) \<and> job_max_attempts r = job_max_attempts (snd x))"

definition within_limit :: "job \<Rightarrow> bool" where
  "within_limit r =
     (job_attempts r \<le> job_max_attempts r \<and>
      (job_status r \<in> {Pending, Retry} \<longrightarrow> job_attempts r < job_max_attempts r))"

definition attempts_ok :: "world \<Rightarrow> bool" where
  "attempts_ok w =
     ((\<forall>r \<in> set (w_jobs w). within_limit r) \<and>
      distinct (map (job_id \<circ> snd) (w_running w)) \<and>
      (\<forall>x \<in> set (w_running w). holds_row (w_jobs w) x))"

lemma holds_row_update:
  assumes "holds_row jobs x" and "\<And>r. p r \<Longrightarrow> job_id r = job_id (snd x) \<Longrightarrow> job_status r \<noteq> Running"
  shows "holds_row (update_where p f jobs) x"
proof -
  from assms(1) obtain r where "r \<in> set jobs" "job_id r = job_id (snd x)" "job_status r = Running"
    "job_attempts r = job_attempts (snd x)" "job_max_attempts r = job_max_attempts (snd x)"
    by (auto simp: holds_row_def)
  with assms(2) show ?thesis
    unfolding holds_row_def by (blast intro: update_unaffected)
qed

lemma holds_row_delete:
  assumes "holds_row jobs x" and "\<And>r. p r \<Longrightarrow> job_status r \<noteq> Running"
  shows "holds_row (delete_where p jobs) x"
proof -
  from assms(1) obtain r where "r \<in> set jobs" "job_id r = job_id (snd x)" "job_status r = Running"
    "job_attempts r = job_attempts (snd x)" "job_max_attempts r = job_max_attempts (snd x)"
    by (auto simp: holds_row_def)
  with assms(2) [of r] show ?thesis
    unfolding holds_row_def by (intro bexI [of _ r]) auto
qed

text \<open>After the update of one running row, the executions of the other jobs hold their rows.\<close>

lemma others_hold:
  assumes "\<forall>x \<in> set run. holds_row jobs x" and "distinct (map (job_id \<circ> snd) run)" and "y \<in> set run"
  shows "\<forall>x \<in> set (removeAll y run). holds_row (update_where (is_running (job_id (snd y))) f jobs) x"
proof
  fix x assume x: "x \<in> set (removeAll y run)"
  with assms(2,3) have "job_id (snd x) \<noteq> job_id (snd y)"
    using unique_key [of "job_id \<circ> snd" run x y] by auto
  moreover from x assms(1) have "holds_row jobs x" by auto
  ultimately show "holds_row (update_where (is_running (job_id (snd y))) f jobs) x"
    by (intro holds_row_update) (simp_all add: is_running_def)
qed

lemma distinct_removeAll_map: "distinct (map g xs) \<Longrightarrow> distinct (map g (removeAll y xs))"
  by (simp add: removeAll_filter_not_eq distinct_map_filter)

lemma step_attempts_ok:
  assumes "job_step w e w'" and "table_ok (w_jobs w)" and "attempts_ok w" and "\<And>d. e \<noteq> Recover d"
  shows "attempts_ok w'"
  using assms
proof (induction rule: job_step.induct)
  case (enqueue i w q)
  then show ?case
    by (auto simp: attempts_ok_def enqueue_job_def new_job_def within_limit_def holds_row_def
        split: option.splits)
next
  case (claim w a j jobs')
  from claim(1) obtain j0 where j0: "j0 \<in> set (w_jobs w)" "is_due (w_now w) j0" "j = claimed (w_now w) a j0"
    and jobs': "jobs' = update_where (\<lambda>r. job_id r = job_id j0) (claimed (w_now w) a) (w_jobs w)"
    by (rule claim_elim)
  have only: "r = j0" if "r \<in> set (w_jobs w)" "job_id r = job_id j0" for r
    using claim(2) that j0(1) by (auto simp: table_ok_def dest: unique_key)
  have waiting: "job_status j0 \<noteq> Running" using j0(2) by (auto simp: is_due_def)
  have held: "holds_row (w_jobs w) x" if "x \<in> set (w_running w)" for x
    using claim(3) that by (simp add: attempts_ok_def)
  then have other: "job_id (snd x) \<noteq> job_id j0" if "x \<in> set (w_running w)" for x
    using that only waiting unfolding holds_row_def by metis
  then have "job_id j0 \<notin> (job_id \<circ> snd) ` set (w_running w)" by fastforce
  then have "distinct (map (job_id \<circ> snd) ((a, j) # w_running w))"
    using claim(3) j0(3) by (auto simp: attempts_ok_def claimed_def)
  moreover have "holds_row jobs' (a, j)"
    using update_affected [OF j0(1), of "\<lambda>r. job_id r = job_id j0" "claimed (w_now w) a"]
    unfolding holds_row_def jobs' by (rule bexI [rotated]) (simp_all add: j0(3) claimed_def)
  moreover have "holds_row jobs' x" if "x \<in> set (w_running w)" for x
    unfolding jobs' using held [OF that] by (rule holds_row_update)
      (use other [OF that] in simp)
  moreover have "within_limit r" if "r \<in> set jobs'" for r
  proof -
    from that obtain r0 where r0: "r0 \<in> set (w_jobs w)"
      "r = (if job_id r0 = job_id j0 then claimed (w_now w) a r0 else r0)"
      unfolding jobs' by (auto simp: in_update_where)
    with claim(3) only [of r0] j0(2) show ?thesis
      by (auto simp: attempts_ok_def within_limit_def claimed_def is_due_def)
  qed
  ultimately show ?case by (simp add: attempts_ok_def)
next
  case (complete a j w res)
  then show ?case
    using others_hold [of "w_running w" "w_jobs w" "(a, j)"]
    by (auto simp: attempts_ok_def complete_job_def distinct_removeAll_map in_update_where
        within_limit_def finished_def)
next
  case (fail a j w d m)
  have "within_limit r" if "r \<in> set (snd (fail_job (w_now w) j m d (w_jobs w)))" for r
  proof -
    from that obtain r0 where r0: "r0 \<in> set (w_jobs w)" "within_limit r0"
      "r = (if is_running (job_id j) r0 then failed (w_now w) (is_exhausted j) m d r0 else r0)"
      using fail(4) by (auto simp: fail_job_def in_update_where attempts_ok_def)
    have "holds_row (w_jobs w) (a, j)" using fail(1,4) by (auto simp: attempts_ok_def)
    then obtain r1 where r1: "r1 \<in> set (w_jobs w)" "job_id r1 = job_id j"
      "job_attempts r1 = job_attempts j" "job_max_attempts r1 = job_max_attempts j"
      by (auto simp: holds_row_def)
    have "r0 = r1" if "job_id r0 = job_id j"
      using fail(3) r0(1) r1(1,2) that by (auto simp: table_ok_def dest: unique_key)
    with r0(2,3) r1(3,4) show ?thesis
      by (auto simp: within_limit_def failed_def is_running_def is_exhausted_def)
  qed
  then show ?case
    using fail others_hold [of "w_running w" "w_jobs w" "(a, j)"]
    by (auto simp: attempts_ok_def fail_job_def distinct_removeAll_map)
next
  case (crash a j w)
  then show ?case by (auto simp: attempts_ok_def distinct_removeAll_map)
next
  case (prune d w)
  then show ?case
    by (auto simp: attempts_ok_def prune_finished_def is_expired_def intro: holds_row_delete)
qed (auto simp: attempts_ok_def)

end
