(* ===== verification/Job_Lifecycle.thy ===== *)
theory Job_Lifecycle
  imports Job_Queue
begin

text \<open>
  What the job queue promises: idempotent submission, exclusive claims, the life cycle of a job as an
  automaton that every step refines, the limit on attempts, and the two gaps of the recovery after a
  crash.
\<close>

section \<open>The life cycle as an automaton\<close>

datatype phase = Absent | Waiting | Working | Succeeded | Given_Up

fun phase_of_status :: "job_status \<Rightarrow> phase" where
  "phase_of_status Pending = Waiting"
| "phase_of_status Retry = Waiting"
| "phase_of_status Running = Working"
| "phase_of_status Completed = Succeeded"
| "phase_of_status Dead = Given_Up"

text \<open>The abstraction: the phase of the job with a given idempotency key.\<close>

definition phase :: "job list \<Rightarrow> string \<Rightarrow> phase" where
  "phase jobs k =
     (case select_one (\<lambda>j. job_key j = k) jobs of
        None \<Rightarrow> Absent | Some j \<Rightarrow> phase_of_status (job_status j))"

inductive phase_step :: "phase \<Rightarrow> phase \<Rightarrow> bool" where
  stay: "phase_step p p"
| submit: "phase_step Absent Waiting"
| take: "phase_step Waiting Working"
| succeed: "phase_step Working Succeeded"
| again: "phase_step Working Waiting"
| give_up: "phase_step Working Given_Up"
| clean: "phase_step Succeeded Absent"
| bury: "phase_step Given_Up Absent"

inductive_simps phase_step_from [simp]:
  "phase_step Succeeded p" "phase_step Given_Up p" "phase_step Waiting p" "phase_step Working p"

lemma select_update:
  assumes "\<And>j. p j \<Longrightarrow> job_key (f j) = job_key j"
  shows "select_one (\<lambda>j. job_key j = k) (update_where p f jobs)
    = map_option (\<lambda>j. if p j then f j else j) (select_one (\<lambda>j. job_key j = k) jobs)"
  using assms by (induction jobs) auto

lemma phase_update:
  assumes "\<And>j. p j \<Longrightarrow> job_key (f j) = job_key j"
    and "\<And>j. j \<in> set jobs \<Longrightarrow> p j \<Longrightarrow>
      phase_step (phase_of_status (job_status j)) (phase_of_status (job_status (f j)))"
  shows "phase_step (phase jobs k) (phase (update_where p f jobs) k)"
proof (cases "select_one (\<lambda>j. job_key j = k) jobs")
  case None
  then show ?thesis by (simp add: phase_def select_update [OF assms(1)] phase_step.stay)
next
  case (Some j)
  then have "j \<in> set jobs" by (auto dest: select_one_Some)
  with Some assms(2) show ?thesis
    by (simp add: phase_def select_update [OF assms(1)] phase_step.stay)
qed

lemma select_delete:
  assumes "distinct (map job_key jobs)"
  shows "select_one (\<lambda>j. job_key j = k) (delete_where p jobs)
    = (case select_one (\<lambda>j. job_key j = k) jobs of
         None \<Rightarrow> None | Some j \<Rightarrow> if p j then None else Some j)"
  using assms
proof (induction jobs)
  case (Cons a jobs)
  show ?case
  proof (cases "job_key a = k")
    case True
    with Cons.prems have "k \<notin> job_key ` set jobs" by simp
    then have "\<forall>r \<in> set (delete_where p jobs). job_key r \<noteq> k" by auto
    then have "select_one (\<lambda>j. job_key j = k) (delete_where p jobs) = None"
      by (simp only: select_one_None)
    with True show ?thesis by (simp add: delete_where_def)
  next
    case False
    with Cons show ?thesis by (simp add: delete_where_def)
  qed
qed (simp add: delete_where_def)

lemma phase_step_world:
  assumes "job_step w e w'" and "table_ok (w_jobs w)"
  shows "phase_step (phase (w_jobs w) k) (phase (w_jobs w') k)"
  using assms
proof (induction rule: job_step.induct)
  case (enqueue i w q)
  show ?case
  proof (cases "select_one (\<lambda>j. job_key j = rq_key q) (w_jobs w)")
    case None
    have "select_one P (xs @ [y]) = (case select_one P xs of None \<Rightarrow> if P y then Some y else None | r \<Rightarrow> r)"
      for P xs and y :: job by (induction xs) auto
    with None show ?thesis
      by (auto simp: enqueue_job_def phase_def new_job_def phase_step.intros split: option.splits)
  next
    case (Some j)
    then show ?thesis by (simp add: enqueue_job_def phase_step.stay)
  qed
next
  case (claim w a j jobs')
  from claim(1) obtain j0 where j0: "j0 \<in> set (w_jobs w)" "is_due (w_now w) j0"
    and jobs': "jobs' = update_where (\<lambda>r. job_id r = job_id j0) (claimed (w_now w) a) (w_jobs w)"
    by (rule claim_elim)
  have only: "r = j0" if "r \<in> set (w_jobs w)" "job_id r = job_id j0" for r
    using claim(2) that j0(1) by (auto simp: table_ok_def dest: unique_key)
  have "phase_of_status (job_status r) = Waiting" if "r \<in> set (w_jobs w)" "job_id r = job_id j0" for r
    using only [OF that] j0(2) by (auto simp: is_due_def)
  then show ?case
    unfolding jobs' by simp (rule phase_update, simp_all add: claimed_def)
next
  case (complete a j w res)
  show ?case
    by (simp add: complete_job_def) (rule phase_update, auto simp: finished_def is_running_def)
next
  case (fail a j w d m)
  show ?case
    by (simp add: fail_job_def) (rule phase_update, auto simp: failed_def is_running_def)
next
  case (recover d w)
  show ?case
    by (simp add: recover_stale_def) (rule phase_update, auto simp: release_stale_def is_stale_def)
next
  case (prune d w)
  then have "distinct (map job_key (w_jobs w))" by (simp add: table_ok_def)
  then show ?case
    by (auto simp: prune_finished_def phase_def select_delete is_expired_def phase_step.intros
        split: option.splits)
qed (auto intro: phase_step.stay)

lemma run_attempts_ok:
  assumes "job_run w es w'" and "attempts_ok w" and "table_ok (w_jobs w)"
    and "list_all (\<lambda>e. \<forall>d. e \<noteq> Recover d) es"
  shows "attempts_ok w'"
  using assms
proof (induction rule: job_run.induct)
  case (more w es w' e w'')
  then have "attempts_ok w'" and "\<And>d. e \<noteq> Recover d" by simp_all
  moreover have "table_ok (w_jobs w')" using more.hyps(1) more.prems(2) by (rule run_table_ok)
  ultimately show ?case using more.hyps(2) by (blast intro: step_attempts_ok)
qed

section \<open>Properties\<close>

definition demo_request :: "string \<Rightarrow> job_request" where
  "demo_request k = \<lparr>rq_company = JStr ''c1'', rq_kind = ''dataset_export'', rq_key = k,
     rq_payload = JObj [], rq_max_attempts = 1, rq_correlation = JNull\<rparr>"

definition demo_job :: job where
  "demo_job = new_job 0 ''j1'' (demo_request ''report:1'')"

lemma demo_table [simp]: "table_ok [demo_job]"
  by (simp add: table_ok_def demo_job_def new_job_def demo_request_def job_ok_def)

text \<open>C34: submitting a task again under the same idempotency key stores nothing, is reported as not
  accepted, and returns the id of the job submitted first.\<close>

theorem enqueue_idempotent:
  assumes "table_ok jobs"
  shows "(let (r1, jobs1) = enqueue_job now i q jobs; (r2, jobs2) = enqueue_job now' i' q jobs1
          in jobs2 = jobs1 \<and> \<not> rc_accepted r2 \<and> rc_id r2 = rc_id r1 \<and> rc_status r2 = rc_status r1)"
proof (cases "select_one (\<lambda>j. job_key j = rq_key q) jobs")
  case None
  then have "select_one (\<lambda>j. job_key j = rq_key q) (jobs @ [new_job now i q]) = Some (new_job now i q)"
    by (induction jobs) (auto simp: new_job_def split: if_splits)
  with None show ?thesis by (simp add: enqueue_job_def new_job_def)
qed (simp add: enqueue_job_def)

theorem enqueue_idempotent_witness:
  "snd (enqueue_job 5 ''j2'' (demo_request ''k'') (snd (enqueue_job 3 ''j1'' (demo_request ''k'') [demo_job])))
   = snd (enqueue_job 3 ''j1'' (demo_request ''k'') [demo_job])"
  using enqueue_idempotent [OF demo_table, of 3 "''j1''" "demo_request ''k''" 5 "''j2''"]
  by (simp add: split_beta Let_def)

text \<open>C3: one pass of the dispatch loop with \<open>n\<close> free slots claims distinct jobs that were due, as
  many as there are slots or due jobs, and leaves none of them claimable by another worker.\<close>

theorem tick_claims_exclusively:
  assumes "table_ok jobs" and "tick now worker n jobs = (js, jobs')"
  shows "distinct (map job_id js) \<and> set (map job_id js) \<subseteq> ready_ids now jobs
    \<and> ready_ids now jobs' = ready_ids now jobs - set (map job_id js)
    \<and> length js = min n (card (ready_ids now jobs)) \<and> table_ok jobs'"
  using jobs.drain_claims [OF assms(1), where n = n] assms(2) by (simp add: tick_drain)

theorem tick_claims_exclusively_witness:
  "length (fst (tick 0 ''w'' 2 [demo_job])) = 1"
proof -
  have "is_due 0 demo_job" and "job_id demo_job = ''j1''"
    by (simp_all add: demo_job_def new_job_def is_due_def)
  then have "ready_ids 0 [demo_job] = {''j1''}" by (auto simp: ready_ids_def)
  moreover obtain js jobs' where run: "tick 0 ''w'' 2 [demo_job] = (js, jobs')" by fastforce
  from tick_claims_exclusively [OF demo_table run]
  have "length js = min 2 (card (ready_ids 0 [demo_job]))" by blast
  ultimately show ?thesis using run by simp
qed

text \<open>No due job is overtaken by one that became available later, or at the same time but was
  created later.\<close>

theorem claim_takes_earliest:
  assumes "claim_next now worker jobs = Some (j, jobs')" and "k \<in> set jobs" and "is_due now k"
  shows "job_available_at j \<le> job_available_at k"
proof -
  from assms(1) obtain j0 where "first_due now jobs = Some j0" "j = claimed now worker j0"
    by (auto simp: claim_next_def split: option.splits)
  with first_due_least [OF this(1) assms(2,3)] show ?thesis by (auto simp: claimed_def)
qed

theorem claim_takes_earliest_witness:
  "\<exists>j jobs'. claim_next 0 ''w'' [demo_job] = Some (j, jobs') \<and> job_available_at j \<le> 0"
proof -
  have due: "is_due 0 demo_job" "job_available_at demo_job = 0"
    by (simp_all add: demo_job_def new_job_def is_due_def)
  then obtain j jobs' where "claim_next 0 ''w'' [demo_job] = Some (j, jobs')"
    by (auto simp: claim_next_def)
  with claim_takes_earliest [OF this, of demo_job] due show ?thesis by auto
qed

text \<open>C14: in every run of any number of workers, with crashes and recoveries, the ids and the
  idempotency keys stay unique and every row stays well formed: locked exactly while it runs, with a
  completion time exactly when it is completed.\<close>

theorem job_table_invariant:
  assumes "job_run (initial_world t) es w"
  shows "table_ok (w_jobs w)"
  using assms initial_table_ok by (rule run_table_ok)

lemma demo_run: "job_run (initial_world 0) [Enqueue ''j1'' (demo_request ''report:1'')]
    ((initial_world 0)\<lparr>w_jobs := [demo_job]\<rparr>)"
proof -
  let ?q = "demo_request ''report:1''"
  have "job_step (initial_world 0) (Enqueue ''j1'' ?q)
      ((initial_world 0)\<lparr>w_jobs := snd (enqueue_job (w_now (initial_world 0)) ''j1'' ?q
         (w_jobs (initial_world 0)))\<rparr>)"
    by (rule job_step.enqueue) (simp_all add: initial_world_def demo_request_def)
  then have "job_step (initial_world 0) (Enqueue ''j1'' ?q) ((initial_world 0)\<lparr>w_jobs := [demo_job]\<rparr>)"
    by (simp add: initial_world_def enqueue_job_def demo_job_def)
  with job_run.more [OF job_run.nothing, of "initial_world 0"] show ?thesis by simp
qed

theorem job_table_invariant_witness: "table_ok (w_jobs ((initial_world 0)\<lparr>w_jobs := [demo_job]\<rparr>))"
  by (rule job_table_invariant [OF demo_run])

text \<open>C13: every step of every worker refines the life cycle automaton: absent, waiting, working, and
  from there back to waiting or to one of the two ends, which only the clean-up leaves.\<close>

theorem job_steps_refine_life_cycle:
  assumes "job_step w e w'" and "table_ok (w_jobs w)"
  shows "phase_step (phase (w_jobs w) k) (phase (w_jobs w') k)"
  using assms by (rule phase_step_world)

theorem job_steps_refine_life_cycle_witness:
  "\<exists>w'. job_step ((initial_world 0)\<lparr>w_jobs := [demo_job]\<rparr>) (Claim ''w'') w'
     \<and> phase_step (phase [demo_job] ''report:1'') (phase (w_jobs w') ''report:1'')"
proof -
  let ?w = "(initial_world 0)\<lparr>w_jobs := [demo_job]\<rparr>"
  have "is_due 0 demo_job" by (simp add: demo_job_def new_job_def is_due_def)
  then obtain j jobs' where "claim_next (w_now ?w) ''w'' (w_jobs ?w) = Some (j, jobs')"
    by (auto simp: claim_next_def initial_world_def)
  then have step: "job_step ?w (Claim ''w'') (?w\<lparr>w_jobs := jobs', w_running := (''w'', j) # w_running ?w\<rparr>)"
    by (rule job_step.claim)
  have "phase_step (phase (w_jobs ?w) ''report:1'')
      (phase (w_jobs (?w\<lparr>w_jobs := jobs', w_running := (''w'', j) # w_running ?w\<rparr>)) ''report:1'')"
    by (rule job_steps_refine_life_cycle [OF step]) simp
  then have "phase_step (phase [demo_job] ''report:1'') (phase jobs' ''report:1'')" by simp
  then show ?thesis by (intro exI [where P = "\<lambda>w'. job_step ?w (Claim ''w'') w' \<and> _ w'"] conjI) (rule step, simp)
qed

text \<open>A completed or dead job is never touched again: no step but the clean-up removes its row or
  changes any column of it.\<close>

theorem finished_jobs_are_final:
  assumes "job_step w e w'" and "table_ok (w_jobs w)" and "j \<in> set (w_jobs w)"
    and "job_status j \<in> {Completed, Dead}" and "\<And>d. e \<noteq> Prune d"
  shows "j \<in> set (w_jobs w')"
  by (rule step_keeps_terminal [OF assms(1-3)]) (use assms(4,5) in \<open>simp_all add: is_terminal_def\<close>)

definition finished_demo :: job where
  "finished_demo = demo_job\<lparr>job_status := Completed, job_attempts := 1, job_completed_at := Some 0\<rparr>"

theorem finished_jobs_are_final_witness:
  "finished_demo \<in> set (w_jobs ((initial_world 0)\<lparr>w_jobs := [finished_demo], w_now := 7\<rparr>))"
proof -
  let ?w = "(initial_world 0)\<lparr>w_jobs := [finished_demo]\<rparr>"
  have step: "job_step ?w (Pass 7) (?w\<lparr>w_now := w_now ?w + 7\<rparr>)" by (rule job_step.pass) simp
  have "table_ok (w_jobs ?w)"
    by (simp add: finished_demo_def table_ok_def demo_job_def new_job_def demo_request_def job_ok_def)
  from finished_jobs_are_final [OF step this, of finished_demo] show ?thesis
    by (simp add: finished_demo_def)
qed

text \<open>As long as no job is recovered from a crashed worker, no job is attempted more often than
  its limit allows.\<close>

theorem attempts_within_limit:
  assumes "job_run (initial_world t) es w" and "list_all (\<lambda>e. \<forall>d. e \<noteq> Recover d) es"
  shows "list_all (\<lambda>j. job_attempts j \<le> job_max_attempts j) (w_jobs w)"
proof -
  have "attempts_ok (initial_world t)" by (simp add: attempts_ok_def initial_world_def)
  then have "attempts_ok w" by (rule run_attempts_ok [OF assms(1) _ initial_table_ok assms(2)])
  then show ?thesis by (simp add: attempts_ok_def within_limit_def list_all_iff)
qed

theorem attempts_within_limit_witness:
  "list_all (\<lambda>j. job_attempts j \<le> job_max_attempts j) (w_jobs ((initial_world 0)\<lparr>w_jobs := [demo_job]\<rparr>))"
  by (rule attempts_within_limit [OF demo_run]) simp

text \<open>Recovery ignores the limit. A job whose last permitted attempt was interrupted goes back to
  \<open>retry\<close>, so it is claimed once more, beyond its limit; a job that brings its worker down on every
  attempt is retried forever.\<close>

theorem recovery_exceeds_limit:
  assumes "job_status j = Running" and "job_locked_at j = Some t" and "t < now - d"
    and "job_attempts j = job_max_attempts j"
  shows "\<exists>k jobs'. claim_next now worker (snd (recover_stale now d [j])) = Some (k, jobs')
    \<and> jobs' = [k] \<and> job_id k = job_id j \<and> job_attempts k = job_max_attempts k + 1"
  using assms
  by (simp add: recover_stale_def is_stale_def release_stale_def claim_next_def is_due_def claimed_def)

definition stuck_demo :: job where
  "stuck_demo = demo_job\<lparr>job_status := Running, job_attempts := 1, job_locked_at := Some 0,
     job_locked_by := Some ''a''\<rparr>"

theorem recovery_exceeds_limit_witness:
  "\<exists>k jobs'. claim_next 1000000 ''b'' (snd (recover_stale 1000000 900000 [stuck_demo])) = Some (k, jobs')
     \<and> jobs' = [k] \<and> job_id k = job_id stuck_demo \<and> job_attempts k = job_max_attempts k + 1"
  by (rule recovery_exceeds_limit [where t = 0])
     (simp_all add: stuck_demo_def demo_job_def new_job_def demo_request_def)

text \<open>A slow worker whose job was recovered and claimed by another one still completes it: the
  statement does not compare \<open>locked_by\<close>, so the row the second worker is running becomes completed
  with the first worker's result.\<close>

theorem stale_worker_completes_anothers_job:
  assumes "job_status j = Running" and "job_locked_by j = Some b" and "job_id j = job_id old"
    and "job_locked_by old = Some a" and "a \<noteq> b"
  shows "complete_job now (job_id old) res [j] = [finished now res j]
    \<and> job_status (finished now res j) = Completed \<and> job_result (finished now res j) = jelse res JNull"
  using assms by (simp add: complete_job_def is_running_def finished_def)

theorem stale_worker_completes_anothers_job_witness:
  "complete_job 9 (job_id stuck_demo) (JStr ''stale'') [stuck_demo\<lparr>job_locked_by := Some ''b''\<rparr>]
   = [finished 9 (JStr ''stale'') (stuck_demo\<lparr>job_locked_by := Some ''b''\<rparr>)]"
  using stale_worker_completes_anothers_job
    [of "stuck_demo\<lparr>job_locked_by := Some ''b''\<rparr>" "''b''" stuck_demo "''a''" 9 "JStr ''stale''"]
  by (simp add: stuck_demo_def)

end
