(* ===== verification/Plan_Rules.thy ===== *)
theory Plan_Rules
  imports Js_Value
begin

text \<open>
  \<open>services/subscriptionService/planRules.js\<close> and \<open>helpers.js\<close>: the plans, how a requested plan or a
  legacy plan name is read, the SKU packages, and the small helpers of the subscription service.
  Timestamps that the service reads from the database are milliseconds, null is None.
\<close>

section \<open>Plans\<close>

record plan_details =
  pd_name :: string
  pd_price_monthly :: jnum
  pd_products :: jnum
  pd_members :: jnum
  pd_api_calls :: jnum

definition plan_limits :: "(string \<times> plan_details) list" where
  "plan_limits =
     [(''trial'', \<lparr>pd_name = ''Trial'', pd_price_monthly = Fin 149000, pd_products = Fin 100,
        pd_members = Fin 5, pd_api_calls = Fin 10000\<rparr>),
      (''standard'', \<lparr>pd_name = ''Standard'', pd_price_monthly = Fin 0, pd_products = Fin 20,
        pd_members = Fin 20, pd_api_calls = Fin 100000\<rparr>),
      (''export'', \<lparr>pd_name = ''Export'', pd_price_monthly = Fin 3000000, pd_products = Fin (- 1),
        pd_members = Fin 50, pd_api_calls = Fin (- 1)\<rparr>)]"

record sku_package =
  sp_increment :: int
  sp_name :: string
  sp_price :: int

definition package_20 :: sku_package where
  "package_20 = \<lparr>sp_increment = 20, sp_name = ''Standard +20 SKU'', sp_price = 899000\<rparr>"

definition package_35 :: sku_package where
  "package_35 = \<lparr>sp_increment = 35, sp_name = ''Standard +35 SKU'', sp_price = 1199000\<rparr>"

definition package_50 :: sku_package where
  "package_50 = \<lparr>sp_increment = 50, sp_name = ''Standard +50 SKU'', sp_price = 1499000\<rparr>"

definition plan_rank_table :: "(string \<times> nat) list" where
  "plan_rank_table =
     [(''trial'', 1), (''standard'', 2), (''standard_20'', 2), (''standard_35'', 2), (''standard_50'', 2),
      (''export'', 3)]"

definition standard_plan_ids :: "string list" where
  "standard_plan_ids = [''standard'', ''standard_20'', ''standard_35'', ''standard_50'']"

definition allowed_target_plans :: "string list" where
  "allowed_target_plans =
     [''trial'', ''standard'', ''standard_20'', ''standard_35'', ''standard_50'', ''export'']"

section \<open>Reading a plan\<close>

text \<open>\<open>String(value || '').trim().toLowerCase().replace(/-/g, '_')\<close>\<close>

definition plan_token :: "jsval \<Rightarrow> string" where
  "plan_token v = map (\<lambda>c. if c = CHR ''-'' then CHR ''_'' else c) (lower (trim (str_or_empty v)))"

definition normalize_plan_id :: "jsval \<Rightarrow> string \<Rightarrow> string" where
  "normalize_plan_id v fallback =
     (let n = plan_token v
      in if n = [] then fallback
         else if n = ''trial'' then ''trial''
         else if n = ''export'' then ''export''
         else if n = ''standard'' then ''standard''
         else if str_includes n ''standard_50'' then ''standard''
         else if str_includes n ''standard_35'' then ''standard''
         else if str_includes n ''standard_20'' then ''standard''
         else if str_includes n ''standard50'' then ''standard''
         else if str_includes n ''standard35'' then ''standard''
         else if str_includes n ''standard20'' then ''standard''
         else if str_includes n ''standard'' then ''standard''
         else fallback)"

definition resolve_standard_plan_by_sku_limit :: "jsval \<Rightarrow> string \<Rightarrow> string" where
  "resolve_standard_plan_by_sku_limit v fallback =
     (let n = to_num v
      in if Fin 50 \<le> n then ''standard_50''
         else if Fin 35 \<le> n then ''standard_35''
         else if Fin 20 \<le> n then ''standard_20''
         else fallback)"

definition infer_legacy_standard_sku_limit :: "jsval \<Rightarrow> int \<Rightarrow> int" where
  "infer_legacy_standard_sku_limit v fallback =
     (let n = plan_token v
      in if n = [] then fallback
         else if str_includes n ''standard_50'' \<or> str_includes n ''standard50'' then 50
         else if str_includes n ''standard_35'' \<or> str_includes n ''standard35'' then 35
         else if str_includes n ''standard_20'' \<or> str_includes n ''standard20'' then 20
         else if str_includes n ''standard'' then 20
         else fallback)"

text \<open>\<open>resolveStandardPackage\<close> with its default fallback, the package of 20, which every caller uses.\<close>

definition resolve_standard_package :: "jsval \<Rightarrow> sku_package" where
  "resolve_standard_package v =
     (let n = to_num v
      in if Fin 50 \<le> n then package_50
         else if Fin 35 \<le> n then package_35
         else if Fin 20 \<le> n then package_20
         else package_20)"

definition resolve_requested_target_plan :: "jsval \<Rightarrow> string \<Rightarrow> string" where
  "resolve_requested_target_plan target fallback =
     (let n = plan_token target
      in if n = ''standard'' then ''standard''
         else if str_includes n ''standard'' then ''standard''
         else normalize_plan_id target fallback)"

definition is_standard_plan :: "jsval \<Rightarrow> bool" where
  "is_standard_plan v = (normalize_plan_id v ''trial'' \<in> set standard_plan_ids)"

definition resolve_plan_rank :: "jsval \<Rightarrow> nat" where
  "resolve_plan_rank v =
     (case map_of plan_rank_table (normalize_plan_id v ''trial'') of None \<Rightarrow> 0 | Some r \<Rightarrow> r)"

text \<open>\<open>Math.max(0, Number(options.standardSkuLimit || 0)) || 20\<close>\<close>

definition sku_limit_or_20 :: "jsval \<Rightarrow> jnum" where
  "sku_limit_or_20 v =
     (let n = math_max 0 (to_num (jor v (JNum 0))) in if truthy (JNum n) then n else Fin 20)"

definition plan_entry :: "string \<Rightarrow> plan_details" where
  "plan_entry k =
     (case map_of plan_limits k of Some d \<Rightarrow> d | None \<Rightarrow> the (map_of plan_limits ''trial''))"

definition resolve_plan_details :: "jsval \<Rightarrow> jsval \<Rightarrow> plan_details" where
  "resolve_plan_details v sku_limit =
     (let n = normalize_plan_id v ''trial''
      in if n = ''standard'' then (plan_entry ''standard'')\<lparr>pd_products := sku_limit_or_20 sku_limit\<rparr>
         else plan_entry n)"

section \<open>Helpers\<close>

definition day_ms :: millis where
  "day_ms = 24 * 60 * 60 * 1000"

datatype service_error = Service_Error string nat

text \<open>\<open>Math.max(0, Math.ceil((end - Date.now()) / DAY_MS))\<close>: the quotient of two times in whole
  milliseconds is far enough from an integer for its rounding not to matter.\<close>

definition calc_days_remaining :: "millis \<Rightarrow> millis option \<Rightarrow> int" where
  "calc_days_remaining now to_date =
     (case to_date of None \<Rightarrow> 0 | Some e \<Rightarrow> max 0 (- ((now - e) div day_ms)))"

definition normalize_metadata :: "jsval \<Rightarrow> props" where
  "normalize_metadata v = (case v of JObj ps \<Rightarrow> ps | _ \<Rightarrow> [])"

fun merge_entries :: "props \<Rightarrow> props \<Rightarrow> props" where
  "merge_entries acc [] = acc"
| "merge_entries acc ((k, v) # ps) =
     merge_entries (if v \<noteq> JUndef then alist_put k v acc else acc) ps"

definition merge_metadata :: "jsval \<Rightarrow> jsval \<Rightarrow> props" where
  "merge_metadata existing patch = merge_entries (normalize_metadata existing) (normalize_metadata patch)"

definition to_public_payment_status :: "string \<Rightarrow> string" where
  "to_public_payment_status s =
     (if s = ''success'' then ''paid''
      else if s = ''expired'' then ''expired''
      else if s = ''failed'' \<or> s = ''cancelled'' then ''failed''
      else ''pending'')"

definition is_payment_session_expired :: "millis \<Rightarrow> millis option \<Rightarrow> bool" where
  "is_payment_session_expired now expires = (case expires of None \<Rightarrow> False | Some e \<Rightarrow> e < now)"

section \<open>Properties\<close>

lemma normalize_plan_id_cases:
  "normalize_plan_id v fallback \<in> {''trial'', ''export'', ''standard'', fallback}"
  unfolding normalize_plan_id_def Let_def by simp

lemma normalize_known:
  obtains "normalize_plan_id v ''trial'' = ''trial''" | "normalize_plan_id v ''trial'' = ''export''"
  | "normalize_plan_id v ''trial'' = ''standard''"
  using normalize_plan_id_cases [of v "''trial''"] by blast

lemma normalize_literals [simp]:
  "normalize_plan_id (JStr ''trial'') f = ''trial''" "normalize_plan_id (JStr ''export'') f = ''export''"
  "normalize_plan_id (JStr ''standard'') f = ''standard''"
proof -
  have "plan_token (JStr ''trial'') = ''trial''" "plan_token (JStr ''export'') = ''export''"
    "plan_token (JStr ''standard'') = ''standard''"
    by code_simp+
  then show "normalize_plan_id (JStr ''trial'') f = ''trial''" "normalize_plan_id (JStr ''export'') f = ''export''"
    "normalize_plan_id (JStr ''standard'') f = ''standard''"
    by (simp_all add: normalize_plan_id_def Let_def)
qed

lemma merge_entries_get:
  "distinct (map fst ps) \<Longrightarrow>
   own (merge_entries acc ps) k = (if own ps k = JUndef then own acc k else own ps k)"
proof (induction acc ps rule: merge_entries.induct)
  case (2 acc k' v ps)
  from 2(2) have "map_of ps k' = None" by (simp add: map_of_eq_None_iff)
  then have "own ps k' = JUndef" by (simp add: own_def)
  with 2 show ?case by auto
qed simp

end
