(* ===== verification/Js_Date.thy ===== *)
theory Js_Date
  imports Js_Value
begin

text \<open>
  UTC dates as ECMAScript computes them: days since the epoch, the year, month and day of a day, and
  \<open>Date.UTC\<close> with its carrying of months out of range. Times are whole milliseconds. The proofs are
  about reading back decimal fields and about the bounds of the fields.
\<close>

section \<open>Days\<close>

text \<open>\<open>DayFromYear\<close>\<close>

definition year_days :: "int \<Rightarrow> int" where
  "year_days y = 365 * (y - 1970) + (y - 1969) div 4 - (y - 1901) div 100 + (y - 1601) div 400"

text \<open>\<open>YearFromTime\<close>: the year whose days include \<open>d\<close>, from an estimate that is off by at most one.\<close>

definition year_of_day :: "int \<Rightarrow> int" where
  "year_of_day d =
     (let e = 1970 + (d * 400) div 146097
      in if d < year_days e then e - 1 else if d < year_days (e + 1) then e else e + 1)"

definition month_offset :: "bool \<Rightarrow> nat \<Rightarrow> int" where
  "month_offset leap m =
     [0, 31, 59, 90, 120, 151, 181, 212, 243, 273, 304, 334] ! (m - 1) + (if leap \<and> 2 < m then 1 else 0)"

definition month_of_day :: "bool \<Rightarrow> int \<Rightarrow> nat" where
  "month_of_day leap k = length (filter (\<lambda>m. month_offset leap m \<le> k) [1..<13])"

definition day_of_civil :: "int \<Rightarrow> nat \<Rightarrow> int \<Rightarrow> int" where
  "day_of_civil y m d = year_days y + month_offset (leap_year y) m + d - 1"

definition civil_of_day :: "int \<Rightarrow> int \<times> nat \<times> int" where
  "civil_of_day d =
     (let y = year_of_day d; k = d - year_days y; m = month_of_day (leap_year y) k
      in (y, m, k - month_offset (leap_year y) m + 1))"

text \<open>\<open>Date.UTC(y, month, d, h, mi, s)\<close>, months counted from 0; a year of two digits is in the 1900s.\<close>

definition date_utc :: "int \<Rightarrow> int \<Rightarrow> int \<Rightarrow> int \<Rightarrow> int \<Rightarrow> int \<Rightarrow> millis" where
  "date_utc y month d h mi s =
     (let y' = (if 0 \<le> y \<and> y \<le> 99 then 1900 + y else y);
          day = day_of_civil (y' + month div 12) (nat (month mod 12) + 1) d
      in day * 86400000 + h * 3600000 + mi * 60000 + s * 1000)"

text \<open>\<open>toISOString\<close>, for a year of at most four digits, and the time such a string stands for (None
  where \<open>new Date\<close> would have to read another format).\<close>

definition field :: "nat \<Rightarrow> int \<Rightarrow> string" where
  "field w n = pad_start w (CHR ''0'') (int_str n)"

definition iso_string :: "millis \<Rightarrow> string" where
  "iso_string t =
     (let (y, m, d) = civil_of_day (t div 86400000); ms = t mod 86400000
      in field 4 y @ ''-'' @ field 2 (int m) @ ''-'' @ field 2 d @ ''T'' @ field 2 (ms div 3600000) @ '':''
         @ field 2 (ms div 60000 mod 60) @ '':'' @ field 2 (ms div 1000 mod 60) @ ''.''
         @ field 3 (ms mod 1000) @ ''Z'')"

definition is_iso_shape :: "string \<Rightarrow> bool" where
  "is_iso_shape s = matches_classes
     (replicate 4 is_digit @ [is_dash] @ replicate 2 is_digit @ [is_dash] @ replicate 2 is_digit
      @ [\<lambda>c. c = CHR ''T''] @ replicate 2 is_digit @ [\<lambda>c. c = CHR '':''] @ replicate 2 is_digit
      @ [\<lambda>c. c = CHR '':''] @ replicate 2 is_digit @ [\<lambda>c. c = CHR ''.''] @ replicate 3 is_digit
      @ [\<lambda>c. c = CHR ''Z'']) s"

definition iso_millis :: "string \<Rightarrow> millis option" where
  "iso_millis s =
     (if is_iso_shape s
      then let part = (\<lambda>i j. digits_val (slice i j s))
           in Some (day_of_civil (part 0 4) (nat (part 5 7)) (part 8 10) * 86400000 + part 11 13 * 3600000
                + part 14 16 * 60000 + part 17 19 * 1000 + part 20 23)
      else None)"

section \<open>Bounds\<close>

lemma div_bounds:
  assumes "0 < (c :: int)" shows "c * (a div c) \<le> a" "a < c * (a div c) + c"
proof -
  have "0 \<le> a mod c" "a mod c < c" using assms by simp_all
  with mult_div_mod_eq [of c a] show "c * (a div c) \<le> a" "a < c * (a div c) + c" by linarith+
qed

lemma year_bounds:
  assumes "q1 = (n :: int) div 4" and "q2 = (n + 68) div 100" and "q3 = (n + 368) div 400"
    and "146097 * n \<le> 400 * d"
  shows "365 * (n - 1) + q1 - q2 + q3 \<le> d"
  using div_bounds [of 4 n] div_bounds [of 100 "n + 68"] div_bounds [of 400 "n + 368"] assms(4)
  unfolding assms(1-3) [symmetric] by simp

lemma year_bounds':
  assumes "q1 = (n + 3 :: int) div 4" and "q2 = (n + 71) div 100" and "q3 = (n + 371) div 400"
    and "400 * d < 146097 * n + 146097"
  shows "d < 365 * (n + 2) + q1 - q2 + q3"
  using div_bounds [of 4 "n + 3"] div_bounds [of 100 "n + 71"] div_bounds [of 400 "n + 371"] assms(4)
  unfolding assms(1-3) [symmetric] by simp

lemma year_of_day_bounds: "year_days (year_of_day d) \<le> d" "d < year_days (year_of_day d + 1)"
proof -
  define n where "n = (d * 400) div 146097"
  define e where "e = 1970 + n"
  define r where "r = d * 400 mod 146097"
  have r: "0 \<le> r" "r < 146097" "d * 400 = 146097 * n + r" by (simp_all add: r_def n_def)
  from r have n: "146097 * n \<le> 400 * d" by linarith
  from r have n': "400 * d < 146097 * n + 146097" by linarith
  have "year_days (e - 1) = 365 * (n - 1) + n div 4 - (n + 68) div 100 + (n + 368) div 400"
    by (simp add: year_days_def e_def algebra_simps)
  with year_bounds [OF refl refl refl n] have low: "year_days (e - 1) \<le> d" by simp
  have "year_days (e + 2) = 365 * (n + 2) + (n + 3) div 4 - (n + 71) div 100 + (n + 371) div 400"
    by (simp add: year_days_def e_def algebra_simps)
  with year_bounds' [OF refl refl refl n'] have high: "d < year_days (e + 2)" by simp
  from low high show "year_days (year_of_day d) \<le> d" "d < year_days (year_of_day d + 1)"
    by (simp_all add: year_of_day_def Let_def n_def [symmetric]) (simp_all add: e_def add.commute)
qed

lemma div_step:
  assumes "1 < (n :: int)"
  shows "(a + 1) div n = a div n + (if (a + 1) mod n = 0 then 1 else 0)"
proof -
  have m: "0 \<le> a mod n" "a mod n < n" using assms by simp_all
  have "(a + 1) div n = a div n + (a mod n + 1) div n"
    using assms by (simp add: div_add1_eq [of a 1 n])
  moreover have "(a + 1) mod n = (a mod n + 1) mod n" using assms by (simp add: mod_add_left_eq)
  moreover have "(a mod n + 1) div n = (if (a mod n + 1) mod n = 0 then 1 else 0)"
  proof (cases "a mod n + 1 = n")
    case False
    with m have "a mod n + 1 < n" by simp
    with m have "(a mod n + 1) mod n = a mod n + 1" "(a mod n + 1) div n = 0" "a mod n + 1 \<noteq> 0"
      by (simp_all add: mod_pos_pos_trivial div_pos_pos_trivial del: mod_add_left_eq)
    then show ?thesis by simp
  qed (use assms in simp)
  ultimately show ?thesis by simp
qed

lemma year_length_sum:
  assumes "a' = a + (if A then 1 else 0 :: int)" and "b' = b + (if B then 1 else 0)"
    and "c' = c + (if C then 1 else 0)" and "C \<Longrightarrow> B" and "B \<Longrightarrow> A"
  shows "365 * (y - 1969) + a' - b' + c' - (365 * (y - 1970) + a - b + c)
    = (if A \<and> (\<not> B \<or> C) then 366 else 365)"
  using assms by simp

lemma year_length: "year_days (y + 1) - year_days y = (if leap_year y then 366 else 365)"
proof -
  have shift: "y - 1968 = y + (- 492) * 4" "y - 1900 = y + (- 19) * 100" "y - 1600 = y + (- 4) * 400" by simp_all
  have mods: "(y - 1968) mod 4 = y mod 4" "(y - 1900) mod 100 = y mod 100" "(y - 1600) mod 400 = y mod 400"
    unfolding shift by (rule mod_mult_self1)+
  have ones: "y - 1969 + 1 = y - 1968" "y - 1901 + 1 = y - 1900" "y - 1601 + 1 = y - 1600" by simp_all
  have next_year: "year_days (y + 1) = 365 * (y - 1969) + (y - 1968) div 4 - (y - 1900) div 100 + (y - 1600) div 400"
    unfolding year_days_def by simp
  show ?thesis
    unfolding next_year year_days_def [of y] leap_year_def
  proof (rule year_length_sum)
    show "(y - 1968) div 4 = (y - 1969) div 4 + (if y mod 4 = 0 then 1 else 0)"
      by (rule div_step [of 4 "y - 1969", unfolded ones mods]) simp
    show "(y - 1900) div 100 = (y - 1901) div 100 + (if y mod 100 = 0 then 1 else 0)"
      by (rule div_step [of 100 "y - 1901", unfolded ones mods]) simp
    show "(y - 1600) div 400 = (y - 1601) div 400 + (if y mod 400 = 0 then 1 else 0)"
      by (rule div_step [of 400 "y - 1601", unfolded ones mods]) simp
  qed (simp_all add: mod_eq_0_iff_dvd dvd_trans [of 100 400 y] dvd_trans [of 4 100 y])
qed

lemma month_of_day_bounds:
  assumes "0 \<le> k" and "k < (if leap then 366 else 365)"
  shows "1 \<le> month_of_day leap k" "month_of_day leap k \<le> 12"
    "0 \<le> k - month_offset leap (month_of_day leap k)" "k - month_offset leap (month_of_day leap k) < 31"
  using assms by (auto simp: month_of_day_def month_offset_def upt_rec)

lemma civil_of_day_bounds:
  assumes "civil_of_day d = (y, m, dd)"
  shows "1 \<le> m" "m \<le> 12" "1 \<le> dd" "dd \<le> 31" "day_of_civil y m dd = d"
proof -
  define k where "k = d - year_days (year_of_day d)"
  have y: "y = year_of_day d" and m: "m = month_of_day (leap_year y) k"
    and dd: "dd = k - month_offset (leap_year y) m + 1"
    using assms by (auto simp: civil_of_day_def Let_def k_def)
  have "0 \<le> k" "k < (if leap_year y then 366 else 365)"
    using year_of_day_bounds [of d] year_length [of y] by (auto simp: k_def y split: if_splits)
  from month_of_day_bounds [OF this] m dd
  show "1 \<le> m" "m \<le> 12" "1 \<le> dd" "dd \<le> 31" by simp_all
  show "day_of_civil y m dd = d" by (simp add: day_of_civil_def dd k_def y)
qed

lemma year_days_mono: "x \<le> y \<Longrightarrow> year_days x \<le> year_days y"
proof (induction y rule: int_ge_induct)
  case (step i)
  with year_length [of i] show ?case by (auto split: if_splits)
qed simp

lemma year_of_day_between:
  assumes "year_days a \<le> d" and "d < year_days b"
  shows "a \<le> year_of_day d" "year_of_day d < b"
proof -
  show "a \<le> year_of_day d"
  proof (rule ccontr)
    assume "\<not> a \<le> year_of_day d"
    then have "year_days (year_of_day d + 1) \<le> year_days a" by (intro year_days_mono) simp
    with year_of_day_bounds(2) [of d] assms(1) show False by simp
  qed
  show "year_of_day d < b"
  proof (rule ccontr)
    assume "\<not> year_of_day d < b"
    then have "year_days b \<le> year_days (year_of_day d)" by (intro year_days_mono) simp
    with year_of_day_bounds(1) [of d] assms(2) show False by simp
  qed
qed

section \<open>Decimal fields\<close>

lemma digits_val_snoc [simp]: "digits_val (s @ [c]) = 10 * digits_val s + digit_val c"
  by (simp add: digits_val_def)

lemma digits_val_Nil [simp]: "digits_val [] = 0"
  by (simp add: digits_val_def)

lemma digits_val_append: "digits_val (s @ t) = digits_val s * 10 ^ length t + digits_val t"
  by (induction t rule: rev_induct) (simp_all add: algebra_simps flip: append_assoc)

lemma digit_val_char [simp]: "n < 10 \<Longrightarrow> digit_val (char_of (48 + n)) = int n" "n < 10 \<Longrightarrow> is_digit (char_of (48 + n))"
  by (simp_all add: digit_val_def is_digit_def)

lemma nat_digits_val: "n < f \<Longrightarrow> digits_val (nat_digits f n) = int n \<and> list_all is_digit (nat_digits f n)"
proof (induction f arbitrary: n)
  case (Suc f)
  show ?case
  proof (cases "n < 10")
    case True
    then show ?thesis by (simp add: digits_val_def)
  next
    case False
    with Suc.prems have "n div 10 < f" by simp
    moreover have "10 * int (n div 10) + int (n mod 10) = int n" by presburger
    ultimately show ?thesis using Suc.IH [of "n div 10"] False by simp
  qed
qed simp

lemma nat_str_val [simp]: "digits_val (nat_str n) = int n" "list_all is_digit (nat_str n)"
  by (simp_all add: nat_str_def nat_digits_val del: nat_digits.simps)

lemma nat_str_length:
  assumes "n < 10 ^ k" and "0 < k" shows "length (nat_str n) \<le> k"
proof -
  have len: "n < 10 ^ k \<Longrightarrow> 0 < k \<Longrightarrow> length (nat_digits f n) \<le> k" for f n k
  proof (induction f arbitrary: n k)
    case (Suc f)
    show ?case
    proof (cases "n < 10")
      case True
      with Suc.prems show ?thesis by simp
    next
      case False
      with Suc.prems have "k \<noteq> 1" by auto
      with Suc.prems obtain k' where k: "k = Suc k'" "0 < k'" by (cases k) auto
      with Suc.prems have "n div 10 < 10 ^ k'" by (simp add: less_mult_imp_div_less mult.commute)
      from Suc.IH [OF this k(2)] False k show ?thesis by simp
    qed
  qed simp
  show ?thesis unfolding nat_str_def using assms by (rule len)
qed

lemma digits_val_bound: "list_all is_digit s \<Longrightarrow> digits_val s < 10 ^ length s"
proof (induction s rule: rev_induct)
  case (snoc c s)
  then have "digits_val s + 1 \<le> 10 ^ length s" "digit_val c \<le> 9"
    by (auto simp: digit_val_def is_digit_def)
  then show ?case by simp
qed simp

lemma replicate_zero_digits [simp]:
  "digits_val (replicate k (CHR ''0'')) = 0" "list_all is_digit (replicate k (CHR ''0''))"
  by (induction k) (simp_all add: digits_val_def digit_val_def is_digit_def)

text \<open>\<open>String(n).padStart(w, '0')\<close> of a number of at most \<open>w\<close> digits has \<open>w\<close> digits and reads back.\<close>

lemma padded_field:
  assumes "n < 10 ^ w" and "0 < w"
  shows "length (pad_start w (CHR ''0'') (nat_str n)) = w"
    "digits_val (pad_start w (CHR ''0'') (nat_str n)) = int n"
    "list_all is_digit (pad_start w (CHR ''0'') (nat_str n))"
  using nat_str_length [OF assms] by (simp_all add: pad_start_def digits_val_append)

end
