(* ===== verification/Vnpay.thy ===== *)
theory Vnpay
  imports Plan_Rules Js_Date Js_Json
begin

text \<open>
  \<open>services/subscriptionService/vnpay.js\<close>: the configuration of the payment gateway, the signed query
  strings sent to it and received from it, its timestamps, and the reading of its result codes.
  \<open>process.env\<close> is a property table; HMAC-SHA512 in hexadecimal is a parameter \<open>hmac secret text\<close>; the
  time and the random number of a request are arguments.
\<close>

type_synonym hmac = "string \<Rightarrow> string \<Rightarrow> string"

section \<open>Configuration\<close>

definition strip_slashes :: "string \<Rightarrow> string" where
  "strip_slashes s = rev (dropWhile (\<lambda>c. c = CHR ''/'') (rev s))"

definition get_backend_base_url :: "props \<Rightarrow> string" where
  "get_backend_base_url env = strip_slashes (to_str
     (jor (own env ''AUTH_PUBLIC_BASE_URL'') (jor (own env ''API_BASE_URL'')
       (JStr (''http://localhost:'' @ to_str (jor (own env ''PORT'') (JNum (Fin 4000))))))))"

definition get_vnpay_mode :: "props \<Rightarrow> string" where
  "get_vnpay_mode env = lower (trim (to_str (jor (own env ''VNPAY_MODE'') (JStr ''sandbox''))))"

record vnpay_config =
  vc_mode :: string
  vc_backend :: string
  vc_pay_url :: string
  vc_query_url :: string
  vc_return_url :: string
  vc_ipn_url :: string
  vc_tmn_code :: string
  vc_hash_secret :: string

definition get_vnpay_config :: "props \<Rightarrow> vnpay_config" where
  "get_vnpay_config env =
     (let backend = get_backend_base_url env; setting = (\<lambda>k d. trim (to_str (jor (own env k) (JStr d))))
      in \<lparr>vc_mode = get_vnpay_mode env, vc_backend = backend,
          vc_pay_url = setting ''VNPAY_PAY_URL'' ''https://sandbox.vnpayment.vn/paymentv2/vpcpay.html'',
          vc_query_url = setting ''VNPAY_QUERYDR_URL''
            ''https://sandbox.vnpayment.vn/merchant_webapi/api/transaction'',
          vc_return_url = setting ''VNPAY_RETURN_URL'' (backend @ ''/api/subscription/vnpay/return''),
          vc_ipn_url = setting ''VNPAY_IPN_URL'' (backend @ ''/api/subscription/vnpay/ipn''),
          vc_tmn_code = setting ''VNPAY_TMN_CODE'' [], vc_hash_secret = setting ''VNPAY_HASH_SECRET'' []\<rparr>)"

section \<open>Timestamps\<close>

text \<open>Vietnam time, seven hours ahead of UTC.\<close>

definition two_digits :: "int \<Rightarrow> string" where
  "two_digits n = pad_start 2 (CHR ''0'') (int_str n)"

definition format_vnpay_date :: "millis \<Rightarrow> string" where
  "format_vnpay_date t =
     (let local_time = t + 7 * 60 * 60 * 1000;
          (y, m, d) = civil_of_day (local_time div 86400000);
          ms = local_time mod 86400000
      in int_str y @ two_digits (int m) @ two_digits d @ two_digits (ms div 3600000)
         @ two_digits (ms div 60000 mod 60) @ two_digits (ms div 1000 mod 60))"

text \<open>\<open>/^\d{14}$/\<close>; the fields, being digits only, are read by \<open>digits_val\<close>, which is what \<open>Number\<close> gives.\<close>

definition parse_vnpay_timestamp :: "jsval \<Rightarrow> millis option" where
  "parse_vnpay_timestamp v =
     (let raw = trim (str_or_empty v); part = (\<lambda>i j. digits_val (slice i j raw))
      in if \<not> matches_classes (replicate 14 is_digit) raw then None
         else Some (date_utc (part 0 4) (part 4 6 - 1) (part 6 8) (part 8 10 - 7) (part 10 12) (part 12 14)))"

section \<open>Signed query strings\<close>

definition upper_hex :: "nat \<Rightarrow> char" where
  "upper_hex n = (if n < 10 then char_of (48 + n) else char_of (55 + n))"

definition percent_byte :: "nat \<Rightarrow> string" where
  "percent_byte b = [CHR ''%'', upper_hex (b div 16), upper_hex (b mod 16)]"

definition is_unreserved :: "char \<Rightarrow> bool" where
  "is_unreserved c =
     (is_digit c \<or> is_upper_az c \<or> is_lower_az c \<or> c \<in> set ''-_.!~*()'' \<or> c = CHR 0x27)"

text \<open>\<open>encodeURIComponent\<close>: a character from 128 on is two bytes of UTF-8.\<close>

definition uri_char :: "char \<Rightarrow> string" where
  "uri_char c =
     (if is_unreserved c then [c]
      else if code c < 128 then percent_byte (code c)
      else percent_byte (192 + code c div 64) @ percent_byte (128 + code c mod 64))"

definition uri_encode :: "string \<Rightarrow> string" where
  "uri_encode s = concat (map uri_char s)"

text \<open>\<open>.replace(/%20/g, '+')\<close>\<close>

fun plus_spaces :: "string \<Rightarrow> string" where
  "plus_spaces (a # b # c # s) =
     (if [a, b, c] = ''%20'' then CHR ''+'' # plus_spaces s else a # plus_spaces (b # c # s))"
| "plus_spaces s = s"

definition payload_text :: "jsval \<Rightarrow> string" where
  "payload_text v = (if is_nullish v then [] else to_str v)"

definition build_vnpay_signed_payload :: "props \<Rightarrow> string" where
  "build_vnpay_signed_payload params =
     join ''&'' (map (\<lambda>(k, v). uri_encode k @ ''='' @ plus_spaces (uri_encode (payload_text v)))
       (sort_key fst params))"

definition sign_vnpay_params :: "hmac \<Rightarrow> props \<Rightarrow> string \<Rightarrow> string" where
  "sign_vnpay_params hmac params secret = hmac secret (build_vnpay_signed_payload params)"

definition sign_vnpay_pipe_payload :: "hmac \<Rightarrow> jsval list \<Rightarrow> string \<Rightarrow> string" where
  "sign_vnpay_pipe_payload hmac values secret = hmac secret (join ''|'' (map payload_text values))"

definition create_vnpay_request_id :: "millis \<Rightarrow> nat \<Rightarrow> string" where
  "create_vnpay_request_id now random =
     take 32 (''QDR'' @ int_str now @ pad_start 6 (CHR ''0'') (nat_str random))"

section \<open>Results\<close>

definition vnpay_success_code :: string where
  "vnpay_success_code = ''00''"

definition is_successful_vnpay_result :: "jsval \<Rightarrow> jsval \<Rightarrow> bool" where
  "is_successful_vnpay_result response_code transaction_status =
     (let r = trim (str_or_empty response_code); t = trim (str_or_empty transaction_status)
      in r = vnpay_success_code \<and> (t = [] \<or> t = vnpay_success_code))"

definition is_failed_vnpay_result :: "jsval \<Rightarrow> jsval \<Rightarrow> bool" where
  "is_failed_vnpay_result response_code transaction_status =
     (let r = trim (str_or_empty response_code); t = trim (str_or_empty transaction_status)
      in if r = [] \<and> t = [] then False
         else r \<noteq> [] \<and> r \<noteq> vnpay_success_code \<or> t \<noteq> [] \<and> t \<noteq> vnpay_success_code)"

text \<open>\<open>s.replace(p, '')\<close> for a string \<open>p\<close>: the first occurrence goes.\<close>

fun remove_first :: "string \<Rightarrow> string \<Rightarrow> string" where
  "remove_first p [] = []"
| "remove_first p (c # s) =
     (if starts_with (c # s) p then drop (length p) (c # s) else c # remove_first p s)"

definition client_ip_text :: "string \<Rightarrow> string" where
  "client_ip_text s =
     (let n = trim (hd (split_on (CHR '','') s))
      in if n = [] then ''127.0.0.1'' else if n = ''::1'' then ''127.0.0.1''
         else remove_first ''::ffff:'' n)"

fun extract_client_ip :: "jsval \<Rightarrow> string" where
  "extract_client_ip (JArr []) = ''127.0.0.1''"
| "extract_client_ip (JArr (v # vs)) = extract_client_ip v"
| "extract_client_ip v = (if \<not> truthy v then ''127.0.0.1'' else client_ip_text (to_str v))"

section \<open>Requests and answers\<close>

definition num_or_zero :: "jsval \<Rightarrow> jnum" where
  "num_or_zero v = (let n = to_num (jor v (JNum 0)) in if truthy (JNum n) then n else 0)"

record payment_url =
  pu_url :: string
  pu_create :: string
  pu_expire :: string
  pu_bank :: string
  pu_order :: string
  pu_amount :: jnum
  pu_ref :: string

definition payment_params :: "vnpay_config \<Rightarrow> millis \<Rightarrow> jsval \<Rightarrow> props" where
  "payment_params config now options =
     [(''vnp_Version'', JStr ''2.1.0''), (''vnp_Command'', JStr ''pay''),
      (''vnp_TmnCode'', JStr (vc_tmn_code config)), (''vnp_Locale'', JStr ''vn''),
      (''vnp_CurrCode'', JStr ''VND''), (''vnp_TxnRef'', jget options ''transactionRef''),
      (''vnp_OrderInfo'', jget options ''orderInfo''), (''vnp_OrderType'', JStr ''other''),
      (''vnp_Amount'', JNum (math_round (to_num (jget options ''amount'') * Fin 100))),
      (''vnp_ReturnUrl'', JStr (vc_return_url config)),
      (''vnp_IpAddr'', JStr (extract_client_ip (jget options ''ipAddr''))),
      (''vnp_CreateDate'', JStr (format_vnpay_date now)),
      (''vnp_ExpireDate'', JStr (format_vnpay_date (now + 15 * 60 * 1000)))]
     @ (if truthy (jget options ''bankCode'')
        then [(''vnp_BankCode'', JStr (trim (to_str (jget options ''bankCode''))))] else [])"

definition build_vnpay_payment_url ::
  "hmac \<Rightarrow> props \<Rightarrow> millis \<Rightarrow> jsval \<Rightarrow> service_error + payment_url" where
  "build_vnpay_payment_url hmac env now options =
     (let config = get_vnpay_config env
      in if vc_tmn_code config = [] \<or> vc_hash_secret config = []
         then Inl (Service_Error ''PAYMENT_CONFIG_MISSING'' 500)
         else let params = payment_params config now options;
                  query = build_vnpay_signed_payload params @ ''&vnp_SecureHash=''
                    @ sign_vnpay_params hmac params (vc_hash_secret config)
              in Inr \<lparr>pu_url = vc_pay_url config @ ''?'' @ query, pu_create = format_vnpay_date now,
                   pu_expire = format_vnpay_date (now + 15 * 60 * 1000),
                   pu_bank = (if truthy (jget options ''bankCode'')
                     then trim (to_str (jget options ''bankCode'')) else []),
                   pu_order = str_or_empty (jget options ''orderInfo''),
                   pu_amount = math_round (to_num (jor (JNum (to_num (jget options ''amount''))) (JNum 0))),
                   pu_ref = str_or_empty (jget options ''transactionRef'')\<rparr>)"

record vnpay_return =
  vr_valid :: bool
  vr_response_code :: string
  vr_transaction_status :: string
  vr_transaction_ref :: string
  vr_amount :: jnum
  vr_transaction_no :: string
  vr_bank_code :: string
  vr_card_type :: string
  vr_pay_date :: string
  vr_order_info :: string
  vr_raw_payload :: props
  vr_hash_type :: string

definition return_fields :: "bool \<Rightarrow> props \<Rightarrow> props \<Rightarrow> string \<Rightarrow> vnpay_return" where
  "return_fields valid source raw hash_type =
     (let text = (\<lambda>k. str_or_empty (own source k))
      in \<lparr>vr_valid = valid, vr_response_code = text ''vnp_ResponseCode'',
          vr_transaction_status = text ''vnp_TransactionStatus'', vr_transaction_ref = text ''vnp_TxnRef'',
          vr_amount = num_or_zero (own source ''vnp_Amount''), vr_transaction_no = text ''vnp_TransactionNo'',
          vr_bank_code = text ''vnp_BankCode'', vr_card_type = text ''vnp_CardType'',
          vr_pay_date = text ''vnp_PayDate'', vr_order_info = text ''vnp_OrderInfo'',
          vr_raw_payload = raw, vr_hash_type = hash_type\<rparr>)"

definition query_value :: "jsval \<Rightarrow> jsval" where
  "query_value v =
     (case v of JStr s \<Rightarrow> JStr s | JArr vs \<Rightarrow> (case vs of [] \<Rightarrow> JUndef | w # ws \<Rightarrow> w)
      | _ \<Rightarrow> JStr (str_or_empty v))"

definition signed_part :: "props \<Rightarrow> props" where
  "signed_part query =
     map (apsnd query_value)
       (filter (\<lambda>p. fst p \<noteq> ''vnp_SecureHash'' \<and> fst p \<noteq> ''vnp_SecureHashType'') query)"

definition verify_vnpay_return_query :: "hmac \<Rightarrow> props \<Rightarrow> props \<Rightarrow> vnpay_return" where
  "verify_vnpay_return_query hmac env query =
     (let secret = vc_hash_secret (get_vnpay_config env);
          secure_hash = trim (str_or_empty (own query ''vnp_SecureHash''));
          hash_type = trim (str_or_empty (own query ''vnp_SecureHashType''))
      in if secure_hash = [] \<or> secret = [] then return_fields False query [] hash_type
         else let payload = signed_part query
              in return_fields (lower (sign_vnpay_params hmac payload secret) = lower secure_hash)
                   payload payload hash_type)"

definition query_request_values :: "props \<Rightarrow> jsval list" where
  "query_request_values r =
     map (own r) [''vnp_RequestId'', ''vnp_Version'', ''vnp_Command'', ''vnp_TmnCode'', ''vnp_TxnRef'',
       ''vnp_TransactionDate'', ''vnp_CreateDate'', ''vnp_IpAddr'', ''vnp_OrderInfo'']"

definition build_vnpay_query_request ::
  "hmac \<Rightarrow> props \<Rightarrow> millis \<Rightarrow> nat \<Rightarrow> jsval \<Rightarrow> jsval \<Rightarrow> service_error + props" where
  "build_vnpay_query_request hmac env now random session options =
     (let config = get_vnpay_config env;
          metadata = normalize_metadata (jget session ''metadata'');
          transaction_date = trim (str_or_empty (own metadata ''vnpay_payment_create_date''))
      in if vc_tmn_code config = [] \<or> vc_hash_secret config = []
         then Inl (Service_Error ''PAYMENT_CONFIG_MISSING'' 500)
         else if transaction_date = [] then Inl (Service_Error ''VNPAY_QUERYDR_MISSING_CREATE_DATE'' 400)
         else let order_info = to_str (jor (own metadata ''vnpay_order_info'') (jor (own metadata ''order_info'')
                    (JStr (''Thanh toan goi '' @ to_str (jget session ''target_plan'')))));
                  r = [(''vnp_RequestId'', JStr (create_vnpay_request_id now random)),
                       (''vnp_Version'', JStr ''2.1.0''), (''vnp_Command'', JStr ''querydr''),
                       (''vnp_TmnCode'', JStr (vc_tmn_code config)),
                       (''vnp_TxnRef'', JStr (str_or_empty (jget session ''gateway_transaction_ref''))),
                       (''vnp_OrderInfo'', JStr order_info), (''vnp_TransactionDate'', JStr transaction_date),
                       (''vnp_CreateDate'', JStr (format_vnpay_date now)),
                       (''vnp_IpAddr'', JStr (extract_client_ip (jget options ''ipAddr'')))]
              in Inr (r @ [(''vnp_SecureHash'',
                   JStr (sign_vnpay_pipe_payload hmac (query_request_values r) (vc_hash_secret config)))]))"

definition query_response_values :: "jsval \<Rightarrow> jsval list" where
  "query_response_values p =
     map (jget p) [''vnp_RequestId'', ''vnp_Version'', ''vnp_Command'', ''vnp_TmnCode'', ''vnp_ResponseCode'',
       ''vnp_Message'', ''vnp_TxnRef'', ''vnp_Amount'', ''vnp_BankCode'', ''vnp_PayDate'',
       ''vnp_TransactionNo'', ''vnp_TransactionStatus'', ''vnp_OrderInfo'', ''vnp_PromotionCode'',
       ''vnp_PromotionAmount'']"

definition verify_vnpay_query_response :: "hmac \<Rightarrow> props \<Rightarrow> jsval \<Rightarrow> bool" where
  "verify_vnpay_query_response hmac env payload =
     (let secret = vc_hash_secret (get_vnpay_config env);
          secure_hash = trim (str_or_empty (jget payload ''vnp_SecureHash''))
      in if secure_hash = [] \<or> secret = [] then False
         else lower (sign_vnpay_pipe_payload hmac (query_response_values payload) secret) = lower secure_hash)"

section \<open>Timestamps read back\<close>

lemma two_digits_field:
  assumes "0 \<le> n" and "n < 100"
  shows "length (two_digits n) = 2" "digits_val (two_digits n) = n" "list_all is_digit (two_digits n)"
  using padded_field [of "nat n" 2] assms by (simp_all add: two_digits_def int_str_def)

lemma year_field:
  assumes "1000 \<le> y" and "y < 10000"
  shows "length (int_str y) = 4" "digits_val (int_str y) = y" "list_all is_digit (int_str y)"
proof -
  have s: "int_str y = nat_str (nat y)" using assms(1) by (simp add: int_str_def)
  have "length (nat_str (nat y)) \<le> 4" by (rule nat_str_length) (use assms in simp_all)
  moreover have "\<not> length (nat_str (nat y)) \<le> 3"
  proof
    assume "length (nat_str (nat y)) \<le> 3"
    then have "(10 :: int) ^ length (nat_str (nat y)) \<le> 10 ^ 3" by (intro power_increasing) simp_all
    with digits_val_bound [of "nat_str (nat y)"] assms(1) show False by simp
  qed
  ultimately show "length (int_str y) = 4" by (simp add: s)
  show "digits_val (int_str y) = y" "list_all is_digit (int_str y)" using assms(1) by (simp_all add: s)
qed

lemma digits_plain:
  assumes "list_all is_digit s" and "s \<noteq> []"
  shows "trim s = s" "str_or_empty (JStr s) = s"
proof -
  have "\<forall>c \<in> set s. \<not> is_space c" using assms(1) by (auto simp: list_all_iff is_digit_def is_space_def)
  then have "dropWhile is_space s = s" "dropWhile is_space (rev s) = rev s"
    unfolding dropWhile_eq_self_iff by (metis list.set_sel(1), metis list.set_sel(1) set_rev)
  then show "trim s = s" by (simp add: trim_def)
  show "str_or_empty (JStr s) = s" using assms(2) by (simp add: str_or_empty_def)
qed

lemma clock_fields:
  fixes ms :: int
  shows "ms div 3600000 * 3600000 + ms div 60000 mod 60 * 60000 + ms div 1000 mod 60 * 1000 = ms - ms mod 1000"
proof -
  define u v w where "u = ms div 1000" and "v = u div 60" and "w = v div 60"
  define r q where "r = u mod 60" and "q = v mod 60"
  have v: "ms div 60000 = v" and e1: "ms div 3600000 = w"
    by (simp_all add: u_def v_def w_def flip: zdiv_zmult2_eq)
  have e2: "ms div 60000 mod 60 = q" and e3: "ms div 1000 mod 60 = r"
    by (simp_all add: v q_def r_def u_def)
  have e4: "ms - ms mod 1000 = u * 1000" by (simp add: u_def minus_mod_eq_div_mult)
  have e5: "u = 60 * v + r" and e6: "v = 60 * w + q" by (simp_all add: v_def w_def r_def q_def)
  show ?thesis unfolding e1 e2 e3 e4 using e5 e6 by linarith
qed

lemma date_utc_civil:
  assumes "civil_of_day n = (y, m, d)" and "1000 \<le> y"
  shows "date_utc y (int m - 1) d h mi s = n * 86400000 + h * 3600000 + mi * 60000 + s * 1000"
proof -
  note b = civil_of_day_bounds [OF assms(1)]
  have "(int m - 1) div 12 = 0" "(int m - 1) mod 12 = int m - 1" using b(1,2) by simp_all
  moreover have "nat (int m - 1) + 1 = m" using b(1) by simp
  ultimately show ?thesis using b(5) assms(2) by (simp add: date_utc_def)
qed

text \<open>The gateway's timestamps are read back: formatting a time in Vietnam time and parsing the
  fourteen digits gives the time to the second, for every time of the years 1000 to 9999.\<close>

theorem vnpay_date_roundtrip:
  assumes "- 30610224000000 \<le> t + 25200000" and "t + 25200000 < 253402300800000"
  shows "parse_vnpay_timestamp (JStr (format_vnpay_date t)) = Some (t - t mod 1000)"
proof -
  define l where "l = t + 25200000"
  obtain y m d where c: "civil_of_day (l div 86400000) = (y, m, d)" by (metis prod_cases3)
  note b = civil_of_day_bounds [OF c]
  have yy: "y = year_of_day (l div 86400000)" using c by (auto simp: civil_of_day_def Let_def)
  have "year_days 1000 \<le> l div 86400000" "l div 86400000 < year_days 10000"
    using assms by (simp_all add: year_days_def l_def)
  from year_of_day_between [OF this] have y: "1000 \<le> y" "y < 10000" by (simp_all add: yy)
  define ms where "ms = l mod 86400000"
  have ms: "0 \<le> ms" "ms < 86400000" by (simp_all add: ms_def)
  have hours: "0 \<le> ms div 3600000" "ms div 3600000 < 100" using ms by simp_all
  have sixty: "0 \<le> k mod 60" "k mod 60 < 100" for k :: int
    using pos_mod_bound [of 60 k] pos_mod_sign [of 60 k] by linarith+
  let ?m = "two_digits (int m)" and ?d = "two_digits d" and ?h = "two_digits (ms div 3600000)"
  let ?i = "two_digits (ms div 60000 mod 60)" and ?s = "two_digits (ms div 1000 mod 60)"
  define raw where "raw = int_str y @ ?m @ ?d @ ?h @ ?i @ ?s"
  have f: "format_vnpay_date t = raw"
    by (simp add: format_vnpay_date_def raw_def Let_def c ms_def l_def [symmetric])
  have mb: "0 \<le> int m" "int m < 100" and db: "0 \<le> d" "d < 100" using b by simp_all
  note fields = year_field [OF y] two_digits_field [OF mb] two_digits_field [OF db] two_digits_field [OF hours]
    two_digits_field [OF sixty]
  have digits: "list_all is_digit raw" and len: "length raw = 14" by (simp_all add: raw_def fields)
  then have "raw \<noteq> []" by auto
  note plain = digits_plain [OF digits this]
  have shape: "matches_classes (replicate 14 is_digit) raw"
    using digits len by (simp add: matches_classes_def list_all2_conv_all_nth list_all_length)
  have parts: "slice 0 4 raw = int_str y" "slice 4 6 raw = ?m" "slice 6 8 raw = ?d" "slice 8 10 raw = ?h"
    "slice 10 12 raw = ?i" "slice 12 14 raw = ?s"
    by (simp_all add: slice_def raw_def fields)
  have "parse_vnpay_timestamp (JStr raw)
      = Some (date_utc y (int m - 1) d (ms div 3600000 - 7) (ms div 60000 mod 60) (ms div 1000 mod 60))"
    unfolding parse_vnpay_timestamp_def Let_def plain using shape by (simp add: parts fields)
  also have "\<dots> = Some (l div 86400000 * 86400000 + (ms - ms mod 1000) - 25200000)"
    unfolding date_utc_civil [OF c y(1)] clock_fields [of ms, symmetric] by (simp add: algebra_simps)
  also have "l div 86400000 * 86400000 + (ms - ms mod 1000) - 25200000 = t - t mod 1000"
  proof -
    have "ms mod 1000 = l mod 1000" by (simp add: ms_def mod_mod_cancel)
    moreover have "l mod 1000 = t mod 1000" using mod_mult_self1 [of t 25200 1000] by (simp add: l_def)
    moreover have "l div 86400000 * 86400000 + ms = l" by (simp add: ms_def)
    ultimately show ?thesis by (simp add: l_def)
  qed
  finally show ?thesis by (simp add: f)
qed

theorem vnpay_date_roundtrip_witness:
  "parse_vnpay_timestamp (JStr (format_vnpay_date 1700000000123)) = Some 1700000000000"
  using vnpay_date_roundtrip [of 1700000000123] by simp

section \<open>Signatures\<close>

lemma signed_payload_order:
  assumes "mset params = mset params'" and "distinct (map fst params)"
  shows "build_vnpay_signed_payload params = build_vnpay_signed_payload params'"
proof -
  have "sort_key fst params = sort_key fst params'"
    using assms by (intro sort_key_inj_key_eq) (simp_all add: distinct_map)
  then show ?thesis by (simp add: build_vnpay_signed_payload_def)
qed

definition all_text :: "props \<Rightarrow> bool" where
  "all_text ps = list_all (\<lambda>p. case snd p of JStr s \<Rightarrow> True | _ \<Rightarrow> False) ps"

lemma query_value_text: "all_text ps \<Longrightarrow> map (apsnd query_value) ps = ps"
  by (induction ps) (auto simp: all_text_def query_value_def split: jsval.splits)

lemma own_mset:
  assumes "mset ps = mset qs" and "distinct (map fst ps)"
  shows "own ps k = own qs k"
proof -
  have "distinct (map fst qs)" using assms by (metis distinct_map mset_eq_imp_distinct_iff mset_map)
  moreover have "set ps = set qs" using assms(1) by (rule mset_eq_setD)
  ultimately have "map_of ps = map_of qs" using assms(2) by (simp add: map_of_inject_set)
  then show ?thesis by (simp add: own_def)
qed

text \<open>A genuine answer is accepted: text parameters that the gateway signed with the shared secret,
  sent in any order and with the hash in either case, verify, and the fields of the result are the
  parameters of that name.\<close>

theorem genuine_return_accepted:
  assumes "all_text params" and "distinct (map fst params)"
    and "list_all (\<lambda>k. k \<noteq> ''vnp_SecureHash'' \<and> k \<noteq> ''vnp_SecureHashType'') (map fst params)"
    and "mset sent = mset params"
    and "vc_hash_secret (get_vnpay_config env) = secret" and "secret \<noteq> []"
    and "lower h = lower (sign_vnpay_params hmac params secret)" and "trim h = h" and "h \<noteq> []"
  shows "let r = verify_vnpay_return_query hmac env (sent @ [(''vnp_SecureHash'', JStr h)])
    in vr_valid r \<and> vr_transaction_ref r = str_or_empty (own params ''vnp_TxnRef'')
      \<and> vr_amount r = num_or_zero (own params ''vnp_Amount'')
      \<and> vr_response_code r = str_or_empty (own params ''vnp_ResponseCode'')"
proof -
  let ?q = "sent @ [(''vnp_SecureHash'', JStr h)]"
  have keys: "set sent = set params" using assms(4) by (rule mset_eq_setD)
  have texts: "all_text sent" using assms(1) by (simp add: all_text_def list_all_iff keys)
  have "\<forall>p \<in> set sent. fst p \<noteq> ''vnp_SecureHash'' \<and> fst p \<noteq> ''vnp_SecureHashType''"
    using assms(3) by (auto simp: list_all_iff keys)
  then have "signed_part ?q = map (apsnd query_value) sent"
    and own_h: "own ?q ''vnp_SecureHash'' = JStr h"
    by (simp_all add: signed_part_def own_def map_add_def filter_id_conv split: option.splits)
       (force dest: map_of_SomeD)
  then have part: "signed_part ?q = sent" by (simp add: query_value_text [OF texts])
  have d: "distinct (map fst sent)" using assms(2,4) by (metis mset_eq_imp_distinct_iff mset_map)
  have sign: "sign_vnpay_params hmac sent secret = sign_vnpay_params hmac params secret"
    unfolding sign_vnpay_params_def using signed_payload_order [OF assms(4) d] by simp
  have trimmed: "trim (str_or_empty (JStr h)) = h" using assms(8,9) by (simp add: str_or_empty_def)
  show ?thesis
    using assms(5-7,9) own_mset [OF assms(4) d]
    by (simp add: verify_vnpay_return_query_def own_h trimmed part sign return_fields_def Let_def)
qed

definition demo_env :: props where
  "demo_env = [(''VNPAY_HASH_SECRET'', JStr ''secret'')]"

definition demo_hmac512 :: hmac where
  "demo_hmac512 secret s = ''ab''"

theorem genuine_return_accepted_witness:
  "vr_valid (verify_vnpay_return_query demo_hmac512 demo_env
     [(''vnp_TxnRef'', JStr ''T1''), (''vnp_Amount'', JStr ''100''), (''vnp_SecureHash'', JStr ''AB'')])"
proof -
  have secret: "vc_hash_secret (get_vnpay_config demo_env) = ''secret''" by code_simp
  have "lower ''AB'' = lower (sign_vnpay_params demo_hmac512
      [(''vnp_Amount'', JStr ''100''), (''vnp_TxnRef'', JStr ''T1'')] ''secret'')"
    unfolding sign_vnpay_params_def demo_hmac512_def by code_simp
  from genuine_return_accepted [OF _ _ _ _ secret _ this,
      of "[(''vnp_TxnRef'', JStr ''T1''), (''vnp_Amount'', JStr ''100'')]"]
  show ?thesis by (simp add: all_text_def Let_def trim_def is_space_def add_mset_commute)
qed

text \<open>The result codes of the gateway: no answer is both a success and a failure, and the undecided
  answers are exactly those without a response code whose transaction status is missing or 00.\<close>

theorem vnpay_result_cases:
  "\<not> (is_successful_vnpay_result r s \<and> is_failed_vnpay_result r s)
   \<and> ((\<not> is_successful_vnpay_result r s \<and> \<not> is_failed_vnpay_result r s)
       = (trim (str_or_empty r) = [] \<and> trim (str_or_empty s) \<in> {[], ''00''}))"
  by (auto simp: is_successful_vnpay_result_def is_failed_vnpay_result_def Let_def vnpay_success_code_def)

end
