(* ===== verification/Subscription.thy ===== *)
theory Subscription
  imports Vnpay Sql_Table
begin

text \<open>
  \<open>services/subscriptionService.js\<close>: a company's plan and its billing cycles, the payment sessions that
  buy a plan, and their completion from the gateway's answers. An operation returns its result, or the
  error it throws, together with the tables: outside a transaction the statements that ran before an
  error stay. \<open>completeUpgrade\<close> and \<open>updatePaymentSessionMetadata\<close> run in a transaction that an error
  rolls back. The columns \<open>trial_started_at\<close> and \<open>trial_ends_at\<close> are not null. Analytics events are the
  list of those queued.
\<close>

section \<open>Tables\<close>

record company_row =
  co_id :: ident
  co_plan :: string
  co_created :: millis

record cycle_row =
  cy_company :: ident
  cy_trial_start :: millis
  cy_trial_end :: millis
  cy_std_start :: "millis option"
  cy_std_end :: "millis option"
  cy_sku :: int

record pay_session =
  ps_id :: ident
  ps_company :: ident
  ps_user :: ident
  ps_plan :: string
  ps_cycle :: string
  ps_provider :: jsval
  ps_amount :: int
  ps_status :: string
  ps_url :: string
  ps_ref :: string
  ps_expires :: millis
  ps_paid :: "millis option"
  ps_meta :: props

record sub_db =
  sb_companies :: "company_row list"
  sb_cycles :: "cycle_row list"
  sb_roles :: "((ident \<times> ident) \<times> string) list"
  sb_sessions :: "pay_session list"
  sb_events :: "jsval list"

type_synonym 'a sub_result = "(service_error + 'a) \<times> sub_db"

definition trial_days :: int where "trial_days = 14"
definition standard_billing_days :: int where "standard_billing_days = 30"

definition set_plan :: "ident \<Rightarrow> string \<Rightarrow> sub_db \<Rightarrow> sub_db" where
  "set_plan company plan db =
     db\<lparr>sb_companies := update_where (\<lambda>c. co_id c = company) (co_plan_update (\<lambda>_. plan)) (sb_companies db)\<rparr>"

definition update_cycle :: "ident \<Rightarrow> (cycle_row \<Rightarrow> cycle_row) \<Rightarrow> sub_db \<Rightarrow> sub_db" where
  "update_cycle company f db =
     db\<lparr>sb_cycles := update_where (\<lambda>c. cy_company c = company) f (sb_cycles db)\<rparr>"

definition update_session :: "ident \<Rightarrow> (pay_session \<Rightarrow> pay_session) \<Rightarrow> sub_db \<Rightarrow> sub_db" where
  "update_session i f db =
     db\<lparr>sb_sessions := update_where (\<lambda>s. ps_id s = i) f (sb_sessions db)\<rparr>"

section \<open>The current plan\<close>

definition new_cycle :: "company_row \<Rightarrow> cycle_row" where
  "new_cycle co =
     \<lparr>cy_company = co_id co, cy_trial_start = co_created co,
      cy_trial_end = co_created co + trial_days * day_ms, cy_std_start = None, cy_std_end = None, cy_sku = 0\<rparr>"

definition get_company_and_cycle :: "ident \<Rightarrow> sub_db \<Rightarrow> (company_row \<times> cycle_row) sub_result" where
  "get_company_and_cycle company db =
     (case select_one (\<lambda>c. co_id c = company) (sb_companies db) of
        None \<Rightarrow> (Inl (Service_Error ''COMPANY_NOT_FOUND'' 404), db)
      | Some co \<Rightarrow>
          (case select_one (\<lambda>c. cy_company c = company) (sb_cycles db) of
             Some cy \<Rightarrow> (Inr (co, cy), db)
           | None \<Rightarrow> (Inr (co, new_cycle co), db\<lparr>sb_cycles := sb_cycles db @ [new_cycle co]\<rparr>)))"

record sub_snapshot =
  sn_plan :: string
  sn_sku :: int
  sn_trial_start :: millis
  sn_trial_end :: millis
  sn_trial_expired :: bool
  sn_trial_days :: int
  sn_std_start :: "millis option"
  sn_std_end :: "millis option"
  sn_std_expired :: bool
  sn_std_days :: int
  sn_locked :: bool

text \<open>The plan a raw name stands for, the SKU limit (inferred from the old name of a standard plan that
  has none), and the window of a standard plan (thirty days from its start, or from now, when it has no
  end yet).\<close>

definition plan_read :: "string \<Rightarrow> string" where
  "plan_read raw = normalize_plan_id (JStr raw) ''trial''"

definition sku_inferred :: "string \<Rightarrow> cycle_row \<Rightarrow> bool" where
  "sku_inferred raw cy = (is_standard_plan (JStr (plan_read raw)) \<and> max 0 (cy_sku cy) \<le> 0)"

definition sku_read :: "string \<Rightarrow> cycle_row \<Rightarrow> int" where
  "sku_read raw cy =
     (if sku_inferred raw cy then infer_legacy_standard_sku_limit (JStr raw) 20 else max 0 (cy_sku cy))"

definition open_ended :: "string \<Rightarrow> cycle_row \<Rightarrow> bool" where
  "open_ended raw cy = (is_standard_plan (JStr (plan_read raw)) \<and> cy_std_end cy = None)"

definition start_read :: "millis \<Rightarrow> string \<Rightarrow> cycle_row \<Rightarrow> millis option" where
  "start_read now raw cy =
     (if open_ended raw cy then Some (case cy_std_start cy of None \<Rightarrow> now | Some s \<Rightarrow> s) else cy_std_start cy)"

definition finish_read :: "millis \<Rightarrow> string \<Rightarrow> cycle_row \<Rightarrow> millis option" where
  "finish_read now raw cy =
     (if open_ended raw cy then map_option (\<lambda>s. s + standard_billing_days * day_ms) (start_read now raw cy)
      else cy_std_end cy)"

definition lapsed :: "millis \<Rightarrow> string \<Rightarrow> cycle_row \<Rightarrow> bool" where
  "lapsed now raw cy =
     (is_standard_plan (JStr (plan_read raw))
      \<and> (case finish_read now raw cy of None \<Rightarrow> False | Some e \<Rightarrow> e \<le> now))"

definition plan_now :: "millis \<Rightarrow> string \<Rightarrow> cycle_row \<Rightarrow> string" where
  "plan_now now raw cy = (if lapsed now raw cy then ''trial'' else plan_read raw)"

definition snapshot_of :: "millis \<Rightarrow> string \<Rightarrow> cycle_row \<Rightarrow> sub_snapshot" where
  "snapshot_of now raw cy =
     \<lparr>sn_plan = plan_now now raw cy, sn_sku = sku_read raw cy, sn_trial_start = cy_trial_start cy,
      sn_trial_end = cy_trial_end cy, sn_trial_expired = (cy_trial_end cy \<le> now),
      sn_trial_days = calc_days_remaining now (Some (cy_trial_end cy)),
      sn_std_start = start_read now raw cy, sn_std_end = finish_read now raw cy,
      sn_std_expired = lapsed now raw cy,
      sn_std_days = (if is_standard_plan (JStr (plan_read raw))
        then calc_days_remaining now (finish_read now raw cy) else 0),
      sn_locked = (plan_now now raw cy = ''trial'' \<and> cy_trial_end cy \<le> now)\<rparr>"

text \<open>The four statements of \<open>getSubscriptionSnapshot\<close>, each under its condition.\<close>

definition snapshot_writes :: "millis \<Rightarrow> ident \<Rightarrow> string \<Rightarrow> cycle_row \<Rightarrow> sub_db \<Rightarrow> sub_db" where
  "snapshot_writes now company raw cy db =
     (let db2 = (if plan_read raw \<noteq> raw then set_plan company (plan_read raw) db else db);
          db3 = (if sku_inferred raw cy
            then update_cycle company (\<lambda>c. c\<lparr>cy_sku := sku_read raw cy\<rparr>) db2 else db2);
          db4 = (if open_ended raw cy
            then update_cycle company
              (\<lambda>c. c\<lparr>cy_std_start := start_read now raw cy, cy_std_end := finish_read now raw cy\<rparr>) db3
            else db3)
      in if lapsed now raw cy then set_plan company ''trial'' db4 else db4)"

definition get_subscription_snapshot :: "millis \<Rightarrow> ident \<Rightarrow> sub_db \<Rightarrow> sub_snapshot sub_result" where
  "get_subscription_snapshot now company db =
     (case get_company_and_cycle company db of
        (Inl e, db1) \<Rightarrow> (Inl e, db1)
      | (Inr (co, cy), db1) \<Rightarrow>
          (Inr (snapshot_of now (co_plan co) cy), snapshot_writes now company (co_plan co) cy db1))"

text \<open>What \<open>getSubscription\<close> reports besides the snapshot, whose fields it repeats; the two counts come
  from the tables of products and members.\<close>

record subscription_view =
  sv_plan :: string
  sv_details :: plan_details
  sv_products :: nat
  sv_members :: nat
  sv_window_start :: "millis option"
  sv_window_end :: "millis option"
  sv_window_expired :: bool
  sv_window_days :: "int option"
  sv_next_action :: string
  sv_snapshot :: sub_snapshot

definition get_subscription :: "millis \<Rightarrow> nat \<Rightarrow> nat \<Rightarrow> ident \<Rightarrow> sub_db \<Rightarrow> subscription_view sub_result" where
  "get_subscription now products members company db =
     (case get_subscription_snapshot now company db of
        (Inl e, db1) \<Rightarrow> (Inl e, db1)
      | (Inr sn, db1) \<Rightarrow>
          (let plan = sn_plan sn; trial = (plan = ''trial''); standard = is_standard_plan (JStr plan)
           in (Inr \<lparr>sv_plan = plan, sv_details = resolve_plan_details (JStr plan) (JNum (Fin (of_int (sn_sku sn)))),
                 sv_products = products, sv_members = members,
                 sv_window_start = (if trial then Some (sn_trial_start sn)
                   else if standard then sn_std_start sn else None),
                 sv_window_end = (if trial then Some (sn_trial_end sn)
                   else if standard then sn_std_end sn else None),
                 sv_window_expired = (if trial then sn_trial_expired sn
                   else if standard then sn_std_expired sn else False),
                 sv_window_days = (if trial then Some (sn_trial_days sn)
                   else if standard then Some (sn_std_days sn) else None),
                 sv_next_action = (if trial then if sn_trial_expired sn then ''upgrade_required'' else ''trial_active''
                   else if standard then if sn_std_expired sn then ''renew_required'' else ''subscription_active''
                   else ''contact_sales''),
                 sv_snapshot = sn\<rparr>, db1)))"

section \<open>Buying a plan\<close>

datatype upgrade_reply =
    Contact_Sales
  | Payment_Started ident string string string int

text \<open>The fields of the session's metadata; \<open>JSON.stringify\<close> drops those that are undefined.\<close>

definition session_metadata_of ::
  "string \<Rightarrow> jsval \<Rightarrow> jsval \<Rightarrow> sku_package option \<Rightarrow> int \<Rightarrow> string \<Rightarrow> string \<Rightarrow> payment_url option \<Rightarrow> props" where
  "session_metadata_of mode target context package sku order plan checkout =
     (let text = (\<lambda>v. case v of JStr s \<Rightarrow> JStr s | _ \<Rightarrow> JStr []);
          limit = jget context ''standardSkuLimit''
      in filter (\<lambda>p. snd p \<noteq> JUndef)
        [(''mode'', JStr mode), (''requested_plan'', target),
         (''requested_standard_sku_limit'', if truthy limit then JNum (to_num limit) else JNull),
         (''standard_sku_increment'',
            case package of None \<Rightarrow> JNull | Some p \<Rightarrow> JNum (Fin (of_int (sp_increment p)))),
         (''current_standard_sku_limit'', JNum (Fin (of_int sku))),
         (''ip_addr'', JStr (extract_client_ip (jget context ''ipAddr''))),
         (''user_agent'', text (jget context ''userAgent'')),
         (''frontend_origin'', text (jget context ''frontendOrigin'')),
         (''order_info'', JStr order), (''vnpay_order_info'', JStr order),
         (''vnpay_bank_code'', if plan = ''standard'' then JStr ''VNPAYQR'' else JNull),
         (''vnpay_payment_create_date'',
            case checkout of None \<Rightarrow> JNull | Some c \<Rightarrow> JStr (pu_create c)),
         (''vnpay_payment_expire_date'',
            case checkout of None \<Rightarrow> JNull | Some c \<Rightarrow> JStr (pu_expire c))])"

definition open_session ::
  "hmac \<Rightarrow> props \<Rightarrow> millis \<Rightarrow> nat \<Rightarrow> ident \<Rightarrow> ident \<Rightarrow> ident \<Rightarrow> jsval \<Rightarrow> string \<Rightarrow> string \<Rightarrow> jsval \<Rightarrow> jsval \<Rightarrow>
   sku_package option \<Rightarrow> sub_snapshot \<Rightarrow> service_error + pay_session" where
  "open_session hmac env now random i user company target plan billing provider context package sn =
     (let ref = ''VNPAY_'' @ int_str now @ ''_'' @ nat_str random;
          details = plan_entry (normalize_plan_id (JStr plan) ''trial'');
          amount = (case package of Some p \<Rightarrow> sp_price p
            | None \<Rightarrow> (case pd_price_monthly details of Fin r \<Rightarrow> \<lfloor>r\<rfloor> | _ \<Rightarrow> 0));
          mode = get_vnpay_mode env;
          order = ''Thanh toan goi '' @ (case package of Some p \<Rightarrow> sp_name p | None \<Rightarrow> pd_name details)
            @ '' ('' @ billing @ '')'';
          options = JObj [(''transactionRef'', JStr ref), (''amount'', JNum (Fin (of_int amount))),
            (''ipAddr'', jget context ''ipAddr''), (''orderInfo'', JStr order),
            (''bankCode'', JStr (if plan = ''standard'' then ''VNPAYQR'' else []))];
          session = (\<lambda>url checkout. \<lparr>ps_id = i, ps_company = company, ps_user = user, ps_plan = plan,
            ps_cycle = billing, ps_provider = provider, ps_amount = amount, ps_status = ''pending'',
            ps_url = url, ps_ref = ref, ps_expires = now + 30 * 60000, ps_paid = None,
            ps_meta = session_metadata_of mode target context package (sn_sku sn) order plan checkout\<rparr>)
      in if mode = ''mock''
         then Inr (session (get_backend_base_url env @ ''/api/subscription/vnpay/mock-checkout?session_id=''
                @ uri_encode i) None)
         else bind_result (build_vnpay_payment_url hmac env now options)
                (\<lambda>c. Inr (session (pu_url c) (Some c))))"

definition upgrade_subscription ::
  "hmac \<Rightarrow> props \<Rightarrow> millis \<Rightarrow> nat \<Rightarrow> ident \<Rightarrow> ident \<Rightarrow> ident \<Rightarrow> jsval \<Rightarrow> string \<Rightarrow> jsval \<Rightarrow> jsval \<Rightarrow> sub_db \<Rightarrow>
   upgrade_reply sub_result" where
  "upgrade_subscription hmac env now random i user company target billing provider context db =
     (case map_of (sb_roles db) (company, user) of
        None \<Rightarrow> (Inl (Service_Error ''FORBIDDEN'' 403), db)
      | Some role \<Rightarrow>
          (let plan = resolve_requested_target_plan target []
           in if role \<noteq> ''admin'' then (Inl (Service_Error ''FORBIDDEN'' 403), db)
              else if plan = [] \<or> plan \<notin> set allowed_target_plans
              then (Inl (Service_Error ''INVALID_PLAN'' 400), db)
              else case get_subscription_snapshot now company db of
                (Inl e, db1) \<Rightarrow> (Inl e, db1)
              | (Inr sn, db1) \<Rightarrow>
                  (let current = normalize_plan_id (JStr (sn_plan sn)) ''trial'';
                       limit = jget context ''standardSkuLimit'';
                       package = (if plan = ''standard''
                         then Some (resolve_standard_package
                           (jor limit (JNum (Fin (of_int (infer_legacy_standard_sku_limit target 20))))))
                         else None);
                       addon = (is_standard_plan (JStr plan)
                         \<and> (is_standard_plan (JStr current) \<or> current = ''trial''))
                   in if plan = current \<and> \<not> addon then (Inl (Service_Error ''PLAN_ALREADY_ACTIVE'' 400), db1)
                      else if resolve_plan_rank (JStr plan) < resolve_plan_rank (JStr current)
                      then (Inl (Service_Error ''PLAN_DOWNGRADE_NOT_ALLOWED'' 400), db1)
                      else if plan = ''export'' then (Inr Contact_Sales, db1)
                      else if plan \<noteq> ''trial'' \<and> \<not> is_standard_plan (JStr plan)
                      then (Inl (Service_Error ''UNSUPPORTED_PLAN'' 400), db1)
                      else if billing \<noteq> ''monthly''
                      then (Inl (Service_Error ''INVALID_BILLING_CYCLE'' 400), db1)
                      else case open_session hmac env now random i user company target plan billing provider
                                  context package sn of
                        Inl e \<Rightarrow> (Inl e, db1)
                      | Inr s \<Rightarrow> (Inr (Payment_Started i (ps_url s) (ps_ref s) plan (ps_amount s)),
                                  db1\<lparr>sb_sessions := sb_sessions db1 @ [s]\<rparr>))))"

section \<open>Payment sessions\<close>

definition get_payment_session :: "ident \<Rightarrow> sub_db \<Rightarrow> pay_session option" where
  "get_payment_session i db = select_one (\<lambda>s. ps_id s = i) (sb_sessions db)"

definition get_payment_session_by_ref :: "string \<Rightarrow> sub_db \<Rightarrow> pay_session option" where
  "get_payment_session_by_ref ref db = select_one (\<lambda>s. ps_ref s = ref) (sb_sessions db)"

definition update_payment_session_metadata :: "ident \<Rightarrow> props \<Rightarrow> sub_db \<Rightarrow> props sub_result" where
  "update_payment_session_metadata i patch db =
     (case get_payment_session i db of
        None \<Rightarrow> (Inl (Service_Error ''SESSION_NOT_FOUND'' 404), db)
      | Some s \<Rightarrow> (let m = merge_metadata (JObj (ps_meta s)) (JObj patch)
                   in (Inr m, update_session i (ps_meta_update (\<lambda>_. m)) db)))"

section \<open>Completion\<close>

text \<open>The metadata a completion writes first: what the gateway told, else what the session had.\<close>

definition gateway_metadata :: "millis \<Rightarrow> props \<Rightarrow> jsval \<Rightarrow> jsval \<Rightarrow> props \<Rightarrow> props" where
  "gateway_metadata now details status options meta =
     (let pick = (\<lambda>k m. jor (own details k) (jor (own meta m) JNull));
          checked = JStr (iso_string now)
      in merge_metadata (JObj meta) (JObj
        [(''vnpay_last_checked_at'', checked),
         (''vnpay_transaction_no'', pick ''transactionNo'' ''vnpay_transaction_no''),
         (''vnpay_bank_code'', pick ''bankCode'' ''vnpay_bank_code''),
         (''vnpay_card_type'', pick ''cardType'' ''vnpay_card_type''),
         (''vnpay_pay_date'', pick ''payDate'' ''vnpay_pay_date''),
         (''vnpay_last_payload'', pick ''rawPayload'' ''vnpay_last_payload''),
         (''last_payment_resolution'', JObj
            [(''source'', jor (jget options ''source'') (JStr ''system'')),
             (''response_code'', JStr (str_or_empty status)),
             (''transaction_status'', JStr (trim (str_or_empty (jget options ''transactionStatus'')))),
             (''checked_at'', checked)])]))"

definition resolution :: "millis \<Rightarrow> string \<Rightarrow> jsval \<Rightarrow> jsval \<Rightarrow> jsval" where
  "resolution now result status options =
     JObj [(''last_payment_resolution'', JObj
       ([(''source'', jor (jget options ''source'') (JStr ''system'')), (''status'', JStr result)]
        @ (if result = ''expired'' then []
           else [(''response_code'', JStr (str_or_empty status)),
                 (''transaction_status'', JStr (trim (str_or_empty (jget options ''transactionStatus''))))])
        @ [(''checked_at'', JStr (iso_string now))]))]"

definition resolve_session ::
  "string \<Rightarrow> props \<Rightarrow> millis option \<Rightarrow> pay_session \<Rightarrow> pay_session" where
  "resolve_session result meta paid s =
     s\<lparr>ps_status := result, ps_meta := meta, ps_paid := (if paid = None then ps_paid s else paid)\<rparr>"

text \<open>The analytics events a completion queues.\<close>

definition push_event :: "jsval \<Rightarrow> sub_db \<Rightarrow> sub_db" where
  "push_event e db = db\<lparr>sb_events := sb_events db @ [e]\<rparr>"

definition number_or_undefined :: "jsval \<Rightarrow> jsval" where
  "number_or_undefined v = (let n = to_num v in if truthy (JNum n) then JNum n else JUndef)"

definition event_of :: "string \<Rightarrow> ident \<Rightarrow> pay_session \<Rightarrow> props \<Rightarrow> props \<Rightarrow> jsval" where
  "event_of name i s extra payload =
     JObj ([(''event_name'', JStr name), (''user_id'', JStr (ps_user s)), (''company_id'', JStr (ps_company s)),
            (''entity_type'', JStr ''subscription_payment_session''), (''entity_id'', JStr i)]
           @ extra @ [(''payload'', JObj payload)])"

definition plan_family :: "pay_session \<Rightarrow> string" where
  "plan_family s = (if normalize_plan_id (JStr (ps_plan s)) ''trial'' = ''export'' then ''export'' else ''standard'')"

definition payment_failed_event :: "ident \<Rightarrow> pay_session \<Rightarrow> props \<Rightarrow> string \<Rightarrow> jsval" where
  "payment_failed_event i s meta error_code =
     event_of ''wc_payment_failed'' i s []
       [(''billing_cycle'', jor (JStr (ps_cycle s)) (JStr ''monthly'')),
        (''payment_provider'', jor (ps_provider s) (JStr ''vnpay'')),
        (''plan_family'', JStr (plan_family s)),
        (''plan_sku_limit'', number_or_undefined
           (jor (own meta ''requested_standard_sku_limit'') (jor (own meta ''standard_sku_increment'') (JNum 0)))),
        (''error_code'', JStr error_code)]"

definition purchase_event :: "ident \<Rightarrow> pay_session \<Rightarrow> props \<Rightarrow> int option \<Rightarrow> jsval" where
  "purchase_event i s meta limit =
     (let amount = JNum (num_of (of_int (ps_amount s)));
          bought = (case limit of None \<Rightarrow> JNull | Some n \<Rightarrow> JNum (Fin (of_int n)))
      in event_of ''purchase'' i s [(''value'', amount), (''currency'', JStr ''VND'')]
        [(''billing_cycle'', jor (JStr (ps_cycle s)) (JStr ''monthly'')), (''currency'', JStr ''VND''),
         (''payment_provider'', jor (ps_provider s) (JStr ''vnpay'')),
         (''plan_family'', JStr (plan_family s)),
         (''plan_sku_limit'', if plan_family s = ''standard''
            then number_or_undefined (jor bought (jor (own meta ''requested_standard_sku_limit'')
              (jor (own meta ''standard_sku_increment'') (JNum 0)))) else JUndef),
         (''value'', amount)])"

text \<open>A number written to an integer column: one that is not whole is refused.\<close>

fun integer_column :: "jnum \<Rightarrow> service_error + int" where
  "integer_column (Fin r) = (if of_int \<lfloor>r\<rfloor> = r then Inr \<lfloor>r\<rfloor> else Inl (Service_Error ''22P02'' 500))"
| "integer_column _ = Inl (Service_Error ''22P02'' 500)"

text \<open>\<open>Math.max(20, Number(increment || requested || inferred) || 20)\<close>\<close>

definition purchased_increment :: "props \<Rightarrow> string \<Rightarrow> jnum" where
  "purchased_increment meta plan =
     (let n = to_num (jor (own meta ''standard_sku_increment'') (jor (own meta ''requested_standard_sku_limit'')
                (JNum (Fin (of_int (infer_legacy_standard_sku_limit (JStr plan) 20))))))
      in math_max (Fin 20) (if truthy (JNum n) then n else Fin 20))"

text \<open>The plan a paid session buys: the new SKU limit of a standard plan, None of a trial.\<close>

definition apply_purchase :: "millis \<Rightarrow> pay_session \<Rightarrow> props \<Rightarrow> sub_db \<Rightarrow> int option sub_result" where
  "apply_purchase now s meta db =
     (let plan = normalize_plan_id (JStr (ps_plan s)) ''trial''; company = ps_company s;
          finish = now + standard_billing_days * day_ms
      in if is_standard_plan (JStr plan)
         then case get_subscription_snapshot now company db of
                (Inl e, db1) \<Rightarrow> (Inl e, db1)
              | (Inr sn, db1) \<Rightarrow>
                  (let current = (if is_standard_plan (JStr (sn_plan sn)) then max 0 (sn_sku sn) else 0)
                   in case integer_column (Fin (of_int current) + purchased_increment meta (ps_plan s)) of
                        Inl e \<Rightarrow> (Inl e, db1)
                      | Inr limit \<Rightarrow>
                          (case get_company_and_cycle company (set_plan company ''standard'' db1) of
                             (Inl e, db2) \<Rightarrow> (Inl e, db2)
                           | (Inr _, db2) \<Rightarrow>
                               (Inr (Some limit), update_cycle company
                                  (\<lambda>c. c\<lparr>cy_std_start := Some now, cy_std_end := Some finish, cy_sku := limit\<rparr>) db2)))
         else if plan = ''trial''
         then case get_company_and_cycle company (set_plan company ''trial'' db) of
                (Inl e, db1) \<Rightarrow> (Inl e, db1)
              | (Inr _, db1) \<Rightarrow>
                  (Inr None, update_cycle company (\<lambda>c. c\<lparr>cy_trial_start := now, cy_trial_end := finish\<rparr>) db1)
         else (Inl (Service_Error ''UNSUPPORTED_PLAN'' 400), db))"

datatype completion =
    Not_Updated "string option" string
  | Updated string "int option"

definition paid_time :: "millis \<Rightarrow> props \<Rightarrow> millis" where
  "paid_time now details =
     (case parse_vnpay_timestamp (own details ''payDate'') of None \<Rightarrow> now | Some t \<Rightarrow> t)"

definition expected_amount :: "pay_session \<Rightarrow> jnum" where
  "expected_amount s = math_round (num_of (of_int (ps_amount s)) * Fin 100)"

definition complete_upgrade ::
  "millis \<Rightarrow> ident \<Rightarrow> jsval \<Rightarrow> jsval \<Rightarrow> sub_db \<Rightarrow> completion sub_result" where
  "complete_upgrade now i status options db =
     (case get_payment_session i db of
        None \<Rightarrow> (Inl (Service_Error ''SESSION_NOT_FOUND'' 404), db)
      | Some s \<Rightarrow>
          (let plan = normalize_plan_id (JStr (ps_plan s)) ''trial'';
               details = normalize_metadata (jget options ''gatewayDetails'');
               actual = num_or_zero (own details ''amount'');
               meta = gateway_metadata now details status options (ps_meta s);
               close = (\<lambda>result. update_session i (resolve_session result
                  (merge_metadata (JObj meta) (resolution now result status options)) None))
           in if ps_status s = ''success'' then (Inr (Not_Updated (Some plan) ''Session already completed''), db)
              else if ps_status s = ''failed'' \<or> ps_status s = ''cancelled'' \<or> ps_status s = ''expired''
              then (Inr (Not_Updated None ''Session already resolved''), db)
              else if is_payment_session_expired now (Some (ps_expires s))
              then (Inr (Not_Updated None ''Payment session expired''),
                    push_event (payment_failed_event i s meta ''session_expired'') (close ''expired'' db))
              else if truthy (JNum actual) \<and> \<not> num_eq actual (expected_amount s)
              then (Inl (Service_Error ''INVALID_PAYMENT_AMOUNT'' 400), db)
              else if \<not> is_successful_vnpay_result status
                     (JStr (trim (str_or_empty (jget options ''transactionStatus''))))
              then (Inr (Not_Updated None ''Payment was not successful''),
                    push_event (payment_failed_event i s meta (to_str (jor status
                      (jor (JStr (trim (str_or_empty (jget options ''transactionStatus''))))
                        (JStr ''payment_failed''))))) (close ''failed'' db))
              else let db1 = update_session i (resolve_session ''success''
                         (merge_metadata (JObj meta) (resolution now ''paid'' status options))
                         (Some (paid_time now details))) db
                   in case apply_purchase now s meta db1 of
                        (Inl e, _) \<Rightarrow> (Inl e, db)
                      | (Inr limit, db2) \<Rightarrow>
                          (Inr (Updated (if is_standard_plan (JStr plan) then ''standard'' else plan) limit),
                           push_event (purchase_event i s meta limit) db2)))"

section \<open>Reconciliation\<close>

definition session_value :: "pay_session \<Rightarrow> jsval" where
  "session_value s =
     JObj [(''target_plan'', JStr (ps_plan s)), (''gateway_transaction_ref'', JStr (ps_ref s)),
       (''metadata'', JObj (ps_meta s))]"

definition querydr_record :: "millis \<Rightarrow> jsval \<Rightarrow> bool \<Rightarrow> jsval \<Rightarrow> props" where
  "querydr_record now request_id verified p =
     (let text = (\<lambda>k. JStr (str_or_empty (jget p k)))
      in [(''vnpay_last_checked_at'', JStr (iso_string now)),
          (''vnpay_last_querydr_request_id'', request_id),
          (''vnpay_last_querydr'', JObj
             [(''verified_signature'', JBool verified), (''response_code'', text ''vnp_ResponseCode''),
              (''transaction_status'', text ''vnp_TransactionStatus''),
              (''transaction_no'', text ''vnp_TransactionNo''), (''bank_code'', text ''vnp_BankCode''),
              (''card_type'', text ''vnp_CardType''), (''pay_date'', text ''vnp_PayDate''),
              (''checked_at'', JStr (iso_string now))])])"

definition querydr_options :: "string \<Rightarrow> jnum \<Rightarrow> jsval \<Rightarrow> jsval" where
  "querydr_options status amount p =
     JObj [(''source'', JStr ''querydr''), (''transactionStatus'', JStr status),
       (''gatewayDetails'', JObj
          [(''amount'', JNum amount), (''transactionNo'', jget p ''vnp_TransactionNo''),
           (''bankCode'', jget p ''vnp_BankCode''), (''cardType'', jget p ''vnp_CardType''),
           (''payDate'', jget p ''vnp_PayDate''), (''orderInfo'', jget p ''vnp_OrderInfo''),
           (''rawPayload'', p)])]"

text \<open>\<open>Date.now() - new Date(metadata.vnpay_last_checked_at || 0).getTime() < 10000\<close>\<close>

definition recently_checked :: "millis \<Rightarrow> props \<Rightarrow> bool" where
  "recently_checked now meta =
     (case own meta ''vnpay_last_checked_at'' of
        JStr t \<Rightarrow> (case iso_millis t of None \<Rightarrow> False | Some seen \<Rightarrow> seen \<noteq> 0 \<and> now - seen < 10000)
      | _ \<Rightarrow> False)"

definition reread :: "ident \<Rightarrow> sub_db \<Rightarrow> pay_session sub_result" where
  "reread i db =
     (case get_payment_session i db of
        None \<Rightarrow> Inl (Service_Error ''SESSION_NOT_FOUND'' 404) | Some s \<Rightarrow> Inr s, db)"

definition complete_and_reread ::
  "millis \<Rightarrow> ident \<Rightarrow> string \<Rightarrow> jsval \<Rightarrow> sub_db \<Rightarrow> pay_session sub_result" where
  "complete_and_reread now i status options db =
     (case complete_upgrade now i (JStr status) options db of
        (Inl e, db1) \<Rightarrow> (Inl e, db1) | (Inr c, db1) \<Rightarrow> reread i db1)"

text \<open>What is done with the gateway's answer to a query about the session \<open>s\<close>.\<close>

definition apply_gateway_answer ::
  "hmac \<Rightarrow> props \<Rightarrow> millis \<Rightarrow> ident \<Rightarrow> pay_session \<Rightarrow> jsval \<Rightarrow> jsval \<Rightarrow> sub_db \<Rightarrow> pay_session sub_result" where
  "apply_gateway_answer hmac env now i s request_id answer db =
     (let p = (if is_object answer then answer else JObj []);
          verified = verify_vnpay_query_response hmac env p;
          patch = querydr_record now request_id verified p;
          amount = num_or_zero (jget p ''vnp_Amount'');
          rc = trim (str_or_empty (jget p ''vnp_ResponseCode''));
          status = trim (str_or_empty (jget p ''vnp_TransactionStatus''));
          opts = querydr_options status amount p;
          noted = (\<lambda>extra. snd (update_payment_session_metadata i (patch @ extra) db))
      in if \<not> verified then (Inr s, noted [])
         else if truthy (JNum amount) \<and> \<not> num_eq amount (expected_amount s)
         then (Inr s, noted [(''last_payment_resolution'', JObj
                [(''source'', JStr ''querydr''), (''status'', JStr ''amount_mismatch''),
                 (''expected_amount'', JNum (expected_amount s)), (''actual_amount'', JNum amount)])])
         else if is_successful_vnpay_result (JStr rc) (JStr status) then complete_and_reread now i rc opts db
         else if is_failed_vnpay_result (JStr rc) (JStr status)
         then complete_and_reread now i (if rc = [] then ''99'' else rc) opts db
         else reread i (noted []))"

text \<open>The gateway is a function from the request to its answer, None when the call fails. The message text
  of a failed request, which the metadata keeps too, is left out.\<close>

definition reconcile_pending_payment_session ::
  "hmac \<Rightarrow> props \<Rightarrow> (props \<Rightarrow> jsval option) \<Rightarrow> millis \<Rightarrow> nat \<Rightarrow> ident \<Rightarrow> jsval \<Rightarrow> sub_db \<Rightarrow>
   pay_session sub_result" where
  "reconcile_pending_payment_session hmac env gateway now random i options db =
     (case get_payment_session i db of
        None \<Rightarrow> (Inl (Service_Error ''SESSION_NOT_FOUND'' 404), db)
      | Some s \<Rightarrow>
          (let note_checked = (\<lambda>patch. snd (update_payment_session_metadata i
                 ((''vnpay_last_checked_at'', JStr (iso_string now)) # patch) db))
           in if to_public_payment_status (ps_status s) \<noteq> ''pending'' then (Inr s, db)
              else if is_payment_session_expired now (Some (ps_expires s))
              then let db1 = note_checked [(''last_payment_resolution'',
                         JObj [(''source'', JStr ''querydr''), (''status'', JStr ''expired'')])]
                   in reread i (update_session i
                        (\<lambda>r. if ps_status r = ''pending'' then r\<lparr>ps_status := ''expired''\<rparr> else r) db1)
              else if get_vnpay_mode env = ''mock'' then (Inr s, db)
              else if recently_checked now (ps_meta s) then (Inr s, db)
              else case build_vnpay_query_request hmac env now random (session_value s) options of
                Inl e \<Rightarrow> (Inr s, note_checked [(''vnpay_last_querydr_error'',
                           JObj [(''checked_at'', JStr (iso_string now))])])
              | Inr request \<Rightarrow>
                  (case gateway request of
                     None \<Rightarrow> (Inr s, note_checked [(''vnpay_last_querydr_request_id'', own request ''vnp_RequestId''),
                                (''vnpay_last_querydr_error'', JObj [(''checked_at'', JStr (iso_string now))])])
                   | Some answer \<Rightarrow>
                       apply_gateway_answer hmac env now i s (own request ''vnp_RequestId'') answer db)))"

record payment_status =
  py_status :: string
  py_plan :: string
  py_cycle :: string
  py_amount :: int
  py_ref :: string
  py_paid :: "millis option"
  py_expires :: millis
  py_sku :: jnum

definition get_payment_status ::
  "hmac \<Rightarrow> props \<Rightarrow> (props \<Rightarrow> jsval option) \<Rightarrow> millis \<Rightarrow> nat \<Rightarrow> ident \<Rightarrow> ident \<Rightarrow> jsval \<Rightarrow> sub_db \<Rightarrow>
   payment_status sub_result" where
  "get_payment_status hmac env gateway now random i company options db =
     (let view = (\<lambda>s. \<lparr>py_status = to_public_payment_status (ps_status s),
            py_plan = normalize_plan_id (JStr (ps_plan s)) ''trial'', py_cycle = ps_cycle s,
            py_amount = ps_amount s, py_ref = ps_ref s, py_paid = ps_paid s, py_expires = ps_expires s,
            py_sku = num_or_zero (jor (own (ps_meta s) ''requested_standard_sku_limit'')
              (own (ps_meta s) ''standard_sku_increment''))\<rparr>)
      in case get_payment_session i db of
           None \<Rightarrow> (Inl (Service_Error ''SESSION_NOT_FOUND'' 404), db)
         | Some s \<Rightarrow>
             (if ps_company s \<noteq> company then (Inl (Service_Error ''SESSION_NOT_FOUND'' 404), db)
              else if to_public_payment_status (ps_status s) = ''pending''
              then case reconcile_pending_payment_session hmac env gateway now random i options db of
                     (Inl e, db1) \<Rightarrow> (Inl e, db1) | (Inr s', db1) \<Rightarrow> (Inr (view s'), db1)
              else (Inr (view s), db)))"

end
