(* ===== verification/Payments.thy ===== *)
theory Payments
  imports Subscription
begin

text \<open>
  What the subscription service guarantees about payments: sessions that are settled stay as they are
  (a step relation over all operations), a plan changes only for a genuine payment or when a reading
  finds that it has lapsed, what a payment buys, and that reading a subscription is stable.
\<close>

section \<open>Frames\<close>

lemma set_plan_frame [simp]:
  "sb_sessions (set_plan c p db) = sb_sessions db" "sb_cycles (set_plan c p db) = sb_cycles db"
  "sb_roles (set_plan c p db) = sb_roles db"
  by (simp_all add: set_plan_def)

lemma update_cycle_frame [simp]:
  "sb_sessions (update_cycle c f db) = sb_sessions db" "sb_companies (update_cycle c f db) = sb_companies db"
  "sb_roles (update_cycle c f db) = sb_roles db"
  by (simp_all add: update_cycle_def)

lemma update_session_frame [simp]:
  "sb_companies (update_session i f db) = sb_companies db" "sb_cycles (update_session i f db) = sb_cycles db"
  "sb_sessions (update_session i f db) = update_where (\<lambda>s. ps_id s = i) f (sb_sessions db)"
  by (simp_all add: update_session_def)

lemma push_event_frame [simp]:
  "sb_companies (push_event e db) = sb_companies db" "sb_cycles (push_event e db) = sb_cycles db"
  "sb_sessions (push_event e db) = sb_sessions db"
  by (simp_all add: push_event_def)

lemma company_and_cycle_sessions:
  "get_company_and_cycle company db = (r, db') \<Longrightarrow> sb_sessions db' = sb_sessions db"
  by (auto simp: get_company_and_cycle_def split: option.splits)

lemma snapshot_sessions:
  assumes "get_subscription_snapshot now company db = (r, db')"
  shows "sb_sessions db' = sb_sessions db"
proof -
  obtain q db1 where q: "get_company_and_cycle company db = (q, db1)" by (cases "get_company_and_cycle company db")
  note s = company_and_cycle_sessions [OF q]
  show ?thesis
  proof (cases q)
    case (Inl e)
    with assms q s show ?thesis by (simp add: get_subscription_snapshot_def)
  next
    case (Inr x)
    with assms q s show ?thesis
      by (cases x) (auto simp: get_subscription_snapshot_def snapshot_writes_def Let_def)
  qed
qed

lemma apply_purchase_sessions:
  assumes "apply_purchase now s meta db = (r, db')"
  shows "sb_sessions db' = sb_sessions db"
proof (cases "is_standard_plan (JStr (normalize_plan_id (JStr (ps_plan s)) ''trial''))")
  case True
  obtain q db1 where q: "get_subscription_snapshot now (ps_company s) db = (q, db1)"
    by (cases "get_subscription_snapshot now (ps_company s) db")
  obtain p db2 where p: "get_company_and_cycle (ps_company s) (set_plan (ps_company s) ''standard'' db1) = (p, db2)"
    by (cases "get_company_and_cycle (ps_company s) (set_plan (ps_company s) ''standard'' db1)")
  show ?thesis
    using assms True q p snapshot_sessions [OF q] company_and_cycle_sessions [OF p]
    by (auto simp: apply_purchase_def Let_def split: sum.splits)
next
  case False
  obtain p db2 where p: "get_company_and_cycle (ps_company s) (set_plan (ps_company s) ''trial'' db) = (p, db2)"
    by (cases "get_company_and_cycle (ps_company s) (set_plan (ps_company s) ''trial'' db)")
  show ?thesis
    using assms False p company_and_cycle_sessions [OF p]
    by (auto simp: apply_purchase_def Let_def split: sum.splits if_splits)
qed

section \<open>Settled sessions\<close>

definition settled :: "pay_session \<Rightarrow> bool" where
  "settled s = (ps_status s \<in> {''success'', ''failed'', ''cancelled'', ''expired''})"

definition keeps :: "sub_db \<Rightarrow> sub_db \<Rightarrow> bool" where
  "keeps db db' =
     (\<forall>s \<in> set (sb_sessions db). \<exists>s' \<in> set (sb_sessions db'). ps_id s' = ps_id s
        \<and> (settled s \<longrightarrow> ps_status s' = ps_status s \<and> ps_paid s' = ps_paid s))"

lemma keeps_same: "sb_sessions db' = sb_sessions db \<Longrightarrow> keeps db db'"
  by (auto simp: keeps_def)

lemma keeps_trans:
  assumes "keeps a b" and "keeps b c"
  shows "keeps a c"
  unfolding keeps_def
proof
  fix s assume "s \<in> set (sb_sessions a)"
  with assms(1) obtain s' where s': "s' \<in> set (sb_sessions b)" "ps_id s' = ps_id s"
    "settled s \<longrightarrow> ps_status s' = ps_status s \<and> ps_paid s' = ps_paid s" by (auto simp: keeps_def)
  with assms(2) obtain s'' where "s'' \<in> set (sb_sessions c)" "ps_id s'' = ps_id s'"
    "settled s' \<longrightarrow> ps_status s'' = ps_status s' \<and> ps_paid s'' = ps_paid s'" by (auto simp: keeps_def)
  with s' show "\<exists>s'' \<in> set (sb_sessions c). ps_id s'' = ps_id s
      \<and> (settled s \<longrightarrow> ps_status s'' = ps_status s \<and> ps_paid s'' = ps_paid s)"
    by (intro bexI [of _ s'']) (auto simp: settled_def)
qed

lemma keeps_update:
  assumes "\<And>r. ps_id (f r) = ps_id r"
    and "\<And>r. r \<in> set (sb_sessions db) \<Longrightarrow> ps_id r = i \<Longrightarrow> settled r \<Longrightarrow>
      ps_status (f r) = ps_status r \<and> ps_paid (f r) = ps_paid r"
  shows "keeps db (update_session i f db)"
  unfolding keeps_def
proof
  fix s assume s: "s \<in> set (sb_sessions db)"
  show "\<exists>s' \<in> set (sb_sessions (update_session i f db)). ps_id s' = ps_id s
      \<and> (settled s \<longrightarrow> ps_status s' = ps_status s \<and> ps_paid s' = ps_paid s)"
  proof (cases "ps_id s = i")
    case True
    have "f s \<in> set (sb_sessions (update_session i f db))"
      unfolding update_session_frame by (rule update_affected [OF s]) (rule True)
    then show ?thesis by (rule rev_bexI) (use s True assms in auto)
  next
    case False
    have "s \<in> set (sb_sessions (update_session i f db))"
      unfolding update_session_frame by (rule update_unaffected [OF s]) (rule False)
    then show ?thesis by (rule rev_bexI) simp
  qed
qed

definition session_ids :: "sub_db \<Rightarrow> ident list" where
  "session_ids db = map ps_id (sb_sessions db)"

lemma session_ids_update: "(\<And>r. ps_id (f r) = ps_id r) \<Longrightarrow> session_ids (update_session i f db) = session_ids db"
  by (simp add: session_ids_def map_update_where)

lemma metadata_keeps:
  "keeps db (snd (update_payment_session_metadata i patch db))
   \<and> session_ids (snd (update_payment_session_metadata i patch db)) = session_ids db"
  by (auto simp: update_payment_session_metadata_def Let_def session_ids_update split: option.splits
      intro: keeps_same keeps_update)

text \<open>What a completion does to the sessions.\<close>

lemma complete_sessions:
  obtains (same) "sb_sessions (snd (complete_upgrade now i status options db)) = sb_sessions db"
  | (resolved) s result meta paid where "get_payment_session i db = Some s" "\<not> settled s"
      "sb_sessions (snd (complete_upgrade now i status options db))
        = sb_sessions (update_session i (resolve_session result meta paid) db)"
proof (cases "get_payment_session i db")
  case None
  then show thesis by (intro same) (simp add: complete_upgrade_def)
next
  case (Some s)
  define details where "details = normalize_metadata (jget options ''gatewayDetails'')"
  define meta where "meta = gateway_metadata now details status options (ps_meta s)"
  define m where "m = (\<lambda>result. merge_metadata (JObj meta) (resolution now result status options))"
  define db1 where "db1 = update_session i (resolve_session ''success'' (m ''paid'') (Some (paid_time now details))) db"
  obtain r db2 where p: "apply_purchase now s meta db1 = (r, db2)" by (cases "apply_purchase now s meta db1")
  note kept = apply_purchase_sessions [OF p]
  note defs = complete_upgrade_def Some Let_def details_def [symmetric] meta_def [symmetric]
  show thesis
  proof (cases "settled s")
    case True
    then show thesis by (intro same) (auto simp: defs settled_def)
  next
    case False
    then have open_status: "ps_status s \<noteq> ''success''" "\<not> (ps_status s = ''failed'' \<or> ps_status s = ''cancelled'' \<or> ps_status s = ''expired'')"
      by (simp_all add: settled_def)
    have "sb_sessions (snd (complete_upgrade now i status options db)) = sb_sessions db
      \<or> (\<exists>result meta paid. sb_sessions (snd (complete_upgrade now i status options db))
          = sb_sessions (update_session i (resolve_session result meta paid) db))"
    proof (cases r)
      case (Inl e)
      then show ?thesis using p unfolding db1_def m_def
        by (simp only: defs option.case open_status if_False push_event_frame fst_conv snd_conv
            sum.case prod.case split: if_split) auto
    next
      case (Inr x)
      then show ?thesis using p kept unfolding db1_def m_def
        by (simp only: defs option.case open_status if_False push_event_frame fst_conv snd_conv
            sum.case prod.case split: if_split) auto
    qed
    with False Some same resolved show thesis by blast
  qed
qed

lemma session_unique:
  assumes "distinct (session_ids db)" and "get_payment_session i db = Some s"
    and "r \<in> set (sb_sessions db)" and "ps_id r = i"
  shows "r = s"
  using assms select_one_Some [of "\<lambda>s. ps_id s = i" "sb_sessions db" s]
  by (auto simp: session_ids_def get_payment_session_def dest: unique_key)

lemma resolve_session_id [simp]: "ps_id (resolve_session a b c s) = ps_id s"
  by (simp add: resolve_session_def)

lemma complete_keeps:
  assumes "distinct (session_ids db)"
  shows "keeps db (snd (complete_upgrade now i status options db))
    \<and> session_ids (snd (complete_upgrade now i status options db)) = session_ids db"
proof (rule complete_sessions [of now i status options db])
  assume "sb_sessions (snd (complete_upgrade now i status options db)) = sb_sessions db"
  then show ?thesis by (simp add: keeps_same session_ids_def)
next
  fix s result meta paid
  assume s: "get_payment_session i db = Some s" "\<not> settled s"
    and eq: "sb_sessions (snd (complete_upgrade now i status options db))
      = sb_sessions (update_session i (resolve_session result meta paid) db)"
  have "keeps db (update_session i (resolve_session result meta paid) db)"
    by (rule keeps_update) (use session_unique [OF assms s(1)] s(2) in auto)
  with eq show ?thesis
    by (simp add: keeps_def session_ids_def map_update_where)
qed

definition expire_pending :: "pay_session \<Rightarrow> pay_session" where
  "expire_pending r = (if ps_status r = ''pending'' then r\<lparr>ps_status := ''expired''\<rparr> else r)"

lemma expire_pending_simps [simp]:
  "ps_id (expire_pending r) = ps_id r" "ps_paid (expire_pending r) = ps_paid r"
  "settled r \<Longrightarrow> ps_status (expire_pending r) = ps_status r"
  by (auto simp: expire_pending_def settled_def)

lemma reread_db [simp]: "snd (reread i db) = db"
  by (simp add: reread_def)

lemma complete_and_reread_db:
  "snd (complete_and_reread now i c opts db) = snd (complete_upgrade now i (JStr c) opts db)"
  by (simp add: complete_and_reread_def split: prod.split sum.split)

lemma gateway_answer_db:
  "(\<exists>patch. snd (apply_gateway_answer hmac env now i s request_id answer db)
      = snd (update_payment_session_metadata i patch db))
   \<or> (\<exists>c opts. snd (apply_gateway_answer hmac env now i s request_id answer db)
      = snd (complete_upgrade now i c opts db))"
proof -
  define p where "p = (if is_object answer then answer else JObj [])"
  show ?thesis
    unfolding apply_gateway_answer_def Let_def p_def [symmetric] if_distrib [of snd] snd_conv reread_db
      complete_and_reread_db
    by (split if_split)+ blast
qed

text \<open>Reconciling ends in one of four ways.\<close>

lemma reconcile_cases:
  obtains (same) "snd (reconcile_pending_payment_session hmac env gateway now random i options db) = db"
  | (noted) patch where "snd (reconcile_pending_payment_session hmac env gateway now random i options db)
      = snd (update_payment_session_metadata i patch db)"
  | (expired) patch where "snd (reconcile_pending_payment_session hmac env gateway now random i options db)
      = update_session i expire_pending (snd (update_payment_session_metadata i patch db))"
  | (completed) status opts where "snd (reconcile_pending_payment_session hmac env gateway now random i options db)
      = snd (complete_upgrade now i status opts db)"
proof (cases "get_payment_session i db")
  case None
  then show thesis by (intro same) (simp add: reconcile_pending_payment_session_def)
next
  case (Some s)
  define go where "go = reconcile_pending_payment_session hmac env gateway now random i options db"
  note def = reconcile_pending_payment_session_def Some go_def [symmetric]
  note finish = same [unfolded go_def [symmetric]] noted [unfolded go_def [symmetric]]
    expired [unfolded go_def [symmetric]] completed [unfolded go_def [symmetric]]
  show thesis
  proof (cases "to_public_payment_status (ps_status s) \<noteq> ''pending''")
    case True
    then have "snd go = db" by (simp add: go_def reconcile_pending_payment_session_def Some)
    then show thesis by (rule finish(1))
  next
    case pending: False
    show thesis
    proof (cases "is_payment_session_expired now (Some (ps_expires s))")
      case True
      have "snd go = update_session i expire_pending (snd (update_payment_session_metadata i
          [(''vnpay_last_checked_at'', JStr (iso_string now)),
           (''last_payment_resolution'', JObj [(''source'', JStr ''querydr''), (''status'', JStr ''expired'')])] db))"
        using pending True
        by (simp add: go_def reconcile_pending_payment_session_def Some Let_def expire_pending_def [abs_def])
      then show thesis by (rule finish(3))
    next
      case live: False
      show thesis
      proof (cases "get_vnpay_mode env = ''mock'' \<or> recently_checked now (ps_meta s)")
        case True
        with pending live have "snd go = db"
          by (auto simp: go_def reconcile_pending_payment_session_def Some)
        then show thesis by (rule finish(1))
      next
        case ask: False
        show thesis
        proof (cases "build_vnpay_query_request hmac env now random (session_value s) options")
          case (Inl e)
          with pending live ask have "\<exists>patch. snd go = snd (update_payment_session_metadata i patch db)"
            by (auto simp: go_def reconcile_pending_payment_session_def Some)
          then show thesis using finish(2) by blast
        next
          case (Inr request)
          show thesis
          proof (cases "gateway request")
            case None
            with pending live ask Inr have "\<exists>patch. snd go = snd (update_payment_session_metadata i patch db)"
              by (auto simp: go_def reconcile_pending_payment_session_def Some)
            then show thesis using finish(2) by blast
          next
            case (Some answer)
            have go: "snd go = snd (apply_gateway_answer hmac env now i s (own request ''vnp_RequestId'') answer db)"
              using pending live ask Inr Some
              unfolding go_def reconcile_pending_payment_session_def \<open>get_payment_session i db = Some s\<close>
              by simp
            have "(\<exists>patch. snd go = snd (update_payment_session_metadata i patch db))
                \<or> (\<exists>c opts. snd go = snd (complete_upgrade now i c opts db))"
              unfolding go by (rule gateway_answer_db)
            then show thesis using finish(2,4) by blast
          qed
        qed
      qed
    qed
  qed
qed

lemma reconcile_keeps:
  assumes "distinct (session_ids db)"
  shows "keeps db (snd (reconcile_pending_payment_session hmac env gateway now random i options db))
    \<and> session_ids (snd (reconcile_pending_payment_session hmac env gateway now random i options db)) = session_ids db"
proof (rule reconcile_cases [of hmac env gateway now random i options db])
  fix patch assume eq: "snd (reconcile_pending_payment_session hmac env gateway now random i options db)
      = update_session i expire_pending (snd (update_payment_session_metadata i patch db))"
  let ?db1 = "snd (update_payment_session_metadata i patch db)"
  have "keeps ?db1 (update_session i expire_pending ?db1)" by (rule keeps_update) simp_all
  with metadata_keeps [of db i patch] have "keeps db (update_session i expire_pending ?db1)"
    by (blast intro: keeps_trans)
  then show ?thesis using eq metadata_keeps [of db i patch] by (simp add: session_ids_update)
qed (use complete_keeps [OF assms] metadata_keeps in \<open>simp_all add: keeps_same\<close>)

lemma status_db:
  "snd (get_payment_status hmac env gateway now random i company options db)
     \<in> {db, snd (reconcile_pending_payment_session hmac env gateway now random i options db)}"
  by (auto simp: get_payment_status_def Let_def split: option.splits prod.splits sum.splits)

lemma open_session_id:
  "open_session hmac env now random i user company target plan billing provider ctx package sn = Inr s \<Longrightarrow> ps_id s = i"
  by (auto simp: open_session_def Let_def split: if_splits)

lemma upgrade_sessions:
  assumes "upgrade_subscription hmac env now random i user company target billing provider context db = (r, db')"
  shows "sb_sessions db' = sb_sessions db \<or> (\<exists>s. ps_id s = i \<and> sb_sessions db' = sb_sessions db @ [s])"
proof -
  obtain q db1 where q: "get_subscription_snapshot now company db = (q, db1)"
    by (cases "get_subscription_snapshot now company db")
  note kept = snapshot_sessions [OF q]
  show ?thesis
    using assms q kept
    by (auto simp: upgrade_subscription_def Let_def split: option.splits if_splits sum.splits dest: open_session_id)
qed

inductive sub_step :: "hmac \<Rightarrow> props \<Rightarrow> (props \<Rightarrow> jsval option) \<Rightarrow> sub_db \<Rightarrow> sub_db \<Rightarrow> bool"
  for hmac env gateway where
  read: "get_subscription now products members company db = (r, db') \<Longrightarrow> sub_step hmac env gateway db db'"
| buy: "i \<notin> set (session_ids db) \<Longrightarrow>
    upgrade_subscription hmac env now random i user company target billing provider context db = (r, db') \<Longrightarrow>
    sub_step hmac env gateway db db'"
| annotate: "update_payment_session_metadata i patch db = (m, db') \<Longrightarrow> sub_step hmac env gateway db db'"
| complete: "complete_upgrade now i status options db = (c, db') \<Longrightarrow> sub_step hmac env gateway db db'"
| poll: "get_payment_status hmac env gateway now random i company options db = (p, db') \<Longrightarrow>
    sub_step hmac env gateway db db'"

lemma sub_step_keeps:
  assumes "sub_step hmac env gateway db db'" and "distinct (session_ids db)"
  shows "keeps db db' \<and> distinct (session_ids db')"
  using assms
proof (induction rule: sub_step.induct)
  case (read now products members company db r db')
  obtain q db1 where q: "get_subscription_snapshot now company db = (q, db1)"
    by (cases "get_subscription_snapshot now company db")
  with read have "db' = db1" by (auto simp: get_subscription_def Let_def split: sum.splits)
  with snapshot_sessions [OF q] read show ?case by (simp add: keeps_same session_ids_def)
next
  case (buy i db now random user company target billing provider ctx r db')
  from upgrade_sessions [OF buy(2)] buy(1,3) show ?case by (auto simp: keeps_def session_ids_def)
next
  case (annotate i patch db m db')
  then show ?case using metadata_keeps [of db i patch] by simp
next
  case (complete now i status options db c db')
  then show ?case using complete_keeps [OF complete(2), of now i status options] by simp
next
  case (poll now random i company options db p db')
  then show ?case
    using status_db [of hmac env gateway now random i company options db]
      reconcile_keeps [OF poll(2), of hmac env gateway now random i options]
    by (auto simp: keeps_same)
qed

section \<open>Rows after an update\<close>

lemma session_select_update:
  assumes "\<And>r. k (f r) = k r"
  shows "select_one (\<lambda>r. k r = x) (update_where (\<lambda>r. k r = x) f rows) = map_option f (select_one (\<lambda>r. k r = x) rows)"
  using assms by (induction rows) auto

definition company_of :: "ident \<Rightarrow> sub_db \<Rightarrow> company_row option" where
  "company_of c db = select_one (\<lambda>r. co_id r = c) (sb_companies db)"

definition cycle_of :: "ident \<Rightarrow> sub_db \<Rightarrow> cycle_row option" where
  "cycle_of c db = select_one (\<lambda>r. cy_company r = c) (sb_cycles db)"

lemma company_of_simps [simp]:
  "company_of c (set_plan c p db) = map_option (co_plan_update (\<lambda>_. p)) (company_of c db)"
  "company_of c (update_cycle c' g db) = company_of c db"
  by (simp_all add: company_of_def set_plan_def session_select_update update_cycle_def)

lemma cycle_of_simps [simp]:
  "(\<And>r. cy_company (g r) = cy_company r) \<Longrightarrow> cycle_of c (update_cycle c g db) = map_option g (cycle_of c db)"
  "cycle_of c (set_plan c' p db) = cycle_of c db"
  by (simp_all add: cycle_of_def update_cycle_def session_select_update set_plan_def)

lemma get_company_and_cycle_found:
  "company_of c db = Some co \<Longrightarrow> cycle_of c db = Some cy \<Longrightarrow> get_company_and_cycle c db = (Inr (co, cy), db)"
  by (simp add: get_company_and_cycle_def company_of_def cycle_of_def)

lemma get_company_and_cycle_Inr:
  assumes "get_company_and_cycle c db = (Inr (co, cy), db')"
  shows "company_of c db' = Some co" "cycle_of c db' = Some cy" "company_of c db = Some co"
proof -
  obtain co' where co': "company_of c db = Some co'"
    using assms by (cases "company_of c db") (simp_all add: get_company_and_cycle_def company_of_def)
  then have key: "co_id co' = c" unfolding company_of_def by (rule select_one_Some [THEN conjunct1])
  have "company_of c db' = Some co \<and> cycle_of c db' = Some cy \<and> co' = co"
  proof (cases "cycle_of c db")
    case None
    with assms co' have "co' = co" "cy = new_cycle co'" "db' = db\<lparr>sb_cycles := sb_cycles db @ [new_cycle co']\<rparr>"
      unfolding get_company_and_cycle_def company_of_def cycle_of_def by auto
    moreover have "cy_company (new_cycle co') = c" using key by (simp add: new_cycle_def)
    ultimately show ?thesis using co' None by (simp add: company_of_def cycle_of_def select_append_one)
  next
    case (Some cy')
    with assms co' show ?thesis by (simp add: get_company_and_cycle_def company_of_def cycle_of_def)
  qed
  with co' show "company_of c db' = Some co" "cycle_of c db' = Some cy" "company_of c db = Some co" by simp_all
qed

section \<open>Reading a subscription\<close>

lemma infer_positive: "0 < infer_legacy_standard_sku_limit v 20"
  by (simp add: infer_legacy_standard_sku_limit_def Let_def)

text \<open>The rows a snapshot leaves.\<close>

definition cycle_after :: "millis \<Rightarrow> string \<Rightarrow> cycle_row \<Rightarrow> cycle_row" where
  "cycle_after now raw cy =
     cy\<lparr>cy_sku := if sku_inferred raw cy then sku_read raw cy else cy_sku cy,
        cy_std_start := start_read now raw cy, cy_std_end := finish_read now raw cy\<rparr>"

lemma cycle_after_simps [simp]:
  "cy_sku (cycle_after now raw cy) = (if sku_inferred raw cy then sku_read raw cy else cy_sku cy)"
  "cy_std_start (cycle_after now raw cy) = start_read now raw cy"
  "cy_std_end (cycle_after now raw cy) = finish_read now raw cy"
  "cy_trial_end (cycle_after now raw cy) = cy_trial_end cy"
  by (simp_all add: cycle_after_def)

lemma snapshot_writes_rows:
  assumes "company_of c db = Some co" and "cycle_of c db = Some cy"
  shows "company_of c (snapshot_writes now c (co_plan co) cy db) = Some (co\<lparr>co_plan := plan_now now (co_plan co) cy\<rparr>)"
    "cycle_of c (snapshot_writes now c (co_plan co) cy db) = Some (cycle_after now (co_plan co) cy)"
  using assms
  by (auto simp: snapshot_writes_def Let_def plan_now_def cycle_after_def start_read_def finish_read_def)

lemma plan_read_plan_read: "plan_read (plan_read raw) = plan_read raw"
  by (rule normalize_known [of "JStr raw"]) (simp_all add: plan_read_def)

lemma plan_read_trial [simp]: "plan_read ''trial'' = ''trial''" "\<not> is_standard_plan (JStr ''trial'')"
  by (simp_all add: plan_read_def is_standard_plan_def standard_plan_ids_def)

text \<open>A second reading finds nothing left to write.\<close>

lemma settled_reading:
  assumes "raw' = plan_now now raw cy" and "cy' = cycle_after now raw cy"
  shows "plan_read raw' = raw'" "\<not> sku_inferred raw' cy'" "\<not> open_ended raw' cy'" "\<not> lapsed now raw' cy'"
    "sku_read raw' cy' = sku_read raw cy" "finish_read now raw' cy' = finish_read now raw cy"
    "plan_now now raw' cy' = raw'" "cy_trial_end cy' = cy_trial_end cy"
proof -
  have end_set: "finish_read now raw cy \<noteq> None" if "is_standard_plan (JStr (plan_read raw))"
    using that by (cases "cy_std_end cy") (simp_all add: finish_read_def start_read_def open_ended_def)
  show p: "plan_read raw' = raw'" using assms(1) plan_read_plan_read by (simp add: plan_now_def)
  have std: "is_standard_plan (JStr raw') \<Longrightarrow> is_standard_plan (JStr (plan_read raw)) \<and> raw' = plan_read raw \<and> \<not> lapsed now raw cy"
    using assms(1) by (auto simp: plan_now_def split: if_splits)
  show sku: "\<not> sku_inferred raw' cy'"
    using std infer_positive [of "JStr raw"] assms(2)
    by (auto simp: sku_inferred_def p sku_read_def)
  show oe: "\<not> open_ended raw' cy'"
    using std end_set assms(2) by (auto simp: open_ended_def p)
  then have fin: "finish_read now raw' cy' = finish_read now raw cy"
    unfolding finish_read_def [of now raw' cy'] by (simp add: assms(2))
  then show "finish_read now raw' cy' = finish_read now raw cy" .
  show "\<not> lapsed now raw' cy'" using std fin by (auto simp: lapsed_def p)
  then show "plan_now now raw' cy' = raw'" by (simp add: plan_now_def p)
  show "sku_read raw' cy' = sku_read raw cy"
    unfolding sku_read_def [of raw' cy'] using sku infer_positive [of "JStr raw"]
    by (simp add: assms(2)) (simp add: sku_read_def)
  show "cy_trial_end cy' = cy_trial_end cy" by (simp add: assms(2))
qed

text \<open>Reading a subscription settles it: whatever the rows hold (an old plan name, no SKU limit, a
  standard plan without an end, a lapsed one), a second reading at the same time finds the plan, the limit
  and the lock that the first one reported and changes nothing.\<close>

theorem snapshot_is_stable:
  assumes "get_subscription_snapshot now company db = (Inr sn, db')"
  shows "\<exists>sn'. get_subscription_snapshot now company db' = (Inr sn', db') \<and> sn_plan sn' = sn_plan sn
    \<and> sn_sku sn' = sn_sku sn \<and> sn_locked sn' = sn_locked sn \<and> sn_std_end sn' = sn_std_end sn"
proof -
  obtain r db1 where r: "get_company_and_cycle company db = (r, db1)" by (cases "get_company_and_cycle company db")
  have "\<exists>x. r = Inr x" using assms by (cases r) (simp_all add: get_subscription_snapshot_def r)
  with r obtain co cy where q: "get_company_and_cycle company db = (Inr (co, cy), db1)" by auto
  let ?raw = "co_plan co" and ?cy = "cycle_after now (co_plan co) cy"
  from assms q have sn: "sn = snapshot_of now ?raw cy" and db': "db' = snapshot_writes now company ?raw cy db1"
    by (simp_all add: get_subscription_snapshot_def)
  have found: "get_company_and_cycle company db' = (Inr (co\<lparr>co_plan := plan_now now ?raw cy\<rparr>, ?cy), db')"
    unfolding db' using get_company_and_cycle_Inr [OF q]
    by (intro get_company_and_cycle_found snapshot_writes_rows) simp_all
  note s = settled_reading [OF refl refl, of now ?raw cy]
  have "snapshot_writes now company (plan_now now ?raw cy) ?cy db' = db'"
    unfolding snapshot_writes_def Let_def using s by simp
  with found s sn show ?thesis
    by (simp add: get_subscription_snapshot_def snapshot_of_def)
qed

definition demo_company :: company_row where
  "demo_company = \<lparr>co_id = ''c'', co_plan = ''standard_35'', co_created = 0\<rparr>"

definition demo_sub :: sub_db where
  "demo_sub = \<lparr>sb_companies = [demo_company], sb_cycles = [new_cycle demo_company], sb_roles = [],
     sb_sessions = [\<lparr>ps_id = ''s'', ps_company = ''c'', ps_user = ''u'', ps_plan = ''standard'',
       ps_cycle = ''monthly'', ps_provider = JStr ''vnpay'', ps_amount = 899000, ps_status = ''success'',
       ps_url = [], ps_ref = ''r'', ps_expires = 1000, ps_paid = Some 5, ps_meta = []\<rparr>], sb_events = []\<rparr>"

theorem snapshot_is_stable_witness:
  "\<exists>sn db' sn'. get_subscription_snapshot 7 ''c'' demo_sub = (Inr sn, db')
     \<and> get_subscription_snapshot 7 ''c'' db' = (Inr sn', db') \<and> sn_plan sn' = sn_plan sn"
proof -
  have "company_of ''c'' demo_sub = Some demo_company" "cycle_of ''c'' demo_sub = Some (new_cycle demo_company)"
    by (simp_all add: company_of_def cycle_of_def demo_sub_def) (simp_all add: demo_company_def new_cycle_def)
  note found = get_company_and_cycle_found [OF this]
  obtain sn db' where s: "get_subscription_snapshot 7 ''c'' demo_sub = (Inr sn, db')"
    unfolding get_subscription_snapshot_def found prod.case sum.case by blast
  from snapshot_is_stable [OF this] s show ?thesis by blast
qed

section \<open>Payments\<close>

text \<open>C22: a settled payment session is final: whoever buys, polls, annotates or completes sessions in
  whatever order, a session that has succeeded, failed, been cancelled or expired keeps its status and
  the time it was paid.\<close>

theorem payment_status_final:
  assumes "(sub_step hmac env gateway)\<^sup>*\<^sup>* db db'" and "distinct (session_ids db)"
    and "get_payment_session i db = Some s" and "settled s"
  shows "\<exists>s'. get_payment_session i db' = Some s' \<and> ps_status s' = ps_status s \<and> ps_paid s' = ps_paid s"
proof -
  have "keeps db db' \<and> distinct (session_ids db')"
    using assms(1,2)
  proof (induction rule: rtranclp_induct)
    case (step b c)
    then show ?case using sub_step_keeps by (blast intro: keeps_trans)
  qed (simp add: keeps_same)
  then have kept: "keeps db db'" and d: "distinct (session_ids db')" by simp_all
  have s: "ps_id s = i \<and> s \<in> set (sb_sessions db)"
    using assms(3) unfolding get_payment_session_def by (rule select_one_Some)
  with kept obtain s' where s': "s' \<in> set (sb_sessions db')" "ps_id s' = i" "ps_status s' = ps_status s"
    "ps_paid s' = ps_paid s"
    using assms(4) unfolding keeps_def by blast
  from s'(1,2) have "get_payment_session i db' \<noteq> None"
    unfolding get_payment_session_def select_one_None by blast
  then obtain s'' where "get_payment_session i db' = Some s''" by blast
  with session_unique [OF d this s'(1,2)] s' show ?thesis by blast
qed

theorem payment_status_final_witness:
  "\<exists>s'. get_payment_session ''s'' (snd (complete_upgrade 9 ''s'' (JStr ''99'') JUndef demo_sub)) = Some s'
     \<and> ps_status s' = ''success'' \<and> ps_paid s' = Some 5"
proof -
  let ?db = "snd (complete_upgrade 9 ''s'' (JStr ''99'') JUndef demo_sub)"
  have "sub_step demo_hmac512 demo_env (\<lambda>r. None) demo_sub ?db"
    by (rule sub_step.complete [of 9 "''s''" "JStr ''99''" JUndef demo_sub
          "fst (complete_upgrade 9 ''s'' (JStr ''99'') JUndef demo_sub)"]) simp
  then have "(sub_step demo_hmac512 demo_env (\<lambda>r. None))\<^sup>*\<^sup>* demo_sub ?db" by (rule r_into_rtranclp)
  from payment_status_final [OF this, of "''s''" "hd (sb_sessions demo_sub)"] show ?thesis
    by (simp add: demo_sub_def session_ids_def get_payment_session_def settled_def)
qed

lemma purchase_failed_frame:
  assumes "complete_upgrade now i status options db = (r, db')" and "\<And>p l. r \<noteq> Inr (Updated p l)"
  shows "sb_companies db' = sb_companies db \<and> sb_cycles db' = sb_cycles db"
  using assms
  by (auto simp: complete_upgrade_def Let_def split: option.splits if_splits prod.splits sum.splits)

text \<open>\<open>genuine_payment\<close>: the session may still be paid (neither settled nor expired), the gateway's codes say
  success, and the amount the gateway names is the one of the session. A gateway that names no amount,
  or zero, is not compared.\<close>

definition genuine_payment :: "millis \<Rightarrow> ident \<Rightarrow> jsval \<Rightarrow> jsval \<Rightarrow> sub_db \<Rightarrow> pay_session \<Rightarrow> bool" where
  "genuine_payment now i status options db s =
     (get_payment_session i db = Some s \<and> \<not> settled s \<and> now \<le> ps_expires s
      \<and> is_successful_vnpay_result status (JStr (trim (str_or_empty (jget options ''transactionStatus''))))
      \<and> (let a = num_or_zero (own (normalize_metadata (jget options ''gatewayDetails'')) ''amount'')
         in \<not> truthy (JNum a) \<or> num_eq a (expected_amount s)))"

lemma updated_genuine:
  assumes "complete_upgrade now i status options db = (Inr (Updated p l), db')"
  obtains s where "genuine_payment now i status options db s"
proof -
  from assms obtain s where s: "get_payment_session i db = Some s"
    by (cases "get_payment_session i db") (simp_all add: complete_upgrade_def)
  have "\<not> settled s \<and> \<not> is_payment_session_expired now (Some (ps_expires s))
    \<and> is_successful_vnpay_result status (JStr (trim (str_or_empty (jget options ''transactionStatus''))))
    \<and> (let a = num_or_zero (own (normalize_metadata (jget options ''gatewayDetails'')) ''amount'')
       in \<not> truthy (JNum a) \<or> num_eq a (expected_amount s))"
    using assms unfolding complete_upgrade_def s option.case Let_def settled_def
    by (simp split: if_splits)
  with s have "genuine_payment now i status options db s"
    by (simp add: genuine_payment_def is_payment_session_expired_def not_less)
  then show thesis by (rule that)
qed

text \<open>The rows of a company, and what a reading at the time \<open>now\<close> makes of them: an old plan name is
  replaced by its new one, a standard plan without an end or a limit gets one, and a standard plan that
  has ended becomes a trial. A company without a billing cycle gets the one of a new trial.\<close>

definition standing :: "ident \<Rightarrow> sub_db \<Rightarrow> company_row option \<times> cycle_row option" where
  "standing c db = (company_of c db, cycle_of c db)"

definition cycle_or_new :: "ident \<Rightarrow> company_row \<Rightarrow> sub_db \<Rightarrow> cycle_row" where
  "cycle_or_new c co db = (case cycle_of c db of Some cy \<Rightarrow> cy | None \<Rightarrow> new_cycle co)"

definition read_standing :: "millis \<Rightarrow> ident \<Rightarrow> company_row \<Rightarrow> sub_db \<Rightarrow> company_row option \<times> cycle_row option" where
  "read_standing now c co db =
     (let cy = cycle_or_new c co db
      in (Some (co\<lparr>co_plan := plan_now now (co_plan co) cy\<rparr>), Some (cycle_after now (co_plan co) cy)))"

lemma select_update_other:
  assumes "\<And>r. k (f r) = k r" and "x \<noteq> y"
  shows "select_one (\<lambda>r. k r = x) (update_where (\<lambda>r. k r = y) f rows) = select_one (\<lambda>r. k r = x) rows"
  using assms by (induction rows) auto

lemma standing_frame [simp]:
  "standing c (push_event e db) = standing c db"
  "standing c (update_session i f db) = standing c db"
  "standing c (db\<lparr>sb_sessions := ss\<rparr>) = standing c db"
  by (simp_all add: standing_def company_of_def cycle_of_def push_event_def update_session_def)

lemma standing_other:
  assumes "c \<noteq> company"
  shows "standing c (set_plan company p db) = standing c db"
    and "(\<And>r. cy_company (f r) = cy_company r) \<Longrightarrow> standing c (update_cycle company f db) = standing c db"
    and "standing c (snd (get_company_and_cycle company db)) = standing c db"
    and "standing c (snapshot_writes now company raw cy db) = standing c db"
proof -
  show plan: "standing c (set_plan company p db) = standing c db" for p db
    using assms by (simp add: standing_def company_of_def cycle_of_def set_plan_def select_update_other)
  show cycle: "standing c (update_cycle company f db) = standing c db"
    if "\<And>r. cy_company (f r) = cy_company r" for f db
    using assms that by (simp add: standing_def company_of_def cycle_of_def update_cycle_def select_update_other)
  show "standing c (snd (get_company_and_cycle company db)) = standing c db"
    using assms
    by (auto simp: get_company_and_cycle_def standing_def company_of_def cycle_of_def select_append_one
        new_cycle_def dest: select_one_Some split: option.splits)
  show "standing c (snapshot_writes now company raw cy db) = standing c db"
    by (simp add: snapshot_writes_def Let_def plan cycle)
qed

lemma get_company_and_cycle_new:
  assumes "get_company_and_cycle c db = (Inr (co, cy), db')"
  shows "cy = cycle_or_new c co db"
  using assms
  by (auto simp: get_company_and_cycle_def cycle_or_new_def cycle_of_def split: option.splits)

lemma snapshot_standing:
  assumes "get_subscription_snapshot now company db = (r, db')"
  shows "standing c db' = standing c db
    \<or> (\<exists>co. company_of c db = Some co \<and> standing c db' = read_standing now c co db)"
proof -
  obtain q db1 where q: "get_company_and_cycle company db = (q, db1)" by (cases "get_company_and_cycle company db")
  show ?thesis
  proof (cases q)
    case (Inl e)
    with q have "db1 = db" by (auto simp: get_company_and_cycle_def split: option.splits)
    with assms q Inl show ?thesis by (simp add: get_subscription_snapshot_def)
  next
    case (Inr x)
    then obtain co cy where x: "q = Inr (co, cy)" by (cases x) simp
    with assms q have db': "db' = snapshot_writes now company (co_plan co) cy db1"
      by (simp add: get_subscription_snapshot_def)
    show ?thesis
    proof (cases "c = company")
      case False
      then show ?thesis
        using standing_other(3) [OF False, of db] q by (simp add: db' standing_other(4))
    next
      case True
      note rows = get_company_and_cycle_Inr [OF q [unfolded x]]
      have "cy = cycle_or_new company co db"
        by (rule get_company_and_cycle_new) (rule q [unfolded x])
      then have "standing c db' = read_standing now c co db"
        using snapshot_writes_rows [OF rows(1,2), of now] True
        by (simp add: standing_def read_standing_def db' Let_def)
      with rows(3) True show ?thesis by blast
    qed
  qed
qed

lemma purchase_standing_other:
  assumes "apply_purchase now s meta db = (r, db')" and "c \<noteq> ps_company s"
  shows "standing c db' = standing c db"
proof -
  let ?company = "ps_company s"
  obtain q db1 where q: "get_subscription_snapshot now ?company db = (q, db1)"
    by (cases "get_subscription_snapshot now ?company db")
  have one: "standing c db1 = standing c db"
    using q standing_other(3) [OF assms(2), of db] standing_other(4) [OF assms(2)]
    by (auto simp: get_subscription_snapshot_def split: prod.splits sum.splits)
  obtain p2 db2 where p2: "get_company_and_cycle ?company (set_plan ?company ''standard'' db1) = (p2, db2)"
    by (cases "get_company_and_cycle ?company (set_plan ?company ''standard'' db1)")
  have two: "standing c db2 = standing c db"
    using standing_other(3) [OF assms(2), of "set_plan ?company ''standard'' db1"] one
    by (simp add: p2 standing_other(1) [OF assms(2)])
  obtain p3 db3 where p3: "get_company_and_cycle ?company (set_plan ?company ''trial'' db) = (p3, db3)"
    by (cases "get_company_and_cycle ?company (set_plan ?company ''trial'' db)")
  have three: "standing c db3 = standing c db"
    using standing_other(3) [OF assms(2), of "set_plan ?company ''trial'' db"]
    by (simp add: p3 standing_other(1) [OF assms(2)])
  show ?thesis
    using assms(1) one two three standing_other(2) [OF assms(2)]
    by (auto simp: apply_purchase_def Let_def q p2 p3 split: if_splits sum.splits prod.splits)
qed

lemma complete_standing:
  assumes "complete_upgrade now i status options db = (r, db')"
  shows "standing c db' = standing c db
    \<or> (\<exists>s. genuine_payment now i status options db s \<and> ps_company s = c)"
proof (cases "\<exists>p l. r = Inr (Updated p l)")
  case False
  with purchase_failed_frame [OF assms] show ?thesis
    by (simp add: standing_def company_of_def cycle_of_def)
next
  case True
  then obtain p l where "r = Inr (Updated p l)" by blast
  with assms obtain s where genuine: "genuine_payment now i status options db s"
    by (auto elim: updated_genuine)
  then have s: "get_payment_session i db = Some s" by (simp add: genuine_payment_def)
  have "standing c db' = standing c db" if "c \<noteq> ps_company s"
    using assms True purchase_standing_other [OF _ that]
    by (fastforce simp: complete_upgrade_def s Let_def split: if_splits prod.splits sum.splits)
  with genuine show ?thesis by blast
qed

text \<open>C2: the plan, the window and the SKU limit of a company change in two ways only, whatever operation
  of the subscription service runs (a reading, a purchase, a note on a session, a completion, a poll of the
  gateway): a reading settles them, which may end a standard plan that has run out but not start one; or
  a session of this very company, neither settled nor expired, is completed with success codes and, where
  the gateway names a non-zero amount, with exactly the amount of the session.\<close>

theorem upgrade_only_on_payment:
  assumes "sub_step hmac env gateway db db'"
  shows "standing c db' = standing c db
    \<or> (\<exists>now co. company_of c db = Some co \<and> standing c db' = read_standing now c co db
         \<and> (is_standard_plan (JStr (plan_now now (co_plan co) (cycle_or_new c co db)))
              \<longrightarrow> is_standard_plan (JStr (plan_read (co_plan co)))))
    \<or> (\<exists>now i status options s. genuine_payment now i status options db s \<and> ps_company s = c
         \<and> db' = snd (complete_upgrade now i status options db))"
proof -
  have reading: "is_standard_plan (JStr (plan_now now raw cy)) \<longrightarrow> is_standard_plan (JStr (plan_read raw))"
    for now raw cy by (simp add: plan_now_def)
  have completion: "standing c (snd (complete_upgrade now i status options db)) = standing c db
      \<or> (\<exists>s. genuine_payment now i status options db s \<and> ps_company s = c)" for now i status options
    by (rule complete_standing [of now i status options db "fst (complete_upgrade now i status options db)"]) simp
  have noted: "standing c (snd (update_payment_session_metadata i patch db)) = standing c db" for i patch
    by (simp add: update_payment_session_metadata_def Let_def split: option.split)
  from assms show ?thesis
  proof cases
    case (read now products members company r)
    obtain q db1 where q: "get_subscription_snapshot now company db = (q, db1)"
      by (cases "get_subscription_snapshot now company db")
    with read have "db' = db1" by (auto simp: get_subscription_def Let_def split: sum.splits)
    with snapshot_standing [OF q, of c] reading show ?thesis by blast
  next
    case (buy i now random user company target billing provider ctx r)
    obtain q db1 where q: "get_subscription_snapshot now company db = (q, db1)"
      by (cases "get_subscription_snapshot now company db")
    from buy q have "standing c db' = standing c db \<or> standing c db' = standing c db1"
      by (auto simp: upgrade_subscription_def Let_def split: option.splits if_splits sum.splits)
    with snapshot_standing [OF q, of c] reading show ?thesis by metis
  next
    case (annotate i patch m)
    then show ?thesis using noted [of i patch] by simp
  next
    case (complete now i status options r)
    then show ?thesis using completion [of now i status options] by (metis snd_conv)
  next
    case (poll now random i company options r)
    then have "db' = db \<or> db' = snd (reconcile_pending_payment_session hmac env gateway now random i options db)"
      using status_db [of hmac env gateway now random i company options db] by simp
    moreover have "standing c (snd (reconcile_pending_payment_session hmac env gateway now random i options db))
        = standing c db
      \<or> (\<exists>status opts. snd (reconcile_pending_payment_session hmac env gateway now random i options db)
          = snd (complete_upgrade now i status opts db))"
      by (rule reconcile_cases [of hmac env gateway now random i options db]) (auto simp: noted)
    ultimately show ?thesis using completion by metis
  qed
qed

text \<open>C23: what a standard payment buys: the company is on the standard plan for thirty days from now, with
  the SKU limit it had (none, unless a standard plan is running) raised by the package of the session,
  which is at least twenty.\<close>

theorem purchase_extends_standard:
  assumes "apply_purchase now s meta db = (Inr (Some limit), db')"
    and "get_subscription_snapshot now (ps_company s) db = (Inr sn, db1)"
  shows "\<exists>co cy. get_company_and_cycle (ps_company s) db' = (Inr (co, cy), db')
    \<and> co_plan co = ''standard'' \<and> cy_std_end cy = Some (now + 30 * day_ms) \<and> cy_sku cy = limit
    \<and> Fin (of_int limit) = Fin (of_int (if is_standard_plan (JStr (sn_plan sn)) then max 0 (sn_sku sn) else 0))
        + purchased_increment meta (ps_plan s)
    \<and> Fin 20 \<le> purchased_increment meta (ps_plan s)"
proof -
  let ?c = "ps_company s"
  let ?n = "Fin (of_int (if is_standard_plan (JStr (sn_plan sn)) then max 0 (sn_sku sn) else 0))
        + purchased_increment meta (ps_plan s)"
  have std: "is_standard_plan (JStr (normalize_plan_id (JStr (ps_plan s)) ''trial''))"
    using assms(1) by (rule_tac ccontr) (auto simp: apply_purchase_def Let_def split: if_splits sum.splits prod.splits)
  obtain q db2 where q: "get_company_and_cycle ?c (set_plan ?c ''standard'' db1) = (q, db2)"
    by (cases "get_company_and_cycle ?c (set_plan ?c ''standard'' db1)")
  obtain l where l: "integer_column ?n = Inr l"
    using assms std by (cases "integer_column ?n") (simp_all add: apply_purchase_def)
  have "\<exists>x. q = Inr x" using assms std q l by (cases q) (simp_all add: apply_purchase_def)
  with q obtain co cy where q: "get_company_and_cycle ?c (set_plan ?c ''standard'' db1) = (Inr (co, cy), db2)" by auto
  let ?f = "\<lambda>c. c\<lparr>cy_std_start := Some now, cy_std_end := Some (now + standard_billing_days * day_ms), cy_sku := limit\<rparr>"
  have "l = limit \<and> update_cycle ?c (\<lambda>c. c\<lparr>cy_std_start := Some now,
      cy_std_end := Some (now + standard_billing_days * day_ms), cy_sku := l\<rparr>) db2 = db'"
    using assms std q l by (simp add: apply_purchase_def Let_def) clarify
  then have limit: "limit = l" and db': "db' = update_cycle ?c ?f db2" by blast+
  note rows = get_company_and_cycle_Inr [OF q]
  have found: "get_company_and_cycle ?c db' = (Inr (co, ?f cy), db')"
    unfolding db' by (rule get_company_and_cycle_found) (simp_all add: rows)
  have plan: "co_plan co = ''standard''" using rows(3) by auto
  have amount: "Fin (of_int limit) = ?n"
    using l limit by (cases ?n) (auto split: if_splits)
  have twenty: "Fin 20 \<le> purchased_increment meta (ps_plan s)"
  proof -
    have "purchased_increment meta (ps_plan s) \<noteq> NaN"
      by (auto simp: purchased_increment_def Let_def math_max_def)
    then show ?thesis
      by (simp add: purchased_increment_def Let_def math_max_def num_le_refl split: if_splits)
  qed
  show ?thesis
    by (rule exI [of _ co], rule exI [of _ "?f cy"], intro conjI found plan amount twenty)
       (simp_all add: standard_billing_days_def)
qed

lemma demo_reading:
  "get_subscription_snapshot 7 ''c'' demo_sub = (Inr (snapshot_of 7 ''standard_35'' (new_cycle demo_company)),
     snapshot_writes 7 ''c'' ''standard_35'' (new_cycle demo_company) demo_sub)"
proof -
  have "company_of ''c'' demo_sub = Some demo_company" "cycle_of ''c'' demo_sub = Some (new_cycle demo_company)"
    by (simp_all add: company_of_def cycle_of_def demo_sub_def) (simp_all add: demo_company_def new_cycle_def)
  from get_company_and_cycle_found [OF this] show ?thesis
    by (simp add: get_subscription_snapshot_def) (simp add: demo_company_def)
qed

theorem purchase_extends_standard_witness:
  "\<exists>limit db' co cy. apply_purchase 7 (hd (sb_sessions demo_sub)) [] demo_sub = (Inr (Some limit), db')
     \<and> get_company_and_cycle ''c'' db' = (Inr (co, cy), db') \<and> cy_sku cy = limit"
proof -
  let ?s = "hd (sb_sessions demo_sub)"
  have s: "ps_company ?s = ''c''" "ps_plan ?s = ''standard''" by (simp_all add: demo_sub_def)
  have std: "is_standard_plan (JStr ''standard'')" "is_standard_plan (JStr (normalize_plan_id (JStr (ps_plan ?s)) ''trial''))"
    by (simp_all add: s is_standard_plan_def standard_plan_ids_def)
  have inc: "purchased_increment [] ''standard'' = Fin 20" by code_simp
  let ?sn = "snapshot_of 7 ''standard_35'' (new_cycle demo_company)"
  let ?k = "if is_standard_plan (JStr (sn_plan ?sn)) then max 0 (sn_sku ?sn) else 0"
  have small: "0 \<le> ?k \<and> ?k \<le> 50"
    by (simp add: snapshot_of_def sku_read_def infer_legacy_standard_sku_limit_def Let_def new_cycle_def)
  then have "Fin (of_int ?k) + Fin 20 = Fin (of_int (?k + 20))"
    using num_of_small_int [of "?k + 20"] by (simp add: num_simps)
  then have col: "integer_column (Fin (of_int ?k) + purchased_increment [] (ps_plan ?s)) = Inr (?k + 20)"
    by (simp add: s inc)
  let ?db1 = "snapshot_writes 7 ''c'' ''standard_35'' (new_cycle demo_company) demo_sub"
  obtain co cy where "get_company_and_cycle ''c'' (set_plan ''c'' ''standard'' ?db1)
      = (Inr (co, cy), set_plan ''c'' ''standard'' ?db1)"
  proof -
    have "company_of ''c'' demo_sub = Some demo_company" "cycle_of ''c'' demo_sub = Some (new_cycle demo_company)"
      by (simp_all add: company_of_def cycle_of_def demo_sub_def) (simp_all add: demo_company_def new_cycle_def)
    moreover have "co_plan demo_company = ''standard_35''" by (simp add: demo_company_def)
    ultimately show thesis
      using that get_company_and_cycle_found [of "''c''" "set_plan ''c'' ''standard'' ?db1"]
        snapshot_writes_rows [of "''c''" demo_sub demo_company "new_cycle demo_company" 7] by simp
  qed
  then have "\<exists>db'. apply_purchase 7 ?s [] demo_sub = (Inr (Some (?k + 20)), db')"
    unfolding apply_purchase_def Let_def s if_P [OF std(2) [unfolded s]] demo_reading
    using col [unfolded s] by simp
  then obtain db' where run: "apply_purchase 7 ?s [] demo_sub = (Inr (Some (?k + 20)), db')" by blast
  from purchase_extends_standard [OF this, unfolded s, OF demo_reading] run show ?thesis by blast
qed

section \<open>A purchase\<close>

definition paying_company :: company_row where
  "paying_company = \<lparr>co_id = ''c'', co_plan = ''trial'', co_created = 0\<rparr>"

definition paying_sub :: sub_db where
  "paying_sub = demo_sub\<lparr>sb_companies := [paying_company], sb_cycles := [new_cycle paying_company],
     sb_sessions := map (ps_status_update (\<lambda>_. ''pending'')) (sb_sessions demo_sub)\<rparr>"

text \<open>The gateway answers success and names the amount of the session in its unit, a hundredth of a dong.\<close>

definition paying_options :: jsval where
  "paying_options = JObj [(''transactionStatus'', JStr ''00''),
     (''gatewayDetails'', JObj [(''amount'', JNum (Fin 89900000))])]"

lemma paying_reading:
  assumes "sb_companies db = [paying_company]" and "sb_cycles db = [new_cycle paying_company]"
  shows "get_subscription_snapshot 7 ''c'' db = (Inr (snapshot_of 7 ''trial'' (new_cycle paying_company)), db)"
proof -
  have "company_of ''c'' db = Some paying_company" "cycle_of ''c'' db = Some (new_cycle paying_company)"
    using assms
    by (simp_all add: company_of_def cycle_of_def) (simp_all add: paying_company_def new_cycle_def)
  from get_company_and_cycle_found [OF this] show ?thesis
    by (simp add: get_subscription_snapshot_def)
       (simp add: paying_company_def snapshot_writes_def sku_inferred_def open_ended_def lapsed_def Let_def)
qed

lemma paying_genuine:
  "is_successful_vnpay_result (JStr ''00'') (JStr (trim (str_or_empty (jget paying_options ''transactionStatus''))))"
  "num_or_zero (own (normalize_metadata (jget paying_options ''gatewayDetails'')) ''amount'') = Fin 89900000"
  by code_simp+

lemma paying_amount: "expected_amount (hd (sb_sessions paying_sub)) = Fin 89900000"
proof -
  have "num_of 899000 = Fin 899000" "num_of 89900000 = Fin 89900000"
    using num_of_small_int [of 899000] num_of_small_int [of 89900000] by simp_all
  moreover have "\<lfloor>179800001 / 2 :: rat\<rfloor> = 89900000" by (simp add: floor_eq_iff)
  ultimately show ?thesis by (simp add: expected_amount_def paying_sub_def demo_sub_def num_simps)
qed

lemma paying_completes:
  "\<exists>l db'. complete_upgrade 7 ''s'' (JStr ''00'') paying_options paying_sub = (Inr (Updated ''standard'' l), db')
     \<and> map_option co_plan (company_of ''c'' db') = Some ''standard''"
proof -
  let ?s = "hd (sb_sessions paying_sub)"
  have s: "get_payment_session ''s'' paying_sub = Some ?s"
    by (simp add: get_payment_session_def paying_sub_def demo_sub_def)
  have fields: "ps_status ?s = ''pending''" "ps_company ?s = ''c''" "ps_plan ?s = ''standard''" "ps_expires ?s = 1000"
    by (simp_all add: paying_sub_def demo_sub_def)
  have std: "is_standard_plan (JStr (normalize_plan_id (JStr ''standard'') ''trial''))"
    "is_standard_plan (JStr ''standard'')"
    by (simp_all add: is_standard_plan_def standard_plan_ids_def)
  define meta where "meta = gateway_metadata 7 (normalize_metadata (jget paying_options ''gatewayDetails''))
    (JStr ''00'') paying_options (ps_meta ?s)"
  define paid where "paid = update_session ''s'' (resolve_session ''success''
    (merge_metadata (JObj meta) (resolution 7 ''paid'' (JStr ''00'') paying_options))
    (Some (paid_time 7 (normalize_metadata (jget paying_options ''gatewayDetails''))))) paying_sub"
  have inc: "purchased_increment meta ''standard'' = Fin 20"
    unfolding meta_def by code_simp
  then have col: "integer_column (Fin (of_int 0) + purchased_increment meta ''standard'') = Inr 20"
    using num_of_small_int [of 20] by (simp add: num_simps)
  have rows: "sb_companies paid = [paying_company]" "sb_cycles paid = [new_cycle paying_company]"
    by (simp_all add: paid_def paying_sub_def)
  have trial: "sn_plan (snapshot_of 7 ''trial'' (new_cycle paying_company)) = ''trial''"
    by (simp add: snapshot_of_def plan_now_def lapsed_def)
  have "company_of ''c'' (set_plan ''c'' ''standard'' paid) = Some (paying_company\<lparr>co_plan := ''standard''\<rparr>)"
    "cycle_of ''c'' (set_plan ''c'' ''standard'' paid) = Some (new_cycle paying_company)"
    using rows by (simp_all add: company_of_def cycle_of_def set_plan_def) (simp_all add: paying_company_def new_cycle_def)
  note found = get_company_and_cycle_found [OF this] and plan = this(1)
  let ?f = "\<lambda>c. c\<lparr>cy_std_start := Some 7, cy_std_end := Some (7 + standard_billing_days * day_ms), cy_sku := 20\<rparr>"
  have bought: "apply_purchase 7 ?s meta paid = (Inr (Some 20), update_cycle ''c'' ?f (set_plan ''c'' ''standard'' paid))"
    using col by (simp add: apply_purchase_def fields std paying_reading [OF rows] trial found Let_def)
  have "\<exists>e. complete_upgrade 7 ''s'' (JStr ''00'') paying_options paying_sub
      = (Inr (Updated ''standard'' (Some 20)), push_event e (update_cycle ''c'' ?f (set_plan ''c'' ''standard'' paid)))"
    using bought
    by (simp add: complete_upgrade_def s Let_def fields is_payment_session_expired_def paying_genuine
        paying_amount meta_def [symmetric] paid_def [symmetric] std num_eq_def) blast
  moreover have "map_option co_plan (company_of ''c'' (push_event e (update_cycle ''c'' ?f (set_plan ''c'' ''standard'' paid))))
      = Some ''standard''" for e
    using plan by (simp add: company_of_def)
  ultimately show ?thesis by blast
qed

text \<open>The company was on a trial, so the reading is not what made its plan the standard one.\<close>

theorem upgrade_only_on_payment_witness:
  "\<exists>db' now i status options s. sub_step demo_hmac512 demo_env (\<lambda>r. None) paying_sub db'
     \<and> map_option co_plan (company_of ''c'' paying_sub) = Some ''trial''
     \<and> map_option co_plan (company_of ''c'' db') = Some ''standard''
     \<and> genuine_payment now i status options paying_sub s \<and> ps_company s = ''c''"
proof -
  obtain l db' where run: "complete_upgrade 7 ''s'' (JStr ''00'') paying_options paying_sub
      = (Inr (Updated ''standard'' l), db')"
    and after: "map_option co_plan (company_of ''c'' db') = Some ''standard''"
    using paying_completes by blast
  then have step: "sub_step demo_hmac512 demo_env (\<lambda>r. None) paying_sub db'"
    by (intro sub_step.complete)
  have before: "company_of ''c'' paying_sub = Some paying_company"
    by (simp add: company_of_def paying_sub_def) (simp add: paying_company_def)
  have trial: "co_plan paying_company = ''trial''" by (simp add: paying_company_def)
  have "standing ''c'' db' \<noteq> standing ''c'' paying_sub"
    using after before trial by (auto simp: standing_def)
  moreover have "standing ''c'' db' \<noteq> read_standing now ''c'' paying_company paying_sub" for now
    using after trial by (auto simp: standing_def read_standing_def plan_now_def lapsed_def Let_def)
  ultimately obtain now i status options s where
    "genuine_payment now i status options paying_sub s" "ps_company s = ''c''"
    using upgrade_only_on_payment [OF step, of "''c''"] before by auto
  then show ?thesis
    using step before trial after by (metis option.map(2))
qed

end
