(* ===== verification/Accounts.thy ===== *)
theory Accounts
  imports Subscription
begin

text \<open>
  \<open>modules/auth/userRepository.js\<close>, the reading of an account in \<open>accountProvisioningService.js\<close> and the
  markets of a company (\<open>utils/companyMarkets.js\<close>, \<open>constants/targetMarkets.js\<close>): users, their profiles and roles, companies and memberships. The plan
  columns of \<open>companies\<close> and the billing cycles are the tables of \<open>Subscription\<close>. The constraints of
  the schema (keys, unique columns, enums, references) are checks of the inserts; an error carries
  PostgreSQL's code. Identifiers and the time are arguments. Password hashing is a parameter.
\<close>

section \<open>Tables\<close>

record user_row =
  us_id :: ident
  us_email :: string
  us_password :: string
  us_name :: string
  us_avatar :: jsval
  us_verified :: bool
  us_verified_at :: "millis option"
  us_failed :: nat
  us_locked_until :: "millis option"
  us_last_login :: "millis option"
  us_demo :: bool
  us_created :: millis
  us_updated :: millis

record profile_row =
  pf_id :: ident
  pf_user :: ident
  pf_email :: string
  pf_name :: string
  pf_avatar :: jsval
  pf_company :: "ident option"

record company_info =
  ci_id :: ident
  ci_name :: string
  ci_business :: string
  ci_domestic :: string
  ci_targets :: "string list"

record member_row =
  cm_id :: ident
  cm_company :: ident
  cm_user :: ident
  cm_role :: string
  cm_status :: string
  cm_invited_by :: "ident option"
  cm_last_login :: "millis option"
  cm_created :: millis
  cm_updated :: millis

record id_db =
  id_users :: "user_row list"
  id_profiles :: "profile_row list"
  id_roles :: "(ident \<times> string) list"
  id_companies :: "company_info list"
  id_members :: "member_row list"
  id_rewards :: "ident list"
  id_subs :: sub_db

type_synonym 'a id_result = "service_error + 'a \<times> id_db"

definition app_roles :: "string list" where "app_roles = [''b2b'', ''b2c'', ''admin'']"
definition company_roles :: "string list" where "company_roles = [''admin'', ''member'', ''viewer'']"
definition member_statuses :: "string list" where "member_statuses = [''active'', ''invited'', ''disabled'']"
definition business_types :: "string list" where "business_types = [''shop_online'', ''brand'', ''factory'']"

definition sql_error :: "string \<Rightarrow> service_error" where
  "sql_error c = Service_Error c 500"

text \<open>A statement whose constraints hold, or the code of the one it violates.\<close>

definition unless_violated :: "(bool \<times> string) list \<Rightarrow> 'a \<Rightarrow> service_error + 'a" where
  "unless_violated checks result =
     (case find (\<lambda>(broken, c). broken) checks of None \<Rightarrow> Inr result | Some (_, c) \<Rightarrow> Inl (sql_error c))"

lemma unless_violated_Inr [simp]:
  "unless_violated checks x = Inr y \<longleftrightarrow> y = x \<and> list_all (\<lambda>c. \<not> fst c) checks"
  by (induction checks) (auto simp: unless_violated_def split: option.splits prod.splits)

section \<open>Markets\<close>

definition supported_markets :: "string list" where
  "supported_markets = [''VN'', ''EU'', ''US'', ''JP'', ''KR'', ''AU'', ''ASEAN'', ''TH'', ''SG'', ''MY'', ''ID'',
     ''PH'', ''CA'', ''UK'', ''CN'', ''IN'']"

definition market_code :: "jsval \<Rightarrow> string" where
  "market_code v = upper (trim (str_or_empty v))"

definition normalize_target_markets :: "jsval \<Rightarrow> string list" where
  "normalize_target_markets v =
     (if is_array v then dedupe (filter (\<lambda>m. m \<in> set supported_markets) (map market_code (elements v))) else [])"

definition normalize_domestic_market :: "jsval \<Rightarrow> jsval \<Rightarrow> string" where
  "normalize_domestic_market domestic targets =
     (if market_code domestic \<in> set supported_markets then market_code domestic
      else case normalize_target_markets targets of [] \<Rightarrow> ''VN'' | m # ms \<Rightarrow> m)"

definition normalize_company_markets :: "jsval \<Rightarrow> jsval \<Rightarrow> jsval \<Rightarrow> string \<times> string list" where
  "normalize_company_markets plan domestic targets =
     (let ms = normalize_target_markets targets
      in (normalize_domestic_market domestic (JArr (map JStr ms)),
          if lower (trim (str_or_empty plan)) = ''trial'' then [] else ms))"

section \<open>The user repository\<close>

definition insert_user ::
  "millis \<Rightarrow> ident \<Rightarrow> string \<Rightarrow> string \<Rightarrow> string \<Rightarrow> id_db \<Rightarrow> service_error + id_db" where
  "insert_user now i email hash name db =
     unless_violated
       [(i \<in> us_id ` set (id_users db), ''23505''), (email \<in> us_email ` set (id_users db), ''23505'')]
       (db\<lparr>id_users := id_users db @
          [\<lparr>us_id = i, us_email = email, us_password = hash, us_name = name, us_avatar = JNull,
            us_verified = False, us_verified_at = None, us_failed = 0, us_locked_until = None,
            us_last_login = None, us_demo = False, us_created = now, us_updated = now\<rparr>]\<rparr>)"

definition insert_profile ::
  "ident \<Rightarrow> ident \<Rightarrow> string \<Rightarrow> string \<Rightarrow> ident option \<Rightarrow> id_db \<Rightarrow> service_error + id_db" where
  "insert_profile i user email name company db =
     unless_violated
       [(i \<in> pf_id ` set (id_profiles db), ''23505''), (user \<in> pf_user ` set (id_profiles db), ''23505''),
        (user \<notin> us_id ` set (id_users db), ''23503''),
        (case company of None \<Rightarrow> False | Some c \<Rightarrow> c \<notin> ci_id ` set (id_companies db), ''23503'')]
       (db\<lparr>id_profiles := id_profiles db @
          [\<lparr>pf_id = i, pf_user = user, pf_email = email, pf_name = name, pf_avatar = JNull,
            pf_company = company\<rparr>]\<rparr>)"

definition add_role :: "ident \<Rightarrow> string \<Rightarrow> id_db \<Rightarrow> service_error + id_db" where
  "add_role user role db =
     unless_violated
       [(role \<notin> set app_roles, ''22P02''), ((user, role) \<in> set (id_roles db), ''23505''),
        (user \<notin> us_id ` set (id_users db), ''23503'')]
       (db\<lparr>id_roles := id_roles db @ [(user, role)]\<rparr>)"

definition insert_company ::
  "millis \<Rightarrow> ident \<Rightarrow> string \<Rightarrow> string \<Rightarrow> string \<Rightarrow> string \<Rightarrow> string list \<Rightarrow> id_db \<Rightarrow> service_error + id_db" where
  "insert_company now i name business plan domestic targets db =
     unless_violated
       [(business \<notin> set business_types, ''22P02''), (i \<in> ci_id ` set (id_companies db), ''23505'')]
       (db\<lparr>id_companies := id_companies db @
            [\<lparr>ci_id = i, ci_name = name, ci_business = business, ci_domestic = domestic, ci_targets = targets\<rparr>],
          id_subs := (id_subs db)\<lparr>sb_companies := sb_companies (id_subs db) @
            [\<lparr>co_id = i, co_plan = plan, co_created = now\<rparr>]\<rparr>\<rparr>)"

definition assign_profile_company :: "ident \<Rightarrow> ident \<Rightarrow> id_db \<Rightarrow> id_db" where
  "assign_profile_company user company db =
     db\<lparr>id_profiles := update_where (\<lambda>p. pf_user p = user) (pf_company_update (\<lambda>_. Some company)) (id_profiles db)\<rparr>"

text \<open>An insertion into \<open>company_members\<close>, with its unique pair of company and user.\<close>

definition insert_membership ::
  "millis \<Rightarrow> ident \<Rightarrow> ident \<Rightarrow> ident \<Rightarrow> string \<Rightarrow> string \<Rightarrow> ident \<Rightarrow> id_db \<Rightarrow> service_error + id_db" where
  "insert_membership now i company user role status inviter db =
     unless_violated
       [(role \<notin> set company_roles, ''22P02''), (i \<in> cm_id ` set (id_members db), ''23505''),
        ((company, user) \<in> (\<lambda>m. (cm_company m, cm_user m)) ` set (id_members db), ''23505''),
        (company \<notin> ci_id ` set (id_companies db), ''23503''), (user \<notin> us_id ` set (id_users db), ''23503''),
        (inviter \<notin> us_id ` set (id_users db), ''23503'')]
       (db\<lparr>id_members := id_members db @
          [\<lparr>cm_id = i, cm_company = company, cm_user = user, cm_role = role, cm_status = status,
            cm_invited_by = Some inviter, cm_last_login = None, cm_created = now, cm_updated = now\<rparr>]\<rparr>)"

definition insert_company_admin :: "millis \<Rightarrow> ident \<Rightarrow> ident \<Rightarrow> ident \<Rightarrow> id_db \<Rightarrow> service_error + id_db" where
  "insert_company_admin now i company user db =
     insert_membership now i company user ''admin'' ''active'' user db"

text \<open>\<open>INSERT ... ON CONFLICT (company_id) DO UPDATE\<close>, which keeps the columns that are set: both are
  never null.\<close>

definition initialize_trial :: "millis \<Rightarrow> ident \<Rightarrow> id_db \<Rightarrow> id_db" where
  "initialize_trial now company db =
     (if company \<in> cy_company ` set (sb_cycles (id_subs db)) then db
      else db\<lparr>id_subs := (id_subs db)\<lparr>sb_cycles := sb_cycles (id_subs db) @
        [\<lparr>cy_company = company, cy_trial_start = now, cy_trial_end = now + trial_days * day_ms,
          cy_std_start = None, cy_std_end = None, cy_sku = 0\<rparr>]\<rparr>\<rparr>)"

definition insert_rewards :: "ident \<Rightarrow> id_db \<Rightarrow> id_db" where
  "insert_rewards user db = db\<lparr>id_rewards := id_rewards db @ [user]\<rparr>"

text \<open>\<open>DELETE FROM users\<close> removes what references the user with ON DELETE CASCADE, and is refused
  while another row names the user in \<open>invited_by\<close>. (The rows of other theories that reference a user, such as
  refresh tokens, factors and payment sessions, are not in \<open>id_db\<close> and stay out of this statement.)\<close>

definition delete_user :: "ident \<Rightarrow> id_db \<Rightarrow> service_error + id_db" where
  "delete_user user db =
     unless_violated
       [(\<exists>m \<in> set (id_members db). cm_user m \<noteq> user \<and> cm_invited_by m = Some user, ''23503'')]
       (db\<lparr>id_users := delete_where (\<lambda>u. us_id u = user) (id_users db),
          id_profiles := delete_where (\<lambda>p. pf_user p = user) (id_profiles db),
          id_roles := delete_where (\<lambda>r. fst r = user) (id_roles db),
          id_members := delete_where (\<lambda>m. cm_user m = user) (id_members db),
          id_rewards := delete_where (\<lambda>u. u = user) (id_rewards db)\<rparr>)"

section \<open>Reading a user\<close>

text \<open>\<open>array_agg(DISTINCT ur.role)\<close> over an enum: in the order of the enum, as the text the driver gives
  for an array of an enum type, \<open>{NULL}\<close> when the left join found no role.\<close>

definition roles_of :: "ident \<Rightarrow> id_db \<Rightarrow> string list" where
  "roles_of user db = filter (\<lambda>r. (user, r) \<in> set (id_roles db)) app_roles"

definition roles_column :: "string list \<Rightarrow> jsval" where
  "roles_column rs = JStr (''{'' @ (if rs = [] then ''NULL'' else join '','' rs) @ ''}'')"

definition normalize_roles :: "jsval \<Rightarrow> jsval list" where
  "normalize_roles v =
     (case v of
        JStr s \<Rightarrow> map JStr (filter (\<lambda>r. r \<noteq> [] \<and> r \<noteq> ''NULL'')
          (split_on (CHR '','') (filter (\<lambda>c. c \<noteq> CHR ''{'' \<and> c \<noteq> CHR ''}'') s)))
      | JArr vs \<Rightarrow> filter (\<lambda>r. \<not> is_nullish r) vs
      | _ \<Rightarrow> [])"

text \<open>What \<open>mapUser\<close> returns; the credentials are those of the lookup by email.\<close>

record account =
  ac_id :: ident
  ac_email :: string
  ac_name :: string
  ac_avatar :: jsval
  ac_company :: "ident option"
  ac_demo :: bool
  ac_roles :: "jsval list"
  ac_verified :: bool
  ac_created :: millis
  ac_password :: string
  ac_failed :: nat
  ac_locked_until :: "millis option"

definition profile_company :: "ident \<Rightarrow> id_db \<Rightarrow> ident option" where
  "profile_company user db =
     (case select_one (\<lambda>p. pf_user p = user) (id_profiles db) of None \<Rightarrow> None | Some p \<Rightarrow> pf_company p)"

definition map_user :: "id_db \<Rightarrow> user_row \<Rightarrow> account" where
  "map_user db u =
     \<lparr>ac_id = us_id u, ac_email = us_email u, ac_name = us_name u, ac_avatar = us_avatar u,
      ac_company = profile_company (us_id u) db, ac_demo = us_demo u,
      ac_roles = normalize_roles (roles_column (roles_of (us_id u) db)), ac_verified = us_verified u,
      ac_created = us_created u, ac_password = us_password u, ac_failed = us_failed u,
      ac_locked_until = us_locked_until u\<rparr>"

definition get_user_by_email :: "string \<Rightarrow> id_db \<Rightarrow> account option" where
  "get_user_by_email email db =
     map_option (map_user db) (select_one (\<lambda>u. us_email u = email) (id_users db))"

definition get_user_by_id :: "ident \<Rightarrow> id_db \<Rightarrow> account option" where
  "get_user_by_id i db = map_option (map_user db) (select_one (\<lambda>u. us_id u = i) (id_users db))"

definition find_company :: "ident \<Rightarrow> id_db \<Rightarrow> company_info option" where
  "find_company i db = select_one (\<lambda>c. ci_id c = i) (id_companies db)"

text \<open>\<open>ORDER BY\<close> active first, admin first, newest first; \<open>LIMIT 1\<close>.\<close>

fun precedes :: "member_row \<Rightarrow> member_row \<Rightarrow> bool" where
  "precedes a b =
     (let active = (\<lambda>m. cm_status m = ''active''); admin = (\<lambda>m. cm_role m = ''admin'')
      in active a \<and> \<not> active b \<or> active a = active b \<and> (admin a \<and> \<not> admin b
           \<or> admin a = admin b \<and> cm_created b < cm_created a))"

fun first_member :: "member_row list \<Rightarrow> member_row option" where
  "first_member [] = None"
| "first_member (m # ms) =
     (case first_member ms of None \<Rightarrow> Some m | Some k \<Rightarrow> Some (if precedes k m then k else m))"

definition get_primary_membership :: "ident \<Rightarrow> bool \<Rightarrow> id_db \<Rightarrow> member_row option" where
  "get_primary_membership user include_inactive db =
     first_member (filter (\<lambda>m. cm_user m = user \<and> find_company (cm_company m) db \<noteq> None
       \<and> (include_inactive \<or> cm_status m = ''active'')) (id_members db))"

record company_state =
  cs_has :: bool
  cs_b2b :: bool
  cs_company :: "ident option"

definition get_company_status :: "ident \<Rightarrow> id_db \<Rightarrow> company_state" where
  "get_company_status user db =
     (case select_one (\<lambda>p. pf_user p = user) (id_profiles db) of
        None \<Rightarrow> \<lparr>cs_has = False, cs_b2b = False, cs_company = None\<rparr>
      | Some p \<Rightarrow>
          (let company = (case pf_company p of Some c \<Rightarrow> Some c
             | None \<Rightarrow> map_option cm_company (get_primary_membership user False db));
               b2b = ((user, ''b2b'') \<in> set (id_roles db))
           in \<lparr>cs_has = (b2b \<and> company \<noteq> None), cs_b2b = b2b, cs_company = company\<rparr>))"

end
