(* ===== verification/Auth_Secrets.thy ===== *)
theory Auth_Secrets
  imports Js_Value "HOL-Library.Word" "HOL-Library.Multiset"
begin

unbundle bit_operations_syntax

text \<open>
  The pure parts of \<open>modules/auth/mfaService.js\<close> and \<open>modules/auth/tokens.js\<close>: the base32 form of a
  shared secret, time-based one-time passwords, recovery codes and generated passwords. A \<open>Buffer\<close> is
  a list of \<open>8 word\<close>; HMAC-SHA1 and the random source are parameters.
\<close>

section \<open>Base32\<close>

text \<open>The strings of binary digits the code builds are lists of booleans. \<open>bin w n\<close> is
  \<open>n.toString(2).padStart(w, '0')\<close>.\<close>

fun bin :: "nat \<Rightarrow> nat \<Rightarrow> bool list" where
  "bin 0 n = []"
| "bin (Suc w) n = bin w (n div 2) @ [odd n]"

text \<open>\<open>parseInt(bits, 2)\<close>\<close>

definition bits_val :: "bool list \<Rightarrow> nat" where
  "bits_val bs = foldl (\<lambda>n b. 2 * n + (if b then 1 else 0)) 0 bs"

definition base32_alphabet :: string where
  "base32_alphabet = ''ABCDEFGHIJKLMNOPQRSTUVWXYZ234567''"

definition pad_end5 :: "bool list \<Rightarrow> bool list" where
  "pad_end5 bs = bs @ replicate (5 - length bs) False"

fun encode_bits :: "bool list \<Rightarrow> string" where
  "encode_bits [] = []"
| "encode_bits (b # bs) =
     base32_alphabet ! bits_val (pad_end5 (take 5 (b # bs))) # encode_bits (drop 5 (b # bs))"

definition byte_bits :: "8 word list \<Rightarrow> bool list" where
  "byte_bits bytes = concat (map (\<lambda>b. bin 8 (unat b)) bytes)"

definition base32_encode :: "8 word list \<Rightarrow> string" where
  "base32_encode bytes = encode_bits (byte_bits bytes)"

fun index_of :: "'a \<Rightarrow> 'a list \<Rightarrow> nat option" where
  "index_of x [] = None"
| "index_of x (y # ys) = (if x = y then Some 0 else map_option Suc (index_of x ys))"

fun decode_chars :: "string \<Rightarrow> js_error + bool list" where
  "decode_chars [] = Inr []"
| "decode_chars (c # cs) =
     (case index_of c base32_alphabet of
        None \<Rightarrow> Inl (Plain_Error ''Invalid base32 secret.'')
      | Some i \<Rightarrow> bind_result (decode_chars cs) (\<lambda>bs. Inr (bin 5 i @ bs)))"

fun whole_bytes :: "bool list \<Rightarrow> 8 word list" where
  "whole_bytes bs =
     (if length bs < 8 then [] else of_nat (bits_val (take 8 bs)) # whole_bytes (drop 8 bs))"

declare whole_bytes.simps [simp del]

text \<open>\<open>String(value || '').replace(/=+$/g, '').toUpperCase()\<close>\<close>

definition strip_padding :: "string \<Rightarrow> string" where
  "strip_padding s = upper (rev (dropWhile (\<lambda>c. c = CHR ''='') (rev s)))"

definition base32_decode :: "string \<Rightarrow> js_error + 8 word list" where
  "base32_decode s = bind_result (decode_chars (strip_padding s)) (\<lambda>bs. Inr (whole_bytes bs))"

section \<open>One-time passwords\<close>

text \<open>\<open>writeBigUInt64BE\<close>\<close>

definition uint64_be :: "nat \<Rightarrow> 8 word list" where
  "uint64_be n = map (\<lambda>k. of_nat (n div 256 ^ (7 - k))) [0..<8]"

text \<open>\<open>readUInt32BE(position)\<close>, for a position that leaves four bytes.\<close>

definition uint32_be :: "8 word list \<Rightarrow> nat \<Rightarrow> 32 word" where
  "uint32_be bytes p =
     (push_bit 24 (ucast (bytes ! p)) OR push_bit 16 (ucast (bytes ! (p + 1)))
      OR push_bit 8 (ucast (bytes ! (p + 2))) OR ucast (bytes ! (p + 3)))"

definition truncate_digest :: "8 word list \<Rightarrow> js_error + nat" where
  "truncate_digest digest =
     (let p = unat (last digest AND 0x0f)
      in if digest = [] \<or> length digest < p + 4 then Inl (Plain_Error ''ERR_OUT_OF_RANGE'')
         else Inr (unat (uint32_be digest p AND 0x7fffffff) mod 1000000))"

definition totp ::
  "(8 word list \<Rightarrow> 8 word list \<Rightarrow> 8 word list) \<Rightarrow> string \<Rightarrow> millis \<Rightarrow> int \<Rightarrow> js_error + string" where
  "totp hmac secret time offset =
     (let counter = time div 30000 + offset
      in if counter < 0 \<or> 2 ^ 64 \<le> counter then Inl (Plain_Error ''ERR_OUT_OF_RANGE'')
         else bind_result (base32_decode secret) (\<lambda>k.
                bind_result (truncate_digest (hmac k (uint64_be (nat counter)))) (\<lambda>n.
                  Inr (pad_start 6 (CHR ''0'') (nat_str n)))))"

text \<open>\<open>/^\d{6}$/\<close>\<close>

definition is_six_digits :: "string \<Rightarrow> bool" where
  "is_six_digits s = matches_classes (replicate 6 is_digit) s"

text \<open>\<open>verifyTotp\<close>: the code of the current half minute or of one of its neighbours.\<close>

fun any_offset :: "(int \<Rightarrow> js_error + string) \<Rightarrow> string \<Rightarrow> int list \<Rightarrow> js_error + bool" where
  "any_offset f given [] = Inr False"
| "any_offset f given (k # ks) =
     bind_result (f k) (\<lambda>c. if c = given then Inr True else any_offset f given ks)"

definition verify_totp ::
  "(8 word list \<Rightarrow> 8 word list \<Rightarrow> 8 word list) \<Rightarrow> millis \<Rightarrow> string \<Rightarrow> string \<Rightarrow> js_error + bool" where
  "verify_totp hmac time secret given =
     (if is_six_digits given then any_offset (totp hmac secret time) given [- 1, 0, 1] else Inr False)"

section \<open>Recovery codes and passwords\<close>

text \<open>\<open>rand k n\<close> is the \<open>k\<close>-th \<open>crypto.randomInt(0, n)\<close> of a call.\<close>

type_synonym random_source = "nat \<Rightarrow> nat \<Rightarrow> nat"

definition recovery_alphabet :: string where
  "recovery_alphabet = ''ABCDEFGHJKLMNPQRSTUVWXYZ23456789''"

definition recovery_chars :: "random_source \<Rightarrow> string" where
  "recovery_chars rand = map (\<lambda>k. recovery_alphabet ! rand k (length recovery_alphabet)) [0..<16]"

definition recovery_code :: "random_source \<Rightarrow> string" where
  "recovery_code rand =
     (let s = recovery_chars rand in join ''-'' (map (\<lambda>i. take 4 (drop (4 * i) s)) [0..<4]))"

definition is_alnum :: "char \<Rightarrow> bool" where
  "is_alnum c = (is_digit c \<or> is_upper_az c \<or> is_lower_az c)"

text \<open>\<open>code.replace(/[^A-Z0-9]/gi, '').toUpperCase()\<close>\<close>

definition normalize_recovery :: "string \<Rightarrow> string" where
  "normalize_recovery s = upper (filter is_alnum s)"

definition upper_pool :: string where "upper_pool = ''ABCDEFGHJKLMNPQRSTUVWXYZ''"
definition lower_pool :: string where "lower_pool = ''abcdefghijkmnopqrstuvwxyz''"
definition number_pool :: string where "number_pool = ''23456789''"
definition symbol_pool :: string where "symbol_pool = ''!@#$%^&*''"

definition pick :: "random_source \<Rightarrow> nat \<Rightarrow> string \<Rightarrow> char" where
  "pick rand k pool = pool ! rand k (length pool)"

definition swap_at :: "nat \<Rightarrow> nat \<Rightarrow> 'a list \<Rightarrow> 'a list" where
  "swap_at i j xs = xs[i := xs ! j, j := xs ! i]"

text \<open>The shuffle, from the last index \<open>i\<close> down to 1; \<open>k\<close> counts the random numbers drawn.\<close>

fun shuffle_down :: "random_source \<Rightarrow> nat \<Rightarrow> nat \<Rightarrow> 'a list \<Rightarrow> 'a list" where
  "shuffle_down rand k 0 xs = xs"
| "shuffle_down rand k (Suc i) xs =
     shuffle_down rand (Suc k) i (swap_at (Suc i) (rand k (Suc i + 1)) xs)"

definition generate_system_password :: "random_source \<Rightarrow> nat \<Rightarrow> string" where
  "generate_system_password rand n =
     (let everything = upper_pool @ lower_pool @ number_pool @ symbol_pool;
          start = [pick rand 0 upper_pool, pick rand 1 lower_pool, pick rand 2 number_pool, pick rand 3 symbol_pool];
          password = start @ map (\<lambda>k. pick rand k everything) [4..<max 4 n]
      in shuffle_down rand (max 4 n) (length password - 1) password)"

section \<open>Properties\<close>

lemma length_bin [simp]: "length (bin w n) = w"
  by (induction w n rule: bin.induct) simp_all

lemma bits_val_snoc [simp]: "bits_val (bs @ [b]) = 2 * bits_val bs + (if b then 1 else 0)"
  by (simp add: bits_val_def)

lemma bits_val_Nil [simp]: "bits_val [] = 0"
  by (simp add: bits_val_def)

lemma bits_val_less: "bits_val bs < 2 ^ length bs"
  by (induction bs rule: rev_induct) auto

lemma bits_val_bin: "n < 2 ^ w \<Longrightarrow> bits_val (bin w n) = n"
proof (induction w n rule: bin.induct)
  case (2 w n)
  then have "bits_val (bin w (n div 2)) = n div 2" by simp
  then show ?case by (simp add: odd_iff_mod_2_eq_one) presburger
qed simp

lemma bin_bits_val: "length bs = w \<Longrightarrow> bin w (bits_val bs) = bs"
proof (induction bs arbitrary: w rule: rev_induct)
  case (snoc b bs)
  then show ?case by (cases w) auto
qed simp

lemma index_of_nth: "distinct ys \<Longrightarrow> i < length ys \<Longrightarrow> index_of (ys ! i) ys = Some i"
  by (induction ys arbitrary: i) (auto simp: nth_Cons split: nat.splits)

lemma alphabet_facts: "length base32_alphabet = 32" "distinct base32_alphabet"
  "\<forall>c \<in> set base32_alphabet. char_upper c = c \<and> c \<noteq> CHR ''=''"
  by (simp_all add: base32_alphabet_def char_upper_def)

lemma decode_char:
  "v < 32 \<Longrightarrow> decode_chars (base32_alphabet ! v # cs) = bind_result (decode_chars cs) (\<lambda>rest. Inr (bin 5 v @ rest))"
  using index_of_nth [OF alphabet_facts(2), of v] by (simp add: alphabet_facts(1))

lemma decode_encode_bits:
  "\<exists>k < 5. decode_chars (encode_bits bs) = Inr (bs @ replicate k False)"
proof (induction bs rule: encode_bits.induct)
  case (2 b bs)
  let ?bs = "b # bs"
  let ?five = "pad_end5 (take 5 ?bs)"
  have len: "length ?five = 5" by (simp add: pad_end5_def)
  then have small: "bits_val ?five < 32" using bits_val_less [of ?five] by simp
  have step: "decode_chars (encode_bits ?bs)
      = bind_result (decode_chars (encode_bits (drop 5 ?bs))) (\<lambda>rest. Inr (?five @ rest))"
    unfolding encode_bits.simps decode_char [OF small] bin_bits_val [OF len] by (rule refl)
  show ?case
  proof (cases "length ?bs < 5")
    case True
    then have rest: "encode_bits (drop 5 ?bs) = []" and all: "take 5 ?bs = ?bs" by simp_all
    have "decode_chars (encode_bits ?bs) = Inr (?bs @ replicate (5 - length ?bs) False)"
      unfolding step rest unfolding all pad_end5_def by (simp del: length_Cons)
    moreover have "5 - length ?bs < 5" by simp
    ultimately show ?thesis by blast
  next
    case False
    then have five: "?five = take 5 ?bs" by (simp add: pad_end5_def del: take_Suc_Cons)
    from 2 obtain k where "k < 5" "decode_chars (encode_bits (drop 5 ?bs)) = Inr (drop 5 ?bs @ replicate k False)"
      by blast
    then have "decode_chars (encode_bits ?bs) = Inr ((take 5 ?bs @ drop 5 ?bs) @ replicate k False)"
      unfolding step five append_assoc by simp
    with \<open>k < 5\<close> show ?thesis unfolding append_take_drop_id by blast
  qed
qed (simp add: exI [of _ 0])

lemma whole_bytes_short: "length pad < 8 \<Longrightarrow> whole_bytes pad = []"
  by (simp add: whole_bytes.simps)

lemma whole_bytes_step:
  "length byte = 8 \<Longrightarrow> whole_bytes (byte @ rest) = of_nat (bits_val byte) # whole_bytes rest"
  by (subst whole_bytes.simps) simp

lemma whole_bytes_bits: "length pad < 8 \<Longrightarrow> whole_bytes (byte_bits bytes @ pad) = bytes"
proof (induction bytes)
  case (Cons b bytes)
  have "unat b < 2 ^ 8" using unsigned_less [of b] by simp
  then have "of_nat (bits_val (bin 8 (unat b))) = b" by (simp only: bits_val_bin) simp
  with Cons show ?case by (simp add: byte_bits_def whole_bytes_step del: bin.simps)
qed (simp add: byte_bits_def whole_bytes_short)

lemma encode_bits_chars: "set (encode_bits bs) \<subseteq> set base32_alphabet"
proof (induction bs rule: encode_bits.induct)
  case (2 b bs)
  have "bits_val (pad_end5 (take 5 (b # bs))) < length base32_alphabet"
    using bits_val_less [of "pad_end5 (take 5 (b # bs))"] by (simp add: alphabet_facts(1) pad_end5_def)
  with 2 show ?case by (auto simp del: take_Suc_Cons drop_Suc_Cons)
qed simp

lemma strip_padding_code:
  assumes "set s \<subseteq> set base32_alphabet"
  shows "strip_padding s = s"
proof -
  have "dropWhile (\<lambda>c. c = CHR ''='') (rev s) = rev s"
    using assms alphabet_facts(3) by (cases "rev s") (auto simp: dropWhile_eq_self_iff)
  moreover have "map char_upper s = s"
    using assms alphabet_facts(3) by (intro map_idI) blast
  ultimately show ?thesis by (simp add: strip_padding_def upper_def)
qed

lemma base32_inverse: "base32_decode (base32_encode bytes) = Inr bytes"
proof -
  obtain k where k: "k < 5" "decode_chars (encode_bits (byte_bits bytes)) = Inr (byte_bits bytes @ replicate k False)"
    using decode_encode_bits by blast
  then show ?thesis
    by (simp add: base32_decode_def base32_encode_def strip_padding_code [OF encode_bits_chars] whole_bytes_bits)
qed

text \<open>C15: a shared secret survives its base32 form: decoding what \<open>base32Encode\<close> prints gives back the
  bytes, whatever their number.\<close>

theorem base32_roundtrip: "base32_decode (base32_encode bytes) = Inr bytes"
  by (rule base32_inverse)



lemma nat_digits_six: "n < 10 ^ k \<Longrightarrow> 0 < k \<Longrightarrow> k \<le> f \<Longrightarrow> length (nat_digits f n) \<le> k \<and> (\<forall>c \<in> set (nat_digits f n). is_digit c)"
proof (induction f n arbitrary: k rule: nat_digits.induct)
  case (2 f n)
  show ?case
  proof (cases "n < 10")
    case True
    with 2 show ?thesis by (simp add: is_digit_def)
  next
    case False
    with 2(2) have "k \<noteq> 1" by auto
    with 2(3) obtain k' where k: "k = Suc k'" "0 < k'" by (cases k) auto
    with 2(2,4) have "n div 10 < 10 ^ k'" "k' \<le> f" by auto
    with 2(1) [OF False] k have "length (nat_digits f (n div 10)) \<le> k'"
      "\<forall>c \<in> set (nat_digits f (n div 10)). is_digit c" by blast+
    with False k show ?thesis by (auto simp: is_digit_def)
  qed
qed simp

lemma nat_digits_enough: "n < f \<Longrightarrow> nat_digits (Suc f) n = nat_digits f n"
proof (induction f arbitrary: n)
  case (Suc f)
  then show ?case by (cases "n < 10") auto
qed simp

lemma six_digit_code:
  assumes "n < 1000000"
  shows "is_six_digits (pad_start 6 (CHR ''0'') (nat_str n))"
proof -
  have "nat_digits (Suc n + m) n = nat_digits (Suc n) n" for m
    by (induction m) (simp_all add: nat_digits_enough del: nat_digits.simps)
  from this [of 6] have "nat_str n = nat_digits (Suc n + 6) n" by (simp add: nat_str_def)
  with nat_digits_six [of n 6 "Suc n + 6"] assms
  have "length (nat_str n) \<le> 6" "\<forall>c \<in> set (nat_str n). is_digit c" by auto
  then show ?thesis
    by (auto simp: is_six_digits_def matches_classes_def pad_start_def list_all2_conv_all_nth nth_append
        is_digit_def [of "CHR ''0''"])
qed

lemma truncate_digest_total:
  assumes "length digest = 20"
  shows "\<exists>n. truncate_digest digest = Inr n \<and> n < 1000000"
proof -
  have "unat (last digest AND 0x0f) \<le> unat (0x0f :: 8 word)"
    by (rule word_and_le1 [THEN word_le_nat_alt [THEN iffD1]])
  with assms have "\<not> (digest = [] \<or> length digest < unat (last digest AND 0x0f) + 4)" by auto
  then show ?thesis by (simp add: truncate_digest_def Let_def)
qed

lemma totp_six_digits_of:
  assumes "\<And>k m. length (hmac k m) = 20" and "30000 \<le> time" and "time < 300000000000000"
    and "\<bar>offset\<bar> \<le> 1"
  shows "\<exists>c. totp hmac (base32_encode bytes) time offset = Inr c \<and> is_six_digits c"
proof -
  have "0 \<le> time div 30000 + offset" "time div 30000 + offset < 2 ^ 64"
    using assms(2-4) by auto
  moreover obtain n where "truncate_digest (hmac bytes (uint64_be (nat (time div 30000 + offset)))) = Inr n" "n < 1000000"
    using truncate_digest_total [OF assms(1)] by blast
  ultimately show ?thesis by (simp add: totp_def Let_def base32_inverse six_digit_code)
qed

lemma six_digits_plain:
  assumes "is_six_digits s"
  shows "trim s = s" and "str_or_empty (JStr s) = s"
proof -
  have digits: "\<forall>c \<in> set s. is_digit c" and len: "length s = 6"
    using assms by (auto simp: is_six_digits_def matches_classes_def list_all2_conv_all_nth in_set_conv_nth)
  then have "\<forall>c \<in> set s. \<not> is_space c" by (auto simp: is_digit_def is_space_def)
  then have "dropWhile is_space s = s" "dropWhile is_space (rev s) = rev s"
    unfolding dropWhile_eq_self_iff by (metis list.set_sel(1), metis list.set_sel(1) set_rev)
  then show "trim s = s" by (simp add: trim_def)
  show "str_or_empty (JStr s) = s" using len by (cases s) (simp_all add: str_or_empty_def)
qed

text \<open>With a digest of twenty bytes, which HMAC-SHA1 gives, a one-time password is computed for
  every shared secret and every time up to the year 11000, and it is six digits: truncation
  reads inside the digest and the number is padded.\<close>

theorem totp_six_digits:
  assumes "\<And>k m. length (hmac k m) = 20" and "30000 \<le> time" and "time < 300000000000000"
    and "\<bar>offset\<bar> \<le> 1"
  shows "\<exists>c. totp hmac (base32_encode bytes) time offset = Inr c \<and> is_six_digits c"
  using assms by (rule totp_six_digits_of)

definition demo_hmac :: "8 word list \<Rightarrow> 8 word list \<Rightarrow> 8 word list" where
  "demo_hmac k m = replicate 20 7"

theorem totp_six_digits_witness:
  "\<exists>c. totp demo_hmac (base32_encode [1, 2, 3]) 59000 1 = Inr c \<and> is_six_digits c"
  by (rule totp_six_digits) (simp_all add: demo_hmac_def)

lemma join_groups: "filter is_alnum (join ''-'' ws) = concat (map (filter is_alnum) ws)"
  by (induction "''-''" ws rule: join.induct) (simp_all add: is_alnum_def is_digit_def is_upper_az_def is_lower_az_def)

text \<open>A recovery code is read back however it is typed: with its dashes, without them, in lower case.\<close>

theorem recovery_code_normalizes:
  assumes "\<And>k n. 0 < n \<Longrightarrow> rand k n < n"
  shows "normalize_recovery (recovery_code rand) = recovery_chars rand
    \<and> normalize_recovery (recovery_chars rand) = recovery_chars rand
    \<and> normalize_recovery (lower (recovery_chars rand)) = recovery_chars rand"
proof -
  let ?s = "recovery_chars rand"
  have alpha: "\<forall>c \<in> set recovery_alphabet. is_alnum c \<and> is_alnum (char_lower c) \<and> char_upper c = c
      \<and> char_upper (char_lower c) = c"
    by code_simp
  have "rand k (length recovery_alphabet) < length recovery_alphabet" for k
    by (rule assms) (simp add: recovery_alphabet_def)
  then have sub: "c \<in> set recovery_alphabet" if "c \<in> set ?s" for c
    using that by (auto simp: recovery_chars_def)
  have len: "length ?s = 16" by (simp add: recovery_chars_def)
  have all: "filter is_alnum w = w" if "set w \<subseteq> set ?s" for w
    using that alpha sub by (intro filter_True) blast
  have up: "upper ?s = ?s" unfolding upper_def using alpha sub by (intro map_idI) blast
  have parts: "concat (map (\<lambda>i. take 4 (drop (4 * i) ?s)) [0..<4]) = ?s"
  proof -
    have "take 4 ?s @ take 4 (drop 4 ?s) @ take 4 (drop 8 ?s) @ take 4 (drop 12 ?s) @ drop 16 ?s = ?s"
      using append_take_drop_id [of 4 ?s] append_take_drop_id [of 4 "drop 4 ?s"]
        append_take_drop_id [of 4 "drop 8 ?s"] append_take_drop_id [of 4 "drop 12 ?s"] by simp
    then show ?thesis using len by (simp add: upt_rec)
  qed
  have "map (filter is_alnum) (map (\<lambda>i. take 4 (drop (4 * i) ?s)) [0..<4]) = map (\<lambda>i. take 4 (drop (4 * i) ?s)) [0..<4]"
    by (rule map_idI) (auto intro!: all dest: in_set_takeD in_set_dropD)
  then have "normalize_recovery (recovery_code rand) = ?s"
    unfolding normalize_recovery_def recovery_code_def Let_def join_groups by (simp only: parts up)
  moreover have "normalize_recovery ?s = ?s" by (simp add: normalize_recovery_def all up)
  moreover have "filter is_alnum (lower ?s) = lower ?s" "upper (lower ?s) = ?s"
    using alpha sub by (auto simp: lower_def upper_def intro!: filter_True map_idI)
  ultimately show ?thesis by (simp add: normalize_recovery_def)
qed

definition zero_rand :: random_source where
  "zero_rand k n = k mod n"

theorem recovery_code_normalizes_witness: "normalize_recovery (lower (recovery_chars zero_rand)) = recovery_chars zero_rand"
  using recovery_code_normalizes [of zero_rand] by (simp add: zero_rand_def)

lemma mset_swap_at: "i < length xs \<Longrightarrow> j < length xs \<Longrightarrow> mset (swap_at i j xs) = mset xs"
  by (simp add: swap_at_def mset_swap)

lemma length_swap_at [simp]: "length (swap_at i j xs) = length xs"
  by (simp add: swap_at_def)

lemma mset_shuffle_down:
  assumes "\<And>k n. 0 < n \<Longrightarrow> rand k n < n" and "i < length xs"
  shows "mset (shuffle_down rand k i xs) = mset xs"
  using assms(2)
proof (induction i arbitrary: k xs)
  case (Suc i)
  have "rand k (Suc i + 1) < Suc i + 1" by (rule assms(1)) simp
  with Suc show ?case by (simp add: mset_swap_at)
qed simp

text \<open>A generated password has the requested length (at least four), and contains an upper-case and a
  lower-case letter, a digit and a symbol: the shuffle is a permutation.\<close>

theorem system_password_classes:
  assumes "\<And>k n. 0 < n \<Longrightarrow> rand k n < n"
  shows "length (generate_system_password rand n) = max 4 n
    \<and> list_all (\<lambda>pool. list_ex (\<lambda>c. c \<in> set pool) (generate_system_password rand n))
        [upper_pool, lower_pool, number_pool, symbol_pool]
    \<and> list_all (\<lambda>c. c \<in> set (upper_pool @ lower_pool @ number_pool @ symbol_pool)) (generate_system_password rand n)"
proof -
  let ?all = "upper_pool @ lower_pool @ number_pool @ symbol_pool"
  let ?start = "[pick rand 0 upper_pool, pick rand 1 lower_pool, pick rand 2 number_pool, pick rand 3 symbol_pool]"
  let ?pw = "?start @ map (\<lambda>k. pick rand k ?all) [4..<max 4 n]"
  have picked: "pick rand k pool \<in> set pool" if "pool \<noteq> []" for k pool
    using assms that by (simp add: pick_def)
  have pools: "upper_pool \<noteq> []" "lower_pool \<noteq> []" "number_pool \<noteq> []" "symbol_pool \<noteq> []"
    by (simp_all add: upper_pool_def lower_pool_def number_pool_def symbol_pool_def)
  have "mset (generate_system_password rand n) = mset ?pw"
    unfolding generate_system_password_def Let_def by (rule mset_shuffle_down [OF assms]) simp_all
  then have same: "set (generate_system_password rand n) = set ?pw" "length (generate_system_password rand n) = length ?pw"
    by (metis set_mset_mset, metis size_mset)
  have each: "pick rand k ?all \<in> set ?all" for k
    by (rule picked) (simp add: pools)
  have "set ?pw \<subseteq> set ?all"
    unfolding set_append list.set set_map image_subset_iff Un_subset_iff insert_subset
    using picked [OF pools(1)] picked [OF pools(2)] picked [OF pools(3)] picked [OF pools(4)] each
    by (simp del: set_append) (simp add: Un_assoc)
  moreover have "\<exists>c \<in> set ?pw. c \<in> set pool" if "pool \<in> set [upper_pool, lower_pool, number_pool, symbol_pool]" for pool
    using that picked [OF pools(1)] picked [OF pools(2)] picked [OF pools(3)] picked [OF pools(4)] by auto
  moreover have "length ?pw = max 4 n" by (cases "4 \<le> n") simp_all
  ultimately show ?thesis
    unfolding list_all_iff list_ex_iff same by blast
qed

theorem system_password_classes_witness:
  "length (generate_system_password zero_rand 20) = 20"
  using system_password_classes [of zero_rand 20] by (simp add: zero_rand_def)

end
