(* ===== verification/Provisioning.thy ===== *)
theory Provisioning
  imports Accounts Auth_Secrets
begin

text \<open>
  \<open>modules/auth/accountProvisioningService.js\<close>, \<open>signupService.js\<close>, \<open>verificationRepository.js\<close>,
  \<open>verificationService.js\<close> and \<open>sessionContextService.js\<close>: registration, the verification of an email, the
  acceptance of an invitation and the company a session is for. A function that runs in a transaction
  returns the error or the new tables; one whose statements stand alone returns the tables beside
  its result. \<open>hash\<close> is the password hash and \<open>claims\<close> what the JWT library reads from a token, null
  when it rejects it. Mails, logs and the analytics call outside the transaction are left out.
\<close>

type_synonym 'a outcome = "(service_error + 'a) \<times> id_db"

definition transactional :: "(id_db \<Rightarrow> 'a id_result) \<Rightarrow> id_db \<Rightarrow> 'a outcome" where
  "transactional work db = (case work db of Inl e \<Rightarrow> (Inl e, db) | Inr (r, db') \<Rightarrow> (Inr r, db'))"

section \<open>Accounts\<close>

record new_ids =
  ni_user :: ident
  ni_profile :: ident
  ni_company :: ident
  ni_member :: ident

record company_data =
  cd_name :: string
  cd_business :: string
  cd_domestic :: jsval
  cd_targets :: jsval

definition create_company ::
  "millis \<Rightarrow> new_ids \<Rightarrow> company_data \<Rightarrow> id_db \<Rightarrow> service_error + id_db" where
  "create_company now ids c db =
     (let (domestic, targets) = normalize_company_markets (JStr ''trial'') (cd_domestic c) (cd_targets c)
      in bind_result (insert_company now (ni_company ids) (cd_name c) (cd_business c) ''trial'' domestic targets db)
           (\<lambda>db1. bind_result
             (insert_company_admin now (ni_member ids) (ni_company ids) (ni_user ids)
               (assign_profile_company (ni_user ids) (ni_company ids) db1))
             (\<lambda>db2. Inr (initialize_trial now (ni_company ids) db2))))"

text \<open>The result is the id of the user and that of the company, if one was created.\<close>

definition create_user ::
  "(string \<Rightarrow> string) \<Rightarrow> millis \<Rightarrow> new_ids \<Rightarrow> string \<Rightarrow> string \<Rightarrow> string \<Rightarrow> string \<Rightarrow> company_data option \<Rightarrow>
   id_db \<Rightarrow> (ident \<times> ident option) id_result" where
  "create_user hash now ids email password name role company db =
     bind_result (insert_user now (ni_user ids) email (hash password) name db) (\<lambda>db1.
     bind_result (insert_profile (ni_profile ids) (ni_user ids) email name None db1) (\<lambda>db2.
     bind_result (add_role (ni_user ids) role db2) (\<lambda>db3.
     bind_result
       (case company of
          Some c \<Rightarrow> if role = ''b2b'' then create_company now ids c db3 else Inr db3
        | None \<Rightarrow> Inr db3) (\<lambda>db4.
       Inr ((ni_user ids, if role = ''b2b'' \<and> company \<noteq> None then Some (ni_company ids) else None),
            if role = ''b2c'' then insert_rewards (ni_user ids) db4 else db4)))))"

definition create_invited_user ::
  "(string \<Rightarrow> string) \<Rightarrow> random_source \<Rightarrow> millis \<Rightarrow> new_ids \<Rightarrow> jsval \<Rightarrow> jsval \<Rightarrow> ident \<Rightarrow> id_db \<Rightarrow>
   ident id_result" where
  "create_invited_user hash rand now ids email name company db =
     (let email = lower (trim (str_or_empty email)); name = trim (str_or_empty name)
      in bind_result (insert_user now (ni_user ids) email (hash (generate_system_password rand 20)) name db)
           (\<lambda>db1. bind_result (insert_profile (ni_profile ids) (ni_user ids) email name (Some company) db1)
             (\<lambda>db2. bind_result (add_role (ni_user ids) ''b2b'' db2) (\<lambda>db3. Inr (ni_user ids, db3)))))"

section \<open>Registration\<close>

record signup =
  sg_email :: string
  sg_password :: string
  sg_name :: string
  sg_role :: string
  sg_company :: jsval
  sg_business :: jsval
  sg_domestic :: jsval
  sg_targets :: jsval

text \<open>\<open>typeof v === 'string' && v.trim().length > 0\<close>\<close>

fun has_text :: "jsval \<Rightarrow> bool" where
  "has_text (JStr s) = (trim s \<noteq> [])"
| "has_text _ = False"

definition company_data_of :: "signup \<Rightarrow> company_data option" where
  "company_data_of s =
     (if sg_role s = ''b2b'' \<and> has_text (sg_company s) \<and> has_text (sg_business s)
      then Some \<lparr>cd_name = trim (to_str (sg_company s)), cd_business = to_str (sg_business s),
        cd_domestic = sg_domestic s, cd_targets = sg_targets s\<rparr>
      else None)"

text \<open>The old account of an address that was never verified is deleted in a statement of its own.\<close>

definition register ::
  "(string \<Rightarrow> string) \<Rightarrow> millis \<Rightarrow> new_ids \<Rightarrow> signup \<Rightarrow> id_db \<Rightarrow> (ident \<times> ident option) outcome" where
  "register hash now ids s db =
     (let create = transactional (create_user hash now ids (sg_email s) (sg_password s) (sg_name s) (sg_role s)
            (company_data_of s))
      in case get_user_by_email (sg_email s) db of
           None \<Rightarrow> create db
         | Some u \<Rightarrow>
             (if ac_verified u then (Inl (Service_Error ''EMAIL_EXISTS'' 409), db)
              else if map_option cm_status (get_primary_membership (ac_id u) True db) = Some ''invited''
              then (Inl (Service_Error ''INVITED_ACCOUNT_PENDING_ACTIVATION'' 409), db)
              else case delete_user (ac_id u) db of
                     Inl e \<Rightarrow> (Inl e, db)
                   | Inr db1 \<Rightarrow> create db1))"

section \<open>Verification\<close>

definition mark_email_verified :: "millis \<Rightarrow> ident \<Rightarrow> id_db \<Rightarrow> id_db" where
  "mark_email_verified now user db =
     db\<lparr>id_users := update_where (\<lambda>u. us_id u = user)
       (\<lambda>u. u\<lparr>us_verified := True, us_verified_at := Some now, us_updated := now\<rparr>) (id_users db)\<rparr>"

definition mark_user_logged_in :: "millis \<Rightarrow> ident \<Rightarrow> id_db \<Rightarrow> id_db" where
  "mark_user_logged_in now user db =
     db\<lparr>id_users := update_where (\<lambda>u. us_id u = user)
       (\<lambda>u. u\<lparr>us_last_login := Some now, us_updated := now\<rparr>) (id_users db)\<rparr>"

definition find_membership :: "ident \<Rightarrow> ident \<Rightarrow> id_db \<Rightarrow> member_row option" where
  "find_membership company user db =
     select_one (\<lambda>m. cm_company m = company \<and> cm_user m = user) (id_members db)"

definition activate_membership :: "millis \<Rightarrow> ident \<Rightarrow> ident \<Rightarrow> id_db \<Rightarrow> id_db" where
  "activate_membership now company user db =
     db\<lparr>id_members := update_where
       (\<lambda>m. cm_company m = company \<and> cm_user m = user \<and> cm_status m = ''invited'')
       (\<lambda>m. m\<lparr>cm_status := ''active'', cm_updated := now\<rparr>) (id_members db)\<rparr>"

definition mark_membership_logged_in :: "millis \<Rightarrow> ident \<Rightarrow> ident \<Rightarrow> id_db \<Rightarrow> id_db" where
  "mark_membership_logged_in now company user db =
     db\<lparr>id_members := update_where (\<lambda>m. cm_company m = company \<and> cm_user m = user)
       (\<lambda>m. m\<lparr>cm_last_login := Some now, cm_updated := now\<rparr>) (id_members db)\<rparr>"

definition resolve_company_for_token :: "ident \<Rightarrow> ident option \<Rightarrow> id_db \<Rightarrow> ident option" where
  "resolve_company_for_token user fallback db =
     (case get_primary_membership user False db of Some m \<Rightarrow> Some (cm_company m) | None \<Rightarrow> fallback)"

record verified =
  vf_already :: bool
  vf_user :: account
  vf_company :: "ident option"

definition verify_email ::
  "(jsval \<Rightarrow> jsval) \<Rightarrow> millis \<Rightarrow> jsval \<Rightarrow> jsval \<Rightarrow> bool \<Rightarrow> string \<Rightarrow> id_db \<Rightarrow> verified outcome" where
  "verify_email claims now token address tidy already db =
     (let c = claims token;
          requested = (if tidy then JStr (lower (trim (to_str address))) else address);
          named = (if tidy then JStr (lower (str_or_empty (jget c ''email''))) else jget c ''email'')
      in if \<not> truthy token \<or> \<not> truthy address then (Inl (Service_Error ''MISSING_PARAMETERS'' 400), db)
         else if \<not> truthy c \<or> jget c ''type'' \<noteq> JStr ''email_verification'' \<or> \<not> strict_eq named requested
         then (Inl (Service_Error ''INVALID_VERIFICATION_TOKEN'' 400), db)
         else case get_user_by_email (to_str requested) db of
                None \<Rightarrow> (Inl (Service_Error ''USER_NOT_FOUND'' 404), db)
              | Some u \<Rightarrow>
                  (if ac_verified u
                   then if already = ''error'' then (Inl (Service_Error ''ALREADY_VERIFIED'' 400), db)
                        else (Inr \<lparr>vf_already = True, vf_user = u, vf_company = None\<rparr>, db)
                   else let db1 = mark_email_verified now (ac_id u) db
                        in (Inr \<lparr>vf_already = False, vf_user = u,
                              vf_company = resolve_company_for_token (ac_id u) (ac_company u) db1\<rparr>, db1)))"

text \<open>Whether a verification mail is sent; an unknown address is not told.\<close>

definition resend_verification :: "jsval \<Rightarrow> id_db \<Rightarrow> service_error + bool" where
  "resend_verification address db =
     (if \<not> truthy address then Inl (Service_Error ''VALIDATION_ERROR'' 400)
      else case get_user_by_email (to_str address) db of
             None \<Rightarrow> Inr False
           | Some u \<Rightarrow> if ac_verified u then Inl (Service_Error ''ALREADY_VERIFIED'' 400) else Inr True)"

definition accept_company_invite ::
  "(jsval \<Rightarrow> jsval) \<Rightarrow> millis \<Rightarrow> jsval \<Rightarrow> id_db \<Rightarrow> (ident \<times> account) outcome" where
  "accept_company_invite claims now token db =
     (let c = claims token; email = lower (trim (str_or_empty (jget c ''email'')));
          company = trim (str_or_empty (jget c ''company_id''))
      in if \<not> truthy token then (Inl (Service_Error ''MISSING_PARAMETERS'' 400), db)
         else if \<not> truthy c \<or> jget c ''type'' \<noteq> JStr ''company_invite'' \<or> email = [] \<or> company = []
         then (Inl (Service_Error ''INVALID_INVITE_TOKEN'' 400), db)
         else case get_user_by_email email db of
                None \<Rightarrow> (Inl (Service_Error ''USER_NOT_FOUND'' 404), db)
              | Some u \<Rightarrow>
                  (case find_membership company (ac_id u) db of
                     None \<Rightarrow> (Inl (Service_Error ''INVITE_NOT_FOUND'' 404), db)
                   | Some m \<Rightarrow>
                       (if cm_status m = ''disabled'' then (Inl (Service_Error ''INVITE_DISABLED'' 403), db)
                        else let db1 = (if ac_verified u then db else mark_email_verified now (ac_id u) db);
                                 db2 = activate_membership now company (ac_id u) db1;
                                 db3 = mark_membership_logged_in now company (ac_id u) db2;
                                 db4 = mark_user_logged_in now (ac_id u) db3
                             in (Inr (company, case get_user_by_id (ac_id u) db4 of Some v \<Rightarrow> v | None \<Rightarrow> u),
                                 db4))))"

section \<open>The company of a session\<close>

record membership_view =
  mv_company :: ident
  mv_role :: string
  mv_status :: string
  mv_root :: bool
  mv_inferred :: bool

record session_context =
  sc_company :: "company_info option"
  sc_membership :: "membership_view option"
  sc_token_company :: "ident option"

definition resolve_context :: "millis \<Rightarrow> account \<Rightarrow> bool \<Rightarrow> id_db \<Rightarrow> session_context \<times> id_db" where
  "resolve_context now u update_login db =
     (case get_primary_membership (ac_id u) False db of
        Some m \<Rightarrow>
          (\<lparr>sc_company = find_company (cm_company m) db,
            sc_membership = Some \<lparr>mv_company = cm_company m, mv_role = cm_role m, mv_status = cm_status m,
              mv_root = (cm_role m = ''admin''), mv_inferred = False\<rparr>,
            sc_token_company = Some (cm_company m)\<rparr>,
           if update_login \<and> cm_status m = ''active''
           then mark_membership_logged_in now (cm_company m) (ac_id u) db else db)
      | None \<Rightarrow>
          (case ac_company u of
             None \<Rightarrow> (\<lparr>sc_company = None, sc_membership = None, sc_token_company = None\<rparr>, db)
           | Some c \<Rightarrow>
               (case find_company c db of
                  None \<Rightarrow> (\<lparr>sc_company = None, sc_membership = None, sc_token_company = Some c\<rparr>, db)
                | Some i \<Rightarrow> (\<lparr>sc_company = Some i,
                    sc_membership = Some \<lparr>mv_company = ci_id i, mv_role = ''admin'', mv_status = ''active'',
                      mv_root = True, mv_inferred = True\<rparr>,
                    sc_token_company = Some (ci_id i)\<rparr>, db))))"

end
