(* ===== verification/Company_Members.thy ===== *)
theory Company_Members
  imports Provisioning
begin

text \<open>
  \<open>modules/organizations/companyMembersRepository.js\<close> and \<open>companyMembersService.js\<close>: the members of a
  company, who an administrator invites, changes, disables and removes. The analytics events queued in
  a transaction are those of \<open>Subscription\<close>; sending a mail is left out, except that a resent
  invitation reports whether it was sent.
\<close>

section \<open>The repository\<close>

record member_view =
  mb_id :: ident
  mb_user :: ident
  mb_name :: string
  mb_email :: string
  mb_role :: string
  mb_status :: string
  mb_last_login :: "millis option"
  mb_created :: millis

definition user_of :: "ident \<Rightarrow> id_db \<Rightarrow> user_row option" where
  "user_of i db = select_one (\<lambda>u. us_id u = i) (id_users db)"

definition member_view_of :: "member_row \<Rightarrow> user_row \<Rightarrow> member_view" where
  "member_view_of m u =
     \<lparr>mb_id = cm_id m, mb_user = cm_user m, mb_name = us_name u, mb_email = us_email u, mb_role = cm_role m,
      mb_status = cm_status m, mb_last_login = cm_last_login m, mb_created = cm_created m\<rparr>"

text \<open>The inner join with \<open>users\<close>; an absent filter is the empty string.\<close>

definition list_members :: "ident \<Rightarrow> string \<Rightarrow> string \<Rightarrow> id_db \<Rightarrow> member_view list" where
  "list_members company status role db =
     sort_key (\<lambda>v. - mb_created v)
       (List.map_filter (\<lambda>m. map_option (member_view_of m) (user_of (cm_user m) db))
         (filter (\<lambda>m. cm_company m = company \<and> (status = [] \<or> cm_status m = status)
            \<and> (role = [] \<or> cm_role m = role)) (id_members db)))"

record member_meta =
  mm_total :: nat
  mm_active :: nat
  mm_invited :: nat
  mm_disabled :: nat

definition member_meta_of :: "ident \<Rightarrow> id_db \<Rightarrow> member_meta" where
  "member_meta_of company db =
     (let having = (\<lambda>s. matching (\<lambda>m. cm_company m = company \<and> cm_status m = s) (id_members db))
      in \<lparr>mm_total = matching (\<lambda>m. cm_company m = company) (id_members db), mm_active = having ''active'',
          mm_invited = having ''invited'', mm_disabled = having ''disabled''\<rparr>)"

definition find_membership_by_email :: "ident \<Rightarrow> string \<Rightarrow> id_db \<Rightarrow> member_row option" where
  "find_membership_by_email company email db =
     select_one (\<lambda>m. cm_company m = company \<and> map_option us_email (user_of (cm_user m) db) = Some email)
       (id_members db)"

definition attach_profile :: "ident \<Rightarrow> ident \<Rightarrow> id_db \<Rightarrow> id_db" where
  "attach_profile company user db =
     db\<lparr>id_profiles := update_where (\<lambda>p. pf_user p = user \<and> pf_company p = None)
       (pf_company_update (\<lambda>_. Some company)) (id_profiles db)\<rparr>"

definition find_for_mutation :: "ident \<Rightarrow> ident \<Rightarrow> id_db \<Rightarrow> member_row option" where
  "find_for_mutation company i db =
     select_one (\<lambda>m. cm_id m = i \<and> cm_company m = company) (id_members db)"

text \<open>The fields a request may change; an empty one is not set. A value outside the enum is refused.\<close>

record member_change =
  mc_role :: string
  mc_status :: string

definition change_member :: "millis \<Rightarrow> member_change \<Rightarrow> member_row \<Rightarrow> member_row" where
  "change_member now c m =
     m\<lparr>cm_role := (if mc_role c = [] then cm_role m else mc_role c),
       cm_status := (if mc_status c = [] then cm_status m else mc_status c), cm_updated := now\<rparr>"

definition update_member_row ::
  "millis \<Rightarrow> ident \<Rightarrow> ident \<Rightarrow> member_change \<Rightarrow> id_db \<Rightarrow> service_error + id_db" where
  "update_member_row now company i c db =
     unless_violated
       [(mc_role c \<noteq> [] \<and> mc_role c \<notin> set company_roles, ''22P02''),
        (mc_status c \<noteq> [] \<and> mc_status c \<notin> set member_statuses, ''22P02'')]
       (db\<lparr>id_members := update_where (\<lambda>m. cm_id m = i \<and> cm_company m = company) (change_member now c)
          (id_members db)\<rparr>)"

definition delete_member_row :: "ident \<Rightarrow> ident \<Rightarrow> id_db \<Rightarrow> id_db" where
  "delete_member_row company i db =
     db\<lparr>id_members := delete_where (\<lambda>m. cm_id m = i \<and> cm_company m = company) (id_members db)\<rparr>"

definition find_active_role :: "ident \<Rightarrow> ident \<Rightarrow> id_db \<Rightarrow> string option" where
  "find_active_role company user db =
     map_option cm_role (select_one (\<lambda>m. cm_company m = company \<and> cm_user m = user \<and> cm_status m = ''active'')
       (id_members db))"

section \<open>The service\<close>

definition queue_event :: "string \<Rightarrow> ident \<Rightarrow> ident \<Rightarrow> ident \<Rightarrow> props \<Rightarrow> id_db \<Rightarrow> id_db" where
  "queue_event name user company entity payload db =
     db\<lparr>id_subs := push_event (JObj [(''event_name'', JStr name), (''user_id'', JStr user),
       (''company_id'', JStr company), (''entity_type'', JStr ''company_member''), (''entity_id'', JStr entity),
       (''payload'', JObj payload)]) (id_subs db)\<rparr>"

definition get_members :: "ident \<Rightarrow> string \<Rightarrow> string \<Rightarrow> id_db \<Rightarrow> member_view list \<times> member_meta" where
  "get_members company status role db = (list_members company status role db, member_meta_of company db)"

text \<open>The user an invitation is for: the account of the address, or a new one.\<close>

definition invited_user ::
  "(string \<Rightarrow> string) \<Rightarrow> random_source \<Rightarrow> millis \<Rightarrow> new_ids \<Rightarrow> ident \<Rightarrow> string \<Rightarrow> string \<Rightarrow> id_db \<Rightarrow>
   ident id_result" where
  "invited_user hash rand now ids company email name db =
     (case get_user_by_email email db of
        None \<Rightarrow> create_invited_user hash rand now ids (JStr email) (JStr name) company db
      | Some u \<Rightarrow>
          (if JStr ''b2c'' \<in> set (ac_roles u)
           then Inl (Service_Error ''B2C_EMAIL_NOT_ALLOWED_FOR_B2B'' 409)
           else let db1 = attach_profile company (ac_id u) db
                in if (ac_id u, ''b2b'') \<in> set (id_roles db1) then Inr (ac_id u, db1)
                   else bind_result (add_role (ac_id u) ''b2b'' db1) (\<lambda>db2. Inr (ac_id u, db2))))"

definition invite_member ::
  "(string \<Rightarrow> string) \<Rightarrow> random_source \<Rightarrow> millis \<Rightarrow> new_ids \<Rightarrow> ident \<Rightarrow> ident \<Rightarrow> string \<Rightarrow> string \<Rightarrow>
   string \<Rightarrow> id_db \<Rightarrow> ident id_result" where
  "invite_member hash rand now ids company inviter email name role db =
     (if find_company company db = None then Inl (Service_Error ''COMPANY_NOT_FOUND'' 404)
      else if find_membership_by_email company email db \<noteq> None
      then Inl (Service_Error ''DUPLICATE_MEMBER_EMAIL'' 409)
      else bind_result (invited_user hash rand now ids company email name db) (\<lambda>(user, db1).
           bind_result (insert_membership now (ni_member ids) company user role ''invited'' inviter db1) (\<lambda>db2.
             Inr (user, queue_event ''wc_member_invited'' inviter company (ni_member ids)
               [(''member_role'', JStr role)] db2))))"

definition create_member ::
  "(string \<Rightarrow> string) \<Rightarrow> random_source \<Rightarrow> millis \<Rightarrow> new_ids \<Rightarrow> ident \<Rightarrow> ident \<Rightarrow> jsval \<Rightarrow> jsval \<Rightarrow>
   string \<Rightarrow> id_db \<Rightarrow> ident outcome" where
  "create_member hash rand now ids company inviter email name role db =
     transactional (invite_member hash rand now ids company inviter (lower (trim (str_or_empty email)))
       (trim (str_or_empty name)) role) db"

text \<open>\<open>sent\<close> is whether the mail service took the mail.\<close>

definition resend_invite :: "bool \<Rightarrow> ident \<Rightarrow> ident \<Rightarrow> id_db \<Rightarrow> service_error + (ident \<times> string)" where
  "resend_invite sent company i db =
     (case find_for_mutation company i db of
        None \<Rightarrow> Inl (Service_Error ''MEMBER_NOT_FOUND'' 404)
      | Some m \<Rightarrow>
          (case user_of (cm_user m) db of
             None \<Rightarrow> Inl (Service_Error ''MEMBER_NOT_FOUND'' 404)
           | Some u \<Rightarrow>
               (if cm_status m \<noteq> ''invited'' then Inl (Service_Error ''INVITE_NOT_PENDING'' 409)
                else if \<not> sent then Inl (Service_Error ''INVITE_EMAIL_SEND_FAILED'' 502)
                else Inr (cm_id m, us_email u))))"

definition shown_role :: "string \<Rightarrow> string" where
  "shown_role role = (if role = ''editor'' then ''member'' else role)"

text \<open>The checks both changes of a member start with.\<close>

definition guarded_member ::
  "string \<Rightarrow> ident \<Rightarrow> ident \<Rightarrow> ident \<Rightarrow> id_db \<Rightarrow> service_error + member_row" where
  "guarded_member self_error company i actor db =
     (case find_for_mutation company i db of
        None \<Rightarrow> Inl (Service_Error ''MEMBER_NOT_FOUND'' 404)
      | Some m \<Rightarrow>
          (if cm_user m = actor then Inl (Service_Error self_error 400)
           else if cm_role m = ''admin'' then Inl (Service_Error ''ADMIN_MEMBER_PROTECTED'' 400)
           else Inr m))"

definition change_events :: "ident \<Rightarrow> ident \<Rightarrow> ident \<Rightarrow> member_row \<Rightarrow> member_change \<Rightarrow> id_db \<Rightarrow> id_db" where
  "change_events company i actor m c db =
     (let db1 = (if mc_role c = [] then db else queue_event ''wc_member_role_changed'' actor company i
            [(''previous_role'', JStr (shown_role (cm_role m))), (''next_role'', JStr (shown_role (mc_role c)))] db)
      in if mc_status c = [] then db1 else queue_event ''wc_member_disabled'' actor company i
           [(''member_role'', JStr (shown_role (cm_role m))), (''status'', JStr (mc_status c))] db1)"

definition update_member ::
  "millis \<Rightarrow> ident \<Rightarrow> ident \<Rightarrow> ident \<Rightarrow> member_change \<Rightarrow> id_db \<Rightarrow> member_row outcome" where
  "update_member now company i actor c db =
     transactional (\<lambda>db.
       bind_result (guarded_member ''CANNOT_UPDATE_SELF'' company i actor db) (\<lambda>m.
         if mc_role c = [] \<and> mc_status c = [] then Inl (Service_Error ''NO_FIELDS_TO_UPDATE'' 400)
         else bind_result (update_member_row now company i c db) (\<lambda>db1.
           Inr (change_member now c m, change_events company i actor m c db1)))) db"

definition delete_member :: "ident \<Rightarrow> ident \<Rightarrow> ident \<Rightarrow> id_db \<Rightarrow> bool outcome" where
  "delete_member company i actor db =
     transactional (\<lambda>db.
       bind_result (guarded_member ''CANNOT_DELETE_SELF'' company i actor db) (\<lambda>m.
         Inr (True, queue_event ''wc_member_removed'' actor company i
           [(''member_role'', JStr (shown_role (cm_role m)))] (delete_member_row company i db)))) db"

definition is_company_admin :: "ident \<Rightarrow> ident \<Rightarrow> id_db \<Rightarrow> bool" where
  "is_company_admin user company db = (find_active_role company user db = Some ''admin'')"

definition is_company_member :: "ident \<Rightarrow> ident \<Rightarrow> id_db \<Rightarrow> bool" where
  "is_company_member user company db = (find_active_role company user db \<noteq> None)"

end
