(* ===== verification/Mfa.thy ===== *)
theory Mfa
  imports Auth_Secrets Sql_Table
begin

text \<open>
  \<open>modules/auth/mfaService.js\<close>: the revisions of a user's authenticator, the challenge at sign-in and
  the recovery codes. The tables are \<open>user_mfa_factor_revisions\<close> and
  \<open>user_mfa_recovery_code_consumptions\<close>, whose rows are never changed or deleted. Encryption, scrypt,
  HMAC and the password check are the functions of a record \<open>mfa_lib\<close>. Enrolment, confirmation and
  disabling hold an advisory lock on the user from their first read to the commit, so that each is one
  step; what throws or answers \<open>blocked\<close> is rolled back.
\<close>

section \<open>Tables\<close>

type_synonym sealed = "string \<times> string \<times> string"

datatype factor_status = Factor_Pending | Factor_Enabled | Factor_Disabled

record mfa_factor =
  mf_id :: ident
  mf_user :: ident
  mf_revision :: nat
  mf_status :: factor_status
  mf_secret :: "sealed option"
  mf_hashes :: "(string \<times> string) list"
  mf_reason :: string
  mf_created :: millis

record mfa_db =
  mfa_passwords :: "(ident \<times> string) list"
  mfa_factors :: "mfa_factor list"
  mfa_used :: "(ident \<times> ident \<times> string) list"

record mfa_lib =
  lib_hmac :: "8 word list \<Rightarrow> 8 word list \<Rightarrow> 8 word list"
  lib_encrypt :: "string \<Rightarrow> ident \<Rightarrow> sealed"
  lib_decrypt :: "sealed \<Rightarrow> ident \<Rightarrow> js_error + string"
  lib_scrypt :: "string \<Rightarrow> string \<Rightarrow> string"
  lib_password_ok :: "string \<Rightarrow> string \<Rightarrow> bool"

fun factor_status_name :: "factor_status \<Rightarrow> string" where
  "factor_status_name Factor_Pending = ''pending''"
| "factor_status_name Factor_Enabled = ''enabled''"
| "factor_status_name Factor_Disabled = ''disabled''"

text \<open>\<open>ORDER BY revision DESC LIMIT 1\<close>\<close>

fun last_revision :: "mfa_factor list \<Rightarrow> mfa_factor option" where
  "last_revision [] = None"
| "last_revision (f # fs) =
     (case last_revision fs of None \<Rightarrow> Some f
      | Some g \<Rightarrow> Some (if mf_revision g < mf_revision f then f else g))"

definition latest_factor :: "ident \<Rightarrow> mfa_factor list \<Rightarrow> mfa_factor option" where
  "latest_factor user fs = last_revision (filter (\<lambda>f. mf_user f = user) fs)"

definition active_factor :: "ident \<Rightarrow> mfa_factor list \<Rightarrow> mfa_factor option" where
  "active_factor user fs =
     (case latest_factor user fs of
        None \<Rightarrow> None
      | Some c \<Rightarrow>
          (if mf_status c = Factor_Disabled then None
           else if mf_status c = Factor_Enabled then Some c
           else last_revision (filter (\<lambda>f. mf_user f = user \<and> mf_status f = Factor_Enabled
                  \<and> mf_revision f < mf_revision c) fs)))"

text \<open>\<open>COALESCE(MAX(revision), 0) + 1\<close>\<close>

definition next_revision :: "ident \<Rightarrow> mfa_factor list \<Rightarrow> nat" where
  "next_revision user fs = (case latest_factor user fs of None \<Rightarrow> 1 | Some f \<Rightarrow> mf_revision f + 1)"

section \<open>Operations\<close>

record challenge_state =
  cs_enabled :: bool
  cs_status :: string
  cs_revision :: nat
  cs_active_revision :: "nat option"

definition get_challenge_state :: "ident \<Rightarrow> mfa_db \<Rightarrow> challenge_state" where
  "get_challenge_state user db =
     (let current = latest_factor user (mfa_factors db); a = active_factor user (mfa_factors db)
      in \<lparr>cs_enabled = (a \<noteq> None),
          cs_status = (case current of None \<Rightarrow> ''not_enrolled'' | Some f \<Rightarrow> factor_status_name (mf_status f)),
          cs_revision = (case current of None \<Rightarrow> 0 | Some f \<Rightarrow> mf_revision f),
          cs_active_revision = map_option mf_revision a\<rparr>)"

text \<open>\<open>recoveryCodesRemaining\<close> of \<open>getStatus\<close>, as a JavaScript difference.\<close>

definition recovery_codes_remaining :: "ident \<Rightarrow> mfa_db \<Rightarrow> int" where
  "recovery_codes_remaining user db =
     (case active_factor user (mfa_factors db) of
        None \<Rightarrow> 0
      | Some f \<Rightarrow> int (length (mf_hashes f))
          - int (matching (\<lambda>(u, i, h). i = mf_id f \<and> u = user) (mfa_used db)))"

definition matching_recovery :: "mfa_lib \<Rightarrow> string \<Rightarrow> mfa_factor \<Rightarrow> (string \<times> string) option" where
  "matching_recovery lib given f =
     find (\<lambda>(salt, h). lib_scrypt lib (normalize_recovery given) salt = h) (mf_hashes f)"

text \<open>The insertion of a consumption, with its ON CONFLICT DO NOTHING: whether a row came back.\<close>

definition consume_recovery :: "ident \<Rightarrow> ident \<Rightarrow> string \<Rightarrow> mfa_db \<Rightarrow> bool \<times> mfa_db" where
  "consume_recovery user i h db =
     (if (i, h) \<in> (\<lambda>(u, i, h). (i, h)) ` set (mfa_used db) then (False, db)
      else (True, db\<lparr>mfa_used := mfa_used db @ [(user, i, h)]\<rparr>))"

definition open_secret :: "mfa_lib \<Rightarrow> mfa_factor \<Rightarrow> js_error + string" where
  "open_secret lib f =
     (case mf_secret f of
        None \<Rightarrow> Inl (Type_Error ''ERR_INVALID_ARG_TYPE'')
      | Some s \<Rightarrow> lib_decrypt lib s (mf_user f))"

definition verify_challenge ::
  "mfa_lib \<Rightarrow> millis \<Rightarrow> ident \<Rightarrow> jsval \<Rightarrow> mfa_db \<Rightarrow> js_error + bool \<times> mfa_db" where
  "verify_challenge lib now user typed db =
     (case active_factor user (mfa_factors db) of
        None \<Rightarrow> Inr (False, db)
      | Some f \<Rightarrow>
          (let given = trim (str_or_empty typed)
           in bind_result (open_secret lib f) (\<lambda>secret.
                bind_result (verify_totp (lib_hmac lib) now secret given) (\<lambda>ok.
                  if ok then Inr (True, db)
                  else case matching_recovery lib given f of
                         None \<Rightarrow> Inr (False, db)
                       | Some (salt, h) \<Rightarrow> Inr (consume_recovery user (mf_id f) h db)))))"

datatype mfa_reply =
    Blocked string nat
  | Enrolled nat string
  | Confirmed nat "string list"
  | Disabled nat

definition password_accepted :: "mfa_lib \<Rightarrow> ident \<Rightarrow> string \<Rightarrow> mfa_db \<Rightarrow> bool" where
  "password_accepted lib user password db =
     (case map_of (mfa_passwords db) user of
        None \<Rightarrow> False
      | Some h \<Rightarrow> h \<noteq> [] \<and> lib_password_ok lib password h)"

definition add_factor :: "mfa_factor \<Rightarrow> mfa_db \<Rightarrow> mfa_db" where
  "add_factor f db = db\<lparr>mfa_factors := mfa_factors db @ [f]\<rparr>"

definition pending_row ::
  "mfa_lib \<Rightarrow> millis \<Rightarrow> ident \<Rightarrow> ident \<Rightarrow> nat \<Rightarrow> string \<Rightarrow> mfa_factor option \<Rightarrow> mfa_factor" where
  "pending_row lib now i user revision secret current =
     \<lparr>mf_id = i, mf_user = user, mf_revision = revision, mf_status = Factor_Pending,
      mf_secret = Some (lib_encrypt lib secret user), mf_hashes = [],
      mf_reason = (if map_option mf_status current = Some Factor_Enabled
        then ''MFA factor rotation initiated.'' else ''MFA enrollment initiated.''),
      mf_created = now\<rparr>"

definition begin_enrollment ::
  "mfa_lib \<Rightarrow> millis \<Rightarrow> ident \<Rightarrow> 8 word list \<Rightarrow> ident \<Rightarrow> string \<Rightarrow> jsval \<Rightarrow> mfa_db \<Rightarrow>
   js_error + mfa_reply \<times> mfa_db" where
  "begin_enrollment lib now i random user password typed db =
     (if \<not> password_accepted lib user password db
      then Inr (Blocked ''MFA_PASSWORD_INVALID'' 401, db)
      else let secret = base32_encode random;
               current = latest_factor user (mfa_factors db)
           in bind_result
                (if active_factor user (mfa_factors db) = None then Inr (True, db)
                 else verify_challenge lib now user typed db)
                (\<lambda>(ok, db1).
                   if \<not> ok then Inr (Blocked ''MFA_CURRENT_CODE_INVALID'' 401, db)
                   else let revision = next_revision user (mfa_factors db1)
                        in Inr (Enrolled revision secret,
                             add_factor (pending_row lib now i user revision secret current) db1)))"

definition enabled_row ::
  "mfa_lib \<Rightarrow> millis \<Rightarrow> ident \<Rightarrow> ident \<Rightarrow> nat \<Rightarrow> (string \<times> string) list \<Rightarrow> mfa_factor \<Rightarrow> mfa_factor" where
  "enabled_row lib now i user revision codes pending =
     \<lparr>mf_id = i, mf_user = user, mf_revision = revision, mf_status = Factor_Enabled,
      mf_secret = mf_secret pending,
      mf_hashes = map (\<lambda>(c, salt). (salt, lib_scrypt lib (normalize_recovery c) salt)) codes,
      mf_reason = ''MFA enrollment confirmed.'', mf_created = now\<rparr>"

text \<open>\<open>codes\<close> are the ten recovery codes and \<open>salts\<close> their salts, both random.\<close>

definition confirm_enrollment ::
  "mfa_lib \<Rightarrow> millis \<Rightarrow> ident \<Rightarrow> (string \<times> string) list \<Rightarrow> ident \<Rightarrow> jsval \<Rightarrow> mfa_db \<Rightarrow>
   js_error + mfa_reply \<times> mfa_db" where
  "confirm_enrollment lib now i codes user typed db =
     (case latest_factor user (mfa_factors db) of
        None \<Rightarrow> Inr (Blocked ''MFA_ENROLLMENT_NOT_PENDING'' 409, db)
      | Some p \<Rightarrow>
          (if mf_status p \<noteq> Factor_Pending then Inr (Blocked ''MFA_ENROLLMENT_NOT_PENDING'' 409, db)
           else bind_result (open_secret lib p) (\<lambda>secret.
             bind_result (verify_totp (lib_hmac lib) now secret (str_or_empty typed)) (\<lambda>ok.
               if \<not> ok then Inr (Blocked ''MFA_CODE_INVALID'' 401, db)
               else let revision = next_revision user (mfa_factors db)
                    in Inr (Confirmed revision (map fst codes),
                         add_factor (enabled_row lib now i user revision codes p) db)))))"

definition disabled_row :: "millis \<Rightarrow> ident \<Rightarrow> ident \<Rightarrow> nat \<Rightarrow> string \<Rightarrow> mfa_factor" where
  "disabled_row now i user revision why =
     \<lparr>mf_id = i, mf_user = user, mf_revision = revision, mf_status = Factor_Disabled, mf_secret = None,
      mf_hashes = [], mf_reason = why, mf_created = now\<rparr>"

text \<open>The column \<open>reason\<close> takes at most 1000 characters.\<close>

definition disable_factor ::
  "mfa_lib \<Rightarrow> millis \<Rightarrow> ident \<Rightarrow> ident \<Rightarrow> string \<Rightarrow> jsval \<Rightarrow> jsval \<Rightarrow> mfa_db \<Rightarrow>
   js_error + mfa_reply \<times> mfa_db" where
  "disable_factor lib now i user password typed reason db =
     (let why = trim (str_or_empty reason)
      in if why = [] then Inr (Blocked ''MFA_DISABLE_REASON_REQUIRED'' 422, db)
         else if \<not> password_accepted lib user password db
         then Inr (Blocked ''MFA_PASSWORD_INVALID'' 401, db)
         else bind_result (verify_challenge lib now user typed db) (\<lambda>(ok, db1).
           if \<not> ok then Inr (Blocked ''MFA_CODE_INVALID'' 401, db)
           else if 1000 < length why then Inl (Plain_Error ''violates check constraint'')
           else let revision = next_revision user (mfa_factors db1)
                in Inr (Disabled revision, add_factor (disabled_row now i user revision why) db1)))"

section \<open>The tables only grow\<close>

definition grows :: "mfa_db \<Rightarrow> mfa_db \<Rightarrow> bool" where
  "grows db db' = (mfa_passwords db' = mfa_passwords db
     \<and> (\<exists>fs. mfa_factors db' = mfa_factors db @ fs) \<and> (\<exists>us. mfa_used db' = mfa_used db @ us))"

lemma grows_refl [simp]: "grows db db"
  by (simp add: grows_def)

lemma grows_trans: "grows a b \<Longrightarrow> grows b c \<Longrightarrow> grows a c"
  by (auto simp: grows_def)

lemma consume_cases:
  assumes "consume_recovery user i h db = (ok, db')"
  shows "mfa_factors db' = mfa_factors db \<and> grows db db'
    \<and> (ok \<longrightarrow> db' = db\<lparr>mfa_used := mfa_used db @ [(user, i, h)]\<rparr>) \<and> (\<not> ok \<longrightarrow> db' = db)"
  using assms by (auto simp: consume_recovery_def grows_def split: if_splits)

text \<open>The four ways a challenge ends.\<close>

lemma verify_challenge_cases:
  assumes "verify_challenge lib now user typed db = Inr (ok, db')"
  obtains (no_factor) "active_factor user (mfa_factors db) = None" "\<not> ok" "db' = db"
  | (password) f secret where "active_factor user (mfa_factors db) = Some f" "open_secret lib f = Inr secret"
      "verify_totp (lib_hmac lib) now secret (trim (str_or_empty typed)) = Inr True" "ok" "db' = db"
  | (no_match) f secret where "active_factor user (mfa_factors db) = Some f" "open_secret lib f = Inr secret"
      "matching_recovery lib (trim (str_or_empty typed)) f = None" "\<not> ok" "db' = db"
  | (recovery) f secret salt h where "active_factor user (mfa_factors db) = Some f" "open_secret lib f = Inr secret"
      "verify_totp (lib_hmac lib) now secret (trim (str_or_empty typed)) = Inr False"
      "matching_recovery lib (trim (str_or_empty typed)) f = Some (salt, h)"
      "consume_recovery user (mf_id f) h db = (ok, db')"
proof (cases "active_factor user (mfa_factors db)")
  case None
  with assms have "\<not> ok \<and> db' = db" by (simp add: verify_challenge_def)
  with None show thesis using no_factor by blast
next
  case (Some f)
  obtain secret where secret: "open_secret lib f = Inr secret"
    using assms Some by (cases "open_secret lib f") (simp_all add: verify_challenge_def)
  obtain b where b: "verify_totp (lib_hmac lib) now secret (trim (str_or_empty typed)) = Inr b"
    using assms Some secret
    by (cases "verify_totp (lib_hmac lib) now secret (trim (str_or_empty typed))")
       (simp_all add: verify_challenge_def)
  show thesis
  proof (cases b)
    case True
    with assms Some secret b have "ok \<and> db' = db" by (simp add: verify_challenge_def)
    with True password [OF Some secret] b show thesis by simp
  next
    case False
    show thesis
    proof (cases "matching_recovery lib (trim (str_or_empty typed)) f")
      case None
      with assms Some secret b False have "\<not> ok \<and> db' = db" by (simp add: verify_challenge_def)
      with no_match [OF Some secret None] show thesis by simp
    next
      case m: (Some m)
      obtain salt h where mm: "m = (salt, h)" by (cases m)
      with assms Some secret b False m have c: "consume_recovery user (mf_id f) h db = (ok, db')"
        by (simp add: verify_challenge_def)
      from b False have "verify_totp (lib_hmac lib) now secret (trim (str_or_empty typed)) = Inr False" by simp
      then show thesis using m unfolding mm by (rule recovery [OF Some secret _ _ c])
    qed
  qed
qed

lemma verify_challenge_grows:
  "verify_challenge lib now user typed db = Inr (ok, db') \<Longrightarrow> grows db db' \<and> mfa_factors db' = mfa_factors db"
  by (cases rule: verify_challenge_cases, assumption) (simp_all add: consume_cases)

section \<open>Revisions\<close>

lemma last_revision_Some: "last_revision fs = Some f \<Longrightarrow> f \<in> set fs \<and> (\<forall>g \<in> set fs. mf_revision g \<le> mf_revision f)"
proof (induction fs arbitrary: f)
  case (Cons a fs)
  show ?case
  proof (cases "last_revision fs")
    case None
    with Cons.prems show ?thesis by (cases fs) (auto split: option.splits)
  next
    case (Some g)
    from Cons.IH [OF Some] Cons.prems Some show ?thesis by (auto split: if_splits intro: order_trans)
  qed
qed simp

lemma last_revision_None: "last_revision fs = None \<longleftrightarrow> fs = []"
  by (cases fs) (auto split: option.splits)

lemma last_revision_append:
  "\<forall>g \<in> set fs. mf_revision g < mf_revision f \<Longrightarrow> last_revision (fs @ [f]) = Some f"
  by (induction fs) auto

lemma below_next_revision:
  "g \<in> set fs \<Longrightarrow> mf_user g = user \<Longrightarrow> mf_revision g < next_revision user fs"
  by (auto simp: next_revision_def latest_factor_def last_revision_None filter_empty_conv less_Suc_eq_le
      split: option.splits dest!: last_revision_Some)

lemma latest_after_add:
  assumes "mf_user f = user" and "mf_revision f = next_revision user fs"
  shows "latest_factor user (fs @ [f]) = Some f"
proof -
  have "\<forall>g \<in> set (filter (\<lambda>f. mf_user f = user) fs). mf_revision g < mf_revision f"
    using below_next_revision [of _ fs user] assms(2) by simp
  with assms(1) show ?thesis unfolding latest_factor_def by (simp add: last_revision_append)
qed

text \<open>The constraints of the tables, which the code never runs into.\<close>

definition factor_ok :: "mfa_factor \<Rightarrow> bool" where
  "factor_ok f = (0 < mf_revision f \<and> (mf_status f = Factor_Disabled) = (mf_secret f = None))"

definition mfa_ok :: "mfa_db \<Rightarrow> bool" where
  "mfa_ok db =
     (distinct (map (\<lambda>f. (mf_user f, mf_revision f)) (mfa_factors db)) \<and> distinct (map mf_id (mfa_factors db))
      \<and> (\<forall>f \<in> set (mfa_factors db). factor_ok f)
      \<and> distinct (map (\<lambda>(u, i, h). (i, h)) (mfa_used db)))"

lemma add_factor_ok:
  assumes "mfa_ok db" and "mf_id f \<notin> mf_id ` set (mfa_factors db)" and "factor_ok f"
    and "mf_revision f = next_revision (mf_user f) (mfa_factors db)"
  shows "mfa_ok (add_factor f db)"
proof -
  have "(mf_user f, mf_revision f) \<notin> (\<lambda>f. (mf_user f, mf_revision f)) ` set (mfa_factors db)"
    using below_next_revision [of _ "mfa_factors db" "mf_user f"] assms(4) by force
  with assms(1-3) show ?thesis by (simp add: mfa_ok_def add_factor_def)
qed

lemma challenge_ok:
  assumes "verify_challenge lib now user typed db = Inr (ok, db')" and "mfa_ok db"
  shows "mfa_ok db'"
  using assms(1)
proof (cases rule: verify_challenge_cases)
  case (recovery f secret salt h)
  from recovery(5) assms(2) show ?thesis
    by (auto simp: consume_recovery_def mfa_ok_def split: if_splits)
qed (use assms(2) in simp_all)

lemma add_factor_grows [simp]: "grows db (add_factor f db)"
  by (simp add: add_factor_def grows_def)

lemma begin_enrollment_cases:
  assumes "begin_enrollment lib now i random user password typed db = Inr (r, db')"
  obtains (blocked) "db' = db"
  | (started) db1 where "grows db db1" "mfa_factors db1 = mfa_factors db" "mfa_ok db \<Longrightarrow> mfa_ok db1"
      "db' = add_factor (pending_row lib now i user (next_revision user (mfa_factors db))
         (base32_encode random) (latest_factor user (mfa_factors db))) db1"
proof (cases "password_accepted lib user password db")
  case False
  with assms have "db' = db" by (simp add: begin_enrollment_def)
  then show thesis by (rule blocked)
next
  case True
  define v where "v = (if active_factor user (mfa_factors db) = None then Inr (True, db)
    else verify_challenge lib now user typed db)"
  obtain ok db1 where v: "v = Inr (ok, db1)"
    using assms True by (cases v) (auto simp: begin_enrollment_def v_def [symmetric])
  then have g: "grows db db1 \<and> mfa_factors db1 = mfa_factors db \<and> (mfa_ok db \<longrightarrow> mfa_ok db1)"
    using verify_challenge_grows challenge_ok by (auto simp: v_def split: if_splits)
  show thesis
  proof (cases ok)
    case False
    with assms True v have "db' = db" by (simp add: begin_enrollment_def v_def [symmetric])
    then show thesis by (rule blocked)
  next
    case ok: True
    with assms True v g have "db' = add_factor (pending_row lib now i user (next_revision user (mfa_factors db))
         (base32_encode random) (latest_factor user (mfa_factors db))) db1"
      by (simp add: begin_enrollment_def Let_def v_def [symmetric])
    with g show thesis using started by blast
  qed
qed

lemma confirm_enrollment_cases:
  assumes "confirm_enrollment lib now i codes user typed db = Inr (r, db')"
  obtains (blocked) "db' = db"
  | (confirmed) p where "latest_factor user (mfa_factors db) = Some p" "mf_status p = Factor_Pending"
      "db' = add_factor (enabled_row lib now i user (next_revision user (mfa_factors db)) codes p) db"
proof (cases "latest_factor user (mfa_factors db)")
  case None
  with assms have "db' = db" by (simp add: confirm_enrollment_def)
  then show thesis by (rule blocked)
next
  case (Some p)
  show thesis
  proof (cases "mf_status p = Factor_Pending")
    case False
    with assms Some have "db' = db" by (simp add: confirm_enrollment_def)
    then show thesis by (rule blocked)
  next
    case True
    obtain secret where s: "open_secret lib p = Inr secret"
      using assms Some True by (cases "open_secret lib p") (simp_all add: confirm_enrollment_def)
    obtain ok where ok: "verify_totp (lib_hmac lib) now secret (str_or_empty typed) = Inr ok"
      using assms Some True s
      by (cases "verify_totp (lib_hmac lib) now secret (str_or_empty typed)") (simp_all add: confirm_enrollment_def)
    show thesis
    proof (cases ok)
      case False
      with assms Some True s ok have "db' = db" by (simp add: confirm_enrollment_def)
      then show thesis by (rule blocked)
    next
      case yes: True
      with assms Some True s ok
      have "db' = add_factor (enabled_row lib now i user (next_revision user (mfa_factors db)) codes p) db"
        by (simp add: confirm_enrollment_def Let_def)
      then show thesis by (rule confirmed [OF Some True])
    qed
  qed
qed

lemma disable_factor_cases:
  assumes "disable_factor lib now i user password typed reason db = Inr (r, db')"
  obtains (blocked) "db' = db"
  | (disabled) db1 why where "grows db db1" "mfa_factors db1 = mfa_factors db" "mfa_ok db \<Longrightarrow> mfa_ok db1"
      "db' = add_factor (disabled_row now i user (next_revision user (mfa_factors db)) why) db1"
proof (cases "trim (str_or_empty reason) = [] \<or> \<not> password_accepted lib user password db")
  case True
  with assms have "db' = db" by (auto simp: disable_factor_def Let_def split: if_splits)
  then show thesis by (rule blocked)
next
  case False
  obtain ok db1 where v: "verify_challenge lib now user typed db = Inr (ok, db1)"
    using assms False by (cases "verify_challenge lib now user typed db") (auto simp: disable_factor_def)
  with verify_challenge_grows challenge_ok
  have g: "grows db db1 \<and> mfa_factors db1 = mfa_factors db \<and> (mfa_ok db \<longrightarrow> mfa_ok db1)" by blast
  show thesis
  proof (cases "ok \<and> length (trim (str_or_empty reason)) \<le> 1000")
    case True
    with assms False v g have "db' = add_factor (disabled_row now i user (next_revision user (mfa_factors db))
        (trim (str_or_empty reason))) db1"
      by (simp add: disable_factor_def Let_def)
    with g show thesis using disabled by blast
  next
    case no: False
    with assms False v have "db' = db" by (simp add: disable_factor_def Let_def split: if_splits)
    then show thesis by (rule blocked)
  qed
qed

inductive mfa_step :: "mfa_lib \<Rightarrow> mfa_db \<Rightarrow> mfa_db \<Rightarrow> bool" for lib where
  challenge: "verify_challenge lib now user typed db = Inr (ok, db') \<Longrightarrow> mfa_step lib db db'"
| enroll: "i \<notin> mf_id ` set (mfa_factors db) \<Longrightarrow>
    begin_enrollment lib now i random user password typed db = Inr (r, db') \<Longrightarrow> mfa_step lib db db'"
| confirm: "i \<notin> mf_id ` set (mfa_factors db) \<Longrightarrow>
    confirm_enrollment lib now i codes user typed db = Inr (r, db') \<Longrightarrow> mfa_step lib db db'"
| disable: "i \<notin> mf_id ` set (mfa_factors db) \<Longrightarrow>
    disable_factor lib now i user password typed reason db = Inr (r, db') \<Longrightarrow> mfa_step lib db db'"

lemma mfa_step_grows: "mfa_step lib db db' \<Longrightarrow> grows db db'"
proof (induction rule: mfa_step.induct)
  case (challenge now user typed db ok db')
  then show ?case using verify_challenge_grows by blast
next
  case (enroll i db now random user password typed r db')
  from enroll(2) show ?case
    by (cases rule: begin_enrollment_cases) (auto intro: grows_trans)
next
  case (confirm i db now codes user typed r db')
  from confirm(2) show ?case by (cases rule: confirm_enrollment_cases) auto
next
  case (disable i db now user password typed reason r db')
  from disable(2) show ?case
    by (cases rule: disable_factor_cases) (auto intro: grows_trans)
qed

lemma mfa_run_grows: "(mfa_step lib)\<^sup>*\<^sup>* db db' \<Longrightarrow> grows db db'"
  by (induction rule: rtranclp_induct) (auto intro: grows_trans mfa_step_grows)

section \<open>Steps\<close>

lemma next_revision_pos: "0 < next_revision user fs"
  by (simp add: next_revision_def split: option.splits)

lemma enabled_row_ok:
  assumes "mfa_ok db" and "latest_factor user (mfa_factors db) = Some p" and "mf_status p = Factor_Pending"
  shows "factor_ok (enabled_row lib now i user (next_revision user (mfa_factors db)) codes p)"
proof -
  from assms(2) have "p \<in> set (mfa_factors db)"
    by (auto simp: latest_factor_def dest: last_revision_Some)
  with assms(1,3) show ?thesis
    by (auto simp: mfa_ok_def factor_ok_def enabled_row_def next_revision_pos)
qed

lemma mfa_step_ok: "mfa_step lib db db' \<Longrightarrow> mfa_ok db \<Longrightarrow> mfa_ok db'"
proof (induction rule: mfa_step.induct)
  case (challenge now user typed db ok db')
  then show ?case using challenge_ok by blast
next
  case (enroll i db now random user password typed r db')
  from enroll(2) show ?case
  proof (cases rule: begin_enrollment_cases)
    case (started db1)
    have "mfa_ok db1" using started(3) enroll(3) by blast
    then show ?thesis unfolding started(4)
      by (rule add_factor_ok) (use enroll(1) started(2) in \<open>simp_all add: pending_row_def factor_ok_def next_revision_pos\<close>)
  qed (use enroll in simp)
next
  case (confirm i db now codes user typed r db')
  from confirm(2) show ?case
  proof (cases rule: confirm_enrollment_cases)
    case (confirmed p)
    show ?thesis unfolding confirmed(3)
      using confirm(3) _ enabled_row_ok [OF confirm(3) confirmed(1,2)]
      by (rule add_factor_ok) (use confirm(1) in \<open>simp_all add: enabled_row_def\<close>)
  qed (use confirm in simp)
next
  case (disable i db now user password typed reason r db')
  from disable(2) show ?case
  proof (cases rule: disable_factor_cases)
    case (disabled db1 why)
    have "mfa_ok db1" using disabled(3) disable(3) by blast
    then show ?thesis unfolding disabled(4)
      by (rule add_factor_ok) (use disable(1) disabled(2) in \<open>simp_all add: disabled_row_def factor_ok_def next_revision_pos\<close>)
  qed (use disable in simp)
qed

section \<open>Claims\<close>

definition demo_lib :: mfa_lib where
  "demo_lib = \<lparr>lib_hmac = demo_hmac, lib_encrypt = (\<lambda>s u. (s, u, [])), lib_decrypt = (\<lambda>(s, u, t) user. Inr s),
     lib_scrypt = (\<lambda>c salt. c @ salt), lib_password_ok = (\<lambda>p h. p = h)\<rparr>"

definition demo_factor :: mfa_factor where
  "demo_factor = \<lparr>mf_id = ''f'', mf_user = ''u'', mf_revision = 2, mf_status = Factor_Enabled,
     mf_secret = Some ([], ''u'', []), mf_hashes = [(''s'', ''ABCDs'')], mf_reason = ''r'', mf_created = 0\<rparr>"

definition demo_db :: mfa_db where
  "demo_db = \<lparr>mfa_passwords = [(''u'', ''pw'')], mfa_factors = [demo_factor], mfa_used = []\<rparr>"

lemma demo_db_ok: "mfa_ok demo_db"
  by (simp add: mfa_ok_def demo_db_def demo_factor_def factor_ok_def)

lemma demo_active: "active_factor ''u'' (mfa_factors demo_db) = Some demo_factor"
  by (simp add: demo_db_def active_factor_def latest_factor_def demo_factor_def)

lemma demo_open: "open_secret demo_lib demo_factor = Inr []"
  by (simp add: open_secret_def demo_factor_def demo_lib_def)

lemma demo_match: "matching_recovery demo_lib ''abcd'' demo_factor = Some (''s'', ''ABCDs'')"
  by code_simp

lemma demo_text: "trim (str_or_empty (JStr ''abcd'')) = ''abcd''" "is_six_digits ''abcd'' = False"
  by code_simp+

lemma demo_challenge:
  "verify_challenge demo_lib 0 ''u'' (JStr ''abcd'') demo_db
     = Inr (True, demo_db\<lparr>mfa_used := [(''u'', ''f'', ''ABCDs'')]\<rparr>)"
proof -
  have "consume_recovery ''u'' (mf_id demo_factor) ''ABCDs'' demo_db
      = (True, demo_db\<lparr>mfa_used := [(''u'', ''f'', ''ABCDs'')]\<rparr>)"
    by (simp add: consume_recovery_def demo_db_def demo_factor_def)
  then show ?thesis
    by (simp add: verify_challenge_def demo_active demo_open demo_text verify_totp_def demo_match)
qed

text \<open>C27: the tables of the second factor keep their constraints and only grow: whatever users enrol,
  confirm, disable and answer, revisions stay unique per user, a factor has a secret unless it is the
  record of a disabling, no recovery code is consumed twice, and no row is changed or removed.\<close>

theorem mfa_tables_invariant:
  assumes "(mfa_step lib)\<^sup>*\<^sup>* db db'" and "mfa_ok db"
  shows "mfa_ok db' \<and> take (length (mfa_factors db)) (mfa_factors db') = mfa_factors db
    \<and> take (length (mfa_used db)) (mfa_used db') = mfa_used db"
proof -
  have "mfa_ok db'" using assms
    by (induction rule: rtranclp_induct) (auto intro: mfa_step_ok)
  moreover have "grows db db'" using assms(1) by (rule mfa_run_grows)
  ultimately show ?thesis by (auto simp: grows_def)
qed

theorem mfa_tables_invariant_witness:
  "mfa_ok (demo_db\<lparr>mfa_used := [(''u'', ''f'', ''ABCDs'')]\<rparr>)"
  using mfa_tables_invariant [OF r_into_rtranclp demo_db_ok] mfa_step.challenge [OF demo_challenge] by blast

text \<open>C12: a recovery code opens a session once: after a challenge that consumed a code, the same code is
  refused by the same factor ever after, unless it also happens to be the current one-time password.\<close>

theorem recovery_code_used_once:
  assumes "verify_challenge lib now user typed db = Inr (ok, db1)" and "db1 \<noteq> db"
    and "(mfa_step lib)\<^sup>*\<^sup>* db1 db2"
    and "active_factor user (mfa_factors db2) = active_factor user (mfa_factors db)"
    and "active_factor user (mfa_factors db) = Some f" and "open_secret lib f = Inr secret"
    and "verify_totp (lib_hmac lib) now2 secret (trim (str_or_empty typed)) = Inr False"
  shows "ok \<and> verify_challenge lib now2 user typed db2 = Inr (False, db2)"
  using assms(1)
proof (cases rule: verify_challenge_cases)
  case (recovery f' secret' salt h)
  from recovery(1) assms(5) have f: "f' = f" by simp
  from recovery(5) assms(2) have ok: ok and db1: "db1 = db\<lparr>mfa_used := mfa_used db @ [(user, mf_id f, h)]\<rparr>"
    using consume_cases [of user "mf_id f'" h db ok db1] f by auto
  from mfa_run_grows [OF assms(3)] db1 have "(user, mf_id f, h) \<in> set (mfa_used db2)"
    by (auto simp: grows_def)
  then have "consume_recovery user (mf_id f) h db2 = (False, db2)"
    by (force simp: consume_recovery_def)
  with assms(4-7) recovery(4) f ok show ?thesis by (simp add: verify_challenge_def)
qed (use assms(2) in simp_all)

theorem recovery_code_used_once_witness:
  "verify_challenge demo_lib 7 ''u'' (JStr ''abcd'') (demo_db\<lparr>mfa_used := [(''u'', ''f'', ''ABCDs'')]\<rparr>)
     = Inr (False, demo_db\<lparr>mfa_used := [(''u'', ''f'', ''ABCDs'')]\<rparr>)"
  using recovery_code_used_once [OF demo_challenge _ rtranclp.rtrancl_refl _ demo_active demo_open, of 7]
  by (simp add: demo_active demo_text verify_totp_def) (simp add: demo_db_def)

lemma row_simps [simp]:
  "mf_user (pending_row lib now i user n s c) = user" "mf_revision (pending_row lib now i user n s c) = n"
  "mf_status (pending_row lib now i user n s c) = Factor_Pending" "mf_id (pending_row lib now i user n s c) = i"
  "mf_secret (pending_row lib now i user n s c) = Some (lib_encrypt lib s user)"
  "mf_user (enabled_row lib now i user n codes p) = user" "mf_revision (enabled_row lib now i user n codes p) = n"
  "mf_status (enabled_row lib now i user n codes p) = Factor_Enabled" "mf_id (enabled_row lib now i user n codes p) = i"
  "mf_secret (enabled_row lib now i user n codes p) = mf_secret p"
  by (simp_all add: pending_row_def enabled_row_def)

lemma factors_add_factor [simp]: "mfa_factors (add_factor f db) = mfa_factors db @ [f]"
  by (simp add: add_factor_def)

lemma active_after_pending:
  assumes "mf_user f = user" and "mf_revision f = next_revision user fs" and "mf_status f = Factor_Pending"
  shows "active_factor user (fs @ [f])
    = last_revision (filter (\<lambda>g. mf_user g = user \<and> mf_status g = Factor_Enabled) fs)"
proof -
  have "filter (\<lambda>g. mf_user g = user \<and> mf_status g = Factor_Enabled \<and> mf_revision g < mf_revision f) fs
      = filter (\<lambda>g. mf_user g = user \<and> mf_status g = Factor_Enabled) fs"
    by (rule filter_cong) (use assms(2) below_next_revision in auto)
  with latest_after_add [OF assms(1,2)] assms(3) show ?thesis by (simp add: active_factor_def)
qed

lemma active_after_enabled:
  assumes "mf_user f = user" and "mf_revision f = next_revision user fs" and "mf_status f = Factor_Enabled"
  shows "active_factor user (fs @ [f]) = Some f"
  using latest_after_add [OF assms(1,2)] assms(3) by (simp add: active_factor_def)

text \<open>C36: a disabled authenticator comes back: starting a new enrolment, which asks for the password only,
  makes the last factor the user had enabled before disabling active again, with its old secret and
  recovery codes, before the new one is confirmed.\<close>

theorem disabled_factor_returns:
  assumes "latest_factor user (mfa_factors db) = Some d" and "mf_status d = Factor_Disabled"
    and "last_revision (filter (\<lambda>g. mf_user g = user \<and> mf_status g = Factor_Enabled) (mfa_factors db)) = Some e"
    and "password_accepted lib user password db"
  shows "active_factor user (mfa_factors db) = None
    \<and> (\<exists>r db'. begin_enrollment lib now i random user password typed db = Inr (r, db')
        \<and> active_factor user (mfa_factors db') = Some e)"
proof -
  have none: "active_factor user (mfa_factors db) = None"
    using assms(1,2) by (simp add: active_factor_def)
  then have "begin_enrollment lib now i random user password typed db
      = Inr (Enrolled (next_revision user (mfa_factors db)) (base32_encode random),
          add_factor (pending_row lib now i user (next_revision user (mfa_factors db)) (base32_encode random) (Some d)) db)"
    using assms(1,4) by (simp add: begin_enrollment_def Let_def)
  then show ?thesis
    using none assms(3) by (simp add: active_after_pending)
qed

definition demo_disabled :: mfa_db where
  "demo_disabled = add_factor (disabled_row 0 ''d'' ''u'' 3 ''lost phone'') demo_db"

theorem disabled_factor_returns_witness:
  "\<exists>r db'. begin_enrollment demo_lib 1 ''e'' [1] ''u'' ''pw'' JUndef demo_disabled = Inr (r, db')
    \<and> active_factor ''u'' (mfa_factors db') = Some demo_factor"
  using disabled_factor_returns
    [of "''u''" demo_disabled "disabled_row 0 ''d'' ''u'' 3 ''lost phone''" demo_factor demo_lib "''pw''" 1 "''e''" "[1]" JUndef]
  by (simp add: demo_disabled_def add_factor_def demo_db_def disabled_row_def demo_factor_def latest_factor_def
      password_accepted_def demo_lib_def)

text \<open>Enrolment can be completed: with the password and the code the new secret gives now, starting
  and confirming an enrolment leaves the new factor active, and it answers a challenge.\<close>

theorem enrollment_enables:
  assumes "active_factor user (mfa_factors db) = None" and "password_accepted lib user password db"
    and "\<And>k m. length (lib_hmac lib k m) = 20" and "\<And>s u. lib_decrypt lib (lib_encrypt lib s u) u = Inr s"
    and "30000 \<le> now" and "now < 300000000000000"
    and "totp (lib_hmac lib) (base32_encode random) now 0 = Inr c"
  shows "\<exists>revision db1 db2 f. begin_enrollment lib now i random user password typed db
        = Inr (Enrolled revision (base32_encode random), db1)
    \<and> confirm_enrollment lib now j codes user (JStr c) db1 = Inr (Confirmed (revision + 1) (map fst codes), db2)
    \<and> active_factor user (mfa_factors db2) = Some f \<and> mf_revision f = revision + 1
    \<and> verify_challenge lib now user (JStr c) db2 = Inr (True, db2)"
proof -
  let ?s = "base32_encode random"
  let ?n = "next_revision user (mfa_factors db)"
  let ?p = "pending_row lib now i user ?n ?s (latest_factor user (mfa_factors db))"
  let ?db1 = "add_factor ?p db"
  let ?f = "enabled_row lib now j user (?n + 1) codes ?p"
  have six: "is_six_digits c" using totp_six_digits_of [of "lib_hmac lib" now 0 random, OF assms(3,5,6)] assms(7) by auto
  have same: "str_or_empty (JStr c) = c" "trim c = c" using six_digits_plain [OF six] by simp_all
  obtain c' where "totp (lib_hmac lib) ?s now (- 1) = Inr c'"
    using totp_six_digits_of [of "lib_hmac lib" now "- 1", OF assms(3,5,6)] by auto
  then have ok: "verify_totp (lib_hmac lib) now ?s c = Inr True"
    using six assms(7) by (simp add: verify_totp_def)
  have begin_step: "begin_enrollment lib now i random user password typed db = Inr (Enrolled ?n ?s, ?db1)"
    using assms(1,2) by (simp add: begin_enrollment_def Let_def)
  have latest: "latest_factor user (mfa_factors ?db1) = Some ?p"
    using latest_after_add [of ?p user "mfa_factors db"] by simp
  then have n1: "next_revision user (mfa_factors ?db1) = ?n + 1"
    unfolding next_revision_def [of user "mfa_factors ?db1"] by simp
  have open_p: "open_secret lib ?p = Inr ?s" using assms(4) by (simp add: open_secret_def)
  have confirm_step: "confirm_enrollment lib now j codes user (JStr c) ?db1
      = Inr (Confirmed (?n + 1) (map fst codes), add_factor ?f ?db1)"
    unfolding confirm_enrollment_def latest option.case open_p n1 same by (simp add: ok)
  have act: "active_factor user (mfa_factors (add_factor ?f ?db1)) = Some ?f"
    using active_after_enabled [of ?f user "mfa_factors ?db1"] n1 by simp
  have open_f: "open_secret lib ?f = Inr ?s" using assms(4) by (simp add: open_secret_def)
  have "verify_challenge lib now user (JStr c) (add_factor ?f ?db1) = Inr (True, add_factor ?f ?db1)"
    unfolding verify_challenge_def act option.case same Let_def open_f by (simp add: ok)
  then show ?thesis using begin_step confirm_step act by (intro exI conjI) (assumption | simp)+
qed

theorem enrollment_enables_witness:
  "\<exists>revision db1. begin_enrollment demo_lib 60000 ''e'' [1, 2] ''u'' ''pw'' JUndef demo_disabled
     = Inr (Enrolled revision (base32_encode [1, 2]), db1)"
proof -
  have none: "active_factor ''u'' (mfa_factors demo_disabled) = None"
    by (simp add: demo_disabled_def add_factor_def demo_db_def disabled_row_def demo_factor_def latest_factor_def
        active_factor_def)
  have pw: "password_accepted demo_lib ''u'' ''pw'' demo_disabled"
    by (simp add: demo_disabled_def add_factor_def demo_db_def password_accepted_def demo_lib_def)
  have hmac: "length (lib_hmac demo_lib k m) = 20" for k m by (simp add: demo_lib_def demo_hmac_def)
  have dec: "lib_decrypt demo_lib (lib_encrypt demo_lib s u) u = Inr s" for s u by (simp add: demo_lib_def)
  obtain c where "totp (lib_hmac demo_lib) (base32_encode [1, 2]) 60000 0 = Inr c"
    using totp_six_digits_of [of "lib_hmac demo_lib" 60000 0, OF hmac] by auto
  from enrollment_enables [OF none pw hmac dec _ _ this] show ?thesis by (simp, blast)
qed

end
