(* ===== verification/Access_Control.thy ===== *)
theory Access_Control
  imports Company_Members Mfa
begin

text \<open>
  \<open>middleware/auth.js\<close>, \<open>tenantAccess.js\<close> and \<open>subscriptionAccess.js\<close>: whose request it is, for which
  company, and whether the role of the user and the plan of the company permit it. The check reads the
  tables of the identity services, the second factor and the subscription; reading the subscription
  settles it, so the decision comes with the tables. \<open>claims\<close> is what the JWT library reads from an
  access token, null when it rejects it. A request that passes carries the context the middleware set.
\<close>

section \<open>Requests\<close>

record http_request =
  hr_method :: string
  hr_url :: string
  hr_authorization :: jsval
  hr_query_token :: jsval

record user_context =
  uc_user :: ident
  uc_roles :: "jsval list"
  uc_company :: "ident option"
  uc_role :: "string option"
  uc_status :: "string option"

datatype decision = Allowed user_context | Denied string nat | Thrown service_error

definition mutation_methods :: "string list" where
  "mutation_methods = [''POST'', ''PUT'', ''PATCH'', ''DELETE'']"

definition is_mutation :: "http_request \<Rightarrow> bool" where
  "is_mutation r = (hr_method r \<in> set mutation_methods)"

definition request_path :: "http_request \<Rightarrow> string" where
  "request_path r = lower (hr_url r)"

definition has_prefix_of :: "string list \<Rightarrow> http_request \<Rightarrow> bool" where
  "has_prefix_of prefixes r = list_ex (starts_with (request_path r)) prefixes"

definition has_any_role :: "jsval list \<Rightarrow> string list \<Rightarrow> bool" where
  "has_any_role roles allowed = list_ex (\<lambda>r. r \<in> JStr ` set allowed) roles"

text \<open>A bearer header, else a token of the query; null is no token.\<close>

definition get_bearer_token :: "http_request \<Rightarrow> jsval" where
  "get_bearer_token r =
     (let query = (case hr_query_token r of JStr t \<Rightarrow> if t = [] then JNull else JStr (trim t) | _ \<Rightarrow> JNull)
      in case hr_authorization r of
           JStr h \<Rightarrow> if h \<noteq> [] \<and> starts_with h ''Bearer '' then JStr (drop 7 h) else query
         | _ \<Rightarrow> query)"

section \<open>Permissions of a role\<close>

definition role_permissions :: "(string \<times> string list) list" where
  "role_permissions = [(''admin'', [''read'', ''write'', ''manage'', ''billing'']),
     (''member'', [''read'', ''write'']), (''viewer'', [''read''])]"

definition has_company_permission :: "string option \<Rightarrow> string \<Rightarrow> bool" where
  "has_company_permission role permission =
     (case role of None \<Rightarrow> False
      | Some r \<Rightarrow> (case map_of role_permissions r of None \<Rightarrow> False | Some ps \<Rightarrow> permission \<in> set ps))"

definition tenant_prefixes :: "string list" where
  "tenant_prefixes =
     [''/api/products'', ''/api/product-batches'', ''/api/logistics'', ''/api/reports'', ''/api/company/members'',
      ''/api/account/company'', ''/api/export'', ''/api/evidence'', ''/api/carbon-calculations'',
      ''/api/electricity-invoices'', ''/api/fuel-invoices'', ''/api/corporate-ghg-inventories'',
      ''/api/eu-textile-epr'', ''/api/suppliers'', ''/api/data-gaps'', ''/api/audit-trail'', ''/api/chat'']"

definition enforce_tenant_mutation :: "http_request \<Rightarrow> user_context \<Rightarrow> decision" where
  "enforce_tenant_mutation r u =
     (if \<not> is_mutation r \<or> \<not> has_prefix_of tenant_prefixes r then Allowed u
      else if uc_company u = None then Allowed u
      else if has_company_permission (uc_role u) ''write'' then Allowed u
      else Denied ''TENANT_PERMISSION_DENIED'' 403)"

definition require_company_permission :: "string \<Rightarrow> user_context \<Rightarrow> decision" where
  "require_company_permission permission u =
     (if uc_company u = None \<or> \<not> has_company_permission (uc_role u) permission
      then Denied ''TENANT_PERMISSION_DENIED'' 403 else Allowed u)"

section \<open>The plan\<close>

definition plan_lock_prefixes :: "string list" where
  "plan_lock_prefixes = [''/api/products'', ''/api/product-batches'', ''/api/logistics'', ''/api/reports'',
     ''/api/company/members'', ''/api/account/company'']"

definition trial_restricted_prefixes :: "string list" where
  "trial_restricted_prefixes = [''/api/reports'']"

definition is_b2b_company_request :: "user_context \<Rightarrow> bool" where
  "is_b2b_company_request u = (uc_company u \<noteq> None \<and> has_any_role (uc_roles u) [''b2b''])"

definition checks_plan_lock :: "http_request \<Rightarrow> user_context \<Rightarrow> bool" where
  "checks_plan_lock r u = (is_b2b_company_request u \<and> is_mutation r \<and> has_prefix_of plan_lock_prefixes r)"

definition checks_trial :: "http_request \<Rightarrow> user_context \<Rightarrow> bool" where
  "checks_trial r u = (is_b2b_company_request u \<and> has_prefix_of trial_restricted_prefixes r)"

definition enforce_subscription ::
  "millis \<Rightarrow> http_request \<Rightarrow> user_context \<Rightarrow> sub_db \<Rightarrow> decision \<times> sub_db" where
  "enforce_subscription now r u s =
     (case uc_company u of
        Some c \<Rightarrow>
          (if \<not> checks_plan_lock r u \<and> \<not> checks_trial r u then (Allowed u, s)
           else case get_subscription_snapshot now c s of
                  (Inl e, s') \<Rightarrow> (Thrown e, s')
                | (Inr sn, s') \<Rightarrow>
                    (if checks_trial r u \<and> lower (sn_plan sn) = ''trial'' then Denied ''PLAN_RESTRICTED'' 403
                     else if sn_locked sn then Denied ''PLAN_LOCKED'' 403
                     else Allowed u, s'))
      | None \<Rightarrow> (Allowed u, s))"

section \<open>Authentication\<close>

definition company_context :: "member_row \<Rightarrow> (ident \<times> string \<times> string) option" where
  "company_context m =
     (if cm_status m = ''active'' then Some (cm_company m, cm_role m, cm_status m) else None)"

definition resolve_company_context :: "account \<Rightarrow> jsval \<Rightarrow> id_db \<Rightarrow> (ident \<times> string \<times> string) option" where
  "resolve_company_context a decoded_company db =
     (if \<not> has_any_role (ac_roles a) [''b2b'', ''admin''] then None
      else if truthy decoded_company
      then Option.bind (find_membership (to_str decoded_company) (ac_id a) db) company_context
      else Option.bind (get_primary_membership (ac_id a) False db) company_context)"

definition user_context_of :: "account \<Rightarrow> (ident \<times> string \<times> string) option \<Rightarrow> user_context" where
  "user_context_of a ctx =
     \<lparr>uc_user = ac_id a, uc_roles = filter truthy (ac_roles a), uc_company = map_option fst ctx,
      uc_role = map_option (fst \<circ> snd) ctx, uc_status = map_option (snd \<circ> snd) ctx\<rparr>"

definition hydrate_user :: "jsval \<Rightarrow> id_db \<Rightarrow> user_context option" where
  "hydrate_user c db =
     map_option (\<lambda>a. user_context_of a (resolve_company_context a (jget c ''company_id'') db))
       (get_user_by_id (to_str (jget c ''sub'')) db)"

definition authenticate ::
  "(jsval \<Rightarrow> jsval) \<Rightarrow> millis \<Rightarrow> mfa_db \<Rightarrow> http_request \<Rightarrow> id_db \<Rightarrow> decision \<times> id_db" where
  "authenticate claims now factors r db =
     (let token = get_bearer_token r; c = claims token
      in if \<not> truthy token then (Denied ''UNAUTHORIZED'' 401, db)
         else if \<not> truthy c then (Denied ''INVALID_TOKEN'' 401, db)
         else case hydrate_user c db of
                None \<Rightarrow> (Denied ''USER_NOT_FOUND'' 401, db)
              | Some u \<Rightarrow>
                  (if cs_enabled (get_challenge_state (to_str (jget c ''sub'')) factors)
                      \<and> jget c ''mfa_verified'' \<noteq> JBool True
                   then (Denied ''MFA_REAUTH_REQUIRED'' 401, db)
                   else case enforce_tenant_mutation r u of
                          Allowed _ \<Rightarrow>
                            (let (d, s) = enforce_subscription now r u (id_subs db) in (d, db\<lparr>id_subs := s\<rparr>))
                        | refused \<Rightarrow> (refused, db)))"

text \<open>\<open>optionalAuth\<close> never refuses: None is a request without a user.\<close>

definition optional_auth :: "(jsval \<Rightarrow> jsval) \<Rightarrow> http_request \<Rightarrow> id_db \<Rightarrow> user_context option" where
  "optional_auth claims r db =
     (let token = get_bearer_token r; c = claims token
      in if \<not> truthy token \<or> \<not> truthy c then None else hydrate_user c db)"

definition require_role :: "string list \<Rightarrow> user_context \<Rightarrow> decision" where
  "require_role roles u = (if has_any_role (uc_roles u) roles then Allowed u else Denied ''FORBIDDEN'' 403)"

definition require_platform_admin :: "user_context \<Rightarrow> decision" where
  "require_platform_admin = require_role [''admin'']"

text \<open>The guards of a company, over the check of a membership.\<close>

definition company_access_guard ::
  "(ident \<Rightarrow> ident \<Rightarrow> id_db \<Rightarrow> bool) \<Rightarrow> user_context option \<Rightarrow> id_db \<Rightarrow> decision" where
  "company_access_guard checker ctx db =
     (case ctx of
        None \<Rightarrow> Denied ''UNAUTHORIZED'' 401
      | Some u \<Rightarrow>
          (case uc_company u of
             None \<Rightarrow> Denied ''COMPANY_NOT_FOUND'' 404
           | Some c \<Rightarrow> if checker (uc_user u) c db then Allowed u else Denied ''FORBIDDEN'' 403))"

definition require_company_admin :: "user_context option \<Rightarrow> id_db \<Rightarrow> decision" where
  "require_company_admin = company_access_guard is_company_admin"

definition require_company_member :: "user_context option \<Rightarrow> id_db \<Rightarrow> decision" where
  "require_company_member = company_access_guard is_company_member"

definition require_company_root :: "user_context option \<Rightarrow> id_db \<Rightarrow> decision" where
  "require_company_root = company_access_guard is_company_admin"

end
