(* ===== verification/Refresh_Sessions.thy ===== *)
theory Refresh_Sessions
  imports Sql_Table Js_Value
begin

text \<open>
  \<open>modules/auth/refreshTokenRepository.js\<close> and \<open>refreshSessionService.js\<close>: refresh tokens are stored
  hashed, rotated on use with a grace period for the token they replace, and revoked one by one or
  all at once. The hash function and the decoding of a token's expiry (the crypto and JWT libraries)
  are parameters. \<open>rotate\<close> runs in a transaction: when it throws, nothing is stored.
\<close>

section \<open>The repository\<close>

record refresh_row =
  rt_id :: ident
  rt_user :: ident
  rt_hash :: string
  rt_expires :: millis
  rt_revoked :: bool
  rt_revoked_at :: "millis option"
  rt_ip :: jsval
  rt_agent :: jsval
  rt_created :: millis

record session_metadata =
  md_ip :: jsval
  md_agent :: jsval

definition insert_token ::
  "millis \<Rightarrow> ident \<Rightarrow> ident \<Rightarrow> string \<Rightarrow> millis \<Rightarrow> session_metadata \<Rightarrow> refresh_row list \<Rightarrow>
   js_error + refresh_row list" where
  "insert_token now i user h expires md rows =
     (if h \<in> rt_hash ` set rows
      then Inl (Plain_Error ''duplicate key value violates unique constraint'')
      else Inr (rows @ [\<lparr>rt_id = i, rt_user = user, rt_hash = h, rt_expires = expires,
        rt_revoked = False, rt_revoked_at = None, rt_ip = jor (md_ip md) JNull,
        rt_agent = jor (md_agent md) JNull, rt_created = now\<rparr>]))"

definition find_by_hash :: "string \<Rightarrow> refresh_row list \<Rightarrow> refresh_row option" where
  "find_by_hash h rows = select_one (\<lambda>r. rt_hash r = h) rows"

definition is_live :: "millis \<Rightarrow> refresh_row \<Rightarrow> bool" where
  "is_live now r = (\<not> rt_revoked r \<and> now < rt_expires r)"

definition find_active_by_hash :: "millis \<Rightarrow> string \<Rightarrow> refresh_row list \<Rightarrow> refresh_row option" where
  "find_active_by_hash now h rows = select_one (\<lambda>r. rt_hash r = h \<and> is_live now r) rows"

text \<open>\<open>revoked_at > NOW() - grace\<close>, the grace in seconds.\<close>

definition in_grace :: "millis \<Rightarrow> int \<Rightarrow> refresh_row \<Rightarrow> bool" where
  "in_grace now grace r =
     (rt_revoked r \<and> (case rt_revoked_at r of None \<Rightarrow> False | Some t \<Rightarrow> now - grace * 1000 < t))"

definition is_rotatable :: "millis \<Rightarrow> int \<Rightarrow> refresh_row \<Rightarrow> bool" where
  "is_rotatable now grace r = (now < rt_expires r \<and> (\<not> rt_revoked r \<or> in_grace now grace r))"

definition find_rotatable_by_hash ::
  "millis \<Rightarrow> int \<Rightarrow> string \<Rightarrow> refresh_row list \<Rightarrow> refresh_row option" where
  "find_rotatable_by_hash now grace h rows =
     select_one (\<lambda>r. rt_hash r = h \<and> is_rotatable now grace r) rows"

definition revoked :: "millis \<Rightarrow> refresh_row \<Rightarrow> refresh_row" where
  "revoked now r = r\<lparr>rt_revoked := True, rt_revoked_at := Some now\<rparr>"

definition revoke_by_hash :: "millis \<Rightarrow> string \<Rightarrow> refresh_row list \<Rightarrow> nat \<times> refresh_row list" where
  "revoke_by_hash now h rows =
     (matching (\<lambda>r. rt_hash r = h \<and> \<not> rt_revoked r) rows,
      update_where (\<lambda>r. rt_hash r = h \<and> \<not> rt_revoked r) (revoked now) rows)"

definition revoke_by_id :: "millis \<Rightarrow> ident \<Rightarrow> refresh_row list \<Rightarrow> refresh_row list" where
  "revoke_by_id now i rows = update_where (\<lambda>r. rt_id r = i) (revoked now) rows"

definition revoke_all_for_user :: "millis \<Rightarrow> ident \<Rightarrow> refresh_row list \<Rightarrow> nat \<times> refresh_row list" where
  "revoke_all_for_user now user rows =
     (matching (\<lambda>r. rt_user r = user \<and> \<not> rt_revoked r) rows,
      update_where (\<lambda>r. rt_user r = user \<and> \<not> rt_revoked r) (revoked now) rows)"

section \<open>The service\<close>

text \<open>\<open>Math.max(0, Number.parseInt(env || '30', 10) || 30)\<close>\<close>

definition default_rotation_grace :: "jsval \<Rightarrow> jnum" where
  "default_rotation_grace env =
     math_max 0 (to_num (jor (JNum (parse_int (to_str (jor env (JStr ''30''))))) (JNum (Fin 30))))"

definition store_session ::
  "(string \<Rightarrow> string) \<Rightarrow> (string \<Rightarrow> millis option) \<Rightarrow> millis \<Rightarrow> ident \<Rightarrow> string \<Rightarrow> ident \<Rightarrow>
   session_metadata \<Rightarrow> refresh_row list \<Rightarrow> js_error + (string \<times> millis) \<times> refresh_row list" where
  "store_session hash expiry now i token user md rows =
     (case expiry token of
        None \<Rightarrow> Inl (Plain_Error ''Refresh token expiry could not be decoded'')
      | Some e \<Rightarrow> bind_result (insert_token now i user (hash token) e md rows)
                   (\<lambda>rows'. Inr ((hash token, e), rows')))"

definition session_record :: "(string \<Rightarrow> string) \<Rightarrow> string \<Rightarrow> refresh_row list \<Rightarrow> refresh_row option" where
  "session_record hash token rows = find_by_hash (hash token) rows"

definition session_active ::
  "(string \<Rightarrow> string) \<Rightarrow> millis \<Rightarrow> string \<Rightarrow> refresh_row list \<Rightarrow> refresh_row option" where
  "session_active hash now token rows = find_active_by_hash now (hash token) rows"

definition revoke_session ::
  "(string \<Rightarrow> string) \<Rightarrow> millis \<Rightarrow> string \<Rightarrow> refresh_row list \<Rightarrow> nat \<times> refresh_row list" where
  "revoke_session hash now token rows = revoke_by_hash now (hash token) rows"

text \<open>\<open>rotate\<close>, over the operations of the repository it is given: \<open>lookup\<close> a rotatable session by hash,
  \<open>revoke\<close> one by id, \<open>store\<close> a new one. None is the answer to an unknown token.\<close>

definition rotate_with ::
  "(string \<Rightarrow> 's \<Rightarrow> refresh_row option) \<Rightarrow> (ident \<Rightarrow> 's \<Rightarrow> 's) \<Rightarrow>
   (ident \<Rightarrow> string \<Rightarrow> millis \<Rightarrow> session_metadata \<Rightarrow> 's \<Rightarrow> js_error + 's) \<Rightarrow>
   (string \<Rightarrow> string) \<Rightarrow> (string \<Rightarrow> millis option) \<Rightarrow> string \<Rightarrow> string \<Rightarrow> session_metadata \<Rightarrow> 's \<Rightarrow>
   js_error + (ident \<times> millis) option \<times> 's" where
  "rotate_with lookup revoke store hash expiry current replacement md s =
     (case lookup (hash current) s of
        None \<Rightarrow> Inr (None, s)
      | Some r \<Rightarrow>
          (let s1 = (if rt_revoked r then s else revoke (rt_id r) s)
           in case expiry replacement of
                None \<Rightarrow> Inl (Plain_Error ''Rotated refresh token expiry could not be decoded'')
              | Some e \<Rightarrow> bind_result (store (rt_user r) (hash replacement) e md s1)
                           (\<lambda>s2. Inr (Some (rt_user r, e), s2))))"

definition rotate_session ::
  "(string \<Rightarrow> string) \<Rightarrow> (string \<Rightarrow> millis option) \<Rightarrow> millis \<Rightarrow> int \<Rightarrow> ident \<Rightarrow> string \<Rightarrow> string \<Rightarrow>
   session_metadata \<Rightarrow> refresh_row list \<Rightarrow>
   js_error + (ident \<times> millis) option \<times> refresh_row list" where
  "rotate_session hash expiry now grace i current replacement md rows =
     rotate_with (find_rotatable_by_hash now grace) (revoke_by_id now) (insert_token now i)
       hash expiry current replacement md rows"

section \<open>The contract of the repository\<close>

text \<open>
  What rotation relies on: a session that is found belongs to the user \<open>owner\<close> says; revoking makes
  its hash inactive and touches no other; an insert, where a fresh id is \<open>ready\<close>, makes exactly the
  new hash active.
\<close>

locale session_store =
  fixes lookup :: "string \<Rightarrow> 's \<Rightarrow> refresh_row option"
    and revoke :: "ident \<Rightarrow> 's \<Rightarrow> 's"
    and insert_row :: "ident \<Rightarrow> string \<Rightarrow> millis \<Rightarrow> session_metadata \<Rightarrow> 's \<Rightarrow> js_error + 's"
    and active :: "'s \<Rightarrow> string \<Rightarrow> ident option"
    and valid :: "'s \<Rightarrow> bool"
    and ready :: "'s \<Rightarrow> bool"
    and fresh_until :: millis
  assumes lookup_hash: "valid s \<Longrightarrow> lookup h s = Some r \<Longrightarrow>
      rt_hash r = h \<and> active s h = (if rt_revoked r then None else Some (rt_user r))"
    and revoke_active: "valid s \<Longrightarrow> lookup h s = Some r \<Longrightarrow>
      valid (revoke (rt_id r) s) \<and> ready (revoke (rt_id r) s) = ready s \<and> active (revoke (rt_id r) s) = (active s)(h := None)"
    and insert_active: "valid s \<Longrightarrow> ready s \<Longrightarrow> fresh_until < e \<Longrightarrow> insert_row u h e md s = Inr s' \<Longrightarrow>
      valid s' \<and> active s' = (active s)(h \<mapsto> u)"
begin

lemma rotate_effect:
  assumes "valid s" and "ready s"
    and "rotate_with lookup revoke insert_row hash expiry current nxt md s = Inr (Some (u, e), s')"
    and "fresh_until < e"
  shows "valid s' \<and> active s' = (active s)(hash current := None, hash nxt \<mapsto> u)
    \<and> (\<exists>r. lookup (hash current) s = Some r \<and> u = rt_user r)"
proof -
  from assms(3) obtain r where r: "lookup (hash current) s = Some r"
    by (auto simp: rotate_with_def split: option.splits)
  define s1 where "s1 = (if rt_revoked r then s else revoke (rt_id r) s)"
  from assms(3) r have e: "expiry nxt = Some e"
    and ins: "insert_row (rt_user r) (hash nxt) e md s1 = Inr s'" and u: "u = rt_user r"
    by (auto simp: rotate_with_def s1_def Let_def split: option.splits)
  have "active s (hash current) = None" if "rt_revoked r"
    using lookup_hash [OF assms(1) r] that by simp
  then have s1: "valid s1 \<and> ready s1 \<and> active s1 = (active s)(hash current := None)"
    using assms(1,2) revoke_active [OF assms(1) r] by (auto simp: s1_def fun_eq_iff)
  with insert_active [OF _ _ _ ins] assms(4) show ?thesis using r u by simp
qed

end

section \<open>Properties\<close>

definition row_ok :: "refresh_row \<Rightarrow> bool" where
  "row_ok r = (rt_revoked r = (rt_revoked_at r \<noteq> None))"

definition tokens_ok :: "refresh_row list \<Rightarrow> bool" where
  "tokens_ok rows =
     (distinct (map rt_id rows) \<and> distinct (map rt_hash rows) \<and> (\<forall>r \<in> set rows. row_ok r))"

text \<open>The user a hash gives access to.\<close>

definition active_user :: "millis \<Rightarrow> refresh_row list \<Rightarrow> string \<Rightarrow> ident option" where
  "active_user now rows h = map_option rt_user (find_active_by_hash now h rows)"

lemma same_hash: "tokens_ok rows \<Longrightarrow> r \<in> set rows \<Longrightarrow> r' \<in> set rows \<Longrightarrow> rt_hash r' = rt_hash r \<Longrightarrow> r' = r"
  unfolding tokens_ok_def by (blast intro: unique_key)

lemma same_id: "tokens_ok rows \<Longrightarrow> r \<in> set rows \<Longrightarrow> r' \<in> set rows \<Longrightarrow> rt_id r' = rt_id r \<Longrightarrow> r' = r"
  unfolding tokens_ok_def by (blast intro: unique_key)

lemma revoked_fields [simp]:
  "rt_id (revoked t r) = rt_id r" "rt_user (revoked t r) = rt_user r" "rt_hash (revoked t r) = rt_hash r"
  "rt_expires (revoked t r) = rt_expires r" "rt_revoked (revoked t r)" "rt_revoked_at (revoked t r) = Some t"
  by (simp_all add: revoked_def)

lemma revoke_ids [simp]: "rt_id ` set (revoke_by_id now i rows) = rt_id ` set rows"
proof -
  have "map rt_id (revoke_by_id now i rows) = map rt_id rows"
    unfolding revoke_by_id_def by (rule map_update_where) simp
  then show ?thesis by (metis set_map)
qed

lemma in_revoke_by_id:
  assumes "tokens_ok rows" and "r \<in> set rows"
  shows "q \<in> set (revoke_by_id now (rt_id r) rows) \<longleftrightarrow> q = revoked now r \<or> q \<in> set rows \<and> q \<noteq> r"
proof -
  have "q0 = r" if "q0 \<in> set rows" "rt_id q0 = rt_id r" for q0
    using same_id [OF assms that] .
  then have "(\<exists>q0 \<in> set rows. rt_id q0 = rt_id r \<and> q = revoked now q0) = (q = revoked now r)"
    "(\<exists>q0 \<in> set rows. rt_id q0 \<noteq> rt_id r \<and> q = q0) = (q \<in> set rows \<and> q \<noteq> r)"
    using assms(2) by (fast, metis)
  then show ?thesis
    unfolding revoke_by_id_def in_update_where Bex_def by blast
qed

lemma option_ext: "(\<And>u. x = Some u \<longleftrightarrow> y = Some u) \<Longrightarrow> x = y"
  by (cases y) auto

lemma tokens_ok_update:
  assumes "tokens_ok rows" and "\<And>r. p r \<Longrightarrow> rt_id (f r) = rt_id r" "\<And>r. p r \<Longrightarrow> rt_hash (f r) = rt_hash r"
    and "\<And>r. p r \<Longrightarrow> row_ok r \<Longrightarrow> row_ok (f r)"
  shows "tokens_ok (update_where p f rows)"
  using assms all_update_where [of rows row_ok p f]
  by (simp add: tokens_ok_def map_update_where)

lemma revoke_tokens_ok [simp]:
  assumes "tokens_ok rows"
  shows "tokens_ok (revoke_by_id now i rows)" "tokens_ok (snd (revoke_by_hash now h rows))"
    "tokens_ok (snd (revoke_all_for_user now u rows))"
  unfolding revoke_by_id_def revoke_by_hash_def revoke_all_for_user_def snd_conv
  by (rule tokens_ok_update [OF assms]; simp add: revoked_def row_ok_def)+

lemma insert_tokens_ok:
  "tokens_ok rows \<Longrightarrow> i \<notin> rt_id ` set rows \<Longrightarrow> insert_token now i u h e md rows = Inr rows' \<Longrightarrow>
   tokens_ok rows'"
  by (auto simp: insert_token_def tokens_ok_def row_ok_def split: if_splits)

lemma insert_elim:
  assumes "insert_token now i u h e md rows = Inr rows'"
  obtains r where "rows' = rows @ [r]" "rt_id r = i" "rt_hash r = h" "row_ok r"
    "h \<notin> rt_hash ` set rows" "is_live now r = (now < e)" "rt_user r = u"
  using assms by (auto simp: insert_token_def row_ok_def is_live_def split: if_splits)

lemma select_append: "select_one p (xs @ ys) = (case select_one p xs of None \<Rightarrow> select_one p ys | Some x \<Rightarrow> Some x)"
  by (induction xs) auto

lemma active_user_Some:
  assumes "tokens_ok rows"
  shows "active_user now rows h = Some u \<longleftrightarrow> (\<exists>r \<in> set rows. rt_hash r = h \<and> is_live now r \<and> rt_user r = u)"
proof
  assume "active_user now rows h = Some u"
  then show "\<exists>r \<in> set rows. rt_hash r = h \<and> is_live now r \<and> rt_user r = u"
    by (auto simp: active_user_def find_active_by_hash_def dest: select_one_Some)
next
  assume "\<exists>r \<in> set rows. rt_hash r = h \<and> is_live now r \<and> rt_user r = u"
  then obtain r where r: "r \<in> set rows" "rt_hash r = h" "is_live now r" "rt_user r = u" by blast
  then have "select_one (\<lambda>r. rt_hash r = h \<and> is_live now r) rows \<noteq> None"
    by (auto simp: select_one_None)
  then obtain r' where r': "select_one (\<lambda>r. rt_hash r = h \<and> is_live now r) rows = Some r'" by blast
  with select_one_Some [OF this] r assms have "r' = r"
    by (auto simp: tokens_ok_def dest: unique_key)
  with r r' show "active_user now rows h = Some u"
    by (simp add: active_user_def find_active_by_hash_def)
qed

lemma active_user_cong:
  assumes "tokens_ok rows" and "tokens_ok rows'"
    and "\<And>u. (\<exists>r \<in> set rows. rt_hash r = h \<and> is_live now r \<and> rt_user r = u)
      = (\<exists>r \<in> set rows'. rt_hash r = h \<and> is_live now r \<and> rt_user r = u)"
  shows "active_user now rows h = active_user now rows' h"
  using assms(3) unfolding active_user_Some [OF assms(1), symmetric] active_user_Some [OF assms(2), symmetric]
  by (rule option_ext)

interpretation tokens: session_store "find_rotatable_by_hash now grace" "revoke_by_id now"
  "insert_token now i" "active_user now" tokens_ok "\<lambda>rows. i \<notin> rt_id ` set rows" now
  for now grace i
proof unfold_locales
  fix rows h r assume ok: "tokens_ok rows" and "find_rotatable_by_hash now grace h rows = Some r"
  then have r: "r \<in> set rows" "rt_hash r = h" "now < rt_expires r"
    by (auto simp: find_rotatable_by_hash_def is_rotatable_def dest!: select_one_Some)
  have only: "r' = r" if "r' \<in> set rows" "rt_hash r' = h" for r'
    using same_hash [OF ok r(1) that(1)] that(2) r(2) by simp
  have "active_user now rows h = Some u \<longleftrightarrow> \<not> rt_revoked r \<and> rt_user r = u" for u
  proof -
    have "active_user now rows h = Some u \<longleftrightarrow> is_live now r \<and> rt_user r = u"
      unfolding active_user_Some [OF ok] using r(1,2) only by blast
    then show ?thesis using r(3) by (simp add: is_live_def)
  qed
  then have "active_user now rows h = (if rt_revoked r then None else Some (rt_user r))"
    by (intro option_ext) simp
  with r(2) show "rt_hash r = h \<and> active_user now rows h = (if rt_revoked r then None else Some (rt_user r))"
    by simp
  have "active_user now (revoke_by_id now (rt_id r) rows) h' = ((active_user now rows)(h := None)) h'" for h'
  proof (cases "h' = h")
    case True
    have "\<not> (rt_hash q = h \<and> is_live now q)" if "q \<in> set (revoke_by_id now (rt_id r) rows)" for q
      using that only unfolding in_revoke_by_id [OF ok r(1)] by (auto simp: is_live_def)
    then have "active_user now (revoke_by_id now (rt_id r) rows) h = None"
      unfolding active_user_def find_active_by_hash_def map_option_is_None select_one_None by blast
    with True show ?thesis by simp
  next
    case False
    have "active_user now (revoke_by_id now (rt_id r) rows) h' = active_user now rows h'"
    proof (rule active_user_cong)
      fix u
      have "rt_hash (revoked now r) \<noteq> h'" "rt_hash r \<noteq> h'" using r(2) False by simp_all
      then show "(\<exists>q \<in> set (revoke_by_id now (rt_id r) rows). rt_hash q = h' \<and> is_live now q \<and> rt_user q = u)
          = (\<exists>q \<in> set rows. rt_hash q = h' \<and> is_live now q \<and> rt_user q = u)"
        unfolding in_revoke_by_id [OF ok r(1)] Bex_def by blast
    qed (simp_all add: ok)
    with False show ?thesis by simp
  qed
  then show "tokens_ok (revoke_by_id now (rt_id r) rows)
      \<and> (i \<notin> rt_id ` set (revoke_by_id now (rt_id r) rows)) = (i \<notin> rt_id ` set rows)
      \<and> active_user now (revoke_by_id now (rt_id r) rows) = (active_user now rows)(h := None)"
    using ok by (simp add: fun_eq_iff)
next
  fix rows e u h md rows'
  assume ok: "tokens_ok rows" and fresh: "i \<notin> rt_id ` set rows" and "now < e"
    and ins: "insert_token now i u h e md rows = Inr rows'"
  have ok': "tokens_ok rows'" using ok fresh ins by (rule insert_tokens_ok)
  have "active_user now rows' h' = Some v \<longleftrightarrow> ((active_user now rows)(h \<mapsto> u)) h' = Some v" for h' v
    using ins
  proof (cases rule: insert_elim)
    case (1 r)
    have "active_user now rows' h' = Some v \<longleftrightarrow> (\<exists>q \<in> set (rows @ [r]). rt_hash q = h' \<and> is_live now q \<and> rt_user q = v)"
      using active_user_Some [OF ok'] 1(1) by simp
    also have "\<dots> \<longleftrightarrow> (if h' = h then v = u else active_user now rows h' = Some v)"
      unfolding active_user_Some [OF ok] using 1 \<open>now < e\<close> by (auto simp: image_iff)
    finally show ?thesis by auto
  qed
  then have "active_user now rows' h' = ((active_user now rows)(h \<mapsto> u)) h'" for h'
    by (rule option_ext)
  then have "active_user now rows' = (active_user now rows)(h \<mapsto> u)" by (rule ext)
  with ok' show "tokens_ok rows' \<and> active_user now rows' = (active_user now rows)(h \<mapsto> u)" by blast
qed

section \<open>Runs\<close>

record session_world =
  sw_now :: millis
  sw_rows :: "refresh_row list"

inductive session_step ::
  "(string \<Rightarrow> string) \<Rightarrow> (string \<Rightarrow> millis option) \<Rightarrow> int \<Rightarrow> session_world \<Rightarrow> session_world \<Rightarrow> bool"
  for hash expiry grace where
  store: "i \<notin> rt_id ` set (sw_rows w) \<Longrightarrow>
    store_session hash expiry (sw_now w) i token user md (sw_rows w) = Inr (res, rows) \<Longrightarrow>
    session_step hash expiry grace w (w\<lparr>sw_rows := rows\<rparr>)"
| rotate: "i \<notin> rt_id ` set (sw_rows w) \<Longrightarrow>
    rotate_session hash expiry (sw_now w) grace i current nxt md (sw_rows w) = Inr (res, rows) \<Longrightarrow>
    session_step hash expiry grace w (w\<lparr>sw_rows := rows\<rparr>)"
| revoke: "session_step hash expiry grace w
    (w\<lparr>sw_rows := snd (revoke_session hash (sw_now w) token (sw_rows w))\<rparr>)"
| revoke_all: "session_step hash expiry grace w
    (w\<lparr>sw_rows := snd (revoke_all_for_user (sw_now w) user (sw_rows w))\<rparr>)"
| pass: "0 \<le> d \<Longrightarrow> session_step hash expiry grace w (w\<lparr>sw_now := sw_now w + d\<rparr>)"

abbreviation session_run where
  "session_run hash expiry grace \<equiv> (session_step hash expiry grace)\<^sup>*\<^sup>*"

lemma rotate_elim:
  assumes "rotate_session hash expiry now grace i current nxt md rows = Inr (res, rows')"
  obtains "rows' = rows" "res = None"
  | r rows1 e where "r \<in> set rows" "rows1 = (if rt_revoked r then rows else revoke_by_id now (rt_id r) rows)"
      "insert_token now i (rt_user r) (hash nxt) e md rows1 = Inr rows'" "is_rotatable now grace r"
      "rt_hash r = hash current" "res = Some (rt_user r, e)"
  using assms
  by (auto simp: rotate_session_def rotate_with_def find_rotatable_by_hash_def Let_def
      split: option.splits if_splits dest!: select_one_Some)

lemma session_step_ok:
  assumes "session_step hash expiry grace w w'" and "tokens_ok (sw_rows w)"
  shows "tokens_ok (sw_rows w')"
  using assms
proof (induction rule: session_step.induct)
  case (store i w token user md res rows)
  then show ?case by (auto simp: store_session_def intro: insert_tokens_ok split: option.splits)
next
  case (rotate i w current nxt md res rows)
  from rotate(2) show ?case
  proof (cases rule: rotate_elim)
    case (2 r rows1 e)
    have "tokens_ok rows1" using 2(2) rotate(3) by simp
    moreover have "i \<notin> rt_id ` set rows1"
      using rotate(1) 2(2) by simp
    ultimately have "tokens_ok rows" using 2(3) by (rule insert_tokens_ok)
    then show ?thesis by simp
  qed (use rotate in simp)
qed (simp_all add: revoke_session_def)

text \<open>Once revoked, a row keeps its revocation time.\<close>

lemma session_step_keeps_revoked:
  assumes "session_step hash expiry grace w w'" and "tokens_ok (sw_rows w)"
    and "r \<in> set (sw_rows w)" and "rt_revoked r"
  shows "r \<in> set (sw_rows w')"
  using assms
proof (induction rule: session_step.induct)
  case (store i w token user md res rows)
  then show ?case by (auto simp: store_session_def insert_token_def split: option.splits if_splits)
next
  case (rotate i w current nxt md res rows)
  from rotate(2) show ?case
  proof (cases rule: rotate_elim)
    case (2 r0 rows1 e)
    have "r \<in> set rows1"
    proof (cases "rt_revoked r0")
      case False
      with rotate(5) have "r \<noteq> r0" by auto
      with rotate(3,4) 2(1) have "rt_id r \<noteq> rt_id r0" by (auto simp: tokens_ok_def dest: unique_key)
      with False 2(2) rotate(4) show ?thesis by (simp add: revoke_by_id_def update_unaffected)
    qed (use 2(2) rotate(4) in simp)
    with 2(3) show ?thesis by (auto elim: insert_elim)
  qed (use rotate in simp)
qed (auto simp: revoke_session_def revoke_by_hash_def revoke_all_for_user_def update_unaffected)

lemma session_step_time: "session_step hash expiry grace w w' \<Longrightarrow> sw_now w \<le> sw_now w'"
  by (induction rule: session_step.induct) auto

lemma session_run_keeps:
  assumes "session_run hash expiry grace w w'" and "tokens_ok (sw_rows w)"
    and "r \<in> set (sw_rows w)" and "rt_revoked r"
  shows "tokens_ok (sw_rows w') \<and> r \<in> set (sw_rows w') \<and> sw_now w \<le> sw_now w'"
  using assms
proof (induction rule: rtranclp_induct)
  case (step w' w'')
  then show ?case
    using session_step_ok session_step_keeps_revoked session_step_time by (meson order_trans)
qed auto

section \<open>Claims\<close>

definition demo_hash :: "string \<Rightarrow> string" where
  "demo_hash s = s"

definition demo_expiry :: "string \<Rightarrow> millis option" where
  "demo_expiry s = Some 100000000"

definition demo_md :: session_metadata where
  "demo_md = \<lparr>md_ip = JUndef, md_agent = JUndef\<rparr>"

definition demo_row :: refresh_row where
  "demo_row = \<lparr>rt_id = ''1'', rt_user = ''u'', rt_hash = ''a'', rt_expires = 100000000,
     rt_revoked = False, rt_revoked_at = None, rt_ip = JNull, rt_agent = JNull, rt_created = 0\<rparr>"

lemma demo_row_ok [simp]: "tokens_ok [demo_row]" "tokens_ok [revoked t demo_row]"
  by (simp_all add: tokens_ok_def demo_row_def row_ok_def revoked_def)

lemma demo_row_live: "is_live 5 demo_row" "rt_user demo_row = ''u''" "rt_hash demo_row = ''a''" "rt_id demo_row = ''1''"
  by (simp_all add: demo_row_def is_live_def)

text \<open>A rotation moves a session: the old token is inactive afterwards, the new one is active for
  the same user, and no other token changes.\<close>

theorem rotation_moves_session:
  assumes "tokens_ok rows" and "i \<notin> rt_id ` set rows"
    and "rotate_session hash expiry now grace i current nxt md rows = Inr (Some (u, e), rows')"
    and "now < e"
  shows "tokens_ok rows'
    \<and> active_user now rows' = (active_user now rows)(hash current := None, hash nxt \<mapsto> u)
    \<and> (\<exists>r. find_rotatable_by_hash now grace (hash current) rows = Some r \<and> u = rt_user r)"
  using tokens.rotate_effect [OF assms(1,2) _ assms(4)] assms(3) by (simp add: rotate_session_def)

theorem rotation_moves_session_witness:
  "\<exists>rows'. rotate_session demo_hash demo_expiry 5 30 ''2'' ''a'' ''b'' demo_md [demo_row]
      = Inr (Some (''u'', 100000000), rows')
    \<and> active_user 5 rows' ''b'' = Some ''u'' \<and> active_user 5 rows' ''a'' = None"
proof -
  have run: "rotate_session demo_hash demo_expiry 5 30 ''2'' ''a'' ''b'' demo_md [demo_row]
      = Inr (Some (''u'', 100000000), [revoked 5 demo_row, demo_row\<lparr>rt_id := ''2'', rt_hash := ''b'', rt_created := 5\<rparr>])"
    by (simp add: rotate_session_def rotate_with_def find_rotatable_by_hash_def is_rotatable_def
        demo_hash_def demo_expiry_def demo_row_def demo_md_def revoke_by_id_def insert_token_def
        revoked_def jor_def)
  from rotation_moves_session [OF demo_row_ok(1) _ this]
  have "active_user 5 [revoked 5 demo_row, demo_row\<lparr>rt_id := ''2'', rt_hash := ''b'', rt_created := 5\<rparr>]
      = (active_user 5 [demo_row])(''a'' := None, ''b'' \<mapsto> ''u'')"
    by (simp add: demo_row_live demo_hash_def)
  then show ?thesis using run by (intro exI conjI) (assumption | simp)+
qed

text \<open>C4: a revoked token is dead once the grace period is over: whatever sessions are opened, rotated
  and closed in the meantime, it is neither active nor rotatable.\<close>

theorem revoked_token_dies:
  assumes "session_run hash expiry grace w w'" and "tokens_ok (sw_rows w)"
    and "r \<in> set (sw_rows w)" and "rt_revoked_at r = Some t" and "t + grace * 1000 \<le> sw_now w'"
  shows "find_rotatable_by_hash (sw_now w') grace (rt_hash r) (sw_rows w') = None
    \<and> active_user (sw_now w') (sw_rows w') (rt_hash r) = None"
proof -
  have "rt_revoked r" using assms(2-4) by (auto simp: tokens_ok_def row_ok_def)
  with session_run_keeps [OF assms(1-3)]
  have ok: "tokens_ok (sw_rows w')" and r: "r \<in> set (sw_rows w')" by simp_all
  have only: "r' = r" if "r' \<in> set (sw_rows w')" "rt_hash r' = rt_hash r" for r'
    using same_hash [OF ok r that] .
  have "\<not> is_rotatable (sw_now w') grace r" "\<not> is_live (sw_now w') r"
    using \<open>rt_revoked r\<close> assms(4,5) by (simp_all add: is_rotatable_def in_grace_def is_live_def)
  with only have none: "\<not> (rt_hash q = rt_hash r \<and> is_rotatable (sw_now w') grace q)"
    "\<not> (rt_hash q = rt_hash r \<and> is_live (sw_now w') q)" if "q \<in> set (sw_rows w')" for q
    using that by blast+
  have "find_rotatable_by_hash (sw_now w') grace (rt_hash r) (sw_rows w') = None"
    unfolding find_rotatable_by_hash_def select_one_None using none(1) by blast
  moreover have "find_active_by_hash (sw_now w') (rt_hash r) (sw_rows w') = None"
    unfolding find_active_by_hash_def select_one_None using none(2) by blast
  ultimately show ?thesis by (simp add: active_user_def)
qed

theorem revoked_token_dies_witness:
  "find_rotatable_by_hash 40000 30 ''a'' [revoked 5 demo_row] = None"
proof -
  let ?w = "\<lparr>sw_now = 40000, sw_rows = [revoked 5 demo_row]\<rparr>"
  have "find_rotatable_by_hash (sw_now ?w) 30 (rt_hash (revoked 5 demo_row)) (sw_rows ?w) = None
      \<and> active_user (sw_now ?w) (sw_rows ?w) (rt_hash (revoked 5 demo_row)) = None"
    by (rule revoked_token_dies [of demo_hash demo_expiry 30 ?w ?w _ 5, OF rtranclp.rtrancl_refl])
       simp_all
  then show ?thesis by (simp add: demo_row_live)
qed

text \<open>C35: signing out does not close a session at once: a token that was revoked by a sign-out, from one
  device or from all, is exchanged for a new live session of the user at every moment before the end
  of the grace period (and of the token's own life), and is refused from the end of that period on.\<close>

theorem signed_out_token_still_rotates:
  assumes "tokens_ok rows" and "r \<in> set rows" and "\<not> rt_revoked r" and "rt_hash r = hash current"
    and "rows1 \<in> {snd (revoke_session hash signed_out current rows), snd (revoke_all_for_user signed_out (rt_user r) rows)}"
    and "now < rt_expires r" and "expiry nxt = Some e" and "hash nxt \<notin> rt_hash ` set rows"
  shows "rotate_session hash expiry now grace i current nxt md rows1
      = (if now < signed_out + grace * 1000
         then Inr (Some (rt_user r, e), rows1 @ [\<lparr>rt_id = i, rt_user = rt_user r, rt_hash = hash nxt, rt_expires = e,
             rt_revoked = False, rt_revoked_at = None, rt_ip = jor (md_ip md) JNull,
             rt_agent = jor (md_agent md) JNull, rt_created = now\<rparr>])
         else Inr (None, rows1))"
proof -
  have r': "revoked signed_out r \<in> set rows1"
    using assms(2-5) by (auto simp: revoke_session_def revoke_by_hash_def revoke_all_for_user_def intro: update_affected)
  have "tokens_ok rows1" using assms(1,5) by (auto simp: revoke_session_def)
  from same_hash [OF this r'] assms(4)
  have only: "q = revoked signed_out r" if "q \<in> set rows1" "rt_hash q = hash current" for q using that by simp
  have "map rt_hash rows1 = map rt_hash rows"
    using assms(5) by (auto simp: revoke_session_def revoke_by_hash_def revoke_all_for_user_def map_update_where)
  then have fresh: "hash nxt \<notin> rt_hash ` set rows1" using assms(8) by (metis set_map)
  have grace: "is_rotatable now grace (revoked signed_out r) = (now < signed_out + grace * 1000)"
    using assms(6) by (auto simp: is_rotatable_def in_grace_def)
  show ?thesis
  proof (cases "now < signed_out + grace * 1000")
    case True
    then have "find_rotatable_by_hash now grace (hash current) rows1 \<noteq> None"
      using r' grace assms(4) unfolding find_rotatable_by_hash_def select_one_None by force
    then have "find_rotatable_by_hash now grace (hash current) rows1 = Some (revoked signed_out r)"
      using only by (auto simp: find_rotatable_by_hash_def dest: select_one_Some)
    with True fresh assms(7) show ?thesis by (simp add: rotate_session_def rotate_with_def insert_token_def)
  next
    case False
    then have "find_rotatable_by_hash now grace (hash current) rows1 = None"
      unfolding find_rotatable_by_hash_def select_one_None using only grace by blast
    with False show ?thesis by (simp add: rotate_session_def rotate_with_def)
  qed
qed

theorem signed_out_token_still_rotates_witness:
  "fst (projr (rotate_session demo_hash demo_expiry 30004 30 ''2'' ''a'' ''b'' demo_md
      (snd (revoke_all_for_user 5 ''u'' [demo_row])))) = Some (''u'', 100000000)
   \<and> fst (projr (rotate_session demo_hash demo_expiry 30005 30 ''2'' ''a'' ''b'' demo_md
      (snd (revoke_session demo_hash 5 ''a'' [demo_row])))) = None"
  using signed_out_token_still_rotates
    [of "[demo_row]" demo_row demo_hash "''a''" "snd (revoke_all_for_user 5 ''u'' [demo_row])" 5 30004 demo_expiry "''b''" 100000000 30 "''2''" demo_md]
    signed_out_token_still_rotates
    [of "[demo_row]" demo_row demo_hash "''a''" "snd (revoke_session demo_hash 5 ''a'' [demo_row])" 5 30005 demo_expiry "''b''" 100000000 30 "''2''" demo_md]
  by (simp add: demo_row_def [THEN arg_cong, of rt_revoked] demo_row_def [THEN arg_cong, of rt_expires] demo_row_live demo_hash_def demo_expiry_def)

text \<open>The grace period cannot be switched off: \<open>REFRESH_TOKEN_ROTATION_GRACE_SECONDS=0\<close> gives 30
  seconds, as an unset or unreadable variable does, although the code clamps the value at zero.\<close>

theorem zero_grace_becomes_thirty:
  "default_rotation_grace (JStr ''0'') = Fin 30 \<and> default_rotation_grace JUndef = Fin 30
   \<and> default_rotation_grace (JStr ''none'') = Fin 30 \<and> default_rotation_grace (JStr ''-5'') = Fin 0"
  by (simp add: default_rotation_grace_def parse_int_def signed_def trim_start_def span_digits_def
      is_digit_def is_space_def digits_val_def digit_val_def jor_def math_max_def num_simps
      num_of_small_int [of 30, simplified] num_of_small_int [of "-5", simplified])

end
