(* ===== verification/Sign_In.thy ===== *)
theory Sign_In
  imports Access_Control Refresh_Sessions
begin

text \<open>
  \<open>modules/auth/authSessionService.js\<close> over the services it composes: the accounts and memberships, the
  second factor and the refresh sessions; and the payloads of the tokens \<open>modules/auth/tokens.js\<close>
  signs. Signing and verifying (the JWT library), the hash of a refresh token and the password check are
  the functions of a record. \<open>jwt.verify\<close> returns null here for what it rejects. An error that a
  service throws leaves the statements before it. Analytics and the keys it derives are left out.
\<close>

section \<open>Tokens\<close>

record auth_lib =
  al_sign_access :: "jsval \<Rightarrow> string"
  al_sign_refresh :: "jsval \<Rightarrow> string"
  al_access_claims :: "millis \<Rightarrow> string \<Rightarrow> jsval"
  al_refresh_claims :: "millis \<Rightarrow> string \<Rightarrow> jsval"
  al_hash :: "string \<Rightarrow> string"
  al_expiry :: "string \<Rightarrow> millis option"
  al_password_ok :: "string \<Rightarrow> string \<Rightarrow> bool"
  al_grace :: int
  al_mfa :: mfa_lib

definition id_or_null :: "ident option \<Rightarrow> jsval" where
  "id_or_null i = (case i of None \<Rightarrow> JNull | Some s \<Rightarrow> JStr s)"

definition access_claims :: "account \<Rightarrow> ident option \<Rightarrow> bool \<Rightarrow> jsval" where
  "access_claims a company verified =
     JObj [(''sub'', JStr (ac_id a)), (''type'', JStr ''access''), (''email'', JStr (ac_email a)),
       (''roles'', JArr (ac_roles a)), (''is_demo'', JBool (ac_demo a)), (''company_id'', id_or_null company),
       (''mfa_verified'', JBool verified),
       (''amr'', JArr (if verified then [JStr ''pwd'', JStr ''otp''] else [JStr ''pwd'']))]"

definition refresh_claims :: "string \<Rightarrow> string \<Rightarrow> bool \<Rightarrow> bool \<Rightarrow> jsval" where
  "refresh_claims user jti remember verified =
     JObj [(''sub'', JStr user), (''type'', JStr ''refresh''), (''jti'', JStr jti), (''remember_me'', JBool remember),
       (''mfa_verified'', JBool verified)]"

section \<open>Sessions\<close>

record auth_db =
  au_id :: id_db
  au_mfa :: mfa_db
  au_tokens :: "refresh_row list"

text \<open>The response's data, and the tokens beside it.\<close>

record auth_data =
  ad_user :: account
  ad_company_id :: "ident option"
  ad_company :: "company_info option"
  ad_membership :: "membership_view option"
  ad_access :: string

datatype auth_result =
    Auth_Error string nat
  | Expired string bool
  | Authenticated auth_data "string option" bool

type_synonym 'a auth_outcome = "(js_error + 'a) \<times> auth_db"

definition auth_data_of :: "account \<Rightarrow> session_context \<Rightarrow> string \<Rightarrow> auth_data" where
  "auth_data_of a sc access =
     \<lparr>ad_user = a, ad_company_id = (case sc_token_company sc of None \<Rightarrow> ac_company a | Some c \<Rightarrow> Some c),
      ad_company = sc_company sc, ad_membership = sc_membership sc, ad_access = access\<rparr>"

text \<open>The request's part that identifies what is new: the id of the stored session and the token's \<open>jti\<close>.\<close>

record fresh_ids =
  fi_session :: ident
  fi_jti :: string

definition open_account_session ::
  "auth_lib \<Rightarrow> millis \<Rightarrow> fresh_ids \<Rightarrow> account \<Rightarrow> bool \<Rightarrow> bool \<Rightarrow> session_metadata \<Rightarrow> auth_db \<Rightarrow>
   auth_result auth_outcome" where
  "open_account_session lib now ids a remember verified md db =
     (let (sc, i1) = resolve_context now a True (au_id db);
          i2 = mark_user_logged_in now (ac_id a) i1;
          access = al_sign_access lib (access_claims a (sc_token_company sc) verified);
          refresh = al_sign_refresh lib (refresh_claims (ac_id a) (fi_jti ids) remember verified)
      in case store_session (al_hash lib) (al_expiry lib) now (fi_session ids) refresh (ac_id a) md (au_tokens db) of
           Inl e \<Rightarrow> (Inl e, db\<lparr>au_id := i2\<rparr>)
         | Inr (_, rows) \<Rightarrow>
             (Inr (Authenticated (auth_data_of a sc access) (Some refresh) remember),
              db\<lparr>au_id := i2, au_tokens := rows\<rparr>))"

definition sign_in ::
  "auth_lib \<Rightarrow> millis \<Rightarrow> fresh_ids \<Rightarrow> string \<Rightarrow> string \<Rightarrow> jsval \<Rightarrow> bool \<Rightarrow> session_metadata \<Rightarrow> auth_db \<Rightarrow>
   auth_result auth_outcome" where
  "sign_in lib now ids email password typed remember md db =
     (case get_user_by_email email (au_id db) of
        None \<Rightarrow> (Inr (Auth_Error ''INVALID_CREDENTIALS'' 401), db)
      | Some a \<Rightarrow>
          (let enabled = cs_enabled (get_challenge_state (ac_id a) (au_mfa db))
           in if ac_password a = [] \<or> \<not> al_password_ok lib password (ac_password a)
              then (Inr (Auth_Error ''INVALID_CREDENTIALS'' 401), db)
              else if \<not> ac_verified a \<and> \<not> ac_demo a then (Inr (Auth_Error ''EMAIL_NOT_VERIFIED'' 403), db)
              else if enabled \<and> \<not> truthy typed then (Inr (Auth_Error ''MFA_REQUIRED'' 401), db)
              else if enabled
              then case verify_challenge (al_mfa lib) now (ac_id a) typed (au_mfa db) of
                     Inl e \<Rightarrow> (Inl e, db)
                   | Inr (ok, m) \<Rightarrow>
                       (if \<not> ok then (Inr (Auth_Error ''MFA_CODE_INVALID'' 401), db\<lparr>au_mfa := m\<rparr>)
                        else open_account_session lib now ids a remember True md (db\<lparr>au_mfa := m\<rparr>))
              else open_account_session lib now ids a remember False md db))"

text \<open>The session a refresh token stands for: its user, after a rotation the new token, and the rows.\<close>

definition session_user ::
  "auth_lib \<Rightarrow> millis \<Rightarrow> fresh_ids \<Rightarrow> bool \<Rightarrow> string \<Rightarrow> string \<Rightarrow> session_metadata \<Rightarrow> refresh_row list \<Rightarrow>
   js_error + ident option \<times> refresh_row list" where
  "session_user lib now ids rotating token nxt md rows =
     (if rotating
      then bind_result (rotate_session (al_hash lib) (al_expiry lib) now (al_grace lib) (fi_session ids) token nxt md rows)
             (\<lambda>(r, rows'). Inr (map_option fst r, rows'))
      else Inr (map_option rt_user (session_active (al_hash lib) now token rows), rows))"

definition issue_refresh_session ::
  "auth_lib \<Rightarrow> millis \<Rightarrow> fresh_ids \<Rightarrow> string \<Rightarrow> bool \<Rightarrow> bool \<Rightarrow> session_metadata \<Rightarrow> auth_db \<Rightarrow>
   auth_result auth_outcome" where
  "issue_refresh_session lib now ids token rotating update_login md db =
     (let d = al_refresh_claims lib now token; sub = to_str (jget d ''sub'');
          remember = (jget d ''remember_me'' \<noteq> JBool False); verified = (jget d ''mfa_verified'' = JBool True);
          nxt = al_sign_refresh lib (refresh_claims sub (fi_jti ids) remember verified)
      in if \<not> truthy d \<or> jget d ''type'' \<noteq> JStr ''refresh'' then (Inr (Expired ''INVALID_REFRESH_TOKEN'' True), db)
         else if cs_enabled (get_challenge_state sub (au_mfa db)) \<and> \<not> verified
         then (Inr (Expired ''MFA_REAUTH_REQUIRED'' True),
               db\<lparr>au_tokens := snd (revoke_session (al_hash lib) now token (au_tokens db))\<rparr>)
         else case session_user lib now ids rotating token nxt md (au_tokens db) of
                Inl e \<Rightarrow> (Inl e, db)
              | Inr (None, rows) \<Rightarrow> (Inr (Expired ''SESSION_EXPIRED'' rotating), db\<lparr>au_tokens := rows\<rparr>)
              | Inr (Some user, rows) \<Rightarrow>
                  (case get_user_by_id (if user = [] then sub else user) (au_id db) of
                     None \<Rightarrow> (Inr (Expired ''SESSION_USER_NOT_FOUND'' True), db\<lparr>au_tokens := rows\<rparr>)
                   | Some a \<Rightarrow>
                       (let (sc, i) = resolve_context now a update_login (au_id db);
                            access = al_sign_access lib (access_claims a (sc_token_company sc) verified)
                        in (Inr (Authenticated (auth_data_of a sc access) (if rotating then Some nxt else None) remember),
                            db\<lparr>au_id := i, au_tokens := rows\<rparr>))))"

definition issue_access_session ::
  "auth_lib \<Rightarrow> millis \<Rightarrow> string \<Rightarrow> bool \<Rightarrow> auth_db \<Rightarrow> auth_result auth_outcome" where
  "issue_access_session lib now token update_login db =
     (let d = al_access_claims lib now token; sub = to_str (jget d ''sub'')
      in if \<not> truthy d \<or> truthy (jget d ''type'') \<and> jget d ''type'' \<noteq> JStr ''access''
         then (Inr (Expired ''INVALID_TOKEN'' False), db)
         else case get_user_by_id sub (au_id db) of
                None \<Rightarrow> (Inr (Expired ''SESSION_USER_NOT_FOUND'' True), db)
              | Some a \<Rightarrow>
                  (if cs_enabled (get_challenge_state sub (au_mfa db)) \<and> jget d ''mfa_verified'' \<noteq> JBool True
                   then (Inr (Expired ''MFA_REAUTH_REQUIRED'' False), db)
                   else let (sc, i) = resolve_context now a update_login (au_id db)
                        in (Inr (Authenticated (auth_data_of a sc token) None True), db\<lparr>au_id := i\<rparr>)))"

text \<open>The number of sessions revoked, None for all.\<close>

definition sign_out ::
  "auth_lib \<Rightarrow> millis \<Rightarrow> bool \<Rightarrow> jsval \<Rightarrow> jsval \<Rightarrow> auth_db \<Rightarrow> nat option \<times> auth_db" where
  "sign_out lib now all_devices refresh access db =
     (let sub_of = (\<lambda>claims t. if truthy t then jget (claims now (to_str t)) ''sub'' else JUndef);
          user = jor (sub_of (al_access_claims lib) access) (jor (sub_of (al_refresh_claims lib) refresh) JNull);
          (n, rows) = (if all_devices \<and> truthy user then revoke_all_for_user now (to_str user) (au_tokens db)
            else if truthy refresh then revoke_session (al_hash lib) now (to_str refresh) (au_tokens db)
            else (0, au_tokens db))
      in (if all_devices then None else Some n, db\<lparr>au_tokens := rows\<rparr>))"

end
