(* ===== verification/Identity_Properties.thy ===== *)
theory Identity_Properties
  imports Company_Members
begin

text \<open>
  Runs of the identity services: the constraints of the tables, what happens to administrators, and the
  two ends of a membership, disabling and registering again.
\<close>

section \<open>Constraints\<close>

definition user_ids :: "id_db \<Rightarrow> ident set" where
  "user_ids db = us_id ` set (id_users db)"

definition company_ids :: "id_db \<Rightarrow> ident set" where
  "company_ids db = ci_id ` set (id_companies db)"

definition member_pair :: "member_row \<Rightarrow> ident \<times> ident" where
  "member_pair m = (cm_company m, cm_user m)"

definition keys_ok :: "id_db \<Rightarrow> bool" where
  "keys_ok db = (distinct (map us_id (id_users db)) \<and> distinct (map us_email (id_users db))
     \<and> distinct (map pf_user (id_profiles db)) \<and> distinct (id_roles db)
     \<and> distinct (map ci_id (id_companies db)) \<and> distinct (map cm_id (id_members db))
     \<and> distinct (map member_pair (id_members db)))"

definition member_ok :: "id_db \<Rightarrow> member_row \<Rightarrow> bool" where
  "member_ok db m = (cm_company m \<in> company_ids db \<and> cm_user m \<in> user_ids db
     \<and> set_option (cm_invited_by m) \<subseteq> user_ids db \<and> cm_role m \<in> set company_roles
     \<and> cm_status m \<in> set member_statuses)"

definition profile_ok :: "id_db \<Rightarrow> profile_row \<Rightarrow> bool" where
  "profile_ok db p = (pf_user p \<in> user_ids db \<and> set_option (pf_company p) \<subseteq> company_ids db)"

definition role_ok :: "id_db \<Rightarrow> ident \<times> string \<Rightarrow> bool" where
  "role_ok db r = (fst r \<in> user_ids db \<and> snd r \<in> set app_roles)"

definition refs_ok :: "id_db \<Rightarrow> bool" where
  "refs_ok db = (Ball (set (id_profiles db)) (profile_ok db) \<and> Ball (set (id_roles db)) (role_ok db)
     \<and> Ball (set (id_members db)) (member_ok db))"

definition id_ok :: "id_db \<Rightarrow> bool" where
  "id_ok db = (keys_ok db \<and> refs_ok db)"

lemmas id_defs = id_ok_def keys_ok_def refs_ok_def member_ok_def profile_ok_def role_ok_def user_ids_def
  company_ids_def member_pair_def

lemma enum_values [simp]:
  "''admin'' \<in> set company_roles" "''active'' \<in> set member_statuses" "''invited'' \<in> set member_statuses"
  "''b2b'' \<in> set app_roles"
  by (simp_all add: company_roles_def member_statuses_def app_roles_def)

subsection \<open>The statements\<close>

lemma insert_user_ok: "insert_user now i email h name db = Inr db' \<Longrightarrow> id_ok db \<Longrightarrow> id_ok db'"
  by (auto simp: insert_user_def id_defs)

lemma insert_profile_ok: "insert_profile i user email name c db = Inr db' \<Longrightarrow> id_ok db \<Longrightarrow> id_ok db'"
  by (auto simp: insert_profile_def id_defs split: option.splits)

lemma add_role_ok: "add_role user role db = Inr db' \<Longrightarrow> id_ok db \<Longrightarrow> id_ok db'"
  by (auto simp: add_role_def id_defs)

lemma insert_company_ok:
  "insert_company now i name business plan domestic targets db = Inr db' \<Longrightarrow> id_ok db \<Longrightarrow> id_ok db'"
  by (auto simp: insert_company_def id_defs)

lemma insert_membership_ok:
  "insert_membership now i c u role status inviter db = Inr db' \<Longrightarrow> status \<in> set member_statuses \<Longrightarrow>
   id_ok db \<Longrightarrow> id_ok db'"
  by (auto simp: insert_membership_def id_defs)

lemma update_profiles_ok:
  assumes "c \<in> company_ids db" and "id_ok db"
  shows "id_ok (db\<lparr>id_profiles := update_where p (pf_company_update (\<lambda>_. Some c)) (id_profiles db)\<rparr>)"
proof -
  have "\<forall>q \<in> set (update_where p (pf_company_update (\<lambda>_. Some c)) (id_profiles db)). profile_ok db q"
    by (rule all_update_where) (use assms in \<open>auto simp: id_defs\<close>)
  with assms show ?thesis by (simp add: id_defs map_update_where)
qed

lemma assign_profile_ok: "c \<in> company_ids db \<Longrightarrow> id_ok db \<Longrightarrow> id_ok (assign_profile_company u c db)"
  unfolding assign_profile_company_def by (rule update_profiles_ok)

lemma attach_profile_ok: "c \<in> company_ids db \<Longrightarrow> id_ok db \<Longrightarrow> id_ok (attach_profile c u db)"
  unfolding attach_profile_def by (rule update_profiles_ok)

lemma delete_user_rows:
  assumes "delete_user u db = Inr db'"
  shows "id_users db' = delete_where (\<lambda>r. us_id r = u) (id_users db)"
    "id_profiles db' = delete_where (\<lambda>p. pf_user p = u) (id_profiles db)"
    "id_roles db' = delete_where (\<lambda>r. fst r = u) (id_roles db)"
    "id_members db' = delete_where (\<lambda>m. cm_user m = u) (id_members db)"
    "id_companies db' = id_companies db"
    "\<And>m. m \<in> set (id_members db) \<Longrightarrow> cm_user m \<noteq> u \<Longrightarrow> cm_invited_by m \<noteq> Some u"
  using assms by (auto simp: delete_user_def)

lemma delete_user_ok:
  assumes "delete_user u db = Inr db'" and "id_ok db"
  shows "id_ok db'"
proof -
  note rows = delete_user_rows [OF assms(1)]
  have ids: "user_ids db' = user_ids db - {u}" "company_ids db' = company_ids db"
    by (auto simp: user_ids_def company_ids_def rows)
  have "keys_ok db'"
    using assms(2) by (simp add: id_ok_def keys_ok_def rows distinct_delete_where) (simp add: delete_where_def)
  moreover have "profile_ok db' p" if "p \<in> set (id_profiles db')" for p
    using that assms(2) by (simp add: rows(2) profile_ok_def ids id_ok_def refs_ok_def)
  moreover have "role_ok db' r" if "r \<in> set (id_roles db')" for r
    using that assms(2) by (simp add: rows(3) role_ok_def ids id_ok_def refs_ok_def)
  moreover have "member_ok db' m" if "m \<in> set (id_members db')" for m
    using that assms(2) rows(6) [of m]
    by (auto simp: rows(4) member_ok_def ids id_ok_def refs_ok_def)
  ultimately show ?thesis by (simp add: id_ok_def refs_ok_def)
qed

text \<open>An update of users or members that keeps the keys and stays in the enums.\<close>

lemma update_users_ok:
  assumes "\<And>u. us_id (f u) = us_id u" and "\<And>u. us_email (f u) = us_email u" and "id_ok db"
  shows "id_ok (db\<lparr>id_users := update_where p f (id_users db)\<rparr>)"
proof -
  have "us_id ` set (update_where p f (id_users db)) = us_id ` set (id_users db)"
    unfolding set_map [symmetric] using assms(1) by (simp add: map_update_where)
  with assms show ?thesis by (simp add: id_defs map_update_where)
qed

lemma update_members_ok:
  assumes "\<And>m. cm_id (f m) = cm_id m" and "\<And>m. member_pair (f m) = member_pair m"
    and "\<And>m. cm_invited_by (f m) = cm_invited_by m"
    and "\<And>m. cm_role m \<in> set company_roles \<Longrightarrow> cm_role (f m) \<in> set company_roles"
    and "\<And>m. cm_status m \<in> set member_statuses \<Longrightarrow> cm_status (f m) \<in> set member_statuses" and "id_ok db"
  shows "id_ok (db\<lparr>id_members := update_where p f (id_members db)\<rparr>)"
proof -
  have pair: "cm_company (f m) = cm_company m" "cm_user (f m) = cm_user m" for m
    using assms(2) [of m] by (simp_all add: member_pair_def)
  have "\<forall>m \<in> set (update_where p f (id_members db)). member_ok db m"
    by (rule all_update_where) (use assms(3-6) pair in \<open>auto simp: id_defs\<close>)
  with assms show ?thesis by (simp add: id_defs map_update_where pair)
qed

lemma delete_members_ok: "id_ok db \<Longrightarrow> id_ok (db\<lparr>id_members := delete_where p (id_members db)\<rparr>)"
  by (auto simp: id_defs distinct_delete_where)

lemma subs_ok [simp]: "id_ok (db\<lparr>id_subs := s\<rparr>) = id_ok db" "id_ok (db\<lparr>id_rewards := r\<rparr>) = id_ok db"
  by (simp_all add: id_defs)

lemma queue_event_ok [simp]: "id_ok (queue_event name u c e ps db) = id_ok db"
  by (simp add: queue_event_def)

lemma initialize_trial_ok [simp]: "id_ok (initialize_trial now c db) = id_ok db"
  by (simp add: initialize_trial_def)

lemma insert_rewards_ok [simp]: "id_ok (insert_rewards u db) = id_ok db"
  by (simp add: insert_rewards_def)

subsection \<open>The services\<close>

lemma company_found: "find_company c db \<noteq> None \<longleftrightarrow> c \<in> company_ids db"
  by (auto simp: find_company_def select_one_None company_ids_def)

lemma create_company_ok:
  assumes "create_company now ids c db = Inr db'" and "id_ok db"
  shows "id_ok db'"
proof -
  obtain d ts db1 db2 where step:
      "insert_company now (ni_company ids) (cd_name c) (cd_business c) ''trial'' d ts db = Inr db1"
      "insert_company_admin now (ni_member ids) (ni_company ids) (ni_user ids)
         (assign_profile_company (ni_user ids) (ni_company ids) db1) = Inr db2"
    and db': "db' = initialize_trial now (ni_company ids) db2"
    using assms(1) by (auto simp: create_company_def split: prod.splits)
  have "ni_company ids \<in> company_ids db1" using step(1) by (auto simp: insert_company_def company_ids_def)
  from assign_profile_ok [OF this insert_company_ok [OF step(1) assms(2)]]
  have "id_ok (assign_profile_company (ni_user ids) (ni_company ids) db1)" .
  with step(2) show ?thesis unfolding db' insert_company_admin_def by (auto dest: insert_membership_ok)
qed

lemma create_user_ok:
  assumes "create_user hash now ids email pw name role company db = Inr (r, db')" and "id_ok db"
  shows "id_ok db'"
proof -
  obtain db1 db2 db3 db4 where step: "insert_user now (ni_user ids) email (hash pw) name db = Inr db1"
      "insert_profile (ni_profile ids) (ni_user ids) email name None db1 = Inr db2"
      "add_role (ni_user ids) role db2 = Inr db3"
      "(case company of Some c \<Rightarrow> if role = ''b2b'' then create_company now ids c db3 else Inr db3
        | None \<Rightarrow> Inr db3) = Inr db4"
    and db': "db' = (if role = ''b2c'' then insert_rewards (ni_user ids) db4 else db4)"
    using assms(1) unfolding create_user_def bind_result_Inr by blast
  have "id_ok db3"
    using step(1-3) assms(2) by (blast intro: insert_user_ok insert_profile_ok add_role_ok)
  then have "id_ok db4" using step(4) by (auto split: option.splits if_splits intro: create_company_ok)
  with db' show ?thesis by simp
qed

lemma create_invited_user_ok:
  assumes "create_invited_user hash rand now ids email name c db = Inr (u, db')" and "id_ok db"
  shows "id_ok db'"
  using assms unfolding create_invited_user_def Let_def bind_result_Inr
  by (blast intro: insert_user_ok insert_profile_ok add_role_ok)

lemma invited_user_ok:
  assumes "invited_user hash rand now ids c email name db = Inr (u, db')" and "id_ok db"
    and "c \<in> company_ids db"
  shows "id_ok db'"
proof (cases "get_user_by_email email db")
  case None
  with assms show ?thesis by (auto simp: invited_user_def intro: create_invited_user_ok)
next
  case (Some a)
  have "id_ok (attach_profile c (ac_id a) db)" using assms(3,2) by (rule attach_profile_ok)
  with Some assms(1) show ?thesis by (auto simp: invited_user_def Let_def split: if_splits intro: add_role_ok)
qed

text \<open>A transaction that returns keeps what every successful run of its body keeps.\<close>

lemma transactional_keeps:
  assumes "transactional work db = (r, db')" and "P db"
    and "\<And>x db1. work db = Inr (x, db1) \<Longrightarrow> P db1"
  shows "P db'"
  using assms by (cases "work db") (auto simp: transactional_def split: sum.splits)

lemma invite_member_elim:
  assumes "invite_member hash rand now ids c inviter email name role db = Inr (u, db')"
  obtains db1 db2 where "find_company c db \<noteq> None"
    "invited_user hash rand now ids c email name db = Inr (u, db1)"
    "insert_membership now (ni_member ids) c u role ''invited'' inviter db1 = Inr db2"
    "db' = queue_event ''wc_member_invited'' inviter c (ni_member ids) [(''member_role'', JStr role)] db2"
  using assms by (auto simp: invite_member_def split: if_splits)

lemma create_member_ok:
  assumes "create_member hash rand now ids c inviter email name role db = (r, db')" and "id_ok db"
  shows "id_ok db'"
  using assms unfolding create_member_def
proof (rule transactional_keeps)
  fix u db1
  assume "invite_member hash rand now ids c inviter (lower (trim (str_or_empty email)))
    (trim (str_or_empty name)) role db = Inr (u, db1)"
  then show "id_ok db1"
  proof (rule invite_member_elim)
    fix db2 db3
    assume found: "find_company c db \<noteq> None"
      and step: "invited_user hash rand now ids c (lower (trim (str_or_empty email)))
        (trim (str_or_empty name)) db = Inr (u, db2)"
        "insert_membership now (ni_member ids) c u role ''invited'' inviter db2 = Inr db3"
      and db1: "db1 = queue_event ''wc_member_invited'' inviter c (ni_member ids) [(''member_role'', JStr role)] db3"
    have "c \<in> company_ids db" using found unfolding company_found .
    with step(1) assms(2) have "id_ok db2" by (rule invited_user_ok)
    from step(2) _ this have "id_ok db3" by (rule insert_membership_ok) simp
    then show "id_ok db1" by (simp add: db1)
  qed
qed

lemma change_events_ok [simp]: "id_ok (change_events c i actor m ch db) = id_ok db"
  by (simp add: change_events_def Let_def)

lemma update_member_row_ok: "update_member_row now c i ch db = Inr db' \<Longrightarrow> id_ok db \<Longrightarrow> id_ok db'"
  by (auto simp: update_member_row_def change_member_def member_pair_def intro!: update_members_ok)

lemma update_member_ok:
  assumes "update_member now c i actor ch db = (r, db')" and "id_ok db"
  shows "id_ok db'"
  using assms unfolding update_member_def
proof (rule transactional_keeps)
  fix x db1
  assume "bind_result (guarded_member ''CANNOT_UPDATE_SELF'' c i actor db) (\<lambda>m.
      if mc_role ch = [] \<and> mc_status ch = [] then Inl (Service_Error ''NO_FIELDS_TO_UPDATE'' 400)
      else bind_result (update_member_row now c i ch db) (\<lambda>db1.
        Inr (change_member now ch m, change_events c i actor m ch db1))) = Inr (x, db1)"
  then obtain m db2 where "update_member_row now c i ch db = Inr db2"
    and db1: "db1 = change_events c i actor m ch db2"
    by (auto split: if_splits)
  with assms(2) have "id_ok db2" by (blast intro: update_member_row_ok)
  then show "id_ok db1" by (simp add: db1)
qed

lemma delete_member_ok: "delete_member c i actor db = (r, db') \<Longrightarrow> id_ok db \<Longrightarrow> id_ok db'"
  unfolding delete_member_def
  by (erule transactional_keeps) (auto simp: delete_member_row_def intro: delete_members_ok)

lemma register_ok:
  assumes "register hash now ids s db = (r, db')" and "id_ok db"
  shows "id_ok db'"
proof -
  let ?create = "create_user hash now ids (sg_email s) (sg_password s) (sg_name s) (sg_role s) (company_data_of s)"
  have create: "id_ok d'" if "transactional ?create d = (r, d')" "id_ok d" for d d'
    using that(1) that(2) by (rule transactional_keeps) (use that(2) create_user_ok in blast)
  show ?thesis
    using assms create by (auto simp: register_def Let_def split: option.splits if_splits sum.splits dest: delete_user_ok)
qed

lemma mark_email_verified_ok: "id_ok db \<Longrightarrow> id_ok (mark_email_verified now u db)"
  unfolding mark_email_verified_def by (rule update_users_ok) simp_all

lemma mark_user_logged_in_ok: "id_ok db \<Longrightarrow> id_ok (mark_user_logged_in now u db)"
  unfolding mark_user_logged_in_def by (rule update_users_ok) simp_all

lemma activate_membership_ok: "id_ok db \<Longrightarrow> id_ok (activate_membership now c u db)"
  unfolding activate_membership_def by (rule update_members_ok) (simp_all add: member_pair_def)

lemma mark_membership_ok: "id_ok db \<Longrightarrow> id_ok (mark_membership_logged_in now c u db)"
  unfolding mark_membership_logged_in_def by (rule update_members_ok) (simp_all add: member_pair_def)

lemma accept_invite_cases:
  assumes "accept_company_invite claims now token db = (r, db')"
  obtains (refused) e where "r = Inl e" "db' = db"
  | (accepted) c u m a where "r = Inr (c, a)" "find_membership c (ac_id u) db = Some m"
      "cm_status m \<noteq> ''disabled''"
      "get_user_by_email (lower (trim (str_or_empty (jget (claims token) ''email'')))) db = Some u"
      "jget (claims token) ''type'' = JStr ''company_invite''"
      "db' = mark_user_logged_in now (ac_id u) (mark_membership_logged_in now c (ac_id u)
         (activate_membership now c (ac_id u)
           (if ac_verified u then db else mark_email_verified now (ac_id u) db)))"
  using assms unfolding accept_company_invite_def Let_def
  by (auto split: if_splits option.splits)

lemma accept_invite_ok:
  assumes "accept_company_invite claims now token db = (r, db')" and "id_ok db"
  shows "id_ok db'"
  using assms(1)
proof (cases rule: accept_invite_cases)
  case (accepted c u m a)
  show ?thesis unfolding accepted(6)
    by (intro mark_user_logged_in_ok mark_membership_ok activate_membership_ok)
       (simp add: assms(2) mark_email_verified_ok)
qed (simp add: assms(2))

lemma verify_email_cases:
  assumes "verify_email claims now token address tidy already db = (r, db')"
  shows "db' = db \<or> (\<exists>u e. get_user_by_email e db = Some u \<and> db' = mark_email_verified now (ac_id u) db)"
  using assms unfolding verify_email_def Let_def by (auto split: if_splits option.splits)

lemma resolve_context_cases:
  assumes "resolve_context now u flag db = (sc, db')"
  shows "db' = db \<or> (\<exists>c. db' = mark_membership_logged_in now c (ac_id u) db)"
  using assms unfolding resolve_context_def by (auto split: if_splits option.splits)

section \<open>Runs\<close>

text \<open>One request of the identity services, or a reading of a company's subscription.\<close>

inductive id_step ::
  "(string \<Rightarrow> string) \<Rightarrow> (jsval \<Rightarrow> jsval) \<Rightarrow> id_db \<Rightarrow> id_db \<Rightarrow> bool" for hash claims where
  signup: "register hash now ids s db = (r, db') \<Longrightarrow> id_step hash claims db db'"
| invite: "create_member hash rand now ids c inviter email name role db = (r', db') \<Longrightarrow> id_step hash claims db db'"
| update: "update_member now c i actor ch db = (r'', db') \<Longrightarrow> id_step hash claims db db'"
| remove: "delete_member c i actor db = (b, db') \<Longrightarrow> id_step hash claims db db'"
| accept: "accept_company_invite claims now token db = (x, db') \<Longrightarrow> id_step hash claims db db'"
| verify: "verify_email claims now token address tidy already db = (v, db') \<Longrightarrow> id_step hash claims db db'"
| session: "resolve_context now u flag db = (sc, db') \<Longrightarrow> id_step hash claims db db'"
| login: "id_step hash claims db (mark_user_logged_in now user db)"
| subscription: "id_step hash claims db (db\<lparr>id_subs := s\<rparr>)"

lemma id_step_ok: "id_step hash claims db db' \<Longrightarrow> id_ok db \<Longrightarrow> id_ok db'"
proof (induction rule: id_step.induct)
  case verify
  then show ?case by (auto dest!: verify_email_cases intro: mark_email_verified_ok)
next
  case session
  then show ?case by (auto dest!: resolve_context_cases intro: mark_membership_ok)
qed (simp_all add: register_ok create_member_ok update_member_ok delete_member_ok accept_invite_ok
  mark_user_logged_in_ok)

section \<open>Administrators\<close>

text \<open>\<open>standing\<close>: the user has a verified address and is an active administrator of the company.\<close>

definition standing :: "id_db \<Rightarrow> ident \<Rightarrow> ident \<Rightarrow> bool" where
  "standing db c u =
     ((\<exists>m \<in> set (id_members db). member_pair m = (c, u) \<and> cm_role m = ''admin'' \<and> cm_status m = ''active'')
      \<and> (\<exists>r \<in> set (id_users db). us_id r = u \<and> us_verified r))"

definition preserves :: "id_db \<Rightarrow> id_db \<Rightarrow> bool" where
  "preserves db db' = (\<forall>c u. standing db c u \<longrightarrow> standing db' c u)"

lemma preserves_refl [simp]: "preserves db db"
  by (simp add: preserves_def)

lemma preserves_trans: "preserves a b \<Longrightarrow> preserves b c \<Longrightarrow> preserves a c"
  by (simp add: preserves_def)

lemma preserves_superset:
  "set (id_users db) \<subseteq> set (id_users db') \<Longrightarrow> set (id_members db) \<subseteq> set (id_members db') \<Longrightarrow> preserves db db'"
  unfolding preserves_def standing_def by blast

lemma preserves_users:
  assumes "\<And>u. us_id (f u) = us_id u" and "\<And>u. us_verified u \<Longrightarrow> us_verified (f u)"
  shows "preserves db (db\<lparr>id_users := update_where p f (id_users db)\<rparr>)"
proof -
  have "\<exists>r \<in> set (update_where p f rows). us_id r = u \<and> us_verified r"
    if "r \<in> set rows" "us_id r = u" "us_verified r" for r u rows
    using that assms update_affected [of r rows p f] update_unaffected [of r rows p f] by (cases "p r") auto
  then show ?thesis by (fastforce simp: preserves_def standing_def)
qed

lemma preserves_members:
  assumes "\<And>m. m \<in> set (id_members db) \<Longrightarrow> p m \<Longrightarrow> cm_role m = ''admin'' \<Longrightarrow> cm_status m = ''active'' \<Longrightarrow>
      member_pair (f m) = member_pair m \<and> cm_role (f m) = ''admin'' \<and> cm_status (f m) = ''active''"
  shows "preserves db (db\<lparr>id_members := update_where p f (id_members db)\<rparr>)"
proof -
  have "\<exists>m \<in> set (update_where p f (id_members db)). member_pair m = q \<and> cm_role m = ''admin''
      \<and> cm_status m = ''active''"
    if "m \<in> set (id_members db)" "member_pair m = q" "cm_role m = ''admin''" "cm_status m = ''active''" for m q
    using that assms [of m] update_affected [of m "id_members db" p f] update_unaffected [of m "id_members db" p f]
    by (cases "p m") auto
  then show ?thesis by (fastforce simp: preserves_def standing_def)
qed

subsection \<open>Statements and services\<close>

lemma insert_user_grows: "insert_user now i e h n db = Inr db' \<Longrightarrow> preserves db db'"
  by (auto simp: insert_user_def intro: preserves_superset)

lemma insert_profile_grows: "insert_profile i u e n c db = Inr db' \<Longrightarrow> preserves db db'"
  by (auto simp: insert_profile_def intro: preserves_superset)

lemma add_role_grows: "add_role u r db = Inr db' \<Longrightarrow> preserves db db'"
  by (auto simp: add_role_def intro: preserves_superset)

lemma insert_membership_grows: "insert_membership now i c u r s inviter db = Inr db' \<Longrightarrow> preserves db db'"
  by (auto simp: insert_membership_def intro: preserves_superset)

lemma quiet_statements [simp]:
  "preserves db (assign_profile_company u c db)" "preserves db (attach_profile c u db)"
  "preserves db (initialize_trial now c db)" "preserves db (insert_rewards u db)"
  "preserves db (queue_event name u c e ps db)" "preserves db (db\<lparr>id_subs := s\<rparr>)"
  by (rule preserves_superset;
      simp add: assign_profile_company_def attach_profile_def initialize_trial_def insert_rewards_def queue_event_def)+

lemma insert_company_grows: "insert_company now i n b p d ts db = Inr db' \<Longrightarrow> preserves db db'"
  by (auto simp: insert_company_def intro: preserves_superset)

lemma create_company_grows:
  assumes "create_company now ids c db = Inr db'"
  shows "preserves db db'"
proof -
  obtain d ts db1 db2 where step:
      "insert_company now (ni_company ids) (cd_name c) (cd_business c) ''trial'' d ts db = Inr db1"
      "insert_company_admin now (ni_member ids) (ni_company ids) (ni_user ids)
         (assign_profile_company (ni_user ids) (ni_company ids) db1) = Inr db2"
    and db': "db' = initialize_trial now (ni_company ids) db2"
    using assms by (auto simp: create_company_def split: prod.splits)
  note steps = insert_company_grows [OF step(1)] quiet_statements(1)
    insert_membership_grows [OF step(2) [unfolded insert_company_admin_def]] quiet_statements(3)
  show ?thesis unfolding db'
    by (rule preserves_trans [OF steps(1) preserves_trans [OF steps(2) preserves_trans [OF steps(3,4)]]])
qed

lemma account_grows:
  assumes "insert_user now i email h n db = Inr db1" and "insert_profile j i' email' n' c db1 = Inr db2"
    and "add_role u role db2 = Inr db3"
  shows "preserves db db3"
  by (rule preserves_trans [OF insert_user_grows [OF assms(1)]
        preserves_trans [OF insert_profile_grows [OF assms(2)] add_role_grows [OF assms(3)]]])

lemma create_user_grows:
  assumes "create_user hash now ids email pw name role company db = Inr (r, db')"
  shows "preserves db db'"
proof -
  obtain db1 db2 db3 db4 where step: "insert_user now (ni_user ids) email (hash pw) name db = Inr db1"
      "insert_profile (ni_profile ids) (ni_user ids) email name None db1 = Inr db2"
      "add_role (ni_user ids) role db2 = Inr db3"
      "(case company of Some c \<Rightarrow> if role = ''b2b'' then create_company now ids c db3 else Inr db3
        | None \<Rightarrow> Inr db3) = Inr db4"
    and db': "db' = (if role = ''b2c'' then insert_rewards (ni_user ids) db4 else db4)"
    using assms unfolding create_user_def bind_result_Inr by blast
  have "preserves db db3" using step(1-3) by (rule account_grows)
  moreover have "preserves db3 db4" using step(4) by (auto split: option.splits if_splits intro: create_company_grows)
  moreover have "preserves db4 db'" by (simp add: db')
  ultimately show ?thesis by (meson preserves_trans)
qed

lemma invited_user_grows:
  assumes "invited_user hash rand now ids c email name db = Inr (u, db')"
  shows "preserves db db'"
proof (cases "get_user_by_email email db")
  case None
  then have "create_invited_user hash rand now ids (JStr email) (JStr name) c db = Inr (u, db')"
    using assms by (simp add: invited_user_def)
  then show ?thesis unfolding create_invited_user_def Let_def bind_result_Inr
    by (auto intro: account_grows)
next
  case (Some a)
  then have "db' = attach_profile c (ac_id a) db \<or> add_role (ac_id a) ''b2b'' (attach_profile c (ac_id a) db) = Inr db'"
    using assms by (auto simp: invited_user_def Let_def split: if_splits)
  then show ?thesis using preserves_trans [OF quiet_statements(2) add_role_grows] by auto
qed

lemma invite_member_grows:
  assumes "invite_member hash rand now ids c inviter email name role db = Inr (u, db')"
  shows "preserves db db'"
  using assms
proof (rule invite_member_elim)
  fix db1 db2
  assume "invited_user hash rand now ids c email name db = Inr (u, db1)"
    "insert_membership now (ni_member ids) c u role ''invited'' inviter db1 = Inr db2"
    "db' = queue_event ''wc_member_invited'' inviter c (ni_member ids) [(''member_role'', JStr role)] db2"
  then have "preserves db db1" "preserves db1 db2" "preserves db2 db'"
    by (simp_all add: invited_user_grows insert_membership_grows)
  then show "preserves db db'" by (meson preserves_trans)
qed

lemma user_by_email:
  assumes "get_user_by_email e db = Some a" and "id_ok db"
  obtains r where "r \<in> set (id_users db)" "us_id r = ac_id a" "us_verified r = ac_verified a" "us_email r = e"
    "\<forall>r' \<in> set (id_users db). us_id r' = ac_id a \<longrightarrow> r' = r"
proof -
  obtain r where r: "select_one (\<lambda>u. us_email u = e) (id_users db) = Some r" and a: "a = map_user db r"
    using assms(1) by (auto simp: get_user_by_email_def)
  have "distinct (map us_id (id_users db))" using assms(2) by (simp add: id_ok_def keys_ok_def)
  then have "r' = r" if "r' \<in> set (id_users db)" "us_id r' = us_id r" for r'
    using that select_one_Some [OF r] by (auto dest: unique_key)
  then show thesis using select_one_Some [OF r] by (intro that [of r]) (simp_all add: a map_user_def)
qed

lemma delete_unverified:
  assumes "delete_user (ac_id a) db = Inr db'" and "get_user_by_email e db = Some a" and "\<not> ac_verified a"
    and "id_ok db"
  shows "preserves db db'"
  unfolding preserves_def
proof (intro allI impI)
  fix c u
  assume s: "standing db c u"
  obtain r where "us_id r = ac_id a" "us_verified r = ac_verified a"
    "\<forall>r' \<in> set (id_users db). us_id r' = ac_id a \<longrightarrow> r' = r"
    using user_by_email [OF assms(2,4)] by blast
  with s assms(3) have "u \<noteq> ac_id a" by (auto simp: standing_def)
  with s show "standing db' c u"
    by (auto simp: standing_def member_pair_def delete_user_rows [OF assms(1)])
qed

lemma register_preserves:
  assumes "register hash now ids s db = (r, db')" and "id_ok db"
  shows "preserves db db'"
proof -
  let ?create = "create_user hash now ids (sg_email s) (sg_password s) (sg_name s) (sg_role s) (company_data_of s)"
  have create: "preserves d d'" if "transactional ?create d = (r, d')" for d d'
    using that by (rule transactional_keeps) (use create_user_grows in auto)
  show ?thesis
  proof (cases "\<exists>a db1. get_user_by_email (sg_email s) db = Some a \<and> \<not> ac_verified a
      \<and> delete_user (ac_id a) db = Inr db1 \<and> transactional ?create db1 = (r, db')")
    case True
    then obtain a db1 where del: "get_user_by_email (sg_email s) db = Some a" "\<not> ac_verified a"
      "delete_user (ac_id a) db = Inr db1" and new: "transactional ?create db1 = (r, db')" by blast
    from preserves_trans [OF delete_unverified [OF del(3,1,2) assms(2)] create [OF new]] show ?thesis .
  next
    case False
    with assms(1) have "db' = db \<or> transactional ?create db = (r, db')"
      by (auto simp: register_def Let_def split: option.splits if_splits sum.splits)
    then show ?thesis using create by auto
  qed
qed

text \<open>The row a guarded change is about is not an administrator's, so no administrator's row is.\<close>

lemma guarded_not_admin:
  assumes "guarded_member err c i actor db = Inr m" and "id_ok db"
    and "r \<in> set (id_members db)" and "cm_id r = i"
  shows "cm_role r \<noteq> ''admin''"
proof -
  have f: "find_for_mutation c i db = Some m" and m: "cm_role m \<noteq> ''admin''"
    using assms(1) by (auto simp: guarded_member_def split: option.splits if_splits)
  have "distinct (map cm_id (id_members db))" using assms(2) by (simp add: id_ok_def keys_ok_def)
  from unique_key [OF this assms(3), of m] select_one_Some [OF f [unfolded find_for_mutation_def]] assms(4)
  have "r = m" by simp
  with m show ?thesis by simp
qed

lemma change_events_grows: "preserves db (change_events c i actor m ch db)"
  unfolding change_events_def Let_def by (rule preserves_superset) (simp_all add: queue_event_def)

lemma update_member_preserves:
  assumes "update_member now c i actor ch db = (r, db')" and "id_ok db"
  shows "preserves db db'"
  using assms(1) unfolding update_member_def
proof (rule transactional_keeps)
  fix x db1
  assume "bind_result (guarded_member ''CANNOT_UPDATE_SELF'' c i actor db) (\<lambda>m.
      if mc_role ch = [] \<and> mc_status ch = [] then Inl (Service_Error ''NO_FIELDS_TO_UPDATE'' 400)
      else bind_result (update_member_row now c i ch db) (\<lambda>db1.
        Inr (change_member now ch m, change_events c i actor m ch db1))) = Inr (x, db1)"
  then obtain m db2 where g: "guarded_member ''CANNOT_UPDATE_SELF'' c i actor db = Inr m"
    and up: "update_member_row now c i ch db = Inr db2" and db1: "db1 = change_events c i actor m ch db2"
    by (auto split: if_splits)
  have "db2 = db\<lparr>id_members := update_where (\<lambda>m. cm_id m = i \<and> cm_company m = c) (change_member now ch)
      (id_members db)\<rparr>"
    using up by (simp add: update_member_row_def)
  then have "preserves db db2"
    by (simp only:) (rule preserves_members, use guarded_not_admin [OF g assms(2)] in blast)
  then show "preserves db db1" unfolding db1 using change_events_grows by (rule preserves_trans)
qed simp

lemma delete_member_preserves:
  assumes "delete_member c i actor db = (r, db')" and "id_ok db"
  shows "preserves db db'"
  using assms(1) unfolding delete_member_def
proof (rule transactional_keeps)
  fix x db1
  assume "bind_result (guarded_member ''CANNOT_DELETE_SELF'' c i actor db) (\<lambda>m.
      Inr (True, queue_event ''wc_member_removed'' actor c i [(''member_role'', JStr (shown_role (cm_role m)))]
        (delete_member_row c i db))) = Inr (x, db1)"
  then obtain m where g: "guarded_member ''CANNOT_DELETE_SELF'' c i actor db = Inr m"
    and db1: "db1 = queue_event ''wc_member_removed'' actor c i [(''member_role'', JStr (shown_role (cm_role m)))]
      (delete_member_row c i db)" by auto
  have kept: "m' \<in> set (id_members (delete_member_row c i db))"
    if "m' \<in> set (id_members db)" "cm_role m' = ''admin''" for m'
    using that guarded_not_admin [OF g assms(2), of m'] by (auto simp: delete_member_row_def)
  have "id_users (delete_member_row c i db) = id_users db" by (simp add: delete_member_row_def)
  with kept have "preserves db (delete_member_row c i db)" unfolding preserves_def standing_def by auto
  then show "preserves db db1" unfolding db1 using quiet_statements(5) by (rule preserves_trans)
qed simp

lemma marks_preserve [simp]:
  "preserves db (mark_email_verified now u db)" "preserves db (mark_user_logged_in now u db)"
  "preserves db (activate_membership now c u db)" "preserves db (mark_membership_logged_in now c u db)"
  unfolding mark_email_verified_def mark_user_logged_in_def activate_membership_def mark_membership_logged_in_def
  by (rule preserves_users preserves_members; simp add: member_pair_def)+

lemma accept_invite_preserves:
  assumes "accept_company_invite claims now token db = (r, db')"
  shows "preserves db db'"
  using assms
proof (cases rule: accept_invite_cases)
  case (accepted c u m a)
  have "preserves db (if ac_verified u then db else mark_email_verified now (ac_id u) db)" by simp
  then show ?thesis unfolding accepted(6) by (meson marks_preserve preserves_trans)
qed simp

lemma id_step_preserves: "id_step hash claims db db' \<Longrightarrow> id_ok db \<Longrightarrow> preserves db db'"
proof (induction rule: id_step.induct)
  case (invite rand now ids c inviter email name role db r' db')
  then show ?case unfolding create_member_def
    by (auto elim!: transactional_keeps intro: invite_member_grows)
next
  case verify
  then show ?case by (auto dest!: verify_email_cases)
next
  case session
  then show ?case by (auto dest!: resolve_context_cases)
qed (simp_all add: register_preserves update_member_preserves delete_member_preserves accept_invite_preserves)

section \<open>Theorems\<close>

text \<open>Whatever the identity services do, the tables keep their constraints: ids, addresses and the
  pairs of company and user are unique, and every profile, role and membership refers to rows that
  exist and has a value of its enum.\<close>

theorem identity_tables_invariant:
  assumes "(id_step hash claims)\<^sup>*\<^sup>* db db'" and "id_ok db"
  shows "id_ok db'"
  using assms by (induction rule: rtranclp_induct) (auto intro: id_step_ok)

text \<open>C28: a company keeps its administrators: an active administrator whose address is verified stays one,
  through every invitation, change, removal, registration and sign-in, also those of other members.\<close>

theorem administrators_stay:
  assumes "(id_step hash claims)\<^sup>*\<^sup>* db db'" and "id_ok db" and "standing db c u"
  shows "standing db' c u"
proof -
  have "id_ok db' \<and> preserves db db'" using assms(1,2)
  proof (induction rule: rtranclp_induct)
    case (step a b)
    then have "id_ok a" "preserves db a" by simp_all
    with step(2) id_step_ok id_step_preserves show ?case by (meson preserves_trans)
  qed simp
  with assms(3) show ?thesis by (simp add: preserves_def)
qed

text \<open>A small company: the founder and a member.\<close>

definition demo_user :: "ident \<Rightarrow> string \<Rightarrow> bool \<Rightarrow> user_row" where
  "demo_user i email ver =
     \<lparr>us_id = i, us_email = email, us_password = ''h'', us_name = ''N'', us_avatar = JNull, us_verified = ver,
      us_verified_at = None, us_failed = 0, us_locked_until = None, us_last_login = None, us_demo = False,
      us_created = 0, us_updated = 0\<rparr>"

definition demo_member :: "ident \<Rightarrow> ident \<Rightarrow> string \<Rightarrow> member_row" where
  "demo_member i user role =
     \<lparr>cm_id = i, cm_company = ''c'', cm_user = user, cm_role = role, cm_status = ''active'',
      cm_invited_by = Some ''u1'', cm_last_login = None, cm_created = 0, cm_updated = 0\<rparr>"

definition demo_profile :: "ident \<Rightarrow> ident \<Rightarrow> profile_row" where
  "demo_profile i user = \<lparr>pf_id = i, pf_user = user, pf_email = ''e'', pf_name = ''N'', pf_avatar = JNull,
     pf_company = Some ''c''\<rparr>"

definition demo_id_db :: "bool \<Rightarrow> id_db" where
  "demo_id_db ver =
     \<lparr>id_users = demo_user ''u1'' ''a@x'' ver # (if ver then [demo_user ''u2'' ''b@x'' True] else []),
      id_profiles = demo_profile ''p1'' ''u1'' # (if ver then [demo_profile ''p2'' ''u2''] else []),
      id_roles = (''u1'', ''b2b'') # (if ver then [(''u2'', ''b2b'')] else []),
      id_companies = [\<lparr>ci_id = ''c'', ci_name = ''C'', ci_business = ''brand'', ci_domestic = ''VN'', ci_targets = []\<rparr>],
      id_members = demo_member ''m1'' ''u1'' ''admin'' # (if ver then [demo_member ''m2'' ''u2'' ''member''] else []),
      id_rewards = [], id_subs = \<lparr>sb_companies = [], sb_cycles = [], sb_roles = [], sb_sessions = [], sb_events = []\<rparr>\<rparr>"

lemmas demo_defs = demo_id_db_def demo_user_def demo_member_def demo_profile_def

lemma demo_id_ok: "id_ok (demo_id_db ver)"
  by (simp add: demo_defs id_defs company_roles_def member_statuses_def app_roles_def)

theorem identity_tables_invariant_witness: "id_ok (mark_user_logged_in 5 ''u1'' (demo_id_db True))"
proof -
  have "(id_step id (\<lambda>_. JNull))\<^sup>*\<^sup>* (demo_id_db True) (mark_user_logged_in 5 ''u1'' (demo_id_db True))"
    by (rule r_into_rtranclp) (rule id_step.login)
  from identity_tables_invariant [OF this demo_id_ok] show ?thesis .
qed

text \<open>An attempt of the member to remove the founder.\<close>

theorem administrators_stay_witness:
  "standing (snd (delete_member ''c'' ''m1'' ''u2'' (demo_id_db True))) ''c'' ''u1''"
proof -
  let ?r = "delete_member ''c'' ''m1'' ''u2'' (demo_id_db True)"
  have "(id_step id (\<lambda>_. JNull))\<^sup>*\<^sup>* (demo_id_db True) (snd ?r)"
    by (rule r_into_rtranclp) (rule id_step.remove [of _ _ _ _ "fst ?r"], simp)
  moreover have "standing (demo_id_db True) ''c'' ''u1''" by (simp add: standing_def member_pair_def demo_defs)
  ultimately show ?thesis by (rule administrators_stay [OF _ demo_id_ok])
qed

lemma first_member_None [simp]: "first_member ms = None \<longleftrightarrow> ms = []"
  by (cases ms) (auto split: option.splits)

text \<open>C39: registering an address that was never verified a second time deletes the first account but not
  its company: when the founder was its only member, the company stays without any member.\<close>

theorem reregistration_orphans_company:
  assumes "get_user_by_email (sg_email s) db = Some a" and "\<not> ac_verified a"
    and "find_company c db \<noteq> None"
    and "\<And>m. m \<in> set (id_members db) \<Longrightarrow> cm_company m = c \<Longrightarrow> cm_user m = ac_id a"
    and "register hash now ids s db = (Inr r, db')"
  shows "find_company c db' \<noteq> None \<and> (\<forall>m \<in> set (id_members db'). cm_company m \<noteq> c)"
proof -
  let ?create = "create_user hash now ids (sg_email s) (sg_password s) (sg_name s) (sg_role s) (company_data_of s)"
  obtain db1 where del: "delete_user (ac_id a) db = Inr db1" and new: "?create db1 = Inr (r, db')"
    using assms(1,2,5)
    by (auto simp: register_def transactional_def Let_def split: if_splits sum.splits option.splits prod.splits)
  have "c \<in> company_ids db" using assms(3) unfolding company_found .
  then have c: "c \<in> company_ids db1" "\<forall>m \<in> set (id_members db1). cm_company m \<noteq> c"
    using assms(4) by (auto simp: delete_user_rows [OF del] company_ids_def)
  have "c \<in> company_ids db' \<and> (\<forall>m \<in> set (id_members db'). cm_company m \<noteq> c)"
    using new c
    by (auto simp: create_user_def create_company_def insert_user_def insert_profile_def add_role_def
        insert_company_def insert_company_admin_def insert_membership_def initialize_trial_def
        assign_profile_company_def insert_rewards_def company_ids_def
        split: option.splits if_splits prod.splits)
  then show ?thesis unfolding company_found .
qed

definition demo_signup :: signup where
  "demo_signup = \<lparr>sg_email = ''a@x'', sg_password = ''p'', sg_name = ''N'', sg_role = ''b2b'', sg_company = JNull,
     sg_business = JNull, sg_domestic = JNull, sg_targets = JNull\<rparr>"

definition demo_ids :: new_ids where
  "demo_ids = \<lparr>ni_user = ''u9'', ni_profile = ''p9'', ni_company = ''c9'', ni_member = ''m9''\<rparr>"

lemma demo_company_found: "find_company ''c'' (demo_id_db ver) \<noteq> None"
  by (simp add: find_company_def demo_id_db_def)

theorem reregistration_orphans_company_witness:
  "''c'' \<notin> cm_company ` set (id_members (snd (register id 1 demo_ids demo_signup (demo_id_db False))))"
proof -
  let ?u = "demo_user ''u1'' ''a@x'' False"
  have a: "get_user_by_email (sg_email demo_signup) (demo_id_db False) = Some (map_user (demo_id_db False) ?u)"
    by (simp add: get_user_by_email_def demo_signup_def demo_defs)
  obtain r db' where reg: "register id 1 demo_ids demo_signup (demo_id_db False) = (Inr r, db')"
    by (simp add: register_def get_user_by_email_def demo_signup_def demo_ids_def demo_defs map_user_def
        get_primary_membership_def find_company_def delete_user_def unless_violated_def transactional_def
        create_user_def insert_user_def insert_profile_def add_role_def company_data_of_def app_roles_def
        delete_where_def)
  have "\<not> ac_verified (map_user (demo_id_db False) ?u)" by (simp add: map_user_def demo_user_def)
  moreover have "cm_user m = ac_id (map_user (demo_id_db False) ?u)" if "m \<in> set (id_members (demo_id_db False))" for m
    using that by (simp add: demo_defs map_user_def)
  ultimately show ?thesis
    using reregistration_orphans_company [OF a _ demo_company_found _ reg] by (auto simp: reg)
qed

text \<open>Disabling a member takes effect on what the member may do, but not on what a session says: a
  disabled member without another membership, whose profile belongs to the company, is reported at the
  next sign-in as its active administrator and root.\<close>

theorem disabled_member_reported_as_admin:
  assumes "guarded_member ''CANNOT_UPDATE_SELF'' c i actor db = Inr m" and "cm_user m = ac_id a"
    and "ac_company a = Some c" and "find_company c db = Some info"
    and "\<And>m'. m' \<in> set (id_members db) \<Longrightarrow> cm_user m' = ac_id a \<Longrightarrow> cm_id m' = i \<and> cm_company m' = c"
  shows "\<exists>r db'. update_member now c i actor \<lparr>mc_role = [], mc_status = ''disabled''\<rparr> db = (Inr r, db')
    \<and> cm_status r = ''disabled''
    \<and> sc_membership (fst (resolve_context now' a flag db')) = Some \<lparr>mv_company = ci_id info, mv_role = ''admin'',
        mv_status = ''active'', mv_root = True, mv_inferred = True\<rparr>"
proof -
  let ?ch = "\<lparr>mc_role = [], mc_status = ''disabled''\<rparr>"
  let ?rows = "update_where (\<lambda>m. cm_id m = i \<and> cm_company m = c) (change_member now ?ch) (id_members db)"
  let ?db1 = "db\<lparr>id_members := ?rows\<rparr>"
  let ?db2 = "change_events c i actor m ?ch ?db1"
  have row: "update_member_row now c i ?ch db = Inr ?db1"
    by (simp add: update_member_row_def unless_violated_def member_statuses_def)
  then have up: "update_member now c i actor ?ch db = (Inr (change_member now ?ch m), ?db2)"
    by (simp add: update_member_def transactional_def assms(1))
  have tables: "id_members ?db2 = ?rows" "id_companies ?db2 = id_companies db"
    by (simp_all add: change_events_def queue_event_def)
  have "cm_status r = ''disabled''" if "r \<in> set ?rows" "cm_user r = ac_id a" for r
  proof -
    from that(1) obtain r0 where r0: "r0 \<in> set (id_members db)"
      "r = (if cm_id r0 = i \<and> cm_company r0 = c then change_member now ?ch r0 else r0)"
      by (auto simp: in_update_where)
    then have "cm_user r0 = ac_id a" using that(2) by (simp add: change_member_def split: if_splits)
    from assms(5) [OF r0(1) this] r0(2) show ?thesis by (simp add: change_member_def)
  qed
  then have "get_primary_membership (ac_id a) False ?db2 = None"
    by (auto simp: get_primary_membership_def tables filter_empty_conv)
  moreover have "find_company c ?db2 = Some info" using assms(4) by (simp add: find_company_def tables)
  ultimately have "sc_membership (fst (resolve_context now' a flag ?db2)) = Some \<lparr>mv_company = ci_id info,
      mv_role = ''admin'', mv_status = ''active'', mv_root = True, mv_inferred = True\<rparr>"
    using assms(3) by (simp add: resolve_context_def)
  with up show ?thesis by (simp add: change_member_def)
qed

theorem disabled_member_reported_as_admin_witness:
  "\<exists>r db'. update_member 5 ''c'' ''m2'' ''u1'' \<lparr>mc_role = [], mc_status = ''disabled''\<rparr> (demo_id_db True) = (Inr r, db')
    \<and> cm_status r = ''disabled''
    \<and> map_option mv_role (sc_membership (fst (resolve_context 6
         (map_user (demo_id_db True) (demo_user ''u2'' ''b@x'' True)) True db'))) = Some ''admin''"
proof -
  let ?a = "map_user (demo_id_db True) (demo_user ''u2'' ''b@x'' True)"
  have g: "guarded_member ''CANNOT_UPDATE_SELF'' ''c'' ''m2'' ''u1'' (demo_id_db True)
      = Inr (demo_member ''m2'' ''u2'' ''member'')"
    by (simp add: guarded_member_def find_for_mutation_def demo_defs)
  obtain info where info: "find_company ''c'' (demo_id_db True) = Some info" using demo_company_found by blast
  have a: "ac_id ?a = ''u2''" "ac_company ?a = Some ''c''"
    by (simp_all add: map_user_def profile_company_def demo_defs)
  have "cm_id m = ''m2'' \<and> cm_company m = ''c''" if "m \<in> set (id_members (demo_id_db True))" "cm_user m = ac_id ?a" for m
    using that unfolding a by (auto simp: demo_defs)
  moreover have "cm_user (demo_member ''m2'' ''u2'' ''member'') = ac_id ?a" unfolding a by (simp add: demo_member_def)
  ultimately obtain r db' where
    "update_member 5 ''c'' ''m2'' ''u1'' \<lparr>mc_role = [], mc_status = ''disabled''\<rparr> (demo_id_db True) = (Inr r, db')"
    "cm_status r = ''disabled''"
    "sc_membership (fst (resolve_context 6 ?a True db')) = Some \<lparr>mv_company = ci_id info, mv_role = ''admin'',
        mv_status = ''active'', mv_root = True, mv_inferred = True\<rparr>"
    using disabled_member_reported_as_admin [OF g _ a(2) info, of 5 6 True] by blast
  then show ?thesis by (intro exI conjI) (assumption | simp)+
qed

end
