(* ===== verification/Access_Properties.thy ===== *)
theory Access_Properties
  imports Access_Control Identity_Properties Payments
begin

text \<open>
  What the middleware guarantees about a request that passes: whose it is, that the membership behind it
  is active, that a viewer changes nothing, that an expired plan is locked out, and that a disabled
  member loses the company with the next request.
\<close>

lemma enforce_tenant_cases:
  "enforce_tenant_mutation r u = Allowed u \<or> (\<exists>c n. enforce_tenant_mutation r u = Denied c n)"
  by (simp add: enforce_tenant_mutation_def)

lemma enforce_subscription_context:
  assumes "enforce_subscription now r u s = (Allowed u', s')"
  shows "u' = u"
  using assms by (auto simp: enforce_subscription_def split: option.splits if_splits sum.splits prod.splits)

lemma authenticate_allowed:
  assumes "authenticate claims now factors r db = (Allowed u, db')"
  obtains c where "c = claims (get_bearer_token r)" "truthy (get_bearer_token r)" "truthy c" "hydrate_user c db = Some u"
    "cs_enabled (get_challenge_state (to_str (jget c ''sub'')) factors) \<Longrightarrow> jget c ''mfa_verified'' = JBool True"
    "enforce_tenant_mutation r u = Allowed u"
    "enforce_subscription now r u (id_subs db) = (Allowed u, id_subs db')"
proof -
  let ?c = "claims (get_bearer_token r)"
  have t: "truthy (get_bearer_token r)" "truthy ?c"
    using assms by (auto simp: authenticate_def Let_def split: if_splits)
  obtain v where v: "hydrate_user ?c db = Some v"
    using assms t by (cases "hydrate_user ?c db") (simp_all add: authenticate_def Let_def)
  have m: "cs_enabled (get_challenge_state (to_str (jget ?c ''sub'')) factors) \<Longrightarrow> jget ?c ''mfa_verified'' = JBool True"
    using assms t v by (auto simp: authenticate_def Let_def split: if_splits)
  have e: "enforce_tenant_mutation r v = Allowed v"
    using assms t v m enforce_tenant_cases [of r v]
    by (auto simp: authenticate_def Let_def split: if_splits)
  obtain d s where s: "enforce_subscription now r v (id_subs db) = (d, s)"
    by (cases "enforce_subscription now r v (id_subs db)")
  have "d = Allowed u" "db' = db\<lparr>id_subs := s\<rparr>"
    using assms t v m e s by (auto simp: authenticate_def Let_def split: if_splits)
  moreover from this s enforce_subscription_context [of now r v "id_subs db" u s] have "u = v" by simp
  ultimately show thesis using t v m e s by (intro that [of ?c]) simp_all
qed

lemma first_member_in: "first_member ms = Some m \<Longrightarrow> m \<in> set ms"
  by (induction ms arbitrary: m) (auto split: option.splits if_splits)

lemma resolved_company_active:
  assumes "resolve_company_context a d db = Some (c, role, st)"
  shows "\<exists>m \<in> set (id_members db). member_pair m = (c, ac_id a) \<and> cm_role m = role \<and> cm_status m = ''active''"
proof -
  obtain m where m: "find_membership (to_str d) (ac_id a) db = Some m \<or> get_primary_membership (ac_id a) False db = Some m"
    and ctx: "company_context m = Some (c, role, st)"
    using assms by (auto simp: resolve_company_context_def bind_eq_Some_conv split: if_splits)
  from m have "m \<in> set (id_members db) \<and> cm_user m = ac_id a"
    by (auto simp: find_membership_def get_primary_membership_def dest!: select_one_Some first_member_in)
  with ctx show ?thesis by (auto simp: company_context_def member_pair_def split: if_splits)
qed

lemma found_user_id:
  assumes "get_user_by_id i db = Some a"
  shows "ac_id a = i"
  using assms by (auto simp: get_user_by_id_def map_user_def dest!: select_one_Some)

lemma hydrated_company:
  assumes "hydrate_user c db = Some u" and "uc_company u = Some co"
  shows "\<exists>m \<in> set (id_members db). member_pair m = (co, uc_user u) \<and> uc_role u = Some (cm_role m)
    \<and> cm_status m = ''active''"
proof -
  from assms(1) obtain a where a: "get_user_by_id (to_str (jget c ''sub'')) db = Some a"
    and u: "u = user_context_of a (resolve_company_context a (jget c ''company_id'') db)"
    by (auto simp: hydrate_user_def)
  from u assms(2) obtain role st where "resolve_company_context a (jget c ''company_id'') db = Some (co, role, st)"
    by (auto simp: user_context_of_def)
  from resolved_company_active [OF this] this show ?thesis by (auto simp: u user_context_of_def)
qed

lemma found_user_exists: "get_user_by_id i db = Some a \<Longrightarrow> i \<in> user_ids db"
  by (auto simp: get_user_by_id_def user_ids_def dest!: select_one_Some)

lemma hydrated_user:
  assumes "hydrate_user c db = Some u"
  shows "uc_user u = to_str (jget c ''sub'') \<and> uc_user u \<in> user_ids db"
proof -
  obtain a where a: "get_user_by_id (to_str (jget c ''sub'')) db = Some a" and u: "uc_user u = ac_id a"
    using assms by (auto simp: hydrate_user_def user_context_of_def)
  with found_user_id [OF a] found_user_exists [OF a] show ?thesis by simp
qed

lemma granted_membership:
  assumes "authenticate claims now factors r db = (Allowed u, db')" and "uc_company u = Some co"
  shows "\<exists>m \<in> set (id_members db). member_pair m = (co, uc_user u) \<and> cm_status m = ''active''"
  using authenticate_allowed [OF assms(1)] hydrated_company [OF _ assms(2)] by metis

text \<open>C7: a request that passes belongs to an existing user whom the token names; where that user has a
  second factor, the token was issued after it; a company of the request is one the user is an active
  member of, with that role; and a request that changes a resource of the company has a role that may
  write.\<close>

theorem granted_requests:
  assumes "authenticate claims now factors r db = (Allowed u, db')"
  shows "let c = claims (get_bearer_token r) in
    uc_user u = to_str (jget c ''sub'') \<and> uc_user u \<in> user_ids db
    \<and> (cs_enabled (get_challenge_state (uc_user u) factors) \<longrightarrow> jget c ''mfa_verified'' = JBool True)
    \<and> (\<forall>co. uc_company u = Some co \<longrightarrow>
         (\<exists>m \<in> set (id_members db). member_pair m = (co, uc_user u) \<and> cm_status m = ''active''
            \<and> uc_role u = Some (cm_role m)
            \<and> (is_mutation r \<and> has_prefix_of tenant_prefixes r \<longrightarrow> cm_role m \<in> {''admin'', ''member''})))"
  using assms
proof (rule authenticate_allowed)
  fix c
  assume c: "c = claims (get_bearer_token r)" and h: "hydrate_user c db = Some u"
    and m: "cs_enabled (get_challenge_state (to_str (jget c ''sub'')) factors) \<Longrightarrow> jget c ''mfa_verified'' = JBool True"
    and e: "enforce_tenant_mutation r u = Allowed u"
  have may_write: "is_mutation r \<and> has_prefix_of tenant_prefixes r \<longrightarrow> role \<in> {''admin'', ''member''}"
    if "uc_company u = Some co" "uc_role u = Some role" for co role
    using e that
    by (auto simp: enforce_tenant_mutation_def has_company_permission_def role_permissions_def split: if_splits)
  from hydrated_user [OF h] m hydrated_company [OF h] may_write show ?thesis unfolding c [symmetric] Let_def by metis
qed

text \<open>C9: a plan that has run out locks: a request of a business user for its company that changes a
  protected resource does not pass once the trial, or the trial a lapsed standard plan falls back to,
  is over; reports are refused on a trial whatever the method.\<close>

theorem expired_plan_locks_out:
  assumes "authenticate claims now factors r db = (Allowed u, db')" and "uc_company u = Some c"
    and "JStr ''b2b'' \<in> set (uc_roles u)"
    and "select_one (\<lambda>co. co_id co = c) (sb_companies (id_subs db)) = Some co"
    and "select_one (\<lambda>cy. cy_company cy = c) (sb_cycles (id_subs db)) = Some cy"
    and "plan_now now (co_plan co) cy = ''trial''"
  shows "\<not> has_prefix_of trial_restricted_prefixes r
    \<and> (is_mutation r \<and> has_prefix_of plan_lock_prefixes r \<longrightarrow> now < cy_trial_end cy)"
  using assms(1)
proof (rule authenticate_allowed)
  assume s: "enforce_subscription now r u (id_subs db) = (Allowed u, id_subs db')"
  have b2b: "is_b2b_company_request u"
    using assms(2,3) by (simp add: is_b2b_company_request_def has_any_role_def list_ex_iff)
  have snap: "\<exists>s'. get_subscription_snapshot now c (id_subs db) = (Inr (snapshot_of now (co_plan co) cy), s')"
    using assms(4,5) by (simp add: get_subscription_snapshot_def get_company_and_cycle_def)
  have lower: "lower ''trial'' = ''trial''" by (simp add: lower_def char_lower_def is_upper_az_def)
  have plan: "sn_plan (snapshot_of now (co_plan co) cy) = ''trial''"
    "sn_locked (snapshot_of now (co_plan co) cy) = (cy_trial_end cy \<le> now)"
    using assms(6) by (simp_all add: snapshot_of_def)
  from s snap plan lower assms(2) have "\<not> checks_trial r u \<and> (checks_plan_lock r u \<longrightarrow> now < cy_trial_end cy)"
    by (auto simp: enforce_subscription_def split: if_splits)
  with b2b show ?thesis by (auto simp: checks_trial_def checks_plan_lock_def)
qed

text \<open>C29: disabling a member works at once: after the change, no token the member holds or refreshes gives
  a request the company, whatever company the token names.\<close>

theorem disabled_member_loses_access:
  assumes "id_ok db" and "update_member now c i actor ch db = (Inr m, db')" and "mc_status ch = ''disabled''"
    and "authenticate claims now' factors r db' = (Allowed u, db'')" and "uc_user u = cm_user m"
  shows "uc_company u \<noteq> Some c"
proof
  assume "uc_company u = Some c"
  from granted_membership [OF assms(4) this] assms(5)
  obtain m1 where m1: "m1 \<in> set (id_members db')" "member_pair m1 = (c, cm_user m)" "cm_status m1 = ''active''"
    by auto
  obtain m0 db1 where g: "guarded_member ''CANNOT_UPDATE_SELF'' c i actor db = Inr m0" and m: "m = change_member now ch m0"
    and row: "update_member_row now c i ch db = Inr db1" and db': "db' = change_events c i actor m0 ch db1"
    using assms(2,3) by (auto simp: update_member_def transactional_def split: sum.splits if_splits)
  have m0: "m0 \<in> set (id_members db)" "cm_id m0 = i" "cm_company m0 = c"
    using g by (auto simp: guarded_member_def find_for_mutation_def split: option.splits if_splits dest: select_one_Some)
  have rows: "id_members db' = update_where (\<lambda>m. cm_id m = i \<and> cm_company m = c) (change_member now ch) (id_members db)"
    using row by (simp add: db' change_events_def queue_event_def update_member_row_def Let_def)
  from m1(1) obtain m2 where m2: "m2 \<in> set (id_members db)"
    "m1 = (if cm_id m2 = i \<and> cm_company m2 = c then change_member now ch m2 else m2)"
    by (auto simp: rows in_update_where)
  then have "member_pair m2 = member_pair m0" using m1(2) m m0 by (simp add: member_pair_def change_member_def split: if_splits)
  with assms(1) m2(1) m0(1) have "m2 = m0" by (auto simp: id_ok_def keys_ok_def dest: unique_key)
  with m2 m0 assms(3) m1(3) show False by (simp add: change_member_def)
qed

section \<open>Witnesses\<close>

definition demo_claims :: "jsval \<Rightarrow> jsval" where
  "demo_claims t = JObj [(''sub'', JStr ''u2''), (''company_id'', JStr ''c'')]"

definition demo_request :: http_request where
  "demo_request = \<lparr>hr_method = ''GET'', hr_url = ''/api/products'', hr_authorization = JStr ''Bearer t'',
     hr_query_token = JUndef\<rparr>"

definition no_factors :: mfa_db where
  "no_factors = \<lparr>mfa_passwords = [], mfa_factors = [], mfa_used = []\<rparr>"

definition demo_plan_db :: id_db where
  "demo_plan_db = (demo_id_db True)\<lparr>id_subs := \<lparr>sb_companies = [\<lparr>co_id = ''c'', co_plan = ''trial'', co_created = 0\<rparr>],
     sb_cycles = [\<lparr>cy_company = ''c'', cy_trial_start = 0, cy_trial_end = 9, cy_std_start = None, cy_std_end = None,
       cy_sku = 0\<rparr>], sb_roles = [], sb_sessions = [], sb_events = []\<rparr>\<rparr>"

definition demo_context :: user_context where
  "demo_context = \<lparr>uc_user = ''u2'', uc_roles = [JStr ''b2b''], uc_company = Some ''c'', uc_role = Some ''member'',
     uc_status = Some ''active''\<rparr>"

lemma demo_bearer: "get_bearer_token demo_request = JStr ''t''"
  by (simp add: get_bearer_token_def demo_request_def)

lemma demo_reads: "\<not> is_mutation demo_request"
  by (simp add: is_mutation_def demo_request_def mutation_methods_def)

lemma demo_roles: "normalize_roles (roles_column (roles_of ''u2'' demo_plan_db)) = [JStr ''b2b'']"
  by (simp add: roles_of_def app_roles_def demo_plan_db_def demo_defs roles_column_def normalize_roles_def)

lemma demo_account: "get_user_by_id ''u2'' demo_plan_db = Some (map_user demo_plan_db (demo_user ''u2'' ''b@x'' True))"
  by (simp add: get_user_by_id_def demo_plan_db_def demo_defs)

lemma demo_hydrated: "hydrate_user (demo_claims t) demo_plan_db = Some demo_context"
proof -
  let ?a = "map_user demo_plan_db (demo_user ''u2'' ''b@x'' True)"
  have a: "ac_id ?a = ''u2''" "ac_roles ?a = [JStr ''b2b'']" by (simp_all add: map_user_def demo_user_def demo_roles)
  have "find_membership ''c'' ''u2'' demo_plan_db = Some (demo_member ''m2'' ''u2'' ''member'')"
    by (simp add: find_membership_def demo_plan_db_def demo_defs)
  then have "resolve_company_context ?a (JStr ''c'') demo_plan_db = Some (''c'', ''member'', ''active'')"
    by (simp add: resolve_company_context_def a has_any_role_def company_context_def demo_member_def)
  with demo_account a show ?thesis
    by (simp add: hydrate_user_def demo_claims_def own_def user_context_of_def demo_context_def)
qed

lemma demo_allowed: "authenticate demo_claims 5 no_factors demo_request demo_plan_db = (Allowed demo_context, demo_plan_db)"
proof -
  have "enforce_tenant_mutation demo_request demo_context = Allowed demo_context"
    by (simp add: enforce_tenant_mutation_def is_mutation_def demo_request_def mutation_methods_def)
  moreover have "enforce_subscription 5 demo_request demo_context s = (Allowed demo_context, s)" for s
    by (simp add: enforce_subscription_def checks_plan_lock_def checks_trial_def is_mutation_def demo_request_def
        mutation_methods_def has_prefix_of_def trial_restricted_prefixes_def request_path_def lower_def
        char_lower_def is_upper_az_def demo_context_def)
  moreover have "\<not> cs_enabled (get_challenge_state i no_factors)" for i
    by (simp add: get_challenge_state_def no_factors_def active_factor_def latest_factor_def Let_def)
  moreover have "truthy (demo_claims t)" for t by (simp add: demo_claims_def)
  ultimately show ?thesis by (simp add: authenticate_def demo_bearer demo_hydrated Let_def)
qed

theorem granted_requests_witness:
  "\<exists>m \<in> set (id_members demo_plan_db). member_pair m = (''c'', ''u2'') \<and> cm_status m = ''active''"
proof -
  have "uc_company demo_context = Some ''c''" "uc_user demo_context = ''u2''" by (simp_all add: demo_context_def)
  with granted_requests [OF demo_allowed, unfolded Let_def, THEN conjunct2, THEN conjunct2, THEN conjunct2]
  show ?thesis by auto
qed

theorem expired_plan_locks_out_witness: "\<not> has_prefix_of trial_restricted_prefixes demo_request"
proof -
  let ?cy = "\<lparr>cy_company = ''c'', cy_trial_start = 0, cy_trial_end = 9, cy_std_start = None, cy_std_end = None,
    cy_sku = 0\<rparr>"
  have c: "uc_company demo_context = Some ''c''" "JStr ''b2b'' \<in> set (uc_roles demo_context)"
    by (simp_all add: demo_context_def)
  have rows: "select_one (\<lambda>co. co_id co = ''c'') (sb_companies (id_subs demo_plan_db))
      = Some \<lparr>co_id = ''c'', co_plan = ''trial'', co_created = 0\<rparr>"
    "select_one (\<lambda>cy. cy_company cy = ''c'') (sb_cycles (id_subs demo_plan_db)) = Some ?cy"
    by (simp_all add: demo_plan_db_def)
  have "plan_now 5 (co_plan \<lparr>co_id = ''c'', co_plan = ''trial'', co_created = 0\<rparr>) ?cy = ''trial''"
    by (simp add: plan_now_def)
  from expired_plan_locks_out [OF demo_allowed c rows this] show ?thesis by simp
qed

theorem disabled_member_loses_access_witness:
  "\<exists>m db'. update_member 5 ''c'' ''m2'' ''u1'' \<lparr>mc_role = [], mc_status = ''disabled''\<rparr> (demo_id_db True) = (Inr m, db')
    \<and> (\<exists>u db''. authenticate demo_claims 6 no_factors demo_request db' = (Allowed u, db'') \<and> uc_company u \<noteq> Some ''c'')"
proof -
  let ?ch = "\<lparr>mc_role = [], mc_status = ''disabled''\<rparr>"
  let ?m = "change_member 5 ?ch (demo_member ''m2'' ''u2'' ''member'')"
  let ?db' = "snd (update_member 5 ''c'' ''m2'' ''u1'' ?ch (demo_id_db True))"
  have up: "update_member 5 ''c'' ''m2'' ''u1'' ?ch (demo_id_db True) = (Inr ?m, ?db')"
    by (simp add: update_member_def transactional_def guarded_member_def find_for_mutation_def update_member_row_def
        unless_violated_def member_statuses_def demo_defs)
  have rows: "id_users ?db' = id_users (demo_id_db True)" "id_roles ?db' = id_roles (demo_id_db True)"
    "id_members ?db' = [demo_member ''m1'' ''u1'' ''admin'', ?m]"
    by (simp_all add: update_member_def transactional_def guarded_member_def find_for_mutation_def update_member_row_def
        unless_violated_def member_statuses_def change_events_def queue_event_def demo_defs change_member_def)
  have roles: "normalize_roles (roles_column (roles_of ''u2'' ?db')) = [JStr ''b2b'']"
    by (simp add: roles_of_def app_roles_def rows) (simp add: demo_defs roles_column_def normalize_roles_def)
  have user: "get_user_by_id ''u2'' ?db' = Some (map_user ?db' (demo_user ''u2'' ''b@x'' True))"
    by (simp add: get_user_by_id_def rows) (simp add: demo_defs)
  have "find_membership ''c'' ''u2'' ?db' = Some ?m"
    by (simp add: find_membership_def rows) (simp add: demo_member_def change_member_def)
  then have "hydrate_user (demo_claims t) ?db' = Some (demo_context\<lparr>uc_company := None, uc_role := None, uc_status := None\<rparr>)" for t
    using user roles
    by (simp add: hydrate_user_def demo_claims_def own_def user_context_of_def demo_context_def map_user_def
        resolve_company_context_def has_any_role_def company_context_def change_member_def demo_user_def)
  then have allowed: "authenticate demo_claims 6 no_factors demo_request ?db'
      = (Allowed (demo_context\<lparr>uc_company := None, uc_role := None, uc_status := None\<rparr>), ?db')"
    by (simp add: authenticate_def demo_bearer demo_claims_def enforce_tenant_mutation_def enforce_subscription_def
        demo_reads get_challenge_state_def no_factors_def active_factor_def latest_factor_def Let_def)
  have "uc_user (demo_context\<lparr>uc_company := None, uc_role := None, uc_status := None\<rparr>) = cm_user ?m"
    by (simp add: demo_context_def change_member_def demo_member_def)
  from disabled_member_loses_access [OF demo_id_ok up _ allowed this]
  have "uc_company (demo_context\<lparr>uc_company := None, uc_role := None, uc_status := None\<rparr>) \<noteq> Some ''c''" by simp
  with allowed up show ?thesis by (intro exI conjI)
qed

end
