(* ===== verification/Sign_In_Properties.thy ===== *)
theory Sign_In_Properties
  imports Sign_In Access_Properties
begin

text \<open>
  Sign-in and the life of tokens. A run interleaves sign-ins, refreshes, sign-outs, changes of factors
  and of accounts; it keeps the tokens that were issued, each with its user and whether it carries the
  second factor, and the users who answered a challenge. The theorem is end to end: a request of a user
  with a second factor passes the middleware only if that user answered a challenge.
\<close>

section \<open>One sign-in\<close>

definition answers_challenge :: "auth_lib \<Rightarrow> millis \<Rightarrow> ident \<Rightarrow> jsval \<Rightarrow> mfa_db \<Rightarrow> bool" where
  "answers_challenge lib now user typed m =
     (\<exists>m'. verify_challenge (al_mfa lib) now user typed m = Inr (True, m'))"

lemma open_session_cases:
  assumes "open_account_session lib now ids a remember verified md db = (Inr x, db')"
  obtains sc i rows e where "resolve_context now a True (au_id db) = (sc, i)"
    "store_session (al_hash lib) (al_expiry lib) now (fi_session ids)
       (al_sign_refresh lib (refresh_claims (ac_id a) (fi_jti ids) remember verified)) (ac_id a) md (au_tokens db)
     = Inr (e, rows)"
    "x = Authenticated (auth_data_of a sc (al_sign_access lib (access_claims a (sc_token_company sc) verified)))
       (Some (al_sign_refresh lib (refresh_claims (ac_id a) (fi_jti ids) remember verified))) remember"
    "db' = db\<lparr>au_id := mark_user_logged_in now (ac_id a) i, au_tokens := rows\<rparr>"
  using assms by (auto simp: open_account_session_def Let_def split: prod.splits sum.splits)

lemma sign_in_cases:
  assumes "sign_in lib now ids email password typed remember md db = (Inr (Authenticated d t rem), db')"
  obtains a m verified where "get_user_by_email email (au_id db) = Some a"
    "ac_password a \<noteq> []" "al_password_ok lib password (ac_password a)" "ac_verified a \<or> ac_demo a"
    "verified = cs_enabled (get_challenge_state (ac_id a) (au_mfa db))"
    "verified \<Longrightarrow> verify_challenge (al_mfa lib) now (ac_id a) typed (au_mfa db) = Inr (True, m)"
    "\<not> verified \<Longrightarrow> m = au_mfa db"
    "open_account_session lib now ids a remember verified md (db\<lparr>au_mfa := m\<rparr>) = (Inr (Authenticated d t rem), db')"
proof -
  obtain a where a: "get_user_by_email email (au_id db) = Some a"
    using assms by (cases "get_user_by_email email (au_id db)") (simp_all add: sign_in_def)
  have p: "ac_password a \<noteq> []" "al_password_ok lib password (ac_password a)" "ac_verified a \<or> ac_demo a"
    using assms a by (auto simp: sign_in_def Let_def split: if_splits)
  show thesis
  proof (cases "cs_enabled (get_challenge_state (ac_id a) (au_mfa db))")
    case True
    with assms a p obtain m where m: "verify_challenge (al_mfa lib) now (ac_id a) typed (au_mfa db) = Inr (True, m)"
      "open_account_session lib now ids a remember True md (db\<lparr>au_mfa := m\<rparr>) = (Inr (Authenticated d t rem), db')"
      by (auto simp: sign_in_def Let_def split: if_splits sum.splits prod.splits)
    with a p True show thesis by (intro that [of a True m]) simp_all
  next
    case False
    with assms a p have "open_account_session lib now ids a remember False md db = (Inr (Authenticated d t rem), db')"
      by (auto simp: sign_in_def Let_def split: if_splits)
    with a p False show thesis by (intro that [of a False "au_mfa db"]) simp_all
  qed
qed

text \<open>C8: a sign-in that succeeds had the account's password, a verified address (or a demo account) and,
  where the account has a second factor, an answer the challenge accepted; the tokens it issues carry
  exactly that, and the refresh token is stored for the account.\<close>

theorem sign_in_checks:
  assumes "sign_in lib now ids email password typed remember md db = (Inr (Authenticated d t rem), db')"
  shows "\<exists>a verified token. get_user_by_email email (au_id db) = Some a \<and> ad_user d = a
    \<and> ac_password a \<noteq> [] \<and> al_password_ok lib password (ac_password a) \<and> (ac_verified a \<or> ac_demo a)
    \<and> verified = cs_enabled (get_challenge_state (ac_id a) (au_mfa db))
    \<and> (verified \<longrightarrow> answers_challenge lib now (ac_id a) typed (au_mfa db))
    \<and> token = al_sign_refresh lib (refresh_claims (ac_id a) (fi_jti ids) remember verified) \<and> t = Some token
    \<and> (\<exists>company. ad_access d = al_sign_access lib (access_claims a company verified))
    \<and> (\<exists>r \<in> set (au_tokens db'). rt_hash r = al_hash lib token \<and> rt_user r = ac_id a \<and> \<not> rt_revoked r)"
  using assms
proof (rule sign_in_cases)
  fix a m verified
  assume a: "get_user_by_email email (au_id db) = Some a" "ac_password a \<noteq> []"
    "al_password_ok lib password (ac_password a)" "ac_verified a \<or> ac_demo a"
    and v: "verified = cs_enabled (get_challenge_state (ac_id a) (au_mfa db))"
    and c: "verified \<Longrightarrow> verify_challenge (al_mfa lib) now (ac_id a) typed (au_mfa db) = Inr (True, m)"
    and o: "open_account_session lib now ids a remember verified md (db\<lparr>au_mfa := m\<rparr>) = (Inr (Authenticated d t rem), db')"
  let ?token = "al_sign_refresh lib (refresh_claims (ac_id a) (fi_jti ids) remember verified)"
  from o obtain sc rows e where s: "store_session (al_hash lib) (al_expiry lib) now (fi_session ids) ?token (ac_id a) md
      (au_tokens db) = Inr (e, rows)" and t: "t = Some ?token"
    and d: "d = auth_data_of a sc (al_sign_access lib (access_claims a (sc_token_company sc) verified))"
    and db': "au_tokens db' = rows"
    by (rule open_session_cases) auto
  have "\<exists>r \<in> set rows. rt_hash r = al_hash lib ?token \<and> rt_user r = ac_id a \<and> \<not> rt_revoked r"
    using s by (auto simp: store_session_def insert_token_def split: option.splits if_splits)
  moreover have "verified \<longrightarrow> answers_challenge lib now (ac_id a) typed (au_mfa db)"
    using c by (auto simp: answers_challenge_def)
  ultimately show ?thesis using a v t by (auto simp: d db' auth_data_of_def)
qed

section \<open>Runs\<close>

type_synonym issued = "(ident \<times> bool \<times> string) list"

record auth_world =
  aw_now :: millis
  aw_db :: auth_db
  aw_refresh :: issued
  aw_access :: issued
  aw_passed :: "ident list"

definition note_passed :: "bool \<Rightarrow> ident \<Rightarrow> ident list \<Rightarrow> ident list" where
  "note_passed passed user users = (if passed then user # users else users)"

definition add_issued :: "ident \<Rightarrow> bool \<Rightarrow> string option \<Rightarrow> issued \<Rightarrow> issued" where
  "add_issued user verified t ts = (case t of None \<Rightarrow> ts | Some token \<Rightarrow> (user, verified, token) # ts)"

text \<open>A token a client presents is one that was issued, or is rejected: signatures cannot be forged.\<close>

definition unforged :: "(string \<Rightarrow> jsval) \<Rightarrow> issued \<Rightarrow> string \<Rightarrow> bool" where
  "unforged claims ts t = (truthy (claims t) \<longrightarrow> (\<exists>user verified. (user, verified, t) \<in> set ts))"

inductive auth_step :: "auth_lib \<Rightarrow> auth_world \<Rightarrow> auth_world \<Rightarrow> bool" for lib where
  signed_in: "sign_in lib (aw_now w) ids email password typed remember md (aw_db w)
      = (Inr (Authenticated d t rem), db') \<Longrightarrow> user = ac_id (ad_user d) \<Longrightarrow>
    verified = cs_enabled (get_challenge_state user (au_mfa (aw_db w))) \<Longrightarrow>
    auth_step lib w (w\<lparr>aw_db := db', aw_refresh := add_issued user verified t (aw_refresh w),
      aw_access := add_issued user verified (Some (ad_access d)) (aw_access w),
      aw_passed := note_passed (answers_challenge lib (aw_now w) user typed (au_mfa (aw_db w))) user (aw_passed w)\<rparr>)"
| refreshed: "unforged (al_refresh_claims lib (aw_now w)) (aw_refresh w) token \<Longrightarrow>
    issue_refresh_session lib (aw_now w) ids token rotating login md (aw_db w)
      = (Inr (Authenticated d t rem), db') \<Longrightarrow> user = ac_id (ad_user d) \<Longrightarrow>
    verified = (jget (al_refresh_claims lib (aw_now w) token) ''mfa_verified'' = JBool True) \<Longrightarrow>
    auth_step lib w (w\<lparr>aw_db := db', aw_refresh := add_issued user verified t (aw_refresh w),
      aw_access := add_issued user verified (Some (ad_access d)) (aw_access w)\<rparr>)"
| sign_in_refused: "sign_in lib (aw_now w) ids email password typed remember md (aw_db w) = (r, db') \<Longrightarrow>
    (\<And>d t rem. r \<noteq> Inr (Authenticated d t rem)) \<Longrightarrow> auth_step lib w (w\<lparr>aw_db := db'\<rparr>)"
| resumed: "issue_access_session lib (aw_now w) token login (aw_db w) = (r, db') \<Longrightarrow>
    auth_step lib w (w\<lparr>aw_db := db'\<rparr>)"
| refused: "issue_refresh_session lib (aw_now w) ids token rotating login md (aw_db w) = (r, db') \<Longrightarrow>
    (\<And>d t rem. r \<noteq> Inr (Authenticated d t rem)) \<Longrightarrow> auth_step lib w (w\<lparr>aw_db := db'\<rparr>)"
| signed_out: "auth_step lib w
    (w\<lparr>aw_db := snd (sign_out lib (aw_now w) everywhere (JStr token) access (aw_db w))\<rparr>)"
| factors: "mfa_step (al_mfa lib) (au_mfa (aw_db w)) m \<Longrightarrow>
    auth_step lib w (w\<lparr>aw_db := (aw_db w)\<lparr>au_mfa := m\<rparr>\<rparr>)"
| accounts: "id_step h c (au_id (aw_db w)) i \<Longrightarrow> auth_step lib w (w\<lparr>aw_db := (aw_db w)\<lparr>au_id := i\<rparr>\<rparr>)"
| pass: "0 \<le> d \<Longrightarrow> auth_step lib w (w\<lparr>aw_now := aw_now w + d\<rparr>)"

text \<open>What is relied on of the JWT library: the claims of a token are those that were signed.\<close>

definition jwt_ok :: "auth_lib \<Rightarrow> bool" where
  "jwt_ok lib = (\<forall>now c k. k \<in> {''sub'', ''type'', ''mfa_verified'', ''remember_me'', ''company_id''} \<longrightarrow>
     (truthy (al_refresh_claims lib now (al_sign_refresh lib c)) \<longrightarrow>
        jget (al_refresh_claims lib now (al_sign_refresh lib c)) k = jget c k)
     \<and> (truthy (al_access_claims lib now (al_sign_access lib c)) \<longrightarrow>
        jget (al_access_claims lib now (al_sign_access lib c)) k = jget c k))"

definition refresh_issued :: "auth_lib \<Rightarrow> ident \<Rightarrow> bool \<Rightarrow> string \<Rightarrow> bool" where
  "refresh_issued lib user verified t = (\<exists>jti remember. t = al_sign_refresh lib (refresh_claims user jti remember verified))"

definition access_issued :: "auth_lib \<Rightarrow> ident \<Rightarrow> bool \<Rightarrow> string \<Rightarrow> bool" where
  "access_issued lib user verified t =
     (\<exists>a company. ac_id a = user \<and> t = al_sign_access lib (access_claims a company verified))"

definition owners :: "refresh_row list \<Rightarrow> (string \<times> ident) list" where
  "owners rows = map (\<lambda>r. (rt_hash r, rt_user r)) rows"

definition sole_owner :: "(string \<times> ident) list \<Rightarrow> string \<Rightarrow> ident \<Rightarrow> bool" where
  "sole_owner os h u = ((h, u) \<in> set os \<and> (\<forall>u'. (h, u') \<in> set os \<longrightarrow> u' = u))"

lemma sole_owner_append:
  assumes "sole_owner os h u" and "fst ` set new \<inter> fst ` set os = {}"
  shows "sole_owner (os @ new) h u"
proof -
  have "fst (h, u) \<in> fst ` set os" using assms(1) unfolding sole_owner_def by (blast intro: imageI)
  then have "(h, u') \<notin> set new" for u' using assms(2) imageI [of "(h, u')" "set new" fst] by auto
  with assms(1) show ?thesis by (simp add: sole_owner_def)
qed

lemma sole_owner_new:
  assumes "h \<notin> fst ` set os"
  shows "sole_owner (os @ [(h, u)]) h u"
proof -
  have "(h, u') \<notin> set os" for u' using assms imageI [of "(h, u')" "set os" fst] by auto
  then show ?thesis by (simp add: sole_owner_def)
qed

definition refresh_ok :: "auth_lib \<Rightarrow> auth_world \<Rightarrow> ident \<times> bool \<times> string \<Rightarrow> bool" where
  "refresh_ok lib w = (\<lambda>(u, v, t). refresh_issued lib u v t \<and> (v \<longrightarrow> u \<in> set (aw_passed w))
     \<and> sole_owner (owners (au_tokens (aw_db w))) (al_hash lib t) u)"

definition access_ok :: "auth_lib \<Rightarrow> auth_world \<Rightarrow> ident \<times> bool \<times> string \<Rightarrow> bool" where
  "access_ok lib w = (\<lambda>(u, v, t). access_issued lib u v t \<and> (v \<longrightarrow> u \<in> set (aw_passed w)))"

definition world_ok :: "auth_lib \<Rightarrow> auth_world \<Rightarrow> bool" where
  "world_ok lib w =
     (Ball (set (aw_refresh w)) (refresh_ok lib w) \<and> Ball (set (aw_access w)) (access_ok lib w))"

lemma owners_update: "(\<And>r. rt_hash (f r) = rt_hash r \<and> rt_user (f r) = rt_user r) \<Longrightarrow>
    owners (update_where p f rows) = owners rows"
  by (simp add: owners_def map_update_where)

lemma owners_revoke [simp]:
  "owners (snd (revoke_by_hash now h rows)) = owners rows" "owners (revoke_by_id now i rows) = owners rows"
  "owners (snd (revoke_all_for_user now u rows)) = owners rows" "owners (snd (revoke_session hash now t rows)) = owners rows"
  by (simp_all add: revoke_by_hash_def revoke_by_id_def revoke_all_for_user_def revoke_session_def owners_update revoked_def)

lemma owners_insert:
  assumes "insert_token now i user h e md rows = Inr rows'"
  shows "owners rows' = owners rows @ [(h, user)] \<and> h \<notin> fst ` set (owners rows)"
  using assms by (auto simp: insert_token_def owners_def image_iff split: if_splits)

lemma owners_store:
  assumes "store_session hash expiry now i token user md rows = Inr (e, rows')"
  shows "owners rows' = owners rows @ [(hash token, user)] \<and> hash token \<notin> fst ` set (owners rows)"
  using assms by (auto simp: store_session_def split: option.splits dest!: owners_insert)

lemma owners_rotate:
  assumes "rotate_session hash expiry now grace i token nxt md rows = Inr (Some (u, e), rows')"
  shows "(hash token, u) \<in> set (owners rows) \<and> owners rows' = owners rows @ [(hash nxt, u)]
    \<and> hash nxt \<notin> fst ` set (owners rows)"
proof -
  obtain r where r: "find_rotatable_by_hash now grace (hash token) rows = Some r"
    using assms by (auto simp: rotate_session_def rotate_with_def split: option.splits)
  define s1 where "s1 = (if rt_revoked r then rows else revoke_by_id now (rt_id r) rows)"
  from assms r have ins: "insert_token now i (rt_user r) (hash nxt) e md s1 = Inr rows'" and u: "u = rt_user r"
    by (auto simp: rotate_session_def rotate_with_def s1_def Let_def split: option.splits)
  have "owners s1 = owners rows" by (simp add: s1_def)
  moreover have "rt_hash r = hash token" "r \<in> set rows"
    using select_one_Some [OF r [unfolded find_rotatable_by_hash_def]] by auto
  then have "(hash token, rt_user r) \<in> set (owners rows)" by (force simp: owners_def)
  ultimately show ?thesis using owners_insert [OF ins] u by simp
qed

lemma rotate_unknown:
  assumes "rotate_session hash expiry now grace i token nxt md rows = Inr (None, rows')"
  shows "rows' = rows"
  using assms by (auto simp: rotate_session_def rotate_with_def Let_def split: option.splits)

text \<open>What exchanging a refresh token adds to the rows: the new token for the owner of the old one.\<close>

lemma session_user_owners:
  assumes "session_user lib now ids rotating token nxt md rows = Inr (res, rows')"
  obtains new where "owners rows' = owners rows @ new" "fst ` set new \<inter> fst ` set (owners rows) = {}"
    "\<And>u. res = Some u \<Longrightarrow> (al_hash lib token, u) \<in> set (owners rows)
       \<and> new = (if rotating then [(al_hash lib nxt, u)] else [])"
proof (cases rotating)
  case True
  with assms obtain q where q: "rotate_session (al_hash lib) (al_expiry lib) now (al_grace lib) (fi_session ids)
      token nxt md rows = Inr (q, rows')" and res: "res = map_option fst q"
    by (auto simp: session_user_def)
  show thesis
  proof (cases q)
    case None
    with q res show thesis by (intro that [of "[]"]) (auto dest: rotate_unknown)
  next
    case (Some p)
    then obtain u e where "q = Some (u, e)" by (cases p) simp
    with q have o: "rotate_session (al_hash lib) (al_expiry lib) now (al_grace lib) (fi_session ids)
      token nxt md rows = Inr (Some (u, e), rows')" and u: "res = Some u" using res by simp_all
    show thesis using owners_rotate [OF o] True u by (intro that [of "[(al_hash lib nxt, u)]"]) auto
  qed
next
  case False
  with assms have rows: "rows' = rows" and res: "res = map_option rt_user (session_active (al_hash lib) now token rows)"
    by (auto simp: session_user_def)
  have "(al_hash lib token, u) \<in> set (owners rows)" if "res = Some u" for u
    using that by (force simp: res session_active_def find_active_by_hash_def owners_def dest: select_one_Some)
  with False rows show thesis by (intro that [of "[]"]) simp_all
qed

lemma refresh_cases:
  assumes "issue_refresh_session lib now ids token rotating login md db = (Inr (Authenticated d t rem), db')"
  obtains user rows a sc i verified where "truthy (al_refresh_claims lib now token)"
    "verified = (jget (al_refresh_claims lib now token) ''mfa_verified'' = JBool True)"
    "session_user lib now ids rotating token (al_sign_refresh lib (refresh_claims
       (to_str (jget (al_refresh_claims lib now token) ''sub'')) (fi_jti ids) rem verified)) md (au_tokens db)
     = Inr (Some user, rows)"
    "get_user_by_id (if user = [] then to_str (jget (al_refresh_claims lib now token) ''sub'') else user) (au_id db)
     = Some a"
    "d = auth_data_of a sc (al_sign_access lib (access_claims a (sc_token_company sc) verified))"
    "t = (if rotating then Some (al_sign_refresh lib (refresh_claims
       (to_str (jget (al_refresh_claims lib now token) ''sub'')) (fi_jti ids) rem verified)) else None)"
    "au_tokens db' = rows"
proof -
  let ?d = "al_refresh_claims lib now token"
  let ?sub = "to_str (jget ?d ''sub'')"
  let ?verified = "jget ?d ''mfa_verified'' = JBool True"
  let ?nxt = "al_sign_refresh lib (refresh_claims ?sub (fi_jti ids) (jget ?d ''remember_me'' \<noteq> JBool False) ?verified)"
  let ?s = "session_user lib now ids rotating token ?nxt md (au_tokens db)"
  have d: "truthy ?d" using assms by (auto simp: issue_refresh_session_def Let_def split: if_splits)
  from assms have s: "(case ?s of Inl e \<Rightarrow> (Inl e, db)
      | Inr (None, rows) \<Rightarrow> (Inr (Expired ''SESSION_EXPIRED'' rotating), db\<lparr>au_tokens := rows\<rparr>)
      | Inr (Some user, rows) \<Rightarrow>
          (case get_user_by_id (if user = [] then ?sub else user) (au_id db) of
             None \<Rightarrow> (Inr (Expired ''SESSION_USER_NOT_FOUND'' True), db\<lparr>au_tokens := rows\<rparr>)
           | Some a \<Rightarrow>
               (let (sc, i) = resolve_context now a login (au_id db);
                    access = al_sign_access lib (access_claims a (sc_token_company sc) ?verified)
                in (Inr (Authenticated (auth_data_of a sc access) (if rotating then Some ?nxt else None)
                     (jget ?d ''remember_me'' \<noteq> JBool False)), db\<lparr>au_id := i, au_tokens := rows\<rparr>))))
      = (Inr (Authenticated d t rem), db')"
    unfolding issue_refresh_session_def Let_def by (simp only: split: if_splits) simp_all
  obtain user rows where su: "?s = Inr (Some user, rows)"
    using s by (cases ?s) (auto split: option.splits)
  obtain a where a: "get_user_by_id (if user = [] then ?sub else user) (au_id db) = Some a"
    using s su by (cases "get_user_by_id (if user = [] then ?sub else user) (au_id db)") simp_all
  obtain sc i where sc: "resolve_context now a login (au_id db) = (sc, i)"
    by (cases "resolve_context now a login (au_id db)")
  from s su a sc have out: "d = auth_data_of a sc (al_sign_access lib (access_claims a (sc_token_company sc) ?verified))"
    "t = (if rotating then Some ?nxt else None)" "rem = (jget ?d ''remember_me'' \<noteq> JBool False)" "au_tokens db' = rows"
    by (auto simp: Let_def)
  show thesis by (rule that [of ?verified user rows a sc]) (use d su a out in simp_all)
qed

text \<open>Rows only gain owners.\<close>

definition extends :: "refresh_row list \<Rightarrow> refresh_row list \<Rightarrow> bool" where
  "extends rows rows' = (\<exists>new. owners rows' = owners rows @ new \<and> fst ` set new \<inter> fst ` set (owners rows) = {})"

lemma extends_same [simp]: "owners rows' = owners rows \<Longrightarrow> extends rows rows'"
  by (simp add: extends_def)

lemma refused_refresh_extends:
  assumes "issue_refresh_session lib now ids token rotating login md db = (r, db')"
  shows "extends (au_tokens db) (au_tokens db')"
proof -
  let ?d = "al_refresh_claims lib now token"
  let ?nxt = "al_sign_refresh lib (refresh_claims (to_str (jget ?d ''sub'')) (fi_jti ids)
    (jget ?d ''remember_me'' \<noteq> JBool False) (jget ?d ''mfa_verified'' = JBool True))"
  have "owners (au_tokens db') = owners (au_tokens db)
    \<or> (\<exists>res. session_user lib now ids rotating token ?nxt md (au_tokens db) = Inr (res, au_tokens db'))"
    using assms unfolding issue_refresh_session_def Let_def
    by (auto split: if_splits sum.splits prod.splits option.splits)
  then show ?thesis
  proof
    assume "\<exists>res. session_user lib now ids rotating token ?nxt md (au_tokens db) = Inr (res, au_tokens db')"
    then obtain res where "session_user lib now ids rotating token ?nxt md (au_tokens db) = Inr (res, au_tokens db')" ..
    then show ?thesis by (rule session_user_owners) (auto simp: extends_def)
  qed simp
qed

lemma refused_sign_in_tokens:
  assumes "sign_in lib now ids email password typed remember md db = (r, db')"
    and "\<And>d t rem. r \<noteq> Inr (Authenticated d t rem)"
  shows "au_tokens db' = au_tokens db"
proof -
  have o: "au_tokens db2 = au_tokens db1"
    if "open_account_session lib now ids a remember v md db1 = (r, db2)" for a v db1 db2
    using that assms(2) by (auto simp: open_account_session_def Let_def split: prod.splits sum.splits)
  show ?thesis using assms(1) o unfolding sign_in_def Let_def
    by (fastforce split: option.splits if_splits sum.splits prod.splits)
qed

lemma world_ok_db:
  assumes "world_ok lib w" and "extends (au_tokens (aw_db w)) (au_tokens db')"
  shows "world_ok lib (w\<lparr>aw_db := db'\<rparr>)"
proof -
  obtain new where "owners (au_tokens db') = owners (au_tokens (aw_db w)) @ new"
    "fst ` set new \<inter> fst ` set (owners (au_tokens (aw_db w))) = {}"
    using assms(2) by (auto simp: extends_def)
  with assms(1) show ?thesis
    by (auto simp: world_ok_def refresh_ok_def access_ok_def intro: sole_owner_append)
qed

text \<open>Issuing tokens to a user: the flag needs an answered challenge, the refresh token a new row.\<close>

lemma world_ok_issue:
  assumes "world_ok lib w" and "set (aw_passed w) \<subseteq> set passed" and "v \<Longrightarrow> u \<in> set passed"
    and "access_issued lib u v access"
    and "extends (au_tokens (aw_db w)) (au_tokens db')"
    and "\<And>token. t = Some token \<Longrightarrow> refresh_issued lib u v token
      \<and> sole_owner (owners (au_tokens db')) (al_hash lib token) u"
  shows "world_ok lib (w\<lparr>aw_db := db', aw_refresh := add_issued u v t (aw_refresh w),
    aw_access := add_issued u v (Some access) (aw_access w), aw_passed := passed\<rparr>)"
proof -
  let ?w = "w\<lparr>aw_db := db', aw_refresh := add_issued u v t (aw_refresh w),
    aw_access := add_issued u v (Some access) (aw_access w), aw_passed := passed\<rparr>"
  obtain new where new: "owners (au_tokens db') = owners (au_tokens (aw_db w)) @ new"
    "fst ` set new \<inter> fst ` set (owners (au_tokens (aw_db w))) = {}"
    using assms(5) by (auto simp: extends_def)
  have "refresh_ok lib ?w i" if "i \<in> set (aw_refresh w)" for i
    using that assms(1,2) new by (auto simp: world_ok_def refresh_ok_def intro: sole_owner_append)
  moreover have "access_ok lib ?w i" if "i \<in> set (aw_access w)" for i
    using that assms(1,2) by (auto simp: world_ok_def access_ok_def)
  moreover have "refresh_ok lib ?w (u, v, token)" if "t = Some token" for token
    using assms(6) [OF that] assms(3) by (simp add: refresh_ok_def)
  moreover have "access_ok lib ?w (u, v, access)" using assms(3,4) by (simp add: access_ok_def)
  ultimately show ?thesis by (cases t) (simp_all add: world_ok_def add_issued_def)
qed

lemma signed_in_ok:
  assumes "sign_in lib (aw_now w) ids email password typed remember md (aw_db w) = (Inr (Authenticated d t rem), db')"
    and "world_ok lib w" and "user = ac_id (ad_user d)"
    and "verified = cs_enabled (get_challenge_state user (au_mfa (aw_db w)))"
  shows "world_ok lib (w\<lparr>aw_db := db', aw_refresh := add_issued user verified t (aw_refresh w),
      aw_access := add_issued user verified (Some (ad_access d)) (aw_access w),
      aw_passed := note_passed (answers_challenge lib (aw_now w) user typed (au_mfa (aw_db w))) user (aw_passed w)\<rparr>)"
  using assms(1)
proof (rule sign_in_cases)
  fix a m v
  assume v: "v = cs_enabled (get_challenge_state (ac_id a) (au_mfa (aw_db w)))"
    and c: "v \<Longrightarrow> verify_challenge (al_mfa lib) (aw_now w) (ac_id a) typed (au_mfa (aw_db w)) = Inr (True, m)"
    and o: "open_account_session lib (aw_now w) ids a remember v md ((aw_db w)\<lparr>au_mfa := m\<rparr>)
      = (Inr (Authenticated d t rem), db')"
  let ?token = "al_sign_refresh lib (refresh_claims (ac_id a) (fi_jti ids) remember v)"
  from o obtain sc rows e where s: "store_session (al_hash lib) (al_expiry lib) (aw_now w) (fi_session ids) ?token
      (ac_id a) md (au_tokens (aw_db w)) = Inr (e, rows)" and t: "t = Some ?token"
    and d: "d = auth_data_of a sc (al_sign_access lib (access_claims a (sc_token_company sc) v))"
    and db': "au_tokens db' = rows"
    by (rule open_session_cases) auto
  have user: "user = ac_id a" and verified: "verified = v" by (simp_all add: assms(3,4) d v auth_data_of_def)
  note rows = owners_store [OF s]
  show ?thesis unfolding user verified
  proof (rule world_ok_issue [OF assms(2)])
    show "extends (au_tokens (aw_db w)) (au_tokens db')" using rows by (auto simp: extends_def db')
    show "access_issued lib (ac_id a) v (ad_access d)" by (auto simp: access_issued_def d auth_data_of_def)
    show "refresh_issued lib (ac_id a) v token \<and> sole_owner (owners (au_tokens db')) (al_hash lib token) (ac_id a)"
      if "t = Some token" for token
      using that rows sole_owner_new by (auto simp: refresh_issued_def t db')
    show "ac_id a \<in> set (note_passed (answers_challenge lib (aw_now w) (ac_id a) typed (au_mfa (aw_db w))) (ac_id a)
        (aw_passed w))" if v
      using c [OF that] by (auto simp: note_passed_def answers_challenge_def)
  qed (auto simp: note_passed_def)
qed

lemma refreshed_ok:
  assumes "issue_refresh_session lib (aw_now w) ids token rotating login md (aw_db w) = (Inr (Authenticated d t rem), db')"
    and "unforged (al_refresh_claims lib (aw_now w)) (aw_refresh w) token"
    and "world_ok lib w" and "jwt_ok lib" and "user = ac_id (ad_user d)"
    and "verified = (jget (al_refresh_claims lib (aw_now w) token) ''mfa_verified'' = JBool True)"
  shows "world_ok lib (w\<lparr>aw_db := db', aw_refresh := add_issued user verified t (aw_refresh w),
      aw_access := add_issued user verified (Some (ad_access d)) (aw_access w)\<rparr>)"
  using assms(1)
proof (rule refresh_cases)
  fix owner rows a sc v
  let ?c = "al_refresh_claims lib (aw_now w) token"
  let ?nxt = "al_sign_refresh lib (refresh_claims (to_str (jget ?c ''sub'')) (fi_jti ids) rem v)"
  assume c: "truthy ?c" and v: "v = (jget ?c ''mfa_verified'' = JBool True)"
    and su: "session_user lib (aw_now w) ids rotating token ?nxt md (au_tokens (aw_db w)) = Inr (Some owner, rows)"
    and a: "get_user_by_id (if owner = [] then to_str (jget ?c ''sub'') else owner) (au_id (aw_db w)) = Some a"
    and d: "d = auth_data_of a sc (al_sign_access lib (access_claims a (sc_token_company sc) v))"
    and t: "t = (if rotating then Some ?nxt else None)" and db': "au_tokens db' = rows"
  obtain u0 v0 where i: "(u0, v0, token) \<in> set (aw_refresh w)" using assms(2) c by (auto simp: unforged_def)
  with assms(3) have r: "refresh_issued lib u0 v0 token" "v0 \<Longrightarrow> u0 \<in> set (aw_passed w)"
    "sole_owner (owners (au_tokens (aw_db w))) (al_hash lib token) u0"
    by (auto simp: world_ok_def refresh_ok_def)
  then obtain jti rm where token: "token = al_sign_refresh lib (refresh_claims u0 jti rm v0)"
    by (auto simp: refresh_issued_def)
  have claims: "jget ?c ''sub'' = JStr u0" "jget ?c ''mfa_verified'' = JBool v0"
    using assms(4) c unfolding jwt_ok_def token by (simp_all add: refresh_claims_def own_def)
  from su obtain new where new: "owners rows = owners (au_tokens (aw_db w)) @ new"
    "fst ` set new \<inter> fst ` set (owners (au_tokens (aw_db w))) = {}"
    "(al_hash lib token, owner) \<in> set (owners (au_tokens (aw_db w)))
       \<and> new = (if rotating then [(al_hash lib ?nxt, owner)] else [])"
    by (rule session_user_owners) auto
  then have owner: "owner = u0" using r(3) by (auto simp: sole_owner_def)
  with found_user_id [OF a] claims have ac: "ac_id a = u0" by (simp split: if_splits)
  have user: "user = u0" and verified: "verified = v0"
    using v claims by (simp_all add: assms(5,6) d auth_data_of_def ac)
  have "world_ok lib (w\<lparr>aw_db := db', aw_refresh := add_issued u0 v0 t (aw_refresh w),
      aw_access := add_issued u0 v0 (Some (ad_access d)) (aw_access w), aw_passed := aw_passed w\<rparr>)"
  proof (rule world_ok_issue [OF assms(3)])
    show "extends (au_tokens (aw_db w)) (au_tokens db')" using new(1,2) by (auto simp: extends_def db')
    show "access_issued lib u0 v0 (ad_access d)"
      using v claims ac by (auto simp: access_issued_def d auth_data_of_def)
    show "refresh_issued lib u0 v0 tk \<and> sole_owner (owners (au_tokens db')) (al_hash lib tk) u0"
      if tk: "t = Some tk" for tk
    proof -
      have n: "rotating" "tk = ?nxt" using t tk by (auto split: if_splits)
      have "refresh_issued lib u0 v0 tk" using v claims by (auto simp: n(2) refresh_issued_def)
      moreover have "al_hash lib ?nxt \<notin> fst ` set (owners (au_tokens (aw_db w)))" using new(2,3) n(1) by auto
      then have "sole_owner (owners (au_tokens db')) (al_hash lib tk) u0"
        using new(1,3) n owner sole_owner_new by (simp add: db')
      ultimately show ?thesis ..
    qed
  qed (use r(2) in simp_all)
  then show ?thesis by (simp add: user verified)
qed

lemma owners_sign_out:
  "owners (au_tokens (snd (sign_out lib now everywhere refresh access db))) = owners (au_tokens db)"
  by (simp add: sign_out_def Let_def split_def)

lemma auth_step_ok:
  assumes "auth_step lib w w'" and "world_ok lib w" and "jwt_ok lib"
  shows "world_ok lib w'"
  using assms
proof (induction rule: auth_step.induct)
  case (signed_in w ids email password typed remember md d t rem db' user verified)
  show ?case by (rule signed_in_ok [OF signed_in(1,4,2,3)])
next
  case (refreshed w token ids rotating login md d t rem db' user verified)
  show ?case by (rule refreshed_ok [OF refreshed(2,1,5,6,3,4)])
next
  case (sign_in_refused w ids email password typed remember md r db')
  show ?case using sign_in_refused(3) refused_sign_in_tokens [OF sign_in_refused(1,2)]
    by (intro world_ok_db) simp_all
next
  case (resumed w token login r db')
  have "au_tokens db' = au_tokens (aw_db w)" using resumed(1) unfolding issue_access_session_def Let_def
    by (auto split: if_splits option.splits prod.splits)
  with resumed(2) show ?case by (intro world_ok_db) simp_all
next
  case (refused w ids token rotating login md r db')
  show ?case by (rule world_ok_db [OF refused(3) refused_refresh_extends [OF refused(1)]])
next
  case (signed_out w everywhere token access)
  then show ?case by (intro world_ok_db extends_same owners_sign_out)
next
  case (factors w m)
  then show ?case by (intro world_ok_db) simp_all
next
  case (accounts h c w i)
  then show ?case by (intro world_ok_db) simp_all
next
  case (pass d w)
  then show ?case by (simp add: world_ok_def refresh_ok_def [abs_def] access_ok_def [abs_def])
qed

section \<open>End to end\<close>

lemma auth_run_ok:
  assumes "(auth_step lib)\<^sup>*\<^sup>* w0 w" and "world_ok lib w0" and "jwt_ok lib"
  shows "world_ok lib w"
  using assms(1)
proof (induction rule: rtranclp_induct)
  case base
  show ?case by (rule assms(2))
next
  case (step a b)
  show ?case by (rule auth_step_ok [OF step(2,3) assms(3)])
qed

text \<open>C5: whatever the order of sign-ins, refreshes, sign-outs and changes of factors and accounts, a
  request that passes with an access token this run issued is of a user who, where a second factor is
  enabled for that user now, answered a challenge in the run: neither a token issued before the factor
  was enabled nor a chain of refreshes reaches the company without it.\<close>

theorem sessions_have_second_factor:
  assumes "(auth_step lib)\<^sup>*\<^sup>* w0 w" and "aw_refresh w0 = []" and "aw_access w0 = []" and "jwt_ok lib"
    and "authenticate (\<lambda>t. al_access_claims lib (aw_now w) (to_str t)) (aw_now w) (au_mfa (aw_db w)) r
      (au_id (aw_db w)) = (Allowed u, db')"
    and "unforged (al_access_claims lib (aw_now w)) (aw_access w) (to_str (get_bearer_token r))"
    and "cs_enabled (get_challenge_state (uc_user u) (au_mfa (aw_db w)))"
  shows "uc_user u \<in> set (aw_passed w)"
  using assms(5)
proof (rule authenticate_allowed)
  fix c
  assume c: "c = al_access_claims lib (aw_now w) (to_str (get_bearer_token r))" "truthy c"
    and h: "hydrate_user c (au_id (aw_db w)) = Some u"
    and v: "cs_enabled (get_challenge_state (to_str (jget c ''sub'')) (au_mfa (aw_db w))) \<Longrightarrow>
      jget c ''mfa_verified'' = JBool True"
  have "world_ok lib w0" using assms(2,3) by (simp add: world_ok_def)
  then have w: "world_ok lib w" using assms(1,4) auth_run_ok by blast
  obtain user verified where i: "(user, verified, to_str (get_bearer_token r)) \<in> set (aw_access w)"
    using assms(6) c by (auto simp: unforged_def)
  with w have issued: "access_issued lib user verified (to_str (get_bearer_token r))"
    and passed: "verified \<Longrightarrow> user \<in> set (aw_passed w)"
    by (auto simp: world_ok_def access_ok_def)
  from issued obtain a company where t: "ac_id a = user"
    "to_str (get_bearer_token r) = al_sign_access lib (access_claims a company verified)"
    by (auto simp: access_issued_def)
  then have claims: "jget c ''sub'' = JStr user" "jget c ''mfa_verified'' = JBool verified"
    using assms(4) c unfolding jwt_ok_def by (simp_all add: access_claims_def own_def)
  have "uc_user u = user" using hydrated_user [OF h] claims by simp
  with v assms(7) claims passed show ?thesis by simp
qed

section \<open>Witnesses\<close>

definition signed_user :: user_row where
  "signed_user = (demo_user ''u'' ''u@x'' True)"

definition signed_id_db :: id_db where
  "signed_id_db = (demo_id_db True)\<lparr>id_users := [signed_user], id_profiles := [], id_roles := [], id_members := []\<rparr>"

definition signed_account :: account where
  "signed_account = map_user signed_id_db signed_user"

definition signed_lib :: auth_lib where
  "signed_lib =
     \<lparr>al_sign_access = (\<lambda>c. if c = access_claims signed_account None True then ''t'' else ''x''),
      al_sign_refresh = (\<lambda>c. ''r''),
      al_access_claims = (\<lambda>now t. if t = ''t'' then access_claims signed_account None True else JNull),
      al_refresh_claims = (\<lambda>now t. JNull), al_hash = id, al_expiry = (\<lambda>t. Some 99),
      al_password_ok = (\<lambda>p h. p = h), al_grace = 0, al_mfa = demo_lib\<rparr>"

definition signed_start :: auth_db where
  "signed_start = \<lparr>au_id = signed_id_db, au_mfa = demo_db, au_tokens = []\<rparr>"

definition signed_ids :: fresh_ids where
  "signed_ids = \<lparr>fi_session = ''s'', fi_jti = ''j''\<rparr>"

definition signed_world :: auth_world where
  "signed_world = \<lparr>aw_now = 0, aw_db = signed_start, aw_refresh = [], aw_access = [], aw_passed = []\<rparr>"

definition signed_result :: "auth_result auth_outcome" where
  "signed_result = sign_in signed_lib 0 signed_ids ''u@x'' ''h'' (JStr ''abcd'') True
     \<lparr>md_ip = JNull, md_agent = JNull\<rparr> signed_start"

lemma signed_jwt_ok: "jwt_ok signed_lib"
  by (simp add: jwt_ok_def signed_lib_def)

lemma signed_account_simps [simp]:
  "ac_id signed_account = ''u''" "ac_password signed_account = ''h''" "ac_verified signed_account"
  "ac_company signed_account = None" "ac_roles signed_account = []"
  by (simp_all add: signed_account_def map_user_def signed_user_def demo_user_def profile_company_def signed_id_db_def
      roles_of_def roles_column_def app_roles_def normalize_roles_def)

lemma signed_context: "resolve_context now signed_account login signed_id_db
    = (\<lparr>sc_company = None, sc_membership = None, sc_token_company = None\<rparr>, signed_id_db)"
  by (simp add: resolve_context_def get_primary_membership_def signed_id_db_def)

lemma signed_challenge_state: "cs_enabled (get_challenge_state ''u'' (demo_db\<lparr>mfa_used := us\<rparr>))"
  "cs_enabled (get_challenge_state ''u'' demo_db)"
  using demo_active by (simp_all add: get_challenge_state_def Let_def)

lemma signed_in_result:
  "\<exists>row. signed_result =
     (Inr (Authenticated (auth_data_of signed_account \<lparr>sc_company = None, sc_membership = None, sc_token_company = None\<rparr> ''t'')
        (Some ''r'') True),
      \<lparr>au_id = mark_user_logged_in 0 ''u'' signed_id_db, au_mfa = demo_db\<lparr>mfa_used := [(''u'', ''f'', ''ABCDs'')]\<rparr>,
       au_tokens = [row]\<rparr>)"
proof -
  have a: "get_user_by_email ''u@x'' signed_id_db = Some signed_account"
    unfolding signed_account_def by (simp add: get_user_by_email_def signed_id_db_def signed_user_def demo_user_def)
  have s: "au_id signed_start = signed_id_db" "au_mfa signed_start = demo_db" "au_tokens signed_start = []"
    by (simp_all add: signed_start_def)
  have l: "al_mfa signed_lib = demo_lib" "al_password_ok signed_lib ''h'' ''h''" "al_expiry signed_lib t = Some 99"
    "al_hash signed_lib = id" "al_sign_refresh signed_lib c = ''r''"
    "al_sign_access signed_lib (access_claims signed_account None True) = ''t''" for t c
    by (simp_all add: signed_lib_def)
  show ?thesis
    by (simp add: signed_result_def sign_in_def Let_def a s l signed_challenge_state demo_challenge
        open_account_session_def signed_context store_session_def insert_token_def) (simp add: signed_start_def)
qed

theorem sign_in_checks_witness:
  "\<exists>d t rem db'. signed_result = (Inr (Authenticated d t rem), db') \<and> ad_access d = ''t''
    \<and> answers_challenge signed_lib 0 ''u'' (JStr ''abcd'') demo_db"
proof -
  obtain row where r: "signed_result =
     (Inr (Authenticated (auth_data_of signed_account \<lparr>sc_company = None, sc_membership = None, sc_token_company = None\<rparr> ''t'')
        (Some ''r'') True),
      \<lparr>au_id = mark_user_logged_in 0 ''u'' signed_id_db, au_mfa = demo_db\<lparr>mfa_used := [(''u'', ''f'', ''ABCDs'')]\<rparr>,
       au_tokens = [row]\<rparr>)"
    using signed_in_result by blast
  from sign_in_checks [OF r [unfolded signed_result_def]]
  have "answers_challenge signed_lib 0 ''u'' (JStr ''abcd'') demo_db"
    by (auto simp: auth_data_of_def signed_start_def signed_challenge_state)
  moreover have "ad_access (auth_data_of signed_account sc ''t'') = ''t''" for sc by (simp add: auth_data_of_def)
  ultimately show ?thesis using r by blast
qed

theorem sessions_have_second_factor_witness:
  "\<exists>w u. (auth_step signed_lib)\<^sup>*\<^sup>* signed_world w
    \<and> authenticate (\<lambda>t. al_access_claims signed_lib (aw_now w) (to_str t)) (aw_now w) (au_mfa (aw_db w)) demo_request
        (au_id (aw_db w)) = (Allowed u, au_id (aw_db w))
    \<and> uc_user u = ''u'' \<and> uc_user u \<in> set (aw_passed w)"
proof -
  obtain d db' row where r: "signed_result = (Inr (Authenticated d (Some ''r'') True), db')" and d: "ad_user d = signed_account"
    "ad_access d = ''t''" and db': "db' = \<lparr>au_id = mark_user_logged_in 0 ''u'' signed_id_db,
      au_mfa = demo_db\<lparr>mfa_used := [(''u'', ''f'', ''ABCDs'')]\<rparr>, au_tokens = [row]\<rparr>"
    using signed_in_result by (auto simp: auth_data_of_def)
  let ?user = "ac_id (ad_user d)"
  let ?verified = "cs_enabled (get_challenge_state ?user (au_mfa (aw_db signed_world)))"
  let ?w = "signed_world\<lparr>aw_db := db', aw_refresh := add_issued ?user ?verified (Some ''r'') (aw_refresh signed_world),
      aw_access := add_issued ?user ?verified (Some (ad_access d)) (aw_access signed_world),
      aw_passed := note_passed (answers_challenge signed_lib (aw_now signed_world) ?user (JStr ''abcd'')
        (au_mfa (aw_db signed_world))) ?user (aw_passed signed_world)\<rparr>"
  have world: "aw_now signed_world = 0" "aw_db signed_world = signed_start" by (simp_all add: signed_world_def)
  have "auth_step signed_lib signed_world ?w"
    by (rule auth_step.signed_in [OF r [unfolded signed_result_def, folded world] refl refl])
  then have run: "(auth_step signed_lib)\<^sup>*\<^sup>* signed_world ?w" by (rule r_into_rtranclp)
  define u where "u = \<lparr>uc_user = ''u'', uc_roles = [], uc_company = None, uc_role = None, uc_status = None\<rparr>"
  have db: "au_id (aw_db ?w) = mark_user_logged_in 0 ''u'' signed_id_db"
    "au_mfa (aw_db ?w) = demo_db\<lparr>mfa_used := [(''u'', ''f'', ''ABCDs'')]\<rparr>" by (simp_all add: db')
  have claims: "al_access_claims signed_lib now (to_str (get_bearer_token demo_request)) = access_claims signed_account None True"
    for now by (simp add: demo_bearer signed_lib_def)
  have "hydrate_user (access_claims signed_account None True) (mark_user_logged_in 0 ''u'' signed_id_db) = Some u"
    by (simp add: hydrate_user_def access_claims_def own_def get_user_by_id_def mark_user_logged_in_def signed_id_db_def
        signed_user_def demo_user_def map_user_def roles_of_def roles_column_def normalize_roles_def app_roles_def
        user_context_of_def resolve_company_context_def has_any_role_def u_def)
  then have allowed: "authenticate (\<lambda>t. al_access_claims signed_lib (aw_now ?w) (to_str t)) (aw_now ?w) (au_mfa (aw_db ?w))
      demo_request (au_id (aw_db ?w)) = (Allowed u, au_id (aw_db ?w))"
    unfolding db
    by (simp add: authenticate_def claims demo_reads enforce_tenant_mutation_def enforce_subscription_def u_def
        Let_def) (simp add: demo_bearer access_claims_def own_def)
  have fresh: "unforged (al_access_claims signed_lib (aw_now ?w)) (aw_access ?w) (to_str (get_bearer_token demo_request))"
    by (auto simp: unforged_def add_issued_def d demo_bearer)
  have "aw_refresh signed_world = []" "aw_access signed_world = []" by (simp_all add: signed_world_def)
  from sessions_have_second_factor [OF run this signed_jwt_ok allowed fresh]
  have "uc_user u \<in> set (aw_passed ?w)" unfolding db by (simp add: u_def signed_challenge_state)
  with run allowed show ?thesis by (intro exI [of _ ?w] exI [of _ u]) (simp add: u_def)
qed

end
