(* ===== verification/Domestic_Compliance.thy ===== *)
theory Domestic_Compliance
  imports Accounts
begin

text \<open>
  \<open>services/domesticComplianceService.js\<close>: which documents the domestic market of a company requires,
  their placeholders, the links of documents to products, and the check a publication starts with. A
  query without ORDER BY gives the rows in table order. Random identifiers are drawn from an argument:
  \<open>fresh k\<close> is the one drawn for the row of \<open>k\<close>.
\<close>

section \<open>Tables\<close>

record product_row =
  pd_id :: ident
  pd_company :: ident
  pd_sku :: string
  pd_name :: string
  pd_category :: "string option"
  pd_weight :: "rat option"
  pd_co2 :: "rat option"

record requirement_row =
  rq_market :: string
  rq_code :: string
  rq_name :: string
  rq_required :: bool
  rq_active :: bool

record document_row =
  dc_id :: ident
  dc_company :: ident
  dc_market :: string
  dc_code :: "string option"
  dc_name :: string
  dc_status :: string
  dc_key :: "string option"

record link_row =
  dl_id :: ident
  dl_company :: ident
  dl_product :: ident
  dl_document :: ident
  dl_market :: string
  dl_key :: "string option"
  dl_source :: string
  dl_by :: "ident option"

record compliance_db =
  cp_companies :: "company_info list"
  cp_products :: "product_row list"
  cp_requirements :: "requirement_row list"
  cp_documents :: "document_row list"
  cp_links :: "link_row list"

section \<open>Required documents\<close>

definition normalize_market_code :: "string \<Rightarrow> string" where
  "normalize_market_code s = upper (trim s)"

definition normalize_document_code :: "string \<Rightarrow> string" where
  "normalize_document_code s = lower (trim s)"

definition normalize_id_list :: "string list \<Rightarrow> string list" where
  "normalize_id_list ids = dedupe (filter (\<lambda>i. i \<noteq> []) (map trim ids))"

record required_document =
  rd_code :: string
  rd_name :: string

definition fallback_documents :: "string \<Rightarrow> required_document list" where
  "fallback_documents market =
     (if market = ''VN''
      then [\<lparr>rd_code = ''eia'', rd_name = ''Environmental Impact Assessment (EIA)''\<rparr>,
        \<lparr>rd_code = ''ghg_inventory_vn'', rd_name = ''GHG Inventory / MRV Declaration''\<rparr>,
        \<lparr>rd_code = ''local_compliance'', rd_name = ''Local Compliance Declaration''\<rparr>]
      else [])"

text \<open>A company that is not found has no markets, so its market is the default.\<close>

definition resolve_domestic_market :: "ident \<Rightarrow> company_info list \<Rightarrow> string" where
  "resolve_domestic_market company companies =
     (case select_one (\<lambda>c. ci_id c = company) companies of
        None \<Rightarrow> normalize_domestic_market JUndef (JArr [])
      | Some c \<Rightarrow> normalize_domestic_market (JStr (ci_domestic c))
          (JArr (map JStr (normalize_target_markets (JArr (map JStr (ci_targets c)))))))"

definition list_required_documents :: "string \<Rightarrow> requirement_row list \<Rightarrow> required_document list" where
  "list_required_documents market reqs =
     (let m = normalize_market_code market;
          rows = sort_key rq_name (filter (\<lambda>r. upper (rq_market r) = m \<and> rq_required r \<and> rq_active r) reqs)
      in if rows \<noteq> []
         then filter (\<lambda>d. rd_code d \<noteq> [])
           (map (\<lambda>r. let c = normalize_document_code (rq_code r); n = trim (rq_name r)
              in \<lparr>rd_code = c, rd_name = (if n = [] then c else n)\<rparr>) rows)
         else map (\<lambda>d. d\<lparr>rd_code := normalize_document_code (rd_code d)\<rparr>) (fallback_documents m))"

definition code_column :: "document_row \<Rightarrow> string" where
  "code_column d = lower (case dc_code d of None \<Rightarrow> [] | Some c \<Rightarrow> c)"

definition required_rows :: "ident \<Rightarrow> string \<Rightarrow> string list \<Rightarrow> document_row list \<Rightarrow> document_row list" where
  "required_rows company market codes docs =
     filter (\<lambda>d. dc_company d = company \<and> upper (dc_market d) = market \<and> code_column d \<in> set codes) docs"

definition required_codes :: "required_document list \<Rightarrow> string list" where
  "required_codes reqs = filter (\<lambda>c. c \<noteq> []) (map (\<lambda>d. normalize_document_code (rd_code d)) reqs)"

text \<open>No unique column can conflict: the id is new.\<close>

definition placeholder :: "(string \<Rightarrow> ident) \<Rightarrow> ident \<Rightarrow> string \<Rightarrow> required_document \<Rightarrow> document_row" where
  "placeholder fresh company market d =
     (let c = normalize_document_code (rd_code d)
      in \<lparr>dc_id = fresh c, dc_company = company, dc_market = market, dc_code = Some c,
          dc_name = (if rd_name d = [] then c else rd_name d), dc_status = ''missing'', dc_key = None\<rparr>)"

fun add_placeholders ::
  "(string \<Rightarrow> ident) \<Rightarrow> ident \<Rightarrow> string \<Rightarrow> string list \<Rightarrow> required_document list \<Rightarrow> document_row list \<Rightarrow>
   document_row list" where
  "add_placeholders fresh company market seen [] docs = docs"
| "add_placeholders fresh company market seen (d # ds) docs =
     (let c = normalize_document_code (rd_code d)
      in if c = [] \<or> c \<in> set seen then add_placeholders fresh company market seen ds docs
         else add_placeholders fresh company market (c # seen) ds
           (docs @ [placeholder fresh company market d]))"

definition ensure_placeholders ::
  "(string \<Rightarrow> ident) \<Rightarrow> ident \<Rightarrow> string \<Rightarrow> required_document list \<Rightarrow> compliance_db \<Rightarrow> compliance_db" where
  "ensure_placeholders fresh company market reqs db =
     (let m = normalize_market_code market; codes = required_codes reqs;
          seen = map (\<lambda>d. normalize_document_code (code_column d)) (required_rows company m codes (cp_documents db))
      in if codes = [] then db
         else db\<lparr>cp_documents := add_placeholders fresh company m seen reqs (cp_documents db)\<rparr>)"

section \<open>Links\<close>

definition company_products :: "ident \<Rightarrow> string list \<Rightarrow> product_row list \<Rightarrow> product_row list" where
  "company_products company ids ps = filter (\<lambda>p. pd_company p = company \<and> pd_id p \<in> set ids) ps"

text \<open>\<open>INSERT ... ON CONFLICT (product_id, compliance_document_id) DO UPDATE\<close>, with its references.\<close>

definition upsert_link :: "link_row \<Rightarrow> compliance_db \<Rightarrow> service_error + compliance_db" where
  "upsert_link l db =
     (let same = (\<lambda>k. dl_product k = dl_product l \<and> dl_document k = dl_document l)
      in unless_violated
           [(dl_source l \<notin> {''manual'', ''import'', ''batch_publish''}, ''23514''),
            (dl_document l \<notin> dc_id ` set (cp_documents db), ''23503'')]
           (db\<lparr>cp_links := (if list_ex same (cp_links db)
              then update_where same (\<lambda>k. k\<lparr>dl_market := dl_market l, dl_key := dl_key l, dl_source := dl_source l,
                dl_by := dl_by l\<rparr>) (cp_links db)
              else cp_links db @ [l])\<rparr>))"

definition text_or_null :: "string option \<Rightarrow> string option" where
  "text_or_null k = (case k of None \<Rightarrow> None | Some s \<Rightarrow> if trim s = [] then None else Some (trim s))"

text \<open>The result counts the linked and the skipped products.\<close>

definition link_document ::
  "(ident \<Rightarrow> ident) \<Rightarrow> ident \<Rightarrow> string \<Rightarrow> ident \<Rightarrow> string list \<Rightarrow> ident option \<Rightarrow> string \<Rightarrow> compliance_db \<Rightarrow>
   service_error + (nat \<times> int) \<times> compliance_db" where
  "link_document fresh company market document ids user source db =
     (let wanted = normalize_id_list ids; ps = company_products company wanted (cp_products db);
          key = text_or_null (Option.bind
            (select_one (\<lambda>d. dc_id d = document \<and> dc_company d = company) (cp_documents db)) dc_key)
      in if wanted = [] then Inr ((0, 0), db)
         else if ps = [] then Inr ((0, int (length wanted)), db)
         else bind_result
           (fold_result (\<lambda>s p. upsert_link \<lparr>dl_id = fresh (pd_id p), dl_company = company, dl_product = pd_id p,
              dl_document = document, dl_market = normalize_market_code market, dl_key = key, dl_source = source,
              dl_by = user\<rparr> s) db ps)
           (\<lambda>db'. Inr ((length ps, int (length wanted) - int (card (pd_id ` set ps))), db')))"

section \<open>The check\<close>

datatype missing_reason = Missing_Document | Not_Linked | Not_Uploaded | Missing_Path

record missing_document =
  mi_code :: string
  mi_name :: string
  mi_reason :: missing_reason

record product_gap =
  pg_product :: ident
  pg_sku :: string
  pg_name :: string
  pg_missing :: "missing_document list"

record validation =
  vd_success :: bool
  vd_market :: string
  vd_required :: "required_document list"
  vd_missing :: "product_gap list"

text \<open>The maps of the code: the first document of a code, the last link of a pair.\<close>

definition document_of :: "string \<Rightarrow> document_row list \<Rightarrow> document_row option" where
  "document_of c docs = select_one (\<lambda>d. c \<noteq> [] \<and> normalize_document_code (code_column d) = c) docs"

definition link_of :: "ident \<Rightarrow> ident \<Rightarrow> link_row list \<Rightarrow> link_row option" where
  "link_of p d ls = select_one (\<lambda>l. dl_product l = p \<and> dl_document l = d) (rev ls)"

definition done_statuses :: "string list" where
  "done_statuses = [''uploaded'', ''approved'']"

definition has_path :: "string option \<Rightarrow> bool" where
  "has_path k = (text_or_null k \<noteq> None)"

definition missing_for ::
  "document_row list \<Rightarrow> link_row list \<Rightarrow> product_row \<Rightarrow> required_document \<Rightarrow> missing_document option" where
  "missing_for docs links p r =
     (let c = normalize_document_code (rd_code r)
      in case document_of c docs of
           None \<Rightarrow> Some \<lparr>mi_code = c, mi_name = rd_name r, mi_reason = Missing_Document\<rparr>
         | Some d \<Rightarrow>
             (let missing = (\<lambda>why. Some \<lparr>mi_code = c, mi_name = (if dc_name d = [] then rd_name r else dc_name d),
                mi_reason = why\<rparr>)
              in case link_of (pd_id p) (dc_id d) links of
                   None \<Rightarrow> missing Not_Linked
                 | Some l \<Rightarrow>
                     (if normalize_document_code (dc_status d) \<notin> set done_statuses then missing Not_Uploaded
                      else if \<not> has_path (dc_key d) \<and> \<not> has_path (dl_key l) then missing Missing_Path
                      else None)))"

definition product_gaps ::
  "document_row list \<Rightarrow> link_row list \<Rightarrow> required_document list \<Rightarrow> product_row list \<Rightarrow> product_gap list" where
  "product_gaps docs links reqs ps =
     List.map_filter (\<lambda>p.
       let ms = List.map_filter (missing_for docs links p) reqs
       in if ms = [] then None
          else Some \<lparr>pg_product = pd_id p, pg_sku = pd_sku p, pg_name = pd_name p, pg_missing = ms\<rparr>) ps"

definition validate_domestic_publish ::
  "(string \<Rightarrow> ident) \<Rightarrow> ident \<Rightarrow> string list \<Rightarrow> compliance_db \<Rightarrow> validation \<times> compliance_db" where
  "validate_domestic_publish fresh company ids db =
     (let wanted = normalize_id_list ids; ps = company_products company wanted (cp_products db);
          market = resolve_domestic_market company (cp_companies db);
          reqs = list_required_documents market (cp_requirements db);
          refused = \<lparr>vd_success = False, vd_market = ''VN'', vd_required = [], vd_missing = []\<rparr>
      in if wanted = [] \<or> ps = [] then (refused, db)
         else if reqs = [] then (\<lparr>vd_success = True, vd_market = market, vd_required = [], vd_missing = []\<rparr>, db)
         else let db1 = ensure_placeholders fresh company market reqs db;
                  docs = required_rows company market (required_codes reqs) (cp_documents db1);
                  links = filter (\<lambda>l. dl_company l = company \<and> dl_product l \<in> pd_id ` set ps
                    \<and> dl_document l \<in> dc_id ` set docs) (cp_links db1);
                  gaps = product_gaps docs links reqs ps
              in (\<lparr>vd_success = (gaps = []), vd_market = market, vd_required = reqs, vd_missing = gaps\<rparr>, db1))"

end
