(* ===== verification/Js_Decimal.thy ===== *)
theory Js_Decimal
  imports Js_Date
begin

text \<open>
  Printing a double and reading it back. \<open>num_str\<close> finds the shortest decimal that rounds to the number;
  seventeen digits always do, so it never fails, and what it prints is read as a decimal that rounds to
  the number again. The code sends numbers to the database and between services as such texts.
\<close>

section \<open>Powers of two and of ten\<close>

definition log10_2 :: real where
  "log10_2 = log 10 2"

lemma log10_2_bounds: "59 / 196 \<le> log10_2" "log10_2 \<le> 28 / 93" "0 < log10_2"
proof -
  have "(10 :: real) ^ 59 \<le> 2 ^ 196" "(2 :: real) ^ 93 \<le> 10 ^ 28" by simp_all
  then have "log 10 ((10 :: real) ^ 59) \<le> log 10 (2 ^ 196)" "log 10 ((2 :: real) ^ 93) \<le> log 10 (10 ^ 28)"
    by (intro log_mono; simp)+
  then have "59 \<le> 196 * log 10 (2 :: real)" "93 * log 10 (2 :: real) \<le> 28"
    by (simp_all only: log_nat_power) simp_all
  then show "59 / 196 \<le> log10_2" "log10_2 \<le> 28 / 93" by (simp_all add: log10_2_def)
  show "0 < log10_2" by (simp add: log10_2_def)
qed

lemma pow10_pos [simp]: "0 < pow10 k" "pow10 k \<noteq> 0" "0 \<le> pow10 k"
  by (simp_all add: pow10_def)

lemma pow10_add: "pow10 (a + b) = pow10 a * pow10 b"
  by (simp add: pow10_def power_int_add)

lemma pow10_nat: "pow10 (int k) = 10 ^ k"
  by (simp add: pow10_def)

lemma of_rat_pow2: "(of_rat (pow2 k) :: real) = 10 powr (of_int k * log10_2)"
proof -
  have "(of_rat (pow2 k) :: real) = 2 powr of_int k"
    by (simp add: pow2_def power_int_def of_rat_power of_rat_inverse of_rat_divide powr_real_of_int power_one_over
        inverse_eq_divide)
  also have "\<dots> = (10 powr log10_2) powr of_int k" by (simp add: log10_2_def)
  finally show ?thesis by (simp add: powr_powr mult.commute)
qed

lemma of_rat_pow10: "(of_rat (pow10 k) :: real) = 10 powr of_int k"
  by (simp add: pow10_def power_int_def of_rat_power of_rat_inverse of_rat_divide powr_real_of_int power_one_over
      inverse_eq_divide)

lemma pow10_le_pow2: "real_of_int b \<le> of_int a * log10_2 \<Longrightarrow> pow10 b \<le> pow2 a"
  by (simp add: of_rat_pow2 of_rat_pow10 flip: of_rat_less_eq [where 'a = real])

lemma pow2_le_pow10: "of_int a * log10_2 \<le> real_of_int b \<Longrightarrow> pow2 a \<le> pow10 b"
  by (simp add: of_rat_pow2 of_rat_pow10 flip: of_rat_less_eq [where 'a = real])

lemma pow10_mono: "a \<le> b \<Longrightarrow> pow10 a \<le> pow10 b"
  by (simp add: pow10_def power_int_increasing)

lemma dec_exp_bounds:
  assumes "0 < x" and "- 1100 \<le> floorlog2 x" and "floorlog2 x \<le> 1100"
  shows "pow10 (dec_exp x - 1) \<le> x" and "x < pow10 (dec_exp x)"
proof -
  define l where "l = floorlog2 x"
  define e where "e = (l * 30103) div 100000"
  have l: "pow2 l \<le> x" "x < pow2 (l + 1)" using floorlog2_bounds [OF assms(1)] by (simp_all add: l_def)
  have e: "100000 * e \<le> l * 30103" "l * 30103 < 100000 * e + 100000" unfolding e_def by linarith+
  have r: "- 1100 \<le> l" "l \<le> 1100" using assms by (simp_all add: l_def)
  have low: "real_of_int (e - 1) \<le> of_int l * log10_2"
  proof (cases "0 \<le> l")
    case True
    then have "of_int l * (59 / 196) \<le> of_int l * log10_2" using log10_2_bounds by (intro mult_left_mono) simp_all
    moreover have "196 * e - 196 \<le> 59 * l" using e r True by linarith
    then have "real_of_int (196 * e - 196) \<le> real_of_int (59 * l)" by (simp only: of_int_le_iff)
    ultimately show ?thesis by simp
  next
    case False
    then have "of_int l * (28 / 93) \<le> of_int l * log10_2" using log10_2_bounds by (intro mult_left_mono_neg) simp_all
    moreover have "93 * e - 93 \<le> 28 * l" using e r False by linarith
    then have "real_of_int (93 * e - 93) \<le> real_of_int (28 * l)" by (simp only: of_int_le_iff)
    ultimately show ?thesis by simp
  qed
  have high: "of_int (l + 1) * log10_2 \<le> real_of_int (e + 2)"
  proof (cases "0 \<le> l + 1")
    case True
    then have "of_int (l + 1) * log10_2 \<le> of_int (l + 1) * (28 / 93)"
      using log10_2_bounds by (intro mult_left_mono) (simp_all add: add_increasing flip: of_int_add)
    moreover have "28 * l + 28 \<le> 93 * e + 186" using e r True by linarith
    then have "real_of_int (28 * l + 28) \<le> real_of_int (93 * e + 186)" by (simp only: of_int_le_iff)
    ultimately show ?thesis by simp
  next
    case False
    then have "of_int (l + 1) * log10_2 \<le> of_int (l + 1) * (59 / 196)"
      using log10_2_bounds by (intro mult_left_mono_neg) simp_all
    moreover have "59 * l + 59 \<le> 196 * e + 392" using e r False by linarith
    then have "real_of_int (59 * l + 59) \<le> real_of_int (196 * e + 392)" by (simp only: of_int_le_iff)
    ultimately show ?thesis by simp
  qed
  have "pow10 (e - 1) \<le> x" using pow10_le_pow2 [OF low] l by linarith
  moreover have "x < pow10 (e + 2)" using pow2_le_pow10 [OF high] l by linarith
  moreover have d: "dec_exp x = (if x < pow10 e then e else if x < pow10 (e + 1) then e + 1 else e + 2)"
    by (simp add: dec_exp_def e_def l_def Let_def)
  ultimately show "pow10 (dec_exp x - 1) \<le> x" "x < pow10 (dec_exp x)" by (auto simp: add.commute)
qed

section \<open>Decimals close to a double\<close>

lemma floorlog2_unique: "pow2 k \<le> x \<Longrightarrow> x < pow2 (k + 1) \<Longrightarrow> 0 < x \<Longrightarrow> floorlog2 x = k"
proof -
  assume a: "pow2 k \<le> x" "x < pow2 (k + 1)" "0 < x"
  have "pow2 (floorlog2 x) < pow2 (k + 1)" "pow2 k < pow2 (floorlog2 x + 1)"
    using floorlog2_bounds [OF a(3)] a by linarith+
  then show ?thesis by simp
qed

lemma round_half_even_near:
  assumes "\<bar>x - of_int n\<bar> < 1 / 2"
  shows "round_half_even x = n"
proof -
  consider "\<lfloor>x\<rfloor> = n" | "\<lfloor>x\<rfloor> = n - 1" using assms by linarith
  then show ?thesis
  proof cases
    case 1
    then show ?thesis using assms by (simp add: round_half_even_def Let_def abs_if split: if_splits)
  next
    case 2
    then show ?thesis using assms by (simp add: round_half_even_def Let_def abs_if split: if_splits)
  qed
qed

lemma pow2_succ: "pow2 (k + 1) = 2 * pow2 k"
  by (simp add: pow2_add) (simp add: pow2_def)

text \<open>A multiple of the unit of \<open>y\<close> that is closer than half of it is what \<open>y\<close> rounds to.\<close>

lemma fl_pos_near:
  assumes "0 < y" and "x = of_int n * pow2 (ulp_exp y)" and "\<bar>y - x\<bar> < pow2 (ulp_exp y) / 2"
  shows "fl_pos y = x"
proof -
  let ?u = "pow2 (ulp_exp y)"
  have "y / ?u - of_int n = (y - x) / ?u" by (simp add: assms(2) diff_divide_distrib)
  then have "\<bar>y / ?u - of_int n\<bar> = \<bar>y - x\<bar> / ?u" by (simp add: abs_divide abs_of_pos)
  also have "\<dots> < 1 / 2" using assms(3) by (simp add: divide_less_eq)
  finally have "round_half_even (y / ?u) = n" by (rule round_half_even_near)
  then show ?thesis by (simp add: fl_pos_def Let_def assms(2))
qed

lemma double_unit:
  assumes "0 < x" and "is_double x"
  obtains n where "x = of_int n * pow2 (ulp_exp x)"
  using fl_pos_exact [OF assms] by (metis fl_pos_def)

lemma pow2_not_negative [simp]: "\<not> pow2 k < 0"
  by (simp add: not_less)

lemma unit_positive: "x = of_int n * pow2 k \<Longrightarrow> 0 < x \<Longrightarrow> 1 \<le> n"
  by (simp add: zero_less_mult_iff)

lemma close_rounds:
  assumes x: "0 < x" "is_double x" and near: "\<bar>y - x\<bar> < x * pow2 (- 54)"
  shows "fl64 y = x"
proof -
  define L where "L = floorlog2 x"
  have L: "pow2 L \<le> x" "x < pow2 (L + 1)" using floorlog2_bounds [OF x(1)] by (simp_all add: L_def)
  obtain n where n: "x = of_int n * pow2 (ulp_exp x)" using double_unit [OF x] .
  have uL: "L - 52 \<le> ulp_exp x" "- 1074 \<le> ulp_exp x" by (simp_all add: ulp_exp_def L_def)
  have "pow2 (- 2) = 1 / 4" by (simp add: pow2_def power_int_def power2_eq_square)
  then have p54: "pow2 (- 54) \<le> 1 / 4" using pow2_mono [of "- 54" "- 2"] by simp
  have y: "0 < y"
  proof -
    have "x * pow2 (- 54) \<le> x * (1 / 4)" using p54 x(1) by (intro mult_left_mono) simp_all
    with near show ?thesis using x(1) by linarith
  qed
  have up: "x * pow2 (- 54) < pow2 (L - 53)"
  proof -
    have "x * pow2 (- 54) < pow2 (L + 1) * pow2 (- 54)" using L by simp
    then show ?thesis by (simp add: pow2_add [symmetric])
  qed
  let ?u = "pow2 (ulp_exp x)"
  have n1: "1 \<le> n" using unit_positive [OF n x(1)] .
  have uL1: "ulp_exp x \<le> L"
  proof -
    have "?u \<le> of_int n * ?u" using n1 by (simp add: mult_le_cancel_right1)
    then have "?u < pow2 (L + 1)" using n L(2) by linarith
    then show ?thesis by simp
  qed
  obtain K where K: "pow2 L = of_int K * ?u"
    using pow2_div_int [OF uL1] by (metis nonzero_eq_divide_eq pow2_pos(2))
  have half: "pow2 (L - 53) \<le> ?u / 2"
    using pow2_mono [OF uL(1)] pow2_succ [of "L - 53"] by (simp add: add.commute)
  consider "pow2 L \<le> y" | "y < pow2 L" by linarith
  then show ?thesis
  proof cases
    case 1
    have "n < 2 * K"
    proof -
      have "of_int n * ?u < of_int (2 * K) * ?u" using n L(2) K by (simp add: pow2_succ)
      then show ?thesis by simp
    qed
    then have "of_int n * ?u + ?u \<le> of_int (2 * K) * ?u"
      by (metis mult_right_mono distrib_right mult_1 of_int_1 of_int_add of_int_le_iff pow2_pos(3) zless_imp_add1_zle)
    then have "x + ?u \<le> pow2 (L + 1)" using n K by (simp add: pow2_succ)
    moreover have "y < x + ?u" using near up half pow2_pos(1) [of "ulp_exp x"] by linarith
    ultimately have "floorlog2 y = L" using 1 y by (intro floorlog2_unique) simp_all
    then have u: "ulp_exp y = ulp_exp x" by (simp add: ulp_exp_def L_def)
    have "\<bar>y - x\<bar> < pow2 (ulp_exp y) / 2" using near up half by (simp add: u)
    from fl_pos_near [OF y _ this, of n] n have "fl_pos y = x" by (simp add: u)
    with y show ?thesis by (simp add: fl64_def)
  next
    case 2
    have "x < pow2 L + ?u" using near up half 2 pow2_pos(1) [of "ulp_exp x"] by linarith
    then have "of_int n * ?u < of_int (K + 1) * ?u" using n K by (simp add: distrib_right)
    then have "n \<le> K" by simp
    moreover have "of_int K * ?u \<le> of_int n * ?u" using L(1) n K by simp
    then have "K \<le> n" by simp
    ultimately have xL: "x = pow2 L" using n K by simp
    have "pow2 (L - 1) \<le> y"
    proof -
      have "x * pow2 (- 54) \<le> x * (1 / 4)" using p54 x(1) by (intro mult_left_mono) simp_all
      moreover have "pow2 L = 2 * pow2 (L - 1)" using pow2_succ [of "L - 1"] by simp
      ultimately show ?thesis using near xL pow2_pos(1) [of "L - 1"] by linarith
    qed
    with 2 y have "floorlog2 y = L - 1" by (intro floorlog2_unique) simp_all
    then have u: "ulp_exp y = max (- 1074) (L - 53)" by (simp add: ulp_exp_def)
    have "ulp_exp y \<le> ulp_exp x" unfolding u by (simp add: ulp_exp_def L_def)
    then have "ulp_exp y \<le> L" using uL1 by simp
    then obtain k where k: "pow2 L = of_int k * pow2 (ulp_exp y)"
      using pow2_div_int by (metis nonzero_eq_divide_eq pow2_pos(2))
    have "pow2 L * pow2 (- 54) = pow2 (L - 54)" by (simp add: pow2_add [symmetric])
    also have "\<dots> \<le> pow2 (ulp_exp y) / 2"
      using pow2_mono [of "L - 53" "ulp_exp y"] pow2_succ [of "L - 54"] u by (simp add: add.commute)
    finally have "\<bar>y - x\<bar> < pow2 (ulp_exp y) / 2" using near xL by simp
    from fl_pos_near [OF y _ this, of k] k xL have "fl_pos y = x" by simp
    with y show ?thesis by (simp add: fl64_def)
  qed
qed

section \<open>Shortest digits\<close>

lemma first_some_Some: "first_some f xs = Some y \<Longrightarrow> \<exists>x \<in> set xs. f x = Some y"
  by (induction xs) (auto split: option.splits)

lemma first_some_None: "first_some f xs = None \<Longrightarrow> x \<in> set xs \<Longrightarrow> f x = None"
  by (induction xs) (auto split: option.splits)

lemma scaled_bounds:
  assumes "pow10 (n - 1) \<le> x" and "x < pow10 n" and "0 < k"
  shows "10 ^ (k - 1) \<le> x / pow10 (n - int k)" and "x / pow10 (n - int k) < 10 ^ k"
proof -
  have "pow10 (n - int k) * 10 ^ (k - 1) = pow10 (n - int k + int (k - 1))" by (simp add: pow10_add pow10_nat)
  also have "n - int k + int (k - 1) = n - 1" using assms(3) by simp
  finally show "10 ^ (k - 1) \<le> x / pow10 (n - int k)" using assms(1) by (simp add: le_divide_eq mult.commute)
  have "pow10 (n - int k) * 10 ^ k = pow10 (n - int k + int k)" by (simp only: pow10_add pow10_nat)
  then show "x / pow10 (n - int k) < 10 ^ k" using assms(2) by (simp add: divide_less_eq mult.commute)
qed

lemma in_good:
  "(case good of [] \<Rightarrow> None | [s] \<Rightarrow> Some s | s # t # _ \<Rightarrow> Some (if c s t then s else t)) = Some s0 \<Longrightarrow> s0 \<in> set good"
  by (auto split: list.splits if_splits)

lemma digits_try_Some:
  assumes n: "pow10 (n - 1) \<le> x" "x < pow10 n" and k: "0 < k" and t: "digits_try x n k = Some (s, n', j)"
  shows "fl64 (of_int s * pow10 (n' - int k)) = x" and "10 ^ (k - 1) \<le> s" and "s < 10 ^ k"
proof -
  let ?q = "x / pow10 (n - int k)"
  obtain s0 where s0: "s0 = \<lfloor>?q\<rfloor> \<or> s0 = \<lfloor>?q\<rfloor> + 1" "fl64 (of_int s0 * pow10 (n - int k)) = x"
    and r: "(s, n', j) = (if s0 = 10 ^ k then (10 ^ (k - 1), n + 1, k) else (s0, n, k))"
  proof -
    define good where "good = filter (\<lambda>s. fl64 (of_int s * pow10 (n - int k)) = x) [\<lfloor>?q\<rfloor>, \<lfloor>?q\<rfloor> + 1]"
    from t obtain s0 where p: "(case good of [] \<Rightarrow> None | [s] \<Rightarrow> Some s
        | s # t # _ \<Rightarrow> Some (if ?q - of_int s \<le> of_int t - ?q then s else t)) = Some s0"
      and r: "(s, n', j) = (if s0 = 10 ^ k then (10 ^ (k - 1), n + 1, k) else (s0, n, k))"
      unfolding digits_try_def Let_def good_def [symmetric] by (auto split: option.splits)
    from in_good [OF p] have "s0 \<in> set good" .
    then have "(s0 = \<lfloor>?q\<rfloor> \<or> s0 = \<lfloor>?q\<rfloor> + 1) \<and> fl64 (of_int s0 * pow10 (n - int k)) = x"
      unfolding good_def set_filter by simp
    then show thesis using that [OF _ _ r] by blast
  qed
  have "10 ^ (k - 1) \<le> ?q" "?q < 10 ^ k" by (rule scaled_bounds [OF n k])+
  then have lo: "10 ^ (k - 1) \<le> \<lfloor>?q\<rfloor>" "\<lfloor>?q\<rfloor> < 10 ^ k"
    by (simp_all add: le_floor_iff floor_less_iff)
  show "10 ^ (k - 1) \<le> s" "s < 10 ^ k" using r s0(1) lo k by (auto split: if_splits)
  show "fl64 (of_int s * pow10 (n' - int k)) = x"
  proof (cases "s0 = 10 ^ k")
    case True
    have "of_int s * pow10 (n' - int k) = pow10 (int (k - 1) + (n + 1 - int k))"
      using r True by (simp add: pow10_add pow10_nat)
    also have "int (k - 1) + (n + 1 - int k) = int k + (n - int k)" using k by simp
    also have "pow10 \<dots> = of_int s0 * pow10 (n - int k)" unfolding pow10_add pow10_nat using True by simp
    finally show ?thesis using s0(2) by simp
  qed (use r s0(2) in simp)
qed

lemma seventeen_digits:
  assumes x: "0 < x" "is_double x" and n: "pow10 (n - 1) \<le> x" "x < pow10 n"
  shows "digits_try x n 17 \<noteq> None"
proof -
  let ?u = "pow10 (n - int 17)"
  let ?q = "x / ?u"
  obtain s where s: "s = \<lfloor>?q\<rfloor> \<or> s = \<lfloor>?q\<rfloor> + 1" "\<bar>of_int s - ?q\<bar> \<le> 1 / 2"
  proof -
    define r where "r = \<lfloor>?q\<rfloor>"
    have "of_int r \<le> ?q" "?q < of_int r + 1" unfolding r_def by linarith+
    then have "\<bar>of_int r - ?q\<bar> \<le> 1 / 2 \<or> \<bar>of_int (r + 1) - ?q\<bar> \<le> 1 / 2" by (simp add: abs_if) linarith
    then show thesis using that unfolding r_def by blast
  qed
  have u: "?u = pow10 (n - 1) * (1 / 10 ^ 16)"
    using pow10_add [of "n - 1" "- 16"] by (simp add: pow10_def power_int_def power_one_over)
  have "\<bar>of_int s * ?u - x\<bar> = \<bar>of_int s - ?q\<bar> * ?u"
    using abs_mult [of "of_int s - ?q" ?u] by (simp add: left_diff_distrib abs_of_pos)
  also have "\<dots> \<le> 1 / 2 * ?u" using s(2) by (intro mult_right_mono) simp_all
  also have "\<dots> \<le> 1 / 2 * (x * (1 / 10 ^ 16))" unfolding u using n(1) by (intro mult_left_mono mult_right_mono) simp_all
  also have "\<dots> < x * pow2 (- 54)" using x(1) by (simp add: pow2_def power_int_def power_one_over)
  finally have "fl64 (of_int s * ?u) = x" by (rule close_rounds [OF x])
  with s(1) have "s \<in> set (filter (\<lambda>s. fl64 (of_int s * ?u) = x) [\<lfloor>?q\<rfloor>, \<lfloor>?q\<rfloor> + 1])" unfolding set_filter by simp
  then have "filter (\<lambda>s. fl64 (of_int s * ?u) = x) [\<lfloor>?q\<rfloor>, \<lfloor>?q\<rfloor> + 1] \<noteq> []" by (rule list.set_cases) simp_all
  then show ?thesis unfolding digits_try_def Let_def
    by (cases "filter (\<lambda>s. fl64 (of_int s * ?u) = x) [\<lfloor>?q\<rfloor>, \<lfloor>?q\<rfloor> + 1]") (simp_all split: list.splits)
qed

lemma double_exponents:
  assumes "0 < x" and "is_double x" and "x \<le> max_double"
  shows "- 1100 \<le> floorlog2 x" and "floorlog2 x \<le> 1100"
proof -
  obtain n where n: "x = of_int n * pow2 (ulp_exp x)" using double_unit [OF assms(1,2)] .
  then have "1 \<le> n" by (rule unit_positive [OF _ assms(1)])
  then have "pow2 (ulp_exp x) \<le> of_int n * pow2 (ulp_exp x)" by (simp add: mult_le_cancel_right1)
  then have "pow2 (ulp_exp x) \<le> x" using n by simp
  moreover have "x < pow2 (floorlog2 x + 1)" using floorlog2_bounds [OF assms(1)] by simp
  ultimately have "pow2 (ulp_exp x) < pow2 (floorlog2 x + 1)" by linarith
  then show "- 1100 \<le> floorlog2 x" by (simp add: ulp_exp_def)
  have "x < pow2 1024" using assms(3) by (simp add: max_double_def pow2_nat)
  with floorlog2_bounds(1) [OF assms(1)] have "pow2 (floorlog2 x) < pow2 1024" by linarith
  then show "floorlog2 x \<le> 1100" by simp
qed

text \<open>Every positive double has a shortest decimal, and it rounds to the double.\<close>

lemma shortest_digits:
  assumes "0 < x" and "is_double x" and "x \<le> max_double"
  obtains s n k where "pos_rat_str x = digit_layout (int_str s) n" "0 < k"
    "fl64 (of_int s * pow10 (n - int k)) = x" "10 ^ (k - 1) \<le> s" "s < 10 ^ k"
proof -
  note n = dec_exp_bounds [OF assms(1) double_exponents [OF assms]]
  let ?r = "first_some (digits_try x (dec_exp x)) [1..<18]"
  have "?r \<noteq> None" using first_some_None [of "digits_try x (dec_exp x)" "[1..<18]" 17] seventeen_digits [OF assms(1,2) n]
    by fastforce
  then obtain s n' j where r: "?r = Some (s, n', j)" by (metis option.exhaust prod_cases3)
  from first_some_Some [OF this] obtain k where "k \<in> set [1..<18]" and t: "digits_try x (dec_exp x) k = Some (s, n', j)"
    by blast
  then have k: "0 < k" "digits_try x (dec_exp x) k = Some (s, n', j)" by simp_all
  from r that [of s n' k] digits_try_Some [OF n k] k show thesis by (simp add: pos_rat_str_def)
qed

section \<open>Reading the layout\<close>

lemma span_digits_append:
  assumes "list_all is_digit ds" and "rest = [] \<or> \<not> is_digit (hd rest)"
  shows "span_digits (ds @ rest) = (ds, rest)"
proof -
  have "takeWhile is_digit rest = []" "dropWhile is_digit rest = rest" using assms(2) by (cases rest; simp)+
  then show ?thesis using assms(1) by (simp add: span_digits_def list_all_iff)
qed

lemma span_digits_all: "list_all is_digit ds \<Longrightarrow> span_digits ds = (ds, [])"
  using span_digits_append [of ds "[]"] by simp

lemma exp_part_Nil [simp]: "exp_part [] = (0, [])"
  by (simp add: exp_part_def)

lemma exp_part_digits:
  assumes "list_all is_digit ds" and "ds \<noteq> []"
  shows "exp_part (''e'' @ (if 0 \<le> m then ''+'' else ''-'') @ ds)
    = (if 0 \<le> m then digits_val ds else - digits_val ds, [])"
  using assms(2) by (simp add: exp_part_def span_digits_all [OF assms(1)])

lemma not_digits [simp]: "\<not> is_digit (CHR ''e'')" "\<not> is_digit (CHR ''.'')" "is_digit (CHR ''0'')"
  by code_simp+

lemma decimal_prefix_parts:
  assumes "list_all is_digit ip" and "ip \<noteq> []" and "list_all is_digit fp"
    and "rest = [] \<or> hd rest = CHR ''e''" and "exp_part rest = (e, [])"
  shows "decimal_prefix (ip @ ''.'' @ fp @ rest) = Some (of_int (digits_val (ip @ fp)) * pow10 (e - int (length fp)), [])"
    and "decimal_prefix (ip @ rest) = Some (of_int (digits_val ip) * pow10 e, [])"
proof -
  have r: "rest = [] \<or> \<not> is_digit (hd rest)" using assms(4) by auto
  have "span_digits (ip @ CHR ''.'' # fp @ rest) = (ip, CHR ''.'' # fp @ rest)"
    using span_digits_append [OF assms(1), of "CHR ''.'' # fp @ rest"] by simp
  then show "decimal_prefix (ip @ ''.'' @ fp @ rest)
      = Some (of_int (digits_val (ip @ fp)) * pow10 (e - int (length fp)), [])"
    using assms(2,5) span_digits_append [OF assms(3) r] by (simp add: decimal_prefix_def)
  show "decimal_prefix (ip @ rest) = Some (of_int (digits_val ip) * pow10 e, [])"
    using assms(2,4,5) span_digits_append [OF assms(1) r]
    by (cases rest) (simp_all add: decimal_prefix_def)
qed

lemma digits_of_int:
  assumes "10 ^ (k - 1) \<le> s" and "s < 10 ^ k" and "0 < k"
  shows "length (int_str s) = k" and "list_all is_digit (int_str s)" and "digits_val (int_str s) = s"
proof -
  have "(0 :: int) < 10 ^ (k - 1)" by simp
  with assms(1) have pos: "0 < s" by linarith
  then have s: "int_str s = nat_str (nat s)" by (simp add: int_str_def)
  show "list_all is_digit (int_str s)" "digits_val (int_str s) = s" using pos by (simp_all add: s)
  have "nat s < 10 ^ k" using assms(2) pos by (simp add: nat_less_iff)
  then have "length (int_str s) \<le> k" using nat_str_length assms(3) by (simp add: s)
  moreover have "s < 10 ^ length (int_str s)"
    using digits_val_bound [of "int_str s"] pos by (simp add: s)
  then have "(10 :: int) ^ (k - 1) < 10 ^ length (int_str s)" using assms(1) by linarith
  then have "k - 1 < length (int_str s)" by simp
  ultimately show "length (int_str s) = k" using assms(3) by linarith
qed

lemma digits_val_zero: "digits_val (CHR ''0'' # ds) = digits_val ds"
proof -
  have "digit_val (CHR ''0'') = 0" by code_simp
  then show ?thesis by (simp add: digits_val_def)
qed

text \<open>Every layout reads as the digits at their exponent, and starts with a digit.\<close>

lemma layout_reads:
  assumes "list_all is_digit ds" and "ds \<noteq> []"
  shows "decimal_prefix (digit_layout ds n) = Some (of_int (digits_val ds) * pow10 (n - int (length ds)), [])
    \<and> digit_layout ds n \<noteq> [] \<and> is_digit (hd (digit_layout ds n))"
proof -
  define k where "k = int (length ds)"
  define zs where "zs = (\<lambda>j. replicate (nat j) (CHR ''0''))"
  have hd: "is_digit (hd ds)" using assms by (cases ds) simp_all
  have z: "list_all is_digit (zs j)" "digits_val (zs j) = 0" "length (zs j) = nat j" for j by (simp_all add: zs_def)
  note lay = digit_layout_def Let_def zs_def
  consider (whole) "k \<le> n" "n \<le> 21" | (point) "0 < n" "n < k" "n \<le> 21" | (small) "- 6 < n" "n \<le> 0"
    | (exponent) "21 < n \<or> n \<le> - 6" by linarith
  then show ?thesis
  proof cases
    case whole
    then have l: "digit_layout ds n = ds @ zs (n - k)" by (simp add: lay flip: k_def)
    have "digits_val (ds @ zs (n - k)) = digits_val ds * 10 ^ nat (n - k)" by (simp add: digits_val_append z)
    moreover have "pow10 (n - k) = 10 ^ nat (n - k)" using pow10_nat [of "nat (n - k)"] whole by simp
    ultimately show ?thesis
      using decimal_prefix_parts(2) [of "ds @ zs (n - k)" "[]" "[]" 0] assms z hd by (simp add: l k_def pow10_def)
  next
    case point
    let ?a = "take (nat n) ds" and ?b = "drop (nat n) ds"
    have l: "digit_layout ds n = ?a @ ''.'' @ ?b" using point by (simp add: lay flip: k_def)
    have ab: "list_all is_digit ?a" "list_all is_digit ?b" "?a \<noteq> []"
      using assms point by (auto simp: list_all_iff dest: in_set_takeD in_set_dropD)
    have "0 - int (length ?b) = n - k" using point by (simp add: k_def)
    then show ?thesis
      using decimal_prefix_parts(1) [OF ab(1,3,2), of "[]" 0] ab hd assms(2) by (simp add: l k_def hd_append)
  next
    case small
    have nk: "\<not> k \<le> n" using small assms(2) by (cases ds) (simp_all add: k_def)
    have l: "digit_layout ds n = ''0'' @ ''.'' @ (zs (- n) @ ds)" using small nk by (simp add: lay flip: k_def)
    have "list_all is_digit (zs (- n) @ ds)" "0 - int (length (zs (- n) @ ds)) = n - k"
      using assms small by (simp_all add: z k_def)
    moreover have "digits_val (''0'' @ zs (- n) @ ds) = digits_val ds"
      by (simp add: digits_val_zero digits_val_append z)
    ultimately show ?thesis
      using decimal_prefix_parts(1) [of "''0''" "zs (- n) @ ds" "[]" 0] by (simp add: l k_def)
  next
    case exponent
    define m where "m = n - 1"
    define ex where "ex = ''e'' @ (if 0 \<le> m then ''+'' else ''-'') @ nat_str (nat \<bar>m\<bar>)"
    have ne: "nat_str j \<noteq> []" for j by (simp add: nat_str_def)
    have e: "exp_part ex = (m, [])" "hd ex = CHR ''e''"
      using exp_part_digits [OF nat_str_val(2) ne, of m "nat \<bar>m\<bar>"] by (simp_all add: ex_def)
    have k1: "1 \<le> k" using assms(2) by (cases ds) (simp_all add: k_def)
    have a: "list_all is_digit (take 1 ds)" "take 1 ds \<noteq> []" "list_all is_digit (drop 1 ds)"
      using assms by (auto simp: list_all_iff dest: in_set_takeD in_set_dropD)
    show ?thesis
    proof (cases "k = 1")
      case True
      then have l: "digit_layout ds n = ds @ ex" using exponent assms(2) by (auto simp: lay ex_def m_def k_def)
      show ?thesis using decimal_prefix_parts(2) [OF assms [unfolded atomize_conj], of "[]" ex m] e True hd assms
        by (simp add: l m_def k_def)
    next
      case False
      then have l: "digit_layout ds n = take 1 ds @ ''.'' @ drop 1 ds @ ex"
        using exponent k1 by (auto simp: lay ex_def m_def simp flip: k_def)
      have "m - int (length (drop 1 ds)) = n - k" using k1 by (simp add: m_def k_def)
      then show ?thesis using decimal_prefix_parts(1) [OF a, of ex m] e hd a(2) by (simp add: l k_def hd_append)
    qed
  qed
qed

section \<open>Reading a printed double\<close>

definition plain :: "string \<Rightarrow> bool" where
  "plain s \<longleftrightarrow> s \<noteq> [] \<and> list_all (\<lambda>c. \<not> is_space c) s"

lemma plain_trim: "plain s \<Longrightarrow> trim s = s \<and> trim_start s = s"
proof -
  assume p: "plain s"
  have d: "dropWhile is_space t = t" if "list_all (\<lambda>c. \<not> is_space c) t" for t using that by (cases t) simp_all
  have "list_all (\<lambda>c. \<not> is_space c) (rev s)" using p by (simp add: plain_def list_all_iff)
  with p show ?thesis by (simp add: trim_def trim_start_def plain_def d)
qed

lemma digit_not_space: "is_digit c \<Longrightarrow> \<not> is_space c"
  by (auto simp: is_digit_def is_space_def)

lemma layout_plain:
  assumes "list_all is_digit ds" and "ds \<noteq> []"
  shows "plain (digit_layout ds n)"
proof -
  have "\<not> is_space (CHR ''.'')" "\<not> is_space (CHR ''e'')" "\<not> is_space (CHR ''+'')" "\<not> is_space (CHR ''-'')"
    by code_simp+
  moreover have "list_all is_digit (nat_str k)" for k by simp
  ultimately show ?thesis using assms layout_reads [OF assms, of n]
    by (auto simp: plain_def digit_layout_def Let_def list_all_iff digit_not_space dest!: in_set_takeD in_set_dropD)
qed

text \<open>The text of a positive double: it starts with a digit and is a decimal literal that rounds to it.\<close>

lemma pos_rat_str_reads:
  assumes "0 < x" and "is_double x" and "x \<le> max_double"
  obtains v where "decimal_prefix (pos_rat_str x) = Some (v, [])" "fl64 v = x" "plain (pos_rat_str x)"
    "is_digit (hd (pos_rat_str x))"
proof -
  obtain s n k where r: "pos_rat_str x = digit_layout (int_str s) n" "0 < k"
      "fl64 (of_int s * pow10 (n - int k)) = x" "10 ^ (k - 1) \<le> s" "s < 10 ^ k"
    by (rule shortest_digits [OF assms])
  note d = digits_of_int [OF r(4,5,2)]
  have "int_str s \<noteq> []" using d(1) r(2) by auto
  with layout_reads [OF d(2) this, of n] layout_plain [OF d(2) this, of n] r(1,3) that d show thesis by simp
qed

lemma digit_first:
  assumes "s \<noteq> []" and "is_digit (hd s)"
  shows "signed s = (False, s)" and "signed (CHR ''-'' # s) = (True, s)" and "\<not> starts_with s ''Infinity''" and "s \<noteq> ''Infinity''"
  using assms by (cases s; auto simp: signed_def is_digit_def)+

text \<open>Every finite double prints as a decimal that rounds back to it, whichever way it is read.\<close>

lemma num_str_reads:
  assumes "is_double x" and "\<bar>x\<bar> \<le> max_double"
  obtains v where "signed (num_str (Fin x)) = (x < 0, num_str (Fin \<bar>x\<bar>))"
    "decimal_prefix (num_str (Fin \<bar>x\<bar>)) = Some (v, [])" "fl64 (if x < 0 then - v else v) = x"
    "plain (num_str (Fin x))" "num_str (Fin \<bar>x\<bar>) \<noteq> ''Infinity''" "\<not> starts_with (num_str (Fin \<bar>x\<bar>)) ''Infinity''"
proof (cases "x = 0")
  case True
  have "decimal_prefix ''0'' = Some (0, [])" "signed ''0'' = (False, ''0'')" "plain ''0''" "\<not> starts_with ''0'' ''Infinity''"
    by code_simp+
  then show thesis using that [of 0] True fl64.zero by simp
next
  case False
  then have a: "0 < \<bar>x\<bar>" "is_double \<bar>x\<bar>" using assms(1) by (simp_all add: abs_if)
  obtain v where v: "decimal_prefix (pos_rat_str \<bar>x\<bar>) = Some (v, [])" "fl64 v = \<bar>x\<bar>"
      and p: "plain (pos_rat_str \<bar>x\<bar>)" "is_digit (hd (pos_rat_str \<bar>x\<bar>))"
    by (rule pos_rat_str_reads [OF a assms(2)])
  have ne: "pos_rat_str \<bar>x\<bar> \<noteq> []" using p(1) by (simp add: plain_def)
  have "\<not> is_space (CHR ''-'')" by code_simp
  then have "plain (num_str (Fin x))" using p(1) False by (simp add: plain_def abs_if split: if_splits)
  with v that [of v] digit_first [OF ne p(2)] False show thesis by (simp add: fl64_minus abs_if split: if_splits)
qed

lemma num_of_double:
  assumes "fl64 v = x" and "\<bar>x\<bar> \<le> max_double"
  shows "num_of v = Fin x"
  using assms by (simp add: num_of_def Let_def abs_le_iff not_less)

lemma parse_float_num_str:
  assumes "is_double x" and "\<bar>x\<bar> \<le> max_double"
  shows "parse_float (num_str (Fin x)) = Fin x" and "str_num (num_str (Fin x)) = Fin x"
proof -
  obtain v where v: "signed (num_str (Fin x)) = (x < 0, num_str (Fin \<bar>x\<bar>))"
    "decimal_prefix (num_str (Fin \<bar>x\<bar>)) = Some (v, [])" "fl64 (if x < 0 then - v else v) = x"
    "plain (num_str (Fin x))" "num_str (Fin \<bar>x\<bar>) \<noteq> ''Infinity''" "\<not> starts_with (num_str (Fin \<bar>x\<bar>)) ''Infinity''"
    by (rule num_str_reads [OF assms])
  note n = num_of_double [OF v(3) assms(2)] plain_trim [OF v(4)]
  show "parse_float (num_str (Fin x)) = Fin x" using v(1,2,6) n by (simp only: parse_float_def Let_def) simp
  show "str_num (num_str (Fin x)) = Fin x" using v(1,2,4,5) n by (simp only: str_num_def Let_def plain_def) simp
qed

end
