(* ===== verification/Sql_Numeric.thy ===== *)
theory Sql_Numeric
  imports Accounts Js_Decimal
begin

text \<open>
  Columns of type \<open>NUMERIC(p, s)\<close> and their traffic with JavaScript. PostgreSQL keeps a decimal exactly,
  rounded half away from zero to the scale, and refuses what does not fit the precision (22003). The
  driver sends a number as the text JavaScript prints and returns a column as its decimal text, which
  the code reads with \<open>parseFloat\<close> or \<open>parseInt\<close>.
\<close>

definition decimal_text :: "string \<Rightarrow> rat option" where
  "decimal_text s0 =
     (let (neg, r) = signed (trim s0)
      in case decimal_prefix r of
           Some (v, []) \<Rightarrow> Some (if neg then - v else v)
         | _ \<Rightarrow> None)"

definition round_scale :: "nat \<Rightarrow> rat \<Rightarrow> rat" where
  "round_scale s x =
     (let n = \<lfloor>\<bar>x\<bar> * 10 ^ s + 1 / 2\<rfloor> in (if x < 0 then - of_int n else of_int n) / 10 ^ s)"

definition to_numeric :: "nat \<Rightarrow> nat \<Rightarrow> rat \<Rightarrow> service_error + rat" where
  "to_numeric p s x =
     (let r = round_scale s x in if \<bar>r\<bar> < 10 ^ (p - s) then Inr r else Inl (sql_error ''22003''))"

text \<open>A parameter of a statement: null and undefined are NULL; a text that is no decimal is refused
  (the validators of the routes let none through, \<open>NaN\<close> included).\<close>

definition numeric_param :: "nat \<Rightarrow> nat \<Rightarrow> jsval \<Rightarrow> service_error + rat option" where
  "numeric_param p s v =
     (if is_nullish v then Inr None
      else case decimal_text (to_str v) of
             None \<Rightarrow> Inl (sql_error ''22P02'')
           | Some x \<Rightarrow> bind_result (to_numeric p s x) (\<lambda>r. Inr (Some r)))"

text \<open>A computed number: NaN is a value of the column, an infinity does not fit.\<close>

definition numeric_of_num :: "nat \<Rightarrow> nat \<Rightarrow> jnum \<Rightarrow> service_error + jnum" where
  "numeric_of_num p s x =
     (if x = NaN then Inr NaN
      else case decimal_text (num_str x) of
             None \<Rightarrow> Inl (sql_error ''22003'')
           | Some v \<Rightarrow> bind_result (to_numeric p s v) (\<lambda>r. Inr (Fin r)))"

text \<open>An \<open>INTEGER\<close> column.\<close>

definition integer_of_num :: "jnum \<Rightarrow> service_error + int" where
  "integer_of_num x =
     (case x of
        Fin r \<Rightarrow> (if of_int \<lfloor>r\<rfloor> \<noteq> r then Inl (sql_error ''22P02'')
                  else if - (2 ^ 31) \<le> \<lfloor>r\<rfloor> \<and> \<lfloor>r\<rfloor> < 2 ^ 31 then Inr \<lfloor>r\<rfloor> else Inl (sql_error ''22003''))
      | _ \<Rightarrow> Inl (sql_error ''22P02''))"

text \<open>Reading a column back: \<open>parseFloat\<close> and \<open>parseInt\<close> of its decimal text.\<close>

definition float_of :: "rat \<Rightarrow> jnum" where
  "float_of r = num_of r"

definition int_of :: "rat \<Rightarrow> jnum" where
  "int_of r = num_of (of_int (if r < 0 then - \<lfloor>- r\<rfloor> else \<lfloor>r\<rfloor>))"

text \<open>\<open>parseFloat(column || 0)\<close> of a column that may be NULL: the text of a number is truthy.\<close>

definition float_or_zero :: "rat option \<Rightarrow> jnum" where
  "float_or_zero c = (case c of None \<Rightarrow> Fin 0 | Some r \<Rightarrow> float_of r)"

lemma to_numeric_Inr [simp]: "to_numeric p s x = Inr r \<longleftrightarrow> r = round_scale s x \<and> \<bar>r\<bar> < 10 ^ (p - s)"
  by (auto simp: to_numeric_def Let_def)

lemma round_scale_nonneg: "0 \<le> x \<Longrightarrow> 0 \<le> round_scale s x"
  by (simp add: round_scale_def Let_def)

text \<open>A value of the scale is kept.\<close>

lemma round_scale_exact:
  assumes "x * 10 ^ s = of_int n"
  shows "round_scale s x = x"
proof -
  have p: "(0 :: rat) < 10 ^ s" by simp
  have "\<bar>x\<bar> * 10 ^ s = of_int \<bar>n\<bar>" using assms p by (simp add: abs_mult flip: assms)
  moreover have "\<lfloor>(of_int \<bar>n\<bar> :: rat) + 1 / 2\<rfloor> = \<bar>n\<bar>" by (rule floor_unique) linarith+
  ultimately have "\<lfloor>\<bar>x\<bar> * 10 ^ s + 1 / 2\<rfloor> = \<bar>n\<bar>" by (simp only:)
  moreover have "x < 0 \<longleftrightarrow> n < 0"
    using assms p by (metis mult_less_0_iff not_less_iff_gr_or_eq of_int_less_0_iff)
  moreover have "x = of_int n / 10 ^ s" using assms p by (simp add: field_simps)
  ultimately show ?thesis by (simp add: round_scale_def Let_def)
qed

lemma round_scale_error: "\<bar>round_scale s x - x\<bar> * 10 ^ s \<le> 1 / 2"
proof -
  have p: "(0 :: rat) < 10 ^ s" by simp
  define y where "y = \<bar>x\<bar> * 10 ^ s"
  have f: "of_int \<lfloor>y + 1 / 2\<rfloor> \<le> y + 1 / 2" "y + 1 / 2 < of_int \<lfloor>y + 1 / 2\<rfloor> + 1" by linarith+
  then have b: "\<bar>of_int \<lfloor>y + 1 / 2\<rfloor> - y\<bar> \<le> 1 / 2" by linarith
  have "(round_scale s x - x) * 10 ^ s = (if x < 0 then - (of_int \<lfloor>y + 1 / 2\<rfloor> - y) else of_int \<lfloor>y + 1 / 2\<rfloor> - y)"
    using p by (simp add: round_scale_def Let_def y_def field_simps)
  then have "\<bar>(round_scale s x - x) * 10 ^ s\<bar> = \<bar>of_int \<lfloor>y + 1 / 2\<rfloor> - y\<bar>" by (simp add: abs_minus_commute)
  with b show ?thesis using p by (simp add: abs_mult)
qed

section \<open>Storing a double\<close>

lemma decimal_text_num_str:
  assumes "is_double x" and "\<bar>x\<bar> \<le> max_double"
  obtains v where "decimal_text (num_str (Fin x)) = Some v" "fl64 v = x"
proof -
  obtain v where v: "signed (num_str (Fin x)) = (x < 0, num_str (Fin \<bar>x\<bar>))"
    "decimal_prefix (num_str (Fin \<bar>x\<bar>)) = Some (v, [])" "fl64 (if x < 0 then - v else v) = x" "plain (num_str (Fin x))"
    by (rule num_str_reads [OF assms])
  show thesis by (rule that [OF _ v(3)]) (use v(1,2) plain_trim [OF v(4)] in \<open>simp add: decimal_text_def del: num_str.simps\<close>)
qed

lemma fl64_bound:
  assumes "\<bar>fl64 v\<bar> < of_int n" and "0 \<le> n" and "n < 2 ^ 53"
  shows "\<bar>v\<bar> < of_int n"
proof (rule ccontr)
  have n: "fl64 (of_int n) = of_int n" using assms(2,3) by (simp add: fl64.small_int)
  assume "\<not> \<bar>v\<bar> < of_int n"
  then consider "of_int n \<le> v" | "of_int n \<le> - v" by linarith
  then show False
  proof cases
    case 1
    from fl64.mono [OF this] n assms(1) show False by linarith
  next
    case 2
    from fl64.mono [OF this] n assms(1) show False by (simp add: fl64_minus)
  qed
qed

text \<open>A double that leaves room below the precision is stored, rounded once: within half a unit of the
  scale of a decimal that reads as the double.\<close>

lemma numeric_of_double:
  assumes "is_double x" and "\<bar>x\<bar> < of_int n" and "n < 10 ^ (p - s)" and "0 \<le> n" and "n < 2 ^ 53"
  obtains v where "numeric_of_num p s (Fin x) = Inr (Fin (round_scale s v))"
    "numeric_param p s (JNum (Fin x)) = Inr (Some (round_scale s v))" "fl64 v = x"
proof -
  have "of_int n \<le> (of_int (2 ^ 53) :: rat)" unfolding of_int_le_iff using assms(5) by simp
  then have "\<bar>x\<bar> \<le> max_double" using assms(2) by (simp add: max_double_def)
  from decimal_text_num_str [OF assms(1) this] obtain v where v: "decimal_text (num_str (Fin x)) = Some v" "fl64 v = x" .
  have "\<bar>v\<bar> < of_int n" using fl64_bound [OF _ assms(4,5)] assms(2) v(2) by simp
  have e: "\<bar>round_scale s v - v\<bar> * 10 ^ s \<le> 1 / 2" by (rule round_scale_error)
  have "\<bar>round_scale s v - v\<bar> * 1 \<le> \<bar>round_scale s v - v\<bar> * 10 ^ s" by (intro mult_left_mono) simp_all
  then have "\<bar>round_scale s v - v\<bar> \<le> 1 / 2" using e by simp
  with \<open>\<bar>v\<bar> < of_int n\<close> have "\<bar>round_scale s v\<bar> < of_int n + 1" by linarith
  moreover have "of_int (n + 1) \<le> (of_int (10 ^ (p - s)) :: rat)" unfolding of_int_le_iff using assms(3) by linarith
  ultimately have "\<bar>round_scale s v\<bar> < 10 ^ (p - s)" by simp
  then have "numeric_of_num p s (Fin x) = Inr (Fin (round_scale s v))"
      "numeric_param p s (JNum (Fin x)) = Inr (Some (round_scale s v))"
    using v(1) by (simp_all add: numeric_of_num_def numeric_param_def to_numeric_def Let_def del: num_str.simps)
  from that [OF this v(2)] show thesis .
qed

end
