(* ===== verification/Batches.thy ===== *)
theory Batches
  imports Domestic_Compliance Sql_Numeric
begin

text \<open>
  \<open>modules/assessments/batchesService.js\<close>: batches of products, their items and totals, and the
  publication of a batch with the shipment it creates. A function that opens a transaction returns the
  old tables with an error. The domestic check is \<open>Domestic_Compliance\<close>. \<open>Math.sin\<close>, \<open>cos\<close>, \<open>atan2\<close> and
  the power operator are approximations the language leaves open, and \<open>JSON.parse\<close> reads a location
  kept as text: they are the fields of \<open>math_lib\<close> and the argument \<open>parse\<close>.
\<close>

section \<open>Tables\<close>

record batch_row =
  ba_id :: ident
  ba_company :: ident
  ba_name :: jsval
  ba_description :: jsval
  ba_origin :: jsval
  ba_destination :: jsval
  ba_market :: jsval
  ba_modes :: jsval
  ba_status :: string
  ba_shipment :: "ident option"
  ba_products :: nat
  ba_quantity :: rat
  ba_weight :: rat
  ba_co2 :: rat
  ba_by :: "ident option"
  ba_published :: "millis option"
  ba_created :: millis
  ba_updated :: millis

record item_row =
  bi_id :: ident
  bi_batch :: ident
  bi_product :: ident
  bi_quantity :: rat
  bi_weight :: "rat option"
  bi_co2 :: "rat option"
  bi_created :: millis

text \<open>A location's text columns hold what the request gave; a numeric one may hold NaN.\<close>

record shipment_row =
  sh_id :: ident
  sh_company :: ident
  sh_reference :: string
  sh_status :: string
  sh_origin :: "jsval list"
  sh_origin_at :: "rat option \<times> rat option"
  sh_destination :: "jsval list"
  sh_destination_at :: "rat option \<times> rat option"
  sh_weight :: jnum
  sh_distance :: jnum
  sh_co2 :: jnum

record leg_row =
  lg_shipment :: ident
  lg_order :: nat
  lg_mode :: string
  lg_origin :: jsval
  lg_destination :: jsval
  lg_distance :: jnum
  lg_co2 :: jnum
  lg_factor :: jnum

record cargo_row =
  cg_shipment :: ident
  cg_product :: ident
  cg_quantity :: int
  cg_weight :: jnum
  cg_co2 :: jnum

record batch_db =
  bd_compliance :: compliance_db
  bd_batches :: "batch_row list"
  bd_items :: "item_row list"
  bd_shipments :: "shipment_row list"
  bd_legs :: "leg_row list"
  bd_cargo :: "cargo_row list"

type_synonym 'a batch_outcome = "(service_error + 'a) \<times> batch_db"

definition batch_error :: "string \<Rightarrow> service_error" where
  "batch_error c = Service_Error c 500"

definition in_transaction :: "(batch_db \<Rightarrow> service_error + 'a \<times> batch_db) \<Rightarrow> batch_db \<Rightarrow> 'a batch_outcome" where
  "in_transaction work db = (case work db of Inl e \<Rightarrow> (Inl e, db) | Inr (r, db') \<Rightarrow> (Inr r, db'))"

section \<open>Batches\<close>

definition find_batch :: "ident \<Rightarrow> ident \<Rightarrow> batch_db \<Rightarrow> batch_row option" where
  "find_batch i company db = select_one (\<lambda>b. ba_id b = i \<and> ba_company b = company) (bd_batches db)"

text \<open>\<open>ILIKE\<close>: a percent sign matches any text, an underscore any character, a backslash quotes.\<close>

fun like_match :: "string \<Rightarrow> string \<Rightarrow> bool" where
  "like_match [] s = (s = [])"
| "like_match (c # p) s =
     (if c = CHR ''%'' then like_match p s \<or> (case s of [] \<Rightarrow> False | d # r \<Rightarrow> like_match (c # p) r)
      else case s of
             [] \<Rightarrow> False
           | d # r \<Rightarrow>
               (if c = CHR ''_'' then like_match p r
                else if c = char_of (92 :: nat)
                then (case p of [] \<Rightarrow> False | e # q \<Rightarrow> e = d \<and> like_match q r)
                else c = d \<and> like_match p r))"

definition ilike :: "jsval \<Rightarrow> string \<Rightarrow> bool" where
  "ilike column search =
     (case column of JStr s \<Rightarrow> like_match (lower (''%'' @ search @ ''%'')) (lower s) | _ \<Rightarrow> False)"

record batch_page =
  bp_items :: "batch_row list"
  bp_total :: nat
  bp_total_pages :: nat

text \<open>\<open>LIMIT page_size OFFSET (page - 1) * page_size\<close>; the validators keep both positive.\<close>

definition list_batches :: "ident \<Rightarrow> string \<Rightarrow> string \<Rightarrow> nat \<Rightarrow> nat \<Rightarrow> batch_db \<Rightarrow> batch_page" where
  "list_batches company search status page page_size db =
     (let rows = filter (\<lambda>b. ba_company b = company \<and> (status = ''all'' \<or> ba_status b = status)
            \<and> (search = [] \<or> ilike (ba_name b) search \<or> ilike (ba_description b) search)) (bd_batches db)
      in \<lparr>bp_items = take page_size (drop ((page - 1) * page_size) (sort_key (\<lambda>b. - ba_updated b) rows)),
          bp_total = length rows, bp_total_pages = (length rows + page_size - 1) div page_size\<rparr>)"

record item_view =
  iv_id :: ident
  iv_product :: ident
  iv_sku :: string
  iv_name :: string
  iv_type :: "string option"
  iv_quantity :: jnum
  iv_weight :: jnum
  iv_co2 :: jnum

text \<open>\<open>item.co2_per_unit || item.total_co2e || 0\<close>\<close>

definition co2_or_product :: "rat option \<Rightarrow> rat option \<Rightarrow> jnum" where
  "co2_or_product mine product = (case mine of None \<Rightarrow> float_or_zero product | Some r \<Rightarrow> float_of r)"

definition product_of :: "ident \<Rightarrow> batch_db \<Rightarrow> product_row option" where
  "product_of i db = select_one (\<lambda>p. pd_id p = i) (cp_products (bd_compliance db))"

definition items_of :: "ident \<Rightarrow> batch_db \<Rightarrow> item_row list" where
  "items_of batch db = filter (\<lambda>i. bi_batch i = batch) (bd_items db)"

definition item_view_of :: "item_row \<Rightarrow> product_row \<Rightarrow> item_view" where
  "item_view_of i p =
     \<lparr>iv_id = bi_id i, iv_product = bi_product i, iv_sku = pd_sku p, iv_name = pd_name p, iv_type = pd_category p,
      iv_quantity = float_of (bi_quantity i), iv_weight = float_or_zero (bi_weight i),
      iv_co2 = co2_or_product (bi_co2 i) (pd_co2 p)\<rparr>"

definition get_batch_by_id :: "ident \<Rightarrow> ident \<Rightarrow> batch_db \<Rightarrow> (batch_row \<times> item_view list) option" where
  "get_batch_by_id i company db =
     map_option (\<lambda>b. (b, List.map_filter (\<lambda>it. map_option (item_view_of it) (product_of (bi_product it) db))
       (sort_key bi_created (items_of i db)))) (find_batch i company db)"

text \<open>The fields of a request, undefined when absent.\<close>

record batch_data =
  bt_name :: jsval
  bt_description :: jsval
  bt_origin :: jsval
  bt_destination :: jsval
  bt_market :: jsval
  bt_modes :: jsval

definition json_column :: "jsval \<Rightarrow> jsval" where
  "json_column v = (if truthy v then v else JNull)"

definition default_to :: "jsval \<Rightarrow> jsval \<Rightarrow> jsval" where
  "default_to v d = (if v = JUndef then d else v)"

definition create_batch ::
  "millis \<Rightarrow> ident \<Rightarrow> ident \<Rightarrow> ident \<Rightarrow> batch_data \<Rightarrow> batch_db \<Rightarrow> batch_row batch_outcome" where
  "create_batch now i company user d db =
     (let b = \<lparr>ba_id = i, ba_company = company, ba_name = bt_name d, ba_description = default_to (bt_description d) JNull,
            ba_origin = json_column (bt_origin d), ba_destination = json_column (bt_destination d),
            ba_market = default_to (bt_market d) JNull, ba_modes = default_to (bt_modes d) (JArr []),
            ba_status = ''draft'', ba_shipment = None, ba_products = 0, ba_quantity = 0, ba_weight = 0, ba_co2 = 0,
            ba_by = Some user, ba_published = None, ba_created = now, ba_updated = now\<rparr>
      in case unless_violated [(is_nullish (bt_name d), ''23502''), (i \<in> ba_id ` set (bd_batches db), ''23505''),
           (company \<notin> ci_id ` set (cp_companies (bd_compliance db)), ''23503'')]
           (db\<lparr>bd_batches := bd_batches db @ [b]\<rparr>) of
           Inl e \<Rightarrow> (Inl e, db)
         | Inr db' \<Rightarrow> (Inr b, db'))"

text \<open>\<open>change_batch\<close> is the SET clause; a field that is undefined is left alone.\<close>

definition change_batch :: "batch_data \<Rightarrow> batch_row \<Rightarrow> batch_row" where
  "change_batch d b =
     (let set_to = (\<lambda>v col old. if v = JUndef then old else col v)
      in b\<lparr>ba_name := set_to (bt_name d) (\<lambda>v. v) (ba_name b),
           ba_description := set_to (bt_description d) (\<lambda>v. v) (ba_description b),
           ba_origin := set_to (bt_origin d) json_column (ba_origin b),
           ba_destination := set_to (bt_destination d) json_column (ba_destination b),
           ba_market := set_to (bt_market d) (\<lambda>v. v) (ba_market b),
           ba_modes := set_to (bt_modes d) (\<lambda>v. v) (ba_modes b)\<rparr>)"

definition no_changes :: "batch_data \<Rightarrow> bool" where
  "no_changes d = list_all (\<lambda>v. v = JUndef)
     [bt_name d, bt_description d, bt_origin d, bt_destination d, bt_market d, bt_modes d]"

definition update_batch ::
  "millis \<Rightarrow> ident \<Rightarrow> ident \<Rightarrow> batch_data \<Rightarrow> batch_db \<Rightarrow> batch_row option batch_outcome" where
  "update_batch now i company d db =
     (case find_batch i company db of
        None \<Rightarrow> (Inr None, db)
      | Some b \<Rightarrow>
          (if ba_status b \<noteq> ''draft'' then (Inl (batch_error ''BATCH_NOT_EDITABLE''), db)
           else if no_changes d then (Inr (Some (b\<lparr>ba_updated := now\<rparr>)), db)
           else if bt_name d = JNull then (Inl (sql_error ''23502''), db)
           else (Inr (Some ((change_batch d b)\<lparr>ba_updated := now\<rparr>)),
                 db\<lparr>bd_batches := update_where (\<lambda>b. ba_id b = i \<and> ba_company b = company \<and> ba_status b = ''draft'')
                   (\<lambda>b. (change_batch d b)\<lparr>ba_updated := now\<rparr>) (bd_batches db)\<rparr>)))"

definition delete_batch :: "millis \<Rightarrow> ident \<Rightarrow> ident \<Rightarrow> batch_db \<Rightarrow> bool \<times> batch_db" where
  "delete_batch now i company db =
     (let mine = (\<lambda>b. ba_id b = i \<and> ba_company b = company)
      in (0 < matching mine (bd_batches db),
          db\<lparr>bd_batches := update_where mine (\<lambda>b. b\<lparr>ba_status := ''archived'', ba_updated := now\<rparr>) (bd_batches db)\<rparr>))"

section \<open>Items\<close>

definition sum_of :: "(item_row \<Rightarrow> rat option) \<Rightarrow> item_row list \<Rightarrow> rat" where
  "sum_of column items = sum_list (List.map_filter column items)"

definition times_quantity :: "(item_row \<Rightarrow> rat option) \<Rightarrow> item_row \<Rightarrow> rat option" where
  "times_quantity column i = map_option (\<lambda>x. bi_quantity i * x) (column i)"

definition recalculate_totals :: "millis \<Rightarrow> ident \<Rightarrow> batch_db \<Rightarrow> service_error + batch_db" where
  "recalculate_totals now batch db =
     (let items = items_of batch db
      in bind_result (to_numeric 14 2 (sum_of (\<lambda>i. Some (bi_quantity i)) items)) (\<lambda>q.
         bind_result (to_numeric 14 4 (sum_of (times_quantity bi_weight) items)) (\<lambda>w.
         bind_result (to_numeric 14 4 (sum_of (times_quantity bi_co2) items)) (\<lambda>c.
           Inr (db\<lparr>bd_batches := update_where (\<lambda>b. ba_id b = batch)
             (\<lambda>b. b\<lparr>ba_products := length items, ba_quantity := q, ba_weight := w, ba_co2 := c, ba_updated := now\<rparr>)
             (bd_batches db)\<rparr>)))))"

definition editable_batch :: "ident \<Rightarrow> ident \<Rightarrow> batch_db \<Rightarrow> service_error + batch_row" where
  "editable_batch i company db =
     (case find_batch i company db of
        None \<Rightarrow> Inl (batch_error ''BATCH_NOT_FOUND'')
      | Some b \<Rightarrow> if ba_status b \<noteq> ''draft'' then Inl (batch_error ''BATCH_NOT_EDITABLE'') else Inr b)"

record item_data =
  it_quantity :: jsval
  it_weight :: jsval
  it_co2 :: jsval

definition positive_quantity :: "rat option \<Rightarrow> service_error + rat" where
  "positive_quantity q =
     (case q of None \<Rightarrow> Inl (sql_error ''23502'')
      | Some r \<Rightarrow> if 0 < r then Inr r else Inl (sql_error ''23514''))"

text \<open>\<open>itemData.weight_kg || product.weight_kg\<close>: the value of the request when it is truthy.\<close>

definition given_or_product :: "jsval \<Rightarrow> rat option \<Rightarrow> service_error + rat option" where
  "given_or_product v product =
     (if truthy v then numeric_param 14 4 v
      else case product of None \<Rightarrow> Inr None | Some r \<Rightarrow> bind_result (to_numeric 14 4 r) (\<lambda>r. Inr (Some r)))"

definition insert_item :: "item_row \<Rightarrow> batch_db \<Rightarrow> service_error + batch_db" where
  "insert_item it db =
     unless_violated
       [((bi_batch it, bi_product it) \<in> (\<lambda>i. (bi_batch i, bi_product i)) ` set (bd_items db), ''23505'')]
       (db\<lparr>bd_items := bd_items db @ [it]\<rparr>)"

definition add_batch_item ::
  "millis \<Rightarrow> ident \<Rightarrow> ident \<Rightarrow> ident \<Rightarrow> ident \<Rightarrow> item_data \<Rightarrow> batch_db \<Rightarrow> ident batch_outcome" where
  "add_batch_item now i batch company product d = in_transaction (\<lambda>db.
     bind_result (editable_batch batch company db) (\<lambda>_.
       case select_one (\<lambda>p. pd_id p = product \<and> pd_company p = company) (cp_products (bd_compliance db)) of
         None \<Rightarrow> Inl (batch_error ''PRODUCT_NOT_FOUND'')
       | Some p \<Rightarrow>
           bind_result (bind_result (numeric_param 14 2 (it_quantity d)) positive_quantity) (\<lambda>q.
           bind_result (given_or_product (it_weight d) (pd_weight p)) (\<lambda>w.
           bind_result (given_or_product (it_co2 d) (pd_co2 p)) (\<lambda>c.
           bind_result (insert_item \<lparr>bi_id = i, bi_batch = batch, bi_product = product, bi_quantity = q, bi_weight = w,
             bi_co2 = c, bi_created = now\<rparr> db) (\<lambda>db1.
           bind_result (recalculate_totals now batch db1) (\<lambda>db2. Inr (i, db2))))))))"

text \<open>The SET clause of an item: the columns whose field is defined.\<close>

definition item_change :: "item_data \<Rightarrow> service_error + (item_row \<Rightarrow> item_row)" where
  "item_change d =
     bind_result (if it_quantity d = JUndef then Inr None
       else bind_result (bind_result (numeric_param 14 2 (it_quantity d)) positive_quantity) (\<lambda>q. Inr (Some q))) (\<lambda>q.
     bind_result (numeric_param 14 4 (it_weight d)) (\<lambda>w.
     bind_result (numeric_param 14 4 (it_co2 d)) (\<lambda>c.
       Inr (\<lambda>i. i\<lparr>bi_quantity := (case q of None \<Rightarrow> bi_quantity i | Some r \<Rightarrow> r),
         bi_weight := (if it_weight d = JUndef then bi_weight i else w),
         bi_co2 := (if it_co2 d = JUndef then bi_co2 i else c)\<rparr>))))"

definition update_batch_item ::
  "millis \<Rightarrow> ident \<Rightarrow> ident \<Rightarrow> ident \<Rightarrow> item_data \<Rightarrow> batch_db \<Rightarrow> bool batch_outcome" where
  "update_batch_item now batch company product d = in_transaction (\<lambda>db.
     bind_result (editable_batch batch company db) (\<lambda>_.
       let mine = (\<lambda>i. bi_batch i = batch \<and> bi_product i = product)
       in if it_quantity d = JUndef \<and> it_weight d = JUndef \<and> it_co2 d = JUndef then Inr (True, db)
          else if matching mine (bd_items db) = 0 then Inl (batch_error ''BATCH_ITEM_NOT_FOUND'')
          else bind_result (item_change d) (\<lambda>f.
               bind_result (recalculate_totals now batch (db\<lparr>bd_items := update_where mine f (bd_items db)\<rparr>))
                 (\<lambda>db1. Inr (True, db1)))))"

definition delete_batch_item :: "millis \<Rightarrow> ident \<Rightarrow> ident \<Rightarrow> ident \<Rightarrow> batch_db \<Rightarrow> bool batch_outcome" where
  "delete_batch_item now batch company product = in_transaction (\<lambda>db.
     bind_result (editable_batch batch company db) (\<lambda>_.
       let mine = (\<lambda>i. bi_batch i = batch \<and> bi_product i = product)
       in if matching mine (bd_items db) = 0 then Inl (batch_error ''BATCH_ITEM_NOT_FOUND'')
          else bind_result (recalculate_totals now batch (db\<lparr>bd_items := delete_where mine (bd_items db)\<rparr>))
                 (\<lambda>db1. Inr (True, db1))))"

section \<open>The route of a shipment\<close>

record math_lib =
  mt_sin :: "jnum \<Rightarrow> jnum"
  mt_cos :: "jnum \<Rightarrow> jnum"
  mt_atan2 :: "jnum \<Rightarrow> jnum \<Rightarrow> jnum"
  mt_pow :: "jnum \<Rightarrow> jnum \<Rightarrow> jnum"

definition emission_factors :: props where
  "emission_factors = [(''road'', JNum (num_of (12226 / 100000))), (''sea'', JNum (num_of (1612 / 100000))),
     (''air'', JNum (num_of (89939 / 100000))), (''rail'', JNum (num_of (2779 / 100000)))]"

definition mode_aliases :: props where
  "mode_aliases = [(''road'', JStr ''road''), (''truck'', JStr ''road''), (''truck_light'', JStr ''road''),
     (''truck_heavy'', JStr ''road''), (''sea'', JStr ''sea''), (''ship'', JStr ''sea''), (''ocean'', JStr ''sea''),
     (''air'', JStr ''air''), (''flight'', JStr ''air''), (''rail'', JStr ''rail''), (''train'', JStr ''rail'')]"

text \<open>The enum \<open>transport_mode\<close> of the schema.\<close>

definition transport_modes :: "string list" where
  "transport_modes = [''road'', ''sea'', ''air'', ''rail'']"

definition to_number :: "jsval \<Rightarrow> jnum \<Rightarrow> jnum" where
  "to_number v fallback =
     (let x = (case v of JNum n \<Rightarrow> n | _ \<Rightarrow> parse_float (to_str v)) in if is_finite_num x then x else fallback)"

definition parse_json_object :: "(string \<Rightarrow> jsval option) \<Rightarrow> jsval \<Rightarrow> jsval" where
  "parse_json_object parse v =
     (case v of
        JObj ps \<Rightarrow> JObj ps
      | JStr s \<Rightarrow> (if s = [] then JNull else case parse s of Some (JObj ps) \<Rightarrow> JObj ps | _ \<Rightarrow> JNull)
      | _ \<Rightarrow> JNull)"

text \<open>The alias table is an object literal: a name of \<open>Object.prototype\<close> finds a member that is no mode.\<close>

definition normalize_transport_mode :: "jsval \<Rightarrow> jsval" where
  "normalize_transport_mode v =
     jor (table_get mode_aliases (case v of JStr s \<Rightarrow> lower (trim s) | _ \<Rightarrow> [])) JNull"

definition has_coordinates :: "jsval \<Rightarrow> bool" where
  "has_coordinates l =
     (truthy l \<and> is_finite_num (to_number (jget l ''lat'') NaN) \<and> is_finite_num (to_number (jget l ''lng'') NaN))"

definition math_pi :: jnum where
  "math_pi = Fin (884279719003555 / 2 ^ 48)"

definition to_radians :: "jnum \<Rightarrow> jnum" where
  "to_radians x = x * math_pi / Fin 180"

definition haversine :: "math_lib \<Rightarrow> jnum \<Rightarrow> jnum \<Rightarrow> jnum \<Rightarrow> jnum \<Rightarrow> jnum" where
  "haversine m lat1 lng1 lat2 lng2 =
     mt_pow m (mt_sin m (to_radians (lat2 - lat1) / Fin 2)) (Fin 2)
     + mt_cos m (to_radians lat1) * mt_cos m (to_radians lat2)
       * mt_pow m (mt_sin m (to_radians (lng2 - lng1) / Fin 2)) (Fin 2)"

definition distance_km :: "math_lib \<Rightarrow> jsval \<Rightarrow> jsval \<Rightarrow> jnum" where
  "distance_km m origin dest =
     (let lat1 = to_number (jget origin ''lat'') NaN; lng1 = to_number (jget origin ''lng'') NaN;
          lat2 = to_number (jget dest ''lat'') NaN; lng2 = to_number (jget dest ''lng'') NaN;
          a = haversine m lat1 lng1 lat2 lng2
      in if \<not> list_all is_finite_num [lat1, lng1, lat2, lng2] then Fin 0
         else math_max (Fin 0) (Fin 6371 * Fin 2 * mt_atan2 m (math_sqrt a) (math_sqrt (Fin 1 - a))))"

record leg_plan =
  lp_mode :: jsval
  lp_origin :: jsval
  lp_destination :: jsval
  lp_distance :: jnum
  lp_co2 :: jnum
  lp_factor :: jnum

text \<open>The leg, or why there is none.\<close>

definition build_legs :: "math_lib \<Rightarrow> jsval \<Rightarrow> jsval \<Rightarrow> jsval \<Rightarrow> jnum \<Rightarrow> string + leg_plan" where
  "build_legs m modes origin dest weight =
     (case dedupe (filter truthy (map normalize_transport_mode (elements modes))) of
        [] \<Rightarrow> Inl ''MISSING_TRANSPORT_MODE''
      | [mode] \<Rightarrow>
          (let d = distance_km m origin dest; f = to_num (table_get emission_factors (to_str mode))
           in if \<not> has_coordinates origin \<or> \<not> has_coordinates dest \<or> d \<le> Fin 0 then Inl ''MISSING_ROUTE_DISTANCE''
              else Inr \<lparr>lp_mode = mode, lp_origin = jor (jget origin ''city'') (jget origin ''country''),
                lp_destination = jor (jget dest ''city'') (jget dest ''country''), lp_distance = d,
                lp_co2 = math_max (Fin 0) (weight / Fin 1000 * d * f), lp_factor = f\<rparr>)
      | _ \<Rightarrow> Inl ''MISSING_MULTIMODAL_LEG_DISTANCES'')"

section \<open>Publication\<close>

record cargo_plan =
  cl_product :: ident
  cl_quantity :: jnum
  cl_weight :: jnum
  cl_co2 :: jnum

definition cargo_of :: "batch_db \<Rightarrow> item_row \<Rightarrow> cargo_plan" where
  "cargo_of db i =
     \<lparr>cl_product = bi_product i, cl_quantity = int_of (bi_quantity i), cl_weight = float_or_zero (bi_weight i),
      cl_co2 = co2_or_product (bi_co2 i) (Option.bind (product_of (bi_product i) db) pd_co2) * int_of (bi_quantity i)\<rparr>"

text \<open>\<open>parseFloat\<close> of a number goes through its text.\<close>

definition reparse :: "jnum \<Rightarrow> jnum" where
  "reparse x = parse_float (num_str x)"

definition cargo_weight :: "cargo_plan list \<Rightarrow> jnum" where
  "cargo_weight ps = foldl (\<lambda>s p. s + reparse (cl_weight p) * reparse (cl_quantity p)) (Fin 0) ps"

definition reparse_or_zero :: "jnum \<Rightarrow> jnum" where
  "reparse_or_zero x = parse_float (to_str (jor (JNum x) (JNum (Fin 0))))"

definition reference_number :: "int \<Rightarrow> ident \<Rightarrow> batch_db \<Rightarrow> string" where
  "reference_number year company db =
     ''SHIP-'' @ int_str year @ ''-''
       @ pad_start 4 (CHR ''0'') (nat_str (matching (\<lambda>s. sh_company s = company) (bd_shipments db) + 1))"

definition location_texts :: "jsval \<Rightarrow> jsval list" where
  "location_texts l = [jget l ''country'', jor (jget l ''city'') JNull, jor (jget l ''address'') JNull]"

definition location_point :: "jsval \<Rightarrow> service_error + rat option \<times> rat option" where
  "location_point l =
     bind_result (numeric_param 10 7 (jor (jget l ''lat'') JNull)) (\<lambda>lat.
     bind_result (numeric_param 10 7 (jor (jget l ''lng'') JNull)) (\<lambda>lng. Inr (lat, lng)))"

definition cargo_row_of :: "ident \<Rightarrow> cargo_plan \<Rightarrow> service_error + cargo_row" where
  "cargo_row_of i p =
     bind_result (integer_of_num (cl_quantity p)) (\<lambda>q.
     bind_result (numeric_of_num 10 4 (cl_weight p)) (\<lambda>w.
     bind_result (numeric_of_num 12 4 (cl_co2 p)) (\<lambda>c.
       Inr \<lparr>cg_shipment = i, cg_product = cl_product p, cg_quantity = q, cg_weight = w, cg_co2 = c\<rparr>)))"

definition create_shipment ::
  "int \<Rightarrow> ident \<Rightarrow> ident \<Rightarrow> jsval \<Rightarrow> jsval \<Rightarrow> leg_plan \<Rightarrow> cargo_plan list \<Rightarrow> batch_db \<Rightarrow> service_error + batch_db" where
  "create_shipment year i company origin dest leg cargo db =
     bind_result (unless_violated [(lp_mode leg \<notin> JStr ` set transport_modes, ''22P02'')] (to_str (lp_mode leg))) (\<lambda>mode.
     bind_result (location_point origin) (\<lambda>from_at.
     bind_result (location_point dest) (\<lambda>to_at.
     bind_result (numeric_of_num 12 4 (cargo_weight cargo)) (\<lambda>w.
     bind_result (numeric_of_num 12 2 (Fin 0 + reparse_or_zero (lp_distance leg))) (\<lambda>d.
     bind_result (numeric_of_num 12 4 (Fin 0 + reparse_or_zero (lp_co2 leg))) (\<lambda>c.
     bind_result (numeric_of_num 12 2 (lp_distance leg)) (\<lambda>ld.
     bind_result (numeric_of_num 12 4 (lp_co2 leg)) (\<lambda>lc.
     bind_result (numeric_of_num 12 6 (lp_factor leg)) (\<lambda>lf.
     bind_result (traverse (cargo_row_of i) cargo) (\<lambda>rows.
       Inr (db\<lparr>bd_shipments := bd_shipments db @
                [\<lparr>sh_id = i, sh_company = company, sh_reference = reference_number year company db,
                  sh_status = ''pending'', sh_origin = location_texts origin, sh_origin_at = from_at,
                  sh_destination = location_texts dest, sh_destination_at = to_at,
                  sh_weight = w, sh_distance = d, sh_co2 = c\<rparr>],
              bd_legs := bd_legs db @
                [\<lparr>lg_shipment = i, lg_order = 1, lg_mode = mode, lg_origin = lp_origin leg,
                  lg_destination = lp_destination leg, lg_distance = ld, lg_co2 = lc, lg_factor = lf\<rparr>],
              bd_cargo := bd_cargo db @ rows\<rparr>)))))))))))"

text \<open>The shipment of a batch: its id with the new tables, or the reason why there is none.\<close>

definition ship_batch ::
  "math_lib \<Rightarrow> (string \<Rightarrow> jsval option) \<Rightarrow> int \<Rightarrow> ident \<Rightarrow> batch_row \<Rightarrow> batch_db \<Rightarrow>
   service_error + (string + ident) \<times> batch_db" where
  "ship_batch m parse year i b db =
     (let origin = parse_json_object parse (ba_origin b); dest = parse_json_object parse (ba_destination b);
          cargo = map (cargo_of db) (filter (\<lambda>it. product_of (bi_product it) db \<noteq> None) (items_of (ba_id b) db))
      in if \<not> truthy (ba_origin b) \<or> \<not> truthy (ba_destination b) then Inr (Inl ''MISSING_LOGISTICS_DATA'', db)
         else if \<not> truthy (jget origin ''country'') \<or> \<not> truthy (jget dest ''country'')
         then Inr (Inl ''MISSING_LOCATION_COUNTRY'', db)
         else if cargo = [] then Inr (Inl ''MISSING_BATCH_ITEMS'', db)
         else case build_legs m (ba_modes b) origin dest (cargo_weight cargo) of
                Inl why \<Rightarrow> Inr (Inl why, db)
              | Inr leg \<Rightarrow>
                  bind_result (create_shipment year i (ba_company b) origin dest leg cargo db) (\<lambda>db1. Inr (Inr i, db1)))"

record published =
  pu_batch :: batch_row
  pu_shipment :: "string + ident"

definition published_row :: "millis \<Rightarrow> ident option \<Rightarrow> batch_row \<Rightarrow> batch_row" where
  "published_row now shipment b =
     b\<lparr>ba_status := ''published'', ba_published := Some now, ba_updated := now, ba_shipment := shipment\<rparr>"

definition shipment_id :: "string + ident \<Rightarrow> ident option" where
  "shipment_id s = (case s of Inl why \<Rightarrow> None | Inr i \<Rightarrow> Some i)"

text \<open>The checks of a publication, with the tables the domestic check leaves.\<close>

definition publishable_batch ::
  "(string \<Rightarrow> ident) \<Rightarrow> ident \<Rightarrow> ident \<Rightarrow> batch_db \<Rightarrow> service_error + batch_row \<times> batch_db" where
  "publishable_batch fresh i company db =
     (case find_batch i company db of
        None \<Rightarrow> Inl (batch_error ''BATCH_NOT_FOUND'')
      | Some b \<Rightarrow>
          (let (v, c) = validate_domestic_publish fresh company (map bi_product (items_of i db)) (bd_compliance db)
           in if ba_status b = ''published'' then Inl (batch_error ''BATCH_ALREADY_PUBLISHED'')
              else if ba_products b = 0 \<or> items_of i db = [] then Inl (batch_error ''BATCH_EMPTY'')
              else if \<not> vd_success v then Inl (Service_Error ''MISSING_DOMESTIC_DOCUMENTS'' 400)
              else Inr (b, db\<lparr>bd_compliance := c\<rparr>)))"

definition publish_batch ::
  "math_lib \<Rightarrow> (string \<Rightarrow> jsval option) \<Rightarrow> (string \<Rightarrow> ident) \<Rightarrow> millis \<Rightarrow> int \<Rightarrow> ident \<Rightarrow> ident \<Rightarrow> ident \<Rightarrow>
   batch_db \<Rightarrow> published batch_outcome" where
  "publish_batch m parse fresh now year new_shipment i company = in_transaction (\<lambda>db.
     bind_result (publishable_batch fresh i company db) (\<lambda>(b, db1).
     bind_result (ship_batch m parse year new_shipment b db1) (\<lambda>(s, db2).
       Inr (\<lparr>pu_batch = published_row now (shipment_id s) b, pu_shipment = s\<rparr>,
            db2\<lparr>bd_batches := update_where (\<lambda>b. ba_id b = i) (published_row now (shipment_id s)) (bd_batches db2)\<rparr>))))"

end
