(* ===== verification/Products.thy ===== *)
theory Products
  imports Batches
begin

text \<open>
  \<open>deleteProduct\<close> of \<open>modules/products/service.js\<close>: a product is removed for good, with its items in
  every batch, whose totals are recalculated, and its rows in the shipments of the company, of which an
  empty one is deleted and any other gets new totals. It is the one operation outside the batch service
  that writes items and totals of batches. Rows of tables that are not modelled may refer to the product
  or to a shipment and forbid the deletion (\<open>ON DELETE RESTRICT\<close>): \<open>held\<close> is the set of those ids. The
  rest of the product service is not modelled.
\<close>

section \<open>Batches without the product\<close>

definition batches_with :: "ident \<Rightarrow> batch_db \<Rightarrow> ident list" where
  "batches_with product db = dedupe (map bi_batch (filter (\<lambda>i. bi_product i = product) (bd_items db)))"

text \<open>The UPDATE of a batch is the statement \<open>recalculate_totals\<close> of the batch service.\<close>

definition remove_items :: "millis \<Rightarrow> ident \<Rightarrow> batch_db \<Rightarrow> service_error + batch_db" where
  "remove_items now product db =
     fold_result (\<lambda>db b. recalculate_totals now b db)
       (db\<lparr>bd_items := delete_where (\<lambda>i. bi_product i = product) (bd_items db)\<rparr>) (batches_with product db)"

section \<open>Shipments without the product\<close>

definition owned_shipment :: "ident \<Rightarrow> ident \<Rightarrow> batch_db \<Rightarrow> bool" where
  "owned_shipment company i db = (\<exists>s \<in> set (bd_shipments db). sh_id s = i \<and> sh_company s = company)"

definition carries :: "ident \<Rightarrow> ident \<Rightarrow> batch_db \<Rightarrow> cargo_row \<Rightarrow> bool" where
  "carries product company db c = (cg_product c = product \<and> owned_shipment company (cg_shipment c) db)"

definition shipments_with :: "ident \<Rightarrow> ident \<Rightarrow> batch_db \<Rightarrow> ident list" where
  "shipments_with product company db = dedupe (map cg_shipment (filter (carries product company db) (bd_cargo db)))"

text \<open>\<open>SUM\<close> over a column of numerics, among which one may be NaN, stored in a column of two sizes.\<close>

fun fin_part :: "jnum \<Rightarrow> rat" where
  "fin_part (Fin r) = r"
| "fin_part _ = 0"

definition numeric_sum :: "nat \<Rightarrow> nat \<Rightarrow> jnum list \<Rightarrow> service_error + jnum" where
  "numeric_sum p s xs =
     (if NaN \<in> set xs then Inr NaN
      else bind_result (to_numeric p s (sum_list (map fin_part xs))) (\<lambda>r. Inr (Fin r)))"

text \<open>What becomes of a shipment after its rows of the product are gone. A deletion takes the legs with it
  and clears the batch that created the shipment (\<open>ON DELETE CASCADE\<close>, \<open>ON DELETE SET NULL\<close>).\<close>

definition settle_shipment :: "ident set \<Rightarrow> ident \<Rightarrow> batch_db \<Rightarrow> ident \<Rightarrow> service_error + batch_db" where
  "settle_shipment held company db i =
     (let cargo = filter (\<lambda>c. cg_shipment c = i) (bd_cargo db);
          mine = (\<lambda>s. sh_id s = i \<and> sh_company s = company)
      in if cargo = []
         then unless_violated [(i \<in> held, ''23503'')]
           (db\<lparr>bd_shipments := delete_where mine (bd_shipments db),
               bd_legs := delete_where (\<lambda>l. lg_shipment l = i) (bd_legs db),
               bd_batches := update_where (\<lambda>b. ba_shipment b = Some i) (\<lambda>b. b\<lparr>ba_shipment := None\<rparr>) (bd_batches db)\<rparr>)
         else bind_result (numeric_sum 12 4 (map cg_weight cargo)) (\<lambda>w.
              bind_result (numeric_sum 12 4 (map cg_co2 cargo)) (\<lambda>c.
                Inr (db\<lparr>bd_shipments := update_where mine (\<lambda>s. s\<lparr>sh_weight := w, sh_co2 := c\<rparr>) (bd_shipments db)\<rparr>))))"

definition remove_cargo :: "ident set \<Rightarrow> ident \<Rightarrow> ident \<Rightarrow> batch_db \<Rightarrow> service_error + batch_db" where
  "remove_cargo held product company db =
     fold_result (settle_shipment held company)
       (db\<lparr>bd_cargo := delete_where (carries product company db) (bd_cargo db)\<rparr>) (shipments_with product company db)"

section \<open>Deleting a product\<close>

definition remove_product :: "ident set \<Rightarrow> ident \<Rightarrow> ident \<Rightarrow> batch_db \<Rightarrow> service_error + batch_db" where
  "remove_product held product company db =
     unless_violated [(product \<in> held \<or> product \<in> cg_product ` set (bd_cargo db), ''23503'')]
       (db\<lparr>bd_compliance := bd_compliance db
         \<lparr>cp_products := delete_where (\<lambda>p. pd_id p = product \<and> pd_company p = company) (cp_products (bd_compliance db)),
          cp_links := delete_where (\<lambda>l. dl_product l = product) (cp_links (bd_compliance db))\<rparr>\<rparr>)"

text \<open>False is the answer \<open>PRODUCT_NOT_FOUND\<close>, which writes nothing.\<close>

definition delete_product :: "millis \<Rightarrow> ident set \<Rightarrow> ident \<Rightarrow> ident \<Rightarrow> batch_db \<Rightarrow> bool batch_outcome" where
  "delete_product now held product company = in_transaction (\<lambda>db.
     case select_one (\<lambda>p. pd_id p = product \<and> pd_company p = company) (cp_products (bd_compliance db)) of
       None \<Rightarrow> Inr (False, db)
     | Some _ \<Rightarrow>
         bind_result (remove_items now product db) (\<lambda>db1.
         bind_result (remove_cargo held product company db1) (\<lambda>db2.
         bind_result (remove_product held product company db2) (\<lambda>db3. Inr (True, db3)))))"

section \<open>Frames\<close>

lemma settle_shipment_frame:
  assumes "settle_shipment held company db i = Inr db'"
  shows "bd_items db' = bd_items db"
    and "\<exists>f. bd_batches db' = map f (bd_batches db)
      \<and> (\<forall>b. f b = b \<or> f b = b\<lparr>ba_shipment := None\<rparr>)"
proof -
  let ?clear = "\<lambda>b. if ba_shipment b = Some i then b\<lparr>ba_shipment := None\<rparr> else b"
  from assms have "bd_items db' = bd_items db"
    and "bd_batches db' = map (\<lambda>b. b) (bd_batches db) \<or> bd_batches db' = map ?clear (bd_batches db)"
    by (auto simp: settle_shipment_def Let_def update_where_def split: if_splits)
  moreover have "\<forall>b. ?clear b = b \<or> ?clear b = b\<lparr>ba_shipment := None\<rparr>" by simp
  ultimately show "bd_items db' = bd_items db"
    and "\<exists>f. bd_batches db' = map f (bd_batches db) \<and> (\<forall>b. f b = b \<or> f b = b\<lparr>ba_shipment := None\<rparr>)"
    by blast+
qed

text \<open>The deletion of the rows in shipments and of the product clears at most the shipment of a batch.\<close>

lemma remove_cargo_frame:
  assumes "remove_cargo held product company db = Inr db'"
  shows "bd_items db' = bd_items db"
    and "\<exists>f. bd_batches db' = map f (bd_batches db) \<and> (\<forall>b. f b = b \<or> f b = b\<lparr>ba_shipment := None\<rparr>)"
proof -
  let ?P = "\<lambda>d. bd_items d = bd_items db
    \<and> (\<exists>f. bd_batches d = map f (bd_batches db) \<and> (\<forall>b. f b = b \<or> f b = b\<lparr>ba_shipment := None\<rparr>))"
  have "?P db'"
    using assms unfolding remove_cargo_def
  proof (rule fold_result_invariant)
    show "?P (db\<lparr>bd_cargo := delete_where (carries product company db) (bd_cargo db)\<rparr>)"
      by (auto intro: exI [of _ "\<lambda>b. b"])
    fix d i d' assume "settle_shipment held company d i = Inr d'" and d: "?P d"
    note frame = settle_shipment_frame [OF this(1)]
    from d obtain f where f: "bd_batches d = map f (bd_batches db)" "\<And>b. f b = b \<or> f b = b\<lparr>ba_shipment := None\<rparr>"
      by blast
    from frame(2) obtain g where g: "bd_batches d' = map g (bd_batches d)" "\<And>b. g b = b \<or> g b = b\<lparr>ba_shipment := None\<rparr>"
      by blast
    have "g (f b) = b \<or> g (f b) = b\<lparr>ba_shipment := None\<rparr>" for b
      using f(2) [of b] g(2) [of "f b"] by (elim disjE) simp_all
    then have "\<exists>h. bd_batches d' = map h (bd_batches db) \<and> (\<forall>b. h b = b \<or> h b = b\<lparr>ba_shipment := None\<rparr>)"
      using f(1) g(1) by (intro exI [of _ "g \<circ> f"]) simp
    with d frame(1) show "?P d'" by simp
  qed
  then show "bd_items db' = bd_items db"
    and "\<exists>f. bd_batches db' = map f (bd_batches db) \<and> (\<forall>b. f b = b \<or> f b = b\<lparr>ba_shipment := None\<rparr>)"
    by blast+
qed

lemma remove_product_frame:
  assumes "remove_product held product company db = Inr db'"
  shows "bd_items db' = bd_items db" and "bd_batches db' = bd_batches db"
  using assms by (simp_all add: remove_product_def)

end
