(* ===== verification/Batch_Properties.thy ===== *)
theory Batch_Properties
  imports Products
begin

text \<open>
  What holds of batches in every run of the service: the totals of a batch are those of its items; a
  publication had every document the domestic market requires; and what an archived batch still allows.
\<close>

section \<open>The invariant of the tables\<close>

definition totals_of :: "ident \<Rightarrow> item_row list \<Rightarrow> nat \<times> rat \<times> rat \<times> rat" where
  "totals_of i items =
     (let mine = filter (\<lambda>it. bi_batch it = i) items
      in (length mine, round_scale 2 (sum_of (\<lambda>it. Some (bi_quantity it)) mine),
          round_scale 4 (sum_of (times_quantity bi_weight) mine), round_scale 4 (sum_of (times_quantity bi_co2) mine)))"

definition batch_totals :: "batch_row \<Rightarrow> nat \<times> rat \<times> rat \<times> rat" where
  "batch_totals b = (ba_products b, ba_quantity b, ba_weight b, ba_co2 b)"

definition item_pair :: "item_row \<Rightarrow> ident \<times> ident" where
  "item_pair it = (bi_batch it, bi_product it)"

definition totals_ok :: "ident set \<Rightarrow> batch_row list \<Rightarrow> item_row list \<Rightarrow> bool" where
  "totals_ok except bs items = (\<forall>b \<in> set bs. ba_id b \<notin> except \<longrightarrow> batch_totals b = totals_of (ba_id b) items)"

definition items_ok :: "batch_row list \<Rightarrow> item_row list \<Rightarrow> bool" where
  "items_ok bs items =
     (distinct (map item_pair items) \<and> (\<forall>it \<in> set items. 0 < bi_quantity it \<and> bi_batch it \<in> ba_id ` set bs))"

definition rows_ok :: "batch_row list \<Rightarrow> bool" where
  "rows_ok bs = (distinct (map ba_id bs) \<and> (\<forall>b \<in> set bs. ba_status b \<in> {''draft'', ''published'', ''archived''}))"

definition batches_ok :: "batch_db \<Rightarrow> bool" where
  "batches_ok db =
     (rows_ok (bd_batches db) \<and> items_ok (bd_batches db) (bd_items db) \<and> totals_ok {} (bd_batches db) (bd_items db))"

lemma totals_items_of: "totals_of i (bd_items db) = (let mine = items_of i db in
    (length mine, round_scale 2 (sum_of (\<lambda>it. Some (bi_quantity it)) mine),
     round_scale 4 (sum_of (times_quantity bi_weight) mine), round_scale 4 (sum_of (times_quantity bi_co2) mine)))"
  by (simp add: totals_of_def items_of_def)

text \<open>An update of batches that leaves ids and totals alone.\<close>

lemma rows_update:
  assumes "\<And>b. ba_id (f b) = ba_id b"
    and "\<And>b. ba_status b \<in> {''draft'', ''published'', ''archived''} \<Longrightarrow> ba_status (f b) \<in> {''draft'', ''published'', ''archived''}"
    and "rows_ok bs"
  shows "rows_ok (update_where p f bs)" and "ba_id ` set (update_where p f bs) = ba_id ` set bs"
proof -
  have ids: "map ba_id (update_where p f bs) = map ba_id bs" by (rule map_update_where) (rule assms(1))
  then show "ba_id ` set (update_where p f bs) = ba_id ` set bs" by (metis list.set_map)
  show "rows_ok (update_where p f bs)"
    using assms(2,3) ids unfolding rows_ok_def in_update_where Ball_def by metis
qed

lemma batches_update:
  assumes "batches_ok db" and "bd_batches db' = update_where p f (bd_batches db)" and "bd_items db' = bd_items db"
    and "\<And>b. ba_id (f b) = ba_id b \<and> batch_totals (f b) = batch_totals b"
    and "\<And>b. ba_status b \<in> {''draft'', ''published'', ''archived''} \<Longrightarrow> ba_status (f b) \<in> {''draft'', ''published'', ''archived''}"
  shows "batches_ok db'"
proof -
  have r: "rows_ok (bd_batches db)" using assms(1) by (simp add: batches_ok_def)
  have "rows_ok (bd_batches db')" "ba_id ` set (bd_batches db') = ba_id ` set (bd_batches db)"
    unfolding assms(2) by (rule rows_update [OF _ assms(5) r]; simp add: assms(4))+
  moreover have "totals_ok {} (bd_batches db') (bd_items db')"
    using assms(1,4) unfolding assms(2,3) by (auto simp: batches_ok_def totals_ok_def in_update_where)
  ultimately show ?thesis using assms(1) by (simp add: batches_ok_def items_ok_def assms(3))
qed

lemma recalculate_Inr:
  assumes "recalculate_totals now i db = Inr db'"
  shows "bd_items db' = bd_items db" and "\<exists>f. bd_batches db' = update_where (\<lambda>b. ba_id b = i) f (bd_batches db)
    \<and> (\<forall>b. ba_id (f b) = ba_id b \<and> ba_status (f b) = ba_status b \<and> batch_totals (f b) = totals_of i (bd_items db))"
  using assms unfolding totals_items_of by (auto simp: recalculate_totals_def Let_def batch_totals_def)

text \<open>Changing the items of one batch and recalculating it.\<close>

lemma recalculate_ok:
  assumes "batches_ok db" and "items_ok (bd_batches db) items"
    and "\<And>j. j \<noteq> i \<Longrightarrow> filter (\<lambda>it. bi_batch it = j) items = filter (\<lambda>it. bi_batch it = j) (bd_items db)"
    and "recalculate_totals now i (db\<lparr>bd_items := items\<rparr>) = Inr db'"
  shows "batches_ok db'"
proof -
  from recalculate_Inr [OF assms(4)] obtain f where it: "bd_items db' = items"
    and bs: "bd_batches db' = update_where (\<lambda>b. ba_id b = i) f (bd_batches db)"
    and f: "\<And>b. ba_id (f b) = ba_id b" "\<And>b. ba_status (f b) = ba_status b" "\<And>b. batch_totals (f b) = totals_of i items"
    by auto
  have r: "rows_ok (bd_batches db)" using assms(1) by (simp add: batches_ok_def)
  have "rows_ok (bd_batches db')" "ba_id ` set (bd_batches db') = ba_id ` set (bd_batches db)"
    unfolding bs by (rule rows_update [OF f(1) _ r]; simp add: f(2))+
  moreover have "totals_of j items = totals_of j (bd_items db)" if "j \<noteq> i" for j
    using assms(3) [OF that] by (simp add: totals_of_def)
  then have "totals_ok {} (bd_batches db') (bd_items db')"
    using assms(1) f(1,3) unfolding bs it by (auto simp: batches_ok_def totals_ok_def in_update_where)
  ultimately show ?thesis using assms(2) by (simp add: batches_ok_def items_ok_def it)
qed

lemma items_update_ok:
  assumes "items_ok bs items" and "\<And>it. item_pair (f it) = item_pair it"
    and "\<And>it. 0 < bi_quantity it \<Longrightarrow> 0 < bi_quantity (f it)"
  shows "items_ok bs (update_where p f items)"
proof -
  have "map item_pair (update_where p f items) = map item_pair items" by (rule map_update_where) (rule assms(2))
  moreover have "bi_batch (f it) = bi_batch it" for it using assms(2) [of it] by (simp add: item_pair_def)
  ultimately show ?thesis using assms(1,3) by (auto simp: items_ok_def in_update_where)
qed

lemma filter_update_where:
  assumes "\<And>r. p r \<Longrightarrow> \<not> q r \<and> \<not> q (f r)"
  shows "filter q (update_where p f rows) = filter q rows"
  by (induction rows) (auto simp: assms)

lemma filter_delete_where:
  assumes "\<And>r. p r \<Longrightarrow> \<not> q r"
  shows "filter q (delete_where p rows) = filter q rows"
  by (induction rows) (auto simp: assms delete_where_def)

lemma in_transaction_cases:
  assumes "in_transaction work db = (r, db')"
  shows "db' = db \<or> (\<exists>x. work db = Inr (x, db') \<and> r = Inr x)"
  using assms by (auto simp: in_transaction_def split: sum.splits)

lemma positive_quantity_Inr [simp]: "positive_quantity q = Inr r \<longleftrightarrow> q = Some r \<and> 0 < r"
  by (auto simp: positive_quantity_def split: option.splits)

lemma item_change_pair:
  assumes "item_change d = Inr f"
  shows "item_pair (f it) = item_pair it" and "0 < bi_quantity it \<Longrightarrow> 0 < bi_quantity (f it)"
proof -
  obtain q w c where f: "f = (\<lambda>i. i\<lparr>bi_quantity := (case q of None \<Rightarrow> bi_quantity i | Some r \<Rightarrow> r),
      bi_weight := (if it_weight d = JUndef then bi_weight i else w),
      bi_co2 := (if it_co2 d = JUndef then bi_co2 i else c)\<rparr>)"
    and q: "(if it_quantity d = JUndef then Inr None
       else bind_result (bind_result (numeric_param 14 2 (it_quantity d)) positive_quantity) (\<lambda>q. Inr (Some q))) = Inr q"
    using assms unfolding item_change_def bind_result_Inr by blast
  show "item_pair (f it) = item_pair it" by (simp add: f item_pair_def)
  from q have "q = None \<or> (\<exists>r. q = Some r \<and> 0 < r)" by (auto split: if_splits)
  then show "0 < bi_quantity it \<Longrightarrow> 0 < bi_quantity (f it)" by (auto simp: f)
qed

lemma editable_batch_in:
  assumes "editable_batch i company db = Inr b"
  shows "b \<in> set (bd_batches db) \<and> ba_id b = i"
  using assms by (auto simp: editable_batch_def find_batch_def split: option.splits if_splits dest: select_one_Some)

lemma add_batch_item_ok:
  assumes "add_batch_item now i batch company product d db = (r, db')" and "batches_ok db"
  shows "batches_ok db'"
proof -
  let ?it = "\<lambda>q w c. \<lparr>bi_id = i, bi_batch = batch, bi_product = product, bi_quantity = q, bi_weight = w, bi_co2 = c,
    bi_created = now\<rparr>"
  have "db' = db \<or> (\<exists>b q w c. editable_batch batch company db = Inr b \<and> 0 < q
      \<and> (batch, product) \<notin> (\<lambda>i. (bi_batch i, bi_product i)) ` set (bd_items db)
      \<and> recalculate_totals now batch (db\<lparr>bd_items := bd_items db @ [?it q w c]\<rparr>) = Inr db')"
    using in_transaction_cases [OF assms(1) [unfolded add_batch_item_def]]
    by (auto simp: insert_item_def split: option.splits)
  then consider "db' = db"
    | b it where "editable_batch batch company db = Inr b" "bi_batch it = batch" "0 < bi_quantity it"
      "item_pair it \<notin> item_pair ` set (bd_items db)"
      "recalculate_totals now batch (db\<lparr>bd_items := bd_items db @ [it]\<rparr>) = Inr db'"
  proof (elim disjE exE conjE)
    fix b q w c
    assume "editable_batch batch company db = Inr b" "0 < q"
      "(batch, product) \<notin> (\<lambda>i. (bi_batch i, bi_product i)) ` set (bd_items db)"
      "recalculate_totals now batch (db\<lparr>bd_items := bd_items db @ [?it q w c]\<rparr>) = Inr db'"
    then show thesis by (intro that(2) [of b "?it q w c"]) (simp_all add: item_pair_def [abs_def])
  qed (rule that(1))
  then show ?thesis
  proof cases
    case 2
    have "batch \<in> ba_id ` set (bd_batches db)" using editable_batch_in [OF 2(1)] by blast
    with 2 assms(2) have "items_ok (bd_batches db) (bd_items db @ [it])"
      by (auto simp: batches_ok_def items_ok_def)
    from recalculate_ok [OF assms(2) this _ 2(5)] 2(2) show ?thesis by auto
  qed (simp add: assms(2))
qed

lemma update_batch_item_ok:
  assumes "update_batch_item now batch company product d db = (r, db')" and "batches_ok db"
  shows "batches_ok db'"
proof -
  let ?mine = "\<lambda>it. bi_batch it = batch \<and> bi_product it = product"
  from in_transaction_cases [OF assms(1) [unfolded update_batch_item_def]] consider "db' = db"
    | f where "item_change d = Inr f"
      "recalculate_totals now batch (db\<lparr>bd_items := update_where ?mine f (bd_items db)\<rparr>) = Inr db'"
    by (auto simp: Let_def split: if_splits)
  then show ?thesis
  proof cases
    case (2 f)
    have p: "item_pair (f it) = item_pair it" "0 < bi_quantity it \<Longrightarrow> 0 < bi_quantity (f it)" for it
      using item_change_pair [OF 2(1)] by auto
    have "bi_batch (f it) = bi_batch it" for it using p(1) [of it] by (simp add: item_pair_def)
    then have "filter (\<lambda>it. bi_batch it = j) (update_where ?mine f (bd_items db))
        = filter (\<lambda>it. bi_batch it = j) (bd_items db)" if "j \<noteq> batch" for j
      using that by (intro filter_update_where) auto
    moreover have "items_ok (bd_batches db) (update_where ?mine f (bd_items db))"
      using assms(2) p by (intro items_update_ok) (simp_all add: batches_ok_def)
    ultimately show ?thesis using recalculate_ok [OF assms(2) _ _ 2(2)] by blast
  qed (simp add: assms(2))
qed

lemma delete_batch_item_ok:
  assumes "delete_batch_item now batch company product db = (r, db')" and "batches_ok db"
  shows "batches_ok db'"
proof -
  let ?mine = "\<lambda>it. bi_batch it = batch \<and> bi_product it = product"
  from in_transaction_cases [OF assms(1) [unfolded delete_batch_item_def]] consider "db' = db"
    | "recalculate_totals now batch (db\<lparr>bd_items := delete_where ?mine (bd_items db)\<rparr>) = Inr db'"
    by (auto simp: Let_def split: if_splits)
  then show ?thesis
  proof cases
    case 2
    have "items_ok (bd_batches db) (delete_where ?mine (bd_items db))"
      using assms(2) by (auto simp: batches_ok_def items_ok_def distinct_delete_where)
    moreover have "filter (\<lambda>it. bi_batch it = j) (delete_where ?mine (bd_items db))
        = filter (\<lambda>it. bi_batch it = j) (bd_items db)" if "j \<noteq> batch" for j
      using that by (intro filter_delete_where) auto
    ultimately show ?thesis using recalculate_ok [OF assms(2) _ _ 2] by blast
  qed (simp add: assms(2))
qed

section \<open>The domestic check\<close>

lemma map_filter_Nil [simp]: "List.map_filter f xs = [] \<longleftrightarrow> (\<forall>x \<in> set xs. f x = None)"
  by (auto simp: List.map_filter_def filter_empty_conv)

lemma product_gaps_Nil: "product_gaps docs links reqs ps = [] \<longleftrightarrow>
    (\<forall>p \<in> set ps. \<forall>r \<in> set reqs. missing_for docs links p r = None)"
  by (simp add: product_gaps_def Let_def)

lemma add_placeholders_rows:
  "\<exists>ds. add_placeholders fresh company market seen reqs docs = docs @ map (placeholder fresh company market) ds
     \<and> (\<forall>d \<in> set ds. d \<in> set reqs \<and> normalize_document_code (rd_code d) \<noteq> []
          \<and> normalize_document_code (rd_code d) \<notin> set seen)"
proof (induction fresh company market seen reqs docs rule: add_placeholders.induct)
  case (2 fresh company market seen d ds docs)
  let ?c = "normalize_document_code (rd_code d)"
  show ?case
  proof (cases "?c = [] \<or> ?c \<in> set seen")
    case True
    from 2(1) [OF refl True] obtain es where
      "add_placeholders fresh company market seen ds docs = docs @ map (placeholder fresh company market) es"
      "\<forall>e \<in> set es. e \<in> set ds \<and> normalize_document_code (rd_code e) \<noteq> []
         \<and> normalize_document_code (rd_code e) \<notin> set seen"
      by blast
    with True show ?thesis by (intro exI [of _ es]) (simp add: Let_def)
  next
    case False
    from 2(2) [OF refl False] obtain es where
      "add_placeholders fresh company market (?c # seen) ds (docs @ [placeholder fresh company market d])
         = (docs @ [placeholder fresh company market d]) @ map (placeholder fresh company market) es"
      "\<forall>e \<in> set es. e \<in> set ds \<and> normalize_document_code (rd_code e) \<noteq> []
         \<and> normalize_document_code (rd_code e) \<notin> set (?c # seen)"
      by blast
    with False show ?thesis by (intro exI [of _ "d # es"]) (auto simp: Let_def)
  qed
qed (simp add: exI [of _ "[]"])

text \<open>The requirement as the check reads it: a document of the company for the market with the code, that
  is uploaded or approved, linked to the product, with a path of its own or kept by the link.\<close>

definition documented :: "ident \<Rightarrow> string \<Rightarrow> compliance_db \<Rightarrow> product_row \<Rightarrow> required_document \<Rightarrow> bool" where
  "documented company market db p r =
     (\<exists>d \<in> set (cp_documents db). \<exists>l \<in> set (cp_links db).
        dc_company d = company \<and> upper (dc_market d) = market
        \<and> normalize_document_code (code_column d) = normalize_document_code (rd_code r)
        \<and> normalize_document_code (dc_status d) \<in> set done_statuses
        \<and> dl_company l = company \<and> dl_product l = pd_id p \<and> dl_document l = dc_id d
        \<and> (has_path (dc_key d) \<or> has_path (dl_key l)))"

lemma missing_for_None:
  assumes "missing_for docs links p r = None"
  obtains d l where "document_of (normalize_document_code (rd_code r)) docs = Some d"
    "link_of (pd_id p) (dc_id d) links = Some l" "normalize_document_code (dc_status d) \<in> set done_statuses"
    "has_path (dc_key d) \<or> has_path (dl_key l)"
  using assms by (auto simp: missing_for_def Let_def split: option.splits if_splits)

lemma missing_status: "normalize_document_code ''missing'' \<notin> set done_statuses"
  by code_simp

lemma no_gaps_no_placeholders:
  assumes "m = normalize_market_code market"
    and "db1 = ensure_placeholders fresh company market reqs db"
    and "docs = required_rows company m (required_codes reqs) (cp_documents db1)"
    and "product_gaps docs links reqs ps = []" and "ps \<noteq> []"
  shows "db1 = db"
proof -
  let ?codes = "required_codes reqs"
  let ?seen = "map (\<lambda>d. normalize_document_code (code_column d)) (required_rows company m ?codes (cp_documents db))"
  from add_placeholders_rows obtain ds where
    add: "add_placeholders fresh company m ?seen reqs (cp_documents db)
      = cp_documents db @ map (placeholder fresh company m) ds"
    and ds: "\<forall>d \<in> set ds. d \<in> set reqs \<and> normalize_document_code (rd_code d) \<noteq> []
      \<and> normalize_document_code (rd_code d) \<notin> set ?seen"
    by blast
  have db1: "db1 = db \<or> db1 = db\<lparr>cp_documents := cp_documents db @ map (placeholder fresh company m) ds\<rparr>"
    using add by (auto simp: assms(1,2) ensure_placeholders_def Let_def)
  show ?thesis
  proof (rule ccontr)
    assume new: "db1 \<noteq> db"
    with db1 have rows: "cp_documents db1 = cp_documents db @ map (placeholder fresh company m) ds" "ds \<noteq> []"
      by (auto intro: ccontr)
    then obtain d where d: "d \<in> set ds" by (meson last_in_set)
    let ?c = "normalize_document_code (rd_code d)"
    obtain p where p: "p \<in> set ps" using assms(5) by (meson last_in_set)
    from assms(4) p ds d have "missing_for docs links p d = None" by (simp add: product_gaps_Nil)
    then obtain x where x: "document_of ?c docs = Some x" "normalize_document_code (dc_status x) \<in> set done_statuses"
      by (rule missing_for_None)
    from x(1) have in_docs: "x \<in> set docs" and code: "normalize_document_code (code_column x) = ?c"
      by (auto simp: document_of_def dest: select_one_Some)
    have "?c \<notin> (\<lambda>d. normalize_document_code (code_column d)) ` set (required_rows company m ?codes (cp_documents db))"
      using ds d by simp
    with code have "x \<notin> set (required_rows company m ?codes (cp_documents db))" by (metis imageI)
    with in_docs rows have "x \<in> placeholder fresh company m ` set ds" by (auto simp: assms(3) required_rows_def)
    then have "dc_status x = ''missing''" by (auto simp: placeholder_def Let_def)
    with x(2) missing_status show False by simp
  qed
qed

lemma supported_market: "normalize_domestic_market v w \<in> set supported_markets"
proof -
  have "set (normalize_target_markets w) \<subseteq> set supported_markets" by (auto simp: normalize_target_markets_def)
  then show ?thesis
    by (cases "normalize_target_markets w") (auto simp: normalize_domestic_market_def supported_markets_def)
qed

lemma supported_normalized: "list_all (\<lambda>m. normalize_market_code m = m) supported_markets"
  by code_simp

lemma resolved_market: "normalize_market_code (resolve_domestic_market company cs) = resolve_domestic_market company cs"
  using supported_normalized supported_market
  by (auto simp: resolve_domestic_market_def list_all_iff split: option.splits)

lemma validate_success:
  assumes "validate_domestic_publish fresh company ids db = (v, db')" and "vd_success v"
  defines "market \<equiv> resolve_domestic_market company (cp_companies db)"
  shows "db' = db"
    and "p \<in> set (company_products company (normalize_id_list ids) (cp_products db)) \<Longrightarrow>
      r \<in> set (list_required_documents market (cp_requirements db)) \<Longrightarrow> documented company market db p r"
proof -
  let ?ps = "company_products company (normalize_id_list ids) (cp_products db)"
  let ?reqs = "list_required_documents market (cp_requirements db)"
  let ?docs = "\<lambda>db. required_rows company market (required_codes ?reqs) (cp_documents db)"
  let ?links = "\<lambda>db1. filter (\<lambda>l. dl_company l = company \<and> dl_product l \<in> pd_id ` set ?ps
      \<and> dl_document l \<in> dc_id ` set (?docs db1)) (cp_links db1)"
  have res: "db' = db \<and> (?reqs = [] \<or> product_gaps (?docs db) (?links db) ?reqs ?ps = [])"
  proof (cases "?reqs = []")
    case True
    then show ?thesis using assms(1,2) unfolding market_def
      by (auto simp: validate_domestic_publish_def Let_def split: if_splits)
  next
    case False
    with assms(1,2) have *: "db' = ensure_placeholders fresh company market ?reqs db" "?ps \<noteq> []"
      "product_gaps (?docs db') (?links db') ?reqs ?ps = []"
      unfolding market_def by (auto simp: validate_domestic_publish_def Let_def split: if_splits)
    have "market = normalize_market_code market" by (simp add: market_def resolved_market)
    from no_gaps_no_placeholders [OF this *(1) refl *(3) *(2)] have "db' = db" .
    with * show ?thesis by simp
  qed
  then show "db' = db" by simp
  assume p: "p \<in> set ?ps" and r: "r \<in> set ?reqs"
  then have "missing_for (?docs db) (?links db) p r = None" using res by (auto simp: product_gaps_Nil)
  then obtain d l where d: "document_of (normalize_document_code (rd_code r)) (?docs db) = Some d"
    and l: "link_of (pd_id p) (dc_id d) (?links db) = Some l"
    and ok: "normalize_document_code (dc_status d) \<in> set done_statuses" "has_path (dc_key d) \<or> has_path (dl_key l)"
    by (rule missing_for_None)
  have "d \<in> set (cp_documents db)" "dc_company d = company" "upper (dc_market d) = market"
    "normalize_document_code (code_column d) = normalize_document_code (rd_code r)"
    using select_one_Some [OF d [unfolded document_of_def]] by (auto simp: required_rows_def)
  moreover have "l \<in> set (cp_links db)" "dl_company l = company" "dl_product l = pd_id p" "dl_document l = dc_id d"
    using select_one_Some [OF l [unfolded link_of_def]] by auto
  ultimately show "documented company market db p r" using ok unfolding documented_def by blast
qed

section \<open>Publication\<close>

lemma publishable_elim:
  assumes "publishable_batch fresh i company db = Inr (b, db1)"
  obtains v c where "find_batch i company db = Some b" "ba_status b \<noteq> ''published''" "ba_products b \<noteq> 0"
    "items_of i db \<noteq> []" "vd_success v" "db1 = db\<lparr>bd_compliance := c\<rparr>"
    "validate_domestic_publish fresh company (map bi_product (items_of i db)) (bd_compliance db) = (v, c)"
  using assms by (auto simp: publishable_batch_def split: option.splits prod.splits if_splits)

lemma publishable_same: "publishable_batch fresh i company db = Inr (b, db1) \<Longrightarrow> db1 = db"
  by (erule publishable_elim) (simp add: validate_success(1))

lemma traverse_cargo:
  "traverse (cargo_row_of i) ps = Inr rows \<Longrightarrow>
   traverse (cargo_row_of j) ps = Inr (map (cg_shipment_update (\<lambda>_. j)) rows)"
  by (induction ps arbitrary: rows) (auto simp: cargo_row_of_def)

text \<open>What a shipment adds, whatever the tables, the id and the year.\<close>

definition ship_rows ::
  "ident \<Rightarrow> string \<Rightarrow> shipment_row \<Rightarrow> leg_row \<Rightarrow> cargo_row list \<Rightarrow> batch_db \<Rightarrow> batch_db" where
  "ship_rows i ref s l cs db =
     db\<lparr>bd_shipments := bd_shipments db @ [s\<lparr>sh_id := i, sh_reference := ref\<rparr>],
        bd_legs := bd_legs db @ [l\<lparr>lg_shipment := i\<rparr>], bd_cargo := bd_cargo db @ map (cg_shipment_update (\<lambda>_. i)) cs\<rparr>"

lemma create_shipment_rows:
  assumes "create_shipment year i company origin dest leg cargo db = Inr db1"
  obtains s l cs where
    "\<And>year i db. create_shipment year i company origin dest leg cargo db
       = Inr (ship_rows i (reference_number year company db) s l cs db)"
proof -
  from assms obtain mode from_at to_at w d c ld lc lf rows where
    r: "unless_violated [(lp_mode leg \<notin> JStr ` set transport_modes, ''22P02'')] (to_str (lp_mode leg)) = Inr mode"
      "location_point origin = Inr from_at" "location_point dest = Inr to_at"
      "numeric_of_num 12 4 (cargo_weight cargo) = Inr w"
      "numeric_of_num 12 2 (Fin 0 + reparse_or_zero (lp_distance leg)) = Inr d"
      "numeric_of_num 12 4 (Fin 0 + reparse_or_zero (lp_co2 leg)) = Inr c"
      "numeric_of_num 12 2 (lp_distance leg) = Inr ld" "numeric_of_num 12 4 (lp_co2 leg) = Inr lc"
      "numeric_of_num 12 6 (lp_factor leg) = Inr lf" "traverse (cargo_row_of i) cargo = Inr rows"
    unfolding create_shipment_def bind_result_Inr by blast
  note cs = traverse_cargo [OF r(10)]
  show thesis
    by (rule that [of "\<lparr>sh_id = [], sh_company = company, sh_reference = [], sh_status = ''pending'',
        sh_origin = location_texts origin, sh_origin_at = from_at, sh_destination = location_texts dest,
        sh_destination_at = to_at, sh_weight = w, sh_distance = d, sh_co2 = c\<rparr>"
        "\<lparr>lg_shipment = [], lg_order = 1, lg_mode = mode, lg_origin = lp_origin leg, lg_destination = lp_destination leg,
          lg_distance = ld, lg_co2 = lc, lg_factor = lf\<rparr>" rows])
      (unfold create_shipment_def r cs bind_result.simps, simp add: ship_rows_def)
qed

text \<open>Shipping reads the locations and modes of the batch, its items and the products.\<close>

lemma ship_batch_cases:
  assumes "ship_batch m parse year i b db = Inr (s, db1)"
  obtains why where "s = Inl why" "db1 = db"
  | r l cs where "s = Inr i" "db1 = ship_rows i (reference_number year (ba_company b) db) r l cs db"
    "\<And>year i b' db'. ba_origin b' = ba_origin b \<Longrightarrow> ba_destination b' = ba_destination b \<Longrightarrow>
       ba_modes b' = ba_modes b \<Longrightarrow> ba_id b' = ba_id b \<Longrightarrow> ba_company b' = ba_company b \<Longrightarrow>
       bd_items db' = bd_items db \<Longrightarrow> bd_compliance db' = bd_compliance db \<Longrightarrow>
       ship_batch m parse year i b' db'
         = Inr (Inr i, ship_rows i (reference_number year (ba_company b) db') r l cs db')"
proof -
  let ?o = "parse_json_object parse (ba_origin b)" and ?d = "parse_json_object parse (ba_destination b)"
  let ?cargo = "\<lambda>db. map (cargo_of db) (filter (\<lambda>it. product_of (bi_product it) db \<noteq> None) (items_of (ba_id b) db))"
  show thesis
  proof (cases "\<exists>why. s = Inl why \<and> db1 = db")
    case True
    with that(1) show thesis by blast
  next
    case False
    with assms obtain leg where checks: "truthy (ba_origin b)" "truthy (ba_destination b)" "truthy (jget ?o ''country'')"
        "truthy (jget ?d ''country'')" "?cargo db \<noteq> []"
      and leg: "build_legs m (ba_modes b) ?o ?d (cargo_weight (?cargo db)) = Inr leg"
      and new: "create_shipment year i (ba_company b) ?o ?d leg (?cargo db) db = Inr db1" and s: "s = Inr i"
      unfolding ship_batch_def Let_def by (auto split: if_splits sum.splits)
    obtain r l cs where rows: "\<And>year i db'. create_shipment year i (ba_company b) ?o ?d leg (?cargo db) db'
        = Inr (ship_rows i (reference_number year (ba_company b) db') r l cs db')"
      using create_shipment_rows [OF new] by blast
    have "ship_batch m parse year i b' db' = Inr (Inr i, ship_rows i (reference_number year (ba_company b) db') r l cs db')"
      if same: "ba_origin b' = ba_origin b" "ba_destination b' = ba_destination b" "ba_modes b' = ba_modes b"
        "ba_id b' = ba_id b" "ba_company b' = ba_company b" "bd_items db' = bd_items db"
        "bd_compliance db' = bd_compliance db" for year i b' db'
    proof -
      have p: "product_of k db' = product_of k db" for k by (simp add: product_of_def same)
      then have "cargo_of db' = cargo_of db" by (simp add: fun_eq_iff cargo_of_def)
      then have "?cargo db' = ?cargo db" by (simp add: p items_of_def same)
      with checks leg rows [of year i db'] show ?thesis by (simp add: ship_batch_def Let_def same)
    qed
    moreover have "db1 = ship_rows i (reference_number year (ba_company b) db) r l cs db"
      using new rows [of year i db] by simp
    ultimately show thesis using that(2) s by blast
  qed
qed

lemma publish_elim:
  assumes "publish_batch m parse fresh now year k i company db = (Inr p, db')"
  obtains b s db2 where "publishable_batch fresh i company db = Inr (b, db)"
    "ship_batch m parse year k b db = Inr (s, db2)"
    "p = \<lparr>pu_batch = published_row now (shipment_id s) b, pu_shipment = s\<rparr>"
    "db' = db2\<lparr>bd_batches := update_where (\<lambda>b. ba_id b = i) (published_row now (shipment_id s)) (bd_batches db2)\<rparr>"
proof -
  from assms obtain b db1 s db2 where w: "publishable_batch fresh i company db = Inr (b, db1)"
    "ship_batch m parse year k b db1 = Inr (s, db2)"
    "p = \<lparr>pu_batch = published_row now (shipment_id s) b, pu_shipment = s\<rparr>"
    "db' = db2\<lparr>bd_batches := update_where (\<lambda>b. ba_id b = i) (published_row now (shipment_id s)) (bd_batches db2)\<rparr>"
    by (auto simp: publish_batch_def in_transaction_def split: sum.splits)
  from publishable_same [OF w(1)] w that show thesis by blast
qed

lemma ship_rows_frame [simp]:
  "bd_batches (ship_rows i ref s l cs db) = bd_batches db" "bd_items (ship_rows i ref s l cs db) = bd_items db"
  "bd_compliance (ship_rows i ref s l cs db) = bd_compliance db"
  "bd_shipments (ship_rows i ref s l cs db) = bd_shipments db @ [s\<lparr>sh_id := i, sh_reference := ref\<rparr>]"
  by (simp_all add: ship_rows_def)

lemma ship_batch_frame:
  assumes "ship_batch m parse year i b db = Inr (s, db1)"
  shows "bd_batches db1 = bd_batches db" "bd_items db1 = bd_items db" "bd_compliance db1 = bd_compliance db"
  by (rule ship_batch_cases [OF assms]; simp)+

lemma publish_refused: "publish_batch m parse fresh now year k i company db = (Inl e, db') \<Longrightarrow> db' = db"
  by (auto simp: publish_batch_def in_transaction_def split: sum.splits)

lemma publish_ok:
  assumes "publish_batch m parse fresh now year k i company db = (r, db')" and "batches_ok db"
  shows "batches_ok db'"
proof (cases r)
  case (Inl e)
  from publish_refused [OF assms(1) [unfolded Inl]] assms(2) show ?thesis by simp
next
  case (Inr p)
  obtain b s db2 where
    s: "ship_batch m parse year k b db = Inr (s, db2)" and
    db': "db' = db2\<lparr>bd_batches := update_where (\<lambda>b. ba_id b = i) (published_row now (shipment_id s)) (bd_batches db2)\<rparr>"
    by (rule publish_elim [OF assms(1) [unfolded Inr]])
  show ?thesis
    by (rule batches_update [OF assms(2), where f = "published_row now (shipment_id s)"])
      (use ship_batch_frame [OF s] in \<open>simp_all add: db' published_row_def batch_totals_def\<close>)
qed

section \<open>Runs\<close>

text \<open>The operations of the batch service, the deletion of a product, which removes items and recalculates
  batches too, and \<open>outside\<close>: every other statement of the program. None of them writes an item or the
  totals of a batch; deleting a shipment or a user clears the column of a batch that refers to it.\<close>

inductive batch_step :: "math_lib \<Rightarrow> (string \<Rightarrow> jsval option) \<Rightarrow> batch_db \<Rightarrow> batch_db \<Rightarrow> bool" for m parse where
  created: "create_batch now i company user d db = (r, db') \<Longrightarrow> batch_step m parse db db'"
| updated: "update_batch now i company d db = (r, db') \<Longrightarrow> batch_step m parse db db'"
| archived: "delete_batch now i company db = (r, db') \<Longrightarrow> batch_step m parse db db'"
| item_added: "add_batch_item now i batch company product d db = (r, db') \<Longrightarrow> batch_step m parse db db'"
| item_updated: "update_batch_item now batch company product d db = (r, db') \<Longrightarrow> batch_step m parse db db'"
| item_deleted: "delete_batch_item now batch company product db = (r, db') \<Longrightarrow> batch_step m parse db db'"
| published: "publish_batch m parse fresh now year k i company db = (r, db') \<Longrightarrow> batch_step m parse db db'"
| product_deleted: "delete_product now held product company db = (r, db') \<Longrightarrow> batch_step m parse db db'"
| outside: "bd_items db' = bd_items db \<Longrightarrow> bd_batches db' = map f (bd_batches db) \<Longrightarrow>
    (\<And>b. f b \<in> {b, b\<lparr>ba_shipment := None\<rparr>, b\<lparr>ba_by := None\<rparr>}) \<Longrightarrow> batch_step m parse db db'"

lemma create_batch_ok:
  assumes "create_batch now i company user d db = (r, db')" and "batches_ok db"
  shows "batches_ok db'"
proof (cases "db' = db")
  case False
  with assms(1) obtain b where new: "db' = db\<lparr>bd_batches := bd_batches db @ [b]\<rparr>" "ba_id b = i"
      "i \<notin> ba_id ` set (bd_batches db)" "ba_status b = ''draft''" "batch_totals b = (0, 0, 0, 0)"
    by (auto simp: create_batch_def Let_def batch_totals_def split: sum.splits)
  have "filter (\<lambda>it. bi_batch it = i) (bd_items db) = []"
    using assms(2) new(3) by (auto simp: batches_ok_def items_ok_def filter_empty_conv)
  then have "totals_of i (bd_items db) = (0, 0, 0, 0)"
    using round_scale_exact [of 0 _ 0] by (simp add: totals_of_def sum_of_def)
  with assms(2) new show ?thesis
    by (auto simp: batches_ok_def rows_ok_def items_ok_def totals_ok_def)
qed (simp add: assms(2))

lemma change_batch_frame: "ba_id (change_batch d b) = ba_id b" "batch_totals (change_batch d b) = batch_totals b"
  "ba_status (change_batch d b) = ba_status b"
  by (simp_all add: change_batch_def Let_def batch_totals_def)

lemma update_batch_ok:
  assumes "update_batch now i company d db = (r, db')" and "batches_ok db"
  shows "batches_ok db'"
proof (cases "db' = db")
  case False
  have t: "batch_totals (b\<lparr>ba_updated := now\<rparr>) = batch_totals b" for b by (simp add: batch_totals_def)
  from False assms(1) have db': "db' = db\<lparr>bd_batches := update_where (\<lambda>b. ba_id b = i \<and> ba_company b = company
      \<and> ba_status b = ''draft'') (\<lambda>b. (change_batch d b)\<lparr>ba_updated := now\<rparr>) (bd_batches db)\<rparr>"
    by (auto simp: update_batch_def split: option.splits if_splits)
  show ?thesis
    by (rule batches_update [OF assms(2), where f = "\<lambda>b. (change_batch d b)\<lparr>ba_updated := now\<rparr>"])
      (simp_all add: db' change_batch_frame t)
qed (simp add: assms(2))

lemma delete_batch_ok:
  assumes "delete_batch now i company db = (r, db')" and "batches_ok db"
  shows "batches_ok db'"
  by (rule batches_update [OF assms(2), where f = "\<lambda>b. b\<lparr>ba_status := ''archived'', ba_updated := now\<rparr>"])
    (use assms(1) in \<open>auto simp: delete_batch_def Let_def batch_totals_def\<close>)

text \<open>A statement that changes at most columns outside the key, the status and the totals of a batch.\<close>

lemma references_cleared_ok:
  assumes "batches_ok db" and "bd_items db' = bd_items db" and "bd_batches db' = map f (bd_batches db)"
    and "\<And>b. f b \<in> {b, b\<lparr>ba_shipment := None\<rparr>, b\<lparr>ba_by := None\<rparr>}"
  shows "batches_ok db'"
proof -
  have "ba_id (f b) = ba_id b \<and> batch_totals (f b) = batch_totals b \<and> ba_status (f b) = ba_status b" for b
    using assms(4) [of b] by (auto simp: batch_totals_def)
  then show ?thesis
    by (intro batches_update [OF assms(1), where p = "\<lambda>b. True" and f = f])
      (simp_all add: assms(2,3) update_where_def)
qed

text \<open>Deleting a product: the batches it was in are recalculated one by one, until none is stale.\<close>

definition recalculated :: "ident set \<Rightarrow> batch_db \<Rightarrow> bool" where
  "recalculated stale db =
     (rows_ok (bd_batches db) \<and> items_ok (bd_batches db) (bd_items db) \<and> totals_ok stale (bd_batches db) (bd_items db))"

lemma recalculate_one:
  assumes "recalculated stale db" and "recalculate_totals now i db = Inr db'"
  shows "recalculated (stale - {i}) db'"
proof -
  from recalculate_Inr [OF assms(2)] obtain f where it: "bd_items db' = bd_items db"
    and bs: "bd_batches db' = update_where (\<lambda>b. ba_id b = i) f (bd_batches db)"
    and f: "\<And>b. ba_id (f b) = ba_id b" "\<And>b. ba_status (f b) = ba_status b"
      "\<And>b. batch_totals (f b) = totals_of i (bd_items db)"
    by auto
  have r: "rows_ok (bd_batches db)" using assms(1) by (simp add: recalculated_def)
  have "rows_ok (bd_batches db')" "ba_id ` set (bd_batches db') = ba_id ` set (bd_batches db)"
    unfolding bs by (rule rows_update [OF f(1) _ r]; simp add: f(2))+
  moreover have "totals_ok (stale - {i}) (bd_batches db') (bd_items db')"
    unfolding totals_ok_def
  proof (intro ballI impI)
    fix b assume "b \<in> set (bd_batches db')" and b: "ba_id b \<notin> stale - {i}"
    then obtain b0 where b0: "b0 \<in> set (bd_batches db)" "b = (if ba_id b0 = i then f b0 else b0)"
      unfolding bs in_update_where by auto
    show "batch_totals b = totals_of (ba_id b) (bd_items db')"
    proof (cases "ba_id b0 = i")
      case False
      with b b0 assms(1) show ?thesis by (simp add: recalculated_def totals_ok_def it)
    qed (simp add: b0(2) f(1,3) it)
  qed
  ultimately show ?thesis using assms(1) by (simp add: recalculated_def items_ok_def it)
qed

lemma recalculate_all:
  "recalculated stale db \<Longrightarrow> fold_result (\<lambda>db b. recalculate_totals now b db) db is = Inr db' \<Longrightarrow>
   recalculated (stale - set is) db'"
proof (induction "is" arbitrary: stale db)
  case (Cons i js)
  from Cons.prems(2) obtain db1 where "recalculate_totals now i db = Inr db1"
    and "fold_result (\<lambda>db b. recalculate_totals now b db) db1 js = Inr db'"
    by auto
  from Cons.IH [OF recalculate_one [OF Cons.prems(1) this(1)] this(2)] show ?case
    by (simp add: Diff_insert2 [symmetric])
qed simp

lemma remove_items_ok:
  assumes "remove_items now product db = Inr db'" and "batches_ok db"
  shows "batches_ok db'"
proof -
  let ?items = "delete_where (\<lambda>i. bi_product i = product) (bd_items db)"
  have "filter (\<lambda>it. bi_batch it = j) ?items = filter (\<lambda>it. bi_batch it = j) (bd_items db)"
    if "j \<notin> set (batches_with product db)" for j
    unfolding delete_where_def filter_filter
    by (rule filter_cong) (use that in \<open>auto simp: batches_with_def\<close>)
  then have "totals_of j ?items = totals_of j (bd_items db)" if "j \<notin> set (batches_with product db)" for j
    using that by (simp add: totals_of_def)
  then have "totals_ok (set (batches_with product db)) (bd_batches db) ?items"
    using assms(2) by (auto simp: batches_ok_def totals_ok_def)
  then have "recalculated (set (batches_with product db)) (db\<lparr>bd_items := ?items\<rparr>)"
    using assms(2) by (auto simp: recalculated_def batches_ok_def items_ok_def distinct_delete_where)
  from recalculate_all [OF this assms(1) [unfolded remove_items_def]] show ?thesis
    by (simp add: recalculated_def batches_ok_def)
qed

lemma delete_product_ok:
  assumes "delete_product now held product company db = (r, db')" and "batches_ok db"
  shows "batches_ok db'"
proof -
  from in_transaction_cases [OF assms(1) [unfolded delete_product_def]] consider "db' = db"
    | db1 db2 where "remove_items now product db = Inr db1" "remove_cargo held product company db1 = Inr db2"
      "remove_product held product company db2 = Inr db'"
    by (auto split: option.splits)
  then show ?thesis
  proof cases
    case 2
    from remove_items_ok [OF 2(1) assms(2)] have one: "batches_ok db1" .
    from remove_cargo_frame [OF 2(2)] obtain f where f: "bd_items db2 = bd_items db1"
      "bd_batches db2 = map f (bd_batches db1)" "\<And>b. f b = b \<or> f b = b\<lparr>ba_shipment := None\<rparr>"
      by blast
    have "batches_ok db2" by (rule references_cleared_ok [OF one f(1,2)]) (use f(3) in blast)
    then show ?thesis using remove_product_frame [OF 2(3)] by (simp add: batches_ok_def)
  qed (simp add: assms(2))
qed

lemma batch_step_ok: "batch_step m parse db db' \<Longrightarrow> batches_ok db \<Longrightarrow> batches_ok db'"
proof (induction rule: batch_step.induct)
  case (outside db' db f)
  show ?case by (rule references_cleared_ok [OF outside(4,1,2,3)])
qed (erule (1) create_batch_ok update_batch_ok delete_batch_ok add_batch_item_ok update_batch_item_ok
       delete_batch_item_ok publish_ok delete_product_ok)+

lemma batch_run_ok:
  assumes "(batch_step m parse)\<^sup>*\<^sup>* db db'" and "batches_ok db"
  shows "batches_ok db'"
  using assms by (induction rule: rtranclp_induct) (auto intro: batch_step_ok)

text \<open>C20: in every run of the batch service, of deletions of products and of whatever else the program
  does, the totals of every batch, whatever its state, are the count, the quantity, the weight and the
  emissions of its items, rounded once to the scale of the column; a product is in a batch at most once,
  with a positive quantity.\<close>

theorem batch_totals_are_items:
  assumes "(batch_step m parse)\<^sup>*\<^sup>* db0 db" and "bd_batches db0 = []" and "bd_items db0 = []"
    and "b \<in> set (bd_batches db)"
  shows "batch_totals b = totals_of (ba_id b) (bd_items db) \<and> distinct (map bi_product (items_of (ba_id b) db))
    \<and> list_all (\<lambda>it. 0 < bi_quantity it) (items_of (ba_id b) db)"
proof -
  have "batches_ok db0" using assms(2,3) by (simp add: batches_ok_def rows_ok_def items_ok_def totals_ok_def)
  with assms(1) have ok: "batches_ok db" by (rule batch_run_ok)
  then have "inj_on item_pair (set (items_of (ba_id b) db))" "distinct (items_of (ba_id b) db)"
    by (auto simp: batches_ok_def items_ok_def items_of_def distinct_map inj_on_def)
  then have "inj_on bi_product (set (items_of (ba_id b) db))"
    by (auto simp: inj_on_def item_pair_def items_of_def)
  with \<open>distinct (items_of (ba_id b) db)\<close> have "distinct (map bi_product (items_of (ba_id b) db))"
    by (simp add: distinct_map)
  with ok assms(4) show ?thesis by (auto simp: batches_ok_def items_ok_def totals_ok_def list_all_iff items_of_def)
qed

text \<open>C16: a batch is published only when it is not empty and every product of the company in it has every
  document its domestic market requires, uploaded or approved and linked to the product; a publication,
  refused or not, leaves the documents as they were: the placeholders of missing documents are
  inserted only when the check then refuses, and are rolled back with it.\<close>

theorem publication_documented:
  assumes "publish_batch m parse fresh now year k i company db = (r, db')"
  shows "bd_compliance db' = bd_compliance db
    \<and> (\<forall>pu market. r = Inr pu \<and> market = resolve_domestic_market company (cp_companies (bd_compliance db)) \<longrightarrow>
        items_of i db \<noteq> [] \<and>
        (\<forall>p \<in> set (cp_products (bd_compliance db)). \<forall>req \<in> set (list_required_documents market (cp_requirements (bd_compliance db))).
           pd_company p = company \<and> pd_id p \<noteq> [] \<and> pd_id p \<in> trim ` bi_product ` set (items_of i db) \<longrightarrow>
           documented company market (bd_compliance db) p req))"
proof (cases r)
  case (Inl e)
  from publish_refused [OF assms [unfolded Inl]] Inl show ?thesis by simp
next
  case (Inr pu)
  obtain b s db2 where b: "publishable_batch fresh i company db = Inr (b, db)"
    and s: "ship_batch m parse year k b db = Inr (s, db2)"
    and db': "db' = db2\<lparr>bd_batches := update_where (\<lambda>b. ba_id b = i) (published_row now (shipment_id s)) (bd_batches db2)\<rparr>"
    by (rule publish_elim [OF assms [unfolded Inr]])
  obtain v c where items: "items_of i db \<noteq> []" and ok: "vd_success v"
    and v: "validate_domestic_publish fresh company (map bi_product (items_of i db)) (bd_compliance db) = (v, c)"
    by (rule publishable_elim [OF b])
  have "documented company market (bd_compliance db) p req"
    if "p \<in> set (cp_products (bd_compliance db))" "pd_company p = company" "pd_id p \<noteq> []"
      "pd_id p \<in> trim ` bi_product ` set (items_of i db)" "req \<in> set (list_required_documents market (cp_requirements (bd_compliance db)))"
      "market = resolve_domestic_market company (cp_companies (bd_compliance db))" for p req market
    using validate_success(2) [OF v ok, of p req] that
    by (simp add: company_products_def normalize_id_list_def image_image)
  with items show ?thesis using ship_batch_frame [OF s] by (auto simp: db')
qed

section \<open>A batch that is archived\<close>

lemma select_update_where:
  assumes "\<And>r. p r \<Longrightarrow> q (f r) = q r"
  shows "select_one q (update_where p f rows) = map_option (\<lambda>r. if p r then f r else r) (select_one q rows)"
  by (induction rows) (auto simp: assms)

lemma find_batch_update:
  assumes "find_batch i company db = Some b" and "bd_batches db' = update_where p f (bd_batches db)"
    and "\<And>b. ba_id (f b) = ba_id b \<and> ba_company (f b) = ba_company b"
  shows "find_batch i company db' = Some (if p b then f b else b)"
proof -
  have "select_one (\<lambda>b. ba_id b = i \<and> ba_company b = company) (update_where p f (bd_batches db))
      = map_option (\<lambda>r. if p r then f r else r) (select_one (\<lambda>b. ba_id b = i \<and> ba_company b = company) (bd_batches db))"
    by (rule select_update_where) (simp add: assms(3))
  with assms(1,2) show ?thesis by (simp add: find_batch_def)
qed

text \<open>C37: an archived batch can be published again, and ships again: after a publication that created a
  shipment, deleting the batch and publishing it a second time always succeeds and adds a second
  shipment of the same goods with the same emissions.\<close>

theorem archived_batch_ships_twice:
  assumes "publish_batch m parse fresh now year k1 i company db = (Inr p, db1)" and "pu_shipment p = Inr k1"
    and "delete_batch now' i company db1 = (found, db2)"
  shows "\<exists>p' db3 s. publish_batch m parse fresh now'' year' k2 i company db2 = (Inr p', db3) \<and> pu_shipment p' = Inr k2
    \<and> bd_shipments db3 = bd_shipments db @ [s\<lparr>sh_id := k1, sh_reference := reference_number year company db\<rparr>,
        s\<lparr>sh_id := k2, sh_reference := reference_number year' company db2\<rparr>]"
proof -
  obtain b s dbs where b: "publishable_batch fresh i company db = Inr (b, db)"
    and s: "ship_batch m parse year k1 b db = Inr (s, dbs)"
    and p: "p = \<lparr>pu_batch = published_row now (shipment_id s) b, pu_shipment = s\<rparr>"
    and db1: "db1 = dbs\<lparr>bd_batches := update_where (\<lambda>b. ba_id b = i) (published_row now (shipment_id s)) (bd_batches dbs)\<rparr>"
    by (rule publish_elim [OF assms(1)])
  obtain v c where found: "find_batch i company db = Some b" "ba_products b \<noteq> 0" "items_of i db \<noteq> []"
    and v: "vd_success v" "validate_domestic_publish fresh company (map bi_product (items_of i db)) (bd_compliance db) = (v, c)"
    by (rule publishable_elim [OF b])
  have co: "ba_company b = company" using select_one_Some [OF found(1) [unfolded find_batch_def]] by simp
  obtain r l cs where dbs: "dbs = ship_rows k1 (reference_number year company db) r l cs db"
    and again: "\<And>year i b' db'. ba_origin b' = ba_origin b \<Longrightarrow> ba_destination b' = ba_destination b \<Longrightarrow>
       ba_modes b' = ba_modes b \<Longrightarrow> ba_id b' = ba_id b \<Longrightarrow> ba_company b' = ba_company b \<Longrightarrow>
       bd_items db' = bd_items db \<Longrightarrow> bd_compliance db' = bd_compliance db \<Longrightarrow>
       ship_batch m parse year i b' db' = Inr (Inr i, ship_rows i (reference_number year company db') r l cs db')"
    using assms(2) p co by (auto intro: ship_batch_cases [OF s])
  let ?p = "published_row now (shipment_id s)" and ?a = "\<lambda>b. b\<lparr>ba_status := ''archived'', ba_updated := now'\<rparr>"
  have db2: "bd_items db2 = bd_items db" "bd_compliance db2 = bd_compliance db"
      "bd_batches db2 = update_where (\<lambda>b. ba_id b = i \<and> ba_company b = company) ?a (bd_batches db1)"
      "bd_shipments db2 = bd_shipments db @ [r\<lparr>sh_id := k1, sh_reference := reference_number year company db\<rparr>]"
    using assms(3) unfolding delete_batch_def Let_def by (auto simp: db1 dbs)
  have "find_batch i company db1 = Some (if ba_id b = i then ?p b else b)"
    by (rule find_batch_update [OF found(1), where f = ?p and p = "\<lambda>b. ba_id b = i"])
      (simp_all add: db1 dbs published_row_def)
  from find_batch_update [OF this db2(3)] obtain b2 where b2: "find_batch i company db2 = Some b2"
      "ba_status b2 = ''archived''" "ba_products b2 = ba_products b" "ba_origin b2 = ba_origin b"
      "ba_destination b2 = ba_destination b" "ba_modes b2 = ba_modes b" "ba_id b2 = ba_id b" "ba_company b2 = ba_company b"
    using select_one_Some [OF found(1) [unfolded find_batch_def]] by (simp add: published_row_def)
  have c: "c = bd_compliance db" using validate_success(1) [OF v(2,1)] .
  have items: "items_of i db2 = items_of i db" by (simp add: items_of_def db2)
  have pub: "publishable_batch fresh i company db2 = Inr (b2, db2)"
    using found v b2 by (simp add: publishable_batch_def items db2 c)
  have ship: "ship_batch m parse year' k2 b2 db2 = Inr (Inr k2, ship_rows k2 (reference_number year' company db2) r l cs db2)"
    by (rule again) (simp_all add: b2 db2)
  let ?p2 = "published_row now'' (Some k2)"
  have "publish_batch m parse fresh now'' year' k2 i company db2
      = (Inr \<lparr>pu_batch = ?p2 b2, pu_shipment = Inr k2\<rparr>,
         (ship_rows k2 (reference_number year' company db2) r l cs db2)\<lparr>bd_batches :=
            update_where (\<lambda>b. ba_id b = i) ?p2 (bd_batches db2)\<rparr>)"
    by (simp add: publish_batch_def in_transaction_def pub ship shipment_id_def)
  then show ?thesis by (intro exI conjI) (assumption | simp add: db2)+
qed

section \<open>Witnesses\<close>

definition demo_math :: math_lib where
  "demo_math = \<lparr>mt_sin = (\<lambda>x. Fin 0), mt_cos = (\<lambda>x. Fin 1), mt_atan2 = (\<lambda>y x. Fin 1), mt_pow = (\<lambda>x y. Fin 0)\<rparr>"

definition demo_place :: "string \<Rightarrow> jsval" where
  "demo_place country = JObj [(''country'', JStr country), (''lat'', JNum (Fin 1)), (''lng'', JNum (Fin 2))]"

definition demo_batch :: batch_row where
  "demo_batch = \<lparr>ba_id = ''b'', ba_company = ''c'', ba_name = JStr ''B'', ba_description = JNull,
     ba_origin = demo_place ''VN'', ba_destination = demo_place ''US'', ba_market = JNull,
     ba_modes = JArr [JStr ''sea''], ba_status = ''draft'', ba_shipment = None, ba_products = 1, ba_quantity = 2,
     ba_weight = 20, ba_co2 = 6, ba_by = None, ba_published = None, ba_created = 0, ba_updated = 0\<rparr>"

definition demo_compliance :: compliance_db where
  "demo_compliance =
     \<lparr>cp_companies = [\<lparr>ci_id = ''c'', ci_name = ''C'', ci_business = ''brand'', ci_domestic = ''VN'', ci_targets = []\<rparr>],
      cp_products = [\<lparr>pd_id = ''p'', pd_company = ''c'', pd_sku = ''S'', pd_name = ''P'', pd_category = None,
        pd_weight = Some 10, pd_co2 = Some 3\<rparr>],
      cp_requirements = [\<lparr>rq_market = ''VN'', rq_code = ''eia'', rq_name = ''E'', rq_required = True, rq_active = True\<rparr>],
      cp_documents = [\<lparr>dc_id = ''d'', dc_company = ''c'', dc_market = ''VN'', dc_code = Some ''eia'', dc_name = ''E'',
        dc_status = ''approved'', dc_key = Some ''k''\<rparr>],
      cp_links = [\<lparr>dl_id = ''l'', dl_company = ''c'', dl_product = ''p'', dl_document = ''d'', dl_market = ''VN'',
        dl_key = None, dl_source = ''manual'', dl_by = None\<rparr>]\<rparr>"

definition demo_item :: item_row where
  "demo_item = \<lparr>bi_id = ''i'', bi_batch = ''b'', bi_product = ''p'', bi_quantity = 2, bi_weight = Some 10, bi_co2 = Some 3,
     bi_created = 0\<rparr>"

definition demo_batches :: batch_db where
  "demo_batches = \<lparr>bd_compliance = demo_compliance, bd_batches = [demo_batch], bd_items = [demo_item],
     bd_shipments = [], bd_legs = [], bd_cargo = []\<rparr>"

text \<open>A number that is finite, at least zero and at most a bound.\<close>

definition num_upto :: "int \<Rightarrow> jnum \<Rightarrow> bool" where
  "num_upto n x \<longleftrightarrow> (\<exists>r. x = Fin r \<and> is_double r \<and> 0 \<le> r \<and> r \<le> of_int n)"

lemma num_upto_of:
  assumes "0 \<le> a" and "a \<le> of_int n" and "\<bar>n\<bar> < 2 ^ 53"
  shows "num_upto n (num_of a)"
proof -
  have "num_of a \<le> Fin (of_int n)" using num_of_mono [OF assms(2)] num_of_small_int [OF assms(3)] by simp
  moreover have "not_negative (num_of a)" using assms(1) by (rule num_of_nonneg)
  moreover have "num_of a = Fin r \<Longrightarrow> is_double r" for r by (auto simp: num_of_def Let_def split: if_splits)
  ultimately show ?thesis by (cases "num_of a") (auto simp: num_upto_def num_simps not_negative_less)
qed

lemma num_upto_mul:
  assumes "num_upto m x" and "num_upto n y" and "\<bar>m * n\<bar> < 2 ^ 53"
  shows "num_upto (m * n) (x * y)"
proof -
  obtain a b where a: "x = Fin a" "0 \<le> a" "a \<le> of_int m" and b: "y = Fin b" "0 \<le> b" "b \<le> of_int n"
    using assms(1,2) by (auto simp: num_upto_def)
  have "a * b \<le> of_int m * of_int n" using a b by (intro mult_mono) linarith+
  then have "num_upto (m * n) (num_of (a * b))" using a b assms(3) by (intro num_upto_of) simp_all
  then show ?thesis by (simp add: a b num_simps)
qed

lemma num_upto_div:
  assumes "num_upto m x" and "\<bar>m\<bar> < 2 ^ 53" and "1 \<le> c"
  shows "num_upto m (x / Fin c)"
proof -
  obtain a where a: "x = Fin a" "0 \<le> a" "a \<le> of_int m" using assms(1) by (auto simp: num_upto_def)
  have "of_int m * 1 \<le> of_int m * c" using a(2,3) assms(3) by (intro mult_left_mono) linarith+
  then have "a \<le> of_int m * c" using a(3) by linarith
  then have "a / c \<le> of_int m" using assms(3) by (simp add: divide_le_eq)
  then have "num_upto m (num_of (a / c))" using a(2) assms(2,3) by (intro num_upto_of) simp_all
  then show ?thesis using assms(3) by (simp add: a num_simps)
qed

lemma num_upto_stored:
  assumes "num_upto n x" and "n + 1 < 10 ^ (p - s)" and "n + 1 < 2 ^ 53"
  obtains r where "numeric_of_num p s x = Inr (Fin r)"
    "numeric_param p s (JNum x) = Inr (Some r)"
proof -
  obtain a where a: "x = Fin a" "is_double a" "0 \<le> a" "a \<le> of_int n" using assms(1) by (auto simp: num_upto_def)
  have "\<bar>a\<bar> < of_int (n + 1)" "0 \<le> n + 1" using a(3,4) by simp_all
  with numeric_of_double [OF a(2) _ assms(2) _ assms(3)] a(1) that show thesis by metis
qed

lemma num_upto_reparse: "num_upto n x \<Longrightarrow> n < 2 ^ 53 \<Longrightarrow> reparse x = x"
proof -
  assume "num_upto n x" "n < 2 ^ 53"
  then obtain a where a: "x = Fin a" "is_double a" "0 \<le> a" "a \<le> of_int n" by (auto simp: num_upto_def)
  have "of_int n \<le> (of_int (2 ^ 53) :: rat)" unfolding of_int_le_iff using \<open>n < 2 ^ 53\<close> by simp
  then have "\<bar>a\<bar> \<le> max_double" using a by (simp add: max_double_def)
  with parse_float_num_str(1) [OF a(2)] show ?thesis by (simp add: reparse_def a(1) del: num_str.simps)
qed

lemma num_upto_int: "0 \<le> n \<Longrightarrow> n \<le> m \<Longrightarrow> m < 2 ^ 53 \<Longrightarrow> num_upto m (Fin (of_int n))"
  using num_upto_of [of "of_int n" m] num_of_small_int [of n] by simp

lemma demo_numbers: "num_upto 1 (Fin 1)" "num_upto 2 (Fin 2)" "num_upto 10 (Fin 10)" "num_upto 20 (Fin 20)" "num_upto 12742 (Fin 12742)"
    "num_upto 6 (Fin 6)" "num_of 3 = Fin 3" "num_of 6 = Fin 6" "num_of 1 = Fin 1" "num_of 2 = Fin 2" "num_of 10 = Fin 10" "num_of 20 = Fin 20" "num_of 12742 = Fin 12742"
  using num_upto_int [of 1 1] num_upto_int [of 2 2] num_upto_int [of 10 10] num_upto_int [of 20 20]
    num_upto_int [of 12742 12742] num_of_small_int [of 1] num_upto_int [of 6 6] num_of_small_int [of 3] num_of_small_int [of 6] num_of_small_int [of 2] num_of_small_int [of 10]
    num_of_small_int [of 20] num_of_small_int [of 12742] by simp_all

lemma demo_factor: "\<exists>f. to_num (table_get emission_factors ''sea'') = f \<and> num_upto 1 f"
proof -
  have "num_upto 1 (num_of (1612 / 100000))" by (rule num_upto_of) simp_all
  moreover have "table_get emission_factors ''sea'' = JNum (num_of (1612 / 100000))"
    by (simp add: emission_factors_def table_get_def)
  ultimately show ?thesis by simp
qed

lemma demo_distance: "distance_km demo_math (demo_place a) (demo_place b) = Fin 12742"
proof -
  have "haversine demo_math x y z w = Fin 0" for x y z w
    using demo_numbers by (simp add: haversine_def demo_math_def num_simps)
  then show ?thesis using demo_numbers
    by (simp add: distance_km_def demo_place_def Let_def to_number_def demo_math_def num_simps math_max_def)
qed

lemma demo_coordinates: "has_coordinates (demo_place a)"
  by (simp add: has_coordinates_def demo_place_def to_number_def)

lemma demo_leg: "\<exists>l. build_legs demo_math (JArr [JStr ''sea'']) (demo_place a) (demo_place b) (Fin 20) = Inr l
  \<and> lp_mode l = JStr ''sea'' \<and> lp_distance l = Fin 12742 \<and> num_upto 254840 (lp_co2 l) \<and> num_upto 1 (lp_factor l)"
proof -
  obtain f where f: "to_num (table_get emission_factors ''sea'') = f" "num_upto 1 f" using demo_factor by blast
  have "num_upto 20 (Fin 20 / Fin 1000)" by (rule num_upto_div [OF demo_numbers(4)]) simp_all
  from num_upto_mul [OF num_upto_mul [OF this demo_numbers(5)] f(2)]
  have c: "num_upto 254840 (Fin 20 / Fin 1000 * Fin 12742 * f)" by simp
  then have m: "math_max (Fin 0) (Fin 20 / Fin 1000 * Fin 12742 * f) = Fin 20 / Fin 1000 * Fin 12742 * f"
    by (auto simp: num_upto_def math_max_def num_simps)
  have n: "normalize_transport_mode (JStr ''sea'') = JStr ''sea''" by code_simp
  have p: "\<not> Fin 12742 \<le> Fin 0" by (simp add: num_simps)
  show ?thesis using c m p f by (simp add: build_legs_def dedupe_def Let_def n demo_distance demo_coordinates)
qed

lemma demo_cargo:
  "cargo_of demo_batches demo_item = \<lparr>cl_product = ''p'', cl_quantity = Fin 2, cl_weight = Fin 10, cl_co2 = Fin 6\<rparr>"
  "cargo_weight [\<lparr>cl_product = ''p'', cl_quantity = Fin 2, cl_weight = Fin 10, cl_co2 = Fin 6\<rparr>] = Fin 20"
proof -
  note r = num_upto_reparse [OF demo_numbers(2)] num_upto_reparse [OF demo_numbers(3)]
  show "cargo_weight [\<lparr>cl_product = ''p'', cl_quantity = Fin 2, cl_weight = Fin 10, cl_co2 = Fin 6\<rparr>] = Fin 20"
    using demo_numbers by (simp add: cargo_weight_def r num_simps)
  show "cargo_of demo_batches demo_item = \<lparr>cl_product = ''p'', cl_quantity = Fin 2, cl_weight = Fin 10, cl_co2 = Fin 6\<rparr>"
    using demo_numbers by (simp add: cargo_of_def demo_item_def int_of_def float_or_zero_def float_of_def co2_or_product_def num_simps)
qed

lemma demo_row: "\<exists>r. cargo_row_of i \<lparr>cl_product = ''p'', cl_quantity = Fin 2, cl_weight = Fin 10, cl_co2 = Fin 6\<rparr> = Inr r"
proof -
  obtain w where w: "numeric_of_num 10 4 (Fin 10) = Inr (Fin w)" by (rule num_upto_stored [OF demo_numbers(3), of 10 4]) simp_all
  obtain c where c: "numeric_of_num 12 4 (Fin 6) = Inr (Fin c)" by (rule num_upto_stored [OF demo_numbers(6), of 12 4]) simp_all
  show ?thesis by (simp add: cargo_row_of_def integer_of_num_def w c)
qed

lemma reparse_or_zero_upto:
  assumes "num_upto n x" and "n < 2 ^ 53"
  shows "reparse_or_zero x = x"
proof (cases "x = Fin 0")
  case True
  have "parse_float ''0'' = Fin 0" by code_simp
  with True show ?thesis by (simp add: reparse_or_zero_def)
next
  case False
  then have "truthy (JNum x)" using assms(1) by (auto simp: num_upto_def)
  with num_upto_reparse [OF assms] show ?thesis by (simp add: reparse_or_zero_def reparse_def jor_def del: num_str.simps)
qed

lemma num_upto_add_0: "num_upto n x \<Longrightarrow> \<bar>n\<bar> < 2 ^ 53 \<Longrightarrow> num_upto n (Fin 0 + x)"
  by (auto simp: num_upto_def [of n x] num_simps intro!: num_upto_of)

lemma demo_shipped:
  obtains l db where "build_legs demo_math (JArr [JStr ''sea'']) (demo_place a) (demo_place b) (Fin 20) = Inr l"
    "create_shipment year i company (demo_place a) (demo_place b) l
       [\<lparr>cl_product = ''p'', cl_quantity = Fin 2, cl_weight = Fin 10, cl_co2 = Fin 6\<rparr>] demo_batches = Inr db"
proof -
  obtain l where l: "build_legs demo_math (JArr [JStr ''sea'']) (demo_place a) (demo_place b) (Fin 20) = Inr l"
      "lp_mode l = JStr ''sea''" "lp_distance l = Fin 12742" "num_upto 254840 (lp_co2 l)" "num_upto 1 (lp_factor l)"
    using demo_leg by blast
  have d0: "num_upto 12742 (Fin 0 + reparse_or_zero (lp_distance l))"
    using num_upto_add_0 [OF demo_numbers(5)] reparse_or_zero_upto [OF demo_numbers(5)] l(3) by simp
  have c0: "num_upto 254840 (Fin 0 + reparse_or_zero (lp_co2 l))"
    using num_upto_add_0 [OF l(4)] reparse_or_zero_upto [OF l(4)] by simp
  obtain w where w: "numeric_of_num 12 4 (Fin 20) = Inr (Fin w)" by (rule num_upto_stored [OF demo_numbers(4), of 12 4]) simp_all
  obtain d where d: "numeric_of_num 12 2 (Fin 0 + reparse_or_zero (lp_distance l)) = Inr (Fin d)"
    by (rule num_upto_stored [OF d0, of 12 2]) simp_all
  obtain c where c: "numeric_of_num 12 4 (Fin 0 + reparse_or_zero (lp_co2 l)) = Inr (Fin c)"
    by (rule num_upto_stored [OF c0, of 12 4]) simp_all
  obtain ld where ld: "numeric_of_num 12 2 (lp_distance l) = Inr (Fin ld)"
    unfolding l(3) by (rule num_upto_stored [OF demo_numbers(5), of 12 2]) simp_all
  obtain lc where lc: "numeric_of_num 12 4 (lp_co2 l) = Inr (Fin lc)" by (rule num_upto_stored [OF l(4), of 12 4]) simp_all
  obtain lf where lf: "numeric_of_num 12 6 (lp_factor l) = Inr (Fin lf)" by (rule num_upto_stored [OF l(5), of 12 6]) simp_all
  obtain x where x: "numeric_param 10 7 (JNum (Fin 1)) = Inr (Some x)" by (rule num_upto_stored [OF demo_numbers(1), of 10 7]) simp_all
  obtain y where y: "numeric_param 10 7 (JNum (Fin 2)) = Inr (Some y)" by (rule num_upto_stored [OF demo_numbers(2), of 10 7]) simp_all
  have at: "location_point (demo_place p) = Inr (Some x, Some y)" for p
    by (simp add: location_point_def demo_place_def x y)
  obtain r where r: "cargo_row_of i \<lparr>cl_product = ''p'', cl_quantity = Fin 2, cl_weight = Fin 10, cl_co2 = Fin 6\<rparr> = Inr r"
    using demo_row by blast
  let ?rows = "[\<lparr>cl_product = ''p'', cl_quantity = Fin 2, cl_weight = Fin 10, cl_co2 = Fin 6\<rparr>]"
  have "\<exists>db. create_shipment year i company (demo_place a) (demo_place b) l ?rows demo_batches = Inr db"
    by (simp add: create_shipment_def l(2) transport_modes_def unless_violated_def at demo_cargo w d c ld lc lf r)
  with l(1) that show thesis by blast
qed

lemma demo_place_truthy: "truthy (demo_place a)" "jget (demo_place a) ''country'' = JStr a"
  "parse_json_object parse (demo_place a) = demo_place a"
  by (simp_all add: demo_place_def parse_json_object_def)

lemma demo_publishable: "publishable_batch (\<lambda>s. s) ''b'' ''c'' demo_batches = Inr (demo_batch, demo_batches)"
  by code_simp

lemma demo_publish:
  obtains p db where "publish_batch demo_math (\<lambda>s. None) (\<lambda>s. s) 0 2025 ''s1'' ''b'' ''c'' demo_batches = (Inr p, db)"
    "pu_shipment p = Inr ''s1''"
proof -
  obtain l db where l: "build_legs demo_math (JArr [JStr ''sea'']) (demo_place ''VN'') (demo_place ''US'') (Fin 20) = Inr l"
    "create_shipment 2025 ''s1'' ''c'' (demo_place ''VN'') (demo_place ''US'') l
       [\<lparr>cl_product = ''p'', cl_quantity = Fin 2, cl_weight = Fin 10, cl_co2 = Fin 6\<rparr>] demo_batches = Inr db"
    by (rule demo_shipped)
  have b: "ba_origin demo_batch = demo_place ''VN''" "ba_destination demo_batch = demo_place ''US''"
      "ba_modes demo_batch = JArr [JStr ''sea'']" "ba_id demo_batch = ''b''" "ba_company demo_batch = ''c''"
    by (simp_all add: demo_batch_def)
  have i: "items_of ''b'' demo_batches = [demo_item]" "\<exists>y. product_of (bi_product demo_item) demo_batches = Some y"
    by (simp_all add: items_of_def product_of_def demo_batches_def demo_item_def demo_compliance_def)
  have s: "ship_batch demo_math (\<lambda>s. None) 2025 ''s1'' demo_batch demo_batches = Inr (Inr ''s1'', db)"
    by (simp add: ship_batch_def Let_def b i demo_place_truthy demo_cargo l)
  show thesis
    by (rule that [of "\<lparr>pu_batch = published_row 0 (shipment_id (Inr ''s1'')) demo_batch, pu_shipment = Inr ''s1''\<rparr>"])
      (simp_all add: publish_batch_def in_transaction_def demo_publishable s)
qed

text \<open>A first batch with two pieces of the product.\<close>

definition demo_data :: batch_data where
  "demo_data = \<lparr>bt_name = JStr ''B'', bt_description = JUndef, bt_origin = JUndef, bt_destination = JUndef,
     bt_market = JUndef, bt_modes = JUndef\<rparr>"

lemma demo_quantity: "numeric_param 14 2 (JStr ''2'') = Inr (Some 2)"
proof -
  have "decimal_text ''2'' = Some 2" by code_simp
  moreover have "round_scale 2 2 = 2" using round_scale_exact [of 2 2 200] by simp
  ultimately show ?thesis by (simp add: numeric_param_def)
qed

lemma demo_scaled: "round_scale 4 10 = 10" "round_scale 4 3 = 3" "round_scale 4 20 = 20" "round_scale 4 6 = 6" "round_scale 2 2 = 2"
  using round_scale_exact [of 10 4 100000] round_scale_exact [of 3 4 30000] round_scale_exact [of 20 4 200000]
    round_scale_exact [of 6 4 60000] round_scale_exact [of 2 2 200] by simp_all

definition demo_start :: batch_db where
  "demo_start = demo_batches\<lparr>bd_batches := [], bd_items := []\<rparr>"

lemma demo_batch_run:
  obtains b db where "(batch_step demo_math (\<lambda>s. None))\<^sup>*\<^sup>* demo_start db" "b \<in> set (bd_batches db)"
    "batch_totals b = (1, 2, 20, 6)"
proof -
  obtain r1 db1 where c: "create_batch 1 ''b'' ''c'' ''u'' demo_data demo_start = (r1, db1)" by fastforce
  obtain r2 db2 where a: "add_batch_item 2 ''i'' ''b'' ''c'' ''p'' \<lparr>it_quantity = JStr ''2'', it_weight = JUndef, it_co2 = JUndef\<rparr> db1
      = (r2, db2)" by fastforce
  have "\<exists>b \<in> set (bd_batches db2). batch_totals b = (1, 2, 20, 6)"
    using c a by (auto simp: create_batch_def demo_start_def demo_batches_def demo_data_def demo_compliance_def unless_violated_def
      add_batch_item_def in_transaction_def editable_batch_def find_batch_def demo_quantity positive_quantity_def
      given_or_product_def demo_scaled insert_item_def recalculate_totals_def items_of_def sum_of_def times_quantity_def
      to_numeric_def batch_totals_def Let_def List.map_filter_def)
  moreover have "(batch_step demo_math (\<lambda>s. None))\<^sup>*\<^sup>* demo_start db2"
    using batch_step.created [OF c] batch_step.item_added [OF a] by (meson rtranclp.simps)
  ultimately show thesis using that by blast
qed

theorem batch_totals_are_items_witness:
  "\<exists>db b. (batch_step demo_math (\<lambda>s. None))\<^sup>*\<^sup>* demo_start db \<and> b \<in> set (bd_batches db) \<and> batch_totals b = (1, 2, 20, 6)
     \<and> totals_of (ba_id b) (bd_items db) = (1, 2, 20, 6)"
proof -
  obtain b db where r: "(batch_step demo_math (\<lambda>s. None))\<^sup>*\<^sup>* demo_start db" "b \<in> set (bd_batches db)"
      "batch_totals b = (1, 2, 20, 6)"
    by (rule demo_batch_run)
  from batch_totals_are_items [OF r(1) _ _ r(2)] r show ?thesis by (force simp: demo_start_def)
qed

theorem publication_documented_witness:
  "\<exists>pu db. publish_batch demo_math (\<lambda>s. None) (\<lambda>s. s) 0 2025 ''s1'' ''b'' ''c'' demo_batches = (Inr pu, db)
     \<and> bd_compliance db = demo_compliance
     \<and> list_all (documented ''c'' ''VN'' demo_compliance (hd (cp_products demo_compliance)))
         (list_required_documents ''VN'' (cp_requirements demo_compliance))"
proof -
  obtain pu db where p: "publish_batch demo_math (\<lambda>s. None) (\<lambda>s. s) 0 2025 ''s1'' ''b'' ''c'' demo_batches = (Inr pu, db)"
    by (rule demo_publish)
  have "resolve_domestic_market ''c'' (cp_companies (bd_compliance demo_batches)) = ''VN''" by code_simp
  moreover have "trim (bi_product demo_item) = ''p''" by code_simp
  ultimately show ?thesis using publication_documented [OF p] p
    by (auto simp: demo_batches_def items_of_def list_all_iff demo_item_def demo_compliance_def)
qed

theorem archived_batch_ships_twice_witness:
  "\<exists>p db1 found db2 p' db3. publish_batch demo_math (\<lambda>s. None) (\<lambda>s. s) 0 2025 ''s1'' ''b'' ''c'' demo_batches = (Inr p, db1)
     \<and> delete_batch 1 ''b'' ''c'' db1 = (found, db2)
     \<and> publish_batch demo_math (\<lambda>s. None) (\<lambda>s. s) 2 2025 ''s2'' ''b'' ''c'' db2 = (Inr p', db3)
     \<and> map sh_id (bd_shipments db3) = [''s1'', ''s2'']"
proof -
  obtain p db1 where p: "publish_batch demo_math (\<lambda>s. None) (\<lambda>s. s) 0 2025 ''s1'' ''b'' ''c'' demo_batches = (Inr p, db1)"
      "pu_shipment p = Inr ''s1''"
    by (rule demo_publish)
  obtain found db2 where d: "delete_batch 1 ''b'' ''c'' db1 = (found, db2)" by fastforce
  from archived_batch_ships_twice [OF p d, of 2 2025 "''s2''"] p(1) d show ?thesis
    by (fastforce simp: demo_batches_def)
qed

end
