(* ===== verification/Shipment_Clock.thy ===== *)
theory Shipment_Clock
  imports Sql_Numeric
begin

text \<open>
  \<open>services/shipmentSimulationService.js\<close> without its statements: the hours in which a simulated shipment
  may move, how long a route takes, when a shipment leaves and arrives, and the status it has at a
  time. A date is its number of milliseconds; a shipment moves in whole hours of business days in one
  fixed offset from UTC, and both come from the environment. \<open>Date.UTC\<close> over the year, month and day
  of a date is \<open>date_at\<close> of its day; the range of \<open>Date\<close> (to the year 275760) is not modelled.
\<close>

section \<open>Settings\<close>

record clock_settings =
  cs_offset :: int
  cs_start :: int
  cs_end :: int
  cs_pending_min :: int
  cs_pending_max :: int

definition read_integer_env :: "string option \<Rightarrow> int \<Rightarrow> int" where
  "read_integer_env v fallback =
     (case parse_int (case v of None \<Rightarrow> [] | Some s \<Rightarrow> s) of Fin r \<Rightarrow> \<lfloor>r\<rfloor> | _ \<Rightarrow> fallback)"

definition clamp_integer :: "int \<Rightarrow> int \<Rightarrow> int \<Rightarrow> int" where
  "clamp_integer v lo hi = max lo (min hi v)"

definition clock_settings_of :: "(string \<Rightarrow> string option) \<Rightarrow> clock_settings" where
  "clock_settings_of env =
     (let start = clamp_integer (read_integer_env (env ''SHIPMENT_SIMULATION_BUSINESS_START_HOUR'') 8) 0 23;
          low = clamp_integer (read_integer_env (env ''SHIPMENT_SIMULATION_PENDING_MIN_HOURS'') 4) 1 72
      in \<lparr>cs_offset = read_integer_env (env ''SHIPMENT_SIMULATION_UTC_OFFSET_MINUTES'') (7 * 60),
          cs_start = start,
          cs_end = clamp_integer (read_integer_env (env ''SHIPMENT_SIMULATION_BUSINESS_END_HOUR'') 18) (start + 1) 24,
          cs_pending_min = low,
          cs_pending_max = clamp_integer (read_integer_env (env ''SHIPMENT_SIMULATION_PENDING_MAX_HOURS'') 7) low 72\<rparr>)"

section \<open>Business hours\<close>

definition ms_hour :: int where "ms_hour = 3600000"
definition ms_day :: int where "ms_day = 86400000"

definition to_local :: "clock_settings \<Rightarrow> millis \<Rightarrow> millis" where
  "to_local c t = t + cs_offset c * 60 * 1000"

definition from_local :: "clock_settings \<Rightarrow> millis \<Rightarrow> millis" where
  "from_local c t = t - cs_offset c * 60 * 1000"

definition utc_day :: "millis \<Rightarrow> int" where "utc_day t = t div ms_day"
definition utc_hour :: "millis \<Rightarrow> int" where "utc_hour t = t mod ms_day div ms_hour"

text \<open>The minutes, seconds and milliseconds of a date, together.\<close>

definition past_hour :: "millis \<Rightarrow> int" where "past_hour t = t mod ms_hour"

definition date_at :: "int \<Rightarrow> int \<Rightarrow> millis" where
  "date_at day hour = day * ms_day + hour * ms_hour"

definition add_hours :: "millis \<Rightarrow> int \<Rightarrow> millis" where
  "add_hours t h = t + h * ms_hour"

definition to_legacy_date :: "clock_settings \<Rightarrow> millis \<Rightarrow> string" where
  "to_legacy_date c t =
     (let (y, m, d) = civil_of_day (utc_day (to_local c t))
      in int_str y @ ''-'' @ field 2 (int m) @ ''-'' @ field 2 d)"

definition round_up_hour :: "clock_settings \<Rightarrow> millis \<Rightarrow> millis" where
  "round_up_hour c t =
     (let l = to_local c t; r = date_at (utc_day l) (utc_hour l)
      in from_local c (if 0 < past_hour l then add_hours r 1 else r))"

definition next_window :: "clock_settings \<Rightarrow> millis \<Rightarrow> millis" where
  "next_window c t = from_local c (date_at (utc_day (to_local c t) + 1) (cs_start c))"

definition normalize_hour :: "clock_settings \<Rightarrow> millis \<Rightarrow> millis" where
  "normalize_hour c t =
     (let r = round_up_hour c t; l = to_local c r; hour = utc_hour l
      in if hour < cs_start c then from_local c (date_at (utc_day l) (cs_start c))
         else if cs_end c \<le> hour then next_window c r
         else r)"

definition is_business_hour :: "clock_settings \<Rightarrow> millis \<Rightarrow> bool" where
  "is_business_hour c t =
     (let l = to_local c t
      in past_hour l = 0 \<and> cs_start c \<le> utc_hour l \<and> utc_hour l \<le> cs_end c)"

fun max_date :: "millis option \<Rightarrow> millis option \<Rightarrow> millis option" where
  "max_date None r = r"
| "max_date l None = l"
| "max_date (Some l) (Some r) = Some (if r \<le> l then l else r)"

text \<open>The loop of \<open>allocateBusinessHours\<close>. It need not end under settings whose window is empty; None is
  a loop that does not end. The test \<open>remainingHours > 0\<close> fails at once for NaN, and holds for ever for
  an infinite duration. The dates of the model are valid, so the null for an unreadable one does not occur.\<close>

partial_function (option) allocate_from :: "clock_settings \<Rightarrow> millis \<Rightarrow> int \<Rightarrow> millis option" where
  "allocate_from c cursor remaining =
     (if remaining \<le> 0 then Some cursor
      else let cur = normalize_hour c cursor;
               available = max 0 (cs_end c - utc_hour (to_local c cur))
           in if available \<le> 0 then allocate_from c (next_window c cur) remaining
              else let used = min remaining available; after = add_hours cur used; rest = remaining - used
                   in allocate_from c (if 0 < rest then next_window c after else after) rest)"

definition allocate_business_hours :: "clock_settings \<Rightarrow> millis \<Rightarrow> jnum \<Rightarrow> millis option" where
  "allocate_business_hours c start hours =
     (case math_max (Fin 1) (math_ceil hours) of
        Fin n \<Rightarrow> allocate_from c (normalize_hour c start) \<lfloor>n\<rfloor>
      | NaN \<Rightarrow> Some (normalize_hour c start)
      | _ \<Rightarrow> None)"

text \<open>\<open>random\<close> is what \<open>Math.random\<close> returns.\<close>

definition random_pending_hours :: "clock_settings \<Rightarrow> jnum \<Rightarrow> jnum" where
  "random_pending_hours c random =
     Fin (of_int (cs_pending_min c)) + math_floor (random * Fin (of_int (cs_pending_max c - cs_pending_min c + 1)))"

definition resolve_pending_until :: "clock_settings \<Rightarrow> jnum \<Rightarrow> millis \<Rightarrow> millis option \<Rightarrow> millis option" where
  "resolve_pending_until c random created pending =
     (let created' = normalize_hour c created
      in case map_option (normalize_hour c) pending of
           Some p \<Rightarrow> max_date (Some created') (Some p)
         | None \<Rightarrow> allocate_business_hours c created' (random_pending_hours c random))"

section \<open>Transit time\<close>

definition parse_number :: "jsval \<Rightarrow> jnum \<Rightarrow> jnum" where
  "parse_number v fallback = (let x = parse_float (to_str v) in if is_finite_num x then x else fallback)"

definition eta_rules :: props where
  "eta_rules =
     [(''road'', JObj [(''speedKmh'', JNum (Fin 45)), (''handlingHours'', JNum (Fin 2))]),
      (''rail'', JObj [(''speedKmh'', JNum (Fin 60)), (''handlingHours'', JNum (Fin 4))]),
      (''sea'', JObj [(''speedKmh'', JNum (Fin 30)), (''handlingHours'', JNum (Fin 12))]),
      (''air'', JObj [(''speedKmh'', JNum (Fin 650)), (''handlingHours'', JNum (Fin 6))])]"

definition eta_rule :: "jsval \<Rightarrow> jsval" where
  "eta_rule mode = jor (table_get eta_rules (to_str mode)) (table_get eta_rules ''road'')"

definition travel_hours :: "jnum \<Rightarrow> jsval \<Rightarrow> jnum" where
  "travel_hours distance rule = distance / to_num (jget rule ''speedKmh'') + to_num (jget rule ''handlingHours'')"

definition normalize_country :: "jsval \<Rightarrow> string" where
  "normalize_country v = lower (trim (str_or_empty v))"

definition is_cross_border :: "jsval \<Rightarrow> jsval \<Rightarrow> bool" where
  "is_cross_border origin destination =
     (let o' = normalize_country origin; d' = normalize_country destination
      in o' \<noteq> [] \<and> d' \<noteq> [] \<and> o' \<noteq> d')"

text \<open>A leg as the clock reads it, from a request or from a row: a column is the number it is read as.\<close>

record clock_leg =
  tl_mode :: jsval
  tl_distance :: jsval
  tl_duration :: jsval

definition mode_distances :: "clock_leg list \<Rightarrow> (string \<times> jnum) list" where
  "mode_distances legs = foldl (\<lambda>t l.
     let mode = (case tl_mode l of JStr s \<Rightarrow> s | _ \<Rightarrow> ''road''); d = math_max (Fin 0) (parse_number (tl_distance l) (Fin 0));
         sofar = (case map_of t mode of Some x \<Rightarrow> if x = NaN then Fin 0 else x | None \<Rightarrow> Fin 0)
     in alist_put mode (sofar + d) t) [] legs"

definition longest_mode :: "(string \<times> jnum) list \<Rightarrow> (string \<times> jnum) option" where
  "longest_mode table = foldl (\<lambda>best (mode, d).
     if (case best of None \<Rightarrow> Fin (- 1) | Some (_, x) \<Rightarrow> x) < d then Some (mode, d) else best) None table"

definition pick_dominant_mode :: "clock_leg list \<Rightarrow> string" where
  "pick_dominant_mode legs =
     (let first = (case find (\<lambda>l. typeof (tl_mode l) = ''string'') legs of
                     Some l \<Rightarrow> (if to_str (tl_mode l) = [] then ''road'' else to_str (tl_mode l)) | None \<Rightarrow> ''road'')
      in case longest_mode (mode_distances legs) of
           Some (mode, _) \<Rightarrow> if mode = [] then first else mode
         | None \<Rightarrow> first)"

text \<open>The hours of one leg, or None where its data is missing.\<close>

definition leg_hours :: "clock_leg \<Rightarrow> jnum option" where
  "leg_hours l =
     (let duration = parse_number (tl_duration l) NaN; distance = parse_number (tl_distance l) NaN
      in if is_finite_num duration \<and> Fin 0 < duration then Some duration
         else if is_finite_num distance \<and> Fin 0 < distance then Some (travel_hours distance (eta_rule (tl_mode l)))
         else None)"

fun sum_leg_hours :: "jnum \<Rightarrow> clock_leg list \<Rightarrow> jnum option" where
  "sum_leg_hours sofar [] = Some sofar"
| "sum_leg_hours sofar (l # legs) =
     (case leg_hours l of None \<Rightarrow> None | Some h \<Rightarrow> sum_leg_hours (sofar + h) legs)"

text \<open>\<open>legs\<close> is None where the code is given no array. The hours, or None with the reason
  \<open>MISSING_TRANSIT_DISTANCE\<close>.\<close>

definition fallback_hours :: "clock_leg list \<Rightarrow> jsval \<Rightarrow> jnum option" where
  "fallback_hours legs total_distance =
     (let d = parse_number total_distance NaN
      in if \<not> is_finite_num d \<or> d \<le> Fin 0 then None
         else Some (travel_hours d (eta_rule (JStr (pick_dominant_mode legs)))))"

definition calculate_transit_hours :: "clock_leg list \<Rightarrow> jsval \<Rightarrow> jsval \<Rightarrow> jsval \<Rightarrow> jnum option" where
  "calculate_transit_hours legs total_distance origin destination =
     (case (case if legs = [] then None else sum_leg_hours (Fin 0) legs of
              None \<Rightarrow> fallback_hours legs total_distance | Some h \<Rightarrow> Some h) of
        None \<Rightarrow> None
      | Some h \<Rightarrow>
          (if \<not> is_finite_num h \<or> h \<le> Fin 0 then None
           else Some (if is_cross_border origin destination then h + Fin 8 else h)))"

section \<open>The window of a shipment\<close>

record simulation_state =
  ss_enabled :: bool
  ss_pending :: "millis option"
  ss_eta :: "millis option"
  ss_eta_date :: "string option"
  ss_reason :: "string option"

definition no_simulation :: "string \<Rightarrow> simulation_state" where
  "no_simulation reason = \<lparr>ss_enabled = False, ss_pending = None, ss_eta = None, ss_eta_date = None, ss_reason = Some reason\<rparr>"

definition build_simulation ::
  "clock_settings \<Rightarrow> jnum \<Rightarrow> bool \<Rightarrow> millis \<Rightarrow> millis option \<Rightarrow> jsval \<Rightarrow> jsval \<Rightarrow> clock_leg list \<Rightarrow> jsval \<Rightarrow>
   simulation_state" where
  "build_simulation c random allowed created pending origin destination legs total_distance =
     (if \<not> allowed then no_simulation ''SIMULATION_DISABLED''
      else case calculate_transit_hours legs total_distance origin destination of
             None \<Rightarrow> no_simulation ''MISSING_TRANSIT_DISTANCE''
           | Some hours \<Rightarrow>
               (let leaves = resolve_pending_until c random created pending;
                    arrives = Option.bind leaves (\<lambda>t. allocate_business_hours c t (math_max (Fin 1) (math_ceil hours)))
                in \<lparr>ss_enabled = True, ss_pending = leaves, ss_eta = arrives,
                    ss_eta_date = map_option (to_legacy_date c) arrives, ss_reason = None\<rparr>))"

section \<open>The status of a shipment\<close>

text \<open>The columns the clock reads and writes.\<close>

record clock_row =
  sp_status :: string
  sp_simulated :: bool
  sp_pending :: "millis option"
  sp_eta :: "millis option"
  sp_eta_date :: "string option"
  sp_arrived :: "millis option"
  sp_arrived_date :: "string option"
  sp_created :: millis
  sp_updated :: millis

definition effective_status :: "'a clock_row_scheme \<Rightarrow> millis \<Rightarrow> string" where
  "effective_status s now =
     (if sp_status s = ''cancelled'' then ''cancelled''
      else if sp_status s = ''delivered'' then ''delivered''
      else if \<not> sp_simulated s then sp_status s
      else case (sp_pending s, sp_eta s) of
             (Some leaves, Some arrives) \<Rightarrow>
               (if arrives \<le> now then ''delivered'' else if leaves \<le> now then ''in_transit'' else ''pending'')
           | _ \<Rightarrow> sp_status s)"

definition should_rebuild :: "clock_settings \<Rightarrow> 'a clock_row_scheme \<Rightarrow> bool" where
  "should_rebuild c s =
     (sp_simulated s \<and>
      (case (sp_pending s, sp_eta s) of
         (Some leaves, Some arrives) \<Rightarrow>
           \<not> is_business_hour c leaves \<or> \<not> is_business_hour c arrives
           \<or> leaves < normalize_hour c (sp_created s)
           \<or> arrives \<le> leaves
           \<or> (case sp_eta_date s of None \<Rightarrow> [] | Some d \<Rightarrow> d) \<noteq> to_legacy_date c arrives
       | _ \<Rightarrow> True))"

record sync_mutation =
  sm_status :: string
  sm_arrived :: "millis option"
  sm_arrived_date :: "string option"

definition sync_mutation_of :: "clock_settings \<Rightarrow> millis \<Rightarrow> 'a clock_row_scheme \<Rightarrow> sync_mutation" where
  "sync_mutation_of c now s =
     (let status = effective_status s now;
          arrived = (if status = ''delivered''
                then (case sp_arrived s of Some t \<Rightarrow> Some t
                      | None \<Rightarrow> (case sp_eta s of Some t \<Rightarrow> Some t | None \<Rightarrow> Some now))
                else sp_arrived s)
      in \<lparr>sm_status = status, sm_arrived = arrived,
          sm_arrived_date = (if status = ''delivered'' then map_option (to_legacy_date c) arrived else sp_arrived_date s)\<rparr>)"

definition has_changes :: "'a clock_row_scheme \<Rightarrow> sync_mutation \<Rightarrow> bool" where
  "has_changes s m =
     (sp_status s \<noteq> sm_status m \<or> sp_arrived s \<noteq> sm_arrived m
      \<or> (case sp_arrived_date s of None \<Rightarrow> [] | Some d \<Rightarrow> d) \<noteq> (case sm_arrived_date m of None \<Rightarrow> [] | Some d \<Rightarrow> d))"

text \<open>\<open>syncShipmentSimulationRecord\<close> on a row.\<close>

definition sync_row :: "clock_settings \<Rightarrow> millis \<Rightarrow> 'a clock_row_scheme \<Rightarrow> 'a clock_row_scheme" where
  "sync_row c now s =
     (let m = sync_mutation_of c now s
      in if \<not> has_changes s m then s
         else s\<lparr>sp_status := sm_status m,
                sp_arrived := (if sm_status m = ''delivered'' then sm_arrived m else sp_arrived s),
                sp_arrived_date := (if sm_status m = ''delivered'' then sm_arrived_date m else sp_arrived_date s),
                sp_updated := now\<rparr>)"

end
