(* ===== verification/Clock_Laws.thy ===== *)
theory Clock_Laws
  imports Shipment_Clock
begin

text \<open>
  What the clock of simulated shipments promises: the settings it reads are sound whatever the
  environment says, rounding a time gives the first open hour from then on, the loop of
  \<open>allocateBusinessHours\<close> always ends, and it ends when exactly the hours it was given have been open.
\<close>

definition clock_ok :: "clock_settings \<Rightarrow> bool" where
  "clock_ok c \<longleftrightarrow> 0 \<le> cs_start c \<and> cs_start c \<le> 23 \<and> cs_start c < cs_end c \<and> cs_end c \<le> 24
     \<and> 1 \<le> cs_pending_min c \<and> cs_pending_min c \<le> cs_pending_max c \<and> cs_pending_max c \<le> 72"

lemma clamp_integer_bounds: "lo \<le> clamp_integer v lo hi" "lo \<le> hi \<Longrightarrow> clamp_integer v lo hi \<le> hi"
  by (simp_all add: clamp_integer_def)

lemma clock_settings_of_ok: "clock_ok (clock_settings_of env)"
proof -
  define start where "start = clamp_integer (read_integer_env (env ''SHIPMENT_SIMULATION_BUSINESS_START_HOUR'') 8) 0 23"
  define low where "low = clamp_integer (read_integer_env (env ''SHIPMENT_SIMULATION_PENDING_MIN_HOURS'') 4) 1 72"
  have "0 \<le> start" "start \<le> 23" "1 \<le> low" "low \<le> 72"
    unfolding start_def low_def by (rule clamp_integer_bounds; simp)+
  moreover have "start < clamp_integer v (start + 1) 24" "clamp_integer v (start + 1) 24 \<le> 24" for v
    using clamp_integer_bounds(1) [of "start + 1" v 24] clamp_integer_bounds(2) [of "start + 1" 24 v] \<open>start \<le> 23\<close>
    by linarith+
  moreover have "low \<le> clamp_integer v low 72" "clamp_integer v low 72 \<le> 72" for v
    using \<open>low \<le> 72\<close> by (simp_all add: clamp_integer_bounds)
  ultimately show ?thesis by (simp add: clock_ok_def clock_settings_of_def Let_def flip: start_def low_def)
qed

section \<open>Hours of a day\<close>

lemma date_fields:
  assumes "0 \<le> h" and "h < 24"
  shows "utc_day (date_at d h) = d" and "utc_hour (date_at d h) = h" and "past_hour (date_at d h) = 0"
proof -
  have b: "0 \<le> h * 3600000" "h * 3600000 < 86400000" using assms by simp_all
  then have d: "(d * 86400000 + h * 3600000) div 86400000 = d" "(d * 86400000 + h * 3600000) mod 86400000 = h * 3600000"
    by (simp_all add: div_pos_pos_trivial)
  show "utc_day (date_at d h) = d" "utc_hour (date_at d h) = h"
    using d by (simp_all add: utc_day_def utc_hour_def date_at_def ms_day_def ms_hour_def)
  have "d * 86400000 + h * 3600000 = (d * 24 + h) * 3600000" by simp
  then show "past_hour (date_at d h) = 0" by (simp add: past_hour_def date_at_def ms_day_def ms_hour_def)
qed

lemma date_split:
  "date_at (utc_day t) (utc_hour t) + past_hour t = t" "0 \<le> utc_hour t" "utc_hour t < 24"
  "0 \<le> past_hour t" "past_hour t < ms_hour"
proof -
  have "t mod ms_day mod ms_hour = t mod ms_hour" by (simp add: ms_day_def ms_hour_def mod_mod_cancel)
  then have "t mod ms_day div ms_hour * ms_hour + t mod ms_hour = t mod ms_day"
    by (metis div_mult_mod_eq)
  then show "date_at (utc_day t) (utc_hour t) + past_hour t = t"
    using div_mult_mod_eq [of t ms_day] unfolding date_at_def utc_day_def utc_hour_def past_hour_def by linarith
  have m: "0 \<le> t mod 86400000" "t mod 86400000 \<le> 86399999" using pos_mod_bound [of 86400000 t] by simp_all
  then show "0 \<le> utc_hour t" by (simp add: utc_hour_def ms_day_def ms_hour_def pos_imp_zdiv_nonneg_iff)
  show "utc_hour t < 24" using zdiv_mono1 [OF m(2), of 3600000] by (simp add: utc_hour_def ms_day_def ms_hour_def)
  show "0 \<le> past_hour t" "past_hour t < ms_hour" by (simp_all add: past_hour_def ms_hour_def)
qed

lemma whole_hour:
  assumes "past_hour t = 0"
  obtains d h where "t = date_at d h" "0 \<le> h" "h < 24"
  using date_split [of t] assms that by (metis add.right_neutral)

lemma date_at_less:
  assumes "0 \<le> h" "h < 24" "0 \<le> k" "k < 24"
  shows "date_at d h < date_at e k \<longleftrightarrow> d < e \<or> d = e \<and> h < k"
  using assms by (auto simp: date_at_def ms_day_def ms_hour_def)

lemma local_from [simp]: "to_local c (from_local c t) = t" "from_local c (to_local c t) = t"
  by (simp_all add: to_local_def from_local_def)

lemma local_mono: "to_local c t \<le> to_local c u \<longleftrightarrow> t \<le> u" "to_local c t < to_local c u \<longleftrightarrow> t < u"
  by (simp_all add: to_local_def)

lemma from_local_mono: "from_local c t \<le> u \<longleftrightarrow> t \<le> to_local c u" "t \<le> from_local c u \<longleftrightarrow> to_local c t \<le> u"
  "from_local c t < u \<longleftrightarrow> t < to_local c u" "t < from_local c u \<longleftrightarrow> to_local c t < u"
  by (auto simp: to_local_def from_local_def)

section \<open>Open hours\<close>

text \<open>An open hour starts within the window of its day.\<close>

definition is_open :: "clock_settings \<Rightarrow> millis \<Rightarrow> bool" where
  "is_open c t \<longleftrightarrow> (let l = to_local c t in past_hour l = 0 \<and> cs_start c \<le> utc_hour l \<and> utc_hour l < cs_end c)"

lemma is_open_from_local:
  assumes "0 \<le> h" "h < 24"
  shows "is_open c (from_local c (date_at d h)) \<longleftrightarrow> cs_start c \<le> h \<and> h < cs_end c"
  by (simp add: is_open_def date_fields [OF assms])

lemma open_business_hour: "is_open c t \<Longrightarrow> is_business_hour c t"
  by (simp add: is_open_def is_business_hour_def Let_def)

lemma next_window_open: "clock_ok c \<Longrightarrow> is_open c (next_window c t)"
  by (simp add: next_window_def is_open_from_local clock_ok_def)

lemma round_up_hour_least:
  "past_hour (to_local c (round_up_hour c t)) = 0" "t \<le> round_up_hour c t" "round_up_hour c t < t + ms_hour"
  "past_hour (to_local c u) = 0 \<Longrightarrow> t \<le> u \<Longrightarrow> round_up_hour c t \<le> u"
proof -
  define l where "l = to_local c t"
  define r where "r = date_at (utc_day l) (utc_hour l)"
  have s: "r + past_hour l = l" "0 \<le> past_hour l" "past_hour l < ms_hour" using date_split [of l] by (simp_all add: r_def)
  have m: "r = ms_hour * (l div ms_hour)"
    using s(1) by (metis past_hour_def add_diff_cancel_right' minus_mod_eq_mult_div)
  have e: "to_local c (round_up_hour c t) = (if 0 < past_hour l then r + ms_hour else r)"
    by (simp add: round_up_hour_def Let_def l_def r_def add_hours_def)
  show "past_hour (to_local c (round_up_hour c t)) = 0" unfolding e past_hour_def m by simp
  have le: "l \<le> to_local c (round_up_hour c t)" using s by (simp add: e)
  then show "t \<le> round_up_hour c t" by (simp add: l_def local_mono)
  have "to_local c (round_up_hour c t) < l + ms_hour" using s by (simp add: e)
  then show "round_up_hour c t < t + ms_hour" by (simp add: l_def to_local_def)
  show "round_up_hour c t \<le> u" if "past_hour (to_local c u) = 0" "t \<le> u"
  proof -
    obtain k where k: "to_local c u = ms_hour * k" using \<open>past_hour (to_local c u) = 0\<close> unfolding past_hour_def by (metis mod_0_imp_dvd dvdE)
    have "l \<le> to_local c u" using that(2) by (simp add: l_def local_mono)
    with k have "l \<le> ms_hour * k" by simp
    have "to_local c (round_up_hour c t) \<le> ms_hour * k"
    proof (cases "0 < past_hour l")
      case True
      with \<open>l \<le> ms_hour * k\<close> s(1) have "ms_hour * (l div ms_hour) < ms_hour * k" unfolding m by linarith
      then have "l div ms_hour + 1 \<le> k" by (simp add: ms_hour_def)
      then have "ms_hour * (l div ms_hour + 1) \<le> ms_hour * k" by (simp add: ms_hour_def)
      with True show ?thesis unfolding e m by (simp add: distrib_left)
    next
      case False
      with \<open>l \<le> ms_hour * k\<close> s(1,2) show ?thesis unfolding e by simp
    qed
    then show ?thesis using k local_mono(1) by metis
  qed
qed

text \<open>\<open>normalize_hour\<close> finds the first open hour from a time on.\<close>

lemma normalize_hour_open:
  assumes "clock_ok c"
  shows "is_open c (normalize_hour c t)"
proof -
  define l where "l = to_local c (round_up_hour c t)"
  have p: "past_hour l = 0" by (simp add: l_def round_up_hour_least(1))
  have "is_open c (from_local c (date_at (utc_day l) (cs_start c)))" using assms by (simp add: is_open_from_local clock_ok_def)
  then show ?thesis using p next_window_open [OF assms]
    by (auto simp: normalize_hour_def Let_def l_def [symmetric] is_open_def)
qed

lemma normalize_hour_ge:
  assumes "clock_ok c"
  shows "t \<le> normalize_hour c t"
proof -
  define l where "l = to_local c (round_up_hour c t)"
  obtain d h where l: "l = date_at d h" "0 \<le> h" "h < 24" using whole_hour round_up_hour_least(1) l_def by metis
  have s: "0 \<le> cs_start c" "cs_start c < 24" using assms by (simp_all add: clock_ok_def)
  have "l \<le> to_local c (normalize_hour c t)"
    using l s date_at_less [OF s l(2,3), of d d] date_at_less [OF s l(2,3), of "d + 1" d] assms
    by (auto simp: normalize_hour_def Let_def next_window_def date_fields l_def [symmetric] not_less)
  then show ?thesis using round_up_hour_least(2) [of t c] by (simp add: l_def local_mono)
qed

lemma normalize_hour_least:
  assumes "clock_ok c" and "is_open c u" and "t \<le> u"
  shows "normalize_hour c t \<le> u"
proof -
  define l where "l = to_local c (round_up_hour c t)"
  obtain d h where l: "l = date_at d h" "0 \<le> h" "h < 24" using whole_hour round_up_hour_least(1) l_def by metis
  have p: "past_hour (to_local c u) = 0" using assms(2) by (simp add: is_open_def Let_def)
  obtain e k where u: "to_local c u = date_at e k" "0 \<le> k" "k < 24" using whole_hour [OF p] by metis
  have k: "cs_start c \<le> k" "k < cs_end c" using assms(2) u by (simp_all add: is_open_def Let_def date_fields)
  have s: "0 \<le> cs_start c" "cs_start c < 24" using assms(1) by (simp_all add: clock_ok_def)
  have "l \<le> to_local c u" using round_up_hour_least(4) [OF p assms(3)] by (simp add: l_def local_mono)
  then have le: "\<not> date_at e k < date_at d h" using l(1) u(1) by simp
  have "to_local c (normalize_hour c t) \<le> to_local c u"
    using le l u k date_at_less [OF u(2,3) l(2,3), of e d] date_at_less [OF u(2,3) s, of e d] date_at_less [OF u(2,3) s, of e "d + 1"]
    by (auto simp: normalize_hour_def Let_def next_window_def date_fields l_def [symmetric] not_less [symmetric])
  then show ?thesis by (simp add: local_mono)
qed

lemma normalize_hour_id: "clock_ok c \<Longrightarrow> is_open c t \<Longrightarrow> normalize_hour c t = t"
  by (meson eq_iff normalize_hour_ge normalize_hour_least order_refl)

lemma normalize_hour_mono: "clock_ok c \<Longrightarrow> t \<le> u \<Longrightarrow> normalize_hour c t \<le> normalize_hour c u"
  by (meson normalize_hour_ge normalize_hour_least normalize_hour_open order_trans)

section \<open>Counting open hours\<close>

definition open_hours :: "clock_settings \<Rightarrow> millis \<Rightarrow> millis \<Rightarrow> nat" where
  "open_hours c t u = card {v. is_open c v \<and> t \<le> v \<and> v < u}"

lemma open_hours_split:
  assumes "t \<le> u" and "u \<le> w"
  shows "open_hours c t w = open_hours c t u + open_hours c u w"
proof -
  have f: "finite {v. is_open c v \<and> a \<le> v \<and> v < b}" for a b
    by (rule finite_subset [of _ "{a..<b}"]) auto
  have "{v. is_open c v \<and> t \<le> v \<and> v < w} = {v. is_open c v \<and> t \<le> v \<and> v < u} \<union> {v. is_open c v \<and> u \<le> v \<and> v < w}"
    using assms by auto
  moreover have "{v. is_open c v \<and> t \<le> v \<and> v < u} \<inter> {v. is_open c v \<and> u \<le> v \<and> v < w} = {}" by auto
  ultimately show ?thesis using card_Un_disjoint [OF f f] by (simp add: open_hours_def)
qed

lemma open_hours_gap:
  assumes "\<And>v. is_open c v \<Longrightarrow> t \<le> v \<Longrightarrow> u \<le> v"
  shows "open_hours c t u = 0"
proof -
  have "{v. is_open c v \<and> t \<le> v \<and> v < u} = {}" using assms by force
  then show ?thesis by (simp only: open_hours_def) simp
qed

lemma open_hours_normalize: "clock_ok c \<Longrightarrow> open_hours c t (normalize_hour c t) = 0"
  by (rule open_hours_gap) (rule normalize_hour_least)

text \<open>The hours of one window.\<close>

lemma open_hours_run:
  assumes "clock_ok c" and "is_open c t" and "utc_hour (to_local c t) + int n \<le> cs_end c"
  shows "open_hours c t (add_hours t (int n)) = n"
proof -
  define d where "d = utc_day (to_local c t)"
  define h where "h = utc_hour (to_local c t)"
  have l: "to_local c t = date_at d h" using date_split(1) [of "to_local c t"] assms(2) by (simp add: is_open_def Let_def d_def h_def)
  have h: "cs_start c \<le> h" "h + int n \<le> cs_end c" "0 \<le> cs_start c" "cs_end c \<le> 24"
    using assms by (simp_all add: is_open_def Let_def h_def clock_ok_def)
  have shift: "to_local c (add_hours t (int i)) = date_at d (h + int i)" for i
    using l by (simp add: to_local_def add_hours_def date_at_def algebra_simps)
  have "{v. is_open c v \<and> t \<le> v \<and> v < add_hours t (int n)} = (\<lambda>i. add_hours t (int i)) ` {..<n}"
  proof (intro equalityI subsetI)
    fix v
    assume "v \<in> {v. is_open c v \<and> t \<le> v \<and> v < add_hours t (int n)}"
    then have v: "is_open c v" "t \<le> v" "v < add_hours t (int n)" by simp_all
    have "past_hour (to_local c v) = 0" using v(1) by (simp add: is_open_def Let_def)
    then obtain e k where u: "to_local c v = date_at e k" "0 \<le> k" "k < 24" by (rule whole_hour)
    have "date_at d h \<le> date_at e k" "date_at e k < date_at d (h + int n)"
      using v(2,3) local_mono [of c t v] local_mono(2) [of c v "add_hours t (int n)"] l u(1) shift by simp_all
    then have b: "24 * d + h \<le> 24 * e + k" "24 * e + k < 24 * d + (h + int n)" by (simp_all add: date_at_def ms_day_def ms_hour_def)
    have "h + int n \<le> 24" "0 \<le> h" using h by linarith+
    then have "\<not> d < e" "\<not> e < d" using b u(2,3) by linarith+
    then have "d = e" by simp
    with b have "d = e \<and> h \<le> k \<and> k < h + int n" by simp
    then have "0 \<le> k - h" by simp
    then obtain i where "k - h = int i" using zero_le_imp_eq_int by blast
    with \<open>d = e \<and> h \<le> k \<and> k < h + int n\<close> have i: "k = h + int i" "i < n" by linarith+
    with \<open>d = e\<close> u(1) shift [of i] have "to_local c v = to_local c (add_hours t (int i))" by simp
    then have "v = add_hours t (int i)" by (metis local_from(2))
    with i(2) show "v \<in> (\<lambda>i. add_hours t (int i)) ` {..<n}" by blast
  next
    fix v
    assume "v \<in> (\<lambda>i. add_hours t (int i)) ` {..<n}"
    then obtain i where i: "v = add_hours t (int i)" "i < n" by blast
    then have "is_open c v" using h shift [of i] date_fields [of "h + int i" d] by (simp add: is_open_def Let_def)
    with i show "v \<in> {v. is_open c v \<and> t \<le> v \<and> v < add_hours t (int n)}" by (simp add: add_hours_def ms_hour_def)
  qed
  moreover have "inj_on (\<lambda>i. add_hours t (int i)) {..<n}" by (rule inj_onI) (simp add: add_hours_def ms_hour_def)
  ultimately show ?thesis by (simp add: open_hours_def card_image)
qed

text \<open>Closing time, where the day does not end with it, leads to the window of the next day.\<close>

lemma closing_hour:
  assumes "clock_ok c" and "cs_end c < 24" and "to_local c t = date_at d (cs_end c)"
  shows "normalize_hour c t = next_window c t"
proof -
  have e: "0 \<le> cs_end c" "\<not> cs_end c < cs_start c" using assms(1) by (auto simp: clock_ok_def)
  have "to_local c (round_up_hour c t) = to_local c t"
    unfolding round_up_hour_def Let_def assms(3) using e assms(2) by (simp add: date_fields)
  then have "round_up_hour c t = t" by (metis local_from(2))
  then show ?thesis using e assms by (simp add: normalize_hour_def Let_def date_fields)
qed

section \<open>The allocation of hours\<close>

text \<open>One turn of the loop: the hours of the window the cursor is in, and the next window.\<close>

lemma allocate_turn:
  assumes "clock_ok c" and "0 < n"
  obtains used where "1 \<le> used" "used \<le> n" "is_open c (normalize_hour c t)"
    "utc_hour (to_local c (normalize_hour c t)) + used \<le> cs_end c"
    "used < n \<longrightarrow> utc_hour (to_local c (normalize_hour c t)) + used = cs_end c"
    "allocate_from c t n = allocate_from c (if used < n then next_window c (add_hours (normalize_hour c t) used)
        else add_hours (normalize_hour c t) used) (n - used)"
proof -
  let ?cur = "normalize_hour c t"
  let ?free = "cs_end c - utc_hour (to_local c ?cur)"
  have o: "is_open c ?cur" using assms(1) by (rule normalize_hour_open)
  then have free: "0 < ?free" by (simp add: is_open_def Let_def)
  show thesis
  proof (rule that [of "min n ?free"])
    show "allocate_from c t n = allocate_from c (if min n ?free < n then next_window c (add_hours ?cur (min n ?free))
        else add_hours ?cur (min n ?free)) (n - min n ?free)"
      using assms(2) free by (subst allocate_from.simps) (simp add: Let_def max_def)
  qed (use assms(2) free o in auto)
qed

text \<open>The loop ends, and later than it started.\<close>

lemma allocate_ends:
  assumes "clock_ok c" and "0 \<le> n"
  obtains u where "allocate_from c t n = Some u" "t \<le> u" "0 < n \<longrightarrow> t < u"
proof -
  have "\<exists>u. allocate_from c t n = Some u \<and> t \<le> u \<and> (0 < n \<longrightarrow> t < u)"
    using assms(2)
  proof (induction "nat n" arbitrary: t n rule: less_induct)
    case less
    show ?case
    proof (cases "0 < n")
      case False
      then show ?thesis by (subst allocate_from.simps) simp
    next
      case True
      obtain used where u: "1 \<le> used" "used \<le> n"
          "allocate_from c t n = allocate_from c (if used < n then next_window c (add_hours (normalize_hour c t) used)
             else add_hours (normalize_hour c t) used) (n - used)"
        by (rule allocate_turn [OF assms(1) True])
      let ?a = "add_hours (normalize_hour c t) used"
      have late: "t < ?a" using normalize_hour_ge [OF assms(1), of t] u(1) by (simp add: add_hours_def ms_hour_def)
      have "?a \<le> next_window c ?a"
      proof -
        have "to_local c ?a < to_local c (next_window c ?a)"
          using date_split [of "to_local c ?a"] assms(1)
          by (simp add: next_window_def date_at_def ms_day_def ms_hour_def clock_ok_def)
        then show ?thesis by (simp add: local_mono)
      qed
      with less.hyps [of "n - used" "if used < n then next_window c ?a else ?a"] u(1,2) late True show ?thesis
        unfolding u(3) by (auto intro: order_less_le_trans)
    qed
  qed
  then show thesis using that by blast
qed

lemma allocate_later:
  assumes "clock_ok c" and "0 \<le> n" and "allocate_from c t n = Some u"
  shows "t \<le> u" and "0 < n \<Longrightarrow> t < u"
proof -
  obtain w where "allocate_from c t n = Some w" "t \<le> w" "0 < n \<longrightarrow> t < w" by (rule allocate_ends [OF assms(1,2)])
  with assms(3) show "t \<le> u" "0 < n \<Longrightarrow> t < u" by simp_all
qed

text \<open>It ends when exactly the given number of hours has been open, right after the last of them.\<close>

lemma allocate_counts:
  assumes "clock_ok c" and "cs_end c < 24" and "0 < n" and "allocate_from c t n = Some u"
  shows "int (open_hours c t u) = n \<and> is_open c (add_hours u (- 1))"
  using assms(3,4)
proof (induction "nat n" arbitrary: t n rule: less_induct)
  case less
  obtain used where a: "1 \<le> used" "used \<le> n" "is_open c (normalize_hour c t)"
      "utc_hour (to_local c (normalize_hour c t)) + used \<le> cs_end c"
      "used < n \<longrightarrow> utc_hour (to_local c (normalize_hour c t)) + used = cs_end c"
      "allocate_from c t n = allocate_from c (if used < n then next_window c (add_hours (normalize_hour c t) used)
         else add_hours (normalize_hour c t) used) (n - used)"
    by (rule allocate_turn [OF assms(1) less.prems(1)])
  let ?cur = "normalize_hour c t"
  let ?a = "add_hours ?cur used"
  obtain k where k: "used = int k" using zero_le_imp_eq_int [of used] a(1) by auto
  have cur: "t \<le> ?cur" "open_hours c t ?cur = 0" using assms(1) by (simp_all add: normalize_hour_ge open_hours_normalize)
  have run: "open_hours c ?cur ?a = k" using open_hours_run [OF assms(1) a(3), of k] a(4) k by simp
  have le: "?cur \<le> ?a" using a(1) by (simp add: add_hours_def ms_hour_def)
  have to_a: "open_hours c t ?a = k" using open_hours_split [OF cur(1) le] cur(2) run by simp
  have l: "to_local c ?cur = date_at (utc_day (to_local c ?cur)) (utc_hour (to_local c ?cur))"
    using date_split(1) [of "to_local c ?cur"] a(3) by (simp add: is_open_def Let_def)
  have shift: "to_local c (add_hours ?cur i) = date_at (utc_day (to_local c ?cur)) (utc_hour (to_local c ?cur) + i)" for i
  proof -
    have "to_local c (add_hours ?cur i) = to_local c ?cur + i * ms_hour" by (simp add: to_local_def add_hours_def)
    also have "\<dots> = date_at (utc_day (to_local c ?cur)) (utc_hour (to_local c ?cur) + i)"
      by (subst l) (simp add: date_at_def algebra_simps)
    finally show ?thesis .
  qed
  show ?case
  proof (cases "used < n")
    case True
    then have "to_local c ?a = date_at (utc_day (to_local c ?cur)) (cs_end c)" using shift [of used] a(5) by simp
    then have nw: "next_window c ?a = normalize_hour c ?a" using closing_hour [OF assms(1,2)] by simp
    have rest: "0 < n - used" "allocate_from c (normalize_hour c ?a) (n - used) = Some u"
      using less.prems(2) True unfolding a(6) nw by simp_all
    have IH: "int (open_hours c (normalize_hour c ?a) u) = n - used" "is_open c (add_hours u (- 1))"
      using less.hyps [OF _ rest] a(1) rest(1) by simp_all
    have "normalize_hour c ?a \<le> u" using allocate_later [OF assms(1) _ rest(2)] rest(1) by simp
    moreover have "?a \<le> normalize_hour c ?a" using assms(1) by (rule normalize_hour_ge)
    ultimately have "open_hours c ?a u = open_hours c (normalize_hour c ?a) u" "?a \<le> u"
      using open_hours_split [of ?a "normalize_hour c ?a" u c] open_hours_normalize [OF assms(1), of ?a] by simp_all
    moreover have "t \<le> ?a" using cur(1) le by simp
    ultimately show ?thesis using open_hours_split [of t ?a u c] to_a IH k by simp
  next
    case False
    then have "n = used" using a(2) by simp
    moreover have "allocate_from c ?a 0 = Some ?a" by (subst allocate_from.simps) simp
    ultimately have "u = ?a" "n = used" using less.prems(2) unfolding a(6) by simp_all
    moreover have "is_open c (add_hours ?a (- 1))"
    proof -
      have "add_hours ?a (- 1) = add_hours ?cur (used - 1)" by (simp add: add_hours_def algebra_simps)
      moreover have "cs_start c \<le> utc_hour (to_local c ?cur)" "0 \<le> cs_start c" using a(3) assms(1)
        by (simp_all add: is_open_def Let_def clock_ok_def)
      ultimately show ?thesis using a(1,4) assms(2) date_fields [of "utc_hour (to_local c ?cur) + (used - 1)"]
        by (simp add: is_open_def Let_def shift)
    qed
    ultimately show ?thesis using to_a k by simp
  qed
qed

lemma allocate_business_hours_Fin:
  "allocate_business_hours c t (Fin x) = allocate_from c (normalize_hour c t) (max 1 \<lceil>x\<rceil>)"
  by (simp add: allocate_business_hours_def math_max_def num_simps max_def)

lemma allocate_business:
  assumes "clock_ok c" and "cs_end c < 24" and "hours = Fin x"
  obtains u where "allocate_business_hours c t hours = Some u" "normalize_hour c t < u" "is_business_hour c u"
    "int (open_hours c t u) = max 1 \<lceil>x\<rceil>"
proof -
  obtain u where u: "allocate_from c (normalize_hour c t) (max 1 \<lceil>x\<rceil>) = Some u" "0 < max 1 \<lceil>x\<rceil> \<longrightarrow> normalize_hour c t < u"
    by (rule allocate_ends [OF assms(1), of "max 1 \<lceil>x\<rceil>" "normalize_hour c t"]) simp
  from allocate_counts [OF assms(1,2) _ u(1)]
  have n: "int (open_hours c (normalize_hour c t) u) = max 1 \<lceil>x\<rceil>" "is_open c (add_hours u (- 1))" by simp_all
  let ?l = "to_local c (add_hours u (- 1))"
  have l: "?l = date_at (utc_day ?l) (utc_hour ?l)" using date_split(1) [of ?l] n(2) by (simp add: is_open_def Let_def)
  have "to_local c u = ?l + ms_hour" by (simp add: to_local_def add_hours_def)
  then have "to_local c u = date_at (utc_day ?l) (utc_hour ?l + 1)" using l by (simp add: date_at_def algebra_simps)
  moreover have "cs_start c \<le> utc_hour ?l" "utc_hour ?l < cs_end c" "0 \<le> cs_start c"
    using n(2) assms(1) by (simp_all add: is_open_def Let_def clock_ok_def)
  ultimately have b: "is_business_hour c u" using assms(2) by (simp add: is_business_hour_def Let_def date_fields)
  have later: "normalize_hour c t < u" using u(2) by linarith
  then have "open_hours c t u = open_hours c (normalize_hour c t) u"
    using open_hours_split [of t "normalize_hour c t" u c] normalize_hour_ge [OF assms(1), of t]
      open_hours_normalize [OF assms(1), of t] by simp
  with that [of u] later u(1) b n(1) assms(3) show thesis by (simp add: allocate_business_hours_Fin)
qed

text \<open>A window that closes at midnight: the day after the first is skipped.\<close>

lemma midnight_skips:
  assumes "clock_ok c" and "cs_end c = 24"
  shows "allocate_from c (from_local c (date_at d 23)) 2 = Some (from_local c (date_at (d + 2) (cs_start c + 1)))"
proof -
  let ?t = "from_local c (date_at d 23)" and ?u = "from_local c (date_at (d + 2) (cs_start c))"
  have s: "0 \<le> cs_start c" "cs_start c < 24" using assms(1) by (simp_all add: clock_ok_def)
  have t: "normalize_hour c ?t = ?t" using assms by (intro normalize_hour_id) (simp_all add: is_open_from_local clock_ok_def)
  have u: "normalize_hour c ?u = ?u" using assms s by (intro normalize_hour_id) (simp_all add: is_open_from_local clock_ok_def)
  have "date_at d 23 + ms_hour = date_at (d + 1) 0" by (simp add: date_at_def ms_day_def ms_hour_def)
  then have "to_local c (add_hours ?t 1) = date_at (d + 1) 0" by (simp add: to_local_def from_local_def add_hours_def)
  then have "next_window c (add_hours ?t 1) = ?u"
    by (simp add: next_window_def date_fields(1) add.commute)
  moreover have "allocate_from c ?u 1 = Some (add_hours ?u 1)"
    using s assms(2) by (subst allocate_from.simps) (simp add: u Let_def date_fields allocate_from.simps [of c _ 0])
  ultimately have "allocate_from c ?t 2 = Some (add_hours ?u 1)"
    using assms(2) by (subst allocate_from.simps) (simp add: t Let_def date_fields)
  then show ?thesis by (simp add: add_hours_def from_local_def date_at_def algebra_simps)
qed

lemma midnight_open_hours:
  assumes "clock_ok c" and "cs_end c = 24"
  shows "int (open_hours c (from_local c (date_at d 23)) (from_local c (date_at (d + 2) (cs_start c + 1)))) = 26 - cs_start c"
proof -
  have s: "0 \<le> cs_start c" "cs_start c \<le> 23" using assms(1) by (simp_all add: clock_ok_def)
  let ?t = "from_local c (date_at d 23)" and ?v = "from_local c (date_at (d + 1) (cs_start c))"
    and ?w = "from_local c (date_at (d + 2) (cs_start c))"
  have norm: "normalize_hour c (add_hours (from_local c (date_at e k)) (24 - k)) = from_local c (date_at (e + 1) (cs_start c))" for e k
  proof -
    have "to_local c (add_hours (from_local c (date_at e k)) (24 - k)) = date_at (e + 1) 0"
      by (simp add: to_local_def from_local_def add_hours_def date_at_def ms_day_def ms_hour_def)
    then have l: "add_hours (from_local c (date_at e k)) (24 - k) = from_local c (date_at (e + 1) 0)" by (metis local_from(2))
    have "round_up_hour c (from_local c (date_at (e + 1) 0)) = from_local c (date_at (e + 1) 0)"
      by (simp add: round_up_hour_def Let_def date_fields)
    then show ?thesis unfolding l using s assms(2) by (auto simp: normalize_hour_def Let_def date_fields)
  qed
  have run: "int (open_hours c (from_local c (date_at e k)) (from_local c (date_at (e + 1) (cs_start c)))) = 24 - k"
    if "cs_start c \<le> k" "k \<le> 23" for e k
  proof -
    let ?a = "from_local c (date_at e k)"
    have k: "0 \<le> k" "k < 24" using that s by simp_all
    have o: "is_open c ?a" using that k assms(2) by (simp add: is_open_from_local)
    obtain n where n: "24 - k = int n" using zero_le_imp_eq_int [of "24 - k"] k by auto
    have "utc_hour (to_local c ?a) + int n \<le> cs_end c" using k n assms(2) by (simp add: date_fields)
    from open_hours_run [OF assms(1) o this] have c1: "open_hours c ?a (add_hours ?a (24 - k)) = n" using n by simp
    have le: "?a \<le> add_hours ?a (24 - k)" using k by (simp add: add_hours_def ms_hour_def)
    have le2: "add_hours ?a (24 - k) \<le> from_local c (date_at (e + 1) (cs_start c))"
      using normalize_hour_ge [OF assms(1), of "add_hours ?a (24 - k)"] norm by simp
    have "open_hours c (add_hours ?a (24 - k)) (from_local c (date_at (e + 1) (cs_start c))) = 0"
      using open_hours_normalize [OF assms(1), of "add_hours ?a (24 - k)"] norm by simp
    with open_hours_split [OF le le2, of c] c1 n show ?thesis by simp
  qed
  have e: "int (open_hours c ?w (from_local c (date_at (d + 2) (cs_start c + 1)))) = 1"
  proof -
    have o: "is_open c ?w" using s assms(2) by (simp add: is_open_from_local)
    have "open_hours c ?w (add_hours ?w (int 1)) = 1"
      by (rule open_hours_run [OF assms(1) o]) (use s assms(2) in \<open>simp add: date_fields\<close>)
    moreover have "add_hours ?w (int 1) = from_local c (date_at (d + 2) (cs_start c + 1))"
      by (simp add: add_hours_def from_local_def date_at_def algebra_simps)
    ultimately show ?thesis by simp
  qed
  have le: "?t \<le> ?v" "?v \<le> ?w" "?w \<le> from_local c (date_at (d + 2) (cs_start c + 1))"
    using s by (simp_all add: from_local_def date_at_def ms_day_def ms_hour_def)
  show ?thesis
    using open_hours_split [OF le(1) order_trans [OF le(2,3)], of c] open_hours_split [OF le(2,3), of c]
      run [of 23 d] run [of "cs_start c" "d + 1"] e s by (simp add: add.assoc)
qed

section \<open>Windows\<close>

text \<open>A window as the clock makes it: a departure and a later arrival in business hours, with its date.\<close>

definition good_window :: "clock_settings \<Rightarrow> millis \<Rightarrow> millis \<Rightarrow> string option \<Rightarrow> bool" where
  "good_window c leaves arrives date \<longleftrightarrow>
     is_business_hour c leaves \<and> is_business_hour c arrives \<and> leaves < arrives \<and> date = Some (to_legacy_date c arrives)"

lemma random_pending_hours_Fin:
  assumes "clock_ok c" and "random = Fin r" and "0 \<le> r" and "r \<le> 1"
  obtains x where "random_pending_hours c random = Fin x"
proof -
  have m: "0 \<le> cs_pending_max c - cs_pending_min c + 1" "cs_pending_max c - cs_pending_min c + 1 \<le> 72"
      "1 \<le> cs_pending_min c" "cs_pending_min c \<le> 72"
    using assms(1) by (simp_all add: clock_ok_def)
  let ?n = "of_int (cs_pending_max c - cs_pending_min c + 1) :: rat"
  have n: "0 \<le> ?n" "?n \<le> of_int 72" unfolding of_int_0_le_iff of_int_le_iff using m by simp_all
  have "r * ?n \<le> 1 * of_int 72" using assms(3,4) n by (intro mult_mono) simp_all
  then have "num_of (r * ?n) \<le> num_of (of_int 72)" by (intro num_of_mono) simp
  then have le: "num_of (r * ?n) \<le> Fin 72" using num_of_small_int [of 72] by simp
  have "not_negative (num_of (r * ?n))" using assms(3) n by (intro num_of_nonneg) simp
  with le obtain a where a: "num_of (r * ?n) = Fin a" "0 \<le> a" "a \<le> 72"
    by (cases "num_of (r * ?n)") (auto simp: num_simps not_negative_less)
  have "of_int \<lfloor>a\<rfloor> \<le> (72 :: rat)" using a(3) of_int_floor_le [of a] by linarith
  moreover have "0 \<le> (of_int \<lfloor>a\<rfloor> :: rat)" using a(2) by simp
  moreover have "(of_int (cs_pending_min c) :: rat) \<le> of_int 72" "(of_int 0 :: rat) \<le> of_int (cs_pending_min c)"
    unfolding of_int_le_iff using m by simp_all
  ultimately have b: "0 \<le> of_int (cs_pending_min c) + (of_int \<lfloor>a\<rfloor> :: rat)" "of_int (cs_pending_min c) + (of_int \<lfloor>a\<rfloor> :: rat) \<le> 1000"
    by linarith+
  obtain x where "num_of (of_int (cs_pending_min c) + of_int \<lfloor>a\<rfloor>) = Fin x" by (rule num_of_finite [OF b])
  moreover have "random * Fin ?n = Fin a" using a(1) by (simp add: assms(2) num_simps)
  ultimately show thesis using that by (simp add: random_pending_hours_def num_simps)
qed

text \<open>A draw of \<open>Math.random\<close>.\<close>

definition unit_draw :: "jnum \<Rightarrow> bool" where
  "unit_draw x \<longleftrightarrow> (\<exists>r. x = Fin r \<and> 0 \<le> r \<and> r < 1)"

lemma resolve_pending_business:
  assumes "clock_ok c" and "cs_end c < 24" and "unit_draw random"
  obtains leaves where "resolve_pending_until c random created pending = Some leaves" "is_business_hour c leaves"
    "normalize_hour c created \<le> leaves" "\<And>p. pending = Some p \<Longrightarrow> p \<le> leaves"
proof (cases pending)
  case None
  obtain r where r: "random = Fin r" "0 \<le> r" "r \<le> 1" using assms(3) by (auto simp: unit_draw_def)
  obtain x where x: "random_pending_hours c random = Fin x" by (rule random_pending_hours_Fin [OF assms(1) r])
  obtain u where u: "allocate_business_hours c (normalize_hour c created) (random_pending_hours c random) = Some u"
      "normalize_hour c (normalize_hour c created) < u" "is_business_hour c u"
    by (rule allocate_business [OF assms(1,2) x])
  have "normalize_hour c (normalize_hour c created) = normalize_hour c created"
    by (rule normalize_hour_id [OF assms(1) normalize_hour_open [OF assms(1)]])
  with u that None show thesis by (simp add: resolve_pending_until_def)
next
  case (Some p)
  let ?u = "if normalize_hour c p \<le> normalize_hour c created then normalize_hour c created else normalize_hour c p"
  have "is_business_hour c ?u" using normalize_hour_open [OF assms(1)] by (simp add: open_business_hour)
  moreover have "p \<le> ?u" using normalize_hour_ge [OF assms(1), of p] by auto
  ultimately show thesis using that [of ?u] Some by (simp add: resolve_pending_until_def Let_def)
qed

lemma allocate_business_hours_late:
  assumes "clock_ok c" and "cs_end c < 24" and "allocate_business_hours c t hours = Some u"
    and "hours \<noteq> NaN"
  shows "normalize_hour c t < u" and "is_business_hour c u"
proof -
  have "math_max (Fin 1) (math_ceil hours) \<noteq> NaN"
    using assms(4) by (cases hours) (simp_all add: math_max_def num_simps)
  then obtain n where n: "math_max (Fin 1) (math_ceil hours) = Fin n"
    using assms(3) by (auto simp: allocate_business_hours_def split: jnum.splits)
  have "\<exists>x. allocate_business_hours c t hours = allocate_business_hours c t (Fin x)"
  proof (cases hours)
    case NInf
    then have "allocate_business_hours c t hours = allocate_business_hours c t (Fin 1)"
      by (simp add: allocate_business_hours_def math_max_def num_simps)
    then show ?thesis ..
  qed (use n in \<open>auto simp: math_max_def num_simps\<close>)
  then obtain x where x: "allocate_business_hours c t hours = allocate_business_hours c t (Fin x)" ..
  obtain u' where "allocate_business_hours c t (Fin x) = Some u'" "normalize_hour c t < u'" "is_business_hour c u'"
    by (rule allocate_business [OF assms(1,2) refl])
  with x assms(3) show "normalize_hour c t < u" "is_business_hour c u" by simp_all
qed

text \<open>The hours of a transit are a number, so the window that is allocated for them is good.\<close>

lemma transit_hours_number:
  assumes "calculate_transit_hours legs d origin destination = Some hours"
  shows "math_max (Fin 1) (math_ceil hours) \<noteq> NaN"
proof -
  have "hours \<noteq> NaN"
    using assms
    by (auto simp: calculate_transit_hours_def num_simps split: option.splits if_splits elim!: is_finite_num.elims)
  then show ?thesis by (cases hours) (simp_all add: math_max_def num_simps)
qed

lemma build_simulation_window:
  assumes "clock_ok c" and "cs_end c < 24" and "unit_draw random"
    and "ss_enabled (build_simulation c random allowed created pending origin destination legs d)"
  obtains leaves arrives where
    "build_simulation c random allowed created pending origin destination legs d
       = \<lparr>ss_enabled = True, ss_pending = Some leaves, ss_eta = arrives,
          ss_eta_date = map_option (to_legacy_date c) arrives, ss_reason = None\<rparr>"
    "\<forall>a. arrives = Some a \<longrightarrow> good_window c leaves a (Some (to_legacy_date c a))" "normalize_hour c created \<le> leaves"
    "\<forall>p. pending = Some p \<longrightarrow> p \<le> leaves"
proof -
  obtain hours where a: "allowed" and h: "calculate_transit_hours legs d origin destination = Some hours"
    using assms(4) by (auto simp: build_simulation_def no_simulation_def split: if_splits option.splits)
  obtain leaves where l: "resolve_pending_until c random created pending = Some leaves" "is_business_hour c leaves"
      "normalize_hour c created \<le> leaves" "\<And>p. pending = Some p \<Longrightarrow> p \<le> leaves"
    using resolve_pending_business [OF assms(1-3)] by metis
  let ?arrives = "allocate_business_hours c leaves (math_max (Fin 1) (math_ceil hours))"
  have "good_window c leaves u (Some (to_legacy_date c u))" if "?arrives = Some u" for u
    using allocate_business_hours_late [OF assms(1,2) that transit_hours_number [OF h]] normalize_hour_ge [OF assms(1), of leaves] l(2)
    by (simp add: good_window_def)
  with that [of leaves ?arrives] l a h show thesis by (simp add: build_simulation_def Let_def)
qed

text \<open>The rows the clock makes are not made again.\<close>

lemma good_window_kept:
  assumes "sp_pending s = Some leaves" and "sp_eta s = Some arrives" and "good_window c leaves arrives (sp_eta_date s)"
    and "normalize_hour c (sp_created s) \<le> leaves"
  shows "\<not> should_rebuild c s"
  using assms by (simp add: should_rebuild_def good_window_def not_le not_less)

end
