(* ===== verification/Shipments.thy ===== *)
theory Shipments
  imports Clock_Laws Batches
begin

text \<open>
  \<open>services/logisticsService.js\<close> over the statements of \<open>services/shipmentSimulationService.js\<close>: the
  shipments of a company with their legs and products, the clock that moves simulated shipments, and
  the operations on them. The current time and the draws of \<open>Math.random\<close> are arguments. A function
  that opens a transaction returns the old tables with an error; the cache of demo companies is memory
  of the process and survives. Dates are texts \<open>YYYY-MM-DD\<close>, and the session's time zone is UTC.
\<close>

section \<open>Tables\<close>

record ship_place =
  pl_country :: jsval
  pl_city :: jsval
  pl_address :: jsval
  pl_at :: "rat option \<times> rat option"

text \<open>The columns of the clock come first.\<close>

record ship_row = clock_row +
  sr_id :: ident
  sr_company :: ident
  sr_reference :: jsval
  sr_origin :: ship_place
  sr_destination :: ship_place
  sr_weight :: "jnum option"
  sr_distance :: "jnum option"
  sr_co2 :: "jnum option"

record ship_leg =
  sl_shipment :: ident
  sl_order :: int
  sl_mode :: string
  sl_from :: jsval
  sl_to :: jsval
  sl_distance :: "rat option"
  sl_duration :: "rat option"
  sl_co2 :: "rat option"
  sl_factor :: "rat option"
  sl_carrier :: jsval
  sl_vehicle :: jsval

record ship_item =
  si_shipment :: ident
  si_product :: ident
  si_quantity :: int
  si_weight :: "rat option"
  si_co2 :: "rat option"

record logistics_db =
  lo_shipments :: "ship_row list"
  lo_legs :: "ship_leg list"
  lo_items :: "ship_item list"
  lo_products :: "product_row list"
  lo_companies :: "company_info list"
  lo_members :: "member_row list"
  lo_demo_users :: "ident list"
  lo_demo_cache :: "(ident \<times> bool) list"

type_synonym 'a shipping = "(service_error + 'a) \<times> logistics_db"

definition ship_error :: "string \<Rightarrow> service_error" where
  "ship_error c = Service_Error c 500"

definition in_shipping :: "(logistics_db \<Rightarrow> service_error + 'a \<times> logistics_db) \<Rightarrow> logistics_db \<Rightarrow> 'a shipping" where
  "in_shipping work db = (case work db of Inl e \<Rightarrow> (Inl e, db) | Inr (r, db') \<Rightarrow> (Inr r, db'))"

definition is_date_text :: "string \<Rightarrow> bool" where
  "is_date_text s =
     (is_date_shape s \<and>
      (let y = digits_val (slice 0 4 s); m = digits_val (slice 5 7 s); d = digits_val (slice 8 10 s)
       in 1 \<le> m \<and> m \<le> 12 \<and> 1 \<le> d \<and> civil_of_day (day_of_civil y (nat m) d) = (y, nat m, d)))"

definition date_day :: "string \<Rightarrow> int" where
  "date_day s = day_of_civil (digits_val (slice 0 4 s)) (nat (digits_val (slice 5 7 s))) (digits_val (slice 8 10 s))"

text \<open>\<open>new Date(s)\<close> of a date text is midnight UTC; another text is no date the code is given.\<close>

definition date_millis :: "string \<Rightarrow> millis option" where
  "date_millis s = (if is_date_text s then Some (date_at (date_day s) 0) else None)"

text \<open>A parameter of type \<open>DATE\<close>; and of type \<open>INTEGER\<close>, of which the validators let only digits through.\<close>

definition date_param :: "jsval \<Rightarrow> service_error + string option" where
  "date_param v =
     (if is_nullish v then Inr None
      else if is_date_text (to_str v) then Inr (Some (to_str v)) else Inl (sql_error ''22008''))"

definition integer_param :: "jsval \<Rightarrow> service_error + int" where
  "integer_param v =
     (if is_nullish v then Inl (sql_error ''23502'')
      else case decimal_text (to_str v) of
             None \<Rightarrow> Inl (sql_error ''22P02'')
           | Some r \<Rightarrow> integer_of_num (Fin r))"

definition legs_of :: "ident \<Rightarrow> logistics_db \<Rightarrow> ship_leg list" where
  "legs_of i db = sort_key sl_order (filter (\<lambda>l. sl_shipment l = i) (lo_legs db))"

definition ship_items_of :: "ident \<Rightarrow> logistics_db \<Rightarrow> ship_item list" where
  "ship_items_of i db = filter (\<lambda>p. si_shipment p = i) (lo_items db)"

definition find_shipment :: "ident \<Rightarrow> ident \<Rightarrow> logistics_db \<Rightarrow> ship_row option" where
  "find_shipment i company db = select_one (\<lambda>s. sr_id s = i \<and> sr_company s = company) (lo_shipments db)"

section \<open>The clock over the tables\<close>

definition has_demo_member :: "ident \<Rightarrow> logistics_db \<Rightarrow> bool" where
  "has_demo_member company db = list_ex (\<lambda>m. cm_company m = company \<and> cm_user m \<in> set (lo_demo_users db)) (lo_members db)"

definition demo_company_now :: "ident \<Rightarrow> logistics_db \<Rightarrow> bool" where
  "demo_company_now company db =
     (case select_one (\<lambda>c. ci_id c = company) (lo_companies db) of
        None \<Rightarrow> False
      | Some c \<Rightarrow> has_demo_member company db \<or> lower (trim (ci_name c)) = ''demo company'')"

definition is_demo_company :: "ident \<Rightarrow> logistics_db \<Rightarrow> bool \<times> logistics_db" where
  "is_demo_company company db =
     (if company = [] then (False, db)
      else case map_of (lo_demo_cache db) company of
             Some b \<Rightarrow> (b, db)
           | None \<Rightarrow> (let b = demo_company_now company db
                     in (b, db\<lparr>lo_demo_cache := alist_put company b (lo_demo_cache db)\<rparr>)))"

definition number_column :: "jnum option \<Rightarrow> jsval" where
  "number_column c = (case c of None \<Rightarrow> JNull | Some n \<Rightarrow> JNum n)"

definition clock_leg_of :: "ship_leg \<Rightarrow> clock_leg" where
  "clock_leg_of l =
     \<lparr>tl_mode = JStr (sl_mode l), tl_distance = number_column (map_option float_of (sl_distance l)),
      tl_duration = number_column (map_option float_of (sl_duration l))\<rparr>"

definition sync_shipment_by_id :: "clock_settings \<Rightarrow> millis \<Rightarrow> ident \<Rightarrow> logistics_db \<Rightarrow> logistics_db" where
  "sync_shipment_by_id c now i db =
     db\<lparr>lo_shipments := update_where (\<lambda>s. sr_id s = i) (sync_row c now) (lo_shipments db)\<rparr>"

text \<open>The rows \<open>backfillCompanyShipments\<close> selects.\<close>

definition off_hours :: "clock_settings \<Rightarrow> millis \<Rightarrow> bool" where
  "off_hours c t =
     (let l = to_local c t in past_hour l \<noteq> 0 \<or> utc_hour l < cs_start c \<or> cs_end c < utc_hour l)"

definition backfill_selects :: "clock_settings \<Rightarrow> ship_row \<Rightarrow> bool" where
  "backfill_selects c s =
     (sp_simulated s \<and> (sp_pending s = None \<or> sp_eta s = None)
      \<or> sp_simulated s \<and> (case sp_pending s of None \<Rightarrow> False | Some p \<Rightarrow> off_hours c p \<or> p < sp_created s)
      \<or> sp_simulated s \<and> (case sp_eta s of None \<Rightarrow> False
           | Some a \<Rightarrow> off_hours c a \<or> (case sp_pending s of None \<Rightarrow> False | Some p \<Rightarrow> a \<le> p))
      \<or> sp_status s = ''delivered'' \<and> sp_arrived s = None
      \<or> (case sp_eta s of None \<Rightarrow> False | Some a \<Rightarrow> sp_eta_date s \<noteq> Some (to_legacy_date c a))
      \<or> (case sp_arrived s of None \<Rightarrow> False | Some a \<Rightarrow> sp_arrived_date s \<noteq> Some (to_legacy_date c a)))"

definition first_date :: "millis option list \<Rightarrow> millis option" where
  "first_date ds = (case filter (\<lambda>d. d \<noteq> None) ds of [] \<Rightarrow> None | d # _ \<Rightarrow> d)"

definition rebuilt_window :: "clock_settings \<Rightarrow> jnum \<Rightarrow> clock_leg list \<Rightarrow> ship_row \<Rightarrow> simulation_state" where
  "rebuilt_window c random legs s =
     (if should_rebuild c s
      then (let sim = build_simulation c random True (sp_created s) (sp_pending s) (pl_country (sr_origin s))
                  (pl_country (sr_destination s)) legs (number_column (sr_distance s))
            in if ss_enabled sim then sim
               else sim\<lparr>ss_pending := sp_pending s, ss_eta := sp_eta s, ss_eta_date := sp_eta_date s\<rparr>)
      else \<lparr>ss_enabled = sp_simulated s, ss_pending = sp_pending s, ss_eta = sp_eta s, ss_eta_date = sp_eta_date s,
            ss_reason = None\<rparr>)"

definition backfilled :: "clock_settings \<Rightarrow> jnum \<Rightarrow> clock_leg list \<Rightarrow> ship_row \<Rightarrow> ship_row" where
  "backfilled c random legs s =
     (let w = rebuilt_window c random legs s;
          eta_date = (case ss_eta w of Some a \<Rightarrow> Some (to_legacy_date c a)
                      | None \<Rightarrow> if \<not> ss_enabled w then sp_eta_date s else ss_eta_date w);
          arrived = (if sp_status s = ''delivered''
                     then first_date [sp_arrived s, Option.bind (sp_arrived_date s) date_millis, ss_eta w,
                            Some (sp_updated s), Some (sp_created s)]
                     else sp_arrived s);
          arrived_date = (if sp_status s = ''delivered'' then map_option (to_legacy_date c) arrived
                          else case sp_arrived s of Some a \<Rightarrow> Some (to_legacy_date c a) | None \<Rightarrow> sp_arrived_date s)
      in s\<lparr>sp_simulated := ss_enabled w, sp_pending := ss_pending w, sp_eta := ss_eta w, sp_eta_date := eta_date,
           sp_arrived := arrived, sp_arrived_date := arrived_date\<rparr>)"

definition backfill_row :: "clock_settings \<Rightarrow> jnum \<Rightarrow> millis \<Rightarrow> clock_leg list \<Rightarrow> ship_row \<Rightarrow> ship_row" where
  "backfill_row c random now legs s =
     (let s' = backfilled c random legs s in if s' = s then s else s'\<lparr>sp_updated := now\<rparr>)"

definition backfill_company :: "clock_settings \<Rightarrow> (ident \<Rightarrow> jnum) \<Rightarrow> millis \<Rightarrow> ident \<Rightarrow> logistics_db \<Rightarrow> logistics_db" where
  "backfill_company c draw now company db =
     (let (demo, db) = is_demo_company company db
      in if demo then db
         else db\<lparr>lo_shipments := update_where (\<lambda>s. sr_company s = company \<and> backfill_selects c s)
                  (\<lambda>s. backfill_row c (draw (sr_id s)) now (map clock_leg_of (legs_of (sr_id s) db)) s) (lo_shipments db)\<rparr>)"

definition sync_company :: "clock_settings \<Rightarrow> (ident \<Rightarrow> jnum) \<Rightarrow> millis \<Rightarrow> ident \<Rightarrow> logistics_db \<Rightarrow> logistics_db" where
  "sync_company c draw now company db =
     (let (demo, db) = is_demo_company company db
      in if demo then db
         else let db = backfill_company c draw now company db
              in db\<lparr>lo_shipments := update_where
                      (\<lambda>s. sr_company s = company \<and> sp_simulated s \<and> sp_status s \<noteq> ''cancelled'') (sync_row c now)
                      (lo_shipments db)\<rparr>)"

section \<open>Creating a shipment\<close>

record leg_data =
  ld_order :: jsval
  ld_mode :: jsval
  ld_from :: jsval
  ld_to :: jsval
  ld_distance :: jsval
  ld_duration :: jsval
  ld_co2 :: jsval
  ld_factor :: jsval
  ld_carrier :: jsval
  ld_vehicle :: jsval

record item_request =
  ir_product :: ident
  ir_quantity :: jsval
  ir_weight :: jsval
  ir_co2 :: jsval

record shipment_data =
  sd_reference :: jsval
  sd_origin :: jsval
  sd_destination :: jsval
  sd_arrival :: jsval
  sd_legs :: "leg_data list"
  sd_items :: "item_request list"

definition or_null :: "jsval \<Rightarrow> jsval" where
  "or_null v = jor v JNull"

definition sum_floats :: "jsval list \<Rightarrow> jnum" where
  "sum_floats vs = foldl (\<lambda>s v. s + parse_float (to_str v)) (Fin 0) vs"

definition request_clock_leg :: "leg_data \<Rightarrow> clock_leg" where
  "request_clock_leg l = \<lparr>tl_mode = ld_mode l, tl_distance = ld_distance l, tl_duration = ld_duration l\<rparr>"

definition leg_row_of :: "ident \<Rightarrow> leg_data \<Rightarrow> service_error + ship_leg" where
  "leg_row_of i l =
     bind_result (integer_param (ld_order l)) (\<lambda>n.
     bind_result (unless_violated [(is_nullish (ld_mode l), ''23502''), (ld_mode l \<notin> JStr ` set transport_modes, ''22P02''),
       (is_nullish (ld_from l) \<or> is_nullish (ld_to l), ''23502'')] (to_str (ld_mode l))) (\<lambda>mode.
     bind_result (numeric_param 12 2 (ld_distance l)) (\<lambda>d.
     bind_result (numeric_param 8 2 (or_null (ld_duration l))) (\<lambda>h.
     bind_result (numeric_param 12 4 (ld_co2 l)) (\<lambda>e.
     bind_result (numeric_param 12 6 (or_null (ld_factor l))) (\<lambda>f.
       Inr \<lparr>sl_shipment = i, sl_order = n, sl_mode = mode, sl_from = ld_from l, sl_to = ld_to l, sl_distance = d,
         sl_duration = h, sl_co2 = e, sl_factor = f, sl_carrier = or_null (ld_carrier l),
         sl_vehicle = or_null (ld_vehicle l)\<rparr>))))))"

definition item_row_of :: "ident \<Rightarrow> item_request \<Rightarrow> service_error + ship_item" where
  "item_row_of i p =
     bind_result (integer_param (ir_quantity p)) (\<lambda>q.
     bind_result (numeric_param 10 4 (ir_weight p)) (\<lambda>w.
     bind_result (numeric_param 12 4 (ir_co2 p)) (\<lambda>e.
       Inr \<lparr>si_shipment = i, si_product = ir_product p, si_quantity = q, si_weight = w, si_co2 = e\<rparr>)))"

definition owned_products :: "ident \<Rightarrow> ident list \<Rightarrow> logistics_db \<Rightarrow> bool" where
  "owned_products company ids db =
     (matching (\<lambda>p. pd_id p \<in> set ids \<and> pd_company p = company) (lo_products db) = length ids)"

definition place_of :: "jsval \<Rightarrow> service_error + ship_place" where
  "place_of l =
     bind_result (unless_violated [(is_nullish (jget l ''country''), ''23502'')] l) (\<lambda>l.
     bind_result (location_point l) (\<lambda>point.
       Inr \<lparr>pl_country = jget l ''country'', pl_city = or_null (jget l ''city''),
         pl_address = or_null (jget l ''address''), pl_at = point\<rparr>))"

definition ship_reference :: "int \<Rightarrow> ident \<Rightarrow> jsval \<Rightarrow> logistics_db \<Rightarrow> jsval" where
  "ship_reference year company v db =
     (if truthy v then v
      else JStr (''SHIP-'' @ int_str year @ ''-''
        @ pad_start 4 (CHR ''0'') (nat_str (matching (\<lambda>s. sr_company s = company) (lo_shipments db) + 1))))"

definition insert_shipment :: "ship_row \<Rightarrow> logistics_db \<Rightarrow> service_error + logistics_db" where
  "insert_shipment s db =
     unless_violated [(sr_id s \<in> sr_id ` set (lo_shipments db), ''23505''),
       (sr_company s \<notin> ci_id ` set (lo_companies db), ''23503'')]
       (db\<lparr>lo_shipments := lo_shipments db @ [s]\<rparr>)"

definition new_shipment ::
  "clock_settings \<Rightarrow> jnum \<Rightarrow> millis \<Rightarrow> int \<Rightarrow> bool \<Rightarrow> ident \<Rightarrow> ident \<Rightarrow> shipment_data \<Rightarrow> logistics_db \<Rightarrow>
   service_error + ship_row" where
  "new_shipment c random now year demo i company d db =
     (let distance = sum_floats (map ld_distance (sd_legs d));
          sim = build_simulation c random (\<not> demo) now None (jget (sd_origin d) ''country'')
                  (jget (sd_destination d) ''country'') (map request_clock_leg (sd_legs d)) (JNum distance)
      in bind_result (place_of (sd_origin d)) (\<lambda>from.
         bind_result (place_of (sd_destination d)) (\<lambda>dest.
         bind_result (numeric_of_num 12 4 (sum_floats (map ir_weight (sd_items d)))) (\<lambda>w.
         bind_result (numeric_of_num 12 2 distance) (\<lambda>km.
         bind_result (numeric_of_num 12 4 (sum_floats (map ld_co2 (sd_legs d)))) (\<lambda>e.
         bind_result (if ss_enabled sim then Inr (ss_eta_date sim) else date_param (or_null (sd_arrival d))) (\<lambda>date.
           Inr \<lparr>sp_status = ''pending'', sp_simulated = ss_enabled sim, sp_pending = ss_pending sim, sp_eta = ss_eta sim,
             sp_eta_date = date, sp_arrived = None, sp_arrived_date = None, sp_created = now, sp_updated = now,
             sr_id = i, sr_company = company, sr_reference = ship_reference year company (sd_reference d) db,
             sr_origin = from, sr_destination = dest, sr_weight = Some w, sr_distance = Some km, sr_co2 = Some e\<rparr>)))))))"

definition create_new_shipment ::
  "clock_settings \<Rightarrow> jnum \<Rightarrow> millis \<Rightarrow> int \<Rightarrow> ident \<Rightarrow> ident \<Rightarrow> ident \<Rightarrow> shipment_data \<Rightarrow> logistics_db \<Rightarrow> ship_row shipping" where
  "create_new_shipment c random now year i company user d = in_shipping (\<lambda>db.
     if sd_items d \<noteq> [] \<and> \<not> owned_products company (map ir_product (sd_items d)) db
     then Inl (ship_error ''PRODUCT_NOT_IN_COMPANY'')
     else bind_result (new_shipment c random now year (user \<in> set (lo_demo_users db)) i company d db) (\<lambda>s.
          bind_result (insert_shipment s db) (\<lambda>db1.
          bind_result (traverse (leg_row_of i) (sd_legs d)) (\<lambda>legs.
          bind_result (traverse (item_row_of i) (sd_items d)) (\<lambda>items.
            Inr (s, db1\<lparr>lo_legs := lo_legs db1 @ legs, lo_items := lo_items db1 @ items\<rparr>))))))"

section \<open>Changing a shipment\<close>

definition editable_shipment :: "ship_row \<Rightarrow> bool" where
  "editable_shipment s = (sp_status s = ''pending'')"

definition not_editable :: service_error where
  "not_editable = Service_Error ''SHIPMENT_NOT_EDITABLE'' 409"

record shipment_changes =
  sg_reference :: jsval
  sg_origin :: jsval
  sg_destination :: jsval
  sg_arrival :: jsval

definition changed_place :: "jsval \<Rightarrow> ship_place \<Rightarrow> service_error + ship_place" where
  "changed_place v p =
     bind_result (unless_violated [(jget v ''country'' = JNull, ''23502'')] v) (\<lambda>v.
     bind_result (if jget v ''lat'' = JUndef then Inr (fst (pl_at p)) else numeric_param 10 7 (jget v ''lat'')) (\<lambda>lat.
     bind_result (if jget v ''lng'' = JUndef then Inr (snd (pl_at p)) else numeric_param 10 7 (jget v ''lng'')) (\<lambda>lng.
       let set_to = (\<lambda>k old. if jget v k = JUndef then old else jget v k)
       in Inr \<lparr>pl_country = set_to ''country'' (pl_country p), pl_city = set_to ''city'' (pl_city p),
            pl_address = set_to ''address'' (pl_address p), pl_at = (lat, lng)\<rparr>)))"

definition place_fields :: "string list" where
  "place_fields = [''country'', ''city'', ''address'', ''lat'', ''lng'']"

definition touches_place :: "jsval \<Rightarrow> bool" where
  "touches_place v = list_ex (\<lambda>k. jget v k \<noteq> JUndef) place_fields"

text \<open>Whether the request sets any column, and whether it asks for a new window.\<close>

definition recomputes :: "shipment_changes \<Rightarrow> ship_row \<Rightarrow> bool" where
  "recomputes g s = (sp_simulated s \<and> (jget (sg_origin g) ''country'' \<noteq> JUndef \<or> jget (sg_destination g) ''country'' \<noteq> JUndef))"

definition sets_nothing :: "shipment_changes \<Rightarrow> ship_row \<Rightarrow> bool" where
  "sets_nothing g s =
     (sg_reference g = JUndef \<and> \<not> touches_place (sg_origin g) \<and> \<not> touches_place (sg_destination g)
      \<and> (sp_simulated s \<or> sg_arrival g = JUndef))"

definition changed_shipment ::
  "clock_settings \<Rightarrow> jnum \<Rightarrow> millis \<Rightarrow> shipment_changes \<Rightarrow> clock_leg list \<Rightarrow> ship_row \<Rightarrow> service_error + ship_row" where
  "changed_shipment c random now g legs s =
     bind_result (changed_place (sg_origin g) (sr_origin s)) (\<lambda>from.
     bind_result (changed_place (sg_destination g) (sr_destination s)) (\<lambda>dest.
     bind_result (if sp_simulated s \<or> sg_arrival g = JUndef then Inr (sp_eta_date s)
                  else date_param (or_null (sg_arrival g))) (\<lambda>date.
       let s1 = s\<lparr>sr_reference := (if sg_reference g = JUndef then sr_reference s else or_null (sg_reference g)),
                  sr_origin := from, sr_destination := dest, sp_eta_date := date, sp_updated := now\<rparr>
       in if \<not> recomputes g s then Inr s1
          else let sim = build_simulation c random True (sp_created s) (sp_pending s) (pl_country from) (pl_country dest) legs
                           (number_column (sr_distance s))
               in Inr (s1\<lparr>sp_simulated := ss_enabled sim, sp_pending := ss_pending sim, sp_eta := ss_eta sim,
                    sp_eta_date := (if ss_enabled sim then ss_eta_date sim else None)\<rparr>))))"

definition put_shipment :: "ship_row \<Rightarrow> logistics_db \<Rightarrow> logistics_db" where
  "put_shipment s db =
     db\<lparr>lo_shipments := update_where (\<lambda>r. sr_id r = sr_id s \<and> sr_company r = sr_company s) (\<lambda>_. s) (lo_shipments db)\<rparr>"

text \<open>The row is stored, and a simulated one is moved to its status.\<close>

definition store_and_sync :: "clock_settings \<Rightarrow> millis \<Rightarrow> ship_row \<Rightarrow> logistics_db \<Rightarrow> logistics_db" where
  "store_and_sync c now s db =
     (let db1 = put_shipment s db in if sp_simulated s then sync_shipment_by_id c now (sr_id s) db1 else db1)"

definition update_shipment ::
  "clock_settings \<Rightarrow> jnum \<Rightarrow> millis \<Rightarrow> ident \<Rightarrow> ident \<Rightarrow> shipment_changes \<Rightarrow> logistics_db \<Rightarrow> ship_row option shipping" where
  "update_shipment c random now i company g = in_shipping (\<lambda>db.
     case find_shipment i company db of
       None \<Rightarrow> Inr (None, db)
     | Some s \<Rightarrow>
         (if \<not> editable_shipment s then Inl not_editable
          else if sets_nothing g s then Inr (Some s, db)
          else bind_result (changed_shipment c random now g (map clock_leg_of (legs_of i db)) s) (\<lambda>s1.
                 let db1 = store_and_sync c now s1 db in Inr (find_shipment i company db1, db1))))"

section \<open>Legs and products\<close>

definition orders_sequential :: "leg_data list \<Rightarrow> bool" where
  "orders_sequential legs =
     (list_all (\<lambda>l. is_finite_number (ld_order l)) legs
      \<and> sort (map (\<lambda>l. case ld_order l of JNum (Fin r) \<Rightarrow> r | _ \<Rightarrow> 0) legs) = map of_nat [1..<length legs + 1])"

definition with_legs ::
  "clock_settings \<Rightarrow> jnum \<Rightarrow> millis \<Rightarrow> leg_data list \<Rightarrow> ship_row \<Rightarrow> service_error + ship_row" where
  "with_legs c random now legs s =
     (let distance = sum_floats (map ld_distance legs);
          sim = (if sp_simulated s
                 then build_simulation c random True (sp_created s) (sp_pending s) (pl_country (sr_origin s))
                        (pl_country (sr_destination s)) (map request_clock_leg legs) (JNum distance)
                 else \<lparr>ss_enabled = False, ss_pending = sp_pending s, ss_eta = sp_eta s, ss_eta_date = sp_eta_date s,
                        ss_reason = None\<rparr>)
      in bind_result (numeric_of_num 12 2 distance) (\<lambda>km.
         bind_result (numeric_of_num 12 4 (sum_floats (map ld_co2 legs))) (\<lambda>e.
           Inr (s\<lparr>sr_distance := Some km, sr_co2 := Some e, sp_simulated := ss_enabled sim, sp_pending := ss_pending sim,
             sp_eta := ss_eta sim, sp_eta_date := (if ss_enabled sim then ss_eta_date sim else None),
             sp_updated := now\<rparr>))))"

definition editable_of :: "ident \<Rightarrow> ident \<Rightarrow> logistics_db \<Rightarrow> service_error + ship_row" where
  "editable_of i company db =
     (case find_shipment i company db of
        None \<Rightarrow> Inl (ship_error ''SHIPMENT_NOT_FOUND'')
      | Some s \<Rightarrow> if editable_shipment s then Inr s else Inl not_editable)"

definition replace_legs ::
  "clock_settings \<Rightarrow> jnum \<Rightarrow> millis \<Rightarrow> ident \<Rightarrow> ident \<Rightarrow> leg_data list \<Rightarrow> logistics_db \<Rightarrow> ship_row option shipping" where
  "replace_legs c random now i company legs = in_shipping (\<lambda>db.
     bind_result (editable_of i company db) (\<lambda>s.
       if \<not> orders_sequential legs then Inl (ship_error ''INVALID_SHIPMENT_PAYLOAD'')
       else bind_result (traverse (leg_row_of i) legs) (\<lambda>rows.
            bind_result (with_legs c random now legs s) (\<lambda>s1.
              let db1 = store_and_sync c now s1
                    (db\<lparr>lo_legs := delete_where (\<lambda>l. sl_shipment l = i) (lo_legs db) @ rows\<rparr>)
              in Inr (find_shipment i company db1, db1)))))"

definition replace_items ::
  "millis \<Rightarrow> ident \<Rightarrow> ident \<Rightarrow> item_request list \<Rightarrow> logistics_db \<Rightarrow> ship_row option shipping" where
  "replace_items now i company items = in_shipping (\<lambda>db.
     bind_result (editable_of i company db) (\<lambda>s.
       if \<not> owned_products company (map ir_product items) db then Inl (ship_error ''PRODUCT_NOT_IN_COMPANY'')
       else bind_result (traverse (item_row_of i) items) (\<lambda>rows.
            bind_result (numeric_of_num 12 4 (sum_floats (map ir_weight items))) (\<lambda>w.
            bind_result (numeric_of_num 12 4 (sum_floats (map ir_co2 items))) (\<lambda>e.
              let db1 = put_shipment (s\<lparr>sr_weight := Some w, sr_co2 := Some e, sp_updated := now\<rparr>)
                    (db\<lparr>lo_items := delete_where (\<lambda>p. si_shipment p = i) (lo_items db) @ rows\<rparr>)
              in Inr (find_shipment i company db1, db1))))))"

section \<open>The status\<close>

definition valid_transitions :: "string \<Rightarrow> string list" where
  "valid_transitions status =
     (if status = ''pending'' then [''in_transit'', ''cancelled'']
      else if status = ''in_transit'' then [''delivered'', ''cancelled''] else [])"

text \<open>The UPDATE of a status applies where the row still has the status that was read.\<close>

definition set_status_where ::
  "ident \<Rightarrow> ident \<Rightarrow> string \<Rightarrow> (ship_row \<Rightarrow> ship_row) \<Rightarrow> logistics_db \<Rightarrow> ship_row option shipping" where
  "set_status_where i company expected f db =
     (let mine = (\<lambda>s. sr_id s = i \<and> sr_company s = company \<and> sp_status s = expected)
      in if matching mine (lo_shipments db) = 0
         then (Inl (Service_Error ''SHIPMENT_STATUS_CONFLICT'' 409), db)
         else let db1 = db\<lparr>lo_shipments := update_where mine f (lo_shipments db)\<rparr>
              in (Inr (find_shipment i company db1), db1))"

definition cancel_simulated :: "millis \<Rightarrow> ident \<Rightarrow> ident \<Rightarrow> string \<Rightarrow> ship_row \<Rightarrow> logistics_db \<Rightarrow> ship_row option shipping" where
  "cancel_simulated now i company status s db =
     (if status \<noteq> ''cancelled'' then (Inl (Service_Error ''SHIPMENT_STATUS_AUTO_MANAGED'' 400), db)
      else if sp_status s \<noteq> ''pending'' then (Inl (Service_Error ''SHIPMENT_CANCELLATION_NOT_ALLOWED'' 409), db)
      else set_status_where i company ''pending'' (\<lambda>s. s\<lparr>sp_status := ''cancelled'', sp_updated := now\<rparr>) db)"

definition move_manually ::
  "clock_settings \<Rightarrow> millis \<Rightarrow> ident \<Rightarrow> ident \<Rightarrow> string \<Rightarrow> jsval \<Rightarrow> ship_row \<Rightarrow> logistics_db \<Rightarrow> ship_row option shipping" where
  "move_manually c now i company status arrival s db =
     (if status \<notin> set (valid_transitions (sp_status s))
      then (Inl (ship_error ''INVALID_SHIPMENT_STATUS_TRANSITION''), db)
      else case (if status \<noteq> ''delivered'' then Inr (None, None)
                 else if truthy arrival
                 then bind_result (date_param arrival) (\<lambda>d. Inr (d, Option.bind d date_millis))
                 else Inr (Some (to_legacy_date c now), Some now)) of
             Inl e \<Rightarrow> (Inl e, db)
           | Inr (date, at_time) \<Rightarrow>
               set_status_where i company (sp_status s)
                 (\<lambda>s. s\<lparr>sp_status := status, sp_arrived_date := date, sp_arrived := at_time, sp_updated := now\<rparr>) db)"

definition update_shipment_status ::
  "clock_settings \<Rightarrow> (ident \<Rightarrow> jnum) \<Rightarrow> millis \<Rightarrow> ident \<Rightarrow> ident \<Rightarrow> string \<Rightarrow> jsval \<Rightarrow> logistics_db \<Rightarrow>
   ship_row option shipping" where
  "update_shipment_status c draw now i company status arrival db =
     (let db1 = sync_company c draw now company db
      in case find_shipment i company db1 of
           None \<Rightarrow> (Inr None, db1)
         | Some s \<Rightarrow> if sp_simulated s then cancel_simulated now i company status s db1
                     else move_manually c now i company status arrival s db1)"

section \<open>Reading\<close>

text \<open>\<open>toFloat\<close> of a column: \<open>parseFloat(value || 0)\<close>.\<close>

definition float_column :: "jnum option \<Rightarrow> jnum" where
  "float_column v = (case v of None \<Rightarrow> Fin 0 | Some (Fin r) \<Rightarrow> float_of r | Some n \<Rightarrow> n)"

record shipment_view =
  sv_row :: ship_row
  sv_weight :: jnum
  sv_distance :: jnum
  sv_co2 :: jnum
  sv_legs :: "(ship_leg \<times> jnum \<times> jnum option \<times> jnum \<times> jnum option) list"
  sv_items :: "(ship_item \<times> jnum \<times> jnum \<times> (string \<times> string) option) list"

text \<open>\<open>mapShipmentLeg\<close>: distance, duration, emissions and factor; \<open>mapShipmentProduct\<close>: weight, emissions
  and the code and name of the product.\<close>

definition map_leg :: "ship_leg \<Rightarrow> ship_leg \<times> jnum \<times> jnum option \<times> jnum \<times> jnum option" where
  "map_leg l = (l, float_or_zero (sl_distance l), map_option float_of (sl_duration l), float_or_zero (sl_co2 l),
     map_option float_of (sl_factor l))"

definition map_item :: "logistics_db \<Rightarrow> ship_item \<Rightarrow> ship_item \<times> jnum \<times> jnum \<times> (string \<times> string) option" where
  "map_item db p = (p, float_or_zero (si_weight p), float_or_zero (si_co2 p),
     map_option (\<lambda>r. (pd_sku r, pd_name r)) (select_one (\<lambda>r. pd_id r = si_product p) (lo_products db)))"

definition get_shipment_by_id ::
  "clock_settings \<Rightarrow> (ident \<Rightarrow> jnum) \<Rightarrow> millis \<Rightarrow> ident \<Rightarrow> ident \<Rightarrow> logistics_db \<Rightarrow> shipment_view option \<times> logistics_db" where
  "get_shipment_by_id c draw now i company db =
     (let db1 = sync_company c draw now company db
      in (map_option (\<lambda>s. \<lparr>sv_row = s, sv_weight = float_column (sr_weight s), sv_distance = float_column (sr_distance s),
            sv_co2 = float_column (sr_co2 s), sv_legs = map map_leg (legs_of i db1),
            sv_items = map (map_item db1) (ship_items_of i db1)\<rparr>) (find_shipment i company db1), db1))"

record list_filters =
  fl_search :: string
  fl_status :: string
  fl_mode :: string
  fl_from :: string
  fl_to :: string
  fl_page :: nat
  fl_size :: nat
  fl_sort :: string
  fl_desc :: bool

text \<open>The day of arrival, \<open>COALESCE(estimated_arrival_at::date, estimated_arrival)\<close>.\<close>

definition arrival_day :: "ship_row \<Rightarrow> int option" where
  "arrival_day s = (case sp_eta s of Some t \<Rightarrow> Some (utc_day t) | None \<Rightarrow> map_option date_day (sp_eta_date s))"

definition day_within :: "string \<Rightarrow> string \<Rightarrow> int option \<Rightarrow> bool" where
  "day_within low high d =
     ((low = [] \<or> (case d of None \<Rightarrow> False | Some x \<Rightarrow> date_day low \<le> x))
      \<and> (high = [] \<or> (case d of None \<Rightarrow> False | Some x \<Rightarrow> x \<le> date_day high)))"

text \<open>The WHERE clause on a row of the join of a shipment with its legs; a shipment without legs has one
  row.\<close>

definition joined_legs :: "ident \<Rightarrow> logistics_db \<Rightarrow> ship_leg option list" where
  "joined_legs i db = (case legs_of i db of [] \<Rightarrow> [None] | ls \<Rightarrow> map Some ls)"

definition listed :: "list_filters \<Rightarrow> logistics_db \<Rightarrow> ship_row \<Rightarrow> ship_leg option \<Rightarrow> bool" where
  "listed f db s l =
     ((fl_search f = [] \<or> ilike (sr_reference s) (fl_search f) \<or> ilike (JStr (sr_id s)) (fl_search f)
        \<or> (case l of None \<Rightarrow> False | Some l \<Rightarrow> ilike (sl_carrier l) (fl_search f)))
      \<and> (fl_status f = [] \<or> fl_status f = ''all'' \<or> sp_status s = fl_status f)
      \<and> (fl_mode f = [] \<or> list_ex (\<lambda>l. sl_mode l = fl_mode f) (legs_of (sr_id s) db))
      \<and> day_within (fl_from f) (fl_to f) (arrival_day s))"

definition sort_column :: "string \<Rightarrow> ship_row \<Rightarrow> jnum option" where
  "sort_column k s =
     (if k = ''created_at'' then Some (Fin (of_int (sp_created s)))
      else if k = ''estimated_arrival''
      then (case sp_eta s of Some t \<Rightarrow> Some (Fin (of_int t))
            | None \<Rightarrow> map_option (\<lambda>d. Fin (of_int (date_at (date_day d) 0))) (sp_eta_date s))
      else if k = ''total_co2e'' then sr_co2 s
      else Some (Fin (of_int (sp_updated s))))"

text \<open>NaN comes after the numbers and NULL after NaN; descending order is the reverse.\<close>

definition finite_key :: "string \<Rightarrow> ship_row \<Rightarrow> rat option" where
  "finite_key k s = (case sort_column k s of Some (Fin r) \<Rightarrow> Some r | _ \<Rightarrow> None)"

definition order_shipments :: "string \<Rightarrow> bool \<Rightarrow> ship_row list \<Rightarrow> ship_row list" where
  "order_shipments k down ss =
     (let num = (\<lambda>s. case finite_key k s of Some r \<Rightarrow> r | None \<Rightarrow> 0);
          finite = filter (\<lambda>s. finite_key k s \<noteq> None) ss;
          nans = filter (\<lambda>s. finite_key k s = None \<and> sort_column k s \<noteq> None) ss;
          nulls = filter (\<lambda>s. sort_column k s = None) ss
      in if down then nulls @ nans @ sort_key (\<lambda>s. - num s) finite else sort_key num finite @ nans @ nulls)"

record shipment_summary =
  su_row :: ship_row
  su_mode :: "string option"
  su_legs :: nat
  su_items :: nat

text \<open>The legs are counted over the rows that pass the WHERE clause.\<close>

definition summary_of :: "list_filters \<Rightarrow> logistics_db \<Rightarrow> ship_row \<Rightarrow> shipment_summary" where
  "summary_of f db s =
     (let legs = List.map_filter id (filter (listed f db s) (joined_legs (sr_id s) db))
      in \<lparr>su_row = s, su_mode = (case legs of [] \<Rightarrow> None | l # _ \<Rightarrow> Some (sl_mode l)), su_legs = length legs,
          su_items = length (ship_items_of (sr_id s) db)\<rparr>)"

record shipment_page =
  sh_items :: "shipment_summary list"
  sh_total :: nat
  sh_pages :: nat

definition list_shipments ::
  "clock_settings \<Rightarrow> (ident \<Rightarrow> jnum) \<Rightarrow> millis \<Rightarrow> ident \<Rightarrow> list_filters \<Rightarrow> logistics_db \<Rightarrow> shipment_page \<times> logistics_db" where
  "list_shipments c draw now company f db =
     (let db1 = sync_company c draw now company db;
          rows = filter (\<lambda>s. sr_company s = company \<and> list_ex (listed f db1 s) (joined_legs (sr_id s) db1)) (lo_shipments db1);
          page = take (fl_size f) (drop ((fl_page f - 1) * fl_size f) (order_shipments (fl_sort f) (fl_desc f) rows))
      in (\<lparr>sh_items = map (summary_of f db1) page, sh_total = length rows,
           sh_pages = (length rows + fl_size f - 1) div fl_size f\<rparr>, db1))"

record logistics_overview =
  ov_total :: nat
  ov_pending :: nat
  ov_in_transit :: nat
  ov_delivered :: nat
  ov_cancelled :: nat
  ov_co2 :: jnum

text \<open>\<open>SUM\<close> skips NULL, is NaN with a NaN among its terms, and exact otherwise.\<close>

definition sum_column :: "jnum option list \<Rightarrow> jnum" where
  "sum_column vs =
     (let ns = List.map_filter id vs
      in if list_ex (\<lambda>n. \<not> is_finite_num n) ns then NaN
         else float_of (sum_list (map (\<lambda>n. case n of Fin r \<Rightarrow> r | _ \<Rightarrow> 0) ns)))"

definition get_logistics_overview ::
  "clock_settings \<Rightarrow> (ident \<Rightarrow> jnum) \<Rightarrow> millis \<Rightarrow> ident \<Rightarrow> logistics_db \<Rightarrow> logistics_overview \<times> logistics_db" where
  "get_logistics_overview c draw now company db =
     (let db1 = sync_company c draw now company db;
          mine = filter (\<lambda>s. sr_company s = company) (lo_shipments db1);
          n = (\<lambda>status. matching (\<lambda>s. sp_status s = status) mine)
      in (\<lparr>ov_total = length mine, ov_pending = n ''pending'', ov_in_transit = n ''in_transit'',
           ov_delivered = n ''delivered'', ov_cancelled = n ''cancelled'',
           ov_co2 = sum_column (map sr_co2 (filter (\<lambda>s. sp_status s \<noteq> ''cancelled'') mine))\<rparr>, db1))"

end
