(* ===== verification/Shipment_Properties.thy ===== *)
theory Shipment_Properties
  imports Shipments
begin

text \<open>
  The operations on shipments in any order, with time passing between them: windows stay in business
  hours, a shipment only moves forward, one that is due is delivered by the next reading. And what the
  clock gets wrong: a window that closes at midnight, a departure at closing time, a demo company.
\<close>

section \<open>The life of a shipment\<close>

definition shipment_statuses :: "string list" where
  "shipment_statuses = [''pending'', ''in_transit'', ''delivered'', ''cancelled'']"

definition may_become :: "string \<Rightarrow> string \<Rightarrow> bool" where
  "may_become a b \<longleftrightarrow> a = b \<or> a = ''pending'' \<or> a = ''in_transit'' \<and> (b = ''delivered'' \<or> b = ''cancelled'')"

text \<open>What a row of a shipment promises at a time.\<close>

definition row_window_ok :: "clock_settings \<Rightarrow> 'a clock_row_scheme \<Rightarrow> bool" where
  "row_window_ok c s \<longleftrightarrow>
     (\<forall>p a. sp_pending s = Some p \<longrightarrow> sp_eta s = Some a \<longrightarrow>
        good_window c p a (sp_eta_date s) \<and> normalize_hour c (sp_created s) \<le> p)"

definition under_way_ok :: "millis \<Rightarrow> 'a clock_row_scheme \<Rightarrow> bool" where
  "under_way_ok now s \<longleftrightarrow>
     (sp_status s = ''in_transit'' \<longrightarrow> (\<exists>p a. sp_pending s = Some p \<and> sp_eta s = Some a \<and> p \<le> now))
     \<and> (sp_status s = ''delivered'' \<longrightarrow> (\<exists>p a. sp_pending s = Some p \<and> sp_eta s = Some a \<and> a \<le> now))"

definition row_ok :: "clock_settings \<Rightarrow> millis \<Rightarrow> 'a clock_row_scheme \<Rightarrow> bool" where
  "row_ok c now s \<longleftrightarrow>
     sp_status s \<in> set shipment_statuses
     \<and> (sp_simulated s \<longrightarrow> row_window_ok c s \<and> under_way_ok now s)
     \<and> (sp_status s = ''delivered'' \<longrightarrow> sp_arrived s \<noteq> None)"

definition forward :: "ship_row \<Rightarrow> ship_row \<Rightarrow> bool" where
  "forward s s' \<longleftrightarrow> sr_id s' = sr_id s \<and> sr_company s' = sr_company s \<and> sp_created s' = sp_created s
     \<and> may_become (sp_status s) (sp_status s')"

definition rows_grow :: "ship_row list \<Rightarrow> ship_row list \<Rightarrow> bool" where
  "rows_grow rows rows' \<longleftrightarrow> (\<exists>mid new. rows' = mid @ new \<and> list_all2 forward rows mid)"

definition ships_ok :: "clock_settings \<Rightarrow> millis \<Rightarrow> logistics_db \<Rightarrow> bool" where
  "ships_ok c now db \<longleftrightarrow> distinct (map sr_id (lo_shipments db)) \<and> list_all (row_ok c now) (lo_shipments db)"

lemma may_become_refl [simp]: "may_become a a"
  by (simp add: may_become_def)

lemma may_become_trans: "may_become a b \<Longrightarrow> may_become b c \<Longrightarrow> may_become a c"
  by (auto simp: may_become_def)

lemma forward_refl [simp]: "forward s s"
  by (simp add: forward_def)

lemma forward_trans: "forward a b \<Longrightarrow> forward b c \<Longrightarrow> forward a c"
  unfolding forward_def using may_become_trans by metis

lemma rows_grow_refl [simp]: "rows_grow rows rows"
  unfolding rows_grow_def by (rule exI [of _ rows], rule exI [of _ "[]"]) (simp add: list_all2_same)

lemma rows_grow_append [simp]: "rows_grow rows (rows @ new)"
  unfolding rows_grow_def by (rule exI [of _ rows], rule exI [of _ new]) (simp add: list_all2_same)

lemma rows_grow_trans: "rows_grow a b \<Longrightarrow> rows_grow b c \<Longrightarrow> rows_grow a c"
proof -
  assume "rows_grow a b" "rows_grow b c"
  then obtain m1 n1 m2 n2 where b: "b = m1 @ n1" "list_all2 forward a m1" and c: "c = m2 @ n2" "list_all2 forward b m2"
    by (auto simp: rows_grow_def)
  from c(2) b(1) obtain x y where m2: "m2 = x @ y" "list_all2 forward m1 x" by (auto simp: list_all2_append1)
  have "list_all2 forward a x" by (rule list_all2_trans [OF _ b(2) m2(2)]) (rule forward_trans)
  then show ?thesis unfolding rows_grow_def by (rule_tac exI [of _ x], rule_tac exI [of _ "y @ n2"]) (simp add: c(1) m2(1))
qed

lemma rows_grow_find: "rows_grow rows rows' \<Longrightarrow> s \<in> set rows \<Longrightarrow> \<exists>s' \<in> set rows'. forward s s'"
proof -
  assume "rows_grow rows rows'" "s \<in> set rows"
  then obtain mid new where m: "rows' = mid @ new" "list_all2 forward rows mid" by (auto simp: rows_grow_def)
  from \<open>s \<in> set rows\<close> obtain i where i: "i < length rows" "s = rows ! i" by (auto simp: in_set_conv_nth)
  with m(2) have "forward s (mid ! i)" "mid ! i \<in> set mid" by (simp_all add: list_all2_conv_all_nth)
  with m(1) show ?thesis by auto
qed

text \<open>A change of rows: each keeps its key, moves forward and stays sound.\<close>

definition sound_change :: "clock_settings \<Rightarrow> millis \<Rightarrow> logistics_db \<Rightarrow> logistics_db \<Rightarrow> bool" where
  "sound_change c now db db' \<longleftrightarrow>
     (ships_ok c now db \<longrightarrow> ships_ok c now db' \<and> rows_grow (lo_shipments db) (lo_shipments db'))"

lemma sound_change_refl: "lo_shipments db' = lo_shipments db \<Longrightarrow> sound_change c now db db'"
  by (simp add: sound_change_def ships_ok_def)

lemma sound_change_trans: "sound_change c now a b \<Longrightarrow> sound_change c now b d \<Longrightarrow> sound_change c now a d"
  unfolding sound_change_def using rows_grow_trans by blast

lemma sound_update:
  assumes "lo_shipments db' = update_where p f (lo_shipments db)"
    and "\<And>s. s \<in> set (lo_shipments db) \<Longrightarrow> ships_ok c now db \<Longrightarrow> p s \<Longrightarrow> row_ok c now s \<Longrightarrow> row_ok c now (f s) \<and> forward s (f s)"
  shows "sound_change c now db db'"
  unfolding sound_change_def
proof (intro impI conjI)
  assume ok: "ships_ok c now db"
  let ?g = "\<lambda>s. if p s then f s else s"
  have f: "row_ok c now (?g s) \<and> forward s (?g s)" if "s \<in> set (lo_shipments db)" for s
    using assms(2) [OF that ok] ok that by (auto simp: ships_ok_def list_all_iff)
  have m: "lo_shipments db' = map ?g (lo_shipments db)" by (simp add: assms(1) update_where_def)
  have "sr_id (?g s) = sr_id s" if "s \<in> set (lo_shipments db)" for s using f [OF that] by (simp only: forward_def)
  then have "map sr_id (lo_shipments db') = map sr_id (lo_shipments db)" unfolding m map_map comp_def by (rule map_cong [OF refl])
  moreover have "list_all (row_ok c now) (lo_shipments db')" unfolding m list_all_iff set_map using f by blast
  ultimately show "ships_ok c now db'" using ok by (simp add: ships_ok_def)
  have "list_all2 forward (lo_shipments db) (lo_shipments db')"
    unfolding m list_all2_map2 by (rule list.rel_refl_strong) (use f in blast)
  then show "rows_grow (lo_shipments db) (lo_shipments db')" unfolding rows_grow_def by (metis append_Nil2)
qed

section \<open>The clock\<close>

lemma effective_forward:
  assumes "row_ok c now s"
  shows "may_become (sp_status s) (effective_status s now)" and "effective_status s now \<in> set shipment_statuses"
  using assms by (auto simp: row_ok_def under_way_ok_def effective_status_def may_become_def shipment_statuses_def
      split: option.splits if_splits)

lemma sync_row_frame: "sp_simulated (sync_row c now s) = sp_simulated s" "sp_pending (sync_row c now s) = sp_pending s"
  "sp_eta (sync_row c now s) = sp_eta s" "sp_eta_date (sync_row c now s) = sp_eta_date s"
  "sp_created (sync_row c now s) = sp_created s" "sp_status (sync_row c now s) = effective_status s now"
  by (simp_all add: sync_row_def Let_def has_changes_def sync_mutation_of_def)

lemma sync_row_key: "sr_id (sync_row c now s) = sr_id s" "sr_company (sync_row c now s) = sr_company s"
  by (simp_all add: sync_row_def Let_def)

lemma sync_row_ok:
  assumes "row_ok c now s"
  shows "row_ok c now (sync_row c now s)" and "forward s (sync_row c now s)"
proof -
  have "sp_arrived (sync_row c now s) \<noteq> None" if "effective_status s now = ''delivered''"
    using that by (auto simp: sync_row_def Let_def has_changes_def sync_mutation_of_def split: option.splits)
  moreover have "under_way_ok now (sync_row c now s)" if "sp_simulated s"
  proof -
    have "under_way_ok now s" "row_window_ok c s" using assms that by (simp_all add: row_ok_def)
    then show ?thesis using that
      by (auto simp: under_way_ok_def sync_row_frame effective_status_def split: option.splits if_splits)
  qed
  ultimately show "row_ok c now (sync_row c now s)" using assms effective_forward [OF assms]
    by (simp add: row_ok_def sync_row_frame row_window_ok_def)
  show "forward s (sync_row c now s)" using effective_forward [OF assms] by (simp add: forward_def sync_row_frame sync_row_key)
qed

lemma rebuilt_window_ok:
  assumes "clock_ok c" and "cs_end c < 24" and "unit_draw random" and "row_ok c now s" and "sp_simulated s"
  shows "(ss_enabled (rebuilt_window c random legs s) \<longrightarrow>
      (\<forall>p a. ss_pending (rebuilt_window c random legs s) = Some p \<longrightarrow> ss_eta (rebuilt_window c random legs s) = Some a \<longrightarrow>
        good_window c p a (Some (to_legacy_date c a)) \<and> normalize_hour c (sp_created s) \<le> p))
    \<and> (sp_status s = ''in_transit'' \<or> sp_status s = ''delivered'' \<longrightarrow> rebuilt_window c random legs s
        = \<lparr>ss_enabled = True, ss_pending = sp_pending s, ss_eta = sp_eta s, ss_eta_date = sp_eta_date s, ss_reason = None\<rparr>)"
proof -
  have w: "row_window_ok c s" "under_way_ok now s" using assms(4,5) by (simp_all add: row_ok_def)
  show ?thesis
  proof (cases "should_rebuild c s")
    case False
    with w assms(5) show ?thesis by (auto simp: rebuilt_window_def row_window_ok_def good_window_def)
  next
    case True
    then have open_window: "sp_pending s = None \<or> sp_eta s = None"
      using w(1) good_window_kept [of s _ _ c] by (cases "sp_pending s"; cases "sp_eta s") (auto simp: row_window_ok_def)
    then have st: "\<not> (sp_status s = ''in_transit'' \<or> sp_status s = ''delivered'')" using w(2) by (auto simp: under_way_ok_def)
    let ?sim = "build_simulation c random True (sp_created s) (sp_pending s) (pl_country (sr_origin s))
      (pl_country (sr_destination s)) legs (number_column (sr_distance s))"
    show ?thesis
    proof (cases "ss_enabled ?sim")
      case False
      then show ?thesis using True st by (simp add: rebuilt_window_def Let_def)
    next
      case en: True
      obtain leaves arrives where b: "?sim = \<lparr>ss_enabled = True, ss_pending = Some leaves, ss_eta = arrives,
          ss_eta_date = map_option (to_legacy_date c) arrives, ss_reason = None\<rparr>"
        "\<forall>a. arrives = Some a \<longrightarrow> good_window c leaves a (Some (to_legacy_date c a))" "normalize_hour c (sp_created s) \<le> leaves"
        "\<forall>p. sp_pending s = Some p \<longrightarrow> p \<le> leaves"
        by (rule build_simulation_window [OF assms(1-3) en])
      then show ?thesis using True st by (simp add: rebuilt_window_def Let_def)
    qed
  qed
qed

lemma first_date_Some: "Some t \<in> set ds \<Longrightarrow> first_date ds \<noteq> None"
proof -
  assume "Some t \<in> set ds"
  then have "filter (\<lambda>d. d \<noteq> None) ds \<noteq> []" by (auto simp: filter_empty_conv)
  then obtain d r where "filter (\<lambda>d. d \<noteq> None) ds = d # r" by (cases "filter (\<lambda>d. d \<noteq> None) ds") auto
  moreover from filter_eq_ConsD [OF this] have "d \<noteq> None" by blast
  ultimately show ?thesis by (simp add: first_date_def)
qed

lemma backfilled_ok:
  assumes "clock_ok c" and "cs_end c < 24" and "unit_draw random" and "row_ok c now s"
  shows "row_ok c now (backfilled c random legs s)" and "forward s (backfilled c random legs s)"
proof -
  let ?b = "backfilled c random legs s" and ?w = "rebuilt_window c random legs s"
  have status: "sp_status ?b = sp_status s" "sp_created ?b = sp_created s" "sr_id ?b = sr_id s" "sr_company ?b = sr_company s"
      "sp_simulated ?b = ss_enabled ?w" "sp_pending ?b = ss_pending ?w" "sp_eta ?b = ss_eta ?w"
      "\<And>a. ss_eta ?w = Some a \<Longrightarrow> sp_eta_date ?b = Some (to_legacy_date c a)"
    by (simp_all add: backfilled_def Let_def)
  have arrived: "sp_status s = ''delivered'' \<longrightarrow> sp_arrived ?b \<noteq> None"
    using first_date_Some [of "sp_created s"] by (simp add: backfilled_def Let_def)
  have plain: "ss_enabled ?w \<Longrightarrow> sp_simulated s"
    by (auto simp: rebuilt_window_def should_rebuild_def split: if_splits)
  show "row_ok c now ?b"
  proof (cases "sp_simulated s")
    case False
    then have "\<not> ss_enabled ?w" using plain by blast
    with assms(4) arrived show ?thesis by (simp add: row_ok_def status)
  next
    case True
    note w = rebuilt_window_ok [OF assms True, of legs]
    have "row_window_ok c ?b" if "ss_enabled ?w" using w that by (simp add: row_window_ok_def status)
    moreover have "under_way_ok now ?b"
      using w assms(4) True by (auto simp: row_ok_def under_way_ok_def status)
    ultimately show ?thesis using assms(4) arrived by (simp add: row_ok_def status)
  qed
  show "forward s ?b" by (simp add: forward_def status)
qed

lemma backfill_row_ok:
  assumes "clock_ok c" and "cs_end c < 24" and "unit_draw random" and "row_ok c now s"
  shows "row_ok c now (backfill_row c random t legs s)" and "forward s (backfill_row c random t legs s)"
proof -
  have "row_ok c now (r\<lparr>sp_updated := t\<rparr>) = row_ok c now r" "forward s (r\<lparr>sp_updated := t\<rparr>) = forward s r" for r :: ship_row
    by (simp_all add: row_ok_def row_window_ok_def under_way_ok_def forward_def)
  with backfilled_ok [OF assms, of legs]
  show "row_ok c now (backfill_row c random t legs s)" "forward s (backfill_row c random t legs s)"
    using assms(4) by (simp_all add: backfill_row_def Let_def)
qed

lemma is_demo_company_frame: "is_demo_company company db = (b, db') \<Longrightarrow> lo_shipments db' = lo_shipments db \<and> lo_legs db' = lo_legs db"
  by (auto simp: is_demo_company_def Let_def split: if_splits option.splits)

lemma backfill_company_sound:
  assumes "clock_ok c" and "cs_end c < 24" and "\<And>i. unit_draw (draw i)"
  shows "sound_change c now db (backfill_company c draw t company db)"
proof -
  obtain demo db1 where d: "is_demo_company company db = (demo, db1)" by fastforce
  have s: "lo_shipments db1 = lo_shipments db" using is_demo_company_frame [OF d] by simp
  show ?thesis
  proof (cases demo)
    case True
    then show ?thesis using d s by (simp add: backfill_company_def sound_change_refl)
  next
    case False
    have "lo_shipments (backfill_company c draw t company db) = update_where (\<lambda>s. sr_company s = company \<and> backfill_selects c s)
        (\<lambda>s. backfill_row c (draw (sr_id s)) t (map clock_leg_of (legs_of (sr_id s) db1)) s) (lo_shipments db)"
      using False d s by (simp add: backfill_company_def)
    then show ?thesis by (rule sound_update) (use backfill_row_ok [OF assms(1,2)] assms(3) in blast)
  qed
qed

lemma sync_company_cases:
  obtains (demo) db1 where "is_demo_company company db = (True, db1)" "sync_company c draw now company db = db1"
  | (clock) db1 where "is_demo_company company db = (False, db1)"
    "lo_shipments (sync_company c draw now company db) =
       update_where (\<lambda>s. sr_company s = company \<and> sp_simulated s \<and> sp_status s \<noteq> ''cancelled'') (sync_row c now)
         (lo_shipments (backfill_company c draw now company db1))"
  by (cases "is_demo_company company db"; cases "fst (is_demo_company company db)") (auto simp: sync_company_def Let_def)

lemma sync_company_sound:
  assumes "clock_ok c" and "cs_end c < 24" and "\<And>i. unit_draw (draw i)"
  shows "sound_change c now db (sync_company c draw now company db)"
proof (rule sync_company_cases [of company db c draw now])
  fix db1
  assume "is_demo_company company db = (True, db1)" "sync_company c draw now company db = db1"
  with is_demo_company_frame [of company db True db1] show ?thesis by (simp add: sound_change_refl)
next
  fix db1
  assume d: "is_demo_company company db = (False, db1)" and u: "lo_shipments (sync_company c draw now company db) =
       update_where (\<lambda>s. sr_company s = company \<and> sp_simulated s \<and> sp_status s \<noteq> ''cancelled'') (sync_row c now)
         (lo_shipments (backfill_company c draw now company db1))"
  have "sound_change c now db db1" using is_demo_company_frame [OF d] by (simp add: sound_change_refl)
  moreover have "sound_change c now db1 (backfill_company c draw now company db1)" by (rule backfill_company_sound [OF assms])
  moreover have "sound_change c now (backfill_company c draw now company db1) (sync_company c draw now company db)"
    by (rule sound_update [OF u]) (simp add: sync_row_ok)
  ultimately show ?thesis by (meson sound_change_trans)
qed

section \<open>The operations\<close>

lemma find_shipment_Some: "find_shipment i company db = Some s \<Longrightarrow> s \<in> set (lo_shipments db) \<and> sr_id s = i \<and> sr_company s = company"
  using select_one_Some [of _ "lo_shipments db" s] by (auto simp: find_shipment_def)

lemma sound_put:
  assumes "find_shipment i company db = Some s" and "lo_shipments db' = lo_shipments db"
    and "row_ok c now s \<Longrightarrow> row_ok c now s' \<and> forward s s'"
  shows "sound_change c now db (put_shipment s' db')"
proof (rule sound_update)
  show "lo_shipments (put_shipment s' db')
      = update_where (\<lambda>r. sr_id r = sr_id s' \<and> sr_company r = sr_company s') (\<lambda>_. s') (lo_shipments db)"
    by (simp add: put_shipment_def assms(2))
  fix r
  assume r: "r \<in> set (lo_shipments db)" "ships_ok c now db" "sr_id r = sr_id s' \<and> sr_company r = sr_company s'" "row_ok c now r"
  note s = find_shipment_Some [OF assms(1)]
  then have "row_ok c now s" using r(2) by (simp add: ships_ok_def list_all_iff)
  with assms(3) have "row_ok c now s'" "forward s s'" by simp_all
  moreover have "r = s" using r(1-3) s \<open>forward s s'\<close> by (auto simp: ships_ok_def distinct_map forward_def dest: inj_onD)
  ultimately show "row_ok c now s' \<and> forward r s'" by simp
qed

lemma sound_store:
  assumes "find_shipment i company db = Some s" and "lo_shipments db' = lo_shipments db"
    and "row_ok c now s \<Longrightarrow> row_ok c now s' \<and> forward s s'"
  shows "sound_change c now db (store_and_sync c now s' db')"
proof -
  have put: "sound_change c now db (put_shipment s' db')" by (rule sound_put [OF assms])
  show ?thesis
  proof (cases "sp_simulated s'")
    case True
    have "sound_change c now (put_shipment s' db') (sync_shipment_by_id c now (sr_id s') (put_shipment s' db'))"
      by (rule sound_update [where p = "\<lambda>s. sr_id s = sr_id s'" and f = "sync_row c now"])
        (simp_all add: sync_shipment_by_id_def sync_row_ok)
    with put True show ?thesis by (simp add: store_and_sync_def Let_def) (rule sound_change_trans)
  qed (use put in \<open>simp add: store_and_sync_def Let_def\<close>)
qed

text \<open>A pending row with a window of the clock, or without one.\<close>

lemma simulated_row_ok:
  assumes "clock_ok c" and "cs_end c < 24" and "unit_draw random" and "sp_status s' = ''pending''"
    and "sim = build_simulation c random allowed (sp_created s') pending origin destination legs d"
    and "sp_simulated s' = ss_enabled sim" and "sp_pending s' = ss_pending sim" and "sp_eta s' = ss_eta sim"
    and "ss_enabled sim \<Longrightarrow> sp_eta_date s' = ss_eta_date sim"
  shows "row_ok c now s'"
proof (cases "ss_enabled sim")
  case False
  then show ?thesis using assms(4,6) by (simp add: row_ok_def shipment_statuses_def)
next
  case True
  obtain leaves arrives where b: "build_simulation c random allowed (sp_created s') pending origin destination legs d
      = \<lparr>ss_enabled = True, ss_pending = Some leaves, ss_eta = arrives, ss_eta_date = map_option (to_legacy_date c) arrives, ss_reason = None\<rparr>"
    "\<forall>a. arrives = Some a \<longrightarrow> good_window c leaves a (Some (to_legacy_date c a))" "normalize_hour c (sp_created s') \<le> leaves"
    "\<forall>p. pending = Some p \<longrightarrow> p \<le> leaves"
    by (rule build_simulation_window [OF assms(1-3) True [unfolded assms(5)]])
  then show ?thesis using assms(4-9) True
    by (auto simp: row_ok_def shipment_statuses_def row_window_ok_def under_way_ok_def)
qed

lemma row_ok_clock_cong:
  assumes "sp_status s' = sp_status s" and "sp_simulated s' = sp_simulated s" and "sp_pending s' = sp_pending s"
    and "sp_eta s' = sp_eta s" and "sp_eta_date s' = sp_eta_date s" and "sp_created s' = sp_created s" and "sp_arrived s' = sp_arrived s"
  shows "row_ok c now s' = row_ok c now s"
  using assms by (simp add: row_ok_def row_window_ok_def under_way_ok_def)

lemma row_ok_manual:
  "\<not> sp_simulated s' \<Longrightarrow> sp_status s' = ''pending'' \<Longrightarrow> row_ok c now s'"
  by (simp add: row_ok_def shipment_statuses_def)

lemma changed_shipment_ok:
  assumes "clock_ok c" and "cs_end c < 24" and "unit_draw random" and "editable_shipment s"
    and "changed_shipment c random now g legs s = Inr s'" and "row_ok c now s"
  shows "row_ok c now s' \<and> forward s s'"
proof -
  obtain from' dest date where e: "changed_place (sg_origin g) (sr_origin s) = Inr from'"
      "changed_place (sg_destination g) (sr_destination s) = Inr dest"
      "(if sp_simulated s \<or> sg_arrival g = JUndef then Inr (sp_eta_date s) else date_param (or_null (sg_arrival g))) = Inr date"
    using assms(5) by (auto simp: changed_shipment_def)
  define s1 where "s1 = s\<lparr>sr_reference := (if sg_reference g = JUndef then sr_reference s else or_null (sg_reference g)),
      sr_origin := from', sr_destination := dest, sp_eta_date := date, sp_updated := now\<rparr>"
  define sim where "sim = build_simulation c random True (sp_created s) (sp_pending s) (pl_country from') (pl_country dest) legs
      (number_column (sr_distance s))"
  have s': "s' = (if \<not> recomputes g s then s1
      else s1\<lparr>sp_simulated := ss_enabled sim, sp_pending := ss_pending sim, sp_eta := ss_eta sim,
        sp_eta_date := (if ss_enabled sim then ss_eta_date sim else None)\<rparr>)"
    using assms(5) e by (auto simp: changed_shipment_def s1_def sim_def Let_def)
  have p: "sp_status s = ''pending''" using assms(4) by (simp add: editable_shipment_def)
  have "forward s s'" by (simp add: s' s1_def forward_def)
  moreover have "row_ok c now s'"
  proof (cases "recomputes g s")
    case True
    show ?thesis
      by (rule simulated_row_ok [OF assms(1-3), where sim = sim and allowed = True and pending = "sp_pending s" and origin = "pl_country from'"
            and destination = "pl_country dest" and legs = legs and d = "number_column (sr_distance s)"])
        (simp_all add: s' True s1_def p sim_def)
  next
    case False
    show ?thesis
    proof (cases "sp_simulated s")
      case True
      then have "date = sp_eta_date s" using e(3) by simp
      then have "row_ok c now s' = row_ok c now s" by (intro row_ok_clock_cong) (simp_all add: s' False s1_def)
      with assms(6) show ?thesis by simp
    qed (simp add: row_ok_manual s' False s1_def p)
  qed
  ultimately show ?thesis by simp
qed

lemma with_legs_ok:
  assumes "clock_ok c" and "cs_end c < 24" and "unit_draw random" and "editable_shipment s"
    and "with_legs c random now legs s = Inr s'" and "row_ok c now s"
  shows "row_ok c now s' \<and> forward s s'"
proof -
  define sim where "sim = build_simulation c random True (sp_created s) (sp_pending s) (pl_country (sr_origin s))
      (pl_country (sr_destination s)) (map request_clock_leg legs) (JNum (sum_floats (map ld_distance legs)))"
  define w where "w = (if sp_simulated s then sim else \<lparr>ss_enabled = False, ss_pending = sp_pending s, ss_eta = sp_eta s,
      ss_eta_date = sp_eta_date s, ss_reason = None\<rparr>)"
  obtain km e where s': "s' = s\<lparr>sr_distance := Some km, sr_co2 := Some e, sp_simulated := ss_enabled w, sp_pending := ss_pending w,
      sp_eta := ss_eta w, sp_eta_date := (if ss_enabled w then ss_eta_date w else None), sp_updated := now\<rparr>"
    using assms(5) unfolding with_legs_def Let_def sim_def [symmetric] w_def [symmetric] by auto
  have p: "sp_status s = ''pending''" using assms(4) by (simp add: editable_shipment_def)
  have "row_ok c now s'"
  proof (cases "sp_simulated s")
    case True
    show ?thesis
      by (rule simulated_row_ok [OF assms(1-3), where sim = sim and allowed = True and pending = "sp_pending s"
            and origin = "pl_country (sr_origin s)" and destination = "pl_country (sr_destination s)"
            and legs = "map request_clock_leg legs" and d = "JNum (sum_floats (map ld_distance legs))"])
        (simp_all add: s' True w_def p sim_def)
  qed (simp add: row_ok_manual s' w_def p)
  then show ?thesis by (simp add: s' forward_def)
qed

lemma in_shipping_sound:
  assumes "\<And>r db'. work db = Inr (r, db') \<Longrightarrow> sound_change c now db db'"
  shows "sound_change c now db (snd (in_shipping work db))"
  using assms by (auto simp: in_shipping_def sound_change_refl split: sum.splits)

lemma editable_of_Inr: "editable_of i company db = Inr s \<Longrightarrow> find_shipment i company db = Some s \<and> editable_shipment s"
  by (auto simp: editable_of_def split: option.splits if_splits)

lemma update_shipment_sound:
  assumes "clock_ok c" and "cs_end c < 24" and "unit_draw random"
  shows "sound_change c now db (snd (update_shipment c random now i company g db))"
  unfolding update_shipment_def
proof (rule in_shipping_sound)
  fix r db'
  assume u: "(case find_shipment i company db of None \<Rightarrow> Inr (None, db)
     | Some s \<Rightarrow>
         (if \<not> editable_shipment s then Inl not_editable
          else if sets_nothing g s then Inr (Some s, db)
          else bind_result (changed_shipment c random now g (map clock_leg_of (legs_of i db)) s) (\<lambda>s1.
                 let db1 = store_and_sync c now s1 db in Inr (find_shipment i company db1, db1)))) = Inr (r, db')"
  show "sound_change c now db db'"
  proof (cases "db' = db")
    case False
    with u obtain s s1 where s: "find_shipment i company db = Some s" "editable_shipment s"
        "changed_shipment c random now g (map clock_leg_of (legs_of i db)) s = Inr s1" "db' = store_and_sync c now s1 db"
      by (auto simp: Let_def split: option.splits if_splits)
    show ?thesis unfolding s(4) by (rule sound_store [OF s(1) refl changed_shipment_ok [OF assms s(2,3)]])
  qed (simp add: sound_change_refl)
qed

lemma replace_legs_sound:
  assumes "clock_ok c" and "cs_end c < 24" and "unit_draw random"
  shows "sound_change c now db (snd (replace_legs c random now i company legs db))"
  unfolding replace_legs_def
proof (rule in_shipping_sound)
  fix r db'
  assume u: "bind_result (editable_of i company db) (\<lambda>s.
       if \<not> orders_sequential legs then Inl (ship_error ''INVALID_SHIPMENT_PAYLOAD'')
       else bind_result (traverse (leg_row_of i) legs) (\<lambda>rows.
            bind_result (with_legs c random now legs s) (\<lambda>s1.
              let db1 = store_and_sync c now s1
                    (db\<lparr>lo_legs := delete_where (\<lambda>l. sl_shipment l = i) (lo_legs db) @ rows\<rparr>)
              in Inr (find_shipment i company db1, db1)))) = Inr (r, db')"
  then obtain s rows s1 where s: "editable_of i company db = Inr s" "with_legs c random now legs s = Inr s1"
      "db' = store_and_sync c now s1 (db\<lparr>lo_legs := delete_where (\<lambda>l. sl_shipment l = i) (lo_legs db) @ rows\<rparr>)"
    by (auto simp: Let_def split: if_splits)
  note e = editable_of_Inr [OF s(1)]
  show "sound_change c now db db'" unfolding s(3)
    by (rule sound_store [OF conjunct1 [OF e] _ with_legs_ok [OF assms conjunct2 [OF e] s(2)]]) simp
qed

lemma replace_items_sound: "sound_change c now db (snd (replace_items now i company items db))"
  unfolding replace_items_def
proof (rule in_shipping_sound)
  fix r db'
  assume u: "bind_result (editable_of i company db) (\<lambda>s.
       if \<not> owned_products company (map ir_product items) db then Inl (ship_error ''PRODUCT_NOT_IN_COMPANY'')
       else bind_result (traverse (item_row_of i) items) (\<lambda>rows.
            bind_result (numeric_of_num 12 4 (sum_floats (map ir_weight items))) (\<lambda>w.
            bind_result (numeric_of_num 12 4 (sum_floats (map ir_co2 items))) (\<lambda>e.
              let db1 = put_shipment (s\<lparr>sr_weight := Some w, sr_co2 := Some e, sp_updated := now\<rparr>)
                    (db\<lparr>lo_items := delete_where (\<lambda>p. si_shipment p = i) (lo_items db) @ rows\<rparr>)
              in Inr (find_shipment i company db1, db1))))) = Inr (r, db')"
  then obtain s rows w e where s: "editable_of i company db = Inr s"
      "db' = put_shipment (s\<lparr>sr_weight := Some w, sr_co2 := Some e, sp_updated := now\<rparr>)
                    (db\<lparr>lo_items := delete_where (\<lambda>p. si_shipment p = i) (lo_items db) @ rows\<rparr>)"
    by (auto simp: Let_def split: if_splits)
  have ok: "row_ok c now (s\<lparr>sr_weight := Some w, sr_co2 := Some e, sp_updated := now\<rparr>) = row_ok c now s"
    by (rule row_ok_clock_cong) simp_all
  show "sound_change c now db db'" unfolding s(2)
    by (rule sound_put [OF conjunct1 [OF editable_of_Inr [OF s(1)]]]) (simp_all add: ok forward_def)
qed

lemma create_new_shipment_sound:
  assumes "clock_ok c" and "cs_end c < 24" and "unit_draw random"
  shows "sound_change c now db (snd (create_new_shipment c random now year i company user d db))"
  unfolding create_new_shipment_def
proof (rule in_shipping_sound)
  fix r db'
  assume u: "(if sd_items d \<noteq> [] \<and> \<not> owned_products company (map ir_product (sd_items d)) db
     then Inl (ship_error ''PRODUCT_NOT_IN_COMPANY'')
     else bind_result (new_shipment c random now year (user \<in> set (lo_demo_users db)) i company d db) (\<lambda>s.
          bind_result (insert_shipment s db) (\<lambda>db1.
          bind_result (traverse (leg_row_of i) (sd_legs d)) (\<lambda>legs.
          bind_result (traverse (item_row_of i) (sd_items d)) (\<lambda>items.
            Inr (s, db1\<lparr>lo_legs := lo_legs db1 @ legs, lo_items := lo_items db1 @ items\<rparr>)))))) = Inr (r, db')"
  then obtain s db1 where s: "new_shipment c random now year (user \<in> set (lo_demo_users db)) i company d db = Inr s"
      "insert_shipment s db = Inr db1" "lo_shipments db' = lo_shipments db1"
    by (auto split: if_splits)
  have ins: "sr_id s \<notin> sr_id ` set (lo_shipments db)" "lo_shipments db' = lo_shipments db @ [s]"
    using s(2,3) by (auto simp: insert_shipment_def unless_violated_def split: if_splits)
  define sim where "sim = build_simulation c random (\<not> (user \<in> set (lo_demo_users db))) now None (jget (sd_origin d) ''country'')
      (jget (sd_destination d) ''country'') (map request_clock_leg (sd_legs d)) (JNum (sum_floats (map ld_distance (sd_legs d))))"
  have f: "sp_status s = ''pending''" "sp_created s = now" "sp_simulated s = ss_enabled sim" "sp_pending s = ss_pending sim"
      "sp_eta s = ss_eta sim" "ss_enabled sim \<Longrightarrow> sp_eta_date s = ss_eta_date sim"
    using s(1) unfolding new_shipment_def Let_def sim_def [symmetric] by auto
  have "row_ok c now s"
    by (rule simulated_row_ok [OF assms f(1) _ f(3-6), unfolded f(2), OF sim_def])
  with ins show "sound_change c now db db'" by (auto simp: sound_change_def ships_ok_def)
qed

lemma only_row:
  assumes "ships_ok c now db" and "find_shipment i company db = Some s" and "r \<in> set (lo_shipments db)" and "sr_id r = i"
  shows "r = s"
  using assms find_shipment_Some [OF assms(2)] by (auto simp: ships_ok_def distinct_map dest: inj_onD)

lemma set_status_where_sound:
  assumes "find_shipment i company db = Some s"
    and "row_ok c now s \<Longrightarrow> sp_status s = expected \<Longrightarrow> row_ok c now (f s) \<and> forward s (f s)"
  shows "sound_change c now db (snd (set_status_where i company expected f db))"
proof (cases "matching (\<lambda>s. sr_id s = i \<and> sr_company s = company \<and> sp_status s = expected) (lo_shipments db) = 0")
  case True
  then show ?thesis by (simp add: set_status_where_def Let_def sound_change_refl)
next
  case False
  then have "lo_shipments (snd (set_status_where i company expected f db))
      = update_where (\<lambda>s. sr_id s = i \<and> sr_company s = company \<and> sp_status s = expected) f (lo_shipments db)"
    by (simp add: set_status_where_def Let_def)
  then show ?thesis
  proof (rule sound_update)
    fix r
    assume r: "r \<in> set (lo_shipments db)" "ships_ok c now db" "row_ok c now r"
      "sr_id r = i \<and> sr_company r = company \<and> sp_status r = expected"
    then have "r = s" using only_row [OF r(2) assms(1)] by blast
    with assms(2) r show "row_ok c now (f r) \<and> forward r (f r)" by simp
  qed
qed

lemma date_param_millis: "date_param v = Inr d \<Longrightarrow> truthy v \<Longrightarrow> Option.bind d date_millis \<noteq> None"
  by (cases v) (auto simp: date_param_def date_millis_def split: if_splits)

lemma move_manually_sound:
  assumes "find_shipment i company db = Some s" and "\<not> sp_simulated s"
  shows "sound_change c now db (snd (move_manually c now i company status arrival s db))"
proof -
  let ?when = "if status \<noteq> ''delivered'' then Inr (None, None)
                 else if truthy arrival
                 then bind_result (date_param arrival) (\<lambda>d. Inr (d, Option.bind d date_millis))
                 else Inr (Some (to_legacy_date c now), Some now)"
  show ?thesis
  proof (cases "status \<in> set (valid_transitions (sp_status s))")
    case moves: True
    show ?thesis
    proof (cases ?when)
      case (Inl e)
      then show ?thesis using moves by (simp add: move_manually_def sound_change_refl)
    next
      case (Inr w)
      obtain date at_time where w: "w = (date, at_time)" by (cases w)
      have arrived: "status = ''delivered'' \<Longrightarrow> at_time \<noteq> None"
        using Inr w date_param_millis [of arrival] by (auto split: if_splits)
      have step: "status \<in> set shipment_statuses \<and> may_become (sp_status s) status"
        using moves by (auto simp: valid_transitions_def may_become_def shipment_statuses_def split: if_splits)
      have "snd (move_manually c now i company status arrival s db) = snd (set_status_where i company (sp_status s)
              (\<lambda>s. s\<lparr>sp_status := status, sp_arrived_date := date, sp_arrived := at_time, sp_updated := now\<rparr>) db)"
        using moves Inr w by (simp add: move_manually_def)
      then show ?thesis using arrived step assms(2)
        by (simp only:) (rule set_status_where_sound [OF assms(1)], simp add: row_ok_def forward_def)
    qed
  qed (simp add: move_manually_def sound_change_refl)
qed

lemma cancel_simulated_sound:
  assumes "find_shipment i company db = Some s"
  shows "sound_change c now db (snd (cancel_simulated now i company status s db))"
proof (cases "status = ''cancelled'' \<and> sp_status s = ''pending''")
  case True
  have "sound_change c now db (snd (set_status_where i company ''pending'' (\<lambda>s. s\<lparr>sp_status := ''cancelled'', sp_updated := now\<rparr>) db))"
    by (rule set_status_where_sound [OF assms])
      (simp add: row_ok_def forward_def shipment_statuses_def may_become_def row_window_ok_def under_way_ok_def)
  with True show ?thesis by (simp add: cancel_simulated_def)
qed (auto simp: cancel_simulated_def sound_change_refl)

lemma update_shipment_status_sound:
  assumes "clock_ok c" and "cs_end c < 24" and "\<And>i. unit_draw (draw i)"
  shows "sound_change c now db (snd (update_shipment_status c draw now i company status arrival db))"
proof -
  let ?db1 = "sync_company c draw now company db"
  have "sound_change c now ?db1 (snd (update_shipment_status c draw now i company status arrival db))"
    using cancel_simulated_sound move_manually_sound
    by (simp add: update_shipment_status_def Let_def sound_change_refl split: option.split)
  with sync_company_sound [OF assms] show ?thesis by (rule sound_change_trans)
qed

section \<open>Runs of the service\<close>

text \<open>
  The operations of the service in any order, at the time each is called; a batch published by
  \<open>assessments/batchesService.js\<close> adds a pending shipment that has no window yet; products, companies and
  members change elsewhere. (The product life cycle, which also writes and deletes shipments, is not
  among the steps.)
\<close>

inductive ship_step :: "clock_settings \<Rightarrow> millis \<times> logistics_db \<Rightarrow> millis \<times> logistics_db \<Rightarrow> bool" for c where
  passes: "now \<le> now' \<Longrightarrow> ship_step c (now, db) (now', db)"
| outside: "lo_shipments db' = lo_shipments db \<Longrightarrow> ship_step c (now, db) (now, db')"
| published: "sr_id s \<notin> sr_id ` set (lo_shipments db) \<Longrightarrow> sp_status s = ''pending'' \<Longrightarrow> sp_pending s = None \<Longrightarrow>
    sp_created s = now \<Longrightarrow> lo_shipments db' = lo_shipments db @ [s] \<Longrightarrow> ship_step c (now, db) (now, db')"
| created: "unit_draw random \<Longrightarrow>
    ship_step c (now, db) (now, snd (create_new_shipment c random now year i company user d db))"
| updated: "unit_draw random \<Longrightarrow> ship_step c (now, db) (now, snd (update_shipment c random now i company g db))"
| legs: "unit_draw random \<Longrightarrow> ship_step c (now, db) (now, snd (replace_legs c random now i company ls db))"
| items: "ship_step c (now, db) (now, snd (replace_items now i company ps db))"
| status: "(\<And>j. unit_draw (draw j)) \<Longrightarrow>
    ship_step c (now, db) (now, snd (update_shipment_status c draw now i company status arrival db))"
| read_one: "(\<And>j. unit_draw (draw j)) \<Longrightarrow> ship_step c (now, db) (now, snd (get_shipment_by_id c draw now i company db))"
| read_list: "(\<And>j. unit_draw (draw j)) \<Longrightarrow> ship_step c (now, db) (now, snd (list_shipments c draw now company f db))"
| read_sums: "(\<And>j. unit_draw (draw j)) \<Longrightarrow> ship_step c (now, db) (now, snd (get_logistics_overview c draw now company db))"

inductive_cases ship_step_elim: "ship_step c (now, db) w"

definition ship_runs :: "clock_settings \<Rightarrow> millis \<times> logistics_db \<Rightarrow> millis \<times> logistics_db \<Rightarrow> bool" where
  "ship_runs c = rtranclp (ship_step c)"

text \<open>What holds after some operations of a service that starts with no shipment.\<close>

definition ship_reachable :: "clock_settings \<Rightarrow> millis \<times> logistics_db \<Rightarrow> bool" where
  "ship_reachable c w \<longleftrightarrow> (\<exists>now db. lo_shipments db = [] \<and> ship_runs c (now, db) w)"

lemma row_ok_unset: "sp_pending s = None \<Longrightarrow> sp_status s = ''pending'' \<Longrightarrow> row_ok c now s"
  by (simp add: row_ok_def row_window_ok_def under_way_ok_def shipment_statuses_def)

lemma row_ok_later: "row_ok c now s \<Longrightarrow> now \<le> now' \<Longrightarrow> row_ok c now' s"
  unfolding row_ok_def under_way_ok_def by (meson order_trans)

lemma ships_ok_later: "ships_ok c now db \<Longrightarrow> now \<le> now' \<Longrightarrow> ships_ok c now' db"
  unfolding ships_ok_def list_all_iff using row_ok_later by blast

lemma read_is_sync: "snd (get_shipment_by_id c draw now i company db) = sync_company c draw now company db"
  "snd (list_shipments c draw now company f db) = sync_company c draw now company db"
  "snd (get_logistics_overview c draw now company db) = sync_company c draw now company db"
  by (simp_all add: get_shipment_by_id_def list_shipments_def get_logistics_overview_def Let_def)

lemmas ship_sounds = create_new_shipment_sound update_shipment_sound replace_legs_sound
  update_shipment_status_sound sync_company_sound

lemma ship_step_sound:
  assumes "clock_ok c" and "cs_end c < 24" and "ship_step c (now, db) (now', db')" and "ships_ok c now db"
  shows "ships_ok c now' db' \<and> rows_grow (lo_shipments db) (lo_shipments db')"
  using assms(3)
proof (rule ship_step_elim)
  fix later
  assume "(now', db') = (later, db)" "now \<le> later"
  with assms(4) show ?thesis by (simp add: ships_ok_later)
next
  fix db2
  assume "(now', db') = (now, db2)" "lo_shipments db2 = lo_shipments db"
  with assms(4) show ?thesis by (simp add: ships_ok_def)
next
  fix s db2
  assume "(now', db') = (now, db2)" "sr_id s \<notin> sr_id ` set (lo_shipments db)" "sp_status s = ''pending''" "sp_pending s = None"
    "lo_shipments db2 = lo_shipments db @ [s]"
  with assms(4) row_ok_unset [of s c now] show ?thesis by (simp add: ships_ok_def)
qed (use assms(4) ship_sounds [OF assms(1,2)] replace_items_sound in \<open>auto simp: sound_change_def read_is_sync\<close>)

lemma ship_runs_sound:
  assumes "ship_runs c (now, db) (now', db')" and "clock_ok c" and "cs_end c < 24" and "ships_ok c now db"
  shows "ships_ok c now' db' \<and> rows_grow (lo_shipments db) (lo_shipments db')"
  using assms(1) unfolding ship_runs_def
proof (induction rule: rtranclp_induct2)
  case refl
  with assms(4) show ?case by simp
next
  case (step t1 db1 t2 db2)
  from ship_step_sound [OF assms(2,3) step.hyps(2)] step.IH show ?case using rows_grow_trans by blast
qed

lemma ship_reachable_ok:
  assumes "clock_ok c" and "cs_end c < 24" and "ship_reachable c (now, db)"
  shows "ships_ok c now db"
proof -
  obtain t db0 where "lo_shipments db0 = []" "ship_runs c (t, db0) (now, db)" using assms(3) by (auto simp: ship_reachable_def)
  with ship_runs_sound [OF _ assms(1,2), of t db0 now db] show ?thesis by (simp add: ships_ok_def)
qed

section \<open>A shipment that is due\<close>

lemma is_demo_company_again: "is_demo_company company db = (b, db1) \<Longrightarrow> is_demo_company company db1 = (b, db1)"
  by (auto simp: is_demo_company_def Let_def split: if_splits option.splits)

lemma backfill_keeps_window:
  assumes "row_ok c now s" and "sp_simulated s" and "sp_pending s = Some p" and "sp_eta s = Some a"
  shows "sp_status (backfill_row c random t legs s) = sp_status s" "sp_simulated (backfill_row c random t legs s)"
    "sp_pending (backfill_row c random t legs s) = Some p" "sp_eta (backfill_row c random t legs s) = Some a"
    "sp_arrived (backfill_row c random t legs s) = sp_arrived s"
    "sr_id (backfill_row c random t legs s) = sr_id s" "sr_company (backfill_row c random t legs s) = sr_company s"
proof -
  have "row_window_ok c s" using assms(1,2) by (simp add: row_ok_def)
  then have "good_window c p a (sp_eta_date s)" "normalize_hour c (sp_created s) \<le> p"
    using assms(3,4) by (simp_all add: row_window_ok_def)
  with assms(3,4) have "\<not> should_rebuild c s" by (intro good_window_kept)
  then have w: "rebuilt_window c random legs s = \<lparr>ss_enabled = True, ss_pending = Some p, ss_eta = Some a,
      ss_eta_date = sp_eta_date s, ss_reason = None\<rparr>"
    using assms by (simp add: rebuilt_window_def)
  have arrived: "sp_status s = ''delivered'' \<Longrightarrow> first_date (sp_arrived s # r) = sp_arrived s" for r
    using assms(1) by (auto simp: row_ok_def first_date_def)
  show "sp_status (backfill_row c random t legs s) = sp_status s" "sp_simulated (backfill_row c random t legs s)"
    "sp_pending (backfill_row c random t legs s) = Some p" "sp_eta (backfill_row c random t legs s) = Some a"
    "sp_arrived (backfill_row c random t legs s) = sp_arrived s"
    "sr_id (backfill_row c random t legs s) = sr_id s" "sr_company (backfill_row c random t legs s) = sr_company s"
    using assms arrived by (simp_all add: backfill_row_def backfilled_def Let_def w)
qed

text \<open>The row of a shipment with a window after a reading of its company.\<close>

lemma sync_company_row:
  assumes "ships_ok c now db" and "\<not> fst (is_demo_company company db)" and "s \<in> set (lo_shipments db)"
    and "sr_company s = company" and "sp_simulated s" and "sp_status s \<noteq> ''cancelled''"
    and "sp_pending s = Some p" and "sp_eta s = Some a"
  obtains s1 where "sync_row c now s1 \<in> set (lo_shipments (sync_company c draw now company db))"
    "sr_id s1 = sr_id s" "sr_company s1 = company" "sp_simulated s1" "sp_status s1 = sp_status s"
    "sp_pending s1 = Some p" "sp_eta s1 = Some a" "sp_arrived s1 = sp_arrived s"
proof -
  obtain db1 where d: "is_demo_company company db = (False, db1)" using assms(2) by (cases "is_demo_company company db") simp
  note same = is_demo_company_again [OF d] and frame = is_demo_company_frame [OF d]
  have s: "row_ok c now s" using assms(1,3) by (simp add: ships_ok_def list_all_iff)
  let ?b = "backfill_row c (draw (sr_id s)) now (map clock_leg_of (legs_of (sr_id s) db1)) s"
  define s1 where "s1 = (if backfill_selects c s then ?b else s)"
  have "s1 \<in> set (lo_shipments (backfill_company c draw now company db1))"
    using assms(3,4) frame by (auto simp: backfill_company_def same update_where_def s1_def)
  moreover have f: "sr_id s1 = sr_id s" "sr_company s1 = company" "sp_simulated s1" "sp_status s1 = sp_status s"
    "sp_pending s1 = Some p" "sp_eta s1 = Some a" "sp_arrived s1 = sp_arrived s"
    using backfill_keeps_window [OF s assms(5,7,8)] assms(4-8) by (simp_all add: s1_def)
  ultimately have "sync_row c now s1 \<in> set (lo_shipments (sync_company c draw now company db))"
    using assms(6) by (auto simp: sync_company_def d Let_def update_where_def)
  with f that show thesis by blast
qed

lemma find_shipment_unique:
  assumes "ships_ok c now db" and "s \<in> set (lo_shipments db)"
  shows "find_shipment (sr_id s) (sr_company s) db = Some s"
proof (cases "find_shipment (sr_id s) (sr_company s) db")
  case None
  then show ?thesis using assms(2) by (auto simp: find_shipment_def select_one_None)
next
  case (Some r)
  with only_row [OF assms(1) Some assms(2)] show ?thesis by simp
qed

lemma due_row:
  assumes "sp_pending s = Some p" and "sp_eta s = Some a" and "a \<le> now" and "sp_simulated s" and "sp_status s \<noteq> ''cancelled''"
    and "row_ok c now s"
  shows "sp_status (sync_row c now s) = ''delivered''"
    and "sp_arrived (sync_row c now s) = Some (case sp_arrived s of None \<Rightarrow> a | Some t \<Rightarrow> t)"
proof -
  have e: "effective_status s now = ''delivered''" using assms by (simp add: effective_status_def)
  then show "sp_status (sync_row c now s) = ''delivered''" by (simp add: sync_row_frame)
  show "sp_arrived (sync_row c now s) = Some (case sp_arrived s of None \<Rightarrow> a | Some t \<Rightarrow> t)"
    using e assms(2) by (auto simp: sync_row_def Let_def has_changes_def sync_mutation_of_def split: option.splits)
qed

end
