(* ===== verification/Shipment_Guarantees.thy ===== *)
theory Shipment_Guarantees
  imports Shipment_Properties
begin

text \<open>
  What a company can rely on for its shipments, over all runs of the service, and three places where the
  clock of simulated shipments surprises: a window that closes at midnight, a departure at closing
  time, a demo company.
\<close>

section \<open>A depot\<close>

text \<open>The settings of an empty environment, and a shipment of 45 km by road, as a published batch leaves it.\<close>

definition no_env :: "string \<Rightarrow> string option" where "no_env k = None"

definition depot_place :: ship_place where
  "depot_place = \<lparr>pl_country = JStr ''VN'', pl_city = JNull, pl_address = JNull, pl_at = (None, None)\<rparr>"

definition depot_row :: ship_row where
  "depot_row = \<lparr>sp_status = ''pending'', sp_simulated = True, sp_pending = None, sp_eta = None, sp_eta_date = None,
     sp_arrived = None, sp_arrived_date = None, sp_created = 0, sp_updated = 0, sr_id = ''s1'', sr_company = ''c1'',
     sr_reference = JStr ''SHIP-1970-0001'', sr_origin = depot_place, sr_destination = depot_place,
     sr_weight = Some (Fin 1), sr_distance = Some (Fin 45), sr_co2 = Some (Fin 1)\<rparr>"

definition empty_depot :: logistics_db where
  "empty_depot = \<lparr>lo_shipments = [], lo_legs = [], lo_items = [], lo_products = [], lo_companies = [], lo_members = [],
     lo_demo_users = [], lo_demo_cache = []\<rparr>"

definition depot :: logistics_db where
  "depot = empty_depot\<lparr>lo_shipments := [depot_row]\<rparr>"

text \<open>It leaves after four open hours, at noon in Hanoi, and arrives three hours later.\<close>

definition scheduled_row :: ship_row where
  "scheduled_row = depot_row\<lparr>sp_pending := Some 18000000, sp_eta := Some 28800000, sp_eta_date := Some ''1970-01-01''\<rparr>"

definition scheduled_depot :: logistics_db where
  "scheduled_depot = sync_company (clock_settings_of no_env) (\<lambda>_. Fin 0) 0 ''c1'' depot"

lemma default_settings: "clock_settings_of no_env
    = \<lparr>cs_offset = 420, cs_start = 8, cs_end = 18, cs_pending_min = 4, cs_pending_max = 7\<rparr>"
  by (simp add: clock_settings_of_def no_env_def read_integer_env_def clamp_integer_def Let_def) code_simp

lemma depot_normal: "normalize_hour (clock_settings_of no_env) 0 = 3600000"
  "normalize_hour (clock_settings_of no_env) 3600000 = 3600000"
  "normalize_hour (clock_settings_of no_env) 18000000 = 18000000"
  unfolding default_settings by code_simp+

lemma depot_allocation: "allocate_from (clock_settings_of no_env) 3600000 4 = Some 18000000"
  "allocate_from (clock_settings_of no_env) 18000000 3 = Some 28800000"
proof -
  have h: "utc_hour (to_local (clock_settings_of no_env) 3600000) = 8" "utc_hour (to_local (clock_settings_of no_env) 18000000) = 12"
    "cs_end (clock_settings_of no_env) = 18"
    unfolding default_settings by code_simp+
  show "allocate_from (clock_settings_of no_env) 3600000 4 = Some 18000000"
    by (subst allocate_from.simps) (simp add: depot_normal h Let_def allocate_from.simps [of _ _ 0] add_hours_def ms_hour_def)
  show "allocate_from (clock_settings_of no_env) 18000000 3 = Some 28800000"
    by (subst allocate_from.simps) (simp add: depot_normal h Let_def allocate_from.simps [of _ _ 0] add_hours_def ms_hour_def)
qed

lemma parse_45: "parse_number (JNum (Fin 45)) NaN = Fin 45"
proof -
  have "is_double (45 :: rat)" unfolding is_double_def by (rule exI [of _ 45], rule exI [of _ 0]) (simp add: pow2_def)
  moreover have "\<bar>45 :: rat\<bar> \<le> max_double" by (simp add: max_double_def)
  ultimately show ?thesis using parse_float_num_str(1) [of 45] by (simp add: parse_number_def Let_def del: num_str.simps)
qed

lemma depot_hours: "calculate_transit_hours [] (JNum (Fin 45)) (JStr ''VN'') (JStr ''VN'') = Some (Fin 3)"
proof -
  have mode: "pick_dominant_mode [] = ''road''" by code_simp
  have rule: "eta_rule (JStr ''road'') = JObj [(''speedKmh'', JNum (Fin 45)), (''handlingHours'', JNum (Fin 2))]" by code_simp
  have h: "travel_hours (Fin 45) (eta_rule (JStr ''road'')) = Fin 3"
    unfolding rule using num_of_small_int [of 1] num_of_small_int [of 3] by (simp add: travel_hours_def num_simps)
  have b: "\<not> is_cross_border (JStr ''VN'') (JStr ''VN'')" by (simp add: is_cross_border_def Let_def)
  show ?thesis by (simp add: calculate_transit_hours_def fallback_hours_def parse_45 mode h b num_simps)
qed

lemma depot_window: "build_simulation (clock_settings_of no_env) (Fin 0) True 0 None (JStr ''VN'') (JStr ''VN'') [] (JNum (Fin 45))
    = \<lparr>ss_enabled = True, ss_pending = Some 18000000, ss_eta = Some 28800000, ss_eta_date = Some ''1970-01-01'', ss_reason = None\<rparr>"
proof -
  have r: "random_pending_hours (clock_settings_of no_env) (Fin 0) = Fin 4"
    unfolding default_settings using num_of_small_int [of 4] num_of_small_int [of 0] by (simp add: random_pending_hours_def num_simps)
  have d: "to_legacy_date (clock_settings_of no_env) 28800000 = ''1970-01-01''" unfolding default_settings by code_simp
  have m: "math_max (Fin 1) (math_ceil (Fin 3)) = Fin 3" "math_max (Fin 1) (Fin 3) = Fin 3" by (simp_all add: math_max_def num_simps)
  show ?thesis
    by (simp add: build_simulation_def depot_hours resolve_pending_until_def r depot_normal allocate_business_hours_Fin depot_allocation m d Let_def)
qed

lemma depot_scheduled: "lo_shipments scheduled_depot = [scheduled_row]"
proof -
  have demo: "is_demo_company ''c1'' depot = (False, depot\<lparr>lo_demo_cache := [(''c1'', False)]\<rparr>)"
    by (simp add: is_demo_company_def demo_company_now_def depot_def empty_depot_def Let_def)
  have again: "is_demo_company ''c1'' (depot\<lparr>lo_demo_cache := [(''c1'', False)]\<rparr>) = (False, depot\<lparr>lo_demo_cache := [(''c1'', False)]\<rparr>)"
    by (rule is_demo_company_again [OF demo])
  have d: "to_legacy_date (clock_settings_of no_env) 28800000 = ''1970-01-01''" unfolding default_settings by code_simp
  have b: "backfilled (clock_settings_of no_env) (Fin 0) [] depot_row = scheduled_row"
    using depot_window
    by (simp add: backfilled_def rebuilt_window_def should_rebuild_def Let_def depot_row_def depot_place_def scheduled_row_def number_column_def d)
  have "backfill_row (clock_settings_of no_env) (Fin 0) 0 [] depot_row = scheduled_row"
    unfolding backfill_row_def b by (simp add: Let_def scheduled_row_def depot_row_def)
  moreover have "sync_row (clock_settings_of no_env) 0 scheduled_row = scheduled_row"
    by (simp add: sync_row_def has_changes_def sync_mutation_of_def effective_status_def scheduled_row_def depot_row_def Let_def)
  moreover have "backfill_selects (clock_settings_of no_env) depot_row" by (simp add: backfill_selects_def depot_row_def)
  moreover have "lo_shipments depot = [depot_row]" "legs_of i (depot\<lparr>lo_demo_cache := x\<rparr>) = []" for i x
    by (simp_all add: depot_def empty_depot_def legs_of_def)
  moreover have "sr_company depot_row = ''c1''" "sr_company scheduled_row = ''c1''" "sp_simulated scheduled_row"
    "sp_status scheduled_row \<noteq> ''cancelled''" by (simp_all add: depot_row_def scheduled_row_def)
  ultimately show ?thesis
    by (simp add: scheduled_depot_def sync_company_def backfill_company_def demo again update_where_def Let_def)
qed

lemma zero_draw: "unit_draw (Fin 0)"
  by (simp add: unit_draw_def)

lemma depot_run:
  assumes "0 \<le> t"
  shows "ship_reachable (clock_settings_of no_env) (t, scheduled_depot)"
proof -
  let ?c = "clock_settings_of no_env"
  have s: "lo_shipments empty_depot = []" "lo_shipments depot = [depot_row]"
    by (simp_all add: depot_def empty_depot_def)
  have "ship_step ?c (0, empty_depot) (0, depot)"
    by (rule published [of depot_row]) (simp_all add: s depot_row_def)
  moreover have "ship_step ?c (0, depot) (0, scheduled_depot)"
    using read_sums [of "\<lambda>_. Fin 0" ?c 0 depot "''c1''"] zero_draw by (simp add: read_is_sync scheduled_depot_def)
  moreover have "ship_step ?c (0, scheduled_depot) (t, scheduled_depot)" by (rule passes [OF assms])
  ultimately have "ship_runs ?c (0, empty_depot) (t, scheduled_depot)"
    unfolding ship_runs_def by (rule rtranclp_trans [OF rtranclp.rtrancl_into_rtrancl [OF r_into_rtranclp] r_into_rtranclp])
  with s(1) show ?thesis unfolding ship_reachable_def by blast
qed

section \<open>What holds\<close>

text \<open>C6: Whatever the environment sets (with a window that closes before midnight), and in whatever order the operations of
  the service are called as time passes, a shipment is never lost and only moves forward: it keeps its key, a
  delivered or cancelled shipment stays as it is, one in transit stays, is delivered or is cancelled, and no
  other status appears.\<close>

theorem shipments_move_forward:
  assumes "cs_end (clock_settings_of env) < 24" and "ship_reachable (clock_settings_of env) (t, db)"
    and "ship_runs (clock_settings_of env) (t, db) (t', db')" and "s \<in> set (lo_shipments db)"
  shows "distinct (map sr_id (lo_shipments db')) \<and>
    (\<exists>s' \<in> set (lo_shipments db'). sr_id s' = sr_id s \<and> sr_company s' = sr_company s \<and> sp_created s' = sp_created s
       \<and> sp_status s' \<in> {''pending'', ''in_transit'', ''delivered'', ''cancelled''}
       \<and> (sp_status s' = sp_status s \<or> sp_status s = ''pending''
          \<or> sp_status s = ''in_transit'' \<and> sp_status s' \<in> {''delivered'', ''cancelled''}))"
proof -
  note c = clock_settings_of_ok [of env] assms(1)
  from ship_runs_sound [OF assms(3) c ship_reachable_ok [OF c assms(2)]]
  have ok: "ships_ok (clock_settings_of env) t' db'" "rows_grow (lo_shipments db) (lo_shipments db')" by simp_all
  from rows_grow_find [OF ok(2) assms(4)] obtain s' where s': "s' \<in> set (lo_shipments db')" "forward s s'" by blast
  with ok(1) have "row_ok (clock_settings_of env) t' s'" by (simp add: ships_ok_def list_all_iff)
  with s' ok(1) show ?thesis
    by (intro conjI bexI [of _ s']) (auto simp: ships_ok_def row_ok_def forward_def may_become_def shipment_statuses_def)
qed

theorem shipments_move_forward_witness:
  "\<exists>s' \<in> set (lo_shipments (snd (get_shipment_by_id (clock_settings_of no_env) (\<lambda>_. Fin 0) 28800000 ''s1'' ''c1'' scheduled_depot))).
     sr_id s' = ''s1'' \<and> sp_status s' \<in> {''pending'', ''in_transit'', ''delivered'', ''cancelled''}"
proof -
  let ?c = "clock_settings_of no_env"
  have e: "cs_end ?c < 24" by (simp add: default_settings)
  have r: "ship_runs ?c (28800000, scheduled_depot)
      (28800000, snd (get_shipment_by_id ?c (\<lambda>_. Fin 0) 28800000 ''s1'' ''c1'' scheduled_depot))"
    unfolding ship_runs_def by (rule r_into_rtranclp, rule read_one) (rule zero_draw)
  have s: "scheduled_row \<in> set (lo_shipments scheduled_depot)" by (simp add: depot_scheduled)
  have i: "sr_id scheduled_row = ''s1''" by (simp add: scheduled_row_def depot_row_def)
  have t: "(0 :: millis) \<le> 28800000" by simp
  from shipments_move_forward [OF e depot_run [OF t] r s] show ?thesis unfolding i by blast
qed

text \<open>C19: when the business window closes before midnight (\<open>cs_end < 24\<close>), at every moment of every run
  a simulated shipment that has a departure and an arrival has them in business hours, the arrival after
  the departure, the departure not before the first open hour after its creation, and the date of the
  arrival is its day. One that is in transit has left, one that is delivered has arrived. With the
  setting 24, which the service accepts, the statement fails: an arrival may fall on midnight, before
  the opening hour, and the window is built again at every reading.\<close>

theorem simulated_windows_sound:
  assumes "cs_end (clock_settings_of env) < 24" and "ship_reachable (clock_settings_of env) (now, db)"
    and "s \<in> set (lo_shipments db)" and "sp_simulated s" and "sp_pending s = Some p" and "sp_eta s = Some a"
  shows "is_business_hour (clock_settings_of env) p \<and> is_business_hour (clock_settings_of env) a \<and> p < a
    \<and> normalize_hour (clock_settings_of env) (sp_created s) \<le> p
    \<and> sp_eta_date s = Some (to_legacy_date (clock_settings_of env) a)
    \<and> (sp_status s = ''in_transit'' \<longrightarrow> p \<le> now) \<and> (sp_status s = ''delivered'' \<longrightarrow> a \<le> now \<and> sp_arrived s \<noteq> None)"
proof -
  note c = clock_settings_of_ok [of env] assms(1)
  have "row_ok (clock_settings_of env) now s"
    using ship_reachable_ok [OF c assms(2)] assms(3) by (simp add: ships_ok_def list_all_iff)
  then show ?thesis
    using assms(4-6) by (simp_all add: row_ok_def row_window_ok_def under_way_ok_def good_window_def)
qed

theorem simulated_windows_sound_witness:
  "is_business_hour (clock_settings_of no_env) 18000000 \<and> is_business_hour (clock_settings_of no_env) 28800000
   \<and> sp_eta_date scheduled_row = Some (to_legacy_date (clock_settings_of no_env) 28800000)"
proof -
  have e: "cs_end (clock_settings_of no_env) < 24" by (simp add: default_settings)
  have s: "scheduled_row \<in> set (lo_shipments scheduled_depot)" "sp_simulated scheduled_row" "sp_pending scheduled_row = Some 18000000"
    "sp_eta scheduled_row = Some 28800000" by (simp_all add: depot_scheduled) (simp_all add: scheduled_row_def depot_row_def)
  show ?thesis using simulated_windows_sound [OF e depot_run [of 0] s] by simp
qed

text \<open>C18: when the business window closes before midnight (\<open>cs_end < 24\<close>), a simulated shipment of a
  company that is no demo company, once its arrival has come, is delivered by the next reading of it, at
  the hour that was announced, unless it was cancelled; and this at every moment of every run. For a demo
  company the reading does not bring the simulation up to date (\<open>demo_shipment_stuck\<close>), and with the
  setting 24 an arrival at midnight is replaced by a later one.\<close>

theorem due_shipment_delivered:
  assumes "cs_end (clock_settings_of env) < 24" and "ship_reachable (clock_settings_of env) (now, db)"
    and "\<not> fst (is_demo_company (sr_company s) db)" and "\<And>i. unit_draw (draw i)"
    and "s \<in> set (lo_shipments db)" and "sp_simulated s" and "sp_status s \<noteq> ''cancelled''"
    and "sp_pending s = Some p" and "sp_eta s = Some a" and "a \<le> now"
  shows "\<exists>v. fst (get_shipment_by_id (clock_settings_of env) draw now (sr_id s) (sr_company s) db) = Some v
    \<and> sp_status (sv_row v) = ''delivered''
    \<and> sp_arrived (sv_row v) = Some (case sp_arrived s of None \<Rightarrow> a | Some t \<Rightarrow> t)"
proof -
  let ?c = "clock_settings_of env"
  note c = clock_settings_of_ok [of env] assms(1)
  have ok: "ships_ok ?c now db" by (rule ship_reachable_ok [OF c assms(2)])
  obtain s1 where s1: "sync_row ?c now s1 \<in> set (lo_shipments (sync_company ?c draw now (sr_company s) db))"
    "sr_id s1 = sr_id s" "sr_company s1 = sr_company s" "sp_simulated s1" "sp_status s1 = sp_status s"
    "sp_pending s1 = Some p" "sp_eta s1 = Some a" "sp_arrived s1 = sp_arrived s"
    by (rule sync_company_row [OF ok assms(3,5) refl assms(6-9)])
  have ok1: "ships_ok ?c now (sync_company ?c draw now (sr_company s) db)"
    using sync_company_sound [OF c assms(4)] ok by (simp add: sound_change_def)
  have "effective_status s1 now = ''delivered''" using s1 assms(7,10) by (simp add: effective_status_def)
  then have "sp_status (sync_row ?c now s1) = ''delivered''"
    "sp_arrived (sync_row ?c now s1) = Some (case sp_arrived s of None \<Rightarrow> a | Some t \<Rightarrow> t)"
    using s1(6-8) by (auto simp: sync_row_def Let_def has_changes_def sync_mutation_of_def split: option.splits)
  with find_shipment_unique [OF ok1 s1(1)] show ?thesis by (simp add: get_shipment_by_id_def Let_def sync_row_key s1(2,3))
qed

theorem due_shipment_delivered_witness:
  "\<exists>v. fst (get_shipment_by_id (clock_settings_of no_env) (\<lambda>_. Fin 0) 28800000 ''s1'' ''c1'' scheduled_depot) = Some v
     \<and> sp_status (sv_row v) = ''delivered'' \<and> sp_arrived (sv_row v) = Some 28800000"
proof -
  have e: "cs_end (clock_settings_of no_env) < 24" by (simp add: default_settings)
  have s: "scheduled_row \<in> set (lo_shipments scheduled_depot)" by (simp add: depot_scheduled)
  have f: "sr_company scheduled_row = ''c1''" "sr_id scheduled_row = ''s1''" "sp_simulated scheduled_row" "sp_status scheduled_row \<noteq> ''cancelled''"
    "sp_pending scheduled_row = Some 18000000" "sp_eta scheduled_row = Some 28800000" "sp_arrived scheduled_row = None"
    by (simp_all add: scheduled_row_def depot_row_def)
  have "\<not> fst (is_demo_company ''c1'' scheduled_depot)"
    by (simp add: scheduled_depot_def sync_company_def backfill_company_def is_demo_company_def demo_company_now_def depot_def empty_depot_def Let_def)
  then show ?thesis
    using due_shipment_delivered [OF e depot_run [of 28800000], of scheduled_row "\<lambda>_. Fin 0" 18000000 28800000] s f zero_draw by simp
qed

text \<open>C17: The loop that spreads hours over business days is exact: from any time, with a window that closes before midnight,
  it answers a moment in business hours until which exactly the requested hours (rounded up, one at
  least) have been open.\<close>

theorem allocation_counts_open_hours:
  assumes "cs_end (clock_settings_of env) < 24"
  shows "\<exists>u. allocate_business_hours (clock_settings_of env) t (Fin x) = Some u
    \<and> int (open_hours (clock_settings_of env) t u) = max 1 \<lceil>x\<rceil>
    \<and> normalize_hour (clock_settings_of env) t < u \<and> is_business_hour (clock_settings_of env) u"
proof -
  obtain u where "allocate_business_hours (clock_settings_of env) t (Fin x) = Some u" "normalize_hour (clock_settings_of env) t < u"
      "is_business_hour (clock_settings_of env) u" "int (open_hours (clock_settings_of env) t u) = max 1 \<lceil>x\<rceil>"
    by (rule allocate_business [OF clock_settings_of_ok assms refl])
  then show ?thesis by blast
qed

theorem allocation_counts_open_hours_witness:
  "int (open_hours (clock_settings_of no_env) 3600000 18000000) = 4"
proof -
  have e: "cs_end (clock_settings_of no_env) < 24" by (simp add: default_settings)
  have a: "allocate_business_hours (clock_settings_of no_env) 3600000 (Fin 4) = Some 18000000"
    by (simp add: allocate_business_hours_Fin depot_normal depot_allocation)
  from allocation_counts_open_hours [OF e, of 3600000 4] show ?thesis by (simp add: a)
qed

text \<open>C33: The loop always ends, whatever the environment says and however many hours it is given, and later than it
  started: the settings are clamped so that every day has an open hour. (Dates have no upper bound here; the code
  answers null where they leave the range of \<open>Date\<close>.)\<close>

theorem allocation_terminates:
  "\<exists>u. allocate_business_hours (clock_settings_of env) t (Fin x) = Some u \<and> t < u"
proof -
  let ?c = "clock_settings_of env"
  obtain u where "allocate_from ?c (normalize_hour ?c t) (max 1 \<lceil>x\<rceil>) = Some u" "normalize_hour ?c t \<le> u"
      "0 < max 1 \<lceil>x\<rceil> \<longrightarrow> normalize_hour ?c t < u"
    by (rule allocate_ends [OF clock_settings_of_ok, of "max 1 \<lceil>x\<rceil>" env "normalize_hour ?c t"]) simp
  moreover have "0 < max 1 \<lceil>x\<rceil>" by linarith
  moreover have "t \<le> normalize_hour ?c t" by (rule normalize_hour_ge [OF clock_settings_of_ok])
  ultimately show ?thesis by (auto simp: allocate_business_hours_Fin)
qed

section \<open>What surprises\<close>

text \<open>C38: A window that closes at midnight, as \<open>SHIPMENT_SIMULATION_BUSINESS_END_HOUR = 24\<close> allows, loses the next day: two hours
  from 23:00 of a day end one hour into the window of the day after the next, when a whole window more
  has been open than was asked for.\<close>

theorem midnight_close_skips_day:
  assumes "cs_end (clock_settings_of env) = 24"
  shows "allocate_business_hours (clock_settings_of env) (from_local (clock_settings_of env) (date_at d 23)) (Fin 2)
      = Some (from_local (clock_settings_of env) (date_at (d + 2) (cs_start (clock_settings_of env) + 1)))
    \<and> int (open_hours (clock_settings_of env) (from_local (clock_settings_of env) (date_at d 23))
        (from_local (clock_settings_of env) (date_at (d + 2) (cs_start (clock_settings_of env) + 1))))
      = 2 + (24 - cs_start (clock_settings_of env))"
proof -
  let ?c = "clock_settings_of env"
  note c = clock_settings_of_ok [of env]
  have "normalize_hour ?c (from_local ?c (date_at d 23)) = from_local ?c (date_at d 23)"
    using c assms by (intro normalize_hour_id) (simp_all add: is_open_from_local clock_ok_def)
  then show ?thesis using midnight_skips [OF c assms, of d] midnight_open_hours [OF c assms, of d]
    by (simp add: allocate_business_hours_Fin)
qed

definition midnight_env :: "string \<Rightarrow> string option" where
  "midnight_env k = (if k = ''SHIPMENT_SIMULATION_BUSINESS_END_HOUR'' then Some ''24'' else None)"

theorem midnight_close_skips_day_witness:
  "allocate_business_hours (clock_settings_of midnight_env) (from_local (clock_settings_of midnight_env) (date_at 0 23)) (Fin 2)
     = Some (from_local (clock_settings_of midnight_env) (date_at 2 9))"
proof -
  have "clock_settings_of midnight_env = \<lparr>cs_offset = 420, cs_start = 8, cs_end = 24, cs_pending_min = 4, cs_pending_max = 7\<rparr>"
    by (simp add: clock_settings_of_def midnight_env_def read_integer_env_def clamp_integer_def Let_def) code_simp
  then have e: "cs_end (clock_settings_of midnight_env) = 24" and s: "cs_start (clock_settings_of midnight_env) = 8" by simp_all
  from midnight_close_skips_day [OF e, of 0] show ?thesis by (simp add: s)
qed

text \<open>A departure at closing time counts as a business hour, so the clock keeps the shipment's window; but when the legs of
  the pending shipment are stored again the same departure is rounded to the opening of the next day.\<close>

theorem closing_time_departure_postponed:
  assumes "cs_end (clock_settings_of env) < 24" and "unit_draw random"
    and "sp_simulated s" and "sp_pending s = Some p" and "sp_eta s = Some a"
    and "to_local (clock_settings_of env) p = date_at d (cs_end (clock_settings_of env))"
    and "good_window (clock_settings_of env) p a (sp_eta_date s)" and "normalize_hour (clock_settings_of env) (sp_created s) \<le> p"
    and "with_legs (clock_settings_of env) random now legs s = Inr s'" and "sp_simulated s'"
  shows "\<not> should_rebuild (clock_settings_of env) s \<and> sp_pending s' = Some (next_window (clock_settings_of env) p)
    \<and> p < next_window (clock_settings_of env) p"
proof -
  let ?c = "clock_settings_of env"
  note c = clock_settings_of_ok [of env]
  have n: "normalize_hour ?c p = next_window ?c p" by (rule closing_hour [OF c assms(1,6)])
  have "\<not> is_open ?c p" using c assms(1) by (simp add: is_open_def assms(6) date_fields clock_ok_def)
  moreover have "is_open ?c (next_window ?c p)" by (rule next_window_open [OF c])
  ultimately have ne: "p \<noteq> next_window ?c p" by metis
  have late: "p < next_window ?c p" using normalize_hour_ge [OF c, of p] n ne by simp
  define sim where "sim = build_simulation ?c random True (sp_created s) (sp_pending s) (pl_country (sr_origin s))
      (pl_country (sr_destination s)) (map request_clock_leg legs) (JNum (sum_floats (map ld_distance legs)))"
  have s': "ss_enabled sim" "sp_pending s' = ss_pending sim"
    using assms(3,9,10) unfolding with_legs_def Let_def sim_def [symmetric] by auto
  then obtain h where "calculate_transit_hours (map request_clock_leg legs) (JNum (sum_floats (map ld_distance legs)))
      (pl_country (sr_origin s)) (pl_country (sr_destination s)) = Some h"
    by (auto simp: sim_def build_simulation_def no_simulation_def split: option.splits)
  then have "ss_pending sim = resolve_pending_until ?c random (sp_created s) (Some p)"
    using assms(4) by (simp add: sim_def build_simulation_def Let_def)
  also have "\<dots> = Some (next_window ?c p)" using assms(8) late by (simp add: resolve_pending_until_def n Let_def)
  finally show ?thesis using s'(2) late good_window_kept [OF assms(4,5,7,8)] by simp
qed

definition late_row :: ship_row where
  "late_row = depot_row\<lparr>sp_pending := Some 39600000, sp_eta := Some 93600000, sp_eta_date := Some ''1970-01-02''\<rparr>"

definition road_leg :: leg_data where
  "road_leg = \<lparr>ld_order = JNum (Fin 1), ld_mode = JStr ''road'', ld_from = JStr ''A'', ld_to = JStr ''B'', ld_distance = JNum (Fin 45),
     ld_duration = JNull, ld_co2 = JNum (Fin 45), ld_factor = JNull, ld_carrier = JNull, ld_vehicle = JNull\<rparr>"

lemma road_leg_stored: "\<exists>s'. with_legs (clock_settings_of no_env) (Fin 0) now [road_leg] late_row = Inr s' \<and> sp_simulated s'"
proof -
  have d: "is_double (45 :: rat)" unfolding is_double_def by (rule exI [of _ 45], rule exI [of _ 0]) (simp add: pow2_def)
  have p: "parse_float (num_str (Fin 45)) = Fin 45" by (rule parse_float_num_str [OF d]) (simp add: max_double_def)
  have sum: "sum_floats [JNum (Fin 45)] = Fin 45"
    using p num_of_small_int [of 45] by (simp add: sum_floats_def num_simps del: num_str.simps)
  obtain km where km: "numeric_of_num 12 2 (Fin 45) = Inr (Fin km)"
    by (rule numeric_of_double [OF d, of 100 12 2]) simp_all
  obtain e where e: "numeric_of_num 12 4 (Fin 45) = Inr (Fin e)"
    by (rule numeric_of_double [OF d, of 100 12 4]) simp_all
  have n: "parse_number JNull NaN = NaN" by code_simp
  have rule: "eta_rule (JStr ''road'') = JObj [(''speedKmh'', JNum (Fin 45)), (''handlingHours'', JNum (Fin 2))]" by code_simp
  have h: "travel_hours (Fin 45) (eta_rule (JStr ''road'')) = Fin 3"
    unfolding rule using num_of_small_int [of 1] num_of_small_int [of 3] by (simp add: travel_hours_def num_simps)
  have "leg_hours (request_clock_leg road_leg) = Some (Fin 3)"
    by (simp add: leg_hours_def request_clock_leg_def road_leg_def Let_def parse_45 n h num_simps)
  moreover have "\<not> is_cross_border (JStr ''VN'') (JStr ''VN'')" by (simp add: is_cross_border_def Let_def)
  ultimately have "calculate_transit_hours [request_clock_leg road_leg] x (JStr ''VN'') (JStr ''VN'') = Some (Fin 3)" for x
    using num_of_small_int [of 3] by (simp add: calculate_transit_hours_def num_simps)
  then show ?thesis
    by (simp add: with_legs_def build_simulation_def Let_def late_row_def depot_row_def depot_place_def sum km e)
      (simp add: road_leg_def sum km e)
qed

theorem closing_time_departure_postponed_witness:
  "\<exists>s'. with_legs (clock_settings_of no_env) (Fin 0) 0 [road_leg] late_row = Inr s'
     \<and> sp_pending late_row = Some 39600000 \<and> sp_pending s' = Some 90000000"
proof -
  let ?c = "clock_settings_of no_env"
  obtain s' where s': "with_legs ?c (Fin 0) 0 [road_leg] late_row = Inr s'" "sp_simulated s'" using road_leg_stored [of 0] by blast
  have e: "cs_end ?c < 24" by (simp add: default_settings)
  have f: "sp_simulated late_row" "sp_pending late_row = Some 39600000" "sp_eta late_row = Some 93600000" "sp_created late_row = 0"
    "sp_eta_date late_row = Some ''1970-01-02''" by (simp_all add: late_row_def depot_row_def)
  have l: "to_local ?c 39600000 = date_at 0 (cs_end ?c)" unfolding default_settings by code_simp
  have w: "good_window ?c 39600000 93600000 (sp_eta_date late_row)" unfolding f default_settings good_window_def by code_simp
  have n: "normalize_hour ?c (sp_created late_row) \<le> 39600000" by (simp add: f depot_normal)
  have x: "next_window ?c 39600000 = 90000000" unfolding default_settings by code_simp
  from closing_time_departure_postponed [OF e zero_draw f(1-3) l w n s'] s'(1) f(2) show ?thesis unfolding x by blast
qed

text \<open>The clock never moves the shipments of a demo company (one with a demo user, or so named), and a simulated shipment cannot
  be moved by hand: there it keeps its status for ever, unless it is cancelled. \<open>getShipmentById\<close> answers the row as it is stored at any later
  time, and a change of status is refused.\<close>

theorem demo_shipment_stuck:
  assumes "fst (is_demo_company company db)" and "find_shipment i company db = Some s" and "sp_simulated s"
    and "status \<noteq> ''cancelled''"
  shows "lo_shipments (sync_company c draw now company db) = lo_shipments db
    \<and> (\<exists>v. fst (get_shipment_by_id c draw now i company db) = Some v \<and> sv_row v = s)
    \<and> fst (update_shipment_status c draw now i company status arrival db)
        = Inl (Service_Error ''SHIPMENT_STATUS_AUTO_MANAGED'' 400)
    \<and> lo_shipments (snd (update_shipment_status c draw now i company status arrival db)) = lo_shipments db"
proof -
  obtain db1 where d: "is_demo_company company db = (True, db1)" using assms(1) by (cases "is_demo_company company db") simp
  then have sync: "sync_company c draw now company db = db1" by (simp add: sync_company_def)
  have same: "lo_shipments db1 = lo_shipments db" using is_demo_company_frame [OF d] by simp
  then have "find_shipment i company db1 = Some s" using assms(2) by (simp add: find_shipment_def)
  with assms(3,4) same show ?thesis
    by (simp add: sync get_shipment_by_id_def update_shipment_status_def cancel_simulated_def Let_def)
qed

definition demo_depot :: logistics_db where
  "demo_depot = empty_depot\<lparr>lo_shipments := [scheduled_row], lo_demo_cache := [(''c1'', True)]\<rparr>"

theorem demo_shipment_stuck_witness:
  "fst (update_shipment_status (clock_settings_of no_env) (\<lambda>_. Fin 0) 1000000000 ''s1'' ''c1'' ''delivered'' JUndef demo_depot)
     = Inl (Service_Error ''SHIPMENT_STATUS_AUTO_MANAGED'' 400)"
proof -
  have a: "fst (is_demo_company ''c1'' demo_depot)" by (simp add: is_demo_company_def demo_depot_def)
  have f: "find_shipment ''s1'' ''c1'' demo_depot = Some scheduled_row" "sp_simulated scheduled_row"
    by (simp_all add: find_shipment_def demo_depot_def scheduled_row_def depot_row_def)
  have "''delivered'' \<noteq> ''cancelled''" by simp
  from demo_shipment_stuck [OF a f this] show ?thesis by blast
qed

section \<open>Changes by hand\<close>

text \<open>C24: A manual shipment changes its status along pending, in transit, delivered, with a cancellation before delivery, and nothing
  else: after the reading that comes first, an allowed change is stored, with the current time as arrival when
  it is delivered and none is given, and no other row changes; any other change is refused and leaves the
  tables as they were read.\<close>

theorem manual_status_changes:
  assumes "c = clock_settings_of env" and "cs_end c < 24" and "ship_reachable c (now, db)" and "\<And>j. unit_draw (draw j)"
    and "find_shipment i company (sync_company c draw now company db) = Some s" and "\<not> sp_simulated s" and "\<not> truthy arrival"
  shows "update_shipment_status c draw now i company status arrival db =
    (let db1 = sync_company c draw now company db;
         s' = s\<lparr>sp_status := status, sp_updated := now,
                sp_arrived := (if status = ''delivered'' then Some now else None),
                sp_arrived_date := (if status = ''delivered'' then Some (to_legacy_date c now) else None)\<rparr>
     in if (sp_status s, status) \<in> {(''pending'', ''in_transit''), (''pending'', ''cancelled''),
             (''in_transit'', ''delivered''), (''in_transit'', ''cancelled'')}
        then (Inr (Some s'), put_shipment s' db1)
        else (Inl (ship_error ''INVALID_SHIPMENT_STATUS_TRANSITION''), db1))"
proof -
  let ?db1 = "sync_company c draw now company db"
  have c: "clock_ok c" using assms(1) by (simp add: clock_settings_of_ok)
  have ok: "ships_ok c now ?db1"
    using sync_company_sound [OF c assms(2,4)] ship_reachable_ok [OF c assms(2,3)] by (simp add: sound_change_def)
  note s = find_shipment_Some [OF assms(5)]
  let ?s' = "s\<lparr>sp_status := status, sp_updated := now, sp_arrived := (if status = ''delivered'' then Some now else None),
                sp_arrived_date := (if status = ''delivered'' then Some (to_legacy_date c now) else None)\<rparr>"
  let ?mine = "\<lambda>r. sr_id r = i \<and> sr_company r = company \<and> sp_status r = sp_status s"
  have only: "?mine r \<longleftrightarrow> r = s" "sr_id r = i \<and> sr_company r = company \<longleftrightarrow> r = s" if "r \<in> set (lo_shipments ?db1)" for r
    using only_row [OF ok assms(5) that] s by auto
  have ns: "matching ?mine (lo_shipments ?db1) \<noteq> 0" using s by (auto simp: matching_def filter_empty_conv)
  have rows: "update_where ?mine (\<lambda>r. r\<lparr>sp_status := status, sp_arrived_date := (if status = ''delivered'' then Some (to_legacy_date c now) else None),
        sp_arrived := (if status = ''delivered'' then Some now else None), sp_updated := now\<rparr>) (lo_shipments ?db1)
      = update_where (\<lambda>r. sr_id r = i \<and> sr_company r = company) (\<lambda>_. ?s') (lo_shipments ?db1)"
    using only by (auto simp: update_where_def intro!: map_cong)
  have found: "find_shipment i company (put_shipment ?s' ?db1) = Some ?s'"
  proof -
    have "?s' \<in> set (lo_shipments (put_shipment ?s' ?db1))" using s by (auto simp: put_shipment_def update_where_def)
    moreover have "r = ?s'" if "r \<in> set (lo_shipments (put_shipment ?s' ?db1))" "sr_id r = i \<and> sr_company r = company" for r
      using that s by (auto simp: put_shipment_def update_where_def split: if_splits)
    ultimately show ?thesis using s
      by (cases "find_shipment i company (put_shipment ?s' ?db1)")
        (auto simp: find_shipment_def select_one_None dest!: select_one_Some)
  qed
  have allowed: "status \<in> set (valid_transitions (sp_status s)) \<longleftrightarrow> (sp_status s, status) \<in> {(''pending'', ''in_transit''), (''pending'', ''cancelled''),
             (''in_transit'', ''delivered''), (''in_transit'', ''cancelled'')}"
    by (auto simp: valid_transitions_def)
  show ?thesis
  proof (cases "status \<in> set (valid_transitions (sp_status s))")
    case False
    then show ?thesis using assms(5,6) allowed by (simp add: update_shipment_status_def move_manually_def Let_def)
  next
    case True
    have "move_manually c now i company status arrival s ?db1 = (Inr (Some ?s'), put_shipment ?s' ?db1)"
      using True found ns rows s assms(7)
      by (cases "status = ''delivered''") (simp_all add: move_manually_def set_status_where_def Let_def put_shipment_def)
    then show ?thesis using assms(5,6) allowed True by (simp add: update_shipment_status_def Let_def)
  qed
qed

definition manual_row :: ship_row where
  "manual_row = depot_row\<lparr>sp_simulated := False\<rparr>"

definition manual_depot :: logistics_db where
  "manual_depot = empty_depot\<lparr>lo_shipments := [manual_row]\<rparr>"

theorem manual_status_changes_witness:
  "map_sum id (map_option sp_status) (fst (update_shipment_status (clock_settings_of no_env) (\<lambda>_. Fin 0) 5 ''s1'' ''c1'' ''in_transit'' JUndef
      manual_depot)) = Inr (Some ''in_transit'')"
proof -
  let ?c = "clock_settings_of no_env"
  have e: "cs_end ?c < 24" by (simp add: default_settings)
  have s: "lo_shipments manual_depot = [manual_row]" "lo_shipments empty_depot = []" by (simp_all add: manual_depot_def empty_depot_def)
  have f: "sr_id manual_row = ''s1''" "sr_company manual_row = ''c1''" "\<not> sp_simulated manual_row" "sp_status manual_row = ''pending''"
    by (simp_all add: manual_row_def depot_row_def)
  have "ship_step ?c (0, empty_depot) (0, manual_depot)"
    by (rule published [of manual_row]) (simp_all add: s manual_row_def depot_row_def)
  moreover have "ship_step ?c (0, manual_depot) (5, manual_depot)" by (rule passes) simp
  ultimately have "ship_runs ?c (0, empty_depot) (5, manual_depot)"
    unfolding ship_runs_def by (rule rtranclp.rtrancl_into_rtrancl [OF r_into_rtranclp])
  with s(2) have reach: "ship_reachable ?c (5, manual_depot)" unfolding ship_reachable_def by blast
  have b: "\<not> backfill_selects ?c manual_row" by (simp add: backfill_selects_def manual_row_def depot_row_def)
  have demo: "is_demo_company ''c1'' manual_depot = (False, manual_depot\<lparr>lo_demo_cache := [(''c1'', False)]\<rparr>)"
    by (simp add: is_demo_company_def demo_company_now_def manual_depot_def empty_depot_def Let_def)
  have "lo_shipments (sync_company ?c (\<lambda>_. Fin 0) 5 ''c1'' manual_depot) = [manual_row]"
    using b f by (simp add: sync_company_def backfill_company_def demo is_demo_company_again [OF demo] Let_def update_where_def s)
  then have find: "find_shipment ''s1'' ''c1'' (sync_company ?c (\<lambda>_. Fin 0) 5 ''c1'' manual_depot) = Some manual_row"
    using f by (simp add: find_shipment_def)
  have t: "\<not> truthy JUndef" by simp
  from manual_status_changes [OF refl e reach zero_draw find f(3) t, of "''in_transit''"] show ?thesis
    by (simp add: f(4) Let_def)
qed

end
