(* ===== verification/Four_Decimals.thy ===== *)
theory Four_Decimals
  imports Sql_Numeric
begin

text \<open>
  Amounts kept to four decimals: \<open>roundTo\<close> of \<open>services/b2cService/helpers.js\<close> over doubles, and the
  columns \<open>NUMERIC(p, 4)\<close> they are stored in. Below the precision of the columns the doubles stay so
  close to the decimals that sums and differences of stored amounts come out exact.
\<close>

text \<open>\<open>roundTo(value)\<close>, whose factor is \<open>10 ** 4\<close>.\<close>

definition round_to :: "jnum \<Rightarrow> jnum" where
  "round_to x = math_round (x * Fin 10000) / Fin 10000"

definition fourth :: "int \<Rightarrow> rat" where
  "fourth m = of_int m / 10000"

section \<open>How far rounding moves a number\<close>

lemma round_half_even_error: "\<bar>of_int (round_half_even x) - x\<bar> \<le> 1 / 2"
  by (simp add: round_half_even_def Let_def abs_if) linarith

lemma fl64_error:
  assumes "\<bar>x\<bar> < pow2 k" and "- 1021 \<le> k"
  shows "\<bar>fl64 x - x\<bar> \<le> pow2 (k - 54)"
proof -
  have pos: "\<bar>fl_pos y - y\<bar> \<le> pow2 (k - 54)" if y: "0 < y" "y < pow2 k" for y
  proof -
    let ?u = "pow2 (ulp_exp y)"
    have "pow2 (floorlog2 y) < pow2 k" using floorlog2_bounds(1) [OF y(1)] y(2) by linarith
    then have "ulp_exp y \<le> k - 53" using assms(2) by (simp add: ulp_exp_def)
    then have "?u \<le> pow2 (k - 53)" by (rule pow2_mono)
    moreover have "pow2 (k - 53) = 2 * pow2 (k - 54)" using pow2_succ [of "k - 54"] by simp
    moreover have "\<bar>fl_pos y - y\<bar> = \<bar>of_int (round_half_even (y / ?u)) - y / ?u\<bar> * ?u"
    proof -
      have "fl_pos y - y = (of_int (round_half_even (y / ?u)) - y / ?u) * ?u"
        by (simp add: fl_pos_def Let_def left_diff_distrib)
      then show ?thesis by (simp add: abs_mult abs_of_pos)
    qed
    moreover have "\<bar>of_int (round_half_even (y / ?u)) - y / ?u\<bar> * ?u \<le> 1 / 2 * ?u"
      by (rule mult_right_mono [OF round_half_even_error]) simp
    ultimately show ?thesis by linarith
  qed
  consider "x = 0" | "0 < x" | "x < 0" by linarith
  then show ?thesis
  proof cases
    case 3
    have "\<bar>fl_pos (- x) - (- x)\<bar> \<le> pow2 (k - 54)" by (rule pos) (use assms(1) 3 in linarith)+
    then show ?thesis using 3 by (simp add: fl64_def abs_minus_commute)
  qed (use pos [of x] assms(1) in \<open>auto simp: fl64_def\<close>)
qed

lemma pow2_values: "pow2 27 = 134217728" "pow2 28 = 268435456" "pow2 42 = 4398046511104" "pow2 (- 27) = 1 / 134217728"
  "pow2 (- 26) = 1 / 67108864" "pow2 (- 12) = 1 / 4096"
  by (simp_all add: pow2_def power_int_def power_one_over)

lemma round_scale_near:
  assumes "\<bar>x * 10 ^ s - of_int m\<bar> < 1 / 2"
  shows "round_scale s x = of_int m / 10 ^ s"
proof (cases "x < 0")
  case True
  have "\<bar>x\<bar> * 10 ^ s = - (x * 10 ^ s)" using True by simp
  then have "\<lfloor>\<bar>x\<bar> * 10 ^ s + 1 / 2\<rfloor> = - m" using assms by (intro floor_unique) (simp_all add: abs_if split: if_splits)
  then show ?thesis using True by (simp add: round_scale_def Let_def)
next
  case False
  then have "\<bar>x\<bar> * 10 ^ s = x * 10 ^ s" by simp
  then have "\<lfloor>\<bar>x\<bar> * 10 ^ s + 1 / 2\<rfloor> = m" using assms by (intro floor_unique) (simp_all add: abs_if split: if_splits)
  then show ?thesis using False by (simp add: round_scale_def Let_def)
qed

lemma num_of_upto: "\<bar>x\<bar> \<le> of_int n \<Longrightarrow> n < 2 ^ 53 \<Longrightarrow> 0 \<le> n \<Longrightarrow> num_of x = Fin (fl64 x)"
proof -
  assume a: "\<bar>x\<bar> \<le> of_int n" "n < 2 ^ 53" "0 \<le> n"
  have "\<bar>fl64 x\<bar> \<le> of_int n"
    using fl64.le_int [of x n] fl64.ge_int [of "- n" x] a by (simp add: abs_le_iff)
  moreover have "of_int n \<le> (of_int (2 ^ 53) :: rat)" unfolding of_int_le_iff using a by simp
  ultimately have "\<bar>fl64 x\<bar> \<le> max_double" by (simp add: max_double_def)
  then show ?thesis by (simp add: num_of_def Let_def abs_le_iff not_less)
qed

section \<open>Doubles of four decimals\<close>

lemma fourth_bound: "\<bar>m\<bar> \<le> 2 * 10 ^ 12 \<Longrightarrow> \<bar>fourth m\<bar> \<le> of_int 200000000"
  by (simp add: fourth_def abs_le_iff divide_le_eq le_divide_eq)

lemma fourth_num: "\<bar>m\<bar> \<le> 2 * 10 ^ 12 \<Longrightarrow> num_of (fourth m) = Fin (fl64 (fourth m))"
  by (rule num_of_upto [OF fourth_bound]) simp_all

lemma fourth_double_error:
  assumes "\<bar>m\<bar> \<le> 2 * 10 ^ 12"
  shows "\<bar>fl64 (fourth m) - fourth m\<bar> \<le> 1 / 67108864"
  using fl64_error [of "fourth m" 28] fourth_bound [OF assms] by (simp add: pow2_values)

text \<open>\<open>roundTo\<close> of a number close to four decimals, and of any number.\<close>

lemma round_to_near:
  assumes "\<bar>y - fourth m\<bar> * 10000 < 1 / 4" and "\<bar>m\<bar> \<le> 2 * 10 ^ 12"
  shows "round_to (Fin y) = Fin (fl64 (fourth m))"
proof -
  have "of_int \<bar>m\<bar> \<le> (of_int 2000000000000 :: rat)" unfolding of_int_le_iff using assms(2) by simp
  then have m: "\<bar>(of_int m :: rat)\<bar> \<le> 2000000000000" by simp
  have d: "\<bar>y * 10000 - of_int m\<bar> < 1 / 4"
  proof -
    have "\<bar>y * 10000 - of_int m\<bar> = \<bar>(y - fourth m) * 10000\<bar>" by (simp add: fourth_def algebra_simps)
    also have "\<dots> = \<bar>y - fourth m\<bar> * 10000" by (simp only: abs_mult abs_numeral)
    finally show ?thesis using assms(1) by linarith
  qed
  then have b: "\<bar>y * 10000\<bar> \<le> 2000000000001" using m by linarith
  have n: "num_of (y * 10000) = Fin (fl64 (y * 10000))" by (rule num_of_upto [where n = 2000000000001]) (use b in simp_all)
  have "\<bar>y * 10000\<bar> < 4398046511104" using b by linarith
  then have "\<bar>fl64 (y * 10000) - y * 10000\<bar> \<le> 1 / 4096"
    using fl64_error [of "y * 10000" 42] by (simp only: pow2_values) (simp add: pow2_values)
  with d have "\<bar>fl64 (y * 10000) - of_int m\<bar> < 1 / 2" by linarith
  then have "\<lfloor>fl64 (y * 10000) + 1 / 2\<rfloor> = m" by (intro floor_unique) (simp_all add: abs_if split: if_splits)
  then show ?thesis using n fourth_num [OF assms(2)] by (simp add: round_to_def num_simps fourth_def)
qed

lemma round_to_fourth:
  assumes "round_to x = Fin z"
  obtains m where "z = fl64 (fourth m)" "\<bar>z\<bar> \<le> max_double"
proof -
  obtain m where "round_to x = num_of (fourth m)"
  proof (cases "x * Fin 10000")
    case (Fin y)
    then have "round_to x = num_of (fourth \<lfloor>y + 1 / 2\<rfloor>)" by (simp add: round_to_def divide_jnum_def fourth_def)
    with that show thesis by blast
  qed (use assms in \<open>simp_all add: round_to_def divide_jnum_def num_sign_inf_def\<close>)
  with assms that show thesis by (auto simp: num_of_def Let_def abs_le_iff not_less split: if_splits)
qed

lemma round_to_diff:
  assumes "\<bar>a\<bar> \<le> 10 ^ 12" and "\<bar>b\<bar> \<le> 10 ^ 12"
  shows "round_to (Fin (fl64 (fourth a)) - Fin (fl64 (fourth b))) = Fin (fl64 (fourth (a - b)))"
proof -
  have ab: "\<bar>a\<bar> \<le> 2 * 10 ^ 12" "\<bar>b\<bar> \<le> 2 * 10 ^ 12" "\<bar>a - b\<bar> \<le> 2 * 10 ^ 12" using assms by simp_all
  let ?d = "fl64 (fourth a) - fl64 (fourth b)"
  have diff: "fourth a - fourth b = fourth (a - b)" by (simp add: fourth_def diff_divide_distrib)
  have e: "\<bar>?d - fourth (a - b)\<bar> \<le> 1 / 33554432"
    using fourth_double_error [OF ab(1)] fourth_double_error [OF ab(2)] diff by linarith
  have "\<bar>fourth (a - b)\<bar> \<le> 200000000" using fourth_bound [OF ab(3)] by simp
  with e have b0: "\<bar>?d\<bar> \<le> 200000001" by linarith
  then have b: "\<bar>?d\<bar> \<le> of_int 200000001" by simp
  have n: "Fin (fl64 (fourth a)) - Fin (fl64 (fourth b)) = Fin (fl64 ?d)"
    using num_of_upto [OF b] by (simp add: num_simps)
  have "\<bar>fl64 ?d - ?d\<bar> \<le> 1 / 67108864" using fl64_error [of ?d 28] b0 by (simp add: pow2_values)
  with e have "\<bar>fl64 ?d - fourth (a - b)\<bar> < 1 / 40000" by linarith
  then have "\<bar>fl64 ?d - fourth (a - b)\<bar> * 10000 < 1 / 4" by simp
  from round_to_near [OF this ab(3)] show ?thesis unfolding n .
qed

section \<open>Storing them\<close>

lemma text_fourth:
  assumes "\<bar>m\<bar> \<le> 2 * 10 ^ 12"
  obtains v where "decimal_text (num_str (Fin (fl64 (fourth m)))) = Some v" "\<bar>v - fourth m\<bar> * 10000 < 1 / 4"
proof -
  let ?x = "fl64 (fourth m)"
  have "\<bar>fourth m\<bar> \<le> 200000000" using fourth_bound [OF assms] by simp
  with fourth_double_error [OF assms] have "\<bar>?x\<bar> < 268435456" by linarith
  then have x: "\<bar>?x\<bar> < of_int 268435456" by simp
  then have "\<bar>?x\<bar> \<le> max_double" by (simp add: max_double_def)
  from decimal_text_num_str [OF fl64_double this] obtain v where v: "decimal_text (num_str (Fin ?x)) = Some v" "fl64 v = ?x" .
  have "\<bar>v\<bar> < of_int 268435456" by (rule fl64_bound) (use x v(2) in simp_all)
  then have "\<bar>fl64 v - v\<bar> \<le> 1 / 67108864" using fl64_error [of v 28] by (simp add: pow2_values)
  with v(2) fourth_double_error [OF assms] have "\<bar>v - fourth m\<bar> < 1 / 40000" by linarith
  then have "\<bar>v - fourth m\<bar> * 10000 < 1 / 4" by simp
  with v(1) that show thesis by blast
qed

lemma fourth_stored:
  assumes "numeric_of_num p 4 (Fin (fl64 (fourth m))) = Inr r" and "p \<le> 12" and "\<bar>fl64 (fourth m)\<bar> \<le> max_double"
  shows "r = Fin (fourth m)" and "\<bar>m\<bar> < 10 ^ 12"
proof -
  let ?x = "fl64 (fourth m)"
  from decimal_text_num_str [OF fl64_double assms(3)] obtain v where v: "decimal_text (num_str (Fin ?x)) = Some v" "fl64 v = ?x" .
  have r: "r = Fin (round_scale 4 v)" "\<bar>round_scale 4 v\<bar> < 10 ^ (p - 4)"
    using assms(1) v(1) by (auto simp: numeric_of_num_def simp del: num_str.simps)
  have "(10 :: rat) ^ (p - 4) \<le> 10 ^ 8" using assms(2) by (intro power_increasing) simp_all
  with r(2) have small: "\<bar>round_scale 4 v\<bar> < 10 ^ 8" by linarith
  have "\<bar>round_scale 4 v - v\<bar> * 10 ^ 4 \<le> 1 / 2" by (rule round_scale_error)
  then have near: "\<bar>round_scale 4 v - v\<bar> \<le> 1 / 20000" by simp
  have "\<bar>round_scale 4 v\<bar> < 100000000" using small by simp
  with near have vb: "\<bar>v\<bar> < 100000001" by linarith
  then have "\<bar>fl64 v - v\<bar> \<le> 1 / 67108864" using fl64_error [of v 28] by (simp add: pow2_values)
  with vb v(2) have "\<bar>fl64 (fourth m)\<bar> < 100000002" by linarith
  then have "\<bar>fl64 (fourth m)\<bar> < of_int 100000002" by simp
  then have "\<bar>fourth m\<bar> < of_int 100000002" by (rule fl64_bound) simp_all
  then have "of_int \<bar>m\<bar> < (of_int 1000000020000 :: rat)" by (simp add: fourth_def)
  then have m: "\<bar>m\<bar> \<le> 2 * 10 ^ 12" unfolding of_int_less_iff by simp
  obtain w where w: "decimal_text (num_str (Fin ?x)) = Some w" "\<bar>w - fourth m\<bar> * 10000 < 1 / 4" by (rule text_fourth [OF m])
  have wv: "w = v" using w(1) v(1) by simp
  have "\<bar>v * 10 ^ 4 - of_int m\<bar> = \<bar>(v - fourth m) * 10000\<bar>" by (simp add: fourth_def algebra_simps)
  also have "\<dots> = \<bar>v - fourth m\<bar> * 10000" by (simp only: abs_mult abs_numeral)
  finally have "\<bar>v * 10 ^ 4 - of_int m\<bar> < 1 / 2" using w(2) unfolding wv by linarith
  from round_scale_near [OF this] have e: "round_scale 4 v = fourth m" by (simp add: fourth_def)
  with r(1) show "r = Fin (fourth m)" by simp
  from small e have "of_int \<bar>m\<bar> < (of_int (10 ^ 12) :: rat)" by (simp add: fourth_def)
  then show "\<bar>m\<bar> < 10 ^ 12" by (simp only: of_int_less_iff)
qed

end
