(* ===== verification/Donations.thy ===== *)
theory Donations
  imports Batches Four_Decimals "HOL-Library.Multiset"
begin

text \<open>
  \<open>services/b2cService.js\<close> and its \<open>helpers.js\<close>: donations of used textiles, the points and the saved
  emissions they earn, and what the sorting centre records. Left out are the seed rows and the set-up
  of the schema, the columns of the uploaded image, the analysis of an image by a language model, the
  lists ordered by the collation of the database and the labels of the activity list. The functions of
  \<open>Math\<close>, the reading of dates and of UUID texts are the fields of \<open>b2c_lib\<close>, the current time and
  generated identifiers arguments.
\<close>

record b2c_lib =
  bl_math :: math_lib
  bl_asin :: "jnum \<Rightarrow> jnum"
  bl_date :: "string \<Rightarrow> millis option"
  bl_uuid :: "string \<Rightarrow> ident option"

section \<open>Tables\<close>

record material_reward =
  mr_id :: ident
  mr_name :: string
  mr_category :: string
  mr_points :: rat
  mr_co2 :: rat
  mr_active :: bool

record collection_point =
  pt_id :: ident
  pt_name :: string
  pt_lat :: "rat option"
  pt_lng :: "rat option"
  pt_active :: bool

record donation_row =
  do_id :: ident
  do_user :: ident
  do_category :: string
  do_method :: string
  do_status :: string
  do_description :: string
  do_material :: "ident option"
  do_estimated :: rat
  do_actual :: "rat option"
  do_point :: "ident option"
  do_tracking :: "string option"
  do_base :: int
  do_bonus :: int
  do_points :: int
  do_co2 :: rat
  do_confirmed :: "millis option"
  do_confirmation :: "string option"
  do_completed :: "millis option"
  do_disposition :: "string option"
  do_note :: "string option"
  do_disposed :: "millis option"
  do_created :: millis
  do_updated :: millis

record donation_item =
  it_donation :: ident
  it_name :: string
  it_type :: "string option"
  it_condition :: "string option"
  it_material :: ident
  it_weight :: rat
  it_points :: int
  it_co2 :: rat

record reward_row =
  rw_user :: ident
  rw_points :: int
  rw_donations :: int
  rw_items :: int
  rw_weight :: rat
  rw_co2 :: rat
  rw_level :: string
  rw_updated :: millis

record points_row =
  tx_user :: ident
  tx_donation :: ident
  tx_type :: string
  tx_points :: int
  tx_description :: string
  tx_created :: millis

record b2c_db =
  bb_users :: "ident list"
  bb_materials :: "material_reward list"
  bb_places :: "collection_point list"
  bb_donations :: "donation_row list"
  bb_items :: "donation_item list"
  bb_rewards :: "reward_row list"
  bb_points :: "points_row list"

section \<open>Helpers\<close>

definition finite_or :: "jnum \<Rightarrow> jnum \<Rightarrow> jnum" where
  "finite_or x fallback = (if is_finite_num x then x else fallback)"

text \<open>\<open>toNumber(value, fallback)\<close>.\<close>

definition number_or :: "jsval \<Rightarrow> jnum \<Rightarrow> jnum" where
  "number_or v fallback = finite_or (to_num v) fallback"

definition optional_string :: "jsval \<Rightarrow> string option" where
  "optional_string v = (case v of JStr s \<Rightarrow> if trim s = [] then None else Some (trim s) | _ \<Rightarrow> None)"

definition reuse_displacement :: jnum where "reuse_displacement = num_of (5 / 10)"
definition recycle_net_ef :: jnum where "recycle_net_ef = num_of (7 / 10)"

definition compute_donation_co2 :: "string \<Rightarrow> jnum \<Rightarrow> jnum \<Rightarrow> jnum" where
  "compute_donation_co2 category ef weight =
     (let ef = finite_or ef (Fin 0); weight = finite_or weight (Fin 0)
      in if \<not> Fin 0 < weight then Fin 0
         else if category = ''charity'' then ef * reuse_displacement * weight
         else recycle_net_ef * weight)"

definition disposition_co2 :: "string \<Rightarrow> jnum \<Rightarrow> jnum \<Rightarrow> jnum" where
  "disposition_co2 disposition ef weight =
     (let ef = finite_or ef (Fin 0); weight = finite_or weight (Fin 0)
      in if \<not> Fin 0 < weight then Fin 0
         else if disposition = ''reuse'' then ef * reuse_displacement * weight
         else if disposition = ''recycle'' then recycle_net_ef * weight
         else Fin 0)"

definition dispositions :: "string list" where
  "dispositions = [''reuse'', ''recycle'', ''waste'']"

definition geo_distance :: "b2c_lib \<Rightarrow> jnum \<Rightarrow> jnum \<Rightarrow> jnum \<Rightarrow> jnum \<Rightarrow> jnum" where
  "geo_distance lib lat1 lng1 lat2 lng2 =
     Fin 2 * Fin 6371 * bl_asin lib (math_sqrt (haversine (bl_math lib) lat1 lng1 lat2 lng2))"

definition max_gps_distance :: jnum where "max_gps_distance = num_of (2 / 10)"

text \<open>\<open>resolveLevel\<close>, and the CASE of the upsert.\<close>

definition level_of :: "int \<Rightarrow> string" where
  "level_of p =
     (if 2000 \<le> p then ''Champion'' else if 1000 \<le> p then ''Advocate'' else if 400 \<le> p then ''Explorer'' else ''Beginner'')"

section \<open>The request\<close>

record donation_line =
  dl_name :: string
  dl_type :: "string option"
  dl_condition :: "string option"
  dl_material :: string
  dl_weight :: jnum

record gps_checkin =
  gp_lat :: jnum
  gp_lng :: jnum
  gp_checked :: "string option"

definition b2c_error :: "string \<Rightarrow> nat \<Rightarrow> service_error" where
  "b2c_error reason status = Service_Error reason status"

definition not_an_object :: service_error where
  "not_an_object = Service_Error ''TypeError'' 500"

definition normalize_line :: "jsval \<Rightarrow> service_error + donation_line" where
  "normalize_line item =
     (if is_nullish item then Inl not_an_object
      else case optional_string (jget item ''item_name'') of
             None \<Rightarrow> Inl (b2c_error ''INVALID_DONATION_ITEM'' 422)
           | Some name \<Rightarrow>
      (case optional_string (jget item ''material_id'') of
         None \<Rightarrow> Inl (b2c_error ''INVALID_DONATION_ITEM'' 422)
       | Some material \<Rightarrow>
           (let weight = number_or (jget item ''weight_kg'') NaN
            in if \<not> is_finite_num weight \<or> weight \<le> Fin 0 then Inl (b2c_error ''INVALID_DONATION_ITEM'' 422)
               else Inr \<lparr>dl_name = name, dl_type = optional_string (jget item ''item_type''),
                      dl_condition = optional_string (jget item ''condition''), dl_material = material,
                      dl_weight = round_to weight\<rparr>)))"

definition gps_of :: "jsval \<Rightarrow> gps_checkin option" where
  "gps_of v =
     (if truthy v \<and> typeof v = ''object''
      then Some \<lparr>gp_lat = number_or (jget v ''latitude'') NaN, gp_lng = number_or (jget v ''longitude'') NaN,
             gp_checked = optional_string (jget v ''checked_at'')\<rparr>
      else None)"

record donation_request =
  dr_category :: string
  dr_method :: string
  dr_lines :: "donation_line list"
  dr_place :: "string option"
  dr_tracking :: "string option"
  dr_gps :: "gps_checkin option"

definition read_items :: "string \<Rightarrow> string \<Rightarrow> jsval \<Rightarrow> service_error + donation_request" where
  "read_items category delivery payload =
     (let items = (case jget payload ''items'' of JArr vs \<Rightarrow> vs | _ \<Rightarrow> []);
          place = optional_string (jget payload ''collection_point_id'');
          gps = gps_of (jget payload ''gps_checkin'')
      in if items = [] then Inl (b2c_error ''DONATION_ITEMS_REQUIRED'' 422)
         else bind_result (traverse normalize_line items) (\<lambda>lines.
           if delivery = ''drop_off'' \<and> place = None then Inl (b2c_error ''COLLECTION_POINT_REQUIRED'' 422)
           else if delivery = ''drop_off'' \<and> (case gps of None \<Rightarrow> False
                  | Some g \<Rightarrow> \<not> is_finite_num (gp_lat g) \<or> \<not> is_finite_num (gp_lng g))
           then Inl (b2c_error ''INVALID_GPS_CHECKIN'' 422)
           else Inr \<lparr>dr_category = category, dr_method = delivery, dr_lines = lines, dr_place = place,
                  dr_tracking = optional_string (jget payload ''shipping_tracking_number''), dr_gps = gps\<rparr>))"

definition read_choice :: "string list \<Rightarrow> string \<Rightarrow> jsval \<Rightarrow> service_error + string" where
  "read_choice allowed reason v =
     (case optional_string v of
        None \<Rightarrow> Inl (b2c_error reason 422)
      | Some s \<Rightarrow> if s \<in> set allowed then Inr s else Inl (b2c_error reason 422))"

definition read_donation :: "jsval \<Rightarrow> bool \<Rightarrow> service_error + donation_request" where
  "read_donation payload uploaded =
     (if \<not> truthy payload \<or> typeof payload \<noteq> ''object'' then Inl (b2c_error ''INVALID_DONATION_PAYLOAD'' 422)
      else if \<not> uploaded then Inl (b2c_error ''SOURCE_IMAGE_REQUIRED'' 400)
      else bind_result (read_choice [''charity'', ''recycle''] ''INVALID_DONATION_CATEGORY'' (jget payload ''category'')) (\<lambda>category.
           bind_result (read_choice [''drop_off'', ''shipping''] ''INVALID_DELIVERY_METHOD'' (jget payload ''delivery_method''))
             (\<lambda>delivery. read_items category delivery payload)))"

section \<open>A donation\<close>

text \<open>A reference to a row by the text of a UUID.\<close>

definition uuid_param :: "b2c_lib \<Rightarrow> string \<Rightarrow> service_error + ident" where
  "uuid_param lib s = (case bl_uuid lib s of None \<Rightarrow> Inl (sql_error ''22P02'') | Some i \<Rightarrow> Inr i)"

definition material_rows :: "b2c_lib \<Rightarrow> donation_line list \<Rightarrow> b2c_db \<Rightarrow> service_error + material_reward list" where
  "material_rows lib lines db =
     (let ids = remdups (map dl_material lines)
      in bind_result (traverse (uuid_param lib) ids) (\<lambda>keys.
           let rows = filter (\<lambda>m. mr_id m \<in> set keys) (bb_materials db)
           in if length rows \<noteq> length ids then Inl (b2c_error ''MATERIAL_NOT_FOUND'' 422) else Inr rows))"

text \<open>The status, the time and the method of confirmation: a check-in close to the collection point is
  received at once.\<close>

definition number_or_column :: "rat option \<Rightarrow> jnum" where
  "number_or_column c = finite_or (case c of None \<Rightarrow> Fin 0 | Some r \<Rightarrow> num_of r) NaN"

definition checkin_status ::
  "b2c_lib \<Rightarrow> millis \<Rightarrow> collection_point \<Rightarrow> gps_checkin option \<Rightarrow> service_error + string \<times> millis option \<times> string option" where
  "checkin_status lib now point gps =
     (let lat = number_or_column (pt_lat point); lng = number_or_column (pt_lng point)
      in if \<not> is_finite_num lat \<or> \<not> is_finite_num lng then Inl (b2c_error ''COLLECTION_POINT_LOCATION_MISSING'' 422)
         else case gps of
                None \<Rightarrow> Inr (''pending'', None, None)
              | Some g \<Rightarrow>
                  (if \<not> geo_distance lib (gp_lat g) (gp_lng g) lat lng \<le> max_gps_distance then Inr (''pending'', None, None)
                   else case gp_checked g of
                          None \<Rightarrow> Inr (''received'', Some now, Some ''gps'')
                        | Some s \<Rightarrow> (case bl_date lib s of
                              None \<Rightarrow> Inl (sql_error ''22007'')
                            | Some t \<Rightarrow> Inr (''received'', Some t, Some ''gps''))))"

definition delivery_status ::
  "b2c_lib \<Rightarrow> millis \<Rightarrow> donation_request \<Rightarrow> b2c_db \<Rightarrow> service_error + string \<times> millis option \<times> string option" where
  "delivery_status lib now r db =
     (if dr_method r = ''drop_off''
      then bind_result (uuid_param lib (case dr_place r of None \<Rightarrow> [] | Some s \<Rightarrow> s)) (\<lambda>i.
             case select_one (\<lambda>p. pt_id p = i) (bb_places db) of
               None \<Rightarrow> Inl (b2c_error ''COLLECTION_POINT_NOT_FOUND'' 404)
             | Some point \<Rightarrow> if \<not> pt_active point then Inl (b2c_error ''COLLECTION_POINT_NOT_FOUND'' 404)
                            else checkin_status lib now point (dr_gps r))
      else if dr_tracking r \<noteq> None then Inr (''in_transit'', None, None)
      else Inr (''pending'', None, None))"

record computed_line =
  ci_line :: donation_line
  ci_material :: ident
  ci_points :: jnum
  ci_co2 :: jnum

text \<open>A line whose material is not among the rows under the very text of its id fails with a TypeError.\<close>

definition compute_line :: "string \<Rightarrow> material_reward list \<Rightarrow> donation_line \<Rightarrow> service_error + computed_line" where
  "compute_line category rows l =
     (case select_one (\<lambda>m. mr_id m = dl_material l) rows of
        None \<Rightarrow> Inl not_an_object
      | Some m \<Rightarrow> Inr \<lparr>ci_line = l, ci_material = mr_id m,
          ci_points = math_round (finite_or (num_of (mr_points m)) (Fin 0) * dl_weight l),
          ci_co2 = round_to (compute_donation_co2 category (finite_or (num_of (mr_co2 m)) (Fin 0)) (dl_weight l))\<rparr>)"

record donation_sums =
  sm_weight :: jnum
  sm_base :: jnum
  sm_bonus :: jnum
  sm_points :: jnum
  sm_co2 :: jnum

definition sum_nums :: "jnum list \<Rightarrow> jnum" where
  "sum_nums xs = foldl (\<lambda>s x. s + x) (Fin 0) xs"

definition donation_sums_of :: "string \<Rightarrow> computed_line list \<Rightarrow> donation_sums" where
  "donation_sums_of category lines =
     (let base = sum_nums (map ci_points lines);
          bonus = (if category = ''charity'' then math_round (base * num_of (5 / 10)) else Fin 0)
      in \<lparr>sm_weight = round_to (sum_nums (map (dl_weight \<circ> ci_line) lines)), sm_base = base, sm_bonus = bonus,
           sm_points = base + bonus, sm_co2 = round_to (sum_nums (map ci_co2 lines))\<rparr>)"

text \<open>A column \<open>NUMERIC(p, 4)\<close>. NaN, which such a column can hold, takes an infinite weight, and that is
  refused by the column of the weight.\<close>

definition amount_param :: "nat \<Rightarrow> jnum \<Rightarrow> service_error + rat" where
  "amount_param p x =
     bind_result (numeric_of_num p 4 x) (\<lambda>n. case n of Fin r \<Rightarrow> Inr r | _ \<Rightarrow> Inl (sql_error ''22003''))"

definition points_column :: "int \<Rightarrow> service_error + int" where
  "points_column n = (if - (2 ^ 31) \<le> n \<and> n < 2 ^ 31 then Inr n else Inl (sql_error ''22003''))"

definition describe_items :: "computed_line list \<Rightarrow> string" where
  "describe_items lines =
     nat_str (length lines) @ '' item(s): '' @ join '', '' (map (dl_name \<circ> ci_line) lines)"

definition new_donation ::
  "b2c_lib \<Rightarrow> millis \<Rightarrow> ident \<Rightarrow> ident \<Rightarrow> donation_request \<Rightarrow> computed_line list \<Rightarrow> string \<times> millis option \<times> string option \<Rightarrow>
   b2c_db \<Rightarrow> service_error + donation_row" where
  "new_donation lib now i user r lines state db =
     (let s = donation_sums_of (dr_category r) lines; (status, confirmed, method) = state
      in bind_result (case dr_place r of None \<Rightarrow> Inr None
                        | Some p \<Rightarrow> bind_result (uuid_param lib p) (\<lambda>k. Inr (Some k))) (\<lambda>place.
         bind_result (integer_of_num (sm_base s)) (\<lambda>base.
         bind_result (integer_of_num (sm_bonus s)) (\<lambda>bonus.
         bind_result (integer_of_num (sm_points s)) (\<lambda>points.
         bind_result (amount_param 10 (sm_weight s)) (\<lambda>weight.
         bind_result (amount_param 12 (sm_co2 s)) (\<lambda>co2.
         unless_violated [(i \<in> do_id ` set (bb_donations db), ''23505''), (user \<notin> set (bb_users db), ''23503''),
           (case place of None \<Rightarrow> False | Some p \<Rightarrow> p \<notin> pt_id ` set (bb_places db), ''23503'')]
           \<lparr>do_id = i, do_user = user, do_category = dr_category r, do_method = dr_method r, do_status = status,
            do_description = describe_items lines,
            do_material = (case lines of [l] \<Rightarrow> Some (ci_material l) | _ \<Rightarrow> None), do_estimated = weight,
            do_actual = (if status = ''received'' then Some weight else None), do_point = place, do_tracking = dr_tracking r,
            do_base = base, do_bonus = bonus, do_points = points, do_co2 = co2, do_confirmed = confirmed,
            do_confirmation = method, do_completed = None, do_disposition = None, do_note = None, do_disposed = None,
            do_created = now, do_updated = now\<rparr>)))))))"

definition item_of_line :: "ident \<Rightarrow> computed_line \<Rightarrow> service_error + donation_item" where
  "item_of_line i l =
     bind_result (amount_param 10 (dl_weight (ci_line l))) (\<lambda>w.
     bind_result (integer_of_num (ci_points l)) (\<lambda>p.
     bind_result (amount_param 12 (ci_co2 l)) (\<lambda>e.
       Inr \<lparr>it_donation = i, it_name = dl_name (ci_line l), it_type = dl_type (ci_line l),
         it_condition = dl_condition (ci_line l), it_material = ci_material l, it_weight = w, it_points = p, it_co2 = e\<rparr>)))"

section \<open>The account of a donor\<close>

definition to_amount :: "rat \<Rightarrow> service_error + rat" where
  "to_amount r = to_numeric 12 4 r"

definition credited :: "millis \<Rightarrow> donation_row \<Rightarrow> nat \<Rightarrow> reward_row \<Rightarrow> service_error + reward_row" where
  "credited now d n r =
     bind_result (points_column (rw_points r + do_points d)) (\<lambda>points.
     bind_result (points_column (rw_donations r + 1)) (\<lambda>donations.
     bind_result (points_column (rw_items r + int n)) (\<lambda>items.
     bind_result (to_amount (rw_weight r + do_estimated d)) (\<lambda>weight.
     bind_result (to_amount (rw_co2 r + do_co2 d)) (\<lambda>co2.
       Inr (r\<lparr>rw_points := points, rw_donations := donations, rw_items := items, rw_weight := weight, rw_co2 := co2,
         rw_level := level_of points, rw_updated := now\<rparr>))))))"

definition upsert_rewards :: "millis \<Rightarrow> donation_row \<Rightarrow> nat \<Rightarrow> b2c_db \<Rightarrow> service_error + b2c_db" where
  "upsert_rewards now d n db =
     (case select_one (\<lambda>r. rw_user r = do_user d) (bb_rewards db) of
        None \<Rightarrow> Inr (db\<lparr>bb_rewards := bb_rewards db @
            [\<lparr>rw_user = do_user d, rw_points = do_points d, rw_donations = 1, rw_items = int n, rw_weight = do_estimated d,
              rw_co2 = do_co2 d, rw_level = level_of (do_points d), rw_updated = now\<rparr>]\<rparr>)
      | Some r \<Rightarrow> bind_result (credited now d n r) (\<lambda>r'.
            Inr (db\<lparr>bb_rewards := update_where (\<lambda>r. rw_user r = do_user d) (\<lambda>_. r') (bb_rewards db)\<rparr>)))"

definition add_points :: "millis \<Rightarrow> donation_row \<Rightarrow> nat \<Rightarrow> b2c_db \<Rightarrow> b2c_db" where
  "add_points now d n db =
     db\<lparr>bb_points := bb_points db @
        [\<lparr>tx_user = do_user d, tx_donation = do_id d, tx_type = ''earn'', tx_points = do_points d,
          tx_description = ''Donation '' @ (if do_category d = ''charity'' then ''for charity'' else ''for recycling'')
            @ '': '' @ nat_str n @ '' item(s)'', tx_created = now\<rparr>]\<rparr>"

type_synonym 'a donating = "(service_error + 'a) \<times> b2c_db"

definition in_donating :: "(b2c_db \<Rightarrow> service_error + 'a \<times> b2c_db) \<Rightarrow> b2c_db \<Rightarrow> 'a donating" where
  "in_donating work db = (case work db of Inl e \<Rightarrow> (Inl e, db) | Inr (r, db') \<Rightarrow> (Inr r, db'))"

definition create_donation ::
  "b2c_lib \<Rightarrow> millis \<Rightarrow> ident \<Rightarrow> ident \<Rightarrow> jsval \<Rightarrow> bool \<Rightarrow> b2c_db \<Rightarrow> donation_row donating" where
  "create_donation lib now i user payload uploaded = in_donating (\<lambda>db.
     bind_result (read_donation payload uploaded) (\<lambda>r.
     bind_result (material_rows lib (dr_lines r) db) (\<lambda>rows.
     bind_result (delivery_status lib now r db) (\<lambda>state.
     bind_result (traverse (compute_line (dr_category r) rows) (dr_lines r)) (\<lambda>lines.
     bind_result (new_donation lib now i user r lines state db) (\<lambda>d.
     bind_result (traverse (item_of_line i) lines) (\<lambda>items.
     bind_result (upsert_rewards now d (length lines) (db\<lparr>bb_donations := bb_donations db @ [d], bb_items := bb_items db @ items\<rparr>)) (\<lambda>db1.
       Inr (d, add_points now d (length lines) db1)))))))))"

section \<open>The sorting centre\<close>

definition material_co2 :: "ident \<Rightarrow> b2c_db \<Rightarrow> rat" where
  "material_co2 i db = (case select_one (\<lambda>m. mr_id m = i) (bb_materials db) of None \<Rightarrow> 0 | Some m \<Rightarrow> mr_co2 m)"

definition sorted_co2 :: "string \<Rightarrow> b2c_db \<Rightarrow> donation_item \<Rightarrow> jnum" where
  "sorted_co2 disposition db t =
     round_to (disposition_co2 disposition (num_of (material_co2 (it_material t) db)) (num_of (it_weight t)))"

definition sort_item :: "string \<Rightarrow> ident \<Rightarrow> b2c_db \<Rightarrow> donation_item \<Rightarrow> service_error + donation_item" where
  "sort_item disposition i db t =
     (if it_donation t \<noteq> i then Inr t
      else bind_result (amount_param 12 (sorted_co2 disposition db t)) (\<lambda>e. Inr (t\<lparr>it_co2 := e\<rparr>)))"

text \<open>\<open>GREATEST(0, total_co2_saved + $1)\<close>, whose parameter is the text of a number.\<close>

definition adjust_co2 :: "jnum \<Rightarrow> rat \<Rightarrow> service_error + rat" where
  "adjust_co2 delta saved =
     (case decimal_text (num_str delta) of
        None \<Rightarrow> Inl (sql_error ''22003'')
      | Some v \<Rightarrow> to_amount (max 0 (saved + v)))"

definition adjust_rewards :: "millis \<Rightarrow> ident \<Rightarrow> jnum \<Rightarrow> b2c_db \<Rightarrow> service_error + b2c_db" where
  "adjust_rewards now user delta db =
     (case select_one (\<lambda>r. rw_user r = user) (bb_rewards db) of
        None \<Rightarrow> Inr db
      | Some r \<Rightarrow> bind_result (adjust_co2 delta (rw_co2 r)) (\<lambda>saved.
            Inr (db\<lparr>bb_rewards := update_where (\<lambda>r. rw_user r = user) (\<lambda>r. r\<lparr>rw_co2 := saved, rw_updated := now\<rparr>)
                  (bb_rewards db)\<rparr>)))"

definition record_disposition ::
  "millis \<Rightarrow> ident \<Rightarrow> jsval \<Rightarrow> jsval \<Rightarrow> b2c_db \<Rightarrow> (donation_row \<times> jnum) donating" where
  "record_disposition now i disposition note_text = in_donating (\<lambda>db.
     case optional_string disposition of
       None \<Rightarrow> Inl (b2c_error ''INVALID_DISPOSITION'' 422)
     | Some p \<Rightarrow>
         (if p \<notin> set dispositions then Inl (b2c_error ''INVALID_DISPOSITION'' 422)
          else case select_one (\<lambda>d. do_id d = i) (bb_donations db) of
                 None \<Rightarrow> Inl (b2c_error ''DONATION_NOT_FOUND'' 404)
               | Some d \<Rightarrow>
                   (let previous = round_to (finite_or (num_of (do_co2 d)) (Fin 0));
                        saved = round_to (sum_nums (map (sorted_co2 p db) (filter (\<lambda>t. it_donation t = i) (bb_items db))));
                        delta = round_to (saved - previous)
                    in bind_result (traverse (sort_item p i db) (bb_items db)) (\<lambda>items.
                       bind_result (amount_param 12 saved) (\<lambda>co2.
                         let d' = d\<lparr>do_disposition := Some p, do_note := optional_string note_text, do_disposed := Some now,
                               do_co2 := co2, do_status := ''completed'',
                               do_completed := (case do_completed d of Some t \<Rightarrow> Some t | None \<Rightarrow> Some now), do_updated := now\<rparr>
                         in bind_result (adjust_rewards now (do_user d) delta
                              (db\<lparr>bb_items := items, bb_donations := update_where (\<lambda>r. do_id r = i) (\<lambda>_. d') (bb_donations db)\<rparr>))
                              (\<lambda>db1. Inr ((d', delta), db1)))))))"

section \<open>Reading\<close>

fun math_trunc :: "jnum \<Rightarrow> jnum" where
  "math_trunc (Fin a) = Fin (of_int (if a < 0 then - \<lfloor>- a\<rfloor> else \<lfloor>a\<rfloor>))"
| "math_trunc x = x"

definition count_column :: "int \<Rightarrow> jnum" where
  "count_column n = math_max (Fin 0) (math_trunc (finite_or (num_of (of_int n)) (Fin 0)))"

definition amount_column :: "rat \<Rightarrow> jnum" where
  "amount_column r = round_to (finite_or (num_of r) (Fin 0))"

record donation_view =
  vw_row :: donation_row
  vw_base :: jnum
  vw_bonus :: jnum
  vw_points :: jnum
  vw_co2 :: jnum
  vw_items :: jnum
  vw_weight :: jnum
  vw_place :: "collection_point option"

definition items_of_donation :: "ident \<Rightarrow> b2c_db \<Rightarrow> donation_item list" where
  "items_of_donation i db = filter (\<lambda>t. it_donation t = i) (bb_items db)"

text \<open>\<open>mapDonationSummary\<close> of a row with the count and the weight of its items.\<close>

definition donation_summary :: "b2c_db \<Rightarrow> donation_row \<Rightarrow> donation_view" where
  "donation_summary db d =
     (let items = items_of_donation (do_id d) db
      in \<lparr>vw_row = d, vw_base = count_column (do_base d), vw_bonus = count_column (do_bonus d),
           vw_points = count_column (do_points d), vw_co2 = amount_column (do_co2 d),
           vw_items = count_column (int (length items)), vw_weight = amount_column (sum_list (map it_weight items)),
           vw_place = Option.bind (do_point d) (\<lambda>p. select_one (\<lambda>q. pt_id q = p) (bb_places db))\<rparr>)"

text \<open>The items of a donation have one time and random identifiers: their order is left open.\<close>

definition donation_item_view :: "b2c_db \<Rightarrow> donation_item \<Rightarrow> donation_item \<times> (string \<times> string) option \<times> jnum \<times> jnum \<times> jnum" where
  "donation_item_view db t =
     (t, map_option (\<lambda>m. (mr_name m, mr_category m)) (select_one (\<lambda>m. mr_id m = it_material t) (bb_materials db)),
      amount_column (it_weight t), count_column (it_points t), amount_column (it_co2 t))"

definition get_donation_by_id ::
  "ident \<Rightarrow> ident \<Rightarrow> b2c_db \<Rightarrow>
   service_error + donation_view \<times> (donation_item \<times> (string \<times> string) option \<times> jnum \<times> jnum \<times> jnum) multiset" where
  "get_donation_by_id user i db =
     (case select_one (\<lambda>d. do_id d = i \<and> do_user d = user) (bb_donations db) of
        None \<Rightarrow> Inl (b2c_error ''DONATION_NOT_FOUND'' 404)
      | Some d \<Rightarrow> Inr (donation_summary db d, mset (map (donation_item_view db) (items_of_donation i db))))"

definition list_donations :: "ident \<Rightarrow> nat \<Rightarrow> b2c_db \<Rightarrow> donation_view list" where
  "list_donations user limit db =
     map (donation_summary db) (take limit (sort_key (\<lambda>d. - do_created d) (filter (\<lambda>d. do_user d = user) (bb_donations db))))"

definition list_reward_transactions :: "ident \<Rightarrow> nat \<Rightarrow> b2c_db \<Rightarrow> (points_row \<times> jnum) list" where
  "list_reward_transactions user limit db =
     map (\<lambda>t. (t, count_column (tx_points t)))
       (take limit (sort_key (\<lambda>t. - tx_created t) (filter (\<lambda>t. tx_user t = user) (bb_points db))))"

record rewards_summary =
  ry_points :: jnum
  ry_donations :: jnum
  ry_items :: jnum
  ry_weight :: jnum
  ry_co2 :: jnum
  ry_level :: string
  ry_trees :: jnum

definition rewards_summary_of :: "reward_row option \<Rightarrow> rewards_summary" where
  "rewards_summary_of row =
     (let r = (case row of Some r \<Rightarrow> r
               | None \<Rightarrow> \<lparr>rw_user = [], rw_points = 0, rw_donations = 0, rw_items = 0, rw_weight = 0, rw_co2 = 0,
                   rw_level = ''Beginner'', rw_updated = 0\<rparr>);
          points = count_column (rw_points r); co2 = amount_column (rw_co2 r)
      in \<lparr>ry_points = points, ry_donations = count_column (rw_donations r), ry_items = count_column (rw_items r),
           ry_weight = amount_column (rw_weight r), ry_co2 = co2,
           ry_level = (if rw_level r = [] then level_of (rw_points r) else rw_level r),
           ry_trees = math_max (Fin 0) (math_round (co2 / Fin 21))\<rparr>)"

definition get_b2c_dashboard :: "ident \<Rightarrow> b2c_db \<Rightarrow> service_error + rewards_summary \<times> donation_view list" where
  "get_b2c_dashboard user db =
     (if user \<notin> set (bb_users db) then Inl (b2c_error ''USER_NOT_FOUND'' 404)
      else Inr (rewards_summary_of (select_one (\<lambda>r. rw_user r = user) (bb_rewards db)), list_donations user 5 db))"

end
