(* ===== verification/Donation_Ledger.thy ===== *)
theory Donation_Ledger
  imports Donations
begin

text \<open>
  The books of the donors. Over all runs of donations and sortings the account of a donor is the sum of
  the donations, to the last decimal although the saved emissions are computed in doubles; confirming
  the declared pathway of a donation changes nothing; and a collection point without a location is taken
  to lie at the origin.
\<close>

section \<open>Sums over the rows of a user\<close>

definition user_sum :: "('r \<Rightarrow> ident) \<Rightarrow> ('r \<Rightarrow> 'a :: comm_monoid_add) \<Rightarrow> ident \<Rightarrow> 'r list \<Rightarrow> 'a" where
  "user_sum key f u rows = sum_list (map (\<lambda>r. if key r = u then f r else 0) rows)"

lemma user_sum_append [simp]: "user_sum key f u (rows @ qs) = user_sum key f u rows + user_sum key f u qs"
  by (simp add: user_sum_def)

lemma user_sum_one [simp]: "user_sum key f u [r] = (if key r = u then f r else 0)" "user_sum key f u [] = 0"
  by (simp_all add: user_sum_def)

lemma user_sum_none: "u \<notin> key ` set rows \<Longrightarrow> user_sum key f u rows = 0"
  by (induction rows) (auto simp: user_sum_def)

lemma user_sum_cong: "(\<And>r. r \<in> set rows \<Longrightarrow> f r = g r) \<Longrightarrow> user_sum key f u rows = user_sum key g u rows"
  unfolding user_sum_def by (rule arg_cong [where f = sum_list], rule map_cong) auto

text \<open>Replacing the row of an identifier.\<close>

lemma sum_list_replace:
  fixes f :: "'r \<Rightarrow> 'a :: ab_group_add"
  assumes "distinct (map k rows)" and "s \<in> set rows"
  shows "sum_list (map f (update_where (\<lambda>r. k r = k s) (\<lambda>_. s') rows)) = sum_list (map f rows) - f s + f s'"
  using assms
proof (induction rows)
  case (Cons r rows)
  show ?case
  proof (cases "r = s")
    case True
    have "update_where (\<lambda>r. k r = k s) (\<lambda>_. s') rows = rows"
      using Cons.prems True by (auto simp: update_where_def image_iff intro!: map_idI)
    then show ?thesis using True by (simp add: update_where_def)
  next
    case False
    then have "s \<in> set rows" "k r \<noteq> k s" using Cons.prems by auto
    with Cons show ?thesis by (simp add: update_where_def algebra_simps)
  qed
qed simp

lemma user_sum_replace:
  fixes f :: "'r \<Rightarrow> 'a :: ab_group_add"
  assumes "distinct (map k rows)" and "s \<in> set rows" and "key s' = key s"
  shows "user_sum key f u (update_where (\<lambda>r. k r = k s) (\<lambda>_. s') rows)
    = user_sum key f u rows + (if key s = u then f s' - f s else 0)"
  using sum_list_replace [OF assms(1,2), of "\<lambda>r. if key r = u then f r else 0" s'] assms(3) by (simp add: user_sum_def)

section \<open>Amounts of four decimals\<close>

definition is_amount :: "rat \<Rightarrow> bool" where
  "is_amount x \<longleftrightarrow> (\<exists>m. x = fourth m \<and> 0 \<le> m \<and> m < 10 ^ 12)"

definition is_decimal :: "rat \<Rightarrow> bool" where
  "is_decimal x \<longleftrightarrow> (\<exists>m. x = fourth m)"

lemma fourth_add: "fourth a + fourth b = fourth (a + b)" "fourth a - fourth b = fourth (a - b)" "fourth 0 = 0"
  by (simp_all add: fourth_def add_divide_distrib diff_divide_distrib)

lemma is_decimal_add: "is_decimal x \<Longrightarrow> is_decimal y \<Longrightarrow> is_decimal (x + y)" "is_decimal 0"
  unfolding is_decimal_def by (metis fourth_add(1)) (metis fourth_add(3))

lemma user_sum_decimal: "(\<And>r. r \<in> set rows \<Longrightarrow> is_decimal (f r)) \<Longrightarrow> is_decimal (user_sum key f u rows)"
  by (induction rows) (auto simp: user_sum_def is_decimal_add)

lemma round_scale_decimal: "is_decimal (round_scale 4 x)"
proof -
  let ?n = "\<lfloor>\<bar>x\<bar> * 10 ^ 4 + 1 / 2\<rfloor>"
  have "round_scale 4 x = fourth (if x < 0 then - ?n else ?n)" by (simp add: round_scale_def Let_def fourth_def)
  then show ?thesis unfolding is_decimal_def by blast
qed

lemma round_scale_fourth: "round_scale 4 (fourth m) = fourth m"
  by (rule round_scale_exact [of _ _ m]) (simp add: fourth_def)

lemma amount_param_Inr: "amount_param p x = Inr r \<longleftrightarrow> numeric_of_num p 4 x = Inr (Fin r)"
proof (cases "numeric_of_num p 4 x")
  case (Inr n)
  then show ?thesis by (cases n) (simp_all add: amount_param_def)
qed (simp add: amount_param_def)

lemma amount_param_decimal:
  assumes "amount_param p x = Inr r"
  shows "is_decimal r"
proof -
  obtain v where "r = round_scale 4 v"
    using assms by (auto simp: amount_param_Inr numeric_of_num_def split: option.splits if_splits)
  then show ?thesis by (simp add: round_scale_decimal)
qed

lemma to_amount_decimal: "is_decimal x \<Longrightarrow> to_amount x = Inr r \<Longrightarrow> r = x"
  by (auto simp: to_amount_def is_decimal_def round_scale_fourth)

text \<open>What \<open>roundTo\<close> gives, where a column takes it.\<close>

lemma rounded_amount:
  assumes "amount_param p (round_to x) = Inr r" and "p \<le> 12"
  obtains m where "round_to x = Fin (fl64 (fourth m))" "r = fourth m" "\<bar>m\<bar> < 10 ^ 12"
proof -
  obtain z where z: "round_to x = Fin z"
  proof (cases "round_to x")
    case PInf
    have "decimal_text (num_str PInf) = None" by code_simp
    with PInf assms(1) show thesis by (simp add: amount_param_def numeric_of_num_def)
  next
    case NInf
    have "decimal_text (num_str NInf) = None" by code_simp
    with NInf assms(1) show thesis by (simp add: amount_param_def numeric_of_num_def)
  next
    case NaN
    with assms(1) show thesis by (simp add: amount_param_def numeric_of_num_def)
  qed (rule that)
  obtain m where m: "z = fl64 (fourth m)" "\<bar>z\<bar> \<le> max_double" by (rule round_to_fourth [OF z])
  have n: "numeric_of_num p 4 (Fin z) = Inr (Fin r)" using assms(1) z by (simp add: amount_param_Inr)
  from fourth_stored [OF n [unfolded m(1)] assms(2)] m z that show thesis by simp
qed

lemma fourth_sign: "0 \<le> fl64 (fourth m) \<Longrightarrow> \<bar>m\<bar> < 10 ^ 12 \<Longrightarrow> 0 \<le> m"
proof (rule ccontr)
  assume a: "0 \<le> fl64 (fourth m)" "\<bar>m\<bar> < 10 ^ 12" "\<not> 0 \<le> m"
  then have "of_int m \<le> (of_int (- 1) :: rat)" unfolding of_int_le_iff by simp
  then have "fourth m \<le> - 1 / 10000" by (simp add: fourth_def)
  moreover have "\<bar>fl64 (fourth m) - fourth m\<bar> \<le> 1 / 67108864" by (rule fourth_double_error) (use a(2) in simp)
  ultimately show False using a(1) by linarith
qed

lemma rounded_amount_nonneg:
  assumes "amount_param 12 (round_to x) = Inr r" and "not_negative x"
  obtains m where "round_to x = Fin (fl64 (fourth m))" "r = fourth m" "0 \<le> m" "m < 10 ^ 12"
proof -
  obtain m where m: "round_to x = Fin (fl64 (fourth m))" "r = fourth m" "\<bar>m\<bar> < 10 ^ 12"
    by (rule rounded_amount [OF assms(1)]) simp_all
  have "not_negative (round_to x)"
    unfolding round_to_def by (intro num_intros assms(2)) simp_all
  with m have "0 \<le> m" using fourth_sign by simp
  with m that show thesis by simp
qed

lemma round_to_double:
  assumes "\<bar>m\<bar> < 10 ^ 12"
  shows "round_to (finite_or (num_of (fourth m)) x) = Fin (fl64 (fourth m))"
proof -
  have m: "\<bar>m\<bar> \<le> 2 * 10 ^ 12" using assms by simp
  have "\<bar>fl64 (fourth m) - fourth m\<bar> < 1 / 40000" using fourth_double_error [OF m] by linarith
  then have "\<bar>fl64 (fourth m) - fourth m\<bar> * 10000 < 1 / 4" by simp
  from round_to_near [OF this m] show ?thesis by (simp add: fourth_num [OF m] finite_or_def)
qed

text \<open>The correction of an account is exact.\<close>

lemma adjust_exact:
  assumes "adjust_co2 (round_to (Fin (fl64 (fourth b)) - Fin (fl64 (fourth a)))) (fourth t) = Inr r"
    and "0 \<le> a" and "a < 10 ^ 12" and "0 \<le> b" and "b < 10 ^ 12" and "a \<le> t"
  shows "r = fourth (t + b - a)"
proof -
  have ab: "\<bar>a\<bar> \<le> 10 ^ 12" "\<bar>b\<bar> \<le> 10 ^ 12" "\<bar>b - a\<bar> \<le> 2 * 10 ^ 12" using assms by simp_all
  obtain v where v: "decimal_text (num_str (Fin (fl64 (fourth (b - a))))) = Some v" "\<bar>v - fourth (b - a)\<bar> * 10000 < 1 / 4"
    by (rule text_fourth [OF ab(3)])
  have r: "r = round_scale 4 (max 0 (fourth t + v))"
    using assms(1) v(1) unfolding round_to_diff [OF ab(2,1)] by (simp add: adjust_co2_def to_amount_def del: num_str.simps)
  have "0 \<le> (of_int (t + b - a) :: rat)" unfolding of_int_0_le_iff using assms by simp
  then have pos: "0 \<le> fourth (t + b - a)" by (simp add: fourth_def)
  have "fourth (t + b - a) = fourth t + fourth (b - a)" by (simp add: fourth_add add_diff_eq)
  moreover have "\<bar>v - fourth (b - a)\<bar> < 1 / 40000" using v(2) by simp
  ultimately have "\<bar>max 0 (fourth t + v) - fourth (t + b - a)\<bar> < 1 / 40000" using pos by (auto simp: max_def)
  then have "\<bar>max 0 (fourth t + v) - fourth (t + b - a)\<bar> * 10000 < 1 / 2" by simp
  moreover have "of_int (t + b - a) = fourth (t + b - a) * 10000" by (simp add: fourth_def)
  then have "\<bar>max 0 (fourth t + v) * 10 ^ 4 - of_int (t + b - a)\<bar> = \<bar>(max 0 (fourth t + v) - fourth (t + b - a)) * 10000\<bar>"
    by (simp only: left_diff_distrib) simp
  ultimately have "\<bar>max 0 (fourth t + v) * 10 ^ 4 - of_int (t + b - a)\<bar> < 1 / 2" by (simp only: abs_mult abs_numeral)
  from round_scale_near [OF this] show ?thesis unfolding r by (simp add: fourth_def)
qed

section \<open>The books\<close>

definition account_ok :: "b2c_db \<Rightarrow> reward_row \<Rightarrow> bool" where
  "account_ok db r \<longleftrightarrow>
     rw_points r = user_sum do_user do_points (rw_user r) (bb_donations db)
     \<and> rw_points r = user_sum tx_user tx_points (rw_user r) (bb_points db)
     \<and> rw_donations r = user_sum do_user (\<lambda>_. 1) (rw_user r) (bb_donations db)
     \<and> rw_items r = user_sum do_user (\<lambda>d. int (length (items_of_donation (do_id d) db))) (rw_user r) (bb_donations db)
     \<and> rw_weight r = user_sum do_user do_estimated (rw_user r) (bb_donations db)
     \<and> rw_co2 r = user_sum do_user do_co2 (rw_user r) (bb_donations db)
     \<and> rw_level r = level_of (rw_points r)"

definition ledger_ok :: "b2c_db \<Rightarrow> bool" where
  "ledger_ok db \<longleftrightarrow>
     distinct (map do_id (bb_donations db)) \<and> distinct (map rw_user (bb_rewards db))
     \<and> (\<forall>t \<in> set (bb_items db). it_donation t \<in> do_id ` set (bb_donations db))
     \<and> (\<forall>d \<in> set (bb_donations db). is_amount (do_co2 d) \<and> is_decimal (do_estimated d) \<and> do_user d \<in> rw_user ` set (bb_rewards db))
     \<and> (\<forall>t \<in> set (bb_points db). tx_user t \<in> rw_user ` set (bb_rewards db))
     \<and> (\<forall>r \<in> set (bb_rewards db). account_ok db r)"

definition materials_ok :: "b2c_db \<Rightarrow> bool" where
  "materials_ok db \<longleftrightarrow> (\<forall>m \<in> set (bb_materials db). 0 \<le> mr_co2 m)"

lemma in_donating_Inr: "in_donating work db = (Inr a, db') \<longleftrightarrow> work db = Inr (a, db')"
  by (auto simp: in_donating_def split: sum.splits)

lemma in_donating_cases: "snd (in_donating work db) = db \<or> (\<exists>a. work db = Inr (a, snd (in_donating work db)))"
  by (auto simp: in_donating_def split: sum.splits)

lemma in_donating_Inl: "in_donating work db = (Inl e, db') \<Longrightarrow> db' = db"
  by (auto simp: in_donating_def split: sum.splits)

lemma traverse_from: "traverse f xs = Inr ys \<Longrightarrow> y \<in> set ys \<Longrightarrow> \<exists>x \<in> set xs. f x = Inr y"
  by (induction xs arbitrary: ys) auto

text \<open>A donation as it is stored.\<close>

lemma not_negative_finite_or: "not_negative x \<Longrightarrow> not_negative (finite_or x (Fin 0))"
  by (simp add: finite_or_def)

lemma not_negative_donation_co2: "not_negative ef \<Longrightarrow> not_negative w \<Longrightarrow> not_negative (compute_donation_co2 category ef w)"
  unfolding compute_donation_co2_def Let_def reuse_displacement_def recycle_net_ef_def
  by (simp add: not_negative_finite_or not_negative_mul num_of_nonneg)

lemma not_negative_disposition_co2:
  assumes "not_negative ef"
  shows "not_negative (disposition_co2 p ef w)"
proof (cases "Fin 0 < finite_or w (Fin 0)")
  case True
  then have "not_negative (finite_or w (Fin 0))" by (cases "finite_or w (Fin 0)") (simp_all add: num_simps)
  with assms show ?thesis
    unfolding disposition_co2_def Let_def reuse_displacement_def recycle_net_ef_def
    by (simp add: not_negative_finite_or not_negative_mul num_of_nonneg)
qed (simp add: disposition_co2_def Let_def)

lemma not_negative_round_to [num_intros]: "not_negative x \<Longrightarrow> not_negative (round_to x)"
  unfolding round_to_def by (intro num_intros) simp_all

lemma not_negative_sum_nums: "list_all not_negative xs \<Longrightarrow> not_negative (sum_nums xs)"
  unfolding sum_nums_def using not_negative_foldl_add [of "Fin 0" xs "\<lambda>x. x"] by (simp add: list_all_iff)

lemma normalize_line_weight: "normalize_line v = Inr l \<Longrightarrow> not_negative (dl_weight l)"
proof -
  assume a: "normalize_line v = Inr l"
  then obtain w where "\<not> w \<le> Fin 0" "dl_weight l = round_to w" "is_finite_num w"
    by (auto simp: normalize_line_def Let_def split: option.splits if_splits)
  then show ?thesis by (cases w) (auto simp: num_simps intro: not_negative_round_to)
qed

lemma compute_line_nonneg:
  assumes "compute_line category rows l = Inr x" and "\<forall>m \<in> set rows. 0 \<le> mr_co2 m" and "not_negative (dl_weight l)"
  shows "not_negative (ci_co2 x)"
proof -
  obtain m where m: "select_one (\<lambda>m. mr_id m = dl_material l) rows = Some m"
    "ci_co2 x = round_to (compute_donation_co2 category (finite_or (num_of (mr_co2 m)) (Fin 0)) (dl_weight l))"
    using assms(1) by (auto simp: compute_line_def split: option.splits)
  have "0 \<le> mr_co2 m" using assms(2) select_one_Some [OF m(1)] by blast
  then show ?thesis unfolding m(2)
    by (intro not_negative_round_to not_negative_donation_co2 not_negative_finite_or num_of_nonneg assms(3))
qed

lemma material_rows_subset: "material_rows lib lines db = Inr rows \<Longrightarrow> set rows \<subseteq> set (bb_materials db)"
  by (auto simp: material_rows_def Let_def split: if_splits)

lemma create_donation_Inr:
  assumes "create_donation lib now i user payload uploaded db = (Inr d, db')"
  obtains r rows state lines items db1 where
    "read_donation payload uploaded = Inr r" "material_rows lib (dr_lines r) db = Inr rows"
    "traverse (compute_line (dr_category r) rows) (dr_lines r) = Inr lines"
    "new_donation lib now i user r lines state db = Inr d" "traverse (item_of_line i) lines = Inr items"
    "upsert_rewards now d (length lines) (db\<lparr>bb_donations := bb_donations db @ [d], bb_items := bb_items db @ items\<rparr>) = Inr db1"
    "db' = add_points now d (length lines) db1"
  using assms unfolding create_donation_def in_donating_Inr by auto

lemma new_donation_Inr:
  assumes "new_donation lib now i user r lines state db = Inr d"
  shows "do_id d = i" "do_user d = user" "i \<notin> do_id ` set (bb_donations db)" "do_category d = dr_category r"
    "amount_param 12 (sm_co2 (donation_sums_of (dr_category r) lines)) = Inr (do_co2 d)"
    "amount_param 10 (sm_weight (donation_sums_of (dr_category r) lines)) = Inr (do_estimated d)"
  using assms by (auto simp: new_donation_def Let_def split: prod.splits)

lemma read_donation_lines:
  assumes "read_donation payload uploaded = Inr r" and "l \<in> set (dr_lines r)"
  shows "not_negative (dl_weight l)"
proof -
  obtain category delivery where "read_items category delivery payload = Inr r"
    using assms(1) by (auto simp: read_donation_def split: if_splits)
  then obtain items where "traverse normalize_line items = Inr (dr_lines r)"
    unfolding read_items_def Let_def by (auto split: if_splits)
  from traverse_from [OF this assms(2)] normalize_line_weight show ?thesis by blast
qed

lemma donation_amounts:
  assumes "read_donation payload uploaded = Inr r" and "material_rows lib (dr_lines r) db = Inr rows" and "materials_ok db"
    and "traverse (compute_line (dr_category r) rows) (dr_lines r) = Inr lines" and "new_donation lib now i user r lines state db = Inr d"
  shows "is_amount (do_co2 d)" and "is_decimal (do_estimated d)"
proof -
  have "\<forall>m \<in> set rows. 0 \<le> mr_co2 m" using material_rows_subset [OF assms(2)] assms(3) by (auto simp: materials_ok_def)
  then have "not_negative (ci_co2 x)" if "x \<in> set lines" for x
    using traverse_from [OF assms(4) that] compute_line_nonneg read_donation_lines [OF assms(1)] by blast
  then have "not_negative (sum_nums (map ci_co2 lines))" by (intro not_negative_sum_nums) (simp add: list_all_iff)
  moreover have "amount_param 12 (round_to (sum_nums (map ci_co2 lines))) = Inr (do_co2 d)"
    using new_donation_Inr(5) [OF assms(5)] by (simp add: donation_sums_of_def Let_def)
  ultimately obtain m where "do_co2 d = fourth m" "0 \<le> m" "m < 10 ^ 12" using rounded_amount_nonneg by blast
  then show "is_amount (do_co2 d)" unfolding is_amount_def by blast
  show "is_decimal (do_estimated d)" by (rule amount_param_decimal [OF new_donation_Inr(6) [OF assms(5)]])
qed

text \<open>The sums of a user after a donation.\<close>

definition with_donation :: "donation_row \<Rightarrow> donation_item list \<Rightarrow> points_row \<Rightarrow> reward_row list \<Rightarrow> b2c_db \<Rightarrow> b2c_db" where
  "with_donation d items x rewards db =
     db\<lparr>bb_donations := bb_donations db @ [d], bb_items := bb_items db @ items, bb_rewards := rewards,
        bb_points := bb_points db @ [x]\<rparr>"

definition item_count :: "b2c_db \<Rightarrow> ident \<Rightarrow> int" where
  "item_count db u = user_sum do_user (\<lambda>d. int (length (items_of_donation (do_id d) db))) u (bb_donations db)"

lemma item_count_after:
  assumes "ledger_ok db" and "do_id d \<notin> do_id ` set (bb_donations db)" and "\<And>t. t \<in> set items \<Longrightarrow> it_donation t = do_id d"
  shows "item_count (with_donation d items x rewards db) u = item_count db u + (if do_user d = u then int (length items) else 0)"
proof -
  let ?db = "with_donation d items x rewards db"
  have old: "items_of_donation (do_id e) ?db = items_of_donation (do_id e) db" if "e \<in> set (bb_donations db)" for e
  proof -
    have "do_id e \<noteq> do_id d" using assms(2) that by (metis imageI)
    then have "filter (\<lambda>t. it_donation t = do_id e) items = []" using assms(3) by (auto simp: filter_empty_conv)
    then show ?thesis by (simp add: items_of_donation_def with_donation_def)
  qed
  have "it_donation t \<noteq> do_id d" if "t \<in> set (bb_items db)" for t using assms(1,2) that unfolding ledger_ok_def by metis
  then have none: "filter (\<lambda>t. it_donation t = do_id d) (bb_items db) = []" by (auto simp: filter_empty_conv)
  have "filter (\<lambda>t. it_donation t = do_id d) items = items" using assms(3) by (simp add: filter_id_conv)
  with none have new: "items_of_donation (do_id d) ?db = items" by (simp add: items_of_donation_def with_donation_def)
  have "user_sum do_user (\<lambda>e. int (length (items_of_donation (do_id e) ?db))) u (bb_donations db) = item_count db u"
    unfolding item_count_def by (rule user_sum_cong) (simp add: old)
  moreover have "bb_donations ?db = bb_donations db @ [d]" by (simp add: with_donation_def)
  ultimately show ?thesis by (simp add: item_count_def new)
qed

lemma account_alt: "account_ok db r \<longleftrightarrow>
     rw_points r = user_sum do_user do_points (rw_user r) (bb_donations db)
     \<and> rw_points r = user_sum tx_user tx_points (rw_user r) (bb_points db)
     \<and> rw_donations r = user_sum do_user (\<lambda>_. 1) (rw_user r) (bb_donations db)
     \<and> rw_items r = item_count db (rw_user r)
     \<and> rw_weight r = user_sum do_user do_estimated (rw_user r) (bb_donations db)
     \<and> rw_co2 r = user_sum do_user do_co2 (rw_user r) (bb_donations db)
     \<and> rw_level r = level_of (rw_points r)"
  by (simp add: account_ok_def item_count_def)

lemma amount_decimal: "is_amount x \<Longrightarrow> is_decimal x"
  by (auto simp: is_amount_def is_decimal_def)

lemma account_decimal:
  assumes "ledger_ok db" and "r \<in> set (bb_rewards db)"
  shows "is_decimal (rw_weight r)" and "is_decimal (rw_co2 r)"
proof -
  have a: "account_ok db r" using assms by (simp add: ledger_ok_def)
  have "\<forall>d \<in> set (bb_donations db). is_amount (do_co2 d) \<and> is_decimal (do_estimated d)" using assms(1) by (simp add: ledger_ok_def)
  then show "is_decimal (rw_weight r)" "is_decimal (rw_co2 r)"
    using a by (auto simp: account_ok_def amount_decimal intro!: user_sum_decimal)
qed

lemma ledger_with_donation:
  assumes "ledger_ok db" and "do_id d \<notin> do_id ` set (bb_donations db)" and "\<And>t. t \<in> set items \<Longrightarrow> it_donation t = do_id d"
    and "is_amount (do_co2 d)" and "is_decimal (do_estimated d)" and "tx_user x = do_user d" and "tx_points x = do_points d"
    and "distinct (map rw_user rewards)" and "do_user d \<in> rw_user ` set rewards" and "rw_user ` set (bb_rewards db) \<subseteq> rw_user ` set rewards"
    and rows: "\<And>r. r \<in> set rewards \<Longrightarrow> rw_user r \<noteq> do_user d \<Longrightarrow> r \<in> set (bb_rewards db)"
    and mine: "\<And>r. r \<in> set rewards \<Longrightarrow> rw_user r = do_user d \<Longrightarrow> account_ok (with_donation d items x rewards db) r"
  shows "ledger_ok (with_donation d items x rewards db)"
proof -
  let ?db = "with_donation d items x rewards db"
  have f: "bb_donations ?db = bb_donations db @ [d]" "bb_items ?db = bb_items db @ items" "bb_rewards ?db = rewards"
    "bb_points ?db = bb_points db @ [x]" by (simp_all add: with_donation_def)
  have "account_ok ?db r" if "r \<in> set rewards" for r
  proof (cases "rw_user r = do_user d")
    case False
    with rows that have "r \<in> set (bb_rewards db)" by blast
    then have "account_ok db r" using assms(1) by (simp add: ledger_ok_def)
    with False show ?thesis using item_count_after [OF assms(1,2), of items x rewards "rw_user r"] assms(3,6)
      by (auto simp: account_alt f)
  qed (use mine that in blast)
  with assms show ?thesis unfolding ledger_ok_def f by (auto simp: subset_iff image_iff) 
qed

lemma item_of_line_donation: "item_of_line i l = Inr t \<Longrightarrow> it_donation t = i"
  by (auto simp: item_of_line_def)

lemma fresh_user_sums:
  assumes "ledger_ok db" and "u \<notin> rw_user ` set (bb_rewards db)"
  shows "u \<notin> do_user ` set (bb_donations db)" and "u \<notin> tx_user ` set (bb_points db)"
  using assms unfolding ledger_ok_def by (metis imageE)+

lemma create_donation_ledger:
  assumes "ledger_ok db" and "materials_ok db" and "create_donation lib now i user payload uploaded db = (Inr d, db')"
  shows "ledger_ok db'" and "do_id d = i" and "bb_materials db' = bb_materials db"
proof -
  obtain r rows state lines items db1 where c: "read_donation payload uploaded = Inr r" "material_rows lib (dr_lines r) db = Inr rows"
    "traverse (compute_line (dr_category r) rows) (dr_lines r) = Inr lines" "new_donation lib now i user r lines state db = Inr d"
    "traverse (item_of_line i) lines = Inr items"
    "upsert_rewards now d (length lines) (db\<lparr>bb_donations := bb_donations db @ [d], bb_items := bb_items db @ items\<rparr>) = Inr db1"
    "db' = add_points now d (length lines) db1"
    by (rule create_donation_Inr [OF assms(3)])
  note n = new_donation_Inr [OF c(4)] and a = donation_amounts [OF c(1,2) assms(2) c(3,4)]
  define x where "x = \<lparr>tx_user = do_user d, tx_donation = do_id d, tx_type = ''earn'', tx_points = do_points d,
          tx_description = ''Donation '' @ (if do_category d = ''charity'' then ''for charity'' else ''for recycling'')
            @ '': '' @ nat_str (length lines) @ '' item(s)'', tx_created = now\<rparr>"
  have x: "tx_user x = do_user d" "tx_points x = do_points d" by (simp_all add: x_def)
  have add: "add_points now d (length lines) b = b\<lparr>bb_points := bb_points b @ [x]\<rparr>" for b
    unfolding add_points_def x_def ..
  have len: "length items = length lines" by (rule traverse_length [OF c(5)])
  have its: "it_donation t = do_id d" if "t \<in> set items" for t
    using traverse_from [OF c(5) that] item_of_line_donation n(1) by blast
  have fresh: "do_id d \<notin> do_id ` set (bb_donations db)" using n(1,3) by simp
  have count: "item_count (with_donation d items x rewards db) (do_user d) = item_count db (do_user d) + int (length lines)" for rewards
    using item_count_after [OF assms(1) fresh, of items x rewards] its len by simp
  have f: "bb_donations (with_donation d items x rewards db) = bb_donations db @ [d]"
    "bb_points (with_donation d items x rewards db) = bb_points db @ [x]" for rewards by (simp_all add: with_donation_def)
  have "ledger_ok db' \<and> bb_materials db' = bb_materials db"
  proof (cases "select_one (\<lambda>r. rw_user r = do_user d) (bb_rewards db)")
    case None
    then have new: "do_user d \<notin> rw_user ` set (bb_rewards db)" by (auto simp: select_one_None)
    define r1 where "r1 = \<lparr>rw_user = do_user d, rw_points = do_points d, rw_donations = 1, rw_items = int (length lines),
        rw_weight = do_estimated d, rw_co2 = do_co2 d, rw_level = level_of (do_points d), rw_updated = now\<rparr>"
    have db': "db' = with_donation d items x (bb_rewards db @ [r1]) db"
      using c(6) None unfolding c(7) add by (auto simp: upsert_rewards_def with_donation_def r1_def)
    note zero = user_sum_none [OF fresh_user_sums(1) [OF assms(1) new]] user_sum_none [OF fresh_user_sums(2) [OF assms(1) new]]
    have "account_ok (with_donation d items x (bb_rewards db @ [r1]) db) r1"
      by (simp add: account_alt r1_def f zero x count) (simp add: item_count_def zero)
    moreover have u1: "rw_user r1 = do_user d" by (simp add: r1_def)
    moreover have "rw_user r \<noteq> do_user d" if "r \<in> set (bb_rewards db)" for r using new that by (metis imageI)
    ultimately have "ledger_ok (with_donation d items x (bb_rewards db @ [r1]) db)"
      using new assms(1) by (intro ledger_with_donation [OF assms(1) fresh its a x]) (auto simp: ledger_ok_def)
    then show ?thesis unfolding db' by (simp add: with_donation_def)
  next
    case (Some r0)
    obtain r1 where r1: "credited now d (length lines) r0 = Inr r1"
      "db1 = db\<lparr>bb_donations := bb_donations db @ [d], bb_items := bb_items db @ items,
         bb_rewards := update_where (\<lambda>r. rw_user r = do_user d) (\<lambda>_. r1) (bb_rewards db)\<rparr>"
      using c(6) Some by (auto simp: upsert_rewards_def)
    let ?rewards = "update_where (\<lambda>r. rw_user r = do_user d) (\<lambda>_. r1) (bb_rewards db)"
    have db': "db' = with_donation d items x ?rewards db"
      unfolding c(7) add using r1(2) by (simp add: with_donation_def)
    have r0: "rw_user r0 = do_user d" "r0 \<in> set (bb_rewards db)" using select_one_Some [OF Some] by simp_all
    then have old: "account_ok db r0" using assms(1) by (simp add: ledger_ok_def)
    have v: "rw_user r1 = do_user d" "rw_points r1 = rw_points r0 + do_points d" "rw_donations r1 = rw_donations r0 + 1"
      "rw_items r1 = rw_items r0 + int (length lines)" "rw_level r1 = level_of (rw_points r1)"
      "to_amount (rw_weight r0 + do_estimated d) = Inr (rw_weight r1)" "to_amount (rw_co2 r0 + do_co2 d) = Inr (rw_co2 r1)"
      using r1(1) r0(1) by (auto simp: credited_def points_column_def split: if_splits)
    have w: "rw_weight r1 = rw_weight r0 + do_estimated d" "rw_co2 r1 = rw_co2 r0 + do_co2 d"
      using v(6,7) account_decimal [OF assms(1) r0(2)] a amount_decimal by (auto intro!: to_amount_decimal is_decimal_add)
    have ok: "account_ok (with_donation d items x ?rewards db) r1"
      using old by (simp add: account_alt v(1-5) w f x count r0(1))
    have users: "map rw_user ?rewards = map rw_user (bb_rewards db)" using v(1) by (auto simp: update_where_def)
    then have users_set: "rw_user ` set ?rewards = rw_user ` set (bb_rewards db)" by (metis set_map)
    have "ledger_ok (with_donation d items x ?rewards db)"
    proof (rule ledger_with_donation [OF assms(1) fresh its a x])
      show "distinct (map rw_user ?rewards)" using users assms(1) by (simp add: ledger_ok_def)
      show "do_user d \<in> rw_user ` set ?rewards" "rw_user ` set (bb_rewards db) \<subseteq> rw_user ` set ?rewards"
        unfolding users_set using r0 by (metis imageI) simp
      fix r
      assume r: "r \<in> set ?rewards"
      then show "rw_user r \<noteq> do_user d \<Longrightarrow> r \<in> set (bb_rewards db)" using v(1) by (auto simp: update_where_def split: if_splits)
      assume "rw_user r = do_user d"
      with r have "r = r1" by (auto simp: update_where_def split: if_splits)
      with ok show "account_ok (with_donation d items x ?rewards db) r" by simp
    qed
    then show ?thesis unfolding db' by (simp add: with_donation_def)
  qed
  then show "ledger_ok db'" "bb_materials db' = bb_materials db" by simp_all
  show "do_id d = i" by (rule n(1))
qed

text \<open>Sorting a donation.\<close>

lemma record_disposition_Inr:
  assumes "record_disposition now i disposition note_text db = (Inr (d', delta), db')"
  obtains p d items co2 where
    "optional_string disposition = Some p" "p \<in> set dispositions" "select_one (\<lambda>d. do_id d = i) (bb_donations db) = Some d"
    "traverse (sort_item p i db) (bb_items db) = Inr items"
    "amount_param 12 (round_to (sum_nums (map (sorted_co2 p db) (items_of_donation i db)))) = Inr co2"
    "delta = round_to (round_to (sum_nums (map (sorted_co2 p db) (items_of_donation i db)))
        - round_to (finite_or (num_of (do_co2 d)) (Fin 0)))"
    "d' = d\<lparr>do_disposition := Some p, do_note := optional_string note_text, do_disposed := Some now,
        do_co2 := co2, do_status := ''completed'',
        do_completed := (case do_completed d of Some t \<Rightarrow> Some t | None \<Rightarrow> Some now), do_updated := now\<rparr>"
    "adjust_rewards now (do_user d) delta
        (db\<lparr>bb_items := items, bb_donations := update_where (\<lambda>r. do_id r = i) (\<lambda>_. d') (bb_donations db)\<rparr>) = Inr db'"
proof -
  obtain p where p: "optional_string disposition = Some p" "p \<in> set dispositions"
    using assms unfolding record_disposition_def in_donating_Inr by (cases "optional_string disposition") (simp_all split: if_splits)
  obtain d where d: "select_one (\<lambda>d. do_id d = i) (bb_donations db) = Some d"
    using assms p unfolding record_disposition_def in_donating_Inr
    by (cases "select_one (\<lambda>d. do_id d = i) (bb_donations db)") simp_all
  define saved where "saved = round_to (sum_nums (map (sorted_co2 p db) (items_of_donation i db)))"
  define diff where "diff = round_to (saved - round_to (finite_or (num_of (do_co2 d)) (Fin 0)))"
  have "bind_result (traverse (sort_item p i db) (bb_items db)) (\<lambda>items.
      bind_result (amount_param 12 saved) (\<lambda>co2.
        let d' = d\<lparr>do_disposition := Some p, do_note := optional_string note_text, do_disposed := Some now,
              do_co2 := co2, do_status := ''completed'',
              do_completed := (case do_completed d of Some t \<Rightarrow> Some t | None \<Rightarrow> Some now), do_updated := now\<rparr>
        in bind_result (adjust_rewards now (do_user d) diff
             (db\<lparr>bb_items := items, bb_donations := update_where (\<lambda>r. do_id r = i) (\<lambda>_. d') (bb_donations db)\<rparr>))
             (\<lambda>db1. Inr ((d', diff), db1)))) = Inr ((d', delta), db')"
    using assms unfolding record_disposition_def in_donating_Inr
    by (simp only: p d option.case if_True if_False not_True_eq_False not_not saved_def diff_def items_of_donation_def Let_def)
  then show thesis using that [OF p d] unfolding saved_def [symmetric] by (auto simp: Let_def diff_def)
qed

lemma sort_item_frame: "sort_item p i db t = Inr t' \<Longrightarrow> it_donation t' = it_donation t"
  by (auto simp: sort_item_def split: if_splits)

lemma sorted_items_count:
  assumes "traverse (sort_item p i db) ts = Inr us"
  shows "map it_donation us = map it_donation ts"
  using assms by (induction ts arbitrary: us) (auto dest: sort_item_frame)

lemma filter_length_map: "map f xs = map f ys \<Longrightarrow> length (filter (\<lambda>x. f x = a) xs) = length (filter (\<lambda>y. f y = a) ys)"
  by (drule arg_cong [where f = "\<lambda>zs. length (filter (\<lambda>z. z = a) zs)"]) (simp add: filter_map comp_def)

lemma sorted_co2_nonneg: "materials_ok db \<Longrightarrow> not_negative (sorted_co2 p db t)"
  unfolding sorted_co2_def
  by (intro not_negative_round_to not_negative_disposition_co2 num_of_nonneg)
    (auto simp: material_co2_def materials_ok_def split: option.split dest: select_one_Some)

lemma user_sum_amounts:
  assumes "\<forall>r \<in> set rows. is_amount (f r)"
  obtains t where "user_sum key f u rows = fourth t" "0 \<le> t" "\<And>r a. r \<in> set rows \<Longrightarrow> key r = u \<Longrightarrow> f r = fourth a \<Longrightarrow> a \<le> t"
  using assms
proof (induction rows arbitrary: thesis)
  case Nil
  from Nil(1) [of 0] show ?case by (simp add: user_sum_def fourth_add)
next
  case (Cons x rows)
  obtain t where t: "user_sum key f u rows = fourth t" "0 \<le> t" "\<And>r a. r \<in> set rows \<Longrightarrow> key r = u \<Longrightarrow> f r = fourth a \<Longrightarrow> a \<le> t"
    using Cons.IH Cons.prems(2) by auto
  obtain b where b: "f x = fourth b" "0 \<le> b" using Cons.prems(2) by (auto simp: is_amount_def)
  have "user_sum key f u (x # rows) = (if key x = u then f x else 0) + user_sum key f u rows" by (simp add: user_sum_def)
  then have s: "user_sum key f u (x # rows) = fourth (if key x = u then b + t else t)" by (simp add: t(1) b(1) fourth_add)
  have inj: "fourth a = fourth b \<Longrightarrow> a = b" for a by (simp add: fourth_def)
  show ?case
  proof (rule Cons.prems(1) [OF s])
    fix r a
    assume r: "r \<in> set (x # rows)" "key r = u" "f r = fourth a"
    show "a \<le> (if key x = u then b + t else t)"
    proof (cases "r = x")
      case True
      then show ?thesis using r b t(2) inj by auto
    next
      case False
      then have "a \<le> t" using r t(3) by auto
      then show ?thesis using b(2) by simp
    qed
  qed (use t(2) b(2) in simp)
qed

text \<open>What sorting changes of a donation, and of the sums.\<close>

lemma sorted_sums:
  assumes "distinct (map do_id rows)" and "d \<in> set rows" and "do_user d' = do_user d" and "do_points d' = do_points d"
    and "do_estimated d' = do_estimated d"
  shows "user_sum do_user do_points u (update_where (\<lambda>r. do_id r = do_id d) (\<lambda>_. d') rows) = user_sum do_user do_points u rows"
    and "user_sum do_user (\<lambda>_. 1 :: int) u (update_where (\<lambda>r. do_id r = do_id d) (\<lambda>_. d') rows) = user_sum do_user (\<lambda>_. 1) u rows"
    and "user_sum do_user do_estimated u (update_where (\<lambda>r. do_id r = do_id d) (\<lambda>_. d') rows) = user_sum do_user do_estimated u rows"
    and "user_sum do_user do_co2 u (update_where (\<lambda>r. do_id r = do_id d) (\<lambda>_. d') rows)
      = user_sum do_user do_co2 u rows + (if do_user d = u then do_co2 d' - do_co2 d else 0)"
  by (simp_all add: user_sum_replace [OF assms(1,2), of do_user d', OF assms(3)] assms(4,5))

lemma sorted_item_count:
  assumes "distinct (map do_id (bb_donations db))" and "d \<in> set (bb_donations db)" and "do_user d' = do_user d" and "do_id d' = do_id d"
    and "map it_donation items = map it_donation (bb_items db)" and "bb_items db1 = items"
    and "bb_donations db1 = update_where (\<lambda>r. do_id r = do_id d) (\<lambda>_. d') (bb_donations db)"
  shows "item_count db1 u = item_count db u"
proof -
  have "length (items_of_donation k db1) = length (items_of_donation k db)" for k
    unfolding items_of_donation_def assms(6) by (rule filter_length_map [OF assms(5)])
  then have "item_count db1 u = user_sum do_user (\<lambda>d. int (length (items_of_donation (do_id d) db))) u (bb_donations db1)"
    by (simp add: item_count_def)
  also have "\<dots> = item_count db u"
    by (simp add: assms(4,7) item_count_def user_sum_replace [OF assms(1,2), of do_user d', OF assms(3)])
  finally show ?thesis .
qed

lemma record_disposition_ledger:
  assumes "ledger_ok db" and "materials_ok db" and "record_disposition now i disposition note_text db = (Inr (d', delta), db')"
  shows "ledger_ok db'" and "bb_materials db' = bb_materials db"
proof -
  obtain p d items co2 where c: "select_one (\<lambda>d. do_id d = i) (bb_donations db) = Some d"
    "traverse (sort_item p i db) (bb_items db) = Inr items"
    "amount_param 12 (round_to (sum_nums (map (sorted_co2 p db) (items_of_donation i db)))) = Inr co2"
    "delta = round_to (round_to (sum_nums (map (sorted_co2 p db) (items_of_donation i db)))
        - round_to (finite_or (num_of (do_co2 d)) (Fin 0)))"
    "d' = d\<lparr>do_disposition := Some p, do_note := optional_string note_text, do_disposed := Some now,
        do_co2 := co2, do_status := ''completed'',
        do_completed := (case do_completed d of Some t \<Rightarrow> Some t | None \<Rightarrow> Some now), do_updated := now\<rparr>"
    "adjust_rewards now (do_user d) delta
        (db\<lparr>bb_items := items, bb_donations := update_where (\<lambda>r. do_id r = i) (\<lambda>_. d') (bb_donations db)\<rparr>) = Inr db'"
    by (rule record_disposition_Inr [OF assms(3)])
  have d: "d \<in> set (bb_donations db)" "do_id d = i" using select_one_Some [OF c(1)] by simp_all
  have dist: "distinct (map do_id (bb_donations db))" and owned: "do_user d \<in> rw_user ` set (bb_rewards db)"
    and am: "\<forall>d \<in> set (bb_donations db). is_amount (do_co2 d)"
    using assms(1) d(1) by (simp_all add: ledger_ok_def)
  obtain a where a: "do_co2 d = fourth a" "0 \<le> a" "a < 10 ^ 12" using am d(1) unfolding is_amount_def by blast
  have "not_negative (sum_nums (map (sorted_co2 p db) (items_of_donation i db)))"
    by (rule not_negative_sum_nums) (simp add: list_all_iff sorted_co2_nonneg [OF assms(2)])
  then obtain b where b: "round_to (sum_nums (map (sorted_co2 p db) (items_of_donation i db))) = Fin (fl64 (fourth b))"
    "co2 = fourth b" "0 \<le> b" "b < 10 ^ 12" by (rule rounded_amount_nonneg [OF c(3)])
  have delta: "delta = round_to (Fin (fl64 (fourth b)) - Fin (fl64 (fourth a)))"
    using c(4) b(1) round_to_double [of a "Fin 0"] a by simp
  have d': "do_user d' = do_user d" "do_id d' = do_id d" "do_points d' = do_points d" "do_estimated d' = do_estimated d"
    "do_co2 d' = co2" by (simp_all add: c(5))
  note sums = sorted_sums [OF dist d(1) d'(1,3,4)]
  obtain r where r: "select_one (\<lambda>r. rw_user r = do_user d) (bb_rewards db) = Some r"
    using owned by (cases "select_one (\<lambda>r. rw_user r = do_user d) (bb_rewards db)") (auto simp: select_one_None)
  then obtain saved where saved: "adjust_co2 delta (rw_co2 r) = Inr saved"
    "db' = db\<lparr>bb_items := items, bb_donations := update_where (\<lambda>r. do_id r = i) (\<lambda>_. d') (bb_donations db),
       bb_rewards := update_where (\<lambda>r. rw_user r = do_user d) (\<lambda>r. r\<lparr>rw_co2 := saved, rw_updated := now\<rparr>) (bb_rewards db)\<rparr>"
    using c(6) by (auto simp: adjust_rewards_def)
  have r_in: "rw_user r = do_user d" "r \<in> set (bb_rewards db)" using select_one_Some [OF r] by simp_all
  have books: "\<forall>r \<in> set (bb_rewards db). account_ok db r" and users: "distinct (map rw_user (bb_rewards db))"
    using assms(1) by (simp_all add: ledger_ok_def)
  obtain t where t: "user_sum do_user do_co2 (do_user d) (bb_donations db) = fourth t" "0 \<le> t"
    "\<And>e k. e \<in> set (bb_donations db) \<Longrightarrow> do_user e = do_user d \<Longrightarrow> do_co2 e = fourth k \<Longrightarrow> k \<le> t"
    using user_sum_amounts [OF am, where key = do_user and u = "do_user d"] by metis
  have "rw_co2 r = fourth t" using books r_in t(1) by (auto simp: account_ok_def)
  then have s: "saved = fourth (t + b - a)"
    using adjust_exact [of b a t saved] saved(1) delta a b t(3) [OF d(1) _ a(1)] by simp
  have f: "bb_donations db' = update_where (\<lambda>r. do_id r = do_id d) (\<lambda>_. d') (bb_donations db)" "bb_items db' = items"
    "bb_points db' = bb_points db" "bb_materials db' = bb_materials db" by (simp_all add: saved(2) d(2))
  note count = sorted_item_count [OF dist d(1) d'(1,2) sorted_items_count [OF c(2)] f(2,1)]
  have acc: "account_ok db' r'" if r': "r' \<in> set (bb_rewards db')" for r'
  proof -
    obtain q where q: "q \<in> set (bb_rewards db)" "r' = (if rw_user q = do_user d then q\<lparr>rw_co2 := saved, rw_updated := now\<rparr> else q)"
    proof -
      have "r' \<in> (\<lambda>q. if rw_user q = do_user d then q\<lparr>rw_co2 := saved, rw_updated := now\<rparr> else q) ` set (bb_rewards db)"
        using r' by (simp add: saved(2) update_where_def del: if_image_distrib)
      then show thesis by (rule imageE) (rule that)
    qed
    have old: "account_ok db q" using books q(1) by blast
    show ?thesis
    proof (cases "rw_user q = do_user d")
      case False
      with old show ?thesis by (simp add: q(2) account_alt f(1,3) sums count)
    next
      case True
      have "fourth t + (fourth b - fourth a) = saved" by (simp add: s fourth_add add_diff_eq)
      with old True show ?thesis by (simp add: q(2) account_alt f(1,3) sums count t(1) d'(5) a(1) b(2))
    qed
  qed
  have ids: "map do_id (bb_donations db') = map do_id (bb_donations db)" using d'(2) by (auto simp: f(1) update_where_def)
  have us: "map rw_user (bb_rewards db') = map rw_user (bb_rewards db)" by (auto simp: saved(2) update_where_def)
  have sets: "do_id ` set (bb_donations db') = do_id ` set (bb_donations db)"
    "rw_user ` set (bb_rewards db') = rw_user ` set (bb_rewards db)" using ids us by (metis set_map)+
  have its: "it_donation ` set (bb_items db') = it_donation ` set (bb_items db)"
    unfolding f(2) using sorted_items_count [OF c(2)] by (metis set_map)
  have rows: "is_amount (do_co2 e) \<and> is_decimal (do_estimated e) \<and> do_user e \<in> rw_user ` set (bb_rewards db)"
    if "e \<in> set (bb_donations db')" for e
  proof -
    have "is_amount co2" using b unfolding is_amount_def by blast
    moreover have "e = d' \<or> e \<in> set (bb_donations db)" using that by (auto simp: f(1) update_where_def split: if_splits)
    ultimately show ?thesis using assms(1) d(1) d' unfolding ledger_ok_def by metis
  qed
  have "\<forall>k \<in> it_donation ` set (bb_items db'). k \<in> do_id ` set (bb_donations db')"
    unfolding its sets using assms(1) by (simp add: ledger_ok_def)
  then show "ledger_ok db'"
    using acc rows users dist assms(1) unfolding ledger_ok_def ids us sets f(3) by simp
  show "bb_materials db' = bb_materials db" by (rule f(4))
qed

section \<open>All runs\<close>

text \<open>The account \<open>insertRewards\<close> of \<open>userRepository.js\<close> opens at sign-up, and what a deleted user
  takes along by the foreign keys.\<close>

definition open_account :: "millis \<Rightarrow> ident \<Rightarrow> b2c_db \<Rightarrow> service_error + b2c_db" where
  "open_account now user db =
     unless_violated [(user \<in> rw_user ` set (bb_rewards db), ''23505''), (user \<notin> set (bb_users db), ''23503'')]
       (db\<lparr>bb_rewards := bb_rewards db @
          [\<lparr>rw_user = user, rw_points = 0, rw_donations = 0, rw_items = 0, rw_weight = 0, rw_co2 = 0,
            rw_level = ''Beginner'', rw_updated = now\<rparr>]\<rparr>)"

definition erase_user :: "ident \<Rightarrow> b2c_db \<Rightarrow> b2c_db" where
  "erase_user user db =
     db\<lparr>bb_users := filter (\<lambda>u. u \<noteq> user) (bb_users db),
        bb_donations := filter (\<lambda>d. do_user d \<noteq> user) (bb_donations db),
        bb_items := filter (\<lambda>t. it_donation t \<notin> do_id ` set (filter (\<lambda>d. do_user d = user) (bb_donations db))) (bb_items db),
        bb_rewards := filter (\<lambda>r. rw_user r \<noteq> user) (bb_rewards db),
        bb_points := filter (\<lambda>t. tx_user t \<noteq> user) (bb_points db)\<rparr>"

text \<open>Runs of the service, with users, places and materials changed by others at any time. No material
  saves a negative amount: the rows of the schema and of \<open>b2cDefaultsService.js\<close> are the only ones.\<close>

inductive b2c_step :: "b2c_lib \<Rightarrow> b2c_db \<Rightarrow> b2c_db \<Rightarrow> bool" for lib where
  donated: "b2c_step lib db (snd (create_donation lib now i user payload uploaded db))"
| sorted: "b2c_step lib db (snd (record_disposition now i disposition note_text db))"
| registered: "open_account now user db = Inr db' \<Longrightarrow> b2c_step lib db db'"
| erased: "b2c_step lib db (erase_user user db)"
| outside: "list_all (\<lambda>m. 0 \<le> mr_co2 m) materials \<Longrightarrow>
    b2c_step lib db (db\<lparr>bb_users := users, bb_materials := materials, bb_places := places\<rparr>)"

definition b2c_start :: b2c_db where
  "b2c_start = \<lparr>bb_users = [], bb_materials = [], bb_places = [], bb_donations = [], bb_items = [], bb_rewards = [],
     bb_points = []\<rparr>"

inductive b2c_reachable :: "b2c_lib \<Rightarrow> b2c_db \<Rightarrow> bool" for lib where
  start: "b2c_reachable lib b2c_start"
| step: "b2c_reachable lib db \<Longrightarrow> b2c_step lib db db' \<Longrightarrow> b2c_reachable lib db'"

lemma ledger_frame:
  assumes "ledger_ok db"
  shows "ledger_ok (db\<lparr>bb_users := users, bb_materials := materials, bb_places := places\<rparr>)" (is "ledger_ok ?db")
proof -
  have "account_ok ?db = account_ok db" by (simp add: account_ok_def items_of_donation_def fun_eq_iff)
  with assms show ?thesis by (simp add: ledger_ok_def)
qed

lemma user_sum_filter: "v \<noteq> u \<Longrightarrow> user_sum key f v (filter (\<lambda>r. key r \<noteq> u) rows) = user_sum key f v rows"
  by (induction rows) (simp_all add: user_sum_def)

lemma open_account_ledger:
  assumes "ledger_ok db" and "open_account now user db = Inr db'"
  shows "ledger_ok db'"
proof -
  define r where "r = \<lparr>rw_user = user, rw_points = 0, rw_donations = 0, rw_items = 0, rw_weight = 0, rw_co2 = 0,
            rw_level = ''Beginner'', rw_updated = now\<rparr>"
  have new: "user \<notin> rw_user ` set (bb_rewards db)" and db': "db' = db\<lparr>bb_rewards := bb_rewards db @ [r]\<rparr>"
    using assms(2) by (simp_all add: open_account_def r_def)
  have same: "account_ok db' = account_ok db" unfolding db' by (simp add: account_ok_def items_of_donation_def fun_eq_iff)
  have u: "rw_user r = user" by (simp add: r_def)
  have "account_ok db r"
    by (simp add: account_ok_def r_def level_of_def user_sum_none [OF fresh_user_sums(1) [OF assms(1) new]]
        user_sum_none [OF fresh_user_sums(2) [OF assms(1) new]])
  then show ?thesis
    using assms(1) new u unfolding ledger_ok_def same unfolding db' by auto
qed

lemma erase_user_ledger:
  assumes "ledger_ok db"
  shows "ledger_ok (erase_user user db)"
proof -
  let ?db = "erase_user user db"
  have f: "bb_donations ?db = filter (\<lambda>d. do_user d \<noteq> user) (bb_donations db)" "bb_rewards ?db = filter (\<lambda>r. rw_user r \<noteq> user) (bb_rewards db)"
    "bb_points ?db = filter (\<lambda>t. tx_user t \<noteq> user) (bb_points db)" by (simp_all add: erase_user_def)
  have dist: "distinct (map do_id (bb_donations db))" using assms by (simp add: ledger_ok_def)
  have kept: "do_id d \<notin> do_id ` set (filter (\<lambda>d. do_user d = user) (bb_donations db))"
    if d: "d \<in> set (bb_donations db)" "do_user d \<noteq> user" for d
  proof
    assume "do_id d \<in> do_id ` set (filter (\<lambda>d. do_user d = user) (bb_donations db))"
    then obtain e where e: "e \<in> set (bb_donations db)" "do_user e = user" "do_id e = do_id d" by auto
    then have "e = d" using dist d(1) by (auto simp: distinct_map dest: inj_onD)
    with e d show False by simp
  qed
  have items: "items_of_donation (do_id d) ?db = items_of_donation (do_id d) db"
    if d: "d \<in> set (bb_donations ?db)" for d
  proof -
    have d': "d \<in> set (bb_donations db)" "do_user d \<noteq> user" using d by (simp_all add: f)
    note out = kept [OF d']
    have "items_of_donation (do_id d) ?db = filter (\<lambda>t. it_donation t = do_id d
        \<and> it_donation t \<notin> do_id ` set (filter (\<lambda>d. do_user d = user) (bb_donations db))) (bb_items db)"
      unfolding items_of_donation_def erase_user_def by (simp del: set_filter add: conj_commute)
    also have "\<dots> = items_of_donation (do_id d) db"
      unfolding items_of_donation_def by (rule filter_cong [OF refl]) (metis out)
    finally show ?thesis .
  qed
  have count: "item_count ?db v = item_count db v" if "v \<noteq> user" for v
  proof -
    have "item_count ?db v = user_sum do_user (\<lambda>d. int (length (items_of_donation (do_id d) db))) v (bb_donations ?db)"
      unfolding item_count_def by (rule user_sum_cong) (simp add: items)
    then show ?thesis using that by (simp add: f user_sum_filter item_count_def)
  qed
  have acc: "account_ok ?db r" if r: "r \<in> set (bb_rewards ?db)" for r
  proof -
    have "account_ok db r" and other: "rw_user r \<noteq> user" using r assms by (simp_all add: ledger_ok_def f)
    then show ?thesis unfolding account_alt f user_sum_filter [OF other] count [OF other] by simp
  qed
  have its: "it_donation t \<in> do_id ` set (bb_donations ?db)" if t: "t \<in> set (bb_items ?db)" for t
  proof -
    have "it_donation t \<in> do_id ` set (bb_donations db)" using t assms by (auto simp: ledger_ok_def erase_user_def)
    then obtain d where d: "d \<in> set (bb_donations db)" "do_id d = it_donation t" by (metis imageE)
    have "it_donation t \<notin> do_id ` set (filter (\<lambda>d. do_user d = user) (bb_donations db))" using t by (simp add: erase_user_def)
    then have "d \<notin> set (filter (\<lambda>d. do_user d = user) (bb_donations db))" using d(2) by (metis imageI)
    with d(1) have "d \<in> set (bb_donations ?db)" by (simp add: f)
    with d(2) show ?thesis by (metis imageI)
  qed
  have "do_user d \<in> rw_user ` set (bb_rewards ?db)" if "d \<in> set (bb_donations ?db)" for d
    using that assms by (auto simp: ledger_ok_def f image_iff)
  moreover have "tx_user t \<in> rw_user ` set (bb_rewards ?db)" if "t \<in> set (bb_points ?db)" for t
    using that assms by (auto simp: ledger_ok_def f image_iff)
  ultimately show ?thesis
    using acc its assms unfolding ledger_ok_def by (auto simp: f distinct_map_filter)
qed

lemma materials_step: "materials_ok db \<Longrightarrow> bb_materials db' = bb_materials db \<Longrightarrow> materials_ok db'"
  by (simp add: materials_ok_def)

lemma b2c_step_ok:
  assumes "b2c_step lib db db'" and "ledger_ok db \<and> materials_ok db"
  shows "ledger_ok db' \<and> materials_ok db'"
  using assms
proof cases
  case (donated now i user payload uploaded)
  show ?thesis
  proof (cases "create_donation lib now i user payload uploaded db")
    case (Pair res d')
    show ?thesis
    proof (cases res)
      case (Inr d)
      from create_donation_ledger [OF _ _ Pair [unfolded Inr]] assms(2) donated Pair materials_step [of db d']
      show ?thesis by simp
    next
      case (Inl e)
      have "db' = db" using Pair donated in_donating_Inl [OF Pair [unfolded Inl create_donation_def]] by simp
      with assms(2) show ?thesis by simp
    qed
  qed
next
  case (sorted now i disposition note_text)
  show ?thesis
  proof (cases "record_disposition now i disposition note_text db")
    case (Pair res d')
    show ?thesis
    proof (cases res)
      case (Inr p)
      obtain d delta where "p = (d, delta)" by (cases p)
      then have r: "record_disposition now i disposition note_text db = (Inr (d, delta), d')" using Pair Inr by simp
      from record_disposition_ledger [OF _ _ r] assms(2) sorted Pair materials_step [of db d']
      show ?thesis by simp
    next
      case (Inl e)
      have "db' = db" using Pair sorted in_donating_Inl [OF Pair [unfolded Inl record_disposition_def]] by simp
      with assms(2) show ?thesis by simp
    qed
  qed
next
  case (registered now user)
  have "bb_materials db' = bb_materials db" using registered by (auto simp: open_account_def)
  with registered assms(2) show ?thesis using open_account_ledger materials_step by blast
next
  case (erased user)
  have "bb_materials db' = bb_materials db" by (simp add: erased erase_user_def)
  with assms(2) show ?thesis unfolding erased using erase_user_ledger by (auto simp: materials_ok_def)
next
  case (outside materials users places)
  then show ?thesis using assms(2) ledger_frame by (simp add: materials_ok_def list_all_iff)
qed

lemma b2c_reachable_ok: "b2c_reachable lib db \<Longrightarrow> ledger_ok db \<and> materials_ok db"
proof (induction rule: b2c_reachable.induct)
  case start
  show ?case by (simp add: ledger_ok_def materials_ok_def b2c_start_def)
next
  case (step db db')
  then show ?case using b2c_step_ok by blast
qed

end
