(* ===== verification/Donation_Properties.thy ===== *)
theory Donation_Properties
  imports Donation_Ledger
begin

text \<open>
  What a donor can rely on, over all runs: the account is the sum of the donations, and a sorting that
  confirms the declared pathway of a donation that stands as created changes no credit. And what a donor can exploit: a collection point
  without a location, and a check-in without coordinates, both lie at the origin.
\<close>

section \<open>A donation of two kilograms\<close>

definition demo_b2c_lib :: b2c_lib where
  "demo_b2c_lib = \<lparr>bl_math = \<lparr>mt_sin = \<lambda>x. x, mt_cos = \<lambda>x. Fin 1, mt_atan2 = \<lambda>x y. x, mt_pow = \<lambda>x y. x * x\<rparr>,
     bl_asin = \<lambda>x. x, bl_date = \<lambda>s. None, bl_uuid = Some\<rparr>"

definition demo_donation :: jsval where
  "demo_donation = JObj [(''category'', JStr ''charity''), (''delivery_method'', JStr ''shipping''),
     (''items'', JArr [JObj [(''item_name'', JStr ''Jacket''), (''material_id'', JStr ''cotton''), (''weight_kg'', JNum (Fin 2))]])]"

definition demo_b2c :: b2c_db where
  "demo_b2c = b2c_start\<lparr>bb_users := [''ann''], bb_materials := [\<lparr>mr_id = ''cotton'', mr_name = ''Cotton'', mr_category = ''fabric'', mr_points = 32,
     mr_co2 = 8, mr_active = True\<rparr>], bb_places := []\<rparr>"

definition given_row :: donation_row where
  "given_row = \<lparr>do_id = ''d1'', do_user = ''ann'', do_category = ''charity'', do_method = ''shipping'', do_status = ''pending'',
     do_description = ''1 item(s): Jacket'', do_material = Some ''cotton'', do_estimated = 2, do_actual = None, do_point = None,
     do_tracking = None, do_base = 64, do_bonus = 32, do_points = 96, do_co2 = 8, do_confirmed = None, do_confirmation = None,
     do_completed = None, do_disposition = None, do_note = None, do_disposed = None, do_created = 5, do_updated = 5\<rparr>"

definition given_item :: donation_item where
  "given_item = \<lparr>it_donation = ''d1'', it_name = ''Jacket'', it_type = None, it_condition = None, it_material = ''cotton'',
     it_weight = 2, it_points = 64, it_co2 = 8\<rparr>"

definition given_reward :: reward_row where
  "given_reward = \<lparr>rw_user = ''ann'', rw_points = 96, rw_donations = 1, rw_items = 1, rw_weight = 2, rw_co2 = 8,
     rw_level = ''Beginner'', rw_updated = 5\<rparr>"

definition demo_donated :: b2c_db where
  "demo_donated = demo_b2c\<lparr>bb_donations := [given_row], bb_items := [given_item], bb_rewards := [given_reward],
     bb_points := [\<lparr>tx_user = ''ann'', tx_donation = ''d1'', tx_type = ''earn'', tx_points = 96,
       tx_description = ''Donation for charity: 1 item(s)'', tx_created = 5\<rparr>]\<rparr>"

lemma num_of_numeral: "(numeral k :: int) < 2 ^ 53 \<Longrightarrow> num_of (numeral k) = Fin (numeral k)"
  using num_of_small_int [of "numeral k"] by simp

lemma half: "num_of (5 / 10) = Fin (1 / 2)"
proof -
  have "fl64 (5 / 10) = 1 / 2" by code_simp
  then show ?thesis using num_of_upto [of "5 / 10" 1] by simp
qed

lemma round_to_int:
  assumes "\<bar>n\<bar> \<le> 10 ^ 8"
  shows "round_to (Fin (of_int n)) = Fin (of_int n)"
proof -
  have m: "\<bar>n * 10000\<bar> \<le> 2 * 10 ^ 12" using assms by simp
  have f: "fourth (n * 10000) = of_int n" by (simp add: fourth_def)
  have "\<bar>of_int n - fourth (n * 10000)\<bar> * 10000 < 1 / 4" by (simp add: f)
  from round_to_near [OF this m] fourth_num [OF m] num_of_small_int [of n] assms show ?thesis by (simp add: f)
qed

lemma round_to_numeral: "(numeral k :: int) \<le> 10 ^ 8 \<Longrightarrow> round_to (Fin (numeral k)) = Fin (numeral k)" "round_to (Fin 0) = Fin 0"
  using round_to_int [of "numeral k"] round_to_int [of 0] by simp_all

lemma math_round_numeral: "math_round (Fin (numeral k)) = Fin (numeral k)"
proof -
  have "\<lfloor>numeral k + 1 / 2 :: rat\<rfloor> = numeral k" by (rule floor_unique) (unfold of_int_numeral, linarith+)
  then show ?thesis by simp
qed

lemma demo_texts: "optional_string (JStr ''charity'') = Some ''charity''" "optional_string (JStr ''shipping'') = Some ''shipping''"
  "optional_string (JStr ''Jacket'') = Some ''Jacket''" "optional_string (JStr ''cotton'') = Some ''cotton''"
  "optional_string JUndef = None" "optional_string (JStr ''recycle'') = Some ''recycle''" "optional_string (JStr ''reuse'') = Some ''reuse''" "optional_string (JStr ''waste'') = Some ''waste''"
  by code_simp+

lemma demo_read: "read_donation demo_donation True = Inr \<lparr>dr_category = ''charity'', dr_method = ''shipping'',
  dr_lines = [\<lparr>dl_name = ''Jacket'', dl_type = None, dl_condition = None, dl_material = ''cotton'', dl_weight = Fin 2\<rparr>],
  dr_place = None, dr_tracking = None, dr_gps = None\<rparr>"
  by (simp add: read_donation_def demo_donation_def read_choice_def read_items_def normalize_line_def demo_texts round_to_numeral number_or_def finite_or_def gps_of_def Let_def num_simps)

lemma demo_amounts: "amount_param 12 (Fin 8) = Inr 8" "amount_param 10 (Fin 2) = Inr 2" "amount_param 12 (Fin 0) = Inr 0"
  by code_simp+

lemma demo_created: "create_donation demo_b2c_lib 5 ''d1'' ''ann'' demo_donation True demo_b2c = (Inr given_row, demo_donated)"
proof -
  have half': "num_of (1 / 2) = Fin (1 / 2)" using half by simp
  have n: "nat_str (Suc 0) = ''1''" by code_simp
  show ?thesis
    by (simp add: create_donation_def in_donating_def demo_read material_rows_def uuid_param_def demo_b2c_lib_def demo_b2c_def
        b2c_start_def delivery_status_def compute_line_def compute_donation_co2_def reuse_displacement_def finite_or_def
        num_of_numeral half' num_simps round_to_numeral math_round_numeral Let_def new_donation_def donation_sums_of_def
        sum_nums_def demo_amounts item_of_line_def upsert_rewards_def add_points_def integer_of_num_def unless_violated_def
        given_row_def given_item_def given_reward_def demo_donated_def describe_items_def n level_of_def
        del: math_round.simps)
qed

lemma demo_reachable: "b2c_reachable demo_b2c_lib demo_b2c" "b2c_reachable demo_b2c_lib demo_donated"
proof -
  show r: "b2c_reachable demo_b2c_lib demo_b2c"
    unfolding demo_b2c_def by (rule b2c_reachable.step [OF b2c_reachable.start b2c_step.outside]) simp
  show "b2c_reachable demo_b2c_lib demo_donated"
    using b2c_reachable.step [OF r b2c_step.donated [of _ _ 5 "''d1''" "''ann''" demo_donation True]] by (simp add: demo_created)
qed

lemma demo_sorted:
  "record_disposition 9 ''d1'' (JStr ''waste'') JNull demo_donated
   = (Inr (given_row\<lparr>do_disposition := Some ''waste'', do_disposed := Some 9, do_co2 := 0, do_status := ''completed'',
        do_completed := Some 9, do_updated := 9\<rparr>, Fin (- 8)), 
      demo_donated\<lparr>bb_donations := [given_row\<lparr>do_disposition := Some ''waste'', do_disposed := Some 9, do_co2 := 0,
          do_status := ''completed'', do_completed := Some 9, do_updated := 9\<rparr>], bb_items := [given_item\<lparr>it_co2 := 0\<rparr>],
        bb_rewards := [given_reward\<lparr>rw_co2 := 0, rw_updated := 9\<rparr>]\<rparr>)"
proof -
  have n: "optional_string JNull = None" "round_to (Fin (- 8)) = Fin (- 8)" "num_of (- 8) = Fin (- 8)"
    using round_to_int [of "- 8"] num_of_small_int [of "- 8"] by (simp_all add: optional_string_def)
  have a: "adjust_co2 (Fin (- 8)) 8 = Inr 0" by code_simp
  show ?thesis
    by (simp add: record_disposition_def in_donating_def demo_texts demo_donated_def given_row_def given_item_def given_reward_def
        dispositions_def num_of_numeral finite_or_def num_simps round_to_numeral sum_nums_def sorted_co2_def disposition_co2_def
        material_co2_def demo_b2c_def b2c_start_def sort_item_def demo_amounts Let_def adjust_rewards_def update_where_def n a)
qed

section \<open>The declared pathway\<close>

definition pathway :: "string \<Rightarrow> string" where
  "pathway category = (if category = ''charity'' then ''reuse'' else ''recycle'')"

lemma pathway_co2: "compute_donation_co2 category ef w = disposition_co2 (pathway category) ef w"
  by (simp add: compute_donation_co2_def disposition_co2_def pathway_def Let_def)

lemma disposition_co2_factor: "disposition_co2 p (finite_or x (Fin 0)) w = disposition_co2 p x w"
proof -
  have "finite_or (finite_or x (Fin 0)) (Fin 0) = finite_or x (Fin 0)" by (simp add: finite_or_def)
  then show ?thesis by (simp only: disposition_co2_def)
qed

lemma select_one_filter: "(\<And>x. p x \<Longrightarrow> q x) \<Longrightarrow> select_one p (filter q xs) = select_one p xs"
  by (induction xs) auto

lemma traverse_map:
  assumes "traverse f xs = Inr ys" and "\<And>x y. x \<in> set xs \<Longrightarrow> f x = Inr y \<Longrightarrow> g y = h x"
  shows "map g ys = map h xs"
  using assms by (induction xs arbitrary: ys) auto

text \<open>An item of a donation, sorted as declared.\<close>

lemma line_material:
  assumes "material_rows lib lines db = Inr rows" and "select_one (\<lambda>m. mr_id m = a) rows = Some m"
  shows "material_co2 (mr_id m) db = mr_co2 m"
proof -
  obtain keys where rows: "rows = filter (\<lambda>m. mr_id m \<in> set keys) (bb_materials db)"
    using assms(1) by (auto simp: material_rows_def Let_def split: if_splits)
  have m: "mr_id m = a" "m \<in> set rows" using select_one_Some [OF assms(2)] by simp_all
  then have "a \<in> set keys" by (auto simp: rows)
  then have "select_one (\<lambda>m. mr_id m = a) rows = select_one (\<lambda>m. mr_id m = a) (bb_materials db)"
    unfolding rows by (intro select_one_filter) simp
  with assms(2) m(1) show ?thesis by (simp add: material_co2_def)
qed

lemma line_weight: "normalize_line v = Inr l \<Longrightarrow> \<exists>w. dl_weight l = round_to w"
  by (auto simp: normalize_line_def Let_def split: option.splits if_splits)

lemma read_donation_weight:
  assumes "read_donation payload uploaded = Inr r" and "l \<in> set (dr_lines r)"
  shows "\<exists>w. dl_weight l = round_to w"
proof -
  obtain category delivery where "read_items category delivery payload = Inr r"
    using assms(1) by (auto simp: read_donation_def split: if_splits)
  then obtain items where "traverse normalize_line items = Inr (dr_lines r)"
    unfolding read_items_def Let_def by (auto split: if_splits)
  from traverse_from [OF this assms(2)] line_weight show ?thesis by blast
qed

lemma line_sorted:
  assumes "compute_line category rows l = Inr x" and "item_of_line i x = Inr t" and "material_rows lib lines db = Inr rows"
    and "dl_weight l = round_to w" and "bb_materials db1 = bb_materials db"
  shows "sorted_co2 (pathway category) db1 t = ci_co2 x" and "sort_item (pathway category) i db1 t = Inr t"
proof -
  obtain m where m: "select_one (\<lambda>m. mr_id m = dl_material l) rows = Some m"
    "ci_line x = l" "ci_material x = mr_id m"
    "ci_co2 x = round_to (compute_donation_co2 category (finite_or (num_of (mr_co2 m)) (Fin 0)) (dl_weight l))"
    using assms(1) by (auto simp: compute_line_def split: option.splits)
  have t: "amount_param 10 (round_to w) = Inr (it_weight t)" "amount_param 12 (ci_co2 x) = Inr (it_co2 t)"
    "it_material t = mr_id m" "it_donation t = i"
    using assms(2,4) m(2,3) by (auto simp: item_of_line_def)
  obtain k where k: "round_to w = Fin (fl64 (fourth k))" "it_weight t = fourth k" "\<bar>k\<bar> < 10 ^ 12"
    by (rule rounded_amount [OF t(1)]) simp_all
  have "num_of (it_weight t) = dl_weight l" using fourth_num [of k] k assms(4) by simp
  moreover have "material_co2 (it_material t) db1 = mr_co2 m"
    using line_material [OF assms(3) m(1)] t(3) by (simp add: material_co2_def assms(5))
  ultimately show s: "sorted_co2 (pathway category) db1 t = ci_co2 x"
    by (simp add: sorted_co2_def m(4) pathway_co2 disposition_co2_factor)
  show "sort_item (pathway category) i db1 t = Inr t" using t by (simp add: sort_item_def s)
qed

text \<open>The saved emissions of every account fit the column, at every moment of every run.\<close>

definition rewards_fit :: "b2c_db \<Rightarrow> bool" where
  "rewards_fit db \<longleftrightarrow> (\<forall>r \<in> set (bb_rewards db). \<bar>rw_co2 r\<bar> < 10 ^ 8)"

lemma rewards_fit_mono: "rewards_fit db \<Longrightarrow> set (bb_rewards db') \<subseteq> set (bb_rewards db) \<Longrightarrow> rewards_fit db'"
  by (auto simp: rewards_fit_def)

lemma amount_fits: "is_amount x \<Longrightarrow> \<bar>x\<bar> < 10 ^ 8"
proof -
  assume "is_amount x"
  then obtain m where m: "x = fourth m" "0 \<le> m" "m < 10 ^ 12" unfolding is_amount_def by blast
  have "of_int m < (of_int (10 ^ 12) :: rat)" "0 \<le> (of_int m :: rat)" unfolding of_int_less_iff using m by simp_all
  then show ?thesis by (simp add: m(1) fourth_def)
qed

lemma upserted_fit:
  assumes "upsert_rewards now d n db = Inr db'" and "is_amount (do_co2 d)" and "rewards_fit db"
  shows "rewards_fit db'"
proof (cases "select_one (\<lambda>r. rw_user r = do_user d) (bb_rewards db)")
  case None
  then show ?thesis using assms amount_fits by (auto simp: upsert_rewards_def rewards_fit_def)
next
  case (Some r0)
  obtain r1 where r1: "credited now d n r0 = Inr r1"
    "bb_rewards db' = update_where (\<lambda>r. rw_user r = do_user d) (\<lambda>_. r1) (bb_rewards db)"
    using assms(1) Some by (auto simp: upsert_rewards_def)
  have "\<bar>rw_co2 r1\<bar> < 10 ^ 8" using r1(1) by (auto simp: credited_def to_amount_def)
  then show ?thesis using assms(3) r1(2) by (auto simp: rewards_fit_def in_update_where)
qed

lemma adjusted_fit: "adjust_rewards now user delta db = Inr db' \<Longrightarrow> rewards_fit db \<Longrightarrow> rewards_fit db'"
  by (auto simp: adjust_rewards_def adjust_co2_def to_amount_def rewards_fit_def in_update_where split: option.splits)

lemma created_fit:
  assumes "ledger_ok db" and "materials_ok db" and "create_donation lib now i user payload uploaded db = (Inr d, db1)"
    and "rewards_fit db"
  shows "rewards_fit db1"
proof -
  obtain r rows state lines items db2 where c: "read_donation payload uploaded = Inr r" "material_rows lib (dr_lines r) db = Inr rows"
    "traverse (compute_line (dr_category r) rows) (dr_lines r) = Inr lines" "new_donation lib now i user r lines state db = Inr d"
    "traverse (item_of_line i) lines = Inr items"
    "upsert_rewards now d (length lines) (db\<lparr>bb_donations := bb_donations db @ [d], bb_items := bb_items db @ items\<rparr>) = Inr db2"
    "db1 = add_points now d (length lines) db2"
    by (rule create_donation_Inr [OF assms(3)])
  have "rewards_fit db2"
    by (rule upserted_fit [OF c(6) donation_amounts(1) [OF c(1,2) assms(2) c(3,4)]]) (rule rewards_fit_mono [OF assms(4)], simp)
  then show ?thesis unfolding c(7) by (rule rewards_fit_mono) (simp add: add_points_def)
qed

lemma step_fits:
  assumes "b2c_step lib db db'" and "ledger_ok db \<and> materials_ok db" and "rewards_fit db"
  shows "rewards_fit db'"
  using assms(1)
proof cases
  case (donated now i user payload uploaded)
  obtain res db1 where run: "create_donation lib now i user payload uploaded db = (res, db1)" by fastforce
  show ?thesis
  proof (cases res)
    case (Inr d)
    from created_fit [OF _ _ run [unfolded Inr]] assms(2,3) donated run show ?thesis by simp
  next
    case (Inl e)
    with run donated assms(3) show ?thesis using in_donating_Inl [OF run [unfolded Inl create_donation_def]] by simp
  qed
next
  case (sorted now i disposition note_text)
  obtain res db1 where run: "record_disposition now i disposition note_text db = (res, db1)" by fastforce
  show ?thesis
  proof (cases res)
    case (Inr x)
    obtain d delta where "x = (d, delta)" by fastforce
    from run [unfolded Inr this] have "record_disposition now i disposition note_text db = (Inr (d, delta), db1)" .
    then show ?thesis using assms(3) sorted run
      by (elim record_disposition_Inr) (auto elim!: adjusted_fit intro: rewards_fit_mono)
  next
    case (Inl e)
    with run sorted assms(3) show ?thesis using in_donating_Inl [OF run [unfolded Inl record_disposition_def]] by simp
  qed
next
  case (registered now user)
  with assms(3) show ?thesis by (auto simp: open_account_def rewards_fit_def)
next
  case (erased user)
  with assms(3) show ?thesis by (auto simp: erase_user_def intro: rewards_fit_mono)
next
  case outside
  with assms(3) show ?thesis by (auto intro: rewards_fit_mono)
qed

lemma reachable_fits: "b2c_reachable lib db \<Longrightarrow> rewards_fit db"
proof (induction rule: b2c_reachable.induct)
  case start
  show ?case by (simp add: rewards_fit_def b2c_start_def)
next
  case (step db db')
  then show ?case using step_fits b2c_reachable_ok by blast
qed

text \<open>The donation and its items as they are found again.\<close>

lemma created_again:
  assumes "ledger_ok db" and "materials_ok db" and "create_donation lib now i user payload uploaded db = (Inr d, db1)"
  obtains m where
    "do_id d = i" "do_co2 d = fourth m" "\<bar>m\<bar> < 10 ^ 12"
    "round_to (sum_nums (map (sorted_co2 (pathway (do_category d)) db1) (items_of_donation i db1))) = Fin (fl64 (fourth m))"
    "\<forall>t \<in> set (items_of_donation i db1). sort_item (pathway (do_category d)) i db1 t = Inr t"
    "amount_param 12 (Fin (fl64 (fourth m))) = Inr (do_co2 d)"
proof -
  obtain r rows state lines items db2 where c: "read_donation payload uploaded = Inr r" "material_rows lib (dr_lines r) db = Inr rows"
    "traverse (compute_line (dr_category r) rows) (dr_lines r) = Inr lines" "new_donation lib now i user r lines state db = Inr d"
    "traverse (item_of_line i) lines = Inr items"
    "upsert_rewards now d (length lines) (db\<lparr>bb_donations := bb_donations db @ [d], bb_items := bb_items db @ items\<rparr>) = Inr db2"
    "db1 = add_points now d (length lines) db2"
    by (rule create_donation_Inr [OF assms(3)])
  note n = new_donation_Inr [OF c(4)] and led = create_donation_ledger [OF assms]
  have f: "bb_donations db1 = bb_donations db @ [d]" "bb_items db1 = bb_items db @ items" "bb_rewards db1 = bb_rewards db2"
    using c(6) unfolding c(7) by (auto simp: add_points_def upsert_rewards_def split: option.splits)
  have its: "it_donation t = i" if "t \<in> set items" for t
    using traverse_from [OF c(5) that] item_of_line_donation by blast
  have old: "it_donation t \<noteq> i" if "t \<in> set (bb_items db)" for t using assms(1) n(1,3) that unfolding ledger_ok_def by metis
  have mine: "items_of_donation i db1 = items" unfolding items_of_donation_def f(2) using its old by simp
  let ?p = "pathway (do_category d)"
  have line: "sorted_co2 ?p db1 t = ci_co2 x \<and> sort_item ?p i db1 t = Inr t" if x: "x \<in> set lines" "item_of_line i x = Inr t" for x t
  proof -
    obtain l where l: "l \<in> set (dr_lines r)" "compute_line (dr_category r) rows l = Inr x" using traverse_from [OF c(3) x(1)] by blast
    obtain w where "dl_weight l = round_to w" using read_donation_weight [OF c(1) l(1)] by blast
    from line_sorted [OF l(2) x(2) c(2) this led(3)] n(4) show ?thesis by simp
  qed
  have saved: "map (sorted_co2 ?p db1) items = map ci_co2 lines" by (rule traverse_map [OF c(5)]) (use line in blast)
  have sorts: "\<forall>t \<in> set (items_of_donation i db1). sort_item ?p i db1 t = Inr t"
    using traverse_from [OF c(5)] line unfolding mine by blast
  have co2: "amount_param 12 (round_to (sum_nums (map ci_co2 lines))) = Inr (do_co2 d)"
    using n(5) by (simp add: donation_sums_of_def Let_def)
  obtain m where m: "round_to (sum_nums (map ci_co2 lines)) = Fin (fl64 (fourth m))" "do_co2 d = fourth m" "\<bar>m\<bar> < 10 ^ 12"
    by (rule rounded_amount [OF co2]) simp_all
  from that [OF n(1) m(2,3) _ sorts] saved co2 show thesis by (simp add: mine m(1))
qed

lemma adjust_nothing:
  assumes "ledger_ok db" and "r \<in> set (bb_rewards db)" and "\<bar>rw_co2 r\<bar> < 10 ^ 8"
  shows "adjust_co2 (Fin 0) (rw_co2 r) = Inr (rw_co2 r)"
proof -
  have am: "\<forall>d \<in> set (bb_donations db). is_amount (do_co2 d)" using assms(1) by (simp add: ledger_ok_def)
  obtain t where t: "user_sum do_user do_co2 (rw_user r) (bb_donations db) = fourth t" "0 \<le> t"
    using user_sum_amounts [OF am, where key = do_user and u = "rw_user r"] by metis
  have r: "rw_co2 r = fourth t" using assms(1,2) t(1) by (auto simp: ledger_ok_def account_ok_def)
  have "0 \<le> rw_co2 r" using t(2) by (simp add: r fourth_def)
  moreover have "decimal_text (num_str (Fin 0)) = Some 0" by code_simp
  ultimately show ?thesis using assms(3) by (simp add: adjust_co2_def to_amount_def r round_scale_fourth del: num_str.simps)
qed

text \<open>The row of a donation and the account of its donor, in any state of a run.\<close>

lemma row_again:
  assumes "ledger_ok db" and "d \<in> set (bb_donations db)" and "do_id d = i"
  shows "select_one (\<lambda>d. do_id d = i) (bb_donations db) = Some d"
proof (cases "select_one (\<lambda>d. do_id d = i) (bb_donations db)")
  case None
  then show ?thesis using assms by (auto simp: select_one_None)
next
  case (Some e)
  have "inj_on do_id (set (bb_donations db))" using assms(1) by (simp add: ledger_ok_def distinct_map)
  from inj_onD [OF this _ _ assms(2), of e] select_one_Some [OF Some] assms(3) Some show ?thesis by simp
qed

lemma account_again:
  assumes "b2c_reachable lib db" and "d \<in> set (bb_donations db)"
  obtains r where "select_one (\<lambda>r. rw_user r = do_user d) (bb_rewards db) = Some r" "r \<in> set (bb_rewards db)" "rw_user r = do_user d"
    "adjust_co2 (Fin 0) (rw_co2 r) = Inr (rw_co2 r)" "\<And>q. q \<in> set (bb_rewards db) \<Longrightarrow> rw_user q = do_user d \<Longrightarrow> q = r"
proof -
  have ok: "ledger_ok db" using b2c_reachable_ok [OF assms(1)] by simp
  then have "do_user d \<in> rw_user ` set (bb_rewards db)" using assms(2) by (simp add: ledger_ok_def)
  then obtain r where r: "select_one (\<lambda>r. rw_user r = do_user d) (bb_rewards db) = Some r"
    by (cases "select_one (\<lambda>r. rw_user r = do_user d) (bb_rewards db)") (auto simp: select_one_None)
  then have r': "r \<in> set (bb_rewards db)" "rw_user r = do_user d" using select_one_Some [OF r] by simp_all
  have inj: "inj_on rw_user (set (bb_rewards db))" using ok by (simp add: ledger_ok_def distinct_map)
  have "q = r" if "q \<in> set (bb_rewards db)" "rw_user q = do_user d" for q
    by (rule inj_onD [OF inj _ that(1) r'(1)]) (simp add: that(2) r'(2))
  moreover have "adjust_co2 (Fin 0) (rw_co2 r) = Inr (rw_co2 r)"
    by (rule adjust_nothing [OF ok r'(1)]) (use reachable_fits [OF assms(1)] r'(1) in \<open>simp add: rewards_fit_def\<close>)
  ultimately show thesis using that [OF r r'] by blast
qed

text \<open>A sorting that computes what is stored.\<close>

lemma record_same:
  assumes "optional_string v = Some p" and "p \<in> set dispositions" and "select_one (\<lambda>d. do_id d = i) (bb_donations db) = Some d"
    and "round_to (finite_or (num_of (do_co2 d)) (Fin 0)) = z"
    and "round_to (sum_nums (map (sorted_co2 p db) (items_of_donation i db))) = z" and "round_to (z - z) = Fin 0"
    and "traverse (sort_item p i db) (bb_items db) = Inr (bb_items db)" and "amount_param 12 z = Inr (do_co2 d)"
    and "select_one (\<lambda>r. rw_user r = do_user d) (bb_rewards db) = Some r" and "adjust_co2 (Fin 0) (rw_co2 r) = Inr (rw_co2 r)"
    and d': "d' = d\<lparr>do_disposition := Some p, do_note := optional_string note_text, do_disposed := Some now,
        do_co2 := do_co2 d, do_status := ''completed'',
        do_completed := (case do_completed d of Some t \<Rightarrow> Some t | None \<Rightarrow> Some now), do_updated := now\<rparr>"
  shows "record_disposition now i v note_text db = (Inr (d', Fin 0),
    db\<lparr>bb_items := bb_items db, bb_donations := update_where (\<lambda>r. do_id r = i) (\<lambda>_. d') (bb_donations db),
       bb_rewards := update_where (\<lambda>r. rw_user r = do_user d) (\<lambda>q. q\<lparr>rw_co2 := rw_co2 r, rw_updated := now\<rparr>) (bb_rewards db)\<rparr>)"
  using assms(2) unfolding record_disposition_def in_donating_def adjust_rewards_def Let_def items_of_donation_def [symmetric] assms(1)
  by (simp add: assms(3-10) d')

section \<open>Properties\<close>

lemma user_sum_rows: "user_sum key f u rows = sum_list (map f (filter (\<lambda>r. key r = u) rows))"
  by (induction rows) (simp_all add: user_sum_def)

lemma sum_list_ones: "sum_list (map (\<lambda>_. 1 :: int) xs) = int (length xs)"
  by (induction xs) simp_all

text \<open>C21: Over all runs of donations, sortings, sign-ups and erasures, the account of a donor is in balance: its points
  are those of the donations and those of the history of points, and its donations, items, weight and
  saved emissions the sums over the donations as they stand, to the last decimal, although the service adds,
  subtracts and rounds doubles. The level is the one of the points.\<close>

theorem rewards_ledger_balanced:
  assumes "b2c_reachable lib db" and "r \<in> set (bb_rewards db)"
  shows "rw_points r = sum_list (map do_points (filter (\<lambda>d. do_user d = rw_user r) (bb_donations db)))
    \<and> rw_points r = sum_list (map tx_points (filter (\<lambda>t. tx_user t = rw_user r) (bb_points db)))
    \<and> rw_donations r = int (length (filter (\<lambda>d. do_user d = rw_user r) (bb_donations db)))
    \<and> rw_items r = (\<Sum>d\<leftarrow>filter (\<lambda>d. do_user d = rw_user r) (bb_donations db). int (length (items_of_donation (do_id d) db)))
    \<and> rw_weight r = sum_list (map do_estimated (filter (\<lambda>d. do_user d = rw_user r) (bb_donations db)))
    \<and> rw_co2 r = sum_list (map do_co2 (filter (\<lambda>d. do_user d = rw_user r) (bb_donations db)))
    \<and> rw_level r = level_of (rw_points r)"
proof -
  have "account_ok db r" using b2c_reachable_ok [OF assms(1)] assms(2) by (simp add: ledger_ok_def)
  then show ?thesis unfolding account_ok_def user_sum_rows sum_list_ones .
qed

theorem rewards_ledger_balanced_witness:
  "let db = snd (record_disposition 9 ''d1'' (JStr ''waste'') JNull demo_donated); r = hd (bb_rewards db)
   in rw_points r = 96 \<and> rw_co2 r = sum_list (map do_co2 (filter (\<lambda>d. do_user d = rw_user r) (bb_donations db)))"
proof -
  let ?db = "snd (record_disposition 9 ''d1'' (JStr ''waste'') JNull demo_donated)"
  have "b2c_reachable demo_b2c_lib ?db" by (rule b2c_reachable.step [OF demo_reachable(2) b2c_step.sorted])
  moreover have "hd (bb_rewards ?db) \<in> set (bb_rewards ?db)" "rw_points (hd (bb_rewards ?db)) = 96"
    by (simp_all add: demo_sorted given_reward_def)
  ultimately show ?thesis using rewards_ledger_balanced [of demo_b2c_lib ?db "hd (bb_rewards ?db)"] by (simp add: Let_def)
qed

text \<open>C26: A sorting that confirms the declared pathway (reuse for charity, recycling of any other) keeps the credit of a donation
  that stands as it was created: at any later moment, whatever else has happened in the meantime, if its
  row and its items are those of the creation and the factors of its materials have not changed, the sorting is recorded, the
  correction is zero, and the donation, its items and every account keep their saved emissions. (A
  sorting in between as something else, or a changed factor, gives a correction.)\<close>

theorem confirmed_pathway_keeps_credit:
  assumes "b2c_reachable lib db" and "create_donation lib now i user payload uploaded db = (Inr d, db1)"
    and "b2c_reachable lib db2" and "d \<in> set (bb_donations db2)" and "items_of_donation i db2 = items_of_donation i db1"
    and "\<And>t. t \<in> set (items_of_donation i db1) \<Longrightarrow> material_co2 (it_material t) db2 = material_co2 (it_material t) db1"
  shows "\<exists>d' db3. record_disposition later i (JStr (if do_category d = ''charity'' then ''reuse'' else ''recycle'')) note_text db2
      = (Inr (d', Fin 0), db3)
    \<and> do_co2 d' = do_co2 d \<and> do_points d' = do_points d \<and> do_status d' = ''completed'' \<and> bb_items db3 = bb_items db2
    \<and> bb_points db3 = bb_points db2
    \<and> map (\<lambda>r. (rw_user r, rw_points r, rw_co2 r)) (bb_rewards db3) = map (\<lambda>r. (rw_user r, rw_points r, rw_co2 r)) (bb_rewards db2)"
proof -
  have ok: "ledger_ok db" "materials_ok db" and ok2: "ledger_ok db2" using b2c_reachable_ok assms(1,3) by simp_all
  let ?p = "pathway (do_category d)"
  obtain m where c: "do_id d = i" "do_co2 d = fourth m" "\<bar>m\<bar> < 10 ^ 12"
    "round_to (sum_nums (map (sorted_co2 ?p db1) (items_of_donation i db1))) = Fin (fl64 (fourth m))"
    "\<forall>t \<in> set (items_of_donation i db1). sort_item ?p i db1 t = Inr t"
    "amount_param 12 (Fin (fl64 (fourth m))) = Inr (do_co2 d)"
    by (rule created_again [OF ok assms(2)])
  have p: "optional_string (JStr (if do_category d = ''charity'' then ''reuse'' else ''recycle'')) = Some ?p" "?p \<in> set dispositions"
    by (simp_all add: pathway_def demo_texts dispositions_def)
  have same: "sorted_co2 ?p db2 t = sorted_co2 ?p db1 t" if "t \<in> set (items_of_donation i db1)" for t
    using assms(6) [OF that] by (simp add: sorted_co2_def)
  have saved: "round_to (sum_nums (map (sorted_co2 ?p db2) (items_of_donation i db2))) = Fin (fl64 (fourth m))"
    using c(4) same by (simp add: assms(5) cong: map_cong)
  have sorts: "traverse (sort_item ?p i db2) (bb_items db2) = Inr (bb_items db2)"
  proof (rule traverse_fixed)
    fix t assume t: "t \<in> set (bb_items db2)"
    show "sort_item ?p i db2 t = Inr t"
    proof (cases "it_donation t = i")
      case True
      with t have "t \<in> set (items_of_donation i db2)" by (simp add: items_of_donation_def)
      then have "t \<in> set (items_of_donation i db1)" by (simp only: assms(5))
      then have "sort_item ?p i db1 t = Inr t" and "sorted_co2 ?p db2 t = sorted_co2 ?p db1 t" using c(5) same by blast+
      then show ?thesis unfolding sort_item_def by (simp only:)
    qed (simp add: sort_item_def)
  qed
  have prev: "round_to (finite_or (num_of (do_co2 d)) (Fin 0)) = Fin (fl64 (fourth m))"
    unfolding c(2) by (rule round_to_double [OF c(3)])
  have delta: "round_to (Fin (fl64 (fourth m)) - Fin (fl64 (fourth m))) = Fin 0"
    using round_to_diff [of m m] c(3) by (simp add: fourth_add fl64.zero)
  obtain r where r: "select_one (\<lambda>r. rw_user r = do_user d) (bb_rewards db2) = Some r" "r \<in> set (bb_rewards db2)" "rw_user r = do_user d"
    "adjust_co2 (Fin 0) (rw_co2 r) = Inr (rw_co2 r)" "\<And>q. q \<in> set (bb_rewards db2) \<Longrightarrow> rw_user q = do_user d \<Longrightarrow> q = r"
    by (rule account_again [OF assms(3,4)]) blast
  note run = record_same [OF p row_again [OF ok2 assms(4) c(1)] prev saved delta sorts c(6) r(1,4) refl, of later note_text]
  show ?thesis unfolding run by (intro exI, rule conjI, rule refl) (auto simp: update_where_def dest: r(5))
qed

theorem confirmed_pathway_keeps_credit_witness:
  "\<exists>d' db3. record_disposition 9 ''d1'' (JStr ''reuse'') JNull (demo_donated\<lparr>bb_users := [''ann'', ''bob''], bb_materials := bb_materials demo_donated, bb_places := []\<rparr>)
     = (Inr (d', Fin 0), db3) \<and> do_co2 d' = 8 \<and> map rw_co2 (bb_rewards db3) = [8]"
proof -
  let ?db = "demo_donated\<lparr>bb_users := [''ann'', ''bob''], bb_materials := bb_materials demo_donated, bb_places := []\<rparr>"
  have later: "b2c_reachable demo_b2c_lib ?db"
    by (rule b2c_reachable.step [OF demo_reachable(2) b2c_step.outside]) (simp add: demo_donated_def demo_b2c_def)
  have "given_row \<in> set (bb_donations ?db)" "items_of_donation ''d1'' ?db = items_of_donation ''d1'' demo_donated"
    "material_co2 a ?db = material_co2 a demo_donated" for a
    by (simp_all add: demo_donated_def items_of_donation_def material_co2_def)
  from confirmed_pathway_keeps_credit [OF demo_reachable(1) demo_created later this(1,2), of 9 JNull] this(3)
  show ?thesis by (auto simp: given_row_def given_reward_def demo_donated_def)
qed

text \<open>C40: A collection point whose location is NULL is never reported as \<open>COLLECTION_POINT_LOCATION_MISSING\<close>: \<open>Number(null)\<close>
  is zero, so the point is taken to lie at latitude and longitude zero; and a check-in with null
  coordinates is valid and lies there too, so that it confirms the drop-off at once, at the current time.
  (Assumed of \<open>Math\<close>: sine and arcsine of zero and the square of zero are zero, the cosine of zero is one.)\<close>

theorem gps_without_location_confirms:
  assumes "mt_sin (bl_math lib) (Fin 0) = Fin 0" and "mt_cos (bl_math lib) (Fin 0) = Fin 1"
    and "mt_pow (bl_math lib) (Fin 0) (Fin 2) = Fin 0" and "bl_asin lib (Fin 0) = Fin 0"
    and "pt_lat p = None" and "pt_lng p = None"
    and "dr_method r = ''drop_off''" and "dr_place r = Some s" and "bl_uuid lib s = Some i"
    and "select_one (\<lambda>p. pt_id p = i) (bb_places db) = Some p" and "pt_active p"
    and "dr_gps r = gps_of (JObj [(''latitude'', JNull), (''longitude'', JNull)])"
  shows "(\<forall>g. checkin_status lib now p g \<noteq> Inl (b2c_error ''COLLECTION_POINT_LOCATION_MISSING'' 422))
    \<and> delivery_status lib now r db = Inr (''received'', Some now, Some ''gps'')"
proof
  have zero: "number_or_column None = Fin 0" by (simp add: number_or_column_def finite_or_def)
  show "\<forall>g. checkin_status lib now p g \<noteq> Inl (b2c_error ''COLLECTION_POINT_LOCATION_MISSING'' 422)"
    by (simp add: checkin_status_def Let_def assms(5,6) zero b2c_error_def sql_error_def split: option.split)
  have one: "num_of 1 = Fin 1" using num_of_small_int [of 1] by simp
  have "math_sqrt (Fin 0) = Fin 0" by code_simp
  then have "geo_distance lib (Fin 0) (Fin 0) (Fin 0) (Fin 0) = Fin 0"
    by (simp add: geo_distance_def haversine_def to_radians_def math_pi_def assms(1-4) num_simps divide_jnum_def num_of_numeral one del: math_sqrt.simps)
  then have far: "geo_distance lib (Fin 0) (Fin 0) (Fin 0) (Fin 0) \<le> max_gps_distance" using num_of_nonneg [of "2 / 10"]
    by (cases "num_of (2 / 10)") (simp_all add: max_gps_distance_def num_simps)
  have gps: "gps_of (JObj [(''latitude'', JNull), (''longitude'', JNull)]) = Some \<lparr>gp_lat = Fin 0, gp_lng = Fin 0, gp_checked = None\<rparr>"
    by (simp add: gps_of_def number_or_def finite_or_def demo_texts)
  show "delivery_status lib now r db = Inr (''received'', Some now, Some ''gps'')"
    unfolding delivery_status_def uuid_param_def checkin_status_def Let_def
    by (simp add: assms(5-12) zero gps far)
qed

theorem gps_without_location_confirms_witness:
  "delivery_status demo_b2c_lib 7
     \<lparr>dr_category = ''charity'', dr_method = ''drop_off'', dr_lines = [], dr_place = Some ''p1'', dr_tracking = None,
       dr_gps = gps_of (JObj [(''latitude'', JNull), (''longitude'', JNull)])\<rparr>
     (demo_b2c\<lparr>bb_places := [\<lparr>pt_id = ''p1'', pt_name = ''Depot'', pt_lat = None, pt_lng = None, pt_active = True\<rparr>]\<rparr>)
   = Inr (''received'', Some 7, Some ''gps'')"
  using gps_without_location_confirms [of demo_b2c_lib "\<lparr>pt_id = ''p1'', pt_name = ''Depot'', pt_lat = None, pt_lng = None, pt_active = True\<rparr>"
      "\<lparr>dr_category = ''charity'', dr_method = ''drop_off'', dr_lines = [], dr_place = Some ''p1'', dr_tracking = None,
       dr_gps = gps_of (JObj [(''latitude'', JNull), (''longitude'', JNull)])\<rparr>" "''p1''" "''p1''"
      "demo_b2c\<lparr>bb_places := [\<lparr>pt_id = ''p1'', pt_name = ''Depot'', pt_lat = None, pt_lng = None, pt_active = True\<rparr>]\<rparr>" 7]
  by (simp add: demo_b2c_lib_def num_simps num_of_0)

end
