(* ===== verification/Spec2Isabelle.thy ===== *)
theory Spec2Isabelle
  imports Carbon_Properties Job_Lifecycle Payments Sign_In_Properties Batch_Properties
    Shipment_Guarantees Donation_Properties
begin

text \<open>
  The WeaveCarbon backend: a verification development.

  The repository is an express server over PostgreSQL. A request passes the middleware and a route,
  and reaches a service; the services keep their state in tables and leave slow work (reports, audit
  bundles, evidence) to a table of jobs. The footprint of a textile product is computed by a core
  without effects. The development models the parts that decide what is right: the core, the job
  table and its queue, the accounts, companies and their members, the sign-in with its tokens and
  second factor, the middleware that grants or refuses a request, the plans and payments of a
  subscription, the batches of products that a company publishes and ships, the shipments that a
  simulated clock moves, and the donations of consumers.

  \<^bold>\<open>The language.\<close> \<open>Js_Value\<close>, \<open>Js_Number\<close>, \<open>Js_Rounding\<close>, \<open>Js_Text\<close>, \<open>Js_Json\<close> and \<open>Js_Date\<close> model what the
  source uses of JavaScript: values (\<open>jsval\<close>; an object is its list of own properties in insertion
  order), truthiness, \<open>Number\<close>, \<open>String\<close>, \<open>trim\<close>, \<open>parseInt\<close>, bracket access with the members of
  \<open>Object.prototype\<close>, \<open>JSON.stringify\<close>, the calendar of \<open>Date\<close>. A double is \<open>jnum\<close>: a rational, an
  infinity or NaN, and every operation rounds to 53 bits and to even. Overflow past the largest double
  gives an infinity, underflow is gradual, the sign of zero is not kept. An exception is the left
  of a sum, an undefined result is \<open>JUndef\<close>. Converting an object to text or a number throws when it has a property of its own
  named \<open>toString\<close> (\<open>coercible\<close>); the carbon core
  models this (\<open>js_string\<close>, \<open>js_number\<close>), the other services convert texts and numbers of the
  request with the total \<open>to_str\<close> and \<open>to_num\<close>. \<open>Prelude\<close> holds what all theories share.

  \<^bold>\<open>The carbon core\<close> (src/modules/carbon/core). \<open>Carbon_Units\<close>: units.js and normalization.js.
  \<open>Factors_V1\<close>: the shipped factors.v1.json. \<open>Carbon_Registry\<close>: factorRegistry.js, the checks made
  when it is loaded, aliases, fallbacks, its content hash. \<open>Carbon_Validation\<close>: validation.js.
  \<open>Carbon_Stage_Model\<close>, \<open>Carbon_Stages\<close>: stageModel.js and stages.js, with one step function per loop body.
  \<open>Carbon_Engine\<close>: aggregation.js, uncertainty.js, quality.js and engine.js. \<open>Carbon_Properties\<close> holds
  the theorems: every valid request whose names and units convert to text is calculated over the shipped
  registry (\<open>plain_request\<close> says which; the code throws on others), the books of the stages
  balance bit for bit, the amounts of all four stages and the intervals stay in their bounds, validation accepts,
  rejects or throws exactly as its declarative specification says, normalising twice is normalising once.

  \<^bold>\<open>Jobs\<close> (src/operations/jobRepository.js, src/modules/reports/jobQueue.js). \<open>Sql_Table\<close> is a table:
  a list of rows with select, update, delete and insert, and their laws. \<open>Job_Repository\<close> has one
  function per statement; the time is an argument, a skipped lock is a row that another claim took.
  \<open>Job_Queue\<close> runs handlers (a parameter) and is a step relation of any number of workers, with
  crashes, recovery and the clock. \<open>Job_Lifecycle\<close> proves the invariant of the table, the refinement
  of the life cycle automaton of one job, exclusive claims, order, idempotence and the attempt limit.

  \<^bold>\<open>Identity\<close> (src/modules/auth, src/modules/organizations). \<open>Accounts\<close>: the tables of users, profiles,
  roles, companies and memberships with the constraints of the schema, userRepository.js, the reading
  of an account, and the markets of a company (src/utils/companyMarkets.js,
  src/constants/targetMarkets.js). \<open>Provisioning\<close>: accountProvisioningService.js, signupService.js,
  verificationService.js, verificationRepository.js and sessionContextService.js. \<open>Company_Members\<close>:
  companyMembersService.js and companyMembersRepository.js. \<open>Identity_Properties\<close> runs them in any
  order: the tables keep their constraints, administrators stay, and what re-registration and a
  disabled member leave behind.

  \<^bold>\<open>Access\<close> (src/middleware). \<open>Access_Control\<close>: auth.js, tenantAccess.js and subscriptionAccess.js, one
  function from a request and the tables to a decision. \<open>Access_Properties\<close>: what a granted request
  implies, what an expired plan and a disabled member can no longer do. \<open>Sign_In\<close>:
  authSessionService.js over accounts, factors and refresh tokens, and the payloads of tokens.js.
  \<open>Sign_In_Properties\<close> runs sign-ins, refreshes, sign-outs and changes of factors and accounts in any
  order and shows end to end that no request of a user with a second factor passes without it. It
  rests on two assumptions by name: \<open>jwt_ok\<close> (the claims of a token are those signed) and \<open>unforged\<close> (a
  token that verifies was issued).

  \<^bold>\<open>Secrets and sessions\<close> (src/modules/auth). \<open>Refresh_Sessions\<close>: refreshTokenRepository.js and
  refreshSessionService.js, and the steps of sessions that open, rotate and end. \<open>Auth_Secrets\<close>: base32,
  one-time passwords and recovery codes of mfaService.js, and the password generator of tokens.js.
  \<open>Mfa\<close>: enrolment, confirmation, disabling and challenges of mfaService.js over its two tables.
  The base32 text of a secret is read back as its bytes. HMAC, scrypt, the cipher and the password check are the fields of \<open>mfa_lib\<close>; a claim that needs a
  law of one of them (the digest has twenty bytes, decryption inverts encryption) assumes it by name.

  \<^bold>\<open>Subscriptions\<close> (src/services/subscriptionService.js and its directory). \<open>Plan_Rules\<close>: planRules.js
  and helpers.js. \<open>Vnpay\<close>: vnpay.js, the payment gateway's signed messages and times; HMAC is a
  parameter. \<open>Subscription\<close>: the tables of companies, billing cycles, payment sessions and queued
  events, and the service's operations; a transaction that is rolled back returns the old state.
  \<open>Payments\<close>: the steps of purchases, polls and completions, with the theorems on settled sessions,
  on what a payment changes, on every step that changes a plan (a genuine payment, or a reading that
  finds it lapsed) and on reading a snapshot twice.

  \<^bold>\<open>Batches\<close> (src/modules/assessments/batchesService.js, src/services/domesticComplianceService.js).
  \<open>Js_Decimal\<close> proves that the shortest decimal JavaScript prints for a double reads back as the double;
  \<open>Sql_Numeric\<close> is what a \<open>NUMERIC\<close> column keeps of a number. \<open>Domestic_Compliance\<close>: the documents a
  market requires, their placeholders, their links to products and the validation before publication.
  \<open>Batches\<close>: every operation of the service over its tables; a transaction that fails returns the old
  tables. The trigonometric functions are the fields of \<open>math_lib\<close>, \<open>JSON.parse\<close> and the generated
  identifiers are arguments. \<open>Products\<close>: the removal of a product (src/modules/products/service.js), which
  takes its items and its cargo along, recomputes the batches and settles the shipments; the rest of the
  product life cycle is not modelled. \<open>Batch_Properties\<close> runs all of them in any order: totals are the sums of
  the items, published batches are documented, an archived batch ships twice.

  \<^bold>\<open>Shipments\<close> (src/services/logisticsService.js, src/services/shipmentSimulationService.js).
  \<open>Shipment_Clock\<close>: the settings, business hours, transit times, windows and statuses of simulated
  shipments; a date is its milliseconds, the loop of \<open>allocateBusinessHours\<close> a \<open>partial_function\<close>.
  \<open>Clock_Laws\<close>: rounding gives the first open hour, the loop ends and counts exactly the open hours.
  \<open>Shipments\<close>: the reading that moves a company's shipments, and every operation on shipments, legs and
  products; the time, the settings of the environment and the draws of \<open>Math.random\<close> are arguments.
  \<open>Shipment_Properties\<close>: each operation keeps the rows sound, and the steps of a run.
  \<open>Shipment_Guarantees\<close>: shipments move forward; for business hours that close before midnight windows
  are sound and a shipment that is due is delivered by the next reading of a company without demo data; and
  what surprises (a midnight closing, a departure at closing time, demo companies). The range of \<open>Date\<close>
  is not modelled, the session's time zone is UTC, and the writes of the product life cycle to
  shipments (\<open>Products\<close> has those of a removal) are not among the steps.

  \<^bold>\<open>Donations\<close> (src/services/b2cService.js and its helpers.js). \<open>Four_Decimals\<close>: \<open>roundTo\<close> over doubles and the
  columns of four decimals; below their precision sums and differences come out exact. \<open>Donations\<close>:
  the request, the points and savings of a donation, its stored rows, the sorting centre and the
  readings. \<open>Donation_Ledger\<close> runs donations, sortings, sign-ups and erased users in any order and shows
  that an account is the sum of its donations; \<open>Donation_Properties\<close> adds that confirming the pathway of a donation
  that stands as created keeps the credit, and what a missing location does. Rows of one creation time are listed in the order of
  insertion, which the code leaves open, and demo accounts, whose rows are written by a seeder, are
  not among the runs.

  \<^bold>\<open>Interfaces.\<close> The locales are the contracts the services rely on: \<open>Carbon_Properties\<close> proves the
  totality of the engine over any registry that has the fallbacks and interprets it on the shipped
  one; the queue drains any table of claimable jobs and rotation works over any store of sessions,
  both interpreted on the models of the repositories.

  \<^bold>\<open>Bounds and fuel.\<close> Decimal printing recurs on fuel, the number itself, which is more than its digits.
  The generated time steps are bounded where the source's own formats are: fourteen digit times for
  the years 1000 to 9999, one-time passwords up to the year 11000.

  \<^bold>\<open>Not modelled.\<close> Logging, metrics, HTTP, the connection pool and locking beyond the order of
  statements; the columns \<open>updated_at\<close> of the subscription tables and the set-up of their schema; token
  signing. Routes, validator chains, the OpenAPI document, PDF, spreadsheet and mail layout, prompts of
  language models and seed rows have no logic of their own. Sign-in with Google calls an identity
  provider. The memberships and passwords that \<open>Subscription\<close> and \<open>Mfa\<close> read are columns of their own
  there (\<open>sb_roles\<close>, \<open>mfa_passwords\<close>), views of the tables of \<open>Accounts\<close>. Planned next, in this order:
  allocation, the expiring cache, bulk import and the life cycle of products,
  evidence review, inventory totals, and the controls of export documents.
\<close>

end
